(* ===== verification/Py_Prelude.thy ===== *)
theory Py_Prelude
  imports Main "HOL-Library.AList"
begin

text \<open>
  The Python values, exceptions and library functions the components share.

  \<^item> \<open>pyval\<close> is what \<open>json.loads\<close> returns and what a \<open>dict[str, Any]\<close> holds. A dictionary
    keeps its insertion order (Python guarantees it and the code iterates over it): it is an
    association list, \<open>d[k] = v\<close> is \<open>AList.update\<close> (in place when the key is there, at the end
    otherwise), \<open>del d[k]\<close> and \<open>pop\<close> are \<open>AList.delete\<close>, \<open>k in d\<close> and \<open>d.get\<close> are \<open>map_of\<close>.
    Floating point numbers are left out: the modelled code only copies them.
  \<^item> \<open>pyexc\<close> names the exceptions the modelled code raises or lets through.
  \<^item> Strings are lists of ASCII characters; \<open>strip\<close>, \<open>lower\<close>, \<open>casefold\<close>, \<open>split\<close> and \<open>str\<close> are
    those of Python on ASCII.
\<close>

section \<open>Values and exceptions\<close>

datatype pyval =
    PNone
  | PBool bool
  | PInt int
  | PStr string
  | PList "pyval list"
  | PDict "(string \<times> pyval) list"

type_synonym pydict = "(string \<times> pyval) list"

datatype pyexc =
    TypeError string
  | ValueError string
  | KeyError string
  | AttributeError string
  | RuntimeError string
  | IntegrityError string
  | OSError string
  | JSONDecodeError string

type_synonym 'a result = "pyexc + 'a"

definition bindE :: "'e + 'a \<Rightarrow> ('a \<Rightarrow> 'e + 'b) \<Rightarrow> 'e + 'b" where
  "bindE r f = (case r of Inl e \<Rightarrow> Inl e | Inr x \<Rightarrow> f x)"

lemma bindE_simps [simp]:
  "bindE (Inl e) f = Inl e"
  "bindE (Inr x) f = f x"
  by (simp_all add: bindE_def)

lemma bindE_eq_Inr: "bindE r f = Inr y \<longleftrightarrow> (\<exists>x. r = Inr x \<and> f x = Inr y)"
  by (cases r) auto

text \<open>
  A stateful routine maps the state to a new state and a result: an exception keeps the changes
  made before it. \<open>bindP\<close> runs two routines in sequence.
\<close>

type_synonym ('s, 'a) prog = "'s \<Rightarrow> 's \<times> 'a result"

definition retP :: "'a \<Rightarrow> ('s, 'a) prog" where
  "retP x s = (s, Inr x)"

definition raiseP :: "pyexc \<Rightarrow> ('s, 'a) prog" where
  "raiseP e s = (s, Inl e)"

definition modP :: "('s \<Rightarrow> 's) \<Rightarrow> ('s, unit) prog" where
  "modP f s = (f s, Inr ())"

definition bindP :: "('s, 'a) prog \<Rightarrow> ('a \<Rightarrow> ('s, 'b) prog) \<Rightarrow> ('s, 'b) prog" where
  "bindP m f s = (case m s of (s', Inl e) \<Rightarrow> (s', Inl e) | (s', Inr x) \<Rightarrow> f x s')"

text \<open>\<open>for x in xs: m(x)\<close>: the loop stops at the first exception.\<close>

fun forP :: "('a \<Rightarrow> ('s, unit) prog) \<Rightarrow> 'a list \<Rightarrow> ('s, unit) prog" where
  "forP m [] s = (s, Inr ())"
| "forP m (x # xs) s = bindP (m x) (\<lambda>_. forP m xs) s"

lemma prog_simps [simp]:
  "retP x s = (s, Inr x)" "raiseP e s = (s, Inl e)" "modP f s = (f s, Inr ())"
  by (simp_all add: retP_def raiseP_def modP_def)

lemma bindP_simps [simp]:
  "m s = (s', Inl e) \<Longrightarrow> bindP m f s = (s', Inl e)"
  "m s = (s', Inr x) \<Longrightarrow> bindP m f s = f x s'"
  by (simp_all add: bindP_def)

text \<open>Truth value testing, \<open>a or b\<close>, and \<open>x or d\<close> for strings and optional strings.\<close>

fun truthy :: "pyval \<Rightarrow> bool" where
  "truthy PNone = False"
| "truthy (PBool b) = b"
| "truthy (PInt i) = (i \<noteq> 0)"
| "truthy (PStr s) = (s \<noteq> [])"
| "truthy (PList xs) = (xs \<noteq> [])"
| "truthy (PDict d) = (d \<noteq> [])"

definition py_or :: "pyval \<Rightarrow> pyval \<Rightarrow> pyval" where
  "py_or a b = (if truthy a then a else b)"

definition str_or :: "string \<Rightarrow> string \<Rightarrow> string" where
  "str_or a b = (if a \<noteq> [] then a else b)"

definition ostr_or :: "string option \<Rightarrow> string \<Rightarrow> string" where
  "ostr_or a b = (case a of None \<Rightarrow> b | Some s \<Rightarrow> str_or s b)"

lemma str_or_simps [simp]:
  "str_or [] b = b"
  "a \<noteq> [] \<Longrightarrow> str_or a b = a"
  "str_or a [] = a"
  "str_or a a = a"
  by (simp_all add: str_or_def)

lemma str_or_eq_Nil [simp]: "str_or a b = [] \<longleftrightarrow> a = [] \<and> b = []"
  by (simp add: str_or_def)

lemma ostr_or_simps [simp]:
  "ostr_or None b = b"
  "ostr_or (Some s) b = str_or s b"
  by (simp_all add: ostr_or_def)

definition the_or :: "'a option \<Rightarrow> 'a \<Rightarrow> 'a" where
  "the_or v d = (case v of None \<Rightarrow> d | Some x \<Rightarrow> x)"

lemma the_or_simps [simp]: "the_or None d = d" "the_or (Some x) d = x"
  by (simp_all add: the_or_def)

definition opt_str :: "string option \<Rightarrow> pyval" where
  "opt_str v = (case v of None \<Rightarrow> PNone | Some s \<Rightarrow> PStr s)"

definition opt_int :: "int option \<Rightarrow> pyval" where
  "opt_int v = (case v of None \<Rightarrow> PNone | Some i \<Rightarrow> PInt i)"

lemma forP_invariant:
  assumes "P s" "\<And>x s. x \<in> set xs \<Longrightarrow> P s \<Longrightarrow> P (fst (m x s))"
  shows "P (fst (forP m xs s))"
  using assms
proof (induction xs arbitrary: s)
  case (Cons x xs)
  have p: "P (fst (m x s))" using Cons.prems by simp
  show ?case
  proof (cases "m x s")
    case (Pair s' r)
    then show ?thesis
    proof (cases r)
      case (Inr u)
      then show ?thesis using Pair p Cons.IH [of s'] Cons.prems(2) by simp
    qed (use Pair p in simp)
  qed
qed simp

lemma bindP_Inr: "m s = (s', Inr x) \<Longrightarrow> f x s' = r \<Longrightarrow> bindP m f s = r"
  by simp

text \<open>
  Triples for routines: from a state in \<open>P\<close> the routine returns \<open>x\<close> in a state in \<open>Q x\<close> or raises in a
  state in \<open>E\<close>. The rules that follow the shape of a routine are in \<open>triples\<close>.
\<close>

definition triple :: "('s \<Rightarrow> bool) \<Rightarrow> ('s, 'a) prog \<Rightarrow> ('a \<Rightarrow> 's \<Rightarrow> bool) \<Rightarrow> ('s \<Rightarrow> bool) \<Rightarrow> bool" where
  "triple P m Q E \<longleftrightarrow>
     (\<forall>s s'. P s \<longrightarrow> (\<forall>e. m s = (s', Inl e) \<longrightarrow> E s') \<and> (\<forall>x. m s = (s', Inr x) \<longrightarrow> Q x s'))"

named_theorems triples

lemma tripleI:
  "(\<And>s s' e. P s \<Longrightarrow> m s = (s', Inl e) \<Longrightarrow> E s') \<Longrightarrow> (\<And>s s' x. P s \<Longrightarrow> m s = (s', Inr x) \<Longrightarrow> Q x s') \<Longrightarrow>
   triple P m Q E"
  unfolding triple_def by blast

lemma tripleD:
  assumes "triple P m Q E" and "P s"
  shows "m s = (s', Inl e) \<Longrightarrow> E s'" and "m s = (s', Inr x) \<Longrightarrow> Q x s'"
  using assms unfolding triple_def by blast+

lemma triple_bind [triples]:
  assumes "triple P m Q E" and "\<And>x. triple (Q x) (f x) R E"
  shows "triple P (bindP m f) R E"
proof (rule tripleI)
  fix s s' e
  assume p: "P s" and b: "bindP m f s = (s', Inl e)"
  obtain t r where m: "m s = (t, r)" by (cases "m s")
  show "E s'"
  proof (cases r)
    case (Inl e')
    then show ?thesis using b m tripleD(1) [OF assms(1) p] by simp
  next
    case (Inr x)
    then have "Q x t" "f x t = (s', Inl e)" using b m tripleD(2) [OF assms(1) p] by simp_all
    then show ?thesis using tripleD(1) [OF assms(2)] by blast
  qed
next
  fix s s' y
  assume p: "P s" and b: "bindP m f s = (s', Inr y)"
  obtain t x where m: "m s = (t, Inr x)" "f x t = (s', Inr y)"
    using b by (auto simp: bindP_def split: prod.splits sum.splits)
  then show "R y s'" using tripleD(2) [OF assms(1) p] tripleD(2) [OF assms(2)] by blast
qed

lemma triple_conseq:
  "triple P m Q E \<Longrightarrow> (\<And>s. P' s \<Longrightarrow> P s) \<Longrightarrow> (\<And>x s. Q x s \<Longrightarrow> Q' x s) \<Longrightarrow> (\<And>s. E s \<Longrightarrow> E' s) \<Longrightarrow>
   triple P' m Q' E'"
  unfolding triple_def by blast

lemma triple_ret [triples]: "(\<And>s. P s \<Longrightarrow> Q x s) \<Longrightarrow> triple P (retP x) Q E"
  by (simp add: triple_def)

lemma triple_raise [triples]: "(\<And>s. P s \<Longrightarrow> E s) \<Longrightarrow> triple P (raiseP e) Q E"
  by (simp add: triple_def)

lemma triple_mod [triples]: "(\<And>s. P s \<Longrightarrow> Q () (f s)) \<Longrightarrow> triple P (modP f) Q E"
  by (simp add: triple_def)

lemma triple_if [triples]:
  "(b \<Longrightarrow> triple P m Q E) \<Longrightarrow> (\<not> b \<Longrightarrow> triple P n Q E) \<Longrightarrow> triple P (if b then m else n) Q E"
  by simp

text \<open>A routine that keeps a condition, whether it returns or raises.\<close>

abbreviation keeps :: "('s \<Rightarrow> bool) \<Rightarrow> ('s, 'a) prog \<Rightarrow> bool" where
  "keeps P m \<equiv> triple P m (\<lambda>_. P) P"

lemma keeps_bind: "keeps P m \<Longrightarrow> (\<And>x. keeps P (f x)) \<Longrightarrow> keeps P (bindP m f)"
  by (rule triple_bind)

lemma keepsI: "(\<And>s. P s \<Longrightarrow> P (fst (m s))) \<Longrightarrow> keeps P m"
  by (rule tripleI) (metis fst_conv)+

lemma keepsD: "keeps P m \<Longrightarrow> P s \<Longrightarrow> P (fst (m s))"
  unfolding triple_def by (metis prod.collapse sum.exhaust)

section \<open>Dictionaries\<close>

text \<open>\<open>d.get(k)\<close> and \<open>d.get(k, default)\<close> on JSON dictionaries.\<close>

definition dget :: "pydict \<Rightarrow> string \<Rightarrow> pyval" where
  "dget d k = (case map_of d k of None \<Rightarrow> PNone | Some v \<Rightarrow> v)"

definition dget_or :: "pydict \<Rightarrow> string \<Rightarrow> pyval \<Rightarrow> pyval" where
  "dget_or d k v0 = (case map_of d k of None \<Rightarrow> v0 | Some v \<Rightarrow> v)"

text \<open>\<open>d.update(e)\<close>, also \<open>{**d, **e}\<close>: the entries of \<open>e\<close> are stored in their order.\<close>

definition dupdate :: "('k \<times> 'v) list \<Rightarrow> ('k \<times> 'v) list \<Rightarrow> ('k \<times> 'v) list" where
  "dupdate d e = fold (\<lambda>(k, v) acc. AList.update k v acc) e d"

definition as_dict :: "pyval \<Rightarrow> pydict" where
  "as_dict v = (case v of PDict d \<Rightarrow> d | _ \<Rightarrow> [])"

definition is_dict :: "pyval \<Rightarrow> bool" where
  "is_dict v = (case v of PDict d \<Rightarrow> True | _ \<Rightarrow> False)"

lemma is_dict_simps [simp]:
  "is_dict (PDict d)" "\<not> is_dict PNone" "\<not> is_dict (PBool b)" "\<not> is_dict (PInt i)"
  "\<not> is_dict (PStr s)" "\<not> is_dict (PList xs)"
  by (simp_all add: is_dict_def)

lemma as_dict_simps [simp]:
  "as_dict (PDict d) = d" "as_dict PNone = []" "as_dict (PBool b) = []" "as_dict (PInt i) = []"
  "as_dict (PStr s) = []" "as_dict (PList xs) = []"
  by (simp_all add: as_dict_def)

lemma map_of_alist_update [simp]:
  "map_of (AList.update k v al) = (map_of al)(k \<mapsto> v)"
  by (simp add: update_conv')

lemma map_of_alist_delete [simp]:
  "map_of (AList.delete k al) = (map_of al)(k := None)"
  by (simp add: delete_conv')

lemma distinct_keys_update [simp]:
  "distinct (map fst al) \<Longrightarrow> distinct (map fst (AList.update k v al))"
  by (rule distinct_update)

lemma distinct_keys_delete [simp]:
  "distinct (map fst al) \<Longrightarrow> distinct (map fst (AList.delete k al))"
  by (rule distinct_delete)

lemma distinct_keys_dupdate [simp]:
  "distinct (map fst d) \<Longrightarrow> distinct (map fst (dupdate d e))"
  unfolding dupdate_def
  by (induction e arbitrary: d) (auto simp: case_prod_unfold)

lemma dupdate_Nil [simp]: "dupdate d [] = d"
  by (simp add: dupdate_def)

lemma dupdate_Cons: "dupdate d ((k, v) # e) = dupdate (AList.update k v d) e"
  by (simp add: dupdate_def)

lemma set_alist_update_subset: "set (AList.update k v al) \<subseteq> insert (k, v) (set al)"
  by (induction al) auto

lemma map_of_dupdate:
  "map_of (dupdate d e) k = (case map_of (rev e) k of None \<Rightarrow> map_of d k | Some v \<Rightarrow> Some v)"
proof (induction e rule: rev_induct)
  case Nil
  then show ?case by simp
next
  case (snoc x e)
  obtain k' v where x: "x = (k', v)" by (cases x)
  have "dupdate d (e @ [x]) = AList.update k' v (dupdate d e)"
    by (simp add: dupdate_def x)
  then show ?case using snoc by (simp add: x)
qed

lemma map_of_filter_distinct:
  "distinct (map fst al) \<Longrightarrow>
   map_of (filter (\<lambda>(k, v). P k v) al) k =
     (case map_of al k of None \<Rightarrow> None | Some v \<Rightarrow> if P k v then Some v else None)"
proof (induction al)
  case Nil
  then show ?case by simp
next
  case (Cons x al)
  obtain k' v' where x: "x = (k', v')" by (cases x)
  have "k' \<notin> fst ` set al" using Cons.prems x by simp
  then have "map_of al k' = None" by (simp add: map_of_eq_None_iff)
  then show ?case using Cons x by (auto split: option.splits)
qed

lemma dget_simps [simp]:
  "dget [] k = PNone"
  "dget ((k', v) # d) k = (if k = k' then v else dget d k)"
  by (simp_all add: dget_def)

lemma dget_update [simp]: "dget (AList.update k v d) k' = (if k' = k then v else dget d k')"
  by (simp add: dget_def)

lemma dget_or_simps [simp]:
  "dget_or [] k v0 = v0"
  "dget_or ((k', v) # d) k v0 = (if k = k' then v else dget_or d k v0)"
  by (simp_all add: dget_or_def)

section \<open>Strings\<close>

definition is_space :: "char \<Rightarrow> bool" where
  "is_space c = (let n = of_char c :: nat in (9 \<le> n \<and> n \<le> 13) \<or> (28 \<le> n \<and> n \<le> 32))"

definition lstrip :: "string \<Rightarrow> string" where
  "lstrip s = dropWhile is_space s"

definition rstrip :: "string \<Rightarrow> string" where
  "rstrip s = rev (dropWhile is_space (rev s))"

definition strip :: "string \<Rightarrow> string" where
  "strip s = rstrip (lstrip s)"

definition rstrip_char :: "char \<Rightarrow> string \<Rightarrow> string" where
  "rstrip_char c s = rev (dropWhile (\<lambda>x. x = c) (rev s))"

definition lower_char :: "char \<Rightarrow> char" where
  "lower_char c = (let n = of_char c :: nat in if 65 \<le> n \<and> n \<le> 90 then char_of (n + 32) else c)"

definition lower :: "string \<Rightarrow> string" where
  "lower s = map lower_char s"

text \<open>On ASCII, \<open>str.casefold\<close> is \<open>str.lower\<close>.\<close>

abbreviation casefold :: "string \<Rightarrow> string" where
  "casefold s \<equiv> lower s"

definition starts_with :: "string \<Rightarrow> string \<Rightarrow> bool" where
  "starts_with p s = (take (length p) s = p)"

definition ends_with :: "string \<Rightarrow> string \<Rightarrow> bool" where
  "ends_with p s = (length p \<le> length s \<and> drop (length s - length p) s = p)"

text \<open>\<open>s.split(c)\<close> and \<open>s.split(c, 1)[0]\<close>.\<close>

fun split_on :: "char \<Rightarrow> string \<Rightarrow> string list" where
  "split_on c [] = [[]]"
| "split_on c (x # xs) =
     (if x = c then [] # split_on c xs
      else (case split_on c xs of [] \<Rightarrow> [[x]] | p # ps \<Rightarrow> (x # p) # ps))"

definition before_first :: "char \<Rightarrow> string \<Rightarrow> string" where
  "before_first c s = takeWhile (\<lambda>x. x \<noteq> c) s"

lemma dropWhile_hd: "dropWhile P xs \<noteq> [] \<Longrightarrow> \<not> P (hd (dropWhile P xs))"
  by (induction xs) auto

lemma dropWhile_idem [simp]: "dropWhile P (dropWhile P xs) = dropWhile P xs"
  by (induction xs) auto

lemma strip_alt:
  "strip s = s \<longleftrightarrow> s = [] \<or> (\<not> is_space (hd s) \<and> \<not> is_space (last s))"
proof
  assume a: "strip s = s"
  show "s = [] \<or> (\<not> is_space (hd s) \<and> \<not> is_space (last s))"
  proof (cases "s = []")
    case False
    have len: "length (dropWhile is_space s) = length s"
    proof -
      have "length (strip s) \<le> length (dropWhile is_space s)"
        unfolding strip_def rstrip_def lstrip_def
        by (metis length_dropWhile_le length_rev)
      then show ?thesis using a by (metis length_dropWhile_le order_antisym)
    qed
    then have l: "dropWhile is_space s = s"
      by (metis append_eq_conv_conj append_self_conv2 length_append
          add_cancel_left_left length_0_conv takeWhile_dropWhile_id)
    then have h: "\<not> is_space (hd s)" using False by (metis dropWhile_hd)
    have "rev (dropWhile is_space (rev s)) = s"
      using a l by (simp add: strip_def rstrip_def lstrip_def)
    then have "dropWhile is_space (rev s) = rev s" by (metis rev_rev_ident)
    then have "\<not> is_space (hd (rev s))" using False by (metis dropWhile_hd rev_is_Nil_conv)
    then show ?thesis using h False by (simp add: hd_rev)
  qed simp
next
  assume "s = [] \<or> (\<not> is_space (hd s) \<and> \<not> is_space (last s))"
  then show "strip s = s"
  proof
    assume "s = []"
    then show ?thesis by (simp add: strip_def rstrip_def lstrip_def)
  next
    assume h: "\<not> is_space (hd s) \<and> \<not> is_space (last s)"
    then have "dropWhile is_space s = s" "dropWhile is_space (rev s) = rev s"
      by (auto simp: dropWhile_eq_self_iff hd_rev)
    then show ?thesis by (simp add: strip_def rstrip_def lstrip_def)
  qed
qed

lemma strip_idem [simp]: "strip (strip s) = strip s"
proof -
  let ?t = "dropWhile is_space s"
  have "strip s = [] \<or> (\<not> is_space (hd (strip s)) \<and> \<not> is_space (last (strip s)))"
  proof (cases "strip s = []")
    case False
    then have ne: "dropWhile is_space (rev ?t) \<noteq> []"
      by (simp add: strip_def rstrip_def lstrip_def)
    then have 1: "\<not> is_space (last (strip s))"
      using dropWhile_hd [OF ne] by (simp add: strip_def rstrip_def lstrip_def last_rev)
    have "?t = strip s @ rev (takeWhile is_space (rev ?t))"
      unfolding strip_def rstrip_def lstrip_def
      by (metis rev_append rev_rev_ident takeWhile_dropWhile_id)
    then have "hd ?t = hd (strip s)" using False by (metis hd_append2)
    moreover have "?t \<noteq> []" using ne by (cases "?t = []") simp_all
    ultimately have 2: "\<not> is_space (hd (strip s))" by (metis dropWhile_hd)
    show ?thesis using 1 2 by simp
  qed simp
  then show ?thesis by (simp add: strip_alt)
qed

lemma strip_Nil [simp]: "strip [] = []"
  by (simp add: strip_def rstrip_def lstrip_def)

lemma of_char_lower_char:
  "(of_char (lower_char c) :: nat) =
     (let n = of_char c :: nat in if 65 \<le> n \<and> n \<le> 90 then n + 32 else n)"
  by (simp add: lower_char_def Let_def char_of_take_bit_eq take_bit_eq_mod)

lemma lower_char_idem [simp]: "lower_char (lower_char c) = lower_char c"
proof -
  have "\<not> (65 \<le> (of_char (lower_char c) :: nat) \<and> (of_char (lower_char c) :: nat) \<le> 90)"
    by (auto simp: of_char_lower_char Let_def)
  then show ?thesis
    unfolding lower_char_def [of "lower_char c"] Let_def by (rule if_not_P)
qed

lemma lower_idem [simp]: "lower (lower s) = lower s"
  by (simp add: lower_def comp_def)

lemma is_space_lower_char [simp]: "is_space (lower_char c) = is_space c"
  by (auto simp: is_space_def of_char_lower_char Let_def)

lemma strip_lower: "strip (lower s) = lower (strip s)"
  by (simp add: strip_def rstrip_def lstrip_def lower_def dropWhile_map rev_map
      comp_def)

lemma split_on_neq_Nil [simp]: "split_on c s \<noteq> []"
  by (induction s) (auto split: list.splits)

lemma split_on_no_sep: "c \<notin> set s \<Longrightarrow> split_on c s = [s]"
  by (induction s) auto

lemma split_on_append_sep:
  "c \<notin> set s \<Longrightarrow> split_on c (s @ c # t) = s # split_on c t"
  by (induction s) auto

section \<open>Conversion to text and to int\<close>

text \<open>\<open>str\<close> of an int, and \<open>repr\<close> of a string, as Python writes them for ASCII.\<close>

definition digit_char :: "nat \<Rightarrow> char" where
  "digit_char n = char_of (48 + n)"

fun nat_digits :: "nat \<Rightarrow> string" where
  "nat_digits n = (if n < 10 then [digit_char n] else nat_digits (n div 10) @ [digit_char (n mod 10)])"

declare nat_digits.simps [simp del]

definition str_int :: "int \<Rightarrow> string" where
  "str_int i = (if i < 0 then CHR ''-'' # nat_digits (nat (- i)) else nat_digits (nat i))"

definition hex_digit :: "nat \<Rightarrow> char" where
  "hex_digit n = (if n < 10 then char_of (48 + n) else char_of (87 + n))"

definition repr_char :: "char \<Rightarrow> char \<Rightarrow> string" where
  "repr_char q c =
     (let n = of_char c :: nat in
      if c = q \<or> n = 92 then [char_of (92::nat), c]
      else if n = 9 then [char_of (92::nat), CHR ''t'']
      else if n = 10 then [char_of (92::nat), CHR ''n'']
      else if n = 13 then [char_of (92::nat), CHR ''r'']
      else if n < 32 \<or> n = 127
        then [char_of (92::nat), CHR ''x'', hex_digit (n div 16), hex_digit (n mod 16)]
      else [c])"

definition quote_char :: char where "quote_char = char_of (39::nat)"

definition dquote_char :: char where "dquote_char = char_of (34::nat)"

definition repr_str :: "string \<Rightarrow> string" where
  "repr_str s =
     (let q = (if quote_char \<in> set s \<and> dquote_char \<notin> set s then dquote_char else quote_char)
      in [q] @ concat (map (repr_char q) s) @ [q])"

fun join :: "string \<Rightarrow> string list \<Rightarrow> string" where
  "join sep [] = []"
| "join sep [x] = x"
| "join sep (x # y # ys) = x @ sep @ join sep (y # ys)"

fun py_repr :: "pyval \<Rightarrow> string" where
  "py_repr PNone = ''None''"
| "py_repr (PBool b) = (if b then ''True'' else ''False'')"
| "py_repr (PInt i) = str_int i"
| "py_repr (PStr s) = repr_str s"
| "py_repr (PList xs) = ''['' @ join '', '' (map py_repr xs) @ '']''"
| "py_repr (PDict d) = ''{'' @ join '', '' (map (\<lambda>(k, v). repr_str k @ '': '' @ py_repr v) d) @ ''}''"

definition py_str :: "pyval \<Rightarrow> string" where
  "py_str v = (case v of PStr s \<Rightarrow> s | _ \<Rightarrow> py_repr v)"

lemma py_str_PStr [simp]: "py_str (PStr s) = s"
  by (simp add: py_str_def)

text \<open>\<open>str(exc)\<close>: a \<open>KeyError\<close> shows the representation of its key.\<close>

definition exc_message :: "pyexc \<Rightarrow> string" where
  "exc_message e =
     (case e of TypeError s \<Rightarrow> s | ValueError s \<Rightarrow> s | KeyError s \<Rightarrow> repr_str s
      | AttributeError s \<Rightarrow> s | RuntimeError s \<Rightarrow> s | IntegrityError s \<Rightarrow> s | OSError s \<Rightarrow> s
      | JSONDecodeError s \<Rightarrow> s)"

text \<open>
  \<open>str(value or "").strip()\<close> (helpers and policies) and \<open>_clean_string\<close>
  (\<open>"" if value is None else str(value).strip()\<close>).
\<close>

definition str_or_empty :: "pyval \<Rightarrow> string" where
  "str_or_empty v = strip (py_str (py_or v (PStr [])))"

lemma str_or_empty_PStr [simp]: "str_or_empty (PStr s) = strip s"
  by (simp add: str_or_empty_def py_or_def)

lemma str_or_empty_PNone [simp]: "str_or_empty PNone = []"
  by (simp add: str_or_empty_def py_or_def)

lemma strip_str_or_empty [simp]: "strip (str_or_empty v) = str_or_empty v"
  by (simp add: str_or_empty_def)

text \<open>\<open>int(x)\<close>: a string is stripped, may carry a sign, and may group digits with underscores.\<close>

definition digit_value :: "char \<Rightarrow> nat option" where
  "digit_value c = (let n = of_char c :: nat in if 48 \<le> n \<and> n \<le> 57 then Some (n - 48) else None)"

fun parse_digits :: "bool \<Rightarrow> int \<Rightarrow> string \<Rightarrow> int option" where
  "parse_digits after_digit acc [] = (if after_digit then Some acc else None)"
| "parse_digits after_digit acc (c # cs) =
     (case digit_value c of
        Some d \<Rightarrow> parse_digits True (10 * acc + int d) cs
      | None \<Rightarrow> if c = CHR ''_'' \<and> after_digit \<and> cs \<noteq> [] then parse_digits False acc cs else None)"

definition parse_int :: "string \<Rightarrow> int option" where
  "parse_int s =
     (case strip s of
        [] \<Rightarrow> None
      | c # cs \<Rightarrow>
          if c = CHR ''-'' then map_option uminus (parse_digits False 0 cs)
          else if c = CHR ''+'' then parse_digits False 0 cs
          else parse_digits False 0 (c # cs))"

definition py_int :: "pyval \<Rightarrow> int result" where
  "py_int v =
     (case v of
        PInt i \<Rightarrow> Inr i
      | PBool b \<Rightarrow> Inr (if b then 1 else 0)
      | PStr s \<Rightarrow> (case parse_int s of
                    Some i \<Rightarrow> Inr i
                  | None \<Rightarrow> Inl (ValueError ''invalid literal for int() with base 10''))
      | _ \<Rightarrow> Inl (TypeError ''int() argument must be a string or a real number''))"

text \<open>Equality with an integer constant: in Python \<open>False == 0\<close> and \<open>True == 1\<close>.\<close>

definition py_eq_int :: "pyval \<Rightarrow> int \<Rightarrow> bool" where
  "py_eq_int v n = (case v of PInt i \<Rightarrow> i = n | PBool b \<Rightarrow> (if b then 1 else 0) = n | _ \<Rightarrow> False)"

section \<open>Lists\<close>

text \<open>
  The loop that several components write out: skip empty values, keep the first of each
  group of values equal up to case.
\<close>

fun dedup_casefold :: "string list \<Rightarrow> string list \<Rightarrow> string list" where
  "dedup_casefold seen [] = []"
| "dedup_casefold seen (x # xs) =
     (if x = [] then dedup_casefold seen xs
      else if casefold x \<in> set seen then dedup_casefold seen xs
      else x # dedup_casefold (casefold x # seen) xs)"

lemma dedup_casefold_subset: "set (dedup_casefold seen xs) \<subseteq> set xs"
  by (induction seen xs rule: dedup_casefold.induct) auto

lemma dedup_casefold_nonempty: "x \<in> set (dedup_casefold seen xs) \<Longrightarrow> x \<noteq> []"
  by (induction seen xs rule: dedup_casefold.induct) (auto split: if_splits)

lemma dedup_casefold_unseen:
  "x \<in> set (dedup_casefold seen xs) \<Longrightarrow> casefold x \<notin> set seen"
  by (induction seen xs rule: dedup_casefold.induct) (auto split: if_splits)

lemma dedup_casefold_distinct: "distinct (map casefold (dedup_casefold seen xs))"
  by (induction seen xs rule: dedup_casefold.induct) (auto dest: dedup_casefold_unseen)

lemma dedup_casefold_complete:
  "x \<in> set xs \<Longrightarrow> x \<noteq> [] \<Longrightarrow>
   casefold x \<in> set seen \<or> casefold x \<in> casefold ` set (dedup_casefold seen xs)"
  by (induction seen xs rule: dedup_casefold.induct) auto

lemma dedup_casefold_id:
  "distinct (map casefold xs) \<Longrightarrow> [] \<notin> set xs \<Longrightarrow> set seen \<inter> casefold ` set xs = {} \<Longrightarrow>
   dedup_casefold seen xs = xs"
  by (induction seen xs rule: dedup_casefold.induct) auto

lemma dedup_casefold_idem [simp]:
  "dedup_casefold [] (dedup_casefold [] xs) = dedup_casefold [] xs"
  by (rule dedup_casefold_id) (auto simp: dedup_casefold_distinct dest: dedup_casefold_nonempty)

text \<open>\<open>max(xs, key=...)\<close>: the first maximal element.\<close>

fun max_by :: "('a \<Rightarrow> 'b::linorder) \<Rightarrow> 'a \<Rightarrow> 'a list \<Rightarrow> 'a" where
  "max_by f x [] = x"
| "max_by f x (y # ys) = (if f x < f y then max_by f y ys else max_by f x ys)"

lemma max_by_in: "max_by f x xs \<in> insert x (set xs)"
  by (induction f x xs rule: max_by.induct) auto

lemma max_by_ge: "y \<in> insert x (set xs) \<Longrightarrow> f y \<le> f (max_by f x xs)"
  by (induction f x xs arbitrary: y rule: max_by.induct) force+

text \<open>
  A table is the list of its rows in row-id order; \<open>UPDATE ... WHERE\<close> maps over it. \<open>ORDER BY\<close>
  is a stable sort: the order of ties, which SQL leaves open, is never used by a theorem.
\<close>

definition update_where :: "('r \<Rightarrow> bool) \<Rightarrow> ('r \<Rightarrow> 'r) \<Rightarrow> 'r list \<Rightarrow> 'r list" where
  "update_where p f rows = map (\<lambda>r. if p r then f r else r) rows"

definition order_desc :: "('r \<Rightarrow> int) \<Rightarrow> 'r list \<Rightarrow> 'r list" where
  "order_desc key rows = sort_key (\<lambda>r. - key r) rows"

definition limit :: "int \<Rightarrow> 'r list \<Rightarrow> 'r list" where
  "limit n rows = (if n < 0 then rows else take (nat n) rows)"

lemma length_update_where [simp]: "length (update_where p f rows) = length rows"
  by (simp add: update_where_def)

lemma update_where_append [simp]:
  "update_where p f (xs @ ys) = update_where p f xs @ update_where p f ys"
  by (simp add: update_where_def)

lemma update_where_Nil [simp]: "update_where p f [] = []"
  by (simp add: update_where_def)

lemma update_where_none: "(\<And>r. r \<in> set rows \<Longrightarrow> \<not> p r) \<Longrightarrow> update_where p f rows = rows"
  unfolding update_where_def by (rule map_idI) simp

lemma map_update_where [simp]:
  "(\<And>r. g (f r) = g r) \<Longrightarrow> map g (update_where p f rows) = map g rows"
  by (simp add: update_where_def)

lemma set_update_where: "set (update_where p f rows) = (\<lambda>r. if p r then f r else r) ` set rows"
  by (simp add: update_where_def)

lemma set_order_desc [simp]: "set (order_desc key rows) = set rows"
  by (simp add: order_desc_def)

lemma set_limit_subset: "set (limit n rows) \<subseteq> set rows"
  by (auto simp: limit_def dest: in_set_takeD)

lemma find_update_where:
  assumes "\<And>r. p r \<Longrightarrow> p (f r)"
  shows "find p (update_where p f rows) = map_option f (find p rows)"
  using assms by (induction rows) (auto simp: update_where_def)

lemma find_update_where_other:
  assumes "\<And>r. q r \<Longrightarrow> \<not> p r" "\<And>r. p r \<Longrightarrow> \<not> q (f r)"
  shows "find q (update_where p f rows) = find q rows"
  using assms by (induction rows) (auto simp: update_where_def)

lemma find_append:
  "find p (xs @ ys) = (case find p xs of None \<Rightarrow> find p ys | Some x \<Rightarrow> Some x)"
  by (induction xs) auto

lemma find_eq_Some_in: "find p xs = Some x \<Longrightarrow> x \<in> set xs \<and> p x"
  by (induction xs) (auto split: if_splits)

lemma find_eq_None_iff: "find p xs = None \<longleftrightarrow> (\<forall>x\<in>set xs. \<not> p x)"
  by (induction xs) auto

end
