(* ===== verification/Telemetry.thy ===== *)
theory Telemetry
  imports Py_Prelude Complex_Main
begin

text \<open>
  The storage of process metrics and process events (\<open>persistence/telemetry_db.py\<close>): the ring buffer
  of samples, its aggregation into rows of a minute, the tables \<open>metrics\<close> and \<open>events\<close>, the background
  tasks that insert events, and the queries. A sample keeps the values of the heartbeat as they are;
  an average is the exact quotient where the code has a floating point number. A table is what the
  connection sees; a table keyed \<open>WITHOUT ROWID\<close> is read in the order of its key. Only the hourly
  table is left out: the aggregation of old minutes and the queries over more than a day.
\<close>

section \<open>Samples\<close>

record sample =
  sm_ts :: int
  sm_cpu :: pyval
  sm_mem_ws :: pyval
  sm_mem_pb :: pyval
  sm_handles :: pyval
  sm_io_read :: pyval
  sm_io_write :: pyval
  sm_exe :: pyval
  sm_session :: pyval

type_synonym ring = "((string \<times> int) \<times> sample list) list"

record metric_row =
  mt_ts :: int
  mt_agent :: string
  mt_session :: pyval
  mt_pid :: int
  mt_exe :: pyval
  mt_cpu_avg :: rat
  mt_cpu_max :: rat
  mt_mem_ws :: pyval
  mt_mem_pb :: pyval
  mt_handles :: pyval
  mt_io_read :: rat
  mt_io_write :: rat

record event_row =
  ev_id :: nat
  ev_ts :: int
  ev_agent :: string
  ev_session :: pyval
  ev_pid :: int
  ev_type :: string
  ev_exe :: pyval
  ev_detail :: "string option"

text \<open>The arguments of a scheduled \<open>record_event\<close>.\<close>

record event_args =
  ea_agent :: string
  ea_type :: string
  ea_session :: pyval
  ea_pid :: int
  ea_exe :: pyval
  ea_detail :: "string option"

record telemetry =
  te_open :: bool
  te_ring :: ring
  te_metrics :: "metric_row list"
  te_events :: "event_row list"
  te_event_seq :: nat
  te_scheduled :: "event_args list"

definition telemetry_init :: telemetry where
  "telemetry_init = \<lparr>te_open = False, te_ring = [], te_metrics = [], te_events = [], te_event_seq = 0,
     te_scheduled = []\<rparr>"

section \<open>The ring buffer\<close>

definition push :: "string \<Rightarrow> int \<Rightarrow> sample \<Rightarrow> ring \<Rightarrow> ring" where
  "push agent_id pid s r =
     AList.update (agent_id, pid) (the_or (map_of r (agent_id, pid)) [] @ [s]) r"

text \<open>\<open>value or 0\<close>, and the fields of a process description.\<close>

definition or_zero :: "pyval \<Rightarrow> pyval" where
  "or_zero v = py_or v (PInt 0)"

definition sample_of :: "int \<Rightarrow> pyval \<Rightarrow> pydict \<Rightarrow> sample" where
  "sample_of now session_id pdata =
     (let mem = dget_or pdata ''memory_usage'' (PDict []);
          io = dget_or pdata ''io_counters'' (PDict [])
      in \<lparr>sm_ts = now,
          sm_cpu = or_zero (dget_or pdata ''cpu_usage'' (PInt 0)),
          sm_mem_ws = or_zero (dget_or (as_dict mem) ''working_set_size'' (PInt 0)),
          sm_mem_pb = or_zero (dget_or (as_dict mem) ''private_bytes'' (PInt 0)),
          sm_handles = or_zero (dget_or pdata ''handle_count'' (PInt 0)),
          sm_io_read = or_zero (dget_or (as_dict io) ''read_bps'' (PInt 0)),
          sm_io_write = or_zero (dget_or (as_dict io) ''write_bps'' (PInt 0)),
          sm_exe = dget_or pdata ''exe'' (PStr ''unknown''),
          sm_session = session_id\<rparr>)"

definition ingest_process :: "string \<Rightarrow> int \<Rightarrow> pyval \<Rightarrow> string \<times> pyval \<Rightarrow> (ring, unit) prog" where
  "ingest_process agent_id now session_id p r =
     (case snd p of
        PDict pdata \<Rightarrow>
          (case parse_int (fst p) of
             None \<Rightarrow> (r, Inl (ValueError ''invalid literal for int()''))
           | Some pid \<Rightarrow> (push agent_id pid (sample_of now session_id pdata) r, Inr ()))
      | _ \<Rightarrow> (r, Inr ()))"

definition ingest_session :: "string \<Rightarrow> int \<Rightarrow> string \<times> pyval \<Rightarrow> (ring, unit) prog" where
  "ingest_session agent_id now e r =
     (if starts_with ''__'' (fst e) then (r, Inr ())
      else
        (case snd e of
           PDict data \<Rightarrow>
             (case dget_or data ''processes'' (PDict []) of
                PDict ps \<Rightarrow> forP (ingest_process agent_id now (dget_or data ''session_id'' (PInt 0))) ps r
              | _ \<Rightarrow> (r, Inl (AttributeError ''items'')))
         | _ \<Rightarrow> (r, Inr ())))"

definition ingest_heartbeat :: "int \<Rightarrow> string \<Rightarrow> pydict \<Rightarrow> (telemetry, unit) prog" where
  "ingest_heartbeat now agent_id status t =
     (let (r, res) = forP (ingest_session agent_id now) status (te_ring t)
      in (t\<lparr>te_ring := r\<rparr>, res))"

definition evict_old :: "int \<Rightarrow> int \<Rightarrow> ring \<Rightarrow> ring" where
  "evict_old max_age now r =
     filter (\<lambda>(k, ss). ss \<noteq> [])
       (map (\<lambda>(k, ss). (k, filter (\<lambda>s. sm_ts s \<ge> now - max_age) ss)) r)"

section \<open>Aggregation\<close>

text \<open>\<open>sum\<close> adds numbers only.\<close>

definition number :: "pyval \<Rightarrow> rat result" where
  "number v =
     (case v of
        PInt i \<Rightarrow> Inr (of_int i)
      | PBool b \<Rightarrow> Inr (if b then 1 else 0)
      | _ \<Rightarrow> Inl (TypeError ''unsupported operand type(s) for +''))"

fun numbers :: "pyval list \<Rightarrow> rat list result" where
  "numbers [] = Inr []"
| "numbers (v # vs) = bindE (number v) (\<lambda>x. bindE (numbers vs) (\<lambda>xs. Inr (x # xs)))"

definition average :: "rat list \<Rightarrow> rat" where
  "average xs = sum_list xs / of_nat (length xs)"

definition minute_of :: "int \<Rightarrow> int" where
  "minute_of now = now div 60 * 60"

definition aggregate :: "int \<Rightarrow> (string \<times> int) \<times> sample list \<Rightarrow> metric_row result" where
  "aggregate ts e =
     (let ss = snd e; s = last ss in
      bindE (numbers (map sm_cpu ss)) (\<lambda>cpu.
      bindE (numbers (map sm_io_read ss)) (\<lambda>rd.
      bindE (numbers (map sm_io_write ss)) (\<lambda>wr.
        Inr \<lparr>mt_ts = ts, mt_agent = fst (fst e), mt_session = sm_session s, mt_pid = snd (fst e),
             mt_exe = sm_exe s, mt_cpu_avg = average cpu, mt_cpu_max = Max (set cpu),
             mt_mem_ws = sm_mem_ws s, mt_mem_pb = sm_mem_pb s, mt_handles = sm_handles s,
             mt_io_read = average rd, mt_io_write = average wr\<rparr>))))"

fun aggregate_all :: "int \<Rightarrow> ring \<Rightarrow> metric_row list result" where
  "aggregate_all ts [] = Inr []"
| "aggregate_all ts (e # es) =
     (if snd e = [] then aggregate_all ts es
      else bindE (aggregate ts e) (\<lambda>row. bindE (aggregate_all ts es) (\<lambda>rows. Inr (row # rows))))"

text \<open>The buffer is swapped before the aggregation, which may fail.\<close>

definition ring_flush :: "int \<Rightarrow> (ring, metric_row list) prog" where
  "ring_flush now r = ([], aggregate_all (minute_of now) r)"

section \<open>Tables\<close>

definition metric_key :: "metric_row \<Rightarrow> int \<times> string \<times> int" where
  "metric_key m = (mt_ts m, mt_agent m, mt_pid m)"

text \<open>
  A parameter of a statement is not a list or an object and fits 64 bits; \<open>INSERT OR REPLACE\<close>, row by
  row, stops at the first row that cannot be bound.
\<close>

definition bindable :: "pyval \<Rightarrow> bool" where
  "bindable v = (case v of PList _ \<Rightarrow> False | PDict _ \<Rightarrow> False
     | PInt i \<Rightarrow> - (2 ^ 63) \<le> i \<and> i < 2 ^ 63 | _ \<Rightarrow> True)"

definition metric_bindable :: "metric_row \<Rightarrow> bool" where
  "metric_bindable m \<longleftrightarrow> list_all bindable
     [PInt (mt_ts m), mt_session m, PInt (mt_pid m), mt_exe m, mt_mem_ws m, mt_mem_pb m, mt_handles m]"

definition replace_metric :: "metric_row \<Rightarrow> metric_row list \<Rightarrow> metric_row list" where
  "replace_metric row rows = filter (\<lambda>m. metric_key m \<noteq> metric_key row) rows @ [row]"

fun insert_metrics :: "metric_row list \<Rightarrow> (metric_row list, unit) prog" where
  "insert_metrics [] rows = (rows, Inr ())"
| "insert_metrics (m # ms) rows =
     (if metric_bindable m then insert_metrics ms (replace_metric m rows)
      else (rows, Inl (RuntimeError ''Error binding parameter'')))"

definition flush_to_db :: "int \<Rightarrow> (telemetry, unit) prog" where
  "flush_to_db now t =
     (let (r, res) = ring_flush now (te_ring t); t1 = t\<lparr>te_ring := r\<rparr> in
      case res of
        Inl e \<Rightarrow> (t1, Inl e)
      | Inr rows \<Rightarrow>
          if rows = [] \<or> \<not> te_open t then (t1, Inr ())
          else (let (ms, r2) = insert_metrics rows (te_metrics t) in (t1\<lparr>te_metrics := ms\<rparr>, r2)))"

definition METRICS_RETENTION_DAYS :: int where "METRICS_RETENTION_DAYS = 7"

text \<open>The deletion of old minutes by \<open>_cleanup_old\<close>, and one round of \<open>_flush_loop\<close>.\<close>

definition delete_old_metrics :: "int \<Rightarrow> telemetry \<Rightarrow> telemetry" where
  "delete_old_metrics now t =
     t\<lparr>te_metrics := filter (\<lambda>m. \<not> mt_ts m < now - METRICS_RETENTION_DAYS * 86400) (te_metrics t)\<rparr>"

definition flush_round :: "int \<Rightarrow> telemetry \<Rightarrow> telemetry" where
  "flush_round now t =
     (case flush_to_db now t of
        (t1, Inl _) \<Rightarrow> t1
      | (t1, Inr _) \<Rightarrow> delete_old_metrics now t1)"

definition record_event :: "int \<Rightarrow> event_args \<Rightarrow> telemetry \<Rightarrow> telemetry" where
  "record_event now a t =
     (if \<not> te_open t \<or> \<not> list_all bindable [PInt now, ea_session a, PInt (ea_pid a), ea_exe a] then t
      else t\<lparr>te_event_seq := Suc (te_event_seq t),
             te_events := te_events t @
               [\<lparr>ev_id = Suc (te_event_seq t), ev_ts = now, ev_agent = ea_agent a,
                 ev_session = ea_session a, ev_pid = ea_pid a, ev_type = ea_type a,
                 ev_exe = ea_exe a, ev_detail = ea_detail a\<rparr>]\<rparr>)"

text \<open>\<open>asyncio.create_task(record_event(...))\<close>, and the later run of the oldest such task.\<close>

definition schedule_event :: "event_args \<Rightarrow> telemetry \<Rightarrow> telemetry" where
  "schedule_event a t = t\<lparr>te_scheduled := te_scheduled t @ [a]\<rparr>"

definition run_scheduled_event :: "int \<Rightarrow> telemetry \<Rightarrow> telemetry" where
  "run_scheduled_event now t =
     (case te_scheduled t of
        [] \<Rightarrow> t
      | a # rest \<Rightarrow> record_event now a (t\<lparr>te_scheduled := rest\<rparr>))"

text \<open>The background loop is cancelled, the rest of the buffer is written, the connection closed.\<close>

definition telemetry_start :: "telemetry \<Rightarrow> telemetry" where
  "telemetry_start t = t\<lparr>te_open := True\<rparr>"

definition telemetry_stop :: "int \<Rightarrow> (telemetry, unit) prog" where
  "telemetry_stop now = bindP (flush_to_db now) (\<lambda>_. modP (\<lambda>t. t\<lparr>te_open := False\<rparr>))"

section \<open>Queries\<close>

text \<open>\<open>value or default\<close> for an optional number: 0 counts as absent.\<close>

definition int_or :: "int option \<Rightarrow> int \<Rightarrow> int" where
  "int_or v d = (case v of None \<Rightarrow> d | Some n \<Rightarrow> if n = 0 then d else n)"

definition get_events ::
    "string option \<Rightarrow> string option \<Rightarrow> int option \<Rightarrow> int option \<Rightarrow> int \<Rightarrow> telemetry \<Rightarrow> event_row list" where
  "get_events agent_id event_type from_ts to_ts n t =
     (if \<not> te_open t then []
      else limit n (order_desc ev_ts (filter (\<lambda>e.
        (ostr_or agent_id [] = [] \<or> agent_id = Some (ev_agent e)) \<and>
        (ostr_or event_type [] = [] \<or> event_type = Some (ev_type e)) \<and>
        (int_or from_ts 0 = 0 \<or> ev_ts e \<ge> int_or from_ts 0) \<and>
        (int_or to_ts 0 = 0 \<or> ev_ts e \<le> int_or to_ts 0)) (te_events t))))"

text \<open>\<open>None\<close> where the query goes to the hourly table.\<close>

definition get_metrics ::
    "int \<Rightarrow> string \<Rightarrow> int option \<Rightarrow> int option \<Rightarrow> int option \<Rightarrow> int \<Rightarrow> telemetry \<Rightarrow> metric_row list option"
  where
  "get_metrics now agent_id pid from_ts to_ts n t =
     (if \<not> te_open t then Some []
      else
        (let from_t = int_or from_ts (now - 3600); to_t = int_or to_ts now in
         if to_t - from_t > 86400 then None
         else Some (limit n (sort_key mt_ts (sort_key mt_pid (filter (\<lambda>m. mt_agent m = agent_id \<and>
                from_t \<le> mt_ts m \<and> mt_ts m \<le> to_t \<and>
                (int_or pid 0 = 0 \<or> mt_pid m = int_or pid 0)) (te_metrics t)))))))"

section \<open>Invariant\<close>

definition telemetry_ok :: "telemetry \<Rightarrow> bool" where
  "telemetry_ok t \<longleftrightarrow>
     distinct (map fst (te_ring t)) \<and> list_all (\<lambda>(_, ss). ss \<noteq> []) (te_ring t) \<and>
     distinct (map metric_key (te_metrics t)) \<and>
     map ev_id (te_events t) = [1..<Suc (te_event_seq t)]"

definition ring_ok :: "ring \<Rightarrow> bool" where
  "ring_ok r \<longleftrightarrow> distinct (map fst r) \<and> list_all (\<lambda>(_, ss). ss \<noteq> []) r"

lemma telemetry_ok_init [simp]: "telemetry_ok telemetry_init"
  by (simp add: telemetry_ok_def telemetry_init_def)

lemma ring_ok_push: "ring_ok r \<Longrightarrow> ring_ok (push a pid s r)"
proof -
  have "list_all (\<lambda>(_, ss). ss \<noteq> []) r \<Longrightarrow> xs \<noteq> [] \<Longrightarrow> list_all (\<lambda>(_, ss). ss \<noteq> []) (AList.update k xs r)"
    for k and xs :: "sample list"
    by (induction r) auto
  then show "ring_ok r \<Longrightarrow> ?thesis" by (simp add: ring_ok_def push_def)
qed

lemma ring_ok_ingest_process: "ring_ok r \<Longrightarrow> ring_ok (fst (ingest_process a now sid p r))"
  by (auto simp: ingest_process_def intro!: ring_ok_push split: pyval.splits option.splits)

lemma ring_ok_ingest_session: "ring_ok r \<Longrightarrow> ring_ok (fst (ingest_session a now e r))"
  by (auto simp: ingest_session_def intro!: forP_invariant [where P = ring_ok] ring_ok_ingest_process
      split: pyval.splits)

lemma ring_ok_ingest: "ring_ok r \<Longrightarrow> ring_ok (fst (forP (ingest_session a now) st r))"
  by (rule forP_invariant [where P = ring_ok]) (simp_all add: ring_ok_ingest_session)

lemma telemetry_ok_ring: "telemetry_ok t \<Longrightarrow> ring_ok r \<Longrightarrow> telemetry_ok (t\<lparr>te_ring := r\<rparr>)"
  by (simp add: telemetry_ok_def ring_ok_def)

lemma ring_ok_telemetry: "telemetry_ok t \<Longrightarrow> ring_ok (te_ring t)"
  by (simp add: telemetry_ok_def ring_ok_def)

lemma telemetry_ok_ingest: "telemetry_ok t \<Longrightarrow> telemetry_ok (fst (ingest_heartbeat now a st t))"
  by (auto simp: ingest_heartbeat_def Let_def split_beta
      intro!: telemetry_ok_ring ring_ok_ingest ring_ok_telemetry)

lemma distinct_replace_metric:
  "distinct (map metric_key rows) \<Longrightarrow> distinct (map metric_key (replace_metric m rows))"
  by (auto simp: replace_metric_def distinct_map_filter)

lemma distinct_insert_metrics:
  "distinct (map metric_key rows) \<Longrightarrow> distinct (map metric_key (fst (insert_metrics ms rows)))"
  by (induction ms rows rule: insert_metrics.induct) (auto simp: distinct_replace_metric)

lemma telemetry_ok_flush: "telemetry_ok t \<Longrightarrow> telemetry_ok (fst (flush_to_db now t))"
  using distinct_insert_metrics [of "te_metrics t"]
  by (auto simp: flush_to_db_def ring_flush_def telemetry_ok_def Let_def split_beta split: sum.splits)

lemma telemetry_ok_record: "telemetry_ok t \<Longrightarrow> telemetry_ok (record_event now a t)"
  by (auto simp: record_event_def telemetry_ok_def)

lemma telemetry_ok_delete: "telemetry_ok t \<Longrightarrow> telemetry_ok (delete_old_metrics now t)"
  by (auto simp: delete_old_metrics_def telemetry_ok_def distinct_map_filter)

lemma telemetry_ok_round: "telemetry_ok t \<Longrightarrow> telemetry_ok (flush_round now t)"
  using telemetry_ok_flush [of t now]
  by (cases "flush_to_db now t") (auto simp: flush_round_def telemetry_ok_delete split: sum.splits)

lemma telemetry_ok_schedule: "telemetry_ok t \<Longrightarrow> telemetry_ok (schedule_event a t)"
  by (simp add: schedule_event_def telemetry_ok_def)

lemma telemetry_ok_scheduled: "telemetry_ok t \<Longrightarrow> telemetry_ok (run_scheduled_event now t)"
  by (auto simp: run_scheduled_event_def telemetry_ok_def [of "t\<lparr>te_scheduled := _\<rparr>"]
      telemetry_ok_def [of t] intro!: telemetry_ok_record split: list.splits)

section \<open>Aggregation\<close>

lemma numbers_length: "numbers vs = Inr xs \<Longrightarrow> length xs = length vs"
  by (induction vs arbitrary: xs) (auto simp: bindE_eq_Inr)

lemma average_bounds:
  assumes "xs \<noteq> []"
  shows "Min (set xs) \<le> average xs" "average xs \<le> Max (set xs)"
proof -
  have n: "(0::rat) < of_nat (length xs)" using assms by simp
  have "sum_list xs \<le> of_nat (length xs) * M" if "\<And>x. x \<in> set xs \<Longrightarrow> x \<le> M" for M :: rat
    using that by (induction xs) (auto simp: algebra_simps add_mono)
  from this [of "Max (set xs)"] n show "average xs \<le> Max (set xs)"
    by (simp add: average_def divide_le_eq mult.commute)
  have "of_nat (length xs) * M \<le> sum_list xs" if "\<And>x. x \<in> set xs \<Longrightarrow> M \<le> x" for M :: rat
    using that by (induction xs) (auto simp: algebra_simps add_mono)
  from this [of "Min (set xs)"] n show "Min (set xs) \<le> average xs"
    by (simp add: average_def le_divide_eq mult.commute)
qed

lemma minute_of_bounds: "minute_of now \<le> now" "now < minute_of now + 60"
  by (simp_all add: minute_of_def)

lemma aggregate_row:
  assumes "aggregate ts (k, ss) = Inr m" "ss \<noteq> []"
  shows "metric_key m = (ts, k)" "mt_cpu_avg m \<le> mt_cpu_max m" "mt_mem_ws m = sm_mem_ws (last ss)"
proof -
  obtain cpu where c: "numbers (map sm_cpu ss) = Inr cpu" "mt_cpu_avg m = average cpu" "mt_cpu_max m = Max (set cpu)"
    using assms(1) by (auto simp: aggregate_def Let_def bindE_eq_Inr)
  have "cpu \<noteq> []" using numbers_length [OF c(1)] assms(2) by auto
  then show "mt_cpu_avg m \<le> mt_cpu_max m" using c average_bounds(2) by simp
  show "metric_key m = (ts, k)" "mt_mem_ws m = sm_mem_ws (last ss)"
    using assms(1) by (auto simp: aggregate_def Let_def bindE_eq_Inr metric_key_def)
qed

lemma aggregate_all_rows:
  assumes "aggregate_all ts r = Inr rows" "list_all (\<lambda>(_, ss). ss \<noteq> []) r"
  shows "map metric_key rows = map (\<lambda>(k, _). (ts, k)) r \<and> list_all (\<lambda>m. mt_cpu_avg m \<le> mt_cpu_max m) rows"
  using assms
proof (induction r arbitrary: rows)
  case (Cons e r)
  obtain k ss where e: "e = (k, ss)" by (cases e)
  obtain m ms where m: "aggregate ts (k, ss) = Inr m" "aggregate_all ts r = Inr ms" "rows = m # ms"
    using Cons.prems e by (auto simp: bindE_eq_Inr)
  then show ?case using Cons.IH [OF m(2)] Cons.prems e aggregate_row [OF m(1)] by auto
qed simp

lemma numbers_fail: "v \<in> set vs \<Longrightarrow> number v = Inl e \<Longrightarrow> \<exists>e'. numbers vs = Inl e'"
proof (induction vs)
  case (Cons w vs)
  then show ?case by (cases "number w"; cases "numbers vs") auto
qed simp

lemma aggregate_all_fail:
  "(k, ss) \<in> set r \<Longrightarrow> s \<in> set ss \<Longrightarrow> number (sm_cpu s) = Inl e \<Longrightarrow> \<exists>e'. aggregate_all ts r = Inl e'"
proof (induction r)
  case (Cons x r)
  show ?case
  proof (cases "x = (k, ss)")
    case True
    obtain e' where "numbers (map sm_cpu ss) = Inl e'"
      using numbers_fail [of "sm_cpu s" "map sm_cpu ss" e] Cons.prems by auto
    then show ?thesis using True Cons.prems(2) by (auto simp: aggregate_def Let_def)
  next
    case False
    then obtain e' where "aggregate_all ts r = Inl e'" using Cons by auto
    then show ?thesis by (cases "aggregate ts x") auto
  qed
qed simp



text \<open>One sample whose load is not a number, which any agent can report, makes the flush of
  the whole server fail: the samples of all agents are lost and no row is written.\<close>

theorem flush_loses_samples:
  assumes "(k, ss) \<in> set (te_ring t)" "s \<in> set ss" "number (sm_cpu s) = Inl e"
  shows "\<exists>e'. flush_to_db now t = (t\<lparr>te_ring := []\<rparr>, Inl e')"
  using aggregate_all_fail [OF assms, of "minute_of now"]
  by (auto simp: flush_to_db_def ring_flush_def Let_def)

lemma flush_loses_samples_witness:
  "let t = telemetry_init\<lparr>te_open := True, te_ring :=
         [((''good'', 7), [sample_of 100 PNone [(''cpu_usage'', PInt 2)]]),
          ((''bad'', 8), [sample_of 100 PNone [(''cpu_usage'', PStr ''x'')]])]\<rparr>
   in te_ring (fst (flush_to_db 119 t)) = [] \<and> te_metrics (fst (flush_to_db 119 t)) = []"
proof -
  let ?b = "sample_of 100 PNone [(''cpu_usage'', PStr ''x'')]"
  let ?t = "telemetry_init\<lparr>te_open := True, te_ring :=
         [((''good'', 7), [sample_of 100 PNone [(''cpu_usage'', PInt 2)]]), ((''bad'', 8), [?b])]\<rparr>"
  have "((''bad'', 8), [?b]) \<in> set (te_ring ?t)" "?b \<in> set [?b]" by simp_all
  moreover have "number (sm_cpu ?b) = Inl (TypeError ''unsupported operand type(s) for +'')"
    by (simp add: sample_of_def or_zero_def py_or_def number_def)
  ultimately obtain e' where "flush_to_db 119 ?t = (?t\<lparr>te_ring := []\<rparr>, Inl e')"
    using flush_loses_samples by blast
  then show ?thesis by (simp add: Let_def telemetry_init_def)
qed

end
