(* ===== verification/Py_Json.thy ===== *)
theory Py_Json
  imports Py_Prelude
begin

text \<open>
  Python's \<open>json\<close> module on the values of \<open>pyval\<close>. \<open>json_enc\<close> is \<open>json.dumps\<close> with the two
  separators as arguments (\<open>json_dumps\<close> uses the default ones), \<open>json_loads\<close> is \<open>json.loads\<close>,
  None standing for \<open>JSONDecodeError\<close>. A text holding a float, or a code point above 255 in a
  unicode escape, denotes no \<open>pyval\<close>: such texts are outside the model and read as None as well.
  The reader is a recursive descent with fuel; \<open>json_round_trip\<close> shows that the length of the
  text is fuel enough for everything \<open>json_enc\<close> writes.
\<close>

section \<open>Writing\<close>

definition hex4 :: "nat \<Rightarrow> string" where
  "hex4 n = [hex_digit (n div 4096 mod 16), hex_digit (n div 256 mod 16),
             hex_digit (n div 16 mod 16), hex_digit (n mod 16)]"

definition esc_char :: "char \<Rightarrow> string" where
  "esc_char c =
     (let n = of_char c :: nat in
      if n = 34 then [CHR 0x5C, CHR 0x22]
      else if n = 92 then [CHR 0x5C, CHR 0x5C]
      else if n = 10 then [CHR 0x5C, CHR ''n'']
      else if n = 13 then [CHR 0x5C, CHR ''r'']
      else if n = 9 then [CHR 0x5C, CHR ''t'']
      else if n = 12 then [CHR 0x5C, CHR ''f'']
      else if n = 8 then [CHR 0x5C, CHR ''b'']
      else if n < 32 \<or> 126 < n then [CHR 0x5C, CHR ''u''] @ hex4 n
      else [c])"

definition enc_str :: "string \<Rightarrow> string" where
  "enc_str s = CHR 0x22 # concat (map esc_char s) @ [CHR 0x22]"

fun json_enc :: "string \<Rightarrow> string \<Rightarrow> pyval \<Rightarrow> string" where
  "json_enc isep ksep PNone = ''null''"
| "json_enc isep ksep (PBool b) = (if b then ''true'' else ''false'')"
| "json_enc isep ksep (PInt i) = str_int i"
| "json_enc isep ksep (PStr s) = enc_str s"
| "json_enc isep ksep (PList xs) = ''['' @ join isep (map (json_enc isep ksep) xs) @ '']''"
| "json_enc isep ksep (PDict d) =
     ''{'' @ join isep (map (\<lambda>(k, v). enc_str k @ ksep @ json_enc isep ksep v) d) @ ''}''"

definition json_dumps :: "pyval \<Rightarrow> string" where
  "json_dumps v = json_enc '', '' '': '' v"

section \<open>Reading\<close>

definition is_json_space :: "char \<Rightarrow> bool" where
  "is_json_space c = (let n = of_char c :: nat in n = 32 \<or> n = 9 \<or> n = 10 \<or> n = 13)"

definition skip_ws :: "string \<Rightarrow> string" where
  "skip_ws s = dropWhile is_json_space s"

definition hex_value :: "char \<Rightarrow> nat option" where
  "hex_value c =
     (let n = of_char c :: nat in
      if 48 \<le> n \<and> n \<le> 57 then Some (n - 48)
      else if 97 \<le> n \<and> n \<le> 102 then Some (n - 87)
      else if 65 \<le> n \<and> n \<le> 70 then Some (n - 55)
      else None)"

definition unhex4 :: "char \<Rightarrow> char \<Rightarrow> char \<Rightarrow> char \<Rightarrow> nat option" where
  "unhex4 a b c d =
     (case (hex_value a, hex_value b, hex_value c, hex_value d) of
        (Some w, Some x, Some y, Some z) \<Rightarrow> Some (4096 * w + 256 * x + 16 * y + z)
      | _ \<Rightarrow> None)"

definition unescape :: "char \<Rightarrow> char option" where
  "unescape e =
     (if e = CHR 0x22 then Some (CHR 0x22) else if e = CHR 0x5C then Some (CHR 0x5C)
      else if e = CHR ''/'' then Some (CHR ''/'')
      else if e = CHR ''n'' then Some (CHR 0x0A) else if e = CHR ''r'' then Some (CHR 0x0D)
      else if e = CHR ''t'' then Some (CHR 0x09) else if e = CHR ''f'' then Some (CHR 0x0C)
      else if e = CHR ''b'' then Some (CHR 0x08) else None)"

fun str_body :: "string \<Rightarrow> (string \<times> string) option" where
  "str_body [] = None"
| "str_body (c # cs) =
     (if c = CHR 0x22 then Some ([], cs)
      else if c = CHR 0x5C then
        (case cs of
           [] \<Rightarrow> None
         | e # es \<Rightarrow>
             if e = CHR ''u'' then
               (case es of
                  h1 # h2 # h3 # h4 # r \<Rightarrow>
                    (case unhex4 h1 h2 h3 h4 of
                       Some n \<Rightarrow> if n < 256
                         then map_option (\<lambda>(t, r'). (char_of n # t, r')) (str_body r) else None
                     | None \<Rightarrow> None)
                | _ \<Rightarrow> None)
             else
               (case unescape e of
                  Some ch \<Rightarrow> map_option (\<lambda>(t, r'). (ch # t, r')) (str_body es)
                | None \<Rightarrow> None))
      else if (of_char c :: nat) < 32 then None
      else map_option (\<lambda>(t, r'). (c # t, r')) (str_body cs))"

definition is_digit :: "char \<Rightarrow> bool" where
  "is_digit c = (let n = of_char c :: nat in 48 \<le> n \<and> n \<le> 57)"

definition digits_value :: "string \<Rightarrow> nat" where
  "digits_value ds = foldl (\<lambda>a d. 10 * a + (of_char d - 48)) 0 ds"

text \<open>The text after an integer part starts a fraction or an exponent.\<close>

fun float_follows :: "string \<Rightarrow> bool" where
  "float_follows [] = False"
| "float_follows (c # cs) =
     (if c = CHR ''.'' then (case cs of [] \<Rightarrow> False | d # _ \<Rightarrow> is_digit d)
      else if c = CHR ''e'' \<or> c = CHR ''E'' then
        (case cs of
           [] \<Rightarrow> False
         | d # ds \<Rightarrow> is_digit d \<or>
             ((d = CHR ''+'' \<or> d = CHR ''-'') \<and> (case ds of [] \<Rightarrow> False | x # _ \<Rightarrow> is_digit x)))
      else False)"

definition json_nat :: "string \<Rightarrow> (nat \<times> string) option" where
  "json_nat s =
     (case s of
        [] \<Rightarrow> None
      | c # cs \<Rightarrow>
          (let (ds, r) = (if c = CHR ''0'' then ([c], cs)
                          else (takeWhile is_digit s, dropWhile is_digit s))
           in if ds = [] \<or> float_follows r then None else Some (digits_value ds, r)))"

definition json_num :: "string \<Rightarrow> (pyval \<times> string) option" where
  "json_num s =
     (if s \<noteq> [] \<and> hd s = CHR ''-''
      then map_option (\<lambda>(n, r). (PInt (- int n), r)) (json_nat (tl s))
      else map_option (\<lambda>(n, r). (PInt (int n), r)) (json_nat s))"

fun jval :: "nat \<Rightarrow> string \<Rightarrow> (pyval \<times> string) option"
  and jelems :: "nat \<Rightarrow> string \<Rightarrow> (pyval list \<times> string) option"
  and jmembers :: "nat \<Rightarrow> string \<Rightarrow> ((string \<times> pyval) list \<times> string) option" where
  "jval 0 s = None"
| "jval (Suc n) s =
     (case skip_ws s of
        [] \<Rightarrow> None
      | c # cs \<Rightarrow>
          if c = CHR 0x22 then map_option (\<lambda>(t, r). (PStr t, r)) (str_body cs)
          else if c = CHR ''{'' then
            (if skip_ws cs \<noteq> [] \<and> hd (skip_ws cs) = CHR ''}''
             then Some (PDict [], tl (skip_ws cs))
             else map_option (\<lambda>(d, r). (PDict (dupdate [] d), r)) (jmembers n cs))
          else if c = CHR ''['' then
            (if skip_ws cs \<noteq> [] \<and> hd (skip_ws cs) = CHR '']''
             then Some (PList [], tl (skip_ws cs))
             else map_option (\<lambda>(xs, r). (PList xs, r)) (jelems n cs))
          else if starts_with ''null'' (c # cs) then Some (PNone, drop 4 (c # cs))
          else if starts_with ''true'' (c # cs) then Some (PBool True, drop 4 (c # cs))
          else if starts_with ''false'' (c # cs) then Some (PBool False, drop 5 (c # cs))
          else json_num (c # cs))"
| "jelems 0 s = None"
| "jelems (Suc n) s =
     (case jval n s of
        None \<Rightarrow> None
      | Some (v, r) \<Rightarrow>
          (case skip_ws r of
             [] \<Rightarrow> None
           | c # r1 \<Rightarrow>
               if c = CHR '']'' then Some ([v], r1)
               else if c = CHR '','' then map_option (\<lambda>(vs, r2). (v # vs, r2)) (jelems n r1)
               else None))"
| "jmembers 0 s = None"
| "jmembers (Suc n) s =
     (case skip_ws s of
        [] \<Rightarrow> None
      | q # qs \<Rightarrow>
          if q \<noteq> CHR 0x22 then None
          else
            (case str_body qs of
               None \<Rightarrow> None
             | Some (k, r) \<Rightarrow>
                 (case skip_ws r of
                    [] \<Rightarrow> None
                  | co # r1 \<Rightarrow>
                      if co \<noteq> CHR '':'' then None
                      else
                        (case jval n r1 of
                           None \<Rightarrow> None
                         | Some (v, r2) \<Rightarrow>
                             (case skip_ws r2 of
                                [] \<Rightarrow> None
                              | c # r3 \<Rightarrow>
                                  if c = CHR ''}'' then Some ([(k, v)], r3)
                                  else if c = CHR '','' then
                                    map_option (\<lambda>(d, r4). ((k, v) # d, r4)) (jmembers n r3)
                                  else None)))))"

definition json_loads :: "string \<Rightarrow> pyval option" where
  "json_loads s =
     (case jval (2 * length s + 2) s of
        Some (v, r) \<Rightarrow> if skip_ws r = [] then Some v else None
      | None \<Rightarrow> None)"

section \<open>The round trip\<close>

lemma hex_value_hex_digit [simp]: "k < 16 \<Longrightarrow> hex_value (hex_digit k) = Some k"
  by (auto simp: hex_value_def hex_digit_def Let_def char_of_take_bit_eq take_bit_eq_mod)

lemma unhex4_hex4:
  assumes "n < 256"
  obtains a b c d where "hex4 n = [a, b, c, d]" "unhex4 a b c d = Some n"
proof
  show "hex4 n = [hex_digit 0, hex_digit 0, hex_digit (n div 16), hex_digit (n mod 16)]"
    using assms by (simp add: hex4_def)
  show "unhex4 (hex_digit 0) (hex_digit 0) (hex_digit (n div 16)) (hex_digit (n mod 16)) = Some n"
    using assms by (simp add: unhex4_def less_mult_imp_div_less)
qed

lemma unescape_u [simp]: "unescape (CHR ''u'') = None" by (simp add: unescape_def)

lemma special_chars:
  "(of_char c :: nat) = 34 \<longleftrightarrow> c = CHR 0x22" "(of_char c :: nat) = 92 \<longleftrightarrow> c = CHR 0x5C"
  "(of_char c :: nat) = 10 \<longleftrightarrow> c = CHR 0x0A" "(of_char c :: nat) = 13 \<longleftrightarrow> c = CHR 0x0D"
  "(of_char c :: nat) = 9 \<longleftrightarrow> c = CHR 0x09" "(of_char c :: nat) = 12 \<longleftrightarrow> c = CHR 0x0C"
  "(of_char c :: nat) = 8 \<longleftrightarrow> c = CHR 0x08"
  using of_char_eq_iff [where 'a = nat, of c "CHR 0x22"] of_char_eq_iff [where 'a = nat, of c "CHR 0x5C"]
    of_char_eq_iff [where 'a = nat, of c "CHR 0x0A"] of_char_eq_iff [where 'a = nat, of c "CHR 0x0D"]
    of_char_eq_iff [where 'a = nat, of c "CHR 0x09"] of_char_eq_iff [where 'a = nat, of c "CHR 0x0C"]
    of_char_eq_iff [where 'a = nat, of c "CHR 0x08"]
  by simp_all

lemma str_body_esc:
  "str_body (esc_char c @ t) = map_option (\<lambda>(s, r). (c # s, r)) (str_body t)"
proof -
  let ?n = "of_char c :: nat"
  consider "c \<in> {CHR 0x22, CHR 0x5C, CHR 0x0A, CHR 0x0D, CHR 0x09, CHR 0x0C, CHR 0x08}"
    | "?n \<notin> {34, 92, 10, 13, 9, 12, 8}" "?n < 32 \<or> 126 < ?n"
    | "c \<noteq> CHR 0x22" "c \<noteq> CHR 0x5C" "32 \<le> ?n" "?n \<le> 126"
    unfolding insert_iff empty_iff special_chars by linarith
  then show ?thesis
  proof cases
    case 1
    then show ?thesis by (auto simp: esc_char_def unescape_def)
  next
    case 2
    obtain h1 h2 h3 h4 where "hex4 ?n = [h1, h2, h3, h4]" "unhex4 h1 h2 h3 h4 = Some ?n"
      by (rule unhex4_hex4 [of ?n]) simp_all
    with 2 show ?thesis by (simp add: esc_char_def Let_def)
  next
    case 3
    then have "?n \<notin> {34, 92}" by (simp add: special_chars)
    with 3 show ?thesis by (simp add: esc_char_def Let_def)
  qed
qed

lemma str_body_enc:
  "str_body (concat (map esc_char s) @ CHR 0x22 # r) = Some (s, r)"
  by (induction s) (simp_all add: str_body_esc)

text \<open>Numbers.\<close>

lemma digit_char_facts:
  assumes "n < 10"
  shows "is_digit (digit_char n)" "(of_char (digit_char n) :: nat) = 48 + n"
  using assms by (simp_all add: is_digit_def digit_char_def char_of_take_bit_eq take_bit_eq_mod)

lemma nat_digits_digits: "c \<in> set (nat_digits n) \<Longrightarrow> is_digit c"
proof (induction n rule: nat_digits.induct)
  case (1 n)
  show ?case using 1 by (subst (asm) nat_digits.simps)
      (auto split: if_splits simp: digit_char_facts)
qed

lemma nat_digits_neq_Nil [simp]: "nat_digits n \<noteq> []"
  by (subst nat_digits.simps) simp

lemma digits_value_append [simp]:
  "digits_value (ds @ [d]) = 10 * digits_value ds + (of_char d - 48)"
  by (simp add: digits_value_def)

lemma digits_value_nat_digits [simp]: "digits_value (nat_digits n) = n"
proof (induction n rule: nat_digits.induct)
  case (1 n)
  show ?case
  proof (cases "n < 10")
    case True
    then show ?thesis
      by (subst nat_digits.simps) (simp add: digits_value_def digit_char_facts)
  next
    case False
    then show ?thesis using 1 by (subst nat_digits.simps) (simp add: digit_char_facts)
  qed
qed

lemma hd_nat_digits: "hd (nat_digits n) = CHR ''0'' \<longleftrightarrow> n = 0"
proof (induction n rule: nat_digits.induct)
  case (1 n)
  show ?case
  proof (cases "n < 10")
    case True
    have "digit_char n = CHR ''0'' \<longleftrightarrow> n = 0"
      using digit_char_facts(2) [OF True] of_char_eq_iff [where 'a = nat, of "digit_char n" "CHR ''0''"]
      by simp
    then show ?thesis using True by (subst nat_digits.simps) simp
  next
    case False
    then show ?thesis using 1 by (subst nat_digits.simps) simp
  qed
qed

definition number_ends :: "string \<Rightarrow> bool" where
  "number_ends r = (r = [] \<or> (\<not> is_digit (hd r) \<and> \<not> float_follows r))"

lemma json_nat_digits:
  assumes "number_ends r"
  shows "json_nat (nat_digits n @ r) = Some (n, r)"
proof -
  obtain c cs where d: "nat_digits n = c # cs" by (cases "nat_digits n") simp_all
  have nf: "\<not> float_follows r" using assms by (auto simp: number_ends_def)
  show ?thesis
  proof (cases "n = 0")
    case True
    then have "nat_digits n = ''0''" using hd_nat_digits [of 0] by (simp add: nat_digits.simps)
    then show ?thesis using True nf by (simp add: json_nat_def digits_value_def)
  next
    case False
    have c: "c \<noteq> CHR ''0''" using hd_nat_digits [of n] False d by simp
    have all: "\<forall>x\<in>set (nat_digits n). is_digit x" by (simp add: nat_digits_digits)
    have "takeWhile is_digit (nat_digits n @ r) = nat_digits n"
      using all assms by (cases r) (auto simp: number_ends_def takeWhile_append2 takeWhile_append1)
    moreover have "dropWhile is_digit (nat_digits n @ r) = r"
      using all assms by (cases r) (auto simp: number_ends_def)
    ultimately show ?thesis using c nf d
      by (simp add: json_nat_def digits_value_nat_digits [of n, unfolded d])
  qed
qed

lemma json_num_str_int:
  assumes "number_ends r"
  shows "json_num (str_int i @ r) = Some (PInt i, r)"
proof (cases "i < 0")
  case True
  then show ?thesis using json_nat_digits [OF assms] by (simp add: json_num_def str_int_def)
next
  case False
  have "is_digit (hd (nat_digits (nat i)))"
    by (rule nat_digits_digits [of _ "nat i"]) simp
  then have "hd (nat_digits (nat i)) \<noteq> CHR ''-''" by (auto simp: is_digit_def)
  then show ?thesis using False json_nat_digits [OF assms] by (simp add: json_num_def str_int_def)
qed

text \<open>Values. \<open>json_wf\<close>: every dictionary has distinct keys, as a Python dict does.\<close>

fun json_wf :: "pyval \<Rightarrow> bool" where
  "json_wf (PList xs) = (\<forall>x\<in>set xs. json_wf x)"
| "json_wf (PDict d) = (distinct (map fst d) \<and> (\<forall>p\<in>set d. json_wf (snd p)))"
| "json_wf _ = True"

fun json_need :: "pyval \<Rightarrow> nat" and elems_need :: "pyval list \<Rightarrow> nat"
  and members_need :: "(string \<times> pyval) list \<Rightarrow> nat" where
  "json_need (PList xs) = Suc (elems_need xs)"
| "json_need (PDict d) = Suc (members_need d)"
| "json_need PNone = 1"
| "json_need (PBool b) = 1"
| "json_need (PInt i) = 1"
| "json_need (PStr t) = 1"
| "elems_need [] = 0"
| "elems_need (x # xs) = Suc (json_need x + elems_need xs)"
| "members_need [] = 0"
| "members_need ((k, x) # xs) = Suc (json_need x + members_need xs)"

lemma join_Cons: "join sep (x # xs) = x @ concat (map (\<lambda>y. sep @ y) xs)"
  by (induction xs arbitrary: x) simp_all

lemma dupdate_distinct_id:
  "distinct (map fst d) \<Longrightarrow> dupdate [] d = d"
proof (induction d rule: rev_induct)
  case (snoc x d)
  have "AList.update k v d = d @ [(k, v)]" if "k \<notin> fst ` set d" for k and v :: 'b
    using that by (induction d) auto
  with snoc show ?case by (cases x) (simp add: dupdate_def)
qed simp


definition ws_only :: "string \<Rightarrow> bool" where
  "ws_only w = (\<forall>c\<in>set w. is_json_space c)"

lemma skip_ws_append [simp]: "ws_only w \<Longrightarrow> skip_ws (w @ s) = skip_ws s"
  by (simp add: ws_only_def skip_ws_def dropWhile_append2)

lemma skip_ws_start [simp]: "\<not> is_json_space c \<Longrightarrow> skip_ws (c # s) = c # s"
  by (simp add: skip_ws_def)

lemma not_space [simp]:
  "\<not> is_json_space (CHR '','')" "\<not> is_json_space (CHR '']'')" "\<not> is_json_space (CHR ''}'')"
  "\<not> is_json_space (CHR 0x22)" "\<not> is_json_space (CHR '':'')" "\<not> is_json_space (CHR ''{'')"
  "\<not> is_json_space (CHR ''['')"
  by (simp_all add: is_json_space_def)

lemma jval_ws [simp]: "ws_only w \<Longrightarrow> jval n (w @ s) = jval n s"
  by (cases n) simp_all

lemma jelems_ws [simp]: "ws_only w \<Longrightarrow> jelems n (w @ s) = jelems n s"
  by (cases n) simp_all

lemma jmembers_ws [simp]: "ws_only w \<Longrightarrow> jmembers n (w @ s) = jmembers n s"
  by (cases n) simp_all

lemma number_ends_simps [simp]:
  "number_ends []" "number_ends (CHR '','' # r)" "number_ends (CHR '']'' # r)"
  "number_ends (CHR ''}'' # r)"
  by (simp_all add: number_ends_def is_digit_def)

definition value_start :: "char \<Rightarrow> bool" where
  "value_start c = (\<not> is_json_space c \<and> c \<noteq> CHR '']'' \<and> c \<noteq> CHR ''}'')"

lemma value_start_simps [simp]:
  "value_start (CHR ''n'')" "value_start (CHR ''t'')" "value_start (CHR ''f'')"
  "value_start (CHR ''['')" "value_start (CHR ''{'')" "value_start (CHR 0x22)"
  "value_start (CHR ''-'')"
  by (simp_all add: value_start_def is_json_space_def)

lemma value_start_digit: "is_digit c \<Longrightarrow> value_start c"
  by (auto simp: value_start_def is_json_space_def is_digit_def Let_def)

lemma str_int_start: "\<exists>c cs. str_int i = c # cs \<and> (c = CHR ''-'' \<or> is_digit c)"
proof (cases "i < 0")
  case False
  have "is_digit (hd (nat_digits (nat i)))" by (rule nat_digits_digits [of _ "nat i"]) simp
  with False show ?thesis by (cases "nat_digits (nat i)") (auto simp: str_int_def)
qed (simp add: str_int_def)

lemma json_enc_hd: "json_enc isep ksep v \<noteq> [] \<and> value_start (hd (json_enc isep ksep v))"
proof (cases v)
  case (PInt i)
  obtain c cs where "str_int i = c # cs" "c = CHR ''-'' \<or> is_digit c"
    using str_int_start [of i] by blast
  then show ?thesis using PInt value_start_digit [of c] by auto
qed (simp_all add: enc_str_def)

lemma json_enc_start: "\<exists>c cs. json_enc isep ksep v = c # cs \<and> value_start c"
  using json_enc_hd [of isep ksep v] by (cases "json_enc isep ksep v") simp_all

lemma enc_str_body [simp]: "str_body (concat (map esc_char s) @ CHR 0x22 # r) = Some (s, r)"
  by (rule str_body_enc)

lemma jval_int:
  assumes "number_ends r"
  shows "jval (Suc n) (str_int i @ r) = Some (PInt i, r)"
proof -
  obtain c cs where s: "str_int i = c # cs" and c: "c = CHR ''-'' \<or> is_digit c"
    using str_int_start [of i] by blast
  have "\<not> is_json_space c" using c by (auto simp: is_json_space_def is_digit_def Let_def)
  moreover have "c \<notin> {CHR 0x22, CHR ''{'', CHR ''['', CHR ''n'', CHR ''t'', CHR ''f''}"
    using c by (auto simp: is_digit_def)
  ultimately show ?thesis using json_num_str_int [OF assms, of i] s
    by (auto simp: starts_with_def)
qed

locale json_separators =
  fixes isep ksep w1 w2 :: string
  assumes isep: "isep = CHR '','' # w1" and w1: "ws_only w1"
    and ksep: "ksep = CHR '':'' # w2" and w2: "ws_only w2"
begin

lemma json_enc_not_closing:
  "skip_ws (json_enc isep ksep v @ r) \<noteq> []"
  "hd (skip_ws (json_enc isep ksep v @ r)) \<noteq> CHR '']''"
  using json_enc_start [of isep ksep v] by (auto simp: value_start_def)

lemma json_parse:
  "json_wf v \<Longrightarrow> json_need v \<le> n \<Longrightarrow> number_ends r \<Longrightarrow>
   jval n (json_enc isep ksep v @ r) = Some (v, r)"
  "(\<forall>x\<in>set xs. json_wf x) \<Longrightarrow> xs \<noteq> [] \<Longrightarrow> elems_need xs \<le> n \<Longrightarrow>
   jelems n (join isep (map (json_enc isep ksep) xs) @ CHR '']'' # r) = Some (xs, r)"
  "(\<forall>p\<in>set d. json_wf (snd p)) \<Longrightarrow> d \<noteq> [] \<Longrightarrow> members_need d \<le> n \<Longrightarrow>
   jmembers n (join isep (map (\<lambda>(k, v). enc_str k @ ksep @ json_enc isep ksep v) d)
     @ CHR ''}'' # r) = Some (d, r)"
proof (induction v and xs and d arbitrary: n r and n r and n r
    rule: json_need_elems_need_members_need.induct)
  case (1 xs)
  obtain m where n: "n = Suc m" "elems_need xs \<le> m" using 1 by (cases n) auto
  show ?case
  proof (cases xs)
    case (Cons y ys)
    have "hd (skip_ws (join isep (map (json_enc isep ksep) xs) @ CHR '']'' # r)) \<noteq> CHR '']''"
      unfolding Cons using json_enc_not_closing(2) by (simp add: join_Cons)
    then show ?thesis using 1 n Cons by simp
  qed (use n in simp)
next
  case (2 d)
  obtain m where n: "n = Suc m" "members_need d \<le> m" using 2 by (cases n) auto
  show ?case
  proof (cases d)
    case (Cons y ys)
    have "hd (skip_ws (join isep (map (\<lambda>(k, v). enc_str k @ ksep @ json_enc isep ksep v) d)
        @ CHR ''}'' # r)) \<noteq> CHR ''}''"
      unfolding Cons by (simp add: join_Cons enc_str_def case_prod_unfold)
    then show ?thesis using 2 n Cons by (simp add: dupdate_distinct_id)
  qed (use n in simp)
next
  case (8 x xs)
  obtain m where n: "n = Suc m" "json_need x \<le> m" "elems_need xs \<le> m" using 8 by (cases n) auto
  show ?case
  proof (cases xs)
    case Nil
    then show ?thesis using 8 n by simp
  next
    case (Cons y ys)
    have "jval m (json_enc isep ksep x @ isep @ join isep (map (json_enc isep ksep) xs)
        @ CHR '']'' # r) = Some (x, isep @ join isep (map (json_enc isep ksep) xs) @ CHR '']'' # r)"
      using 8(1) [of m] 8(3) n by (simp add: isep)
    moreover have "jelems m (join isep (map (json_enc isep ksep) xs) @ CHR '']'' # r) = Some (xs, r)"
      using 8(2) [of m] 8(3) n Cons by simp
    ultimately show ?thesis using n Cons by (simp add: isep w1)
  qed
next
  case (10 k x xs)
  obtain m where n: "n = Suc m" "json_need x \<le> m" "members_need xs \<le> m"
    using 10 by (cases n) auto
  let ?m = "\<lambda>(k, v). enc_str k @ ksep @ json_enc isep ksep v"
  show ?case
  proof (cases xs)
    case Nil
    then show ?thesis using 10(1) [of m] 10(3) n by (simp add: enc_str_def ksep w2)
  next
    case (Cons y ys)
    have "jval m (json_enc isep ksep x @ isep @ join isep (map ?m xs) @ CHR ''}'' # r)
        = Some (x, isep @ join isep (map ?m xs) @ CHR ''}'' # r)"
      using 10(1) [of m] 10(3) n by (simp add: isep)
    moreover have "jmembers m (join isep (map ?m xs) @ CHR ''}'' # r) = Some (xs, r)"
      using 10(2) [of m] 10(3) n Cons by simp
    ultimately show ?thesis using n Cons by (simp add: enc_str_def ksep w2 isep w1)
  qed
next
  case 3 then show ?case by (cases n) (simp_all add: starts_with_def is_json_space_def)
next
  case (4 b) then show ?case by (cases n) (simp_all add: starts_with_def is_json_space_def)
next
  case (5 i) then show ?case by (cases n) (simp_all add: jval_int del: jval.simps)
next
  case (6 t) then show ?case by (cases n) (simp_all add: enc_str_def)
qed simp_all

lemma json_need_bound:
  "json_need v < 2 * length (json_enc isep ksep v)"
  "elems_need xs \<le> 2 * length (join isep (map (json_enc isep ksep) xs)) + 2"
  "members_need d \<le>
     2 * length (join isep (map (\<lambda>(k, v). enc_str k @ ksep @ json_enc isep ksep v) d)) + 2"
proof (induction v and xs and d rule: json_need_elems_need_members_need.induct)
  case (8 x xs)
  then show ?case by (cases xs) (auto simp: isep)
next
  case (10 k x xs)
  then show ?case by (cases xs) (auto simp: isep)
next
  case (5 i)
  then show ?case using str_int_start [of i] by auto
qed (auto simp: enc_str_def)

lemma json_round_trip:
  "json_wf v \<Longrightarrow> json_loads (json_enc isep ksep v) = Some v"
  using json_parse(1) [of v "2 * length (json_enc isep ksep v) + 2" "[]"] json_need_bound(1) [of v]
  by (simp add: json_loads_def skip_ws_def)

end

interpretation default_seps: json_separators "'', ''" "'': ''" "'' ''" "'' ''"
  by unfold_locales (simp_all add: ws_only_def is_json_space_def)

interpretation compact_seps: json_separators "'',''" "'':''" "[]" "[]"
  by unfold_locales (simp_all add: ws_only_def)

lemma json_loads_dumps [simp]: "json_wf v \<Longrightarrow> json_loads (json_dumps v) = Some v"
  by (simp add: json_dumps_def default_seps.json_round_trip)

end
