(* ===== verification/Net_Events.thy ===== *)
theory Net_Events
  imports Py_Json
begin

text \<open>
  The messages between server and agents (\<open>shared/network/events/example_event.py\<close>), the registry
  of their classes and the parser of incoming frames (\<open>shared/network/events/__init__.py\<close>), and the
  router that hands an event to the handler of its type (\<open>network/event_router.py\<close>). A record per
  data class, with the defaults of its fields; a constructor of \<open>net_event\<close> per event class, and
  \<open>OtherEv\<close> for the base class \<open>NetworkEvent\<close>, which carries any type. Header fields, identifiers and
  time stamps of events, which no handler reads, are left out. Pydantic's field validation is the
  parameter \<open>validate\<close> of the parser.
\<close>

section \<open>Event data\<close>

record handshake_data =
  hs_client_id :: string
  hs_hostname :: string
  hs_fqdn :: string
  hs_capabilities :: "string list"

definition default_handshake :: handshake_data where
  "default_handshake =
     \<lparr>hs_client_id = [],
      hs_hostname = [],
      hs_fqdn = [],
      hs_capabilities = []\<rparr>"

record start_program_data =
  sp_agent_id :: string
  sp_exe :: string
  sp_args :: string
  sp_cwd :: string
  sp_visible :: bool
  sp_session :: string

definition default_start_program :: start_program_data where
  "default_start_program =
     \<lparr>sp_agent_id = [],
      sp_exe = [],
      sp_args = [],
      sp_cwd = [],
      sp_visible = True,
      sp_session = []\<rparr>"

record create_session_data =
  cs_agent_id :: string
  cs_username :: string
  cs_password :: string
  cs_domain :: string

definition default_create_session :: create_session_data where
  "default_create_session =
     \<lparr>cs_agent_id = [],
      cs_username = [],
      cs_password = [],
      cs_domain = []\<rparr>"

record session_created_data =
  sc_username :: string
  sc_session_id :: int
  sc_session_name :: string

record session_creation_failed_data =
  sf_username :: string
  sf_reason :: string

record active_sessions_data =
  as_sessions :: "session_created_data list"

record close_session_data =
  cl_username :: string

record session_closed_data =
  sd_username :: string

record heartbeat_data =
  hb_agent_status :: "pydict option"
  hb_system_metrics :: "pydict option"
  hb_sync :: bool
  hb_client_id :: string

definition default_heartbeat :: heartbeat_data where
  "default_heartbeat =
     \<lparr>hb_agent_status = None,
      hb_system_metrics = None,
      hb_sync = False,
      hb_client_id = []\<rparr>"

record auth_result_data =
  ar_status :: string
  ar_agent_id :: string
  ar_access_token :: string
  ar_access_token_issued :: bool
  ar_reason :: string

definition default_auth_result :: auth_result_data where
  "default_auth_result =
     \<lparr>ar_status = ''ok'',
      ar_agent_id = [],
      ar_access_token = [],
      ar_access_token_issued = False,
      ar_reason = []\<rparr>"

record execute_task_data =
  et_task_id :: string
  et_script :: string
  et_cwd :: string
  et_timeout_sec :: int
  et_session :: string
  et_env :: pydict

definition default_execute_task :: execute_task_data where
  "default_execute_task =
     \<lparr>et_task_id = [],
      et_script = [],
      et_cwd = [],
      et_timeout_sec = 300,
      et_session = [],
      et_env = []\<rparr>"

record cancel_task_data =
  ct_task_id :: string

definition default_cancel_task :: cancel_task_data where
  "default_cancel_task =
     \<lparr>ct_task_id = []\<rparr>"

record task_output_data =
  to_task_id :: string
  to_stream :: string
  to_data :: string
  to_seq :: int

definition default_task_output :: task_output_data where
  "default_task_output =
     \<lparr>to_task_id = [],
      to_stream = ''stdout'',
      to_data = [],
      to_seq = 0\<rparr>"

record task_status_data =
  tt_task_id :: string
  tt_status :: string
  tt_pid :: "int option"
  tt_exit_code :: "int option"
  tt_error :: "string option"

definition default_task_status :: task_status_data where
  "default_task_status =
     \<lparr>tt_task_id = [],
      tt_status = ''queued'',
      tt_pid = None,
      tt_exit_code = None,
      tt_error = None\<rparr>"

record capture_screenshot_data =
  cp_agent_id :: string
  cp_target_type :: string
  cp_pid :: "int option"
  cp_hwnd :: "int option"
  cp_session_id :: "int option"
  cp_request_id :: string

definition default_capture_screenshot :: capture_screenshot_data where
  "default_capture_screenshot =
     \<lparr>cp_agent_id = [],
      cp_target_type = ''process'',
      cp_pid = None,
      cp_hwnd = None,
      cp_session_id = None,
      cp_request_id = []\<rparr>"

record process_screenshot_data =
  ps_agent_id :: string
  ps_target_type :: string
  ps_pid :: "int option"
  ps_hwnd :: "int option"
  ps_session_id :: "int option"
  ps_request_id :: string
  ps_status :: string
  ps_image_base64 :: "string option"
  ps_image_format :: string
  ps_window_title :: "string option"
  ps_error :: "string option"
  ps_captured_at :: "int option"

definition default_process_screenshot :: process_screenshot_data where
  "default_process_screenshot =
     \<lparr>ps_agent_id = [],
      ps_target_type = ''process'',
      ps_pid = None,
      ps_hwnd = None,
      ps_session_id = None,
      ps_request_id = [],
      ps_status = ''completed'',
      ps_image_base64 = None,
      ps_image_format = ''png'',
      ps_window_title = None,
      ps_error = None,
      ps_captured_at = None\<rparr>"

record set_window_tracking_data =
  wt_agent_id :: string
  wt_enabled :: bool

definition default_set_window_tracking :: set_window_tracking_data where
  "default_set_window_tracking =
     \<lparr>wt_agent_id = [],
      wt_enabled = False\<rparr>"

record watch_process_manager_data =
  wp_agent_id :: string

definition default_watch_process_manager :: watch_process_manager_data where
  "default_watch_process_manager =
     \<lparr>wp_agent_id = []\<rparr>"

section \<open>Events, types and owners\<close>

datatype net_event =
    HandshakeEv handshake_data
  | StartProgramEv start_program_data
  | StartMonitoredProcessEv start_program_data
  | CreateSessionEv create_session_data
  | SessionCreatedEv session_created_data
  | SessionCreationFailedEv session_creation_failed_data
  | ActiveSessionsEv active_sessions_data
  | CloseSessionEv close_session_data
  | SessionClosedEv session_closed_data
  | HeartbeatEv heartbeat_data
  | AuthResultEv auth_result_data
  | ExecuteTaskEv execute_task_data
  | CancelTaskEv cancel_task_data
  | TaskOutputEv task_output_data
  | TaskStatusEv task_status_data
  | CaptureProcessScreenshotEv capture_screenshot_data
  | ProcessScreenshotEv process_screenshot_data
  | SetWindowTrackingEv set_window_tracking_data
  | WatchProcessManagerEv watch_process_manager_data
  | UnwatchProcessManagerEv watch_process_manager_data
  | OtherEv string pydict

fun event_type :: "net_event \<Rightarrow> string" where
  "event_type (HandshakeEv _) = ''handshake''"
| "event_type (StartProgramEv _) = ''start_program''"
| "event_type (StartMonitoredProcessEv _) = ''start_monitored_process''"
| "event_type (CreateSessionEv _) = ''create_session''"
| "event_type (SessionCreatedEv _) = ''session_created''"
| "event_type (SessionCreationFailedEv _) = ''session_creation_failed''"
| "event_type (ActiveSessionsEv _) = ''active_sessions''"
| "event_type (CloseSessionEv _) = ''close_session''"
| "event_type (SessionClosedEv _) = ''session_closed''"
| "event_type (HeartbeatEv _) = ''heartbeat''"
| "event_type (AuthResultEv _) = ''auth_result''"
| "event_type (ExecuteTaskEv _) = ''execute_task''"
| "event_type (CancelTaskEv _) = ''cancel_task''"
| "event_type (TaskOutputEv _) = ''task_output''"
| "event_type (TaskStatusEv _) = ''task_status''"
| "event_type (CaptureProcessScreenshotEv _) = ''capture_process_screenshot''"
| "event_type (ProcessScreenshotEv _) = ''process_screenshot''"
| "event_type (SetWindowTrackingEv _) = ''set_window_tracking''"
| "event_type (WatchProcessManagerEv _) = ''watch_process_manager''"
| "event_type (UnwatchProcessManagerEv _) = ''unwatch_process_manager''"
| "event_type (OtherEv t _) = t"

text \<open>\<open>getattr(event.data, "agent_id", "")\<close>.\<close>

fun data_agent_id :: "net_event \<Rightarrow> string" where
  "data_agent_id (StartProgramEv d) = sp_agent_id d"
| "data_agent_id (StartMonitoredProcessEv d) = sp_agent_id d"
| "data_agent_id (CreateSessionEv d) = cs_agent_id d"
| "data_agent_id (AuthResultEv d) = ar_agent_id d"
| "data_agent_id (CaptureProcessScreenshotEv d) = cp_agent_id d"
| "data_agent_id (ProcessScreenshotEv d) = ps_agent_id d"
| "data_agent_id (SetWindowTrackingEv d) = wt_agent_id d"
| "data_agent_id (WatchProcessManagerEv d) = wp_agent_id d"
| "data_agent_id (UnwatchProcessManagerEv d) = wp_agent_id d"
| "data_agent_id _ = []"

section \<open>The registry and the parser\<close>

datatype event_class =
    HandshakeEvent | StartProgramEvent | StartMonitoredProcessEvent | CreateSessionEvent
  | SessionCreatedEvent | SessionCreationFailedEvent | ActiveSessionsEvent | CloseSessionEvent
  | SessionClosedEvent | HeartbeatEvent | AuthResultEvent | ExecuteTaskEvent | CancelTaskEvent
  | TaskOutputEvent | TaskStatusEvent | CaptureProcessScreenshotEvent | ProcessScreenshotEvent
  | SetWindowTrackingEvent | WatchProcessManagerEvent | UnwatchProcessManagerEvent
  | NetworkEvent

text \<open>
  The decorator \<open>register_event(type_name)\<close>: \<open>class_type\<close> is \<open>getattr(cls, "type", None)\<close>.
\<close>

definition register_event ::
    "string option \<Rightarrow> pyval \<Rightarrow> event_class \<Rightarrow> (string \<times> event_class) list
     \<Rightarrow> (string \<times> event_class) list result" where
  "register_event type_name class_type cls reg =
     (case (if ostr_or type_name [] \<noteq> [] then opt_str type_name else class_type) of
        PStr t \<Rightarrow> Inr (AList.update t cls reg)
      | _ \<Rightarrow> Inl (ValueError ''event class must define 'type' or pass type_name''))"

definition decorations :: "(string \<times> event_class) list" where
  "decorations =
     [(''handshake'', HandshakeEvent), (''start_program'', StartProgramEvent),
      (''start_monitored_process'', StartMonitoredProcessEvent),
      (''create_session'', CreateSessionEvent), (''session_created'', SessionCreatedEvent),
      (''session_creation_failed'', SessionCreationFailedEvent),
      (''active_sessions'', ActiveSessionsEvent), (''close_session'', CloseSessionEvent),
      (''session_closed'', SessionClosedEvent), (''heartbeat'', HeartbeatEvent),
      (''auth_result'', AuthResultEvent), (''execute_task'', ExecuteTaskEvent),
      (''cancel_task'', CancelTaskEvent), (''task_output'', TaskOutputEvent),
      (''task_status'', TaskStatusEvent),
      (''capture_process_screenshot'', CaptureProcessScreenshotEvent),
      (''process_screenshot'', ProcessScreenshotEvent),
      (''set_window_tracking'', SetWindowTrackingEvent),
      (''watch_process_manager'', WatchProcessManagerEvent),
      (''unwatch_process_manager'', UnwatchProcessManagerEvent)]"

definition REGISTRY :: "(string \<times> event_class) list" where
  "REGISTRY =
     fold (\<lambda>(t, cls) reg. case register_event (Some t) PNone cls reg of
                               Inl e \<Rightarrow> reg | Inr r \<Rightarrow> r) decorations []"

definition class_for :: "pyval \<Rightarrow> event_class" where
  "class_for evt_type =
     (case evt_type of
        PStr t \<Rightarrow> (case map_of REGISTRY t of None \<Rightarrow> NetworkEvent | Some c \<Rightarrow> c)
      | _ \<Rightarrow> NetworkEvent)"

text \<open>
  \<open>parse\<close> on a text frame. A document that is not an object has no \<open>get\<close>. A \<open>type\<close> that is a list
  or an object is not hashable, which the registry lookup reports as a \<open>TypeError\<close>.
\<close>

definition parse_event ::
    "(event_class \<Rightarrow> pydict \<Rightarrow> net_event result) \<Rightarrow> string \<Rightarrow> net_event result" where
  "parse_event validate incoming =
     (case json_loads incoming of
        None \<Rightarrow> Inl (ValueError ''JSONDecodeError'')
      | Some (PDict raw) \<Rightarrow>
          (case dget raw ''type'' of
             PList _ \<Rightarrow> Inl (TypeError ''unhashable type: list'')
           | PDict _ \<Rightarrow> Inl (TypeError ''unhashable type: dict'')
           | t \<Rightarrow> validate (class_for t) raw)
      | Some _ \<Rightarrow> Inl (AttributeError ''get''))"

fun class_of :: "net_event \<Rightarrow> event_class" where
  "class_of (HandshakeEv _) = HandshakeEvent"
| "class_of (StartProgramEv _) = StartProgramEvent"
| "class_of (StartMonitoredProcessEv _) = StartMonitoredProcessEvent"
| "class_of (CreateSessionEv _) = CreateSessionEvent"
| "class_of (SessionCreatedEv _) = SessionCreatedEvent"
| "class_of (SessionCreationFailedEv _) = SessionCreationFailedEvent"
| "class_of (ActiveSessionsEv _) = ActiveSessionsEvent"
| "class_of (CloseSessionEv _) = CloseSessionEvent"
| "class_of (SessionClosedEv _) = SessionClosedEvent"
| "class_of (HeartbeatEv _) = HeartbeatEvent"
| "class_of (AuthResultEv _) = AuthResultEvent"
| "class_of (ExecuteTaskEv _) = ExecuteTaskEvent"
| "class_of (CancelTaskEv _) = CancelTaskEvent"
| "class_of (TaskOutputEv _) = TaskOutputEvent"
| "class_of (TaskStatusEv _) = TaskStatusEvent"
| "class_of (CaptureProcessScreenshotEv _) = CaptureProcessScreenshotEvent"
| "class_of (ProcessScreenshotEv _) = ProcessScreenshotEvent"
| "class_of (SetWindowTrackingEv _) = SetWindowTrackingEvent"
| "class_of (WatchProcessManagerEv _) = WatchProcessManagerEvent"
| "class_of (UnwatchProcessManagerEv _) = UnwatchProcessManagerEvent"
| "class_of (OtherEv _ _) = NetworkEvent"

section \<open>The router\<close>

type_synonym 'h routes = "(string \<times> 'h) list"

definition router_register :: "string list \<Rightarrow> 'h \<Rightarrow> 'h routes \<Rightarrow> 'h routes" where
  "router_register event_types handler routes =
     fold (\<lambda>t acc. AList.update t handler acc) event_types routes"

definition router_dispatch ::
    "(net_event \<Rightarrow> 'w \<Rightarrow> 'w \<times> bool result) routes \<Rightarrow> net_event \<Rightarrow> 'w \<Rightarrow> 'w \<times> bool result"
  where
  "router_dispatch routes ev w =
     (case map_of routes (event_type ev) of
        None \<Rightarrow> (w, Inr False)
      | Some handler \<Rightarrow> handler ev w)"

section \<open>Properties\<close>

lemma registry_eq: "REGISTRY = decorations"
  by (simp add: REGISTRY_def decorations_def register_event_def opt_str_def)

lemma map_of_router_register [simp]:
  "map_of (router_register ts h routes) t = (if t \<in> set ts then Some h else map_of routes t)"
proof -
  have "map_of (fold (\<lambda>t acc. AList.update t h acc) ts routes) t =
      (if t \<in> set ts then Some h else map_of routes t)"
    by (induction ts arbitrary: routes) auto
  then show ?thesis by (simp add: router_register_def)
qed

text \<open>Every event class is registered under the type its instances carry, no type is
  registered twice, and every type that is not registered falls back on the base class.\<close>

theorem registry_sound:
  "distinct (map fst REGISTRY) \<and> distinct (map snd REGISTRY) \<and>
   (case ev of OtherEv t d \<Rightarrow> (class_for (PStr t) = NetworkEvent) = (t \<notin> fst ` set REGISTRY)
    | _ \<Rightarrow> class_for (PStr (event_type ev)) = class_of ev)"
  by (cases ev) (auto simp: registry_eq decorations_def class_for_def)

end
