(* ===== verification/Agent_Runtime.thy ===== *)
theory Agent_Runtime
  imports Telemetry Net_Events
begin

text \<open>
  The live state of the agents (\<open>agent_runtime.py\<close>): the socket of every connected agent, the last
  reported state of every agent, the merge of heartbeats, and the process events found by comparing
  successive states. A websocket is a number, and \<open>is\<close> on sockets is equality; \<open>ar_closed\<close> lists the
  sockets on which \<open>close\<close> was called, whose failure the code ignores. The state of an agent is the
  dictionary that the frontend sees, and every store into it is the dictionary update of the code; a
  heartbeat that a store or a call refuses leaves the stores made before it.
  One call is not followed in full: \<open>dict.update\<close> with a non-empty list or text, which Python takes as
  pairs, is an error here.
\<close>

section \<open>State\<close>

type_synonym ws = nat

record prev_process =
  pp_running :: pyval
  pp_exe :: pyval
  pp_session_id :: pyval

record agent_runtime =
  latest_stats :: "(string \<times> pydict) list"
  active_agents :: "(string \<times> ws) list"
  prev_process_states :: "(string \<times> (string \<times> prev_process) list) list"
  ar_closed :: "ws list"

definition agent_runtime_init :: agent_runtime where
  "agent_runtime_init = \<lparr>latest_stats = [], active_agents = [], prev_process_states = [], ar_closed = []\<rparr>"

definition HEARTBEAT_TIMEOUT_SECONDS :: int where "HEARTBEAT_TIMEOUT_SECONDS = 15"

definition agent_state_of :: "string \<Rightarrow> agent_runtime \<Rightarrow> pydict" where
  "agent_state_of a rt = the_or (map_of (latest_stats rt) a) []"

definition set_agent_state :: "string \<Rightarrow> pydict \<Rightarrow> agent_runtime \<Rightarrow> agent_runtime" where
  "set_agent_state a st rt = rt\<lparr>latest_stats := AList.update a st (latest_stats rt)\<rparr>"

definition mark_agent_connection_state :: "int \<Rightarrow> string \<Rightarrow> bool \<Rightarrow> agent_runtime \<Rightarrow> agent_runtime" where
  "mark_agent_connection_state now a conn rt =
     set_agent_state a (AList.update ''__agent_connection''
       (PDict [(''connected'', PBool conn), (''last_seen'', PInt now)]) (agent_state_of a rt)) rt"

definition close_socket :: "ws \<Rightarrow> agent_runtime \<Rightarrow> agent_runtime" where
  "close_socket ws rt = rt\<lparr>ar_closed := ar_closed rt @ [ws]\<rparr>"

text \<open>The connection entry of a state is a dictionary or absent.\<close>

definition mark_disconnected :: "int \<Rightarrow> pyval \<Rightarrow> pyval" where
  "mark_disconnected now v =
     (case v of
        PDict d \<Rightarrow> PDict (AList.update ''last_seen'' (PInt now) (AList.update ''connected'' (PBool False) d))
      | _ \<Rightarrow> v)"

definition reset_state :: "int \<Rightarrow> pydict \<Rightarrow> pydict" where
  "reset_state now st =
     (let metrics = dget st ''__agent_metrics'';
          connection = mark_disconnected now (dget st ''__agent_connection'')
      in if metrics \<noteq> PNone \<or> connection \<noteq> PNone
         then [(''__agent_metrics'', metrics), (''__agent_connection'', connection)] else [])"

definition reset_agent_runtime_state :: "int \<Rightarrow> string \<Rightarrow> agent_runtime \<Rightarrow> agent_runtime" where
  "reset_agent_runtime_state now a rt =
     (let rt1 = rt\<lparr>prev_process_states := AList.delete a (prev_process_states rt)\<rparr> in
      case map_of (latest_stats rt) a of
        None \<Rightarrow> rt1
      | Some st \<Rightarrow> set_agent_state a (reset_state now st) rt1)"

section \<open>Connections\<close>

definition register_agent :: "int \<Rightarrow> string \<Rightarrow> ws \<Rightarrow> agent_runtime \<Rightarrow> agent_runtime" where
  "register_agent now a ws rt =
     (let rt1 = mark_agent_connection_state now a True
                  (rt\<lparr>active_agents := AList.update a ws (active_agents rt)\<rparr>)
      in case map_of (active_agents rt) a of
           None \<Rightarrow> rt1
         | Some previous \<Rightarrow> if previous \<noteq> ws then close_socket previous rt1 else rt1)"

definition unregister_agent ::
    "int \<Rightarrow> string option \<Rightarrow> ws option \<Rightarrow> agent_runtime \<Rightarrow> agent_runtime \<times> bool" where
  "unregister_agent now agent_id ws rt =
     (let a = ostr_or agent_id [] in
      if a = [] then (rt, False)
      else
        (let current = map_of (active_agents rt) a in
         if ws \<noteq> None \<and> current \<noteq> None \<and> current \<noteq> ws then (rt, False)
         else (reset_agent_runtime_state now a
                 (rt\<lparr>active_agents := AList.delete a (active_agents rt)\<rparr>), True)))"

definition timeout_agent :: "int \<Rightarrow> string \<Rightarrow> agent_runtime \<Rightarrow> agent_runtime \<times> bool" where
  "timeout_agent now a rt =
     (case map_of (active_agents rt) a of
        None \<Rightarrow> (rt, False)
      | Some ws \<Rightarrow>
          (reset_agent_runtime_state now a
             (close_socket ws (rt\<lparr>active_agents := AList.delete a (active_agents rt)\<rparr>)), True))"

definition close_all_connections :: "int \<Rightarrow> agent_runtime \<Rightarrow> agent_runtime \<times> nat" where
  "close_all_connections now rt =
     (fold (\<lambda>(a, ws) rt. reset_agent_runtime_state now a
              (close_socket ws (rt\<lparr>active_agents := AList.delete a (active_agents rt)\<rparr>)))
        (active_agents rt) rt,
      length (active_agents rt))"

definition get_agent_socket :: "string \<Rightarrow> agent_runtime \<Rightarrow> ws option" where
  "get_agent_socket a rt = map_of (active_agents rt) a"

definition active_agent_count :: "agent_runtime \<Rightarrow> nat" where
  "active_agent_count rt = length (active_agents rt)"

definition get_default_target_agent_id :: "agent_runtime \<Rightarrow> string option" where
  "get_default_target_agent_id rt = (case active_agents rt of [(a, _)] \<Rightarrow> Some a | _ \<Rightarrow> None)"

definition remove_agent :: "string \<Rightarrow> agent_runtime \<Rightarrow> agent_runtime" where
  "remove_agent a rt =
     rt\<lparr>active_agents := AList.delete a (active_agents rt),
        latest_stats := AList.delete a (latest_stats rt),
        prev_process_states := AList.delete a (prev_process_states rt)\<rparr>"

text \<open>\<open>get_agent_state\<close> returns a copy.\<close>

definition get_agent_state :: "string \<Rightarrow> agent_runtime \<Rightarrow> pydict option" where
  "get_agent_state a rt = map_of (latest_stats rt) a"

text \<open>An entry whose \<open>last_seen\<close> is not a number stops the search with the exception of \<open>int\<close>.\<close>

fun timed_out_among :: "int \<Rightarrow> (string \<times> pydict) list \<Rightarrow> string list result" where
  "timed_out_among cutoff [] = Inr []"
| "timed_out_among cutoff ((a, st) # rest) =
     (case dget st ''__agent_connection'' of
        PDict c \<Rightarrow>
          if dget c ''connected'' \<noteq> PBool True then timed_out_among cutoff rest
          else bindE (py_int (dget_or c ''last_seen'' (PInt 0))) (\<lambda>seen.
                 bindE (timed_out_among cutoff rest) (\<lambda>others.
                   Inr (if seen \<le> cutoff then a # others else others)))
      | _ \<Rightarrow> timed_out_among cutoff rest)"

definition get_timed_out_agents :: "int \<Rightarrow> int \<Rightarrow> agent_runtime \<Rightarrow> string list result" where
  "get_timed_out_agents now timeout_seconds rt =
     timed_out_among (now - timeout_seconds) (latest_stats rt)"

section \<open>Frontend snapshot\<close>

definition process_count_of :: "pydict \<Rightarrow> pyval" where
  "process_count_of data =
     (let processes = dget_or data ''processes'' (PDict []);
          counted = PInt (case processes of PDict ps \<Rightarrow> int (length ps) | _ \<Rightarrow> 0)
      in case dget data ''process_count'' of
           PInt n \<Rightarrow> if n \<ge> 0 then PInt n else counted
         | PBool b \<Rightarrow> PBool b
         | _ \<Rightarrow> counted)"

definition session_summary :: "pydict \<Rightarrow> pydict" where
  "session_summary data =
     AList.update ''processes'' (PDict [])
       (AList.update ''process_count'' (process_count_of data)
         (filter (\<lambda>(k, _). k \<noteq> ''processes'') data))"

definition agent_summary :: "pydict \<Rightarrow> pydict" where
  "agent_summary st =
     fold (\<lambda>(k, v) acc. if starts_with ''__'' k \<or> \<not> is_dict v then acc
                        else AList.update k (PDict (session_summary (as_dict v))) acc) st
       ((case map_of st ''__agent_metrics'' of None \<Rightarrow> [] | Some m \<Rightarrow> [(''__agent_metrics'', m)]) @
        (case map_of st ''__agent_connection'' of None \<Rightarrow> [] | Some c \<Rightarrow> [(''__agent_connection'', c)]))"

definition build_frontend_snapshot :: "agent_runtime \<Rightarrow> pydict" where
  "build_frontend_snapshot rt = map (\<lambda>(a, st). (a, PDict (agent_summary st))) (latest_stats rt)"

section \<open>Heartbeats\<close>

text \<open>
  The loops of \<open>merge_heartbeat\<close> work on the state of the agent: \<open>set_target k key v\<close> is
  \<open>target[key] = v\<close> on the session entry \<open>k\<close>.
\<close>

definition set_target :: "string \<Rightarrow> string \<Rightarrow> pyval \<Rightarrow> (pydict, unit) prog" where
  "set_target k key v st =
     (case dget st k of
        PDict d \<Rightarrow> (AList.update k (PDict (AList.update key v d)) st, Inr ())
      | _ \<Rightarrow> (st, Inl (TypeError ''object does not support item assignment'')))"

text \<open>\<open>current_procs[pid].update(proc_info)\<close>.\<close>

definition update_process :: "pyval \<Rightarrow> pyval \<Rightarrow> pyval result" where
  "update_process old info =
     (case old of
        PDict d \<Rightarrow>
          (case info of
             PDict e \<Rightarrow> Inr (PDict (dupdate d e))
           | PList [] \<Rightarrow> Inr old
           | PStr [] \<Rightarrow> Inr old
           | PList _ \<Rightarrow> Inl (ValueError ''dictionary update sequence'')
           | PStr _ \<Rightarrow> Inl (ValueError ''dictionary update sequence'')
           | _ \<Rightarrow> Inl (TypeError ''object is not iterable''))
      | _ \<Rightarrow> Inl (AttributeError ''update''))"

definition stopped_info :: "pyval \<Rightarrow> bool" where
  "stopped_info info = (case info of PDict d \<Rightarrow> dget d ''is_running'' = PBool False | _ \<Rightarrow> False)"

definition current_processes :: "string \<Rightarrow> pydict \<Rightarrow> pyval" where
  "current_processes k st = dget (as_dict (dget st k)) ''processes''"

text \<open>One process of an incremental heartbeat; \<open>current_procs\<close> is the entry \<open>processes\<close> of the target.\<close>

definition merge_process :: "string \<Rightarrow> string \<times> pyval \<Rightarrow> (pydict, unit) prog" where
  "merge_process k p st =
     (let (pid, info) = p in
      case current_processes k st of
        PDict procs \<Rightarrow>
          if stopped_info info then set_target k ''processes'' (PDict (AList.delete pid procs)) st
          else
            (case map_of procs pid of
               None \<Rightarrow> set_target k ''processes'' (PDict (AList.update pid info procs)) st
             | Some old \<Rightarrow>
                 (case update_process old info of
                    Inl e \<Rightarrow> (st, Inl e)
                  | Inr new \<Rightarrow> set_target k ''processes'' (PDict (AList.update pid new procs)) st))
      | PList _ \<Rightarrow> (st, Inl (TypeError ''list indices must be integers''))
      | _ \<Rightarrow> (st, Inl (if stopped_info info then AttributeError ''pop''
                      else TypeError ''argument is not a container'')))"

definition merge_processes :: "string \<Rightarrow> pyval \<Rightarrow> (pydict, unit) prog" where
  "merge_processes k incoming st =
     (case incoming of
        PDict ps \<Rightarrow> forP (merge_process k) ps st
      | _ \<Rightarrow> (st, Inl (AttributeError ''items'')))"

definition clear_processes :: "string \<Rightarrow> (pydict, unit) prog" where
  "clear_processes k st =
     (case current_processes k st of
        PDict _ \<Rightarrow> set_target k ''processes'' (PDict []) st
      | PList _ \<Rightarrow> set_target k ''processes'' (PList []) st
      | _ \<Rightarrow> (st, Inl (AttributeError ''clear'')))"

text \<open>\<open>target.setdefault("processes", {})\<close>.\<close>

definition default_processes :: "string \<Rightarrow> (pydict, unit) prog" where
  "default_processes k st =
     (case dget st k of
        PDict d \<Rightarrow> (case map_of d ''processes'' of
                      None \<Rightarrow> set_target k ''processes'' (PDict []) st
                    | Some _ \<Rightarrow> (st, Inr ()))
      | _ \<Rightarrow> (st, Inl (AttributeError ''setdefault'')))"

text \<open>\<open>target = agent_state.setdefault(session_key, {})\<close>, the other fields, and the processes.\<close>

definition ensure_session :: "string \<Rightarrow> pydict \<Rightarrow> pydict" where
  "ensure_session k st = (case map_of st k of None \<Rightarrow> AList.update k (PDict []) st | Some _ \<Rightarrow> st)"

definition merge_fields :: "string \<Rightarrow> pydict \<Rightarrow> (pydict, unit) prog" where
  "merge_fields k data =
     forP (\<lambda>p. set_target k (fst p) (snd p)) (filter (\<lambda>p. fst p \<noteq> ''processes'') data)"

definition merge_incoming :: "bool \<Rightarrow> string \<Rightarrow> pydict \<Rightarrow> (pydict, unit) prog" where
  "merge_incoming is_sync k data =
     (let incoming = dget_or data ''processes'' (PDict []) in
      if is_sync
      then (case incoming of
              PDict ps \<Rightarrow> set_target k ''processes'' (PDict ps)
            | _ \<Rightarrow> raiseP (AttributeError ''items''))
      else bindP (default_processes k) (\<lambda>_.
             if \<not> truthy incoming \<and> py_eq_int (dget data ''process_count'') 0
             then clear_processes k
             else merge_processes k incoming))"

definition merge_session :: "bool \<Rightarrow> string \<times> pyval \<Rightarrow> (pydict, unit) prog" where
  "merge_session is_sync e st =
     (case snd e of
        PDict data \<Rightarrow>
          bindP (merge_fields (fst e) data) (\<lambda>_. merge_incoming is_sync (fst e) data)
            (ensure_session (fst e) st)
      | _ \<Rightarrow> (st, Inr ()))"

text \<open>A full report drops the sessions it does not name.\<close>

definition drop_stale_sessions :: "pydict \<Rightarrow> pydict \<Rightarrow> pydict" where
  "drop_stale_sessions status st =
     (let incoming = map fst (filter (\<lambda>(_, v). is_dict v) status) in
      filter (\<lambda>(k, _). starts_with ''__'' k \<or> k \<in> set incoming) st)"

section \<open>Process events\<close>

type_synonym detection = "(string \<times> prev_process) list \<times> telemetry"

definition detect_process ::
    "string \<Rightarrow> (string \<times> prev_process) list \<Rightarrow> pyval \<Rightarrow> string \<times> pyval \<Rightarrow> (detection, unit) prog" where
  "detect_process agent_id prev session_id p d =
     (let (pid_str, v) = p; (current, t) = d in
      case v of
        PDict pdata \<Rightarrow>
          (let is_running = dget_or pdata ''is_running'' (PBool False);
               exe = dget_or pdata ''exe'' (PStr ''unknown'');
               current1 = AList.update pid_str
                 \<lparr>pp_running = is_running, pp_exe = exe, pp_session_id = session_id\<rparr> current;
               report = (\<lambda>kind detail.
                 case parse_int pid_str of
                   None \<Rightarrow> ((current1, t), Inl (ValueError ''invalid literal for int()''))
                 | Some pid \<Rightarrow>
                     ((current1, schedule_event \<lparr>ea_agent = agent_id, ea_type = kind,
                        ea_session = session_id, ea_pid = pid, ea_exe = exe, ea_detail = detail\<rparr> t), Inr ()))
           in case map_of prev pid_str of
                None \<Rightarrow> if truthy is_running then report ''start'' None else ((current1, t), Inr ())
              | Some was \<Rightarrow>
                  if truthy (pp_running was) \<and> \<not> truthy is_running
                  then (let exit_code = dget_or pdata ''exit_code'' (PInt (- 1)) in
                        report (if py_eq_int exit_code 0 then ''stop'' else ''fail'')
                          (Some (''exit_code='' @ py_str exit_code)))
                  else ((current1, t), Inr ()))
      | _ \<Rightarrow> (d, Inr ()))"

definition detect_session ::
    "string \<Rightarrow> (string \<times> prev_process) list \<Rightarrow> string \<times> pyval \<Rightarrow> (detection, unit) prog" where
  "detect_session agent_id prev e d =
     (let (k, v) = e in
      case v of
        PDict data \<Rightarrow>
          if starts_with ''__'' k then (d, Inr ())
          else
            (case dget_or data ''processes'' (PDict []) of
               PDict ps \<Rightarrow>
                 forP (detect_process agent_id prev (dget_or data ''session_id'' (PInt 0))) ps d
             | _ \<Rightarrow> (d, Inl (AttributeError ''items'')))
      | _ \<Rightarrow> (d, Inr ()))"

definition detect_disappeared ::
    "string \<Rightarrow> (string \<times> prev_process) list \<Rightarrow> string \<times> prev_process \<Rightarrow> (telemetry, unit) prog" where
  "detect_disappeared agent_id current p t =
     (let (pid_str, was) = p in
      if map_of current pid_str = None \<and> truthy (pp_running was)
      then (case parse_int pid_str of
              None \<Rightarrow> (t, Inl (ValueError ''invalid literal for int()''))
            | Some pid \<Rightarrow>
                (schedule_event \<lparr>ea_agent = agent_id, ea_type = ''disappeared'',
                   ea_session = pp_session_id was, ea_pid = pid, ea_exe = pp_exe was,
                   ea_detail = None\<rparr> t, Inr ()))
      else (t, Inr ()))"

type_synonym live = "agent_runtime \<times> telemetry"

definition detect_events :: "string \<Rightarrow> pydict \<Rightarrow> (live, unit) prog" where
  "detect_events agent_id merged w =
     (let (rt, t) = w;
          prev = the_or (map_of (prev_process_states rt) agent_id) [];
          rt1 = rt\<lparr>prev_process_states := AList.update agent_id prev (prev_process_states rt)\<rparr>;
          ((current, t1), r1) = forP (detect_session agent_id prev) merged ([], t)
      in case r1 of
           Inl e \<Rightarrow> ((rt1, t1), Inl e)
         | Inr _ \<Rightarrow>
             (let (t2, r2) = forP (detect_disappeared agent_id current) prev t1 in
              case r2 of
                Inl e \<Rightarrow> ((rt1, t2), Inl e)
              | Inr _ \<Rightarrow>
                  ((rt1\<lparr>prev_process_states :=
                      AList.update agent_id current (prev_process_states rt1)\<rparr>, t2), Inr ())))"

text \<open>
  The three steps of \<open>merge_heartbeat\<close>: the merge into the state, the samples, the events.
\<close>

definition merge_state :: "heartbeat_data \<Rightarrow> (pydict, unit) prog" where
  "merge_state hb st =
     (let status = the_or (hb_agent_status hb) [];
          st1 = (case hb_system_metrics hb of
                   None \<Rightarrow> st
                 | Some m \<Rightarrow> AList.update ''__agent_metrics'' (PDict m) st);
          st2 = (if hb_sync hb then drop_stale_sessions status st1 else st1)
      in forP (merge_session (hb_sync hb)) status st2)"

definition merge_heartbeat :: "int \<Rightarrow> heartbeat_data \<Rightarrow> (live, unit) prog" where
  "merge_heartbeat now hb w =
     (let (rt, t) = w;
          agent_id = str_or (hb_client_id hb) ''unknown_agent'';
          rt1 = mark_agent_connection_state now agent_id True rt;
          (st, r) = merge_state hb (agent_state_of agent_id rt1);
          rt2 = set_agent_state agent_id st rt1
      in case r of
           Inl e \<Rightarrow> ((rt2, t), Inl e)
         | Inr _ \<Rightarrow>
             (let (t1, r1) = ingest_heartbeat now agent_id st t in
              case r1 of
                Inl e \<Rightarrow> ((rt2, t1), Inl e)
              | Inr _ \<Rightarrow> detect_events agent_id st (rt2, t1)))"

section \<open>The shape of agent states\<close>

definition session_key :: "string \<Rightarrow> bool" where
  "session_key k \<longleftrightarrow> \<not> starts_with ''__'' k"

definition entry_ok :: "string \<Rightarrow> pyval \<Rightarrow> bool" where
  "entry_ok k v \<longleftrightarrow>
     (session_key k \<longrightarrow> is_dict v \<and> (\<forall>p. map_of (as_dict v) ''processes'' = Some p \<longrightarrow> is_dict p)) \<and>
     (k = ''__agent_connection'' \<longrightarrow> is_dict v \<or> v = PNone)"

definition state_ok :: "pydict \<Rightarrow> bool" where
  "state_ok st \<longleftrightarrow> distinct (map fst st) \<and> (\<forall>k v. map_of st k = Some v \<longrightarrow> entry_ok k v)"

lemma state_okI:
  "distinct (map fst st) \<Longrightarrow> (\<And>k v. map_of st k = Some v \<Longrightarrow> entry_ok k v) \<Longrightarrow> state_ok st"
  by (simp add: state_ok_def)

lemma state_okD:
  assumes "state_ok st"
  shows "distinct (map fst st)" "map_of st k = Some v \<Longrightarrow> entry_ok k v"
  using assms by (auto simp: state_ok_def)

lemma state_ok_Nil [simp]: "state_ok []"
  by (simp add: state_ok_def)

lemma state_ok_update: "state_ok st \<Longrightarrow> entry_ok k v \<Longrightarrow> state_ok (AList.update k v st)"
  by (rule state_okI) (auto dest: state_okD split: if_splits)

lemma state_ok_filter:
  assumes "state_ok st"
  shows "state_ok (filter (\<lambda>(k, v). P k v) st)"
proof (rule state_okI)
  show "distinct (map fst (filter (\<lambda>(k, v). P k v) st))"
    using state_okD(1) [OF assms] by (rule distinct_map_filter)
  fix k v assume "map_of (filter (\<lambda>(k, v). P k v) st) k = Some v"
  then have "(k, v) \<in> set st" by (auto dest: map_of_SomeD)
  then have "map_of st k = Some v" using state_okD(1) [OF assms] by (metis map_of_eq_Some_iff)
  then show "entry_ok k v" by (rule state_okD(2) [OF assms])
qed

lemma entry_ok_dict [simp]: "entry_ok k (PDict d) \<longleftrightarrow>
    (session_key k \<longrightarrow> (\<forall>p. map_of d ''processes'' = Some p \<longrightarrow> is_dict p))"
  by (simp add: entry_ok_def)

lemma state_ok_set_target:
  assumes "state_ok st" "session_key k \<Longrightarrow> key = ''processes'' \<Longrightarrow> is_dict v"
  shows "state_ok (fst (set_target k key v st))"
proof (cases "dget st k")
  case (PDict d)
  then have "map_of st k = Some (PDict d)" by (auto simp: dget_def split: option.splits)
  then have "entry_ok k (PDict d)" using state_okD(2) [OF assms(1)] by blast
  then show ?thesis
    using PDict assms by (auto simp: set_target_def intro!: state_ok_update)
qed (use assms in \<open>auto simp: set_target_def\<close>)

lemma current_processes_dict:
  assumes "state_ok st" "session_key k" "current_processes k st \<noteq> PNone"
  shows "is_dict (current_processes k st)"
proof -
  obtain v where v: "map_of st k = Some v"
    using assms(3) by (auto simp: current_processes_def dget_def split: option.splits)
  then have "entry_ok k v" by (rule state_okD(2) [OF assms(1)])
  then show ?thesis
    using assms(2,3) v by (auto simp: current_processes_def dget_def entry_ok_def split: option.splits)
qed

lemma state_ok_merge_process: "state_ok st \<Longrightarrow> state_ok (fst (merge_process k p st))"
  by (auto simp: merge_process_def Let_def split_beta intro!: state_ok_set_target
      split: pyval.splits option.splits sum.splits)

lemma state_ok_merge_processes: "state_ok st \<Longrightarrow> state_ok (fst (merge_processes k v st))"
  by (auto simp: merge_processes_def intro!: forP_invariant [where P = state_ok] state_ok_merge_process
      split: pyval.splits)

lemma state_ok_clear: "state_ok st \<Longrightarrow> state_ok (fst (clear_processes k st))"
  using current_processes_dict [of st k]
  by (auto simp: clear_processes_def intro!: state_ok_set_target split: pyval.splits)

lemma state_ok_default: "state_ok st \<Longrightarrow> state_ok (fst (default_processes k st))"
  by (auto simp: default_processes_def intro!: state_ok_set_target split: pyval.splits option.splits)

lemma bindP_invariant:
  assumes "P (fst (m s))" "\<And>x s'. m s = (s', Inr x) \<Longrightarrow> P (fst (f x s'))"
  shows "P (fst (bindP m f s))"
  using assms by (cases "m s") (auto simp: bindP_def split: sum.splits)

lemma state_ok_ensure: "state_ok st \<Longrightarrow> state_ok (ensure_session k st)"
  by (auto simp: ensure_session_def intro!: state_ok_update split: option.splits)

lemma state_ok_merge_fields: "state_ok st \<Longrightarrow> state_ok (fst (merge_fields k data st))"
  unfolding merge_fields_def
  by (rule forP_invariant [where P = state_ok]) (auto intro!: state_ok_set_target)

lemma state_ok_merge_incoming:
  assumes st: "state_ok st"
  shows "state_ok (fst (merge_incoming b k data st))"
proof (cases b)
  case True
  then show ?thesis
    using st by (simp add: merge_incoming_def state_ok_set_target split: pyval.splits)
next
  case False
  have "state_ok (fst (bindP (default_processes k) (\<lambda>_.
      if \<not> truthy (dget_or data ''processes'' (PDict [])) \<and> py_eq_int (dget data ''process_count'') 0
      then clear_processes k else merge_processes k (dget_or data ''processes'' (PDict []))) st))"
  proof (rule bindP_invariant)
    show "state_ok (fst (default_processes k st))" using st by (rule state_ok_default)
  next
    fix y s2 assume "default_processes k st = (s2, Inr y)"
    then have "state_ok s2" using state_ok_default [OF st, of k] by simp
    then show "state_ok (fst ((if \<not> truthy (dget_or data ''processes'' (PDict []))
        \<and> py_eq_int (dget data ''process_count'') 0 then clear_processes k
        else merge_processes k (dget_or data ''processes'' (PDict []))) s2))"
      by (simp add: state_ok_clear state_ok_merge_processes)
  qed
  then show ?thesis using False by (simp add: merge_incoming_def Let_def)
qed

lemma state_ok_merge_session:
  assumes "state_ok st"
  shows "state_ok (fst (merge_session b e st))"
proof (cases "snd e")
  case (PDict data)
  have ok: "state_ok (fst (merge_fields (fst e) data (ensure_session (fst e) st)))"
    by (intro state_ok_merge_fields state_ok_ensure assms)
  show ?thesis
    unfolding merge_session_def PDict pyval.case
  proof (rule bindP_invariant)
    show "state_ok (fst (merge_fields (fst e) data (ensure_session (fst e) st)))" by (rule ok)
  next
    fix x s' assume "merge_fields (fst e) data (ensure_session (fst e) st) = (s', Inr x)"
    then show "state_ok (fst (merge_incoming b (fst e) data s'))"
      using ok by (simp add: state_ok_merge_incoming)
  qed
qed (use assms in \<open>simp_all add: merge_session_def\<close>)

lemma session_key_special [simp]:
  "\<not> session_key ''__agent_metrics''" "\<not> session_key ''__agent_connection''"
  by (simp_all add: session_key_def starts_with_def)

lemma entry_ok_special [simp]: "entry_ok ''__agent_metrics'' v" "entry_ok ''__agent_connection'' PNone"
  by (simp_all add: entry_ok_def)

lemma state_ok_merge:
  assumes "state_ok st"
  shows "state_ok (fst (merge_state hb st))"
  unfolding merge_state_def Let_def
  by (rule forP_invariant [where P = state_ok])
    (use assms in \<open>auto simp: drop_stale_sessions_def Let_def
       intro!: state_ok_merge_session state_ok_filter state_ok_update split: option.splits\<close>)

section \<open>Heartbeats as maps\<close>

text \<open>
  The processes of a session as a map, and what a well-formed report makes of it: a full report
  replaces the processes of every session, an incremental one changes those it names.
\<close>

definition process_at :: "pydict \<Rightarrow> string \<Rightarrow> string \<Rightarrow> pyval option" where
  "process_at st k pid = map_of (as_dict (current_processes k st)) pid"

definition reported :: "pydict \<Rightarrow> string \<Rightarrow> pydict" where
  "reported status k = as_dict (dget_or (as_dict (dget status k)) ''processes'' (PDict []))"

definition merged_process ::
    "bool \<Rightarrow> pydict \<Rightarrow> (string \<Rightarrow> string \<Rightarrow> pyval option) \<Rightarrow> string \<Rightarrow> string \<Rightarrow> pyval option" where
  "merged_process sync status old k pid =
     (if map_of status k = None then (if sync then None else old k pid)
      else if sync then map_of (reported status k) pid
      else if reported status k = [] \<and> py_eq_int (dget (as_dict (dget status k)) ''process_count'') 0
      then None
      else
        (case map_of (reported status k) pid of
           None \<Rightarrow> old k pid
         | Some info \<Rightarrow>
             if stopped_info info then None
             else Some (PDict (dupdate (as_dict (the_or (old k pid) (PDict []))) (as_dict info)))))"

definition report_entry_ok :: "string \<times> pyval \<Rightarrow> bool" where
  "report_entry_ok e \<longleftrightarrow> session_key (fst e) \<and> is_dict (snd e) \<and>
     is_dict (dget_or (as_dict (snd e)) ''processes'' (PDict [])) \<and>
     (let ps = as_dict (dget_or (as_dict (snd e)) ''processes'' (PDict [])) in
      distinct (map fst ps) \<and> list_all (\<lambda>p. is_dict (snd p) \<and> distinct (map fst (as_dict (snd p)))) ps)"

definition report_ok :: "pydict \<Rightarrow> bool" where
  "report_ok status \<longleftrightarrow> distinct (map fst status) \<and> list_all report_entry_ok status"

definition processes_ok :: "pydict \<Rightarrow> bool" where
  "processes_ok st \<longleftrightarrow>
     (\<forall>k pid v. session_key k \<longrightarrow> process_at st k pid = Some v \<longrightarrow> is_dict v)"

lemma update_same: "map_of st k = Some v \<Longrightarrow> AList.update k v st = st"
  by (induction st) (auto split: if_splits)

lemma dget_Some [simp]: "map_of st k = Some v \<Longrightarrow> dget st k = v"
  by (simp add: dget_def)

lemma set_target_dict:
  "map_of st k = Some (PDict d) \<Longrightarrow>
   set_target k key v st = (AList.update k (PDict (AList.update key v d)) st, Inr ())"
  by (simp add: set_target_def)

lemma set_targets:
  "map_of st k = Some (PDict d) \<Longrightarrow>
   forP (\<lambda>p. set_target k (fst p) (snd p)) l st = (AList.update k (PDict (dupdate d l)) st, Inr ())"
proof (induction l arbitrary: st d)
  case Nil
  then show ?case by (simp add: update_same)
next
  case (Cons p l)
  have "set_target k (fst p) (snd p) st = (AList.update k (PDict (AList.update (fst p) (snd p) d)) st, Inr ())"
    using Cons.prems by (rule set_target_dict)
  then show ?case
    using Cons.IH [of "AList.update k (PDict (AList.update (fst p) (snd p) d)) st"
        "AList.update (fst p) (snd p) d"]
    by (simp add: update_last dupdate_def split_beta)
qed

text \<open>The processes after the loop of an incremental report.\<close>

definition merge_one :: "string \<times> pyval \<Rightarrow> pydict \<Rightarrow> pydict" where
  "merge_one p procs =
     (if stopped_info (snd p) then AList.delete (fst p) procs
      else AList.update (fst p)
        (case map_of procs (fst p) of
           None \<Rightarrow> snd p
         | Some old \<Rightarrow> PDict (dupdate (as_dict old) (as_dict (snd p)))) procs)"

lemma merge_process_dict:
  assumes "map_of st k = Some (PDict d)" "map_of d ''processes'' = Some (PDict procs)"
    and "is_dict (snd p)" "\<And>v. map_of procs (fst p) = Some v \<Longrightarrow> is_dict v"
  shows "merge_process k p st =
    (AList.update k (PDict (AList.update ''processes'' (PDict (merge_one p procs)) d)) st, Inr ())"
proof -
  have "current_processes k st = PDict procs" using assms(1,2) by (simp add: current_processes_def)
  then show ?thesis
    using assms by (auto simp: merge_process_def merge_one_def split_beta set_target_dict update_process_def
        is_dict_def split: option.splits pyval.splits)
qed

lemma merge_processes_dict:
  assumes "map_of st k = Some (PDict d)" "map_of d ''processes'' = Some (PDict procs)"
    and "list_all (\<lambda>p. is_dict (snd p)) ps" "\<And>pid v. map_of procs pid = Some v \<Longrightarrow> is_dict v"
  shows "forP (merge_process k) ps st =
    (AList.update k (PDict (AList.update ''processes'' (PDict (fold merge_one ps procs)) d)) st, Inr ())"
  using assms
proof (induction ps arbitrary: st d procs)
  case Nil
  then show ?case by (simp add: update_same)
next
  case (Cons p ps)
  let ?d = "AList.update ''processes'' (PDict (merge_one p procs)) d"
  let ?st = "AList.update k (PDict ?d) st"
  have step: "merge_process k p st = (?st, Inr ())"
    by (rule merge_process_dict) (use Cons.prems in auto)
  have "\<And>pid v. map_of (merge_one p procs) pid = Some v \<Longrightarrow> is_dict v"
    using Cons.prems by (auto simp: merge_one_def split: if_splits option.splits)
  then have "forP (merge_process k) ps ?st = (AList.update k (PDict (AList.update ''processes''
      (PDict (fold merge_one ps (merge_one p procs))) ?d)) ?st, Inr ())"
    using Cons.prems by (intro Cons.IH) auto
  then show ?case using step by (simp add: update_last)
qed

lemma map_of_fold_merge_one:
  assumes "distinct (map fst ps)"
  shows "map_of (fold merge_one ps procs) pid =
    (case map_of ps pid of
       None \<Rightarrow> map_of procs pid
     | Some info \<Rightarrow> if stopped_info info then None
         else Some (case map_of procs pid of None \<Rightarrow> info
                    | Some old \<Rightarrow> PDict (dupdate (as_dict old) (as_dict info))))"
  using assms
proof (induction ps arbitrary: procs)
  case Nil
  then show ?case by simp
next
  case (Cons p ps)
  obtain q info where p: "p = (q, info)" by (cases p)
  have "map_of ps q = None" using Cons.prems p by (simp add: map_of_eq_None_iff)
  then show ?case
    using Cons.IH [of "merge_one p procs"] Cons.prems p
    by (auto simp: merge_one_def split: option.splits)
qed

text \<open>One session of a report, and the whole report.\<close>

lemma process_at_update:
  "process_at (AList.update k v st) k' pid =
     (if k' = k then map_of (as_dict (dget (as_dict v) ''processes'')) pid else process_at st k' pid)"
  by (simp add: process_at_def current_processes_def)

lemma map_of_filter_other: "map_of (filter (\<lambda>p. fst p \<noteq> a) d) k = (if k = a then None else map_of d k)"
  by (induction d) auto

lemma dupdate_keeps_key:
  "map_of (rev e) k = None \<Longrightarrow> map_of (dupdate d e) k = map_of d k"
  by (simp add: map_of_dupdate)

lemma ensure_session_maps:
  "map_of (ensure_session k st) k = Some (the_or (map_of st k) (PDict []))"
  "k' \<noteq> k \<Longrightarrow> map_of (ensure_session k st) k' = map_of st k'"
  "process_at (ensure_session k st) = process_at st"
  by (auto simp: ensure_session_def process_at_def current_processes_def dget_def fun_eq_iff
      split: option.splits)

lemma session_entry_dict:
  assumes "state_ok st" "session_key k" "map_of st k = Some v"
  shows "v = PDict (as_dict v)" "map_of (as_dict v) ''processes'' = Some p \<Longrightarrow> p = PDict (as_dict p)"
proof -
  have "entry_ok k v" by (rule state_okD(2) [OF assms(1,3)])
  then show "v = PDict (as_dict v)" "map_of (as_dict v) ''processes'' = Some p \<Longrightarrow> p = PDict (as_dict p)"
    using assms(2) by (auto simp: entry_ok_def is_dict_def split: pyval.splits)
qed

lemma merge_incoming_sync:
  assumes "map_of st k = Some (PDict d)" "dget_or data ''processes'' (PDict []) = PDict ps"
  shows "merge_incoming True k data st =
    (AList.update k (PDict (AList.update ''processes'' (PDict ps) d)) st, Inr ())"
  using assms by (simp add: merge_incoming_def set_target_dict)

lemma default_processes_eq:
  assumes "map_of st k = Some (PDict d)"
  shows "default_processes k st =
    (AList.update k (PDict (AList.update ''processes'' (the_or (map_of d ''processes'') (PDict [])) d)) st, Inr ())"
  using assms by (auto simp: default_processes_def set_target_dict update_same split: option.splits)

lemma merge_incoming_incremental:
  assumes d: "map_of st k = Some (PDict d)" "dget_or data ''processes'' (PDict []) = PDict ps"
    and old: "the_or (map_of d ''processes'') (PDict []) = PDict procs"
    and dicts: "list_all (\<lambda>p. is_dict (snd p)) ps" "\<And>pid v. map_of procs pid = Some v \<Longrightarrow> is_dict v"
  shows "merge_incoming False k data st =
    (AList.update k (PDict (AList.update ''processes'' (PDict
        (if ps = [] \<and> py_eq_int (dget data ''process_count'') 0 then [] else fold merge_one ps procs)) d)) st, Inr ())"
proof -
  let ?d = "AList.update ''processes'' (PDict procs) d"
  let ?st = "AList.update k (PDict ?d) st"
  have m: "map_of ?st k = Some (PDict ?d)" "map_of ?d ''processes'' = Some (PDict procs)" by simp_all
  have "default_processes k st = (?st, Inr ())" using default_processes_eq [OF d(1)] old by simp
  then have "merge_incoming False k data st =
      (if ps = [] \<and> py_eq_int (dget data ''process_count'') 0 then clear_processes k
       else forP (merge_process k) ps) ?st"
    by (simp add: merge_incoming_def d(2) merge_processes_def)
  moreover have "clear_processes k ?st =
      (AList.update k (PDict (AList.update ''processes'' (PDict []) d)) st, Inr ())"
    by (simp add: clear_processes_def current_processes_def set_target_dict update_last)
  moreover have "forP (merge_process k) ps ?st =
      (AList.update k (PDict (AList.update ''processes'' (PDict (fold merge_one ps procs)) d)) st, Inr ())"
    using merge_processes_dict [OF m dicts] by (simp add: update_last)
  ultimately show ?thesis by simp
qed

definition next_processes :: "bool \<Rightarrow> pydict \<Rightarrow> pydict \<Rightarrow> pydict \<Rightarrow> pydict" where
  "next_processes sync data ps procs =
     (if sync then ps
      else if ps = [] \<and> py_eq_int (dget data ''process_count'') 0 then []
      else fold merge_one ps procs)"

lemma report_entryD:
  assumes "report_entry_ok (k, v)"
  shows "session_key k" "v = PDict (as_dict v)"
    "dget_or (as_dict v) ''processes'' (PDict []) = PDict (reported [(k, v)] k)"
    "distinct (map fst (reported [(k, v)] k))"
    "list_all (\<lambda>p. is_dict (snd p)) (reported [(k, v)] k)"
    "list_all (\<lambda>p. distinct (map fst (as_dict (snd p)))) (reported [(k, v)] k)"
  using assms
  by (auto simp: report_entry_ok_def is_dict_def reported_def Let_def list_all_iff split: pyval.splits)

lemma merge_session_eq:
  assumes st: "state_ok st" "processes_ok st" and e: "report_entry_ok (k, v)"
  shows "\<exists>d procs. merge_session sync (k, v) st =
      (AList.update k (PDict (AList.update ''processes''
         (PDict (next_processes sync (as_dict v) (reported [(k, v)] k) procs)) d)) (ensure_session k st), Inr ()) \<and>
    map_of procs = process_at st k"
proof -
  note e' = report_entryD [OF e]
  define old where "old = as_dict (the_or (map_of st k) (PDict []))"
  define d where "d = dupdate old (filter (\<lambda>p. fst p \<noteq> ''processes'') (as_dict v))"
  define procs where "procs = as_dict (the_or (map_of old ''processes'') (PDict []))"
  let ?st = "ensure_session k st"
  let ?st1 = "AList.update k (PDict d) ?st"
  have m: "map_of ?st k = Some (PDict old)"
    using session_entry_dict(1) [OF st(1) e'(1)]
    by (cases "map_of st k") (auto simp: ensure_session_maps old_def)
  have f: "merge_fields k (as_dict v) ?st = (?st1, Inr ())"
    using set_targets [OF m] by (simp add: merge_fields_def d_def)
  have dp: "map_of d ''processes'' = map_of old ''processes''"
    unfolding d_def by (rule dupdate_keeps_key) (simp add: rev_filter map_of_filter_other)
  have old': "the_or (map_of d ''processes'') (PDict []) = PDict procs"
    using session_entry_dict(2) [OF st(1) e'(1)] dp
    by (cases "map_of st k"; cases "map_of old ''processes''") (auto simp: procs_def old_def)
  have pa: "map_of procs = process_at st k"
    by (cases "map_of st k"; cases "map_of old ''processes''")
      (auto simp: procs_def old_def process_at_def current_processes_def dget_def fun_eq_iff)
  have dicts: "map_of procs pid = Some x \<Longrightarrow> is_dict x" for pid x
    using st(2) e'(1) unfolding pa processes_ok_def by blast
  have "merge_session sync (k, v) st = merge_incoming sync k (as_dict v) ?st1"
    using f e'(2) by (cases v) (simp_all add: merge_session_def)
  also have "\<dots> = (AList.update k (PDict (AList.update ''processes''
         (PDict (next_processes sync (as_dict v) (reported [(k, v)] k) procs)) d)) ?st, Inr ())"
  proof (cases sync)
    case True
    then show ?thesis
      using merge_incoming_sync [of ?st1 k d, OF _ e'(3)] by (simp add: next_processes_def update_last)
  next
    case False
    then show ?thesis
      using merge_incoming_incremental [of ?st1 k d, OF _ e'(3) old' e'(5) dicts]
      by (simp add: next_processes_def update_last)
  qed
  finally show ?thesis using pa by blast
qed

lemma list_all_map_of: "list_all (\<lambda>p. P (snd p)) ps \<Longrightarrow> map_of ps k = Some y \<Longrightarrow> P y"
  by (induction ps) (auto split: if_splits)

lemma is_dict_next_processes:
  assumes "\<And>pid x. map_of procs pid = Some x \<Longrightarrow> is_dict x" "list_all (\<lambda>p. is_dict (snd p)) ps"
    "distinct (map fst ps)" "map_of (next_processes sync data ps procs) pid = Some x"
  shows "is_dict x"
proof -
  have "map_of ps pid = Some y \<Longrightarrow> is_dict y" for y
    by (rule list_all_map_of [OF assms(2)])
  then show ?thesis
    using assms(1,4) by (auto simp: next_processes_def map_of_fold_merge_one [OF assms(3)]
        split: if_splits option.splits)
qed

lemma map_of_next_processes:
  assumes "list_all (\<lambda>p. is_dict (snd p)) (reported [(k, v)] k)"
    "list_all (\<lambda>p. distinct (map fst (as_dict (snd p)))) (reported [(k, v)] k)"
    "distinct (map fst (reported [(k, v)] k))" "map_of procs = old k"
  shows "map_of (next_processes sync (as_dict v) (reported [(k, v)] k) procs) pid =
    merged_process sync [(k, v)] old k pid"
proof -
  let ?ps = "reported [(k, v)] k"
  have "map_of ?ps pid = Some y \<Longrightarrow> PDict (dupdate [] (as_dict y)) = y" for y
    using list_all_map_of [OF assms(1), of pid y] list_all_map_of [of "\<lambda>v. distinct (map fst (as_dict v))", OF assms(2), of pid y]
    by (cases y) (simp_all add: dupdate_distinct_id)
  then show ?thesis
    by (auto simp: next_processes_def merged_process_def map_of_fold_merge_one [OF assms(3)] assms(4)
        split: option.splits)
qed

lemma merge_session_report:
  assumes st: "state_ok st" "processes_ok st" and e: "report_entry_ok (k, v)"
  shows "\<exists>st'. merge_session sync (k, v) st = (st', Inr ()) \<and> state_ok st' \<and> processes_ok st' \<and>
    (\<forall>k'. (map_of st' k' = None) = (k' \<noteq> k \<and> map_of st k' = None)) \<and>
    (\<forall>k' pid. process_at st' k' pid =
       (if k' = k then merged_process sync [(k, v)] (process_at st) k pid else process_at st k' pid))"
proof -
  note e' = report_entryD [OF e]
  obtain d procs where eq: "merge_session sync (k, v) st =
      (AList.update k (PDict (AList.update ''processes''
         (PDict (next_processes sync (as_dict v) (reported [(k, v)] k) procs)) d)) (ensure_session k st), Inr ())"
    and procs: "map_of procs = process_at st k"
    using merge_session_eq [OF st e] by blast
  define st' where "st' = fst (merge_session sync (k, v) st)"
  have pa: "process_at st' k' pid = (if k' = k then merged_process sync [(k, v)] (process_at st) k pid
      else process_at st k' pid)" for k' pid
    using map_of_next_processes [where old = "process_at st", OF e'(5,6,4) procs]
    by (simp add: st'_def eq process_at_update ensure_session_maps)
  have "is_dict x" if "session_key k'" "process_at st' k' pid = Some x" for k' pid x
  proof (cases "k' = k")
    case True
    have "map_of procs pid = Some y \<Longrightarrow> is_dict y" for pid y
      using st(2) e'(1) unfolding procs processes_ok_def by blast
    then show ?thesis
      using that True is_dict_next_processes [OF _ e'(5,4)]
      by (metis (no_types, lifting) map_of_next_processes [where old = "process_at st", OF e'(5,6,4) procs] pa)
  next
    case False
    then show ?thesis using that st(2) pa by (simp add: processes_ok_def)
  qed
  then have "processes_ok st'" by (simp add: processes_ok_def)
  moreover have "state_ok st'" unfolding st'_def by (rule state_ok_merge_session [OF st(1)])
  moreover have "(map_of st' k' = None) = (k' \<noteq> k \<and> map_of st k' = None)" for k'
    by (cases "k' = k") (simp_all add: st'_def eq ensure_session_maps)
  ultimately show ?thesis using pa eq by (intro exI [of _ st']) (simp add: st'_def)
qed

lemma merged_process_cong:
  assumes "map_of s k = map_of s' k" "old k pid = old' k pid"
  shows "merged_process sync s old k pid = merged_process sync s' old' k pid"
proof -
  have "dget s k = dget s' k" using assms(1) by (simp add: dget_def)
  then have "reported s k = reported s' k" by (simp add: reported_def)
  then show ?thesis
    using \<open>dget s k = dget s' k\<close> assms unfolding merged_process_def by (simp split: option.splits)
qed

lemma merge_sessions_report:
  assumes "state_ok st" "processes_ok st" "distinct (map fst l)" "list_all report_entry_ok l"
  shows "\<exists>st'. forP (merge_session sync) l st = (st', Inr ()) \<and> state_ok st' \<and> processes_ok st' \<and>
    (\<forall>k. (map_of st' k = None) = (map_of l k = None \<and> map_of st k = None)) \<and>
    (\<forall>k pid. process_at st' k pid =
       (if map_of l k = None then process_at st k pid else merged_process sync l (process_at st) k pid))"
  using assms
proof (induction l arbitrary: st)
  case Nil
  then show ?case by simp
next
  case (Cons e l)
  obtain k v where e: "e = (k, v)" by (cases e)
  obtain st1 where st1: "merge_session sync (k, v) st = (st1, Inr ())" "state_ok st1" "processes_ok st1"
    and keys1: "\<And>k'. (map_of st1 k' = None) = (k' \<noteq> k \<and> map_of st k' = None)"
    and at1: "\<And>k' pid. process_at st1 k' pid =
       (if k' = k then merged_process sync [(k, v)] (process_at st) k pid else process_at st k' pid)"
    using merge_session_report [OF Cons.prems(1,2), of k v sync] Cons.prems(4) e by auto
  obtain st2 where st2: "forP (merge_session sync) l st1 = (st2, Inr ())" "state_ok st2" "processes_ok st2"
    and keys2: "\<And>k'. (map_of st2 k' = None) = (map_of l k' = None \<and> map_of st1 k' = None)"
    and at2: "\<And>k' pid. process_at st2 k' pid =
       (if map_of l k' = None then process_at st1 k' pid else merged_process sync l (process_at st1) k' pid)"
    using Cons.IH [OF st1(2,3)] Cons.prems(3,4) by auto
  have n: "map_of l k = None" using Cons.prems(3) e by (simp add: map_of_eq_None_iff)
  have "process_at st2 k' pid = (if map_of (e # l) k' = None then process_at st k' pid
      else merged_process sync (e # l) (process_at st) k' pid)" for k' pid
  proof (cases "k' = k")
    case True
    then show ?thesis
      using n e at1 at2 merged_process_cong [of "[(k, v)]" k "e # l" "process_at st" pid "process_at st" sync]
      by simp
  next
    case False
    then show ?thesis
      using n e at1 at2 merged_process_cong [of l k' "e # l" "process_at st1" pid "process_at st" sync]
      by simp
  qed
  then show ?case using st1(1) st2 keys1 keys2 e by (intro exI [of _ st2]) auto
qed

lemma process_at_filter:
  "process_at (filter (\<lambda>(k, _). P k) st) k pid = (if P k then process_at st k pid else None)"
proof -
  have "map_of (filter (\<lambda>(k, _). P k) st) k = (if P k then map_of st k else None)"
    by (induction st) auto
  then show ?thesis by (simp add: process_at_def current_processes_def dget_def)
qed

lemma map_of_filter_key_case:
  "map_of (filter (\<lambda>(k, _). P k) st) k = (if P k then map_of st k else None)"
  by (induction st) auto

lemma merge_state_report:
  assumes st: "state_ok st" "processes_ok st" and rep: "report_ok (the_or (hb_agent_status hb) [])"
  shows "\<exists>st'. merge_state hb st = (st', Inr ()) \<and> state_ok st' \<and> processes_ok st' \<and>
    (\<forall>k. session_key k \<longrightarrow>
       (map_of st' k = None) = (map_of (the_or (hb_agent_status hb) []) k = None \<and> (hb_sync hb \<or> map_of st k = None)) \<and>
       (\<forall>pid. process_at st' k pid =
          merged_process (hb_sync hb) (the_or (hb_agent_status hb) []) (process_at st) k pid))"
proof -
  let ?status = "the_or (hb_agent_status hb) []"
  define st1 where "st1 = (case hb_system_metrics hb of None \<Rightarrow> st
    | Some m \<Rightarrow> AList.update ''__agent_metrics'' (PDict m) st)"
  define st2 where "st2 = (if hb_sync hb then drop_stale_sessions ?status st1 else st1)"
  have inc: "map fst (filter (\<lambda>(_, v). is_dict v) ?status) = map fst ?status"
  proof -
    have "filter (\<lambda>(_, v). is_dict v) ?status = ?status"
      using rep by (intro filter_True) (auto simp: report_ok_def list_all_iff report_entry_ok_def)
    then show ?thesis by simp
  qed
  have at1: "session_key k \<Longrightarrow> process_at st1 k pid = process_at st k pid \<and> map_of st1 k = map_of st k" for k pid
    by (auto simp: st1_def process_at_update split: option.splits)
  have at2: "session_key k \<Longrightarrow> process_at st2 k pid =
      (if hb_sync hb \<and> map_of ?status k = None then None else process_at st k pid)"
    and keys2: "session_key k \<Longrightarrow> map_of st2 k =
      (if hb_sync hb \<and> map_of ?status k = None then None else map_of st k)" for k pid
    using at1 [of k pid]
    by (simp_all add: st2_def drop_stale_sessions_def Let_def inc process_at_filter map_of_filter_key_case
        map_of_eq_None_iff) (simp_all add: session_key_def)
  have ok1: "state_ok st1" using st(1) by (auto simp: st1_def intro!: state_ok_update split: option.splits)
  then have ok2: "state_ok st2" by (auto simp: st2_def drop_stale_sessions_def Let_def intro!: state_ok_filter)
  have p2: "processes_ok st2"
    using st(2) at2 unfolding processes_ok_def by (metis option.distinct(1))
  obtain st' where st': "forP (merge_session (hb_sync hb)) ?status st2 = (st', Inr ())" "state_ok st'" "processes_ok st'"
    and keys': "\<And>k. (map_of st' k = None) = (map_of ?status k = None \<and> map_of st2 k = None)"
    and at': "\<And>k pid. process_at st' k pid = (if map_of ?status k = None then process_at st2 k pid
        else merged_process (hb_sync hb) ?status (process_at st2) k pid)"
    using merge_sessions_report [OF ok2 p2, of ?status "hb_sync hb"] rep by (auto simp: report_ok_def)
  have "merge_state hb st = (st', Inr ())"
    using st'(1) by (simp add: merge_state_def Let_def st1_def [symmetric] st2_def [symmetric])
  moreover have "process_at st' k pid = merged_process (hb_sync hb) ?status (process_at st) k pid"
    if "session_key k" for k pid
    using at' [of k pid] at2 [OF that, of pid]
      merged_process_cong [of ?status k ?status "process_at st2" pid "process_at st" "hb_sync hb"]
    by (cases "map_of ?status k = None") (auto simp: merged_process_def)
  moreover have "(map_of st' k = None) = (map_of ?status k = None \<and> (hb_sync hb \<or> map_of st k = None))"
    if "session_key k" for k
    using keys' [of k] keys2 [OF that] by auto
  ultimately show ?thesis using st'(2,3) by (intro exI [of _ st']) simp
qed

lemma detect_events_stats:
  "latest_stats (fst (fst (detect_events a st w))) = latest_stats (fst w)"
  "active_agents (fst (fst (detect_events a st w))) = active_agents (fst w)"
  "ar_closed (fst (fst (detect_events a st w))) = ar_closed (fst w)"
  by (simp_all add: detect_events_def Let_def split_beta split: sum.splits)

lemma merge_heartbeat_runtime:
  fixes rt :: agent_runtime and hb :: heartbeat_data
  defines "a \<equiv> str_or (hb_client_id hb) ''unknown_agent''"
  shows "latest_stats (fst (fst (merge_heartbeat now hb (rt, t)))) =
      AList.update a (fst (merge_state hb (agent_state_of a (mark_agent_connection_state now a True rt))))
        (latest_stats (mark_agent_connection_state now a True rt))"
    "active_agents (fst (fst (merge_heartbeat now hb (rt, t)))) = active_agents rt"
    "ar_closed (fst (fst (merge_heartbeat now hb (rt, t)))) = ar_closed rt"
  by (simp_all add: merge_heartbeat_def Let_def split_beta a_def detect_events_stats set_agent_state_def
      mark_agent_connection_state_def split: sum.splits)

lemma agent_state_of_set [simp]:
  "agent_state_of b (set_agent_state a st rt) = (if b = a then st else agent_state_of b rt)"
  by (simp add: agent_state_of_def set_agent_state_def)

lemma process_at_connection [simp]:
  "session_key k \<Longrightarrow> process_at (AList.update ''__agent_connection'' v st) k pid = process_at st k pid"
  by (auto simp: process_at_update)

section \<open>The watchdog\<close>

text \<open>
  One round of \<open>_heartbeat_watchdog\<close> (\<open>server.py\<close>): the exception of the search is not caught, it
  ends the background task. The result says whether the frontends get a new snapshot.
\<close>

fun timeout_agents :: "int \<Rightarrow> string list \<Rightarrow> agent_runtime \<Rightarrow> agent_runtime \<times> bool" where
  "timeout_agents now [] rt = (rt, False)"
| "timeout_agents now (a # as) rt =
     (let (rt1, b) = timeout_agent now a rt; (rt2, c) = timeout_agents now as rt1 in (rt2, b \<or> c))"

definition heartbeat_watchdog_round :: "int \<Rightarrow> (agent_runtime, bool) prog" where
  "heartbeat_watchdog_round now rt =
     (case get_timed_out_agents now HEARTBEAT_TIMEOUT_SECONDS rt of
        Inl e \<Rightarrow> (rt, Inl e)
      | Inr as \<Rightarrow> (let (rt', changed) = timeout_agents now as rt in (rt', Inr changed)))"

section \<open>Histories\<close>

definition runtime_ok :: "agent_runtime \<Rightarrow> bool" where
  "runtime_ok rt \<longleftrightarrow>
     distinct (map fst (latest_stats rt)) \<and> distinct (map fst (active_agents rt)) \<and>
     distinct (map fst (prev_process_states rt)) \<and>
     (\<forall>a st. map_of (latest_stats rt) a = Some st \<longrightarrow> state_ok st) \<and>
     dom (map_of (active_agents rt)) \<subseteq> dom (map_of (latest_stats rt))"

lemma runtime_okI:
  "distinct (map fst (latest_stats rt)) \<Longrightarrow> distinct (map fst (active_agents rt)) \<Longrightarrow>
   distinct (map fst (prev_process_states rt)) \<Longrightarrow>
   (\<And>a st. map_of (latest_stats rt) a = Some st \<Longrightarrow> state_ok st) \<Longrightarrow>
   dom (map_of (active_agents rt)) \<subseteq> dom (map_of (latest_stats rt)) \<Longrightarrow> runtime_ok rt"
  by (simp add: runtime_ok_def)

lemma runtime_okD:
  assumes "runtime_ok rt"
  shows "distinct (map fst (latest_stats rt))" "distinct (map fst (active_agents rt))"
    "distinct (map fst (prev_process_states rt))"
    "map_of (latest_stats rt) a = Some st \<Longrightarrow> state_ok st"
    "dom (map_of (active_agents rt)) \<subseteq> dom (map_of (latest_stats rt))"
  using assms by (simp_all add: runtime_ok_def del: map_of_eq_Some_iff)

lemma state_ok_agent_state: "runtime_ok rt \<Longrightarrow> state_ok (agent_state_of a rt)"
  by (cases "map_of (latest_stats rt) a") (auto simp: agent_state_of_def dest: runtime_okD)

lemma runtime_ok_set_state:
  "runtime_ok rt \<Longrightarrow> state_ok st \<Longrightarrow> runtime_ok (set_agent_state a st rt)"
  by (rule runtime_okI) (auto simp: set_agent_state_def dest: runtime_okD split: if_splits)

lemma runtime_ok_mark: "runtime_ok rt \<Longrightarrow> runtime_ok (mark_agent_connection_state now a b rt)"
  unfolding mark_agent_connection_state_def
  by (intro runtime_ok_set_state state_ok_update state_ok_agent_state)
    (simp_all add: entry_ok_def)

lemma runtime_ok_drop_active:
  "runtime_ok rt \<Longrightarrow> runtime_ok (rt\<lparr>active_agents := AList.delete a (active_agents rt)\<rparr>)"
  by (rule runtime_okI) (auto dest: runtime_okD split: if_splits)

lemma runtime_ok_close: "runtime_ok rt \<Longrightarrow> runtime_ok (close_socket ws rt)"
  unfolding runtime_ok_def close_socket_def by simp

lemma dget_connection:
  assumes "state_ok st"
  shows "is_dict (dget st ''__agent_connection'') \<or> dget st ''__agent_connection'' = PNone"
proof (cases "map_of st ''__agent_connection''")
  case (Some v)
  then show ?thesis using state_okD(2) [OF assms Some] by (simp add: entry_ok_def)
qed (simp add: dget_def)

lemma state_ok_special:
  "entry_ok ''__agent_connection'' c \<Longrightarrow> state_ok [(''__agent_metrics'', m), (''__agent_connection'', c)]"
  by (rule state_okI) (auto split: if_splits)

lemma runtime_ok_reset:
  assumes "runtime_ok rt"
  shows "runtime_ok (reset_agent_runtime_state now a rt)"
proof -
  have p: "runtime_ok (rt\<lparr>prev_process_states := AList.delete a (prev_process_states rt)\<rparr>)"
    by (rule runtime_okI) (use assms in \<open>auto dest: runtime_okD\<close>)
  show ?thesis
  proof (cases "map_of (latest_stats rt) a")
    case None
    then show ?thesis using p by (simp add: reset_agent_runtime_state_def Let_def)
  next
    case (Some st)
    have "is_dict (dget st ''__agent_connection'') \<or> dget st ''__agent_connection'' = PNone"
      by (rule dget_connection [OF runtime_okD(4) [OF assms Some]])
    then have "entry_ok ''__agent_connection'' (mark_disconnected now (dget st ''__agent_connection''))"
      by (auto simp: entry_ok_def mark_disconnected_def is_dict_def split: pyval.splits)
    then show ?thesis
      using p Some by (auto simp: reset_agent_runtime_state_def reset_state_def Let_def intro!: runtime_ok_set_state state_ok_special)
  qed
qed

lemma runtime_ok_register:
  assumes "runtime_ok rt"
  shows "runtime_ok (register_agent now a ws rt)"
proof -
  have "runtime_ok (mark_agent_connection_state now a True (rt\<lparr>active_agents := AList.update a ws (active_agents rt)\<rparr>))"
  proof (rule runtime_okI)
    fix b st assume "map_of (latest_stats (mark_agent_connection_state now a True
        (rt\<lparr>active_agents := AList.update a ws (active_agents rt)\<rparr>))) b = Some st"
    then have "map_of (latest_stats (mark_agent_connection_state now a True rt)) b = Some st"
      by (simp add: mark_agent_connection_state_def set_agent_state_def agent_state_of_def)
    then show "state_ok st" by (rule runtime_okD(4) [OF runtime_ok_mark [OF assms]])
  qed (use assms in \<open>auto simp: mark_agent_connection_state_def set_agent_state_def dest: runtime_okD split: if_splits\<close>)
  then show ?thesis
    by (simp add: register_agent_def Let_def runtime_ok_close split: option.splits)
qed

lemma runtime_ok_unregister: "runtime_ok rt \<Longrightarrow> runtime_ok (fst (unregister_agent now a ws rt))"
  by (simp add: unregister_agent_def Let_def runtime_ok_reset runtime_ok_drop_active)

lemma runtime_ok_timeout: "runtime_ok rt \<Longrightarrow> runtime_ok (fst (timeout_agent now a rt))"
  by (simp add: timeout_agent_def runtime_ok_reset runtime_ok_close runtime_ok_drop_active split: option.splits)

lemma runtime_ok_close_all: "runtime_ok rt \<Longrightarrow> runtime_ok (fst (close_all_connections now rt))"
proof -
  have "runtime_ok rt \<Longrightarrow> runtime_ok (fold (\<lambda>(a, ws) rt. reset_agent_runtime_state now a
      (close_socket ws (rt\<lparr>active_agents := AList.delete a (active_agents rt)\<rparr>))) l rt)" for l
    by (induction l arbitrary: rt) (auto simp: runtime_ok_reset runtime_ok_close runtime_ok_drop_active)
  then show "runtime_ok rt \<Longrightarrow> ?thesis" by (simp add: close_all_connections_def)
qed

lemma runtime_ok_remove: "runtime_ok rt \<Longrightarrow> runtime_ok (remove_agent a rt)"
  by (rule runtime_okI) (auto simp: remove_agent_def dest: runtime_okD split: if_splits)

lemma runtime_ok_watchdog: "runtime_ok rt \<Longrightarrow> runtime_ok (fst (heartbeat_watchdog_round now rt))"
proof -
  have "runtime_ok rt \<Longrightarrow> runtime_ok (fst (timeout_agents now as rt))" for as rt
    using runtime_ok_timeout by (induction as arbitrary: rt) (auto simp: split_beta)
  then show "runtime_ok rt \<Longrightarrow> ?thesis"
    by (simp add: heartbeat_watchdog_round_def split_beta split: sum.splits)
qed

lemma runtime_ok_detect:
  "runtime_ok (fst w) \<Longrightarrow> runtime_ok (fst (fst (detect_events a st w)))"
  by (rule runtime_okI)
    (auto simp: detect_events_stats dest: runtime_okD, auto simp: detect_events_def Let_def split_beta dest: runtime_okD split: sum.splits)

lemma runtime_ok_heartbeat:
  assumes "runtime_ok rt"
  shows "runtime_ok (fst (fst (merge_heartbeat now hb (rt, t))))"
proof -
  let ?a = "str_or (hb_client_id hb) ''unknown_agent''"
  let ?rt1 = "mark_agent_connection_state now ?a True rt"
  let ?st = "fst (merge_state hb (agent_state_of ?a ?rt1))"
  have ok: "runtime_ok (set_agent_state ?a ?st ?rt1)"
    by (intro runtime_ok_set_state runtime_ok_mark state_ok_merge state_ok_agent_state assms)
  have d: "runtime_ok (fst (fst (detect_events ?a ?st (set_agent_state ?a ?st ?rt1, t1))))" for t1
    by (rule runtime_ok_detect) (simp add: ok)
  show ?thesis
    using ok d by (auto simp: merge_heartbeat_def Let_def split_beta split: sum.splits)
qed

text \<open>Everything that happens to the live state and the telemetry, with the clock readings.\<close>

datatype live_op =
    Register_Agent int string ws
  | Unregister_Agent int "string option" "ws option"
  | Timeout_Agent int string
  | Close_All int
  | Remove_Agent string
  | Heartbeat int heartbeat_data
  | Watchdog int
  | Run_Event int
  | Flush int

fun live_step :: "live_op \<Rightarrow> live \<Rightarrow> live" where
  "live_step (Register_Agent now a ws) w = (register_agent now a ws (fst w), snd w)"
| "live_step (Unregister_Agent now a ws) w = (fst (unregister_agent now a ws (fst w)), snd w)"
| "live_step (Timeout_Agent now a) w = (fst (timeout_agent now a (fst w)), snd w)"
| "live_step (Close_All now) w = (fst (close_all_connections now (fst w)), snd w)"
| "live_step (Remove_Agent a) w = (remove_agent a (fst w), snd w)"
| "live_step (Heartbeat now hb) w = fst (merge_heartbeat now hb w)"
| "live_step (Watchdog now) w = (fst (heartbeat_watchdog_round now (fst w)), snd w)"
| "live_step (Run_Event now) w = (fst w, run_scheduled_event now (snd w))"
| "live_step (Flush now) w = (fst w, flush_round now (snd w))"

definition live_init :: "live" where
  "live_init = (agent_runtime_init, telemetry_start telemetry_init)"

lemma telemetry_ok_detect_process:
  "telemetry_ok (snd d) \<Longrightarrow> telemetry_ok (snd (fst (detect_process a prev sid p d)))"
  by (auto simp: detect_process_def Let_def split_beta intro!: telemetry_ok_schedule
      split: pyval.splits option.splits)

lemma telemetry_ok_detect_session:
  "telemetry_ok (snd d) \<Longrightarrow> telemetry_ok (snd (fst (detect_session a prev e d)))"
  by (auto simp: detect_session_def split_beta
      intro!: forP_invariant [where P = "\<lambda>d. telemetry_ok (snd d)"] telemetry_ok_detect_process split: pyval.splits)

lemma telemetry_ok_disappeared:
  "telemetry_ok t \<Longrightarrow> telemetry_ok (fst (detect_disappeared a current p t))"
  by (auto simp: detect_disappeared_def split_beta intro!: telemetry_ok_schedule split: option.splits)

lemma telemetry_ok_detect:
  assumes "telemetry_ok (snd w)"
  shows "telemetry_ok (snd (fst (detect_events a st w)))"
proof -
  let ?prev = "the_or (map_of (prev_process_states (fst w)) a) []"
  let ?d = "forP (detect_session a ?prev) st ([], snd w)"
  have 1: "telemetry_ok (snd (fst ?d))"
    by (rule forP_invariant [where P = "\<lambda>d. telemetry_ok (snd d)"])
      (simp_all add: assms telemetry_ok_detect_session)
  have 2: "telemetry_ok (fst (forP (detect_disappeared a c) ?prev (snd (fst ?d))))" for c
    by (rule forP_invariant [where P = telemetry_ok]) (simp_all add: 1 telemetry_ok_disappeared)
  show ?thesis using 1 2 by (auto simp: detect_events_def Let_def split_beta split: sum.splits)
qed

lemma telemetry_ok_heartbeat:
  assumes "telemetry_ok t"
  shows "telemetry_ok (snd (fst (merge_heartbeat now hb (rt, t))))"
  using assms telemetry_ok_ingest [OF assms] telemetry_ok_detect
  by (auto simp: merge_heartbeat_def Let_def split_beta split: sum.splits)

lemma live_ok_step:
  "runtime_ok (fst w) \<Longrightarrow> telemetry_ok (snd w) \<Longrightarrow>
   runtime_ok (fst (live_step c w)) \<and> telemetry_ok (snd (live_step c w))"
  by (cases w; cases c)
    (simp_all add: runtime_ok_register runtime_ok_unregister runtime_ok_timeout runtime_ok_close_all
      runtime_ok_remove runtime_ok_heartbeat runtime_ok_watchdog telemetry_ok_heartbeat
      telemetry_ok_scheduled telemetry_ok_round)

lemma live_ok_run:
  "runtime_ok (fst w) \<Longrightarrow> telemetry_ok (snd w) \<Longrightarrow>
   runtime_ok (fst (fold live_step cs w)) \<and> telemetry_ok (snd (fold live_step cs w))"
  by (induction cs arbitrary: w) (simp_all add: live_ok_step)

lemma live_ok_init: "runtime_ok (fst live_init)" "telemetry_ok (snd live_init)"
  by (simp_all add: live_init_def runtime_ok_def agent_runtime_init_def telemetry_start_def
      telemetry_ok_def telemetry_init_def)

text \<open>Property C27. Whatever agents connect, leave and report, and whatever heartbeats raise: the keys of
  all dictionaries stay unique, every connected agent has a state, every session entry of a state is a
  dictionary whose processes are a dictionary and every connection entry a dictionary or absent; the
  samples of a process are never empty, metric rows keep their key unique and events are numbered
  without gaps.\<close>

theorem live_invariant:
  "runtime_ok (fst (fold live_step cs live_init)) \<and> telemetry_ok (snd (fold live_step cs live_init))"
  using live_ok_run live_ok_init by blast

section \<open>Heartbeats\<close>

text \<open>Property C25. A well-formed heartbeat acts on the processes of its agent as the reference says,
  whatever order the code merges in: a full report leaves exactly the reported sessions and processes,
  an incremental one adds the fields it reports to the processes it names, removes those it reports as
  not running (all of a session when it reports none), and leaves every other process, session and
  agent as they were.\<close>

theorem heartbeat_merge:
  assumes "runtime_ok rt" "processes_ok (agent_state_of a rt)"
    and "report_ok (the_or (hb_agent_status hb) [])" "hb_client_id hb = a" "a \<noteq> []" "session_key k"
  shows "let rt' = fst (fst (merge_heartbeat now hb (rt, t)));
             status = the_or (hb_agent_status hb) [] in
    process_at (agent_state_of a rt') k pid =
      merged_process (hb_sync hb) status (process_at (agent_state_of a rt)) k pid \<and>
    (map_of (agent_state_of a rt') k = None) =
      (map_of status k = None \<and> (hb_sync hb \<or> map_of (agent_state_of a rt) k = None)) \<and>
    (if b = a then processes_ok (agent_state_of a rt')
     else map_of (latest_stats rt') b = map_of (latest_stats rt) b)"
proof -
  let ?rt1 = "mark_agent_connection_state now a True rt"
  let ?st1 = "agent_state_of a ?rt1"
  have st1: "?st1 = AList.update ''__agent_connection''
      (PDict [(''connected'', PBool True), (''last_seen'', PInt now)]) (agent_state_of a rt)"
    by (simp add: mark_agent_connection_state_def)
  have ok: "state_ok ?st1" by (intro state_ok_agent_state runtime_ok_mark assms(1))
  have at: "session_key k' \<Longrightarrow> process_at ?st1 k' p = process_at (agent_state_of a rt) k' p" for k' p
    by (simp add: st1)
  have key: "map_of ?st1 k = map_of (agent_state_of a rt) k" using assms(6) by (auto simp: st1)
  have pok: "processes_ok ?st1" using assms(2) at by (auto simp: processes_ok_def)
  obtain st' where st': "merge_state hb ?st1 = (st', Inr ())" "processes_ok st'"
    "(map_of st' k = None) = (map_of (the_or (hb_agent_status hb) []) k = None \<and> (hb_sync hb \<or> map_of ?st1 k = None))"
    "process_at st' k pid = merged_process (hb_sync hb) (the_or (hb_agent_status hb) []) (process_at ?st1) k pid"
    using merge_state_report [OF ok pok assms(3)] assms(6) by blast
  have ls: "latest_stats (fst (fst (merge_heartbeat now hb (rt, t)))) = AList.update a st' (latest_stats ?rt1)"
    using merge_heartbeat_runtime(1) [of now hb rt t] assms(4,5) st'(1) by simp
  then have "agent_state_of a (fst (fst (merge_heartbeat now hb (rt, t)))) = st'"
    by (simp add: agent_state_of_def)
  moreover have "b \<noteq> a \<Longrightarrow> map_of (latest_stats (fst (fst (merge_heartbeat now hb (rt, t))))) b = map_of (latest_stats rt) b"
    by (simp add: ls mark_agent_connection_state_def set_agent_state_def)
  moreover have "merged_process (hb_sync hb) (the_or (hb_agent_status hb) []) (process_at ?st1) k pid =
      merged_process (hb_sync hb) (the_or (hb_agent_status hb) []) (process_at (agent_state_of a rt)) k pid"
    by (rule merged_process_cong) (simp_all add: at assms(6))
  ultimately show ?thesis using st' key by (simp add: Let_def)
qed

text \<open>A report of one session, and a state that a first report leaves.\<close>

definition one_session :: "bool \<Rightarrow> string \<Rightarrow> pydict \<Rightarrow> heartbeat_data" where
  "one_session sync agent procs =
     default_heartbeat\<lparr>hb_client_id := agent, hb_sync := sync,
       hb_agent_status := Some [(''s1'', PDict [(''session_id'', PInt 1), (''processes'', PDict procs)])]\<rparr>"

definition running :: "bool \<Rightarrow> pyval" where
  "running b = PDict [(''exe'', PStr ''p''), (''is_running'', PBool b), (''exit_code'', PInt 0)]"

lemma heartbeat_merge_witness:
  "let w = fold live_step [Heartbeat 1 (one_session True ''a'' [(''7'', running True), (''8'', running True)]),
                           Heartbeat 2 (one_session False ''a'' [(''7'', running False)])] live_init;
       st = agent_state_of ''a'' (fst w)
   in process_at st ''s1'' ''7'' = None \<and> process_at st ''s1'' ''8'' = Some (running True)"
proof -
  let ?w = "live_step (Heartbeat 1 (one_session True ''a'' [(''7'', running True), (''8'', running True)])) live_init"
  let ?hb = "one_session False ''a'' [(''7'', running False)]"
  let ?st = "agent_state_of ''a'' (fst ?w)"
  have st: "?st = [(''__agent_connection'', PDict [(''connected'', PBool True), (''last_seen'', PInt 1)]),
      (''s1'', PDict [(''session_id'', PInt 1), (''processes'', PDict [(''7'', running True), (''8'', running True)])])]"
    by code_simp
  have "runtime_ok (fst ?w)" using live_ok_step live_ok_init by blast
  moreover have "processes_ok ?st"
    unfolding st processes_ok_def process_at_def current_processes_def
    by (auto simp: running_def split: if_splits)
  moreover have "report_ok (the_or (hb_agent_status ?hb) [])" by code_simp
  moreover have "session_key ''s1''" by code_simp
  ultimately have m: "process_at (agent_state_of ''a'' (fst (fst (merge_heartbeat 2 ?hb (fst ?w, snd ?w))))) ''s1'' pid =
      merged_process (hb_sync ?hb) (the_or (hb_agent_status ?hb) []) (process_at ?st) ''s1'' pid" for pid
    using heartbeat_merge [of "fst ?w" "''a''" ?hb "''s1''" 2 "snd ?w" pid "''a''"]
    by (simp add: Let_def one_session_def)
  have "process_at ?st ''s1'' ''8'' = Some (running True)"
    unfolding st process_at_def current_processes_def by simp
  moreover have "merged_process (hb_sync ?hb) (the_or (hb_agent_status ?hb) []) old ''s1'' ''8'' = old ''s1'' ''8''"
      "merged_process (hb_sync ?hb) (the_or (hb_agent_status ?hb) []) old ''s1'' ''7'' = None" for old
    by (simp_all add: merged_process_def reported_def one_session_def stopped_info_def running_def)
  ultimately show ?thesis
    using m [of "''7''"] m [of "''8''"] by (simp add: Let_def del: live_step.simps(1))
qed

text \<open>
  A process that an incremental report calls stopped is gone before the events are computed: it is
  recorded as disappeared, without its exit code, while a full report records its stop.
\<close>

lemma incremental_stop_disappears:
  "map ea_type (te_scheduled (snd (fold live_step
     [Heartbeat 1 (one_session True ''a'' [(''7'', running True)]),
      Heartbeat 2 (one_session False ''a'' [(''7'', running False)])] live_init))) = [''start'', ''disappeared'']"
  "map ea_type (te_scheduled (snd (fold live_step
     [Heartbeat 1 (one_session True ''a'' [(''7'', running True)]),
      Heartbeat 2 (one_session True ''a'' [(''7'', running False)])] live_init))) = [''start'', ''stop'']"
  by code_simp+

section \<open>Watchdog\<close>

definition late :: "int \<Rightarrow> pydict \<Rightarrow> bool" where
  "late now st =
     (case dget st ''__agent_connection'' of
        PDict c \<Rightarrow> dget c ''connected'' = PBool True \<and>
          (case py_int (dget_or c ''last_seen'' (PInt 0)) of
             Inl _ \<Rightarrow> False | Inr seen \<Rightarrow> seen \<le> now - HEARTBEAT_TIMEOUT_SECONDS)
      | _ \<Rightarrow> False)"

lemma timed_out_among_late:
  "timed_out_among (now - HEARTBEAT_TIMEOUT_SECONDS) l = Inr as \<Longrightarrow>
   as = map fst (filter (\<lambda>e. late now (snd e)) l)"
proof (induction l arbitrary: as)
  case (Cons e l)
  obtain a st where e: "e = (a, st)" by (cases e)
  show ?case
  proof (cases "dget st ''__agent_connection''")
    case (PDict c)
    then show ?thesis
      using Cons e by (cases "py_int (dget_or c ''last_seen'' (PInt 0))")
        (auto simp: late_def bindE_eq_Inr split: if_splits)
  qed (use Cons e in \<open>simp_all add: late_def\<close>)
qed simp

lemma reset_other:
  "map_of (active_agents (reset_agent_runtime_state now a rt)) b = map_of (active_agents rt) b"
  "ar_closed (reset_agent_runtime_state now a rt) = ar_closed rt"
  "map_of (latest_stats (reset_agent_runtime_state now a rt)) b =
     (if b = a then map_option (reset_state now) (map_of (latest_stats rt) a) else map_of (latest_stats rt) b)"
  by (auto simp: reset_agent_runtime_state_def Let_def set_agent_state_def split: option.splits)

lemma timeout_agent_maps:
  "map_of (active_agents (fst (timeout_agent now a rt))) b = (if b = a then None else map_of (active_agents rt) b)"
  "map_of (latest_stats (fst (timeout_agent now a rt))) b =
     (if b = a \<and> map_of (active_agents rt) a \<noteq> None
      then map_option (reset_state now) (map_of (latest_stats rt) a) else map_of (latest_stats rt) b)"
  "ar_closed (fst (timeout_agent now a rt)) =
     ar_closed rt @ (case map_of (active_agents rt) a of None \<Rightarrow> [] | Some ws \<Rightarrow> [ws])"
  "snd (timeout_agent now a rt) \<longleftrightarrow> map_of (active_agents rt) a \<noteq> None"
  by (auto simp: timeout_agent_def close_socket_def reset_other split: option.splits)

lemma timeout_agents_maps:
  assumes "distinct as"
  shows "map_of (active_agents (fst (timeout_agents now as rt))) b =
      (if b \<in> set as then None else map_of (active_agents rt) b)"
    "map_of (latest_stats (fst (timeout_agents now as rt))) b =
     (if b \<in> set as \<and> map_of (active_agents rt) b \<noteq> None
      then map_option (reset_state now) (map_of (latest_stats rt) b) else map_of (latest_stats rt) b)"
    "ar_closed (fst (timeout_agents now as rt)) =
      ar_closed rt @ concat (map (\<lambda>a. case map_of (active_agents rt) a of None \<Rightarrow> [] | Some ws \<Rightarrow> [ws]) as)"
    "snd (timeout_agents now as rt) \<longleftrightarrow> (\<exists>a\<in>set as. map_of (active_agents rt) a \<noteq> None)"
proof -
  have "map_of (active_agents (fst (timeout_agents now as rt))) b =
      (if b \<in> set as then None else map_of (active_agents rt) b) \<and>
    map_of (latest_stats (fst (timeout_agents now as rt))) b =
     (if b \<in> set as \<and> map_of (active_agents rt) b \<noteq> None
      then map_option (reset_state now) (map_of (latest_stats rt) b) else map_of (latest_stats rt) b) \<and>
    ar_closed (fst (timeout_agents now as rt)) =
      ar_closed rt @ concat (map (\<lambda>a. case map_of (active_agents rt) a of None \<Rightarrow> [] | Some ws \<Rightarrow> [ws]) as) \<and>
    snd (timeout_agents now as rt) = (\<exists>a\<in>set as. map_of (active_agents rt) a \<noteq> None)"
    using assms
  proof (induction as arbitrary: rt)
    case Nil
    then show ?case by simp
  next
    case (Cons a as)
    have c: "map (\<lambda>a'. case map_of (active_agents (fst (timeout_agent now a rt))) a' of None \<Rightarrow> [] | Some ws \<Rightarrow> [ws]) as =
        map (\<lambda>a'. case map_of (active_agents rt) a' of None \<Rightarrow> [] | Some ws \<Rightarrow> [ws]) as"
      using Cons.prems by (auto simp: timeout_agent_maps)
    have d: "(\<exists>x\<in>set as. map_of (active_agents (fst (timeout_agent now a rt))) x \<noteq> None) =
        (\<exists>x\<in>set as. map_of (active_agents rt) x \<noteq> None)"
      using Cons.prems by (auto simp: timeout_agent_maps)
    show ?case
      using Cons.IH [of "fst (timeout_agent now a rt)"] Cons.prems unfolding c d
      by (cases "map_of (active_agents rt) b") (auto simp: Let_def split_beta timeout_agent_maps)
  qed
  then show "map_of (active_agents (fst (timeout_agents now as rt))) b =
      (if b \<in> set as then None else map_of (active_agents rt) b)"
    "map_of (latest_stats (fst (timeout_agents now as rt))) b =
     (if b \<in> set as \<and> map_of (active_agents rt) b \<noteq> None
      then map_option (reset_state now) (map_of (latest_stats rt) b) else map_of (latest_stats rt) b)"
    "ar_closed (fst (timeout_agents now as rt)) =
      ar_closed rt @ concat (map (\<lambda>a. case map_of (active_agents rt) a of None \<Rightarrow> [] | Some ws \<Rightarrow> [ws]) as)"
    "snd (timeout_agents now as rt) \<longleftrightarrow> (\<exists>a\<in>set as. map_of (active_agents rt) a \<noteq> None)"
    by blast+
qed

definition sockets_of :: "string list \<Rightarrow> agent_runtime \<Rightarrow> ws list" where
  "sockets_of as rt =
     concat (map (\<lambda>a. case map_of (active_agents rt) a of None \<Rightarrow> [] | Some ws \<Rightarrow> [ws]) as)"

text \<open>Property C26. In every reachable state, one round of the heartbeat watchdog either finds a malformed
  entry and changes nothing (and the background task ends with that exception), or does exactly this:
  the agents marked connected whose last heartbeat is at least 15 seconds old lose their socket, which
  is closed, and are marked disconnected as of now; every other agent keeps its socket and state; the
  frontends are notified when a socket was closed. A late agent without a socket (one that another
  connection reported) keeps its state, so it stays marked connected.\<close>

theorem watchdog_round_exact:
  "let rt = fst (fold live_step cs live_init);
       late_agents = map fst (filter (\<lambda>e. late now (snd e)) (latest_stats rt)) in
   case heartbeat_watchdog_round now rt of
     (rt', Inl e) \<Rightarrow> rt' = rt
   | (rt', Inr changed) \<Rightarrow>
       map_of (active_agents rt') a = (if a \<in> set late_agents then None else map_of (active_agents rt) a) \<and>
       map_of (latest_stats rt') a =
         (if a \<in> set late_agents \<and> map_of (active_agents rt) a \<noteq> None
          then map_option (reset_state now) (map_of (latest_stats rt) a) else map_of (latest_stats rt) a) \<and>
       ar_closed rt' = ar_closed rt @ sockets_of late_agents rt \<and>
       changed = (sockets_of late_agents rt \<noteq> [])"
proof -
  define rt where "rt = fst (fold live_step cs live_init)"
  let ?late = "map fst (filter (\<lambda>e. late now (snd e)) (latest_stats rt))"
  have ok: "runtime_ok rt" unfolding rt_def using live_ok_run live_ok_init by blast
  have d: "distinct ?late" using runtime_okD(1) [OF ok] by (rule distinct_map_filter)
  have "case heartbeat_watchdog_round now rt of
     (rt', Inl e) \<Rightarrow> rt' = rt
   | (rt', Inr changed) \<Rightarrow>
       map_of (active_agents rt') a = (if a \<in> set ?late then None else map_of (active_agents rt) a) \<and>
       map_of (latest_stats rt') a =
         (if a \<in> set ?late \<and> map_of (active_agents rt) a \<noteq> None
          then map_option (reset_state now) (map_of (latest_stats rt) a) else map_of (latest_stats rt) a) \<and>
       ar_closed rt' = ar_closed rt @ sockets_of ?late rt \<and>
       changed = (sockets_of ?late rt \<noteq> [])"
  proof (cases "get_timed_out_agents now HEARTBEAT_TIMEOUT_SECONDS rt")
    case (Inl e)
    then show ?thesis by (simp add: heartbeat_watchdog_round_def)
  next
    case (Inr as)
    then have as: "as = ?late" unfolding get_timed_out_agents_def by (rule timed_out_among_late)
    have "sockets_of as rt \<noteq> [] \<longleftrightarrow> (\<exists>b\<in>set as. map_of (active_agents rt) b \<noteq> None)"
      by (auto simp: sockets_of_def split: option.splits)
    then show ?thesis
      using Inr timeout_agents_maps [of as, folded sockets_of_def] d
      unfolding heartbeat_watchdog_round_def as by (simp add: split_beta)
  qed
  then show ?thesis unfolding Let_def rt_def .
qed

text \<open>A heartbeat is filed under the agent it names, not under the agent of its connection:
  an agent that is named but has no connection of its own is marked connected, and no number of watchdog
  rounds, at any times, ever changes that.\<close>

theorem reported_agent_never_expires:
  assumes "map_of (active_agents rt) a = None" "hb_client_id hb = a" "a \<noteq> []"
    and "hb_agent_status hb = None"
  shows "let rt1 = fst (fst (merge_heartbeat now hb (rt, t)));
             rt2 = fold (\<lambda>n rt. fst (heartbeat_watchdog_round n rt)) later rt1 in
    get_agent_state a rt2 = get_agent_state a rt1 \<and>
    dget (the_or (get_agent_state a rt2) []) ''__agent_connection'' =
      PDict [(''connected'', PBool True), (''last_seen'', PInt now)]"
proof -
  define rt1 where "rt1 = fst (fst (merge_heartbeat now hb (rt, t)))"
  have act: "map_of (active_agents rt1) a = None"
    using assms(1) merge_heartbeat_runtime(2) [of now hb rt t] by (simp add: rt1_def)
  have one: "map_of (active_agents (fst (timeout_agents n as r))) a = None \<and>
      map_of (latest_stats (fst (timeout_agents n as r))) a = map_of (latest_stats r) a"
    if "map_of (active_agents r) a = None" for n as and r :: agent_runtime
    using that by (induction as arbitrary: r) (auto simp: Let_def split_beta timeout_agent_maps)
  have round: "map_of (active_agents (fst (heartbeat_watchdog_round n r))) a = None \<and>
      map_of (latest_stats (fst (heartbeat_watchdog_round n r))) a = map_of (latest_stats r) a"
    if "map_of (active_agents r) a = None" for n and r :: agent_runtime
    using that one [OF that] by (auto simp: heartbeat_watchdog_round_def split_beta split: sum.splits)
  have "map_of (latest_stats (fold (\<lambda>n rt. fst (heartbeat_watchdog_round n rt)) l r)) a = map_of (latest_stats r) a"
    if "map_of (active_agents r) a = None" for l and r :: agent_runtime
    using that round by (induction l arbitrary: r) auto
  from this [OF act] have same: "get_agent_state a (fold (\<lambda>n rt. fst (heartbeat_watchdog_round n rt)) later rt1) =
      get_agent_state a rt1"
    by (simp add: get_agent_state_def)
  have "map_of (latest_stats rt1) a = Some (fst (merge_state hb (agent_state_of a (mark_agent_connection_state now a True rt))))"
    using merge_heartbeat_runtime(1) [of now hb rt t] assms(2,3) by (simp add: rt1_def)
  moreover have "dget (fst (merge_state hb (agent_state_of a (mark_agent_connection_state now a True rt))))
      ''__agent_connection'' = PDict [(''connected'', PBool True), (''last_seen'', PInt now)]"
    using assms(4)
    by (auto simp: merge_state_def Let_def mark_agent_connection_state_def drop_stale_sessions_def dget_def
        map_of_filter_key_case starts_with_def split: option.splits)
  ultimately show ?thesis
    unfolding Let_def rt1_def [symmetric] using same by (simp add: get_agent_state_def)
qed

lemma reported_agent_never_expires_witness:
  "let rt1 = fst (live_step (Heartbeat 5 (default_heartbeat\<lparr>hb_client_id := ''ghost''\<rparr>))
               (live_step (Register_Agent 1 ''real'' 0) live_init));
       rt2 = fold (\<lambda>n rt. fst (heartbeat_watchdog_round n rt)) [50, 5000] rt1
   in map_of (active_agents rt2) ''real'' = None \<and>
      dget (the_or (get_agent_state ''ghost'' rt2) []) ''__agent_connection'' =
        PDict [(''connected'', PBool True), (''last_seen'', PInt 5)]"
proof -
  let ?hb = "default_heartbeat\<lparr>hb_client_id := ''ghost''\<rparr>"
  let ?w = "live_step (Register_Agent 1 ''real'' 0) live_init"
  have "map_of (active_agents (fst ?w)) ''ghost'' = None" by code_simp
  moreover have "hb_client_id ?hb = ''ghost''" "''ghost'' \<noteq> []" "hb_agent_status ?hb = None"
    by (simp_all add: default_heartbeat_def)
  ultimately have "dget (the_or (get_agent_state ''ghost'' (fold (\<lambda>n rt. fst (heartbeat_watchdog_round n rt)) [50, 5000]
      (fst (fst (merge_heartbeat 5 ?hb (fst ?w, snd ?w)))))) []) ''__agent_connection'' =
        PDict [(''connected'', PBool True), (''last_seen'', PInt 5)]"
    using reported_agent_never_expires [of "fst ?w" "''ghost''" ?hb 5 "snd ?w" "[50, 5000]"]
    unfolding Let_def by blast
  then have "dget (the_or (get_agent_state ''ghost'' (fold (\<lambda>n rt. fst (heartbeat_watchdog_round n rt)) [50, 5000]
      (fst (live_step (Heartbeat 5 ?hb) ?w)))) []) ''__agent_connection'' =
        PDict [(''connected'', PBool True), (''last_seen'', PInt 5)]"
    by (simp only: live_step.simps prod.collapse)
  moreover have "map_of (active_agents (fold (\<lambda>n rt. fst (heartbeat_watchdog_round n rt)) [50, 5000]
      (fst (live_step (Heartbeat 5 ?hb) ?w)))) ''real'' = None"
    by code_simp
  ultimately show ?thesis unfolding Let_def by blast
qed

text \<open>Any agent can end the watchdog of the server with one heartbeat: the entry
  \<open>__agent_connection\<close> of the state is not protected from the report, and after a report of a
  \<open>last_seen\<close> that is not a number every later search for timed out agents raises.\<close>

theorem forged_heartbeat_stops_watchdog:
  "\<exists>e. snd (heartbeat_watchdog_round later (fst (fst (merge_heartbeat now
     (default_heartbeat\<lparr>hb_client_id := a, hb_agent_status :=
        Some [(''__agent_connection'', PDict [(''last_seen'', PStr ''never'')])]\<rparr>) w)))) = Inl e"
proof -
  obtain rt t where w: "w = (rt, t)" by (cases w)
  let ?hb = "default_heartbeat\<lparr>hb_client_id := a, hb_agent_status :=
        Some [(''__agent_connection'', PDict [(''last_seen'', PStr ''never'')])]\<rparr>"
  let ?a = "str_or a ''unknown_agent''"
  let ?st = "fst (merge_state ?hb (agent_state_of ?a (mark_agent_connection_state now ?a True rt)))"
  have sub: "\<exists>e. timed_out_among c l = Inl e"
    if "(b, st) \<in> set l" "dget st ''__agent_connection'' = PDict d" "dget d ''connected'' = PBool True"
      "py_int (dget_or d ''last_seen'' (PInt 0)) = Inl e0" for c l b st d e0
    using that
  proof (induction l)
    case (Cons x l)
    obtain b' st' where x: "x = (b', st')" by (cases x)
    show ?case
    proof (cases "x = (b, st)")
      case True
      then show ?thesis using Cons.prems x by simp
    next
      case False
      then obtain e where "timed_out_among c l = Inl e" using Cons by auto
      then show ?thesis
        unfolding x by (cases "dget st' ''__agent_connection''")
          (auto split: if_splits, (metis bindE_def bindE_simps sum.exhaust)?)
    qed
  qed simp
  have m: "map_of (agent_state_of ?a (mark_agent_connection_state now ?a True rt)) ''__agent_connection'' =
      Some (PDict [(''connected'', PBool True), (''last_seen'', PInt now)])"
    by (simp add: mark_agent_connection_state_def)
  define st0 where "st0 = agent_state_of ?a (mark_agent_connection_state now ?a True rt)"
  have "merge_state ?hb st0 = (AList.update ''__agent_connection'' (PDict [(''connected'', PBool True),
      (''last_seen'', PStr ''never''), (''processes'', PDict [])]) st0, Inr ())"
    using m unfolding st0_def [symmetric]
    by (simp add: merge_state_def Let_def default_heartbeat_def merge_session_def merge_fields_def
        ensure_session_def set_target_dict merge_incoming_def default_processes_def merge_processes_def
        bindP_def update_last py_eq_int_def)
  then obtain d where d: "dget ?st ''__agent_connection'' = PDict d" "dget d ''connected'' = PBool True"
      "dget_or d ''last_seen'' (PInt 0) = PStr ''never''"
    by (simp add: st0_def)
  have "(?a, ?st) \<in> set (latest_stats (fst (fst (merge_heartbeat now ?hb w))))"
    using merge_heartbeat_runtime(1) [of now ?hb rt t] w
      map_of_SomeD [of "latest_stats (fst (fst (merge_heartbeat now ?hb w)))" ?a ?st]
    by (simp add: default_heartbeat_def)
  moreover have "\<exists>e. py_int (dget_or d ''last_seen'' (PInt 0)) = Inl e"
  proof -
    have "parse_int ''never'' = None" by code_simp
    then show ?thesis by (simp add: d(3) py_int_def)
  qed
  ultimately obtain e where "timed_out_among (later - HEARTBEAT_TIMEOUT_SECONDS)
      (latest_stats (fst (fst (merge_heartbeat now ?hb w)))) = Inl e"
    using sub d by blast
  then show ?thesis by (auto simp: heartbeat_watchdog_round_def get_timed_out_agents_def)
qed

section \<open>The frontend's view\<close>

lemma summary_fold:
  assumes "distinct (map fst st)"
  shows "map_of (fold (\<lambda>(k, v) acc. if starts_with ''__'' k \<or> \<not> is_dict v then acc
           else AList.update k (PDict (session_summary (as_dict v))) acc) st acc) k =
    (case map_of st k of
       Some (PDict d) \<Rightarrow> if session_key k then Some (PDict (session_summary d)) else map_of acc k
     | _ \<Rightarrow> map_of acc k)"
  using assms
proof (induction st arbitrary: acc)
  case (Cons e st)
  obtain k' v where e: "e = (k', v)" by (cases e)
  have n: "map_of st k' = None" using Cons.prems e by (simp add: map_of_eq_None_iff)
  show ?case
  proof (cases "k = k'")
    case True
    then show ?thesis using Cons.IH Cons.prems e n by (cases v) (auto simp: session_key_def)
  next
    case False
    then show ?thesis using Cons.IH Cons.prems e by (auto split: option.splits pyval.splits)
  qed
qed simp

lemma dget_session_summary:
  "dget (session_summary d) key =
     (if key = ''processes'' then PDict [] else if key = ''process_count'' then process_count_of d
      else dget d key)"
proof -
  have "dget (filter (\<lambda>(k, _). k \<noteq> ''processes'') d) key = (if key = ''processes'' then PNone else dget d key)"
    by (induction d) auto
  then show ?thesis by (simp add: session_summary_def)
qed

text \<open>In every reachable state the snapshot for the frontends shows every agent with its
  metrics and connection, and every session with all its fields but its processes: these are emptied,
  and a count takes their place, the reported one when it is a number that is not negative.\<close>

theorem snapshot_view:
  "let rt = fst (fold live_step cs live_init); view = dget (build_frontend_snapshot rt) a;
       st = agent_state_of a rt in
   (view = PNone) = (map_of (latest_stats rt) a = None) \<and>
   dget (as_dict view) k =
     (if session_key k
      then (case map_of st k of Some (PDict d) \<Rightarrow> PDict (session_summary d) | _ \<Rightarrow> PNone)
      else if k = ''__agent_metrics'' \<or> k = ''__agent_connection'' then dget st k else PNone) \<and>
   dget (session_summary d) key =
     (if key = ''processes'' then PDict [] else if key = ''process_count'' then process_count_of d
      else dget d key)"
proof -
  define rt where "rt = fst (fold live_step cs live_init)"
  have ok: "runtime_ok rt" unfolding rt_def using live_ok_run live_ok_init by blast
  have view: "map_of (build_frontend_snapshot rt) a = map_option (\<lambda>st. PDict (agent_summary st)) (map_of (latest_stats rt) a)"
  proof -
    have "map_of (map (\<lambda>(a, st). (a, PDict (agent_summary st))) l) a =
        map_option (\<lambda>st. PDict (agent_summary st)) (map_of l a)" for l
      by (induction l) auto
    then show ?thesis by (simp add: build_frontend_snapshot_def)
  qed
  have sm: "dget (agent_summary st) k =
     (if session_key k
      then (case map_of st k of Some (PDict d) \<Rightarrow> PDict (session_summary d) | _ \<Rightarrow> PNone)
      else if k = ''__agent_metrics'' \<or> k = ''__agent_connection'' then dget st k else PNone)"
    if "distinct (map fst st)" for st
  proof -
    define ac where "ac = (case map_of st ''__agent_metrics'' of None \<Rightarrow> [] | Some m \<Rightarrow> [(''__agent_metrics'', m)]) @
        (case map_of st ''__agent_connection'' of None \<Rightarrow> [] | Some c \<Rightarrow> [(''__agent_connection'', c)])"
    have acc: "map_of ac k =
        (if k = ''__agent_metrics'' \<or> k = ''__agent_connection'' then map_of st k else None)"
      unfolding ac_def by (simp split: option.split)
    have eq: "map_of (agent_summary st) k =
        (case map_of st k of
           Some (PDict d) \<Rightarrow> if session_key k then Some (PDict (session_summary d)) else map_of ac k
         | _ \<Rightarrow> map_of ac k)"
      unfolding agent_summary_def ac_def [symmetric] by (rule summary_fold [OF that])
    show ?thesis
    proof (cases "session_key k")
      case True
      then have "map_of ac k = None" unfolding acc by auto
      then show ?thesis using True unfolding dget_def eq by (simp split: option.split pyval.split)
    next
      case False
      then have "map_of (agent_summary st) k = map_of ac k"
        unfolding eq by (simp split: option.split pyval.split)
      then show ?thesis using False unfolding dget_def acc by simp
    qed
  qed
  have "(dget (build_frontend_snapshot rt) a = PNone) = (map_of (latest_stats rt) a = None) \<and>
    dget (as_dict (dget (build_frontend_snapshot rt) a)) k =
     (if session_key k
      then (case map_of (agent_state_of a rt) k of Some (PDict d) \<Rightarrow> PDict (session_summary d) | _ \<Rightarrow> PNone)
      else if k = ''__agent_metrics'' \<or> k = ''__agent_connection'' then dget (agent_state_of a rt) k else PNone)"
  proof (cases "map_of (latest_stats rt) a")
    case None
    then show ?thesis by (simp add: view dget_def agent_state_of_def)
  next
    case (Some st)
    have "dget (build_frontend_snapshot rt) a = PDict (agent_summary st)" "agent_state_of a rt = st"
      using Some by (simp_all add: view agent_state_of_def)
    then show ?thesis
      using sm [OF state_okD(1) [OF runtime_okD(4) [OF ok Some]]] Some by (simp only: as_dict_simps) simp
  qed
  then show ?thesis unfolding Let_def rt_def by (simp add: dget_session_summary)
qed

end
