(* ===== verification/Task_Models.thy ===== *)
theory Task_Models
  imports Py_Prelude
begin

text \<open>
  The task model of the server (\<open>vm_agent_server/src/tasks/models.py\<close> and \<open>factory.py\<close>):
  components, specifications and their typed subclasses, the fluent builder, and the factory
  that turns API requests and pipeline steps into agent tasks. The classes are frozen records;
  the subclass of a \<open>TaskSpec\<close> is the constructor of \<open>task\<close>. The builder mutates itself and
  returns \<open>self\<close>: here every method returns the updated builder.
\<close>

section \<open>Components and specifications\<close>

definition TASK_KIND_AGENT :: string where "TASK_KIND_AGENT = ''agent''"

definition TASK_KIND_DEPLOYMENT :: string where "TASK_KIND_DEPLOYMENT = ''deployment''"

record task_component =
  comp_type :: string
  comp_config :: pydict

definition comp_to_dict :: "task_component \<Rightarrow> pyval" where
  "comp_to_dict c = PDict [(''type'', PStr (comp_type c)), (''config'', PDict (comp_config c))]"

definition comp_from_dict :: "pyval \<Rightarrow> task_component result" where
  "comp_from_dict raw =
     (case raw of
        PDict d \<Rightarrow>
          (let component_type = py_str (py_or (dget d ''type'') (PStr ''generic''));
               config = as_dict (dget d ''config'')
           in Inr \<lparr>comp_type = component_type, comp_config = config\<rparr>)
      | _ \<Rightarrow> Inl (TypeError ''Task component must be a dict''))"

record task_spec =
  ts_id :: string
  ts_kind :: string
  ts_agent_id :: string
  ts_script :: string
  ts_name :: string
  ts_cwd :: string
  ts_timeout_sec :: int
  ts_session :: string
  ts_pipeline_run_id :: "string option"
  ts_step_index :: int
  ts_requested_by :: string
  ts_requested_from :: string
  ts_payload :: pydict
  ts_components :: "task_component list"

definition to_api_dict :: "task_spec \<Rightarrow> string \<Rightarrow> int option \<Rightarrow> pydict" where
  "to_api_dict t status created_at =
     [(''id'', PStr (ts_id t)),
      (''pipeline_run_id'', opt_str (ts_pipeline_run_id t)),
      (''step_index'', PInt (ts_step_index t)),
      (''agent_id'', PStr (ts_agent_id t)),
      (''session'', PStr (ts_session t)),
      (''name'', PStr (ts_name t)),
      (''script'', PStr (ts_script t)),
      (''cwd'', PStr (ts_cwd t)),
      (''timeout_sec'', PInt (ts_timeout_sec t)),
      (''config_id'', PNone),
      (''status'', PStr status),
      (''pid'', PNone),
      (''exit_code'', PNone),
      (''error'', PNone),
      (''requested_by'', PStr (ts_requested_by t)),
      (''requested_from'', PStr (ts_requested_from t)),
      (''created_at'', opt_int created_at),
      (''started_at'', PNone),
      (''completed_at'', PNone),
      (''kind'', PStr (ts_kind t)),
      (''payload'', PDict (ts_payload t)),
      (''components'', PList (map comp_to_dict (ts_components t)))]"

definition get_component :: "task_spec \<Rightarrow> string \<Rightarrow> task_component option" where
  "get_component t component_type = find (\<lambda>c. comp_type c = component_type) (ts_components t)"

record execution =
  ex_task_id :: string
  ex_script :: string
  ex_cwd :: string
  ex_timeout_sec :: int
  ex_session :: string
  ex_env :: pydict

definition as_agent_execution :: "task_spec \<Rightarrow> execution option result" where
  "as_agent_execution t =
     (case get_component t ''execution'' of
        None \<Rightarrow> Inr None
      | Some c \<Rightarrow>
          (let cfg = comp_config c;
               env = as_dict (dget cfg ''env'')
           in bindE (py_int (py_or (dget cfg ''timeout_sec'') (PInt (ts_timeout_sec t)))) (\<lambda>timeout.
                Inr (Some \<lparr>ex_task_id = ts_id t,
                      ex_script = py_str (py_or (dget cfg ''script'') (PStr (ts_script t))),
                      ex_cwd = py_str (py_or (dget cfg ''cwd'') (PStr (ts_cwd t))),
                      ex_timeout_sec = timeout,
                      ex_session = py_str (py_or (dget cfg ''session'') (PStr (ts_session t))),
                      ex_env = env\<rparr>))))"

section \<open>The typed subclasses\<close>

datatype task =
    PlainTask (spec_of: task_spec)
  | AgentTask (spec_of: task_spec)
  | DeploymentTask (spec_of: task_spec)

definition agent_task_post_init :: "task_spec \<Rightarrow> unit result" where
  "agent_task_post_init t =
     (if ts_kind t \<noteq> TASK_KIND_AGENT then Inl (ValueError ''AgentTaskSpec requires kind=agent'')
      else if get_component t ''execution'' = None
        then Inl (ValueError ''AgentTaskSpec requires an execution component'')
      else Inr ())"

definition agent_from_task_spec :: "task_spec \<Rightarrow> task result" where
  "agent_from_task_spec t = bindE (agent_task_post_init t) (\<lambda>_. Inr (AgentTask t))"

definition agent_execution :: "task_spec \<Rightarrow> execution result" where
  "agent_execution t =
     bindE (as_agent_execution t) (\<lambda>e.
       case e of
         None \<Rightarrow> Inl (ValueError (''Task '' @ ts_id t @ '' does not have an execution component''))
       | Some ex \<Rightarrow> Inr ex)"

definition deployment_task_post_init :: "task_spec \<Rightarrow> unit result" where
  "deployment_task_post_init t =
     (if ts_kind t \<noteq> TASK_KIND_DEPLOYMENT
        then Inl (ValueError ''DeploymentTaskSpec requires kind=deployment'')
      else if get_component t ''deployment'' = None
        then Inl (ValueError ''DeploymentTaskSpec requires a deployment component'')
      else Inr ())"

definition deployment_from_task_spec :: "task_spec \<Rightarrow> task result" where
  "deployment_from_task_spec t = bindE (deployment_task_post_init t) (\<lambda>_. Inr (DeploymentTask t))"

definition deployment_operation :: "task_spec \<Rightarrow> string" where
  "deployment_operation t = py_str (py_or (dget (ts_payload t) ''operation'') (PStr (ts_script t)))"

definition deployment_config :: "task_spec \<Rightarrow> pydict result" where
  "deployment_config t =
     (case get_component t ''deployment'' of
        None \<Rightarrow> Inl (ValueError (''Task '' @ ts_id t @ '' does not have a deployment component''))
      | Some c \<Rightarrow> Inr (comp_config c))"

section \<open>The builder\<close>

text \<open>\<open>_components\<close> is a dictionary keyed by component type, in insertion order.\<close>

record task_builder =
  tb_task_id :: string
  tb_kind :: string
  tb_agent_id :: string
  tb_script :: string
  tb_name :: string
  tb_cwd :: string
  tb_timeout_sec :: int
  tb_session :: string
  tb_pipeline_run_id :: "string option"
  tb_step_index :: int
  tb_requested_by :: string
  tb_requested_from :: string
  tb_payload :: pydict
  tb_components :: "(string \<times> task_component) list"

text \<open>\<open>task_id or uuid4().hex\<close>: the generated identifier is the argument \<open>uuid\<close>.\<close>

definition new_builder :: "string \<Rightarrow> string \<Rightarrow> string \<Rightarrow> string option \<Rightarrow> string \<Rightarrow> task_builder" where
  "new_builder agent_id kind script task_id uuid =
     \<lparr>tb_task_id = ostr_or task_id uuid, tb_kind = kind, tb_agent_id = agent_id,
      tb_script = script, tb_name = [], tb_cwd = [], tb_timeout_sec = 300, tb_session = [],
      tb_pipeline_run_id = None, tb_step_index = 0, tb_requested_by = ''system'',
      tb_requested_from = [], tb_payload = [], tb_components = []\<rparr>"

definition b_component :: "string \<Rightarrow> pydict \<Rightarrow> task_builder \<Rightarrow> task_builder" where
  "b_component component_type config b =
     (let merged = (case map_of (tb_components b) component_type of
                      Some existing \<Rightarrow> dupdate (comp_config existing) config
                    | None \<Rightarrow> dupdate [] config)
      in b\<lparr>tb_components :=
             AList.update component_type \<lparr>comp_type = component_type, comp_config = merged\<rparr>
               (tb_components b)\<rparr>)"

definition b_has_execution :: "task_builder \<Rightarrow> bool" where
  "b_has_execution b = (map_of (tb_components b) ''execution'' \<noteq> None)"

definition b_name :: "string \<Rightarrow> task_builder \<Rightarrow> task_builder" where
  "b_name value b = b\<lparr>tb_name := value\<rparr>"

definition b_cwd :: "string \<Rightarrow> task_builder \<Rightarrow> task_builder" where
  "b_cwd value b =
     (let b1 = b\<lparr>tb_cwd := value\<rparr>
      in if b_has_execution b1 then b_component ''execution'' [(''cwd'', PStr value)] b1 else b1)"

definition b_timeout :: "int \<Rightarrow> task_builder \<Rightarrow> task_builder" where
  "b_timeout value b =
     (let b1 = b\<lparr>tb_timeout_sec := value\<rparr>
      in if b_has_execution b1 then b_component ''execution'' [(''timeout_sec'', PInt value)] b1
         else b1)"

definition b_session :: "string \<Rightarrow> task_builder \<Rightarrow> task_builder" where
  "b_session value b =
     (let b1 = b\<lparr>tb_session := value\<rparr>
      in if b_has_execution b1 then b_component ''execution'' [(''session'', PStr value)] b1 else b1)"

definition b_pipeline :: "string option \<Rightarrow> int \<Rightarrow> task_builder \<Rightarrow> task_builder" where
  "b_pipeline run_id step_index b =
     (let b1 = b\<lparr>tb_pipeline_run_id := run_id, tb_step_index := step_index\<rparr>
      in case run_id of
           None \<Rightarrow> b1
         | Some r \<Rightarrow>
             if r \<noteq> [] then
               b_component ''pipeline'' [(''run_id'', PStr r), (''step_index'', PInt step_index)] b1
             else b1)"

definition b_requested_by :: "string \<Rightarrow> task_builder \<Rightarrow> task_builder" where
  "b_requested_by value b = b\<lparr>tb_requested_by := value\<rparr>"

definition b_requested_from :: "string \<Rightarrow> task_builder \<Rightarrow> task_builder" where
  "b_requested_from value b = b\<lparr>tb_requested_from := value\<rparr>"

definition b_payload_field :: "string \<Rightarrow> pyval \<Rightarrow> task_builder \<Rightarrow> task_builder" where
  "b_payload_field key value b = b\<lparr>tb_payload := AList.update key value (tb_payload b)\<rparr>"

definition b_env :: "pydict option \<Rightarrow> task_builder \<Rightarrow> task_builder" where
  "b_env value b =
     b_component ''execution''
       [(''env'', PDict (case value of None \<Rightarrow> [] | Some d \<Rightarrow> d))] b"

definition builder_agent :: "string \<Rightarrow> string \<Rightarrow> string option \<Rightarrow> string \<Rightarrow> task_builder" where
  "builder_agent agent_id script task_id uuid =
     b_component ''execution''
       [(''script'', PStr script), (''cwd'', PStr []), (''timeout_sec'', PInt 300),
        (''session'', PStr []), (''env'', PDict [])]
       (new_builder agent_id TASK_KIND_AGENT script task_id uuid)"

definition builder_deployment :: "string \<Rightarrow> string \<Rightarrow> string option \<Rightarrow> string \<Rightarrow> task_builder" where
  "builder_deployment agent_id operation task_id uuid =
     b_component ''deployment'' [(''operation'', PStr operation)]
       (b_payload_field ''operation'' (PStr operation)
         (new_builder agent_id TASK_KIND_DEPLOYMENT operation task_id uuid))"

definition built_spec :: "task_builder \<Rightarrow> task_spec" where
  "built_spec b =
     \<lparr>ts_id = tb_task_id b, ts_kind = tb_kind b, ts_agent_id = tb_agent_id b,
      ts_script = tb_script b, ts_name = tb_name b, ts_cwd = tb_cwd b,
      ts_timeout_sec = tb_timeout_sec b, ts_session = tb_session b,
      ts_pipeline_run_id = tb_pipeline_run_id b, ts_step_index = tb_step_index b,
      ts_requested_by = tb_requested_by b, ts_requested_from = tb_requested_from b,
      ts_payload = tb_payload b, ts_components = map snd (tb_components b)\<rparr>"

definition build :: "task_builder \<Rightarrow> task result" where
  "build b =
     (let t = built_spec b
      in if ts_kind t = TASK_KIND_AGENT then agent_from_task_spec t
         else if ts_kind t = TASK_KIND_DEPLOYMENT then deployment_from_task_spec t
         else Inr (PlainTask t))"

section \<open>The factory\<close>

text \<open>
  \<open>CreateTaskRequest\<close> is a validated pydantic model. A pipeline step is the dictionary of a
  \<open>pipeline_steps\<close> row or of a request: a missing key is \<open>None\<close> here, and a missing script is
  the \<open>KeyError\<close> of \<open>step["script"]\<close>.
\<close>

record create_task_request =
  rq_agent_id :: string
  rq_script :: string
  rq_name :: string
  rq_cwd :: string
  rq_timeout_sec :: int
  rq_session :: string
  rq_requested_by :: string
  rq_env :: pydict

definition create_agent_task_from_request ::
    "create_task_request \<Rightarrow> string \<Rightarrow> string option \<Rightarrow> string \<Rightarrow> task result" where
  "create_agent_task_from_request body requested_from task_id uuid =
     bindE
       (build
         (b_env (Some (rq_env body))
           (b_requested_from requested_from
             (b_requested_by (rq_requested_by body)
               (b_session (rq_session body)
                 (b_timeout (rq_timeout_sec body)
                   (b_cwd (rq_cwd body)
                     (b_name (rq_name body)
                       (builder_agent (rq_agent_id body) (rq_script body)
                         (Some (ostr_or task_id uuid)) uuid)))))))))
       (\<lambda>t. agent_from_task_spec (spec_of t))"

record step_def =
  sd_step_index :: "int option"
  sd_name :: "string option"
  sd_script :: "string option"
  sd_cwd :: "string option"
  sd_timeout_sec :: "int option"
  sd_on_fail :: "string option"
  sd_retry_count :: "int option"

definition create_pipeline_step_task ::
    "string \<Rightarrow> string \<Rightarrow> string \<Rightarrow> step_def \<Rightarrow> string \<Rightarrow> string \<Rightarrow> string option \<Rightarrow> string \<Rightarrow> task result"
  where
  "create_pipeline_step_task agent_id session run_id step requested_by requested_from task_id uuid =
     (case sd_script step of
        None \<Rightarrow> Inl (KeyError ''script'')
      | Some script \<Rightarrow>
          bindE
            (build
              (b_requested_from requested_from
                (b_requested_by requested_by
                  (b_pipeline (Some run_id) (the_or (sd_step_index step) 0)
                    (b_session session
                      (b_timeout (the_or (sd_timeout_sec step) 300)
                        (b_cwd (the_or (sd_cwd step) [])
                          (b_name (the_or (sd_name step)
                                     (''Step '' @ str_int (the_or (sd_step_index step) 0)))
                            (builder_agent agent_id script (Some (ostr_or task_id uuid)) uuid)))))))))
            (\<lambda>t. agent_from_task_spec (spec_of t)))"

section \<open>Properties\<close>

named_theorems builder_defs \<open>the builder methods\<close>

lemmas builder_method_defs [builder_defs] =
  b_component_def b_has_execution_def b_name_def b_cwd_def b_timeout_def b_session_def
  b_pipeline_def b_requested_by_def b_requested_from_def b_payload_field_def b_env_def
  builder_agent_def builder_deployment_def new_builder_def built_spec_def dupdate_def

lemma comp_round_trip:
  "comp_type c \<noteq> [] \<Longrightarrow> comp_from_dict (comp_to_dict c) = Inr c"
  by (simp add: comp_to_dict_def comp_from_dict_def py_or_def)

lemma agent_from_task_spec_Inr:
  "agent_from_task_spec t = Inr u \<longleftrightarrow>
     u = AgentTask t \<and> ts_kind t = TASK_KIND_AGENT \<and> get_component t ''execution'' \<noteq> None"
  by (auto simp: agent_from_task_spec_def agent_task_post_init_def)

lemma deployment_from_task_spec_Inr:
  "deployment_from_task_spec t = Inr u \<longleftrightarrow>
     u = DeploymentTask t \<and> ts_kind t = TASK_KIND_DEPLOYMENT \<and>
     get_component t ''deployment'' \<noteq> None"
  by (auto simp: deployment_from_task_spec_def deployment_task_post_init_def)

text \<open>What \<open>build\<close> returns is well typed: the subclass matches the kind and its component is there.\<close>

fun task_ok :: "task \<Rightarrow> bool" where
  "task_ok (PlainTask t) = (ts_kind t \<noteq> TASK_KIND_AGENT \<and> ts_kind t \<noteq> TASK_KIND_DEPLOYMENT)"
| "task_ok (AgentTask t) = (ts_kind t = TASK_KIND_AGENT \<and> get_component t ''execution'' \<noteq> None)"
| "task_ok (DeploymentTask t) =
     (ts_kind t = TASK_KIND_DEPLOYMENT \<and> get_component t ''deployment'' \<noteq> None)"

lemma build_ok: "build b = Inr t \<Longrightarrow> task_ok t \<and> spec_of t = built_spec b"
  by (auto simp: build_def Let_def agent_from_task_spec_Inr deployment_from_task_spec_Inr
      split: if_splits)

text \<open>
  Component keys: every entry of \<open>_components\<close> is stored under its own type, once. So the
  built task has at most one component of each type.
\<close>

definition builder_ok :: "task_builder \<Rightarrow> bool" where
  "builder_ok b \<longleftrightarrow>
     distinct (map fst (tb_components b)) \<and>
     (\<forall>(k, c) \<in> set (tb_components b). comp_type c = k)"

lemma builder_ok_store:
  assumes "builder_ok b" and v: "comp_type v = ct"
  shows "builder_ok (b\<lparr>tb_components := AList.update ct v (tb_components b)\<rparr>)"
proof -
  have "comp_type c = k" if "(k, c) \<in> set (AList.update ct v (tb_components b))" for k c
  proof -
    from that have "(k, c) = (ct, v) \<or> (k, c) \<in> set (tb_components b)"
      using set_alist_update_subset [of ct v "tb_components b"] by blast
    then show ?thesis using v assms unfolding builder_ok_def by blast
  qed
  then show ?thesis using assms(1) by (auto simp: builder_ok_def)
qed

lemma builder_ok_component [simp, intro]:
  "builder_ok b \<Longrightarrow> builder_ok (b_component ct cfg b)"
  by (simp add: b_component_def Let_def builder_ok_store)

lemma builder_ok_fields [simp]:
  "builder_ok (b\<lparr>tb_name := v\<rparr>) = builder_ok b"
  "builder_ok (b\<lparr>tb_cwd := v\<rparr>) = builder_ok b"
  "builder_ok (b\<lparr>tb_timeout_sec := n\<rparr>) = builder_ok b"
  "builder_ok (b\<lparr>tb_session := v\<rparr>) = builder_ok b"
  "builder_ok (b\<lparr>tb_pipeline_run_id := r, tb_step_index := n\<rparr>) = builder_ok b"
  "builder_ok (b\<lparr>tb_requested_by := v\<rparr>) = builder_ok b"
  "builder_ok (b\<lparr>tb_requested_from := v\<rparr>) = builder_ok b"
  "builder_ok (b\<lparr>tb_payload := d\<rparr>) = builder_ok b"
  by (simp_all add: builder_ok_def)

lemma builder_ok_methods [simp, intro]:
  "builder_ok (new_builder agent_id kind script task_id uuid)"
  "builder_ok b \<Longrightarrow> builder_ok (b_name v b)"
  "builder_ok b \<Longrightarrow> builder_ok (b_cwd v b)"
  "builder_ok b \<Longrightarrow> builder_ok (b_timeout n b)"
  "builder_ok b \<Longrightarrow> builder_ok (b_session v b)"
  "builder_ok b \<Longrightarrow> builder_ok (b_pipeline r i b)"
  "builder_ok b \<Longrightarrow> builder_ok (b_requested_by v b)"
  "builder_ok b \<Longrightarrow> builder_ok (b_requested_from v b)"
  "builder_ok b \<Longrightarrow> builder_ok (b_payload_field key val b)"
  "builder_ok b \<Longrightarrow> builder_ok (b_env d b)"
proof -
  show "builder_ok (new_builder agent_id kind script task_id uuid)"
    by (simp add: builder_ok_def new_builder_def)
qed (simp_all add: b_name_def b_cwd_def b_timeout_def b_session_def b_pipeline_def
      b_requested_by_def b_requested_from_def b_payload_field_def b_env_def Let_def
      split: option.split)

lemma builder_ok_constructors [simp, intro]:
  "builder_ok (builder_agent agent_id script task_id uuid)"
  "builder_ok (builder_deployment agent_id op task_id uuid)"
  by (auto simp: builder_agent_def builder_deployment_def)

text \<open>What the execution component of a built agent task holds.\<close>

lemma py_int_PInt [simp]: "py_int (PInt i) = Inr i"
  by (simp add: py_int_def)

lemma py_or_same [simp]: "py_or v v = v"
  by (simp add: py_or_def)

text \<open>An agent task built from an API request carries the identity, the originator and
  the kind of the request, and the execution order the agent will receive is exactly the script,
  working directory, time limit, session and environment of the request, whatever their values
  (empty strings and a zero time limit included, where the code's "or" falls back on the task's own
  copy of the field).\<close>

theorem request_task_execution:
  "\<exists>t. create_agent_task_from_request body requested_from task_id uuid = Inr (AgentTask t) \<and>
       task_ok (AgentTask t) \<and>
       ts_id t = ostr_or (Some (ostr_or task_id uuid)) uuid \<and> ts_kind t = TASK_KIND_AGENT \<and>
       ts_agent_id t = rq_agent_id body \<and> ts_name t = rq_name body \<and>
       ts_requested_by t = rq_requested_by body \<and> ts_requested_from t = requested_from \<and>
       agent_execution t =
         Inr \<lparr>ex_task_id = ts_id t, ex_script = rq_script body, ex_cwd = rq_cwd body,
              ex_timeout_sec = rq_timeout_sec body, ex_session = rq_session body,
              ex_env = rq_env body\<rparr>"
  by (simp add: create_agent_task_from_request_def builder_defs build_def agent_from_task_spec_def
      agent_task_post_init_def get_component_def agent_execution_def as_agent_execution_def Let_def)

lemma step_task_built:
  assumes "sd_script step = Some script" and "run_id \<noteq> []"
  shows "\<exists>t. create_pipeline_step_task agent_id session run_id step by_who from_where task_id uuid
               = Inr (AgentTask t) \<and>
       task_ok (AgentTask t) \<and>
       ts_agent_id t = agent_id \<and> ts_pipeline_run_id t = Some run_id \<and>
       ts_step_index t = the_or (sd_step_index step) 0 \<and>
       map_option comp_config (get_component t ''pipeline'') =
         Some [(''run_id'', PStr run_id), (''step_index'', PInt (ts_step_index t))] \<and>
       agent_execution t =
         Inr \<lparr>ex_task_id = ts_id t, ex_script = script, ex_cwd = the_or (sd_cwd step) [],
              ex_timeout_sec = the_or (sd_timeout_sec step) 300, ex_session = session,
              ex_env = []\<rparr>"
  using assms
  by (simp add: create_pipeline_step_task_def builder_defs build_def agent_from_task_spec_def
      agent_task_post_init_def get_component_def agent_execution_def as_agent_execution_def Let_def)

text \<open>A pipeline step with a script becomes an agent task of the run: it has the run's
  identifier and the step's index, both in its fields and in its pipeline component, and executes
  the step's script in the run's session with the step's directory and time limit (300 seconds when
  the step names none) and an empty environment.\<close>

theorem step_task_execution:
  assumes "sd_script step = Some script" and "run_id \<noteq> []"
  shows "\<exists>t. create_pipeline_step_task agent_id session run_id step by_who from_where task_id uuid
               = Inr (AgentTask t) \<and>
       task_ok (AgentTask t) \<and>
       ts_agent_id t = agent_id \<and> ts_pipeline_run_id t = Some run_id \<and>
       ts_step_index t = the_or (sd_step_index step) 0 \<and>
       map_option comp_config (get_component t ''pipeline'') =
         Some [(''run_id'', PStr run_id), (''step_index'', PInt (ts_step_index t))] \<and>
       agent_execution t =
         Inr \<lparr>ex_task_id = ts_id t, ex_script = script, ex_cwd = the_or (sd_cwd step) [],
              ex_timeout_sec = the_or (sd_timeout_sec step) 300, ex_session = session,
              ex_env = []\<rparr>"
  using assms by (rule step_task_built)

theorem step_task_execution_witness:
  "\<exists>t. create_pipeline_step_task ''a'' ''bob'' ''r1''
         \<lparr>sd_step_index = Some 2, sd_name = None, sd_script = Some ''run.bat'', sd_cwd = None,
          sd_timeout_sec = None, sd_on_fail = None, sd_retry_count = None\<rparr> ''p'' ''s'' None ''u''
         = Inr (AgentTask t) \<and> ts_step_index t = 2"
  using step_task_execution [where step = "\<lparr>sd_step_index = Some 2, sd_name = None,
      sd_script = Some ''run.bat'', sd_cwd = None, sd_timeout_sec = None, sd_on_fail = None,
      sd_retry_count = None\<rparr>" and script = "''run.bat''" and run_id = "''r1''" and agent_id = "''a''"
      and session = "''bob''" and by_who = "''p''" and from_where = "''s''" and task_id = None
      and uuid = "''u''"]
  by auto

text \<open>A finished builder yields one component of each type.\<close>

lemma build_distinct_components:
  assumes "builder_ok b" and "build b = Inr t"
  shows "distinct (map comp_type (ts_components (spec_of t)))"
proof -
  have "map comp_type (map snd (tb_components b)) = map fst (tb_components b)"
    using assms(1) by (auto simp: builder_ok_def intro!: map_cong)
  then show ?thesis using build_ok [OF assms(2)] assms(1)
    by (simp add: built_spec_def builder_ok_def del: map_map)
qed

end
