(* ===== verification/Task_DB.thy ===== *)
theory Task_DB
  imports Task_Models Py_Json
begin

text \<open>
  The task store (\<open>vm_agent_server/src/tasks/db.py\<close>): the SQLite tables of tasks, pipelines,
  pipeline runs and the audit log, and the log files on disk.

  A table is the list of its rows in row-id order. The connection runs in Python's default
  transaction mode: the first write opens a transaction, a statement that violates a constraint
  raises \<open>IntegrityError\<close>, changes nothing itself and leaves the transaction open, and only
  \<open>commit\<close> makes it durable. So the state has two copies of the tables: \<open>working\<close>, which the
  connection reads and writes, and \<open>durable\<close>, what a closed or killed server leaves on disk. The
  clock (\<open>int(time.time())\<close>) is the argument \<open>now\<close> of the operations that read it; the two
  readings within one operation are taken to fall in the same second.
\<close>

section \<open>Rows and tables\<close>

record task_cols =
  t_id :: string
  t_pipeline_run_id :: "string option"
  t_step_index :: int
  t_agent_id :: string
  t_session :: string
  t_name :: string
  t_script :: string
  t_cwd :: string
  t_timeout_sec :: int
  t_config_id :: "string option"
  t_status :: string
  t_pid :: "int option"
  t_exit_code :: "int option"
  t_error :: "string option"
  t_requested_by :: string
  t_requested_from :: string
  t_created_at :: int
  t_started_at :: "int option"
  t_completed_at :: "int option"
  t_kind :: string

text \<open>A row of \<open>tasks\<close> has two JSON columns; what \<open>get_task\<close> returns has them decoded.\<close>

record task_row = task_cols +
  t_payload_json :: "string option"
  t_components_json :: "string option"

record task_view = task_cols +
  tv_payload :: pyval
  tv_components :: "pyval list"

record pipeline_row =
  p_id :: string
  p_name :: string
  p_description :: string
  p_created_by :: string
  p_created_at :: int
  p_updated_at :: int

record step_row =
  s_id :: nat
  s_pipeline_id :: string
  s_step_index :: int
  s_name :: string
  s_script :: string
  s_cwd :: string
  s_timeout_sec :: int
  s_on_fail :: string
  s_retry_count :: int

record run_row =
  r_id :: string
  r_pipeline_id :: string
  r_agent_id :: string
  r_session :: string
  r_status :: string
  r_current_step :: int
  r_requested_by :: string
  r_requested_from :: string
  r_created_at :: int
  r_started_at :: "int option"
  r_completed_at :: "int option"

record audit_row =
  a_id :: nat
  a_ts :: int
  a_entity_type :: string
  a_entity_id :: string
  a_action :: string
  a_actor :: string
  a_detail :: string
  a_ip :: string

record tables =
  tasks :: "task_row list"
  pipelines :: "pipeline_row list"
  pipeline_steps :: "step_row list"
  pipeline_runs :: "run_row list"
  audit_log :: "audit_row list"
  step_seq :: nat
  audit_seq :: nat

record task_db =
  working :: tables
  durable :: tables
  logs :: "string \<rightharpoonup> string"

definition empty_tables :: tables where
  "empty_tables =
     \<lparr>tasks = [], pipelines = [], pipeline_steps = [], pipeline_runs = [], audit_log = [],
      step_seq = 0, audit_seq = 0\<rparr>"

definition db_start :: task_db where
  "db_start = \<lparr>working = empty_tables, durable = empty_tables, logs = Map.empty\<rparr>"

text \<open>Closing the connection, or a crash, drops the open transaction.\<close>

definition db_stop :: "task_db \<Rightarrow> task_db" where
  "db_stop db = db\<lparr>working := durable db\<rparr>"

definition commit :: "task_db \<Rightarrow> task_db" where
  "commit db = db\<lparr>durable := working db\<rparr>"

section \<open>The audit log\<close>

definition audit ::
    "int \<Rightarrow> string \<Rightarrow> string \<Rightarrow> string \<Rightarrow> string \<Rightarrow> string \<Rightarrow> string \<Rightarrow> task_db \<Rightarrow> task_db" where
  "audit now entity_type entity_id action actor detail ip db =
     (let w = working db;
          row = \<lparr>a_id = Suc (audit_seq w), a_ts = now, a_entity_type = entity_type,
                 a_entity_id = entity_id, a_action = action, a_actor = actor,
                 a_detail = detail, a_ip = ip\<rparr>
      in db\<lparr>working := w\<lparr>audit_log := audit_log w @ [row], audit_seq := Suc (audit_seq w)\<rparr>\<rparr>)"

definition get_audit_log ::
    "string option \<Rightarrow> string option \<Rightarrow> int \<Rightarrow> task_db \<Rightarrow> audit_row list" where
  "get_audit_log entity_type entity_id lim db =
     limit lim (order_desc a_ts
       (filter (\<lambda>r. (ostr_or entity_type [] \<noteq> [] \<longrightarrow> Some (a_entity_type r) = entity_type) \<and>
                     (ostr_or entity_id [] \<noteq> [] \<longrightarrow> Some (a_entity_id r) = entity_id))
         (audit_log (working db))))"

section \<open>Tasks\<close>

definition task_insert_row :: "task_spec \<Rightarrow> int \<Rightarrow> task_row" where
  "task_insert_row t now =
     \<lparr>t_id = ts_id t, t_pipeline_run_id = ts_pipeline_run_id t, t_step_index = ts_step_index t,
      t_agent_id = ts_agent_id t, t_session = ts_session t, t_name = ts_name t,
      t_script = ts_script t, t_cwd = ts_cwd t, t_timeout_sec = ts_timeout_sec t,
      t_config_id = None, t_status = ''queued'', t_pid = None, t_exit_code = None,
      t_error = None, t_requested_by = ts_requested_by t,
      t_requested_from = ts_requested_from t, t_created_at = now, t_started_at = None,
      t_completed_at = None, t_kind = ts_kind t,
      t_payload_json = Some (json_dumps (PDict (ts_payload t))),
      t_components_json = Some (json_dumps (PList (map comp_to_dict (ts_components t))))\<rparr>"

definition create_task :: "int \<Rightarrow> task_spec \<Rightarrow> task_db \<Rightarrow> task_db \<times> pydict result" where
  "create_task now t db =
     (let w = working db in
      if (\<exists>r\<in>set (tasks w). t_id r = ts_id t)
      then (db, Inl (IntegrityError ''UNIQUE constraint failed: tasks.id''))
      else
        (let db1 = commit (db\<lparr>working := w\<lparr>tasks := tasks w @ [task_insert_row t now]\<rparr>\<rparr>);
             db2 = audit now ''task'' (ts_id t) ''created'' (ts_requested_by t)
               (''kind='' @ ts_kind t @ '', script_len='' @ str_int (int (length (ts_script t)))
                 @ '', agent='' @ ts_agent_id t)
               (ts_requested_from t) db1
         in (db2, Inr (to_api_dict t ''queued'' (Some now)))))"

definition final_task_statuses :: "string list" where
  "final_task_statuses = [''completed'', ''failed'', ''cancelled'', ''timeout'']"

definition set_task_status ::
    "int \<Rightarrow> string \<Rightarrow> int option \<Rightarrow> int option \<Rightarrow> string option \<Rightarrow> task_row \<Rightarrow> task_row" where
  "set_task_status now status pid exit_code err r =
     (let r1 = r\<lparr>t_status := status\<rparr>;
          r2 = (if status = ''running'' then r1\<lparr>t_started_at := Some now\<rparr>
                else if status \<in> set final_task_statuses then r1\<lparr>t_completed_at := Some now\<rparr>
                else r1);
          r3 = (if pid \<noteq> None then r2\<lparr>t_pid := pid\<rparr> else r2);
          r4 = (if exit_code \<noteq> None then r3\<lparr>t_exit_code := exit_code\<rparr> else r3)
      in if err \<noteq> None then r4\<lparr>t_error := err\<rparr> else r4)"

definition status_detail :: "int option \<Rightarrow> int option \<Rightarrow> string option \<Rightarrow> string" where
  "status_detail pid exit_code err =
     join '' '' ((case pid of None \<Rightarrow> [] | Some p \<Rightarrow> [''pid='' @ str_int p])
                @ (case exit_code of None \<Rightarrow> [] | Some e \<Rightarrow> [''exit_code='' @ str_int e]))
     @ (case err of
          None \<Rightarrow> []
        | Some e \<Rightarrow> if e \<noteq> [] then '' error='' @ take 200 e else [])"

definition update_task_status ::
    "int \<Rightarrow> string \<Rightarrow> string \<Rightarrow> int option \<Rightarrow> int option \<Rightarrow> string option \<Rightarrow> string
     \<Rightarrow> task_db \<Rightarrow> task_db" where
  "update_task_status now task_id status pid exit_code err actor db =
     (let w = working db;
          db1 = commit (db\<lparr>working := w\<lparr>tasks :=
                  update_where (\<lambda>r. t_id r = task_id) (set_task_status now status pid exit_code err)
                    (tasks w)\<rparr>\<rparr>)
      in audit now ''task'' task_id status actor (status_detail pid exit_code err) [] db1)"

text \<open>Decoding a row. \<open>default\<close> is \<open>{}\<close> or \<open>[]\<close>.\<close>

definition decode_json :: "string option \<Rightarrow> pyval \<Rightarrow> pyval" where
  "decode_json raw dflt =
     (case raw of
        None \<Rightarrow> dflt
      | Some s \<Rightarrow> if s = [] then dflt else (case json_loads s of None \<Rightarrow> dflt | Some v \<Rightarrow> v))"

definition normalize_components :: "pyval \<Rightarrow> pyval list" where
  "normalize_components raw =
     (case raw of
        PList xs \<Rightarrow> concat (map (\<lambda>x. case comp_from_dict x of
                                     Inl e \<Rightarrow> []
                                   | Inr c \<Rightarrow> [comp_to_dict c]) xs)
      | _ \<Rightarrow> [])"

definition map_task_row :: "task_row \<Rightarrow> task_view" where
  "map_task_row r =
     task_cols.extend (task_cols.truncate r\<lparr>t_kind := str_or (t_kind r) TASK_KIND_AGENT\<rparr>)
       (task_view.fields
         (decode_json (t_payload_json r) (PDict []))
         (normalize_components (decode_json (t_components_json r) (PList []))))"

definition get_task :: "string \<Rightarrow> task_db \<Rightarrow> task_view option" where
  "get_task task_id db =
     map_option map_task_row (find (\<lambda>r. t_id r = task_id) (tasks (working db)))"

definition get_tasks :: "string option \<Rightarrow> string option \<Rightarrow> int \<Rightarrow> task_db \<Rightarrow> task_view list" where
  "get_tasks agent_id status lim db =
     map map_task_row (limit lim (order_desc t_created_at
       (filter (\<lambda>r. (ostr_or agent_id [] \<noteq> [] \<longrightarrow> Some (t_agent_id r) = agent_id) \<and>
                     (ostr_or status [] \<noteq> [] \<longrightarrow> Some (t_status r) = status))
         (tasks (working db)))))"

section \<open>Pipelines\<close>

definition step_insert_row :: "string \<Rightarrow> nat \<Rightarrow> step_def \<Rightarrow> string \<Rightarrow> step_row" where
  "step_insert_row pipeline_id rowid st script =
     \<lparr>s_id = rowid, s_pipeline_id = pipeline_id, s_step_index = the_or (sd_step_index st) 0,
      s_name = the_or (sd_name st) [], s_script = script, s_cwd = the_or (sd_cwd st) [],
      s_timeout_sec = the_or (sd_timeout_sec st) 300,
      s_on_fail = the_or (sd_on_fail st) ''stop'', s_retry_count = the_or (sd_retry_count st) 0\<rparr>"

text \<open>One iteration of the loop of \<open>create_pipeline\<close>, and the loop: it stops at the first error.\<close>

definition insert_step :: "string \<Rightarrow> step_def \<Rightarrow> tables \<Rightarrow> tables result" where
  "insert_step pipeline_id st w =
     (case sd_script st of
        None \<Rightarrow> Inl (KeyError ''script'')
      | Some script \<Rightarrow>
          (let row = step_insert_row pipeline_id (Suc (step_seq w)) st script in
           if (\<exists>r\<in>set (pipeline_steps w). s_pipeline_id r = pipeline_id \<and>
                 s_step_index r = s_step_index row)
           then Inl (IntegrityError
                  ''UNIQUE constraint failed: pipeline_steps.pipeline_id, pipeline_steps.step_index'')
           else Inr (w\<lparr>pipeline_steps := pipeline_steps w @ [row],
                       step_seq := Suc (step_seq w)\<rparr>)))"

fun insert_steps :: "string \<Rightarrow> step_def list \<Rightarrow> tables \<Rightarrow> tables \<times> unit result" where
  "insert_steps pipeline_id [] w = (w, Inr ())"
| "insert_steps pipeline_id (st # sts) w =
     (case insert_step pipeline_id st w of
        Inl e \<Rightarrow> (w, Inl e)
      | Inr w' \<Rightarrow> insert_steps pipeline_id sts w')"

definition create_pipeline ::
    "int \<Rightarrow> string \<Rightarrow> string \<Rightarrow> step_def list \<Rightarrow> string \<Rightarrow> string \<Rightarrow> task_db
     \<Rightarrow> task_db \<times> (string \<times> string \<times> nat) result" where
  "create_pipeline now pipeline_id name steps description created_by db =
     (let w = working db in
      if (\<exists>p\<in>set (pipelines w). p_id p = pipeline_id)
      then (db, Inl (IntegrityError ''UNIQUE constraint failed: pipelines.id''))
      else
        (let row = \<lparr>p_id = pipeline_id, p_name = name, p_description = description,
                    p_created_by = created_by, p_created_at = now, p_updated_at = now\<rparr>;
             (w2, r) = insert_steps pipeline_id steps (w\<lparr>pipelines := pipelines w @ [row]\<rparr>)
         in case r of
              Inl e \<Rightarrow> (db\<lparr>working := w2\<rparr>, Inl e)
            | Inr _ \<Rightarrow>
                (audit now ''pipeline'' pipeline_id ''created'' created_by
                   (''name='' @ name @ '', steps='' @ str_int (int (length steps))) []
                   (commit (db\<lparr>working := w2\<rparr>)),
                 Inr (pipeline_id, name, length steps))))"

definition get_pipeline :: "string \<Rightarrow> task_db \<Rightarrow> (pipeline_row \<times> step_row list) option" where
  "get_pipeline pipeline_id db =
     (case find (\<lambda>p. p_id p = pipeline_id) (pipelines (working db)) of
        None \<Rightarrow> None
      | Some p \<Rightarrow> Some (p, sort_key s_step_index
            (filter (\<lambda>s. s_pipeline_id s = pipeline_id) (pipeline_steps (working db)))))"

definition get_pipelines :: "int \<Rightarrow> task_db \<Rightarrow> pipeline_row list" where
  "get_pipelines lim db = limit lim (order_desc p_created_at (pipelines (working db)))"

section \<open>Pipeline runs\<close>

definition create_pipeline_run ::
    "int \<Rightarrow> string \<Rightarrow> string \<Rightarrow> string \<Rightarrow> string \<Rightarrow> string \<Rightarrow> string \<Rightarrow> task_db
     \<Rightarrow> task_db \<times> (string \<times> string) result" where
  "create_pipeline_run now run_id pipeline_id agent_id session requested_by requested_from db =
     (let w = working db in
      if (\<exists>r\<in>set (pipeline_runs w). r_id r = run_id)
      then (db, Inl (IntegrityError ''UNIQUE constraint failed: pipeline_runs.id''))
      else if \<not> (\<exists>p\<in>set (pipelines w). p_id p = pipeline_id)
      then (db, Inl (IntegrityError ''FOREIGN KEY constraint failed''))
      else
        (let row = \<lparr>r_id = run_id, r_pipeline_id = pipeline_id, r_agent_id = agent_id,
                    r_session = session, r_status = ''queued'', r_current_step = 0,
                    r_requested_by = requested_by, r_requested_from = requested_from,
                    r_created_at = now, r_started_at = None, r_completed_at = None\<rparr>
         in (audit now ''pipeline_run'' run_id ''created'' requested_by
               (''pipeline='' @ pipeline_id @ '', agent='' @ agent_id) requested_from
               (commit (db\<lparr>working := w\<lparr>pipeline_runs := pipeline_runs w @ [row]\<rparr>\<rparr>)),
             Inr (run_id, ''queued''))))"

definition set_run_status :: "int \<Rightarrow> string \<Rightarrow> int option \<Rightarrow> run_row \<Rightarrow> run_row" where
  "set_run_status now status current_step r =
     (let r1 = r\<lparr>r_status := status\<rparr>;
          r2 = (if status = ''running'' then r1\<lparr>r_started_at := Some now\<rparr>
                else if status \<in> {''completed'', ''failed'', ''cancelled''}
                then r1\<lparr>r_completed_at := Some now\<rparr>
                else r1)
      in case current_step of None \<Rightarrow> r2 | Some n \<Rightarrow> r2\<lparr>r_current_step := n\<rparr>)"

definition update_pipeline_run_status ::
    "int \<Rightarrow> string \<Rightarrow> string \<Rightarrow> int option \<Rightarrow> string \<Rightarrow> task_db \<Rightarrow> task_db" where
  "update_pipeline_run_status now run_id status current_step actor db =
     (let w = working db;
          db1 = commit (db\<lparr>working := w\<lparr>pipeline_runs :=
                  update_where (\<lambda>r. r_id r = run_id) (set_run_status now status current_step)
                    (pipeline_runs w)\<rparr>\<rparr>)
      in audit now ''pipeline_run'' run_id status actor
           (case current_step of None \<Rightarrow> [] | Some n \<Rightarrow> ''step='' @ str_int n) [] db1)"

definition get_pipeline_run :: "string \<Rightarrow> task_db \<Rightarrow> (run_row \<times> task_view list) option" where
  "get_pipeline_run run_id db =
     (case find (\<lambda>r. r_id r = run_id) (pipeline_runs (working db)) of
        None \<Rightarrow> None
      | Some r \<Rightarrow> Some (r, map map_task_row (sort_key t_step_index
            (filter (\<lambda>t. t_pipeline_run_id t = Some run_id) (tasks (working db))))))"

section \<open>Log files\<close>

text \<open>
  The file of a task is \<open><logs_dir>/<task_id>.log\<close>: the map \<open>logs\<close>, keyed by task identifier,
  to the bytes of the file. Reading is in text mode, with universal newlines.
\<close>

definition newline :: char where "newline = CHR 0x0A"

definition append_log :: "string \<Rightarrow> string \<Rightarrow> task_db \<Rightarrow> task_db" where
  "append_log task_id data db =
     (let old = (case logs db task_id of None \<Rightarrow> [] | Some f \<Rightarrow> f);
          tail = (if ends_with [newline] data then [] else [newline])
      in db\<lparr>logs := (logs db)(task_id \<mapsto> old @ data @ tail)\<rparr>)"

fun universal_newlines :: "string \<Rightarrow> string" where
  "universal_newlines [] = []"
| "universal_newlines [c] = [if c = CHR 0x0D then CHR 0x0A else c]"
| "universal_newlines (c # d # s) =
     (if c = CHR 0x0D \<and> d = CHR 0x0A then CHR 0x0A # universal_newlines s
      else (if c = CHR 0x0D then CHR 0x0A else c) # universal_newlines (d # s))"

record log_chunk =
  lc_content :: string
  lc_offset :: int
  lc_size :: int

definition read_log :: "string \<Rightarrow> int \<Rightarrow> int \<Rightarrow> task_db \<Rightarrow> log_chunk" where
  "read_log task_id offset lim db =
     (case logs db task_id of
        None \<Rightarrow> \<lparr>lc_content = [], lc_offset = 0, lc_size = 0\<rparr>
      | Some f \<Rightarrow>
          (let text = universal_newlines (if offset > 0 then drop (nat offset) f else f)
           in \<lparr>lc_content = (if lim > 0 then take (nat lim) text else text),
               lc_offset = offset, lc_size = int (length f)\<rparr>))"

section \<open>Histories and the invariant\<close>

datatype db_op =
    CreateTask int task_spec
  | UpdateTask int string string "int option" "int option" "string option" string
  | CreatePipeline int string string "step_def list" string string
  | CreateRun int string string string string string string
  | UpdateRun int string string "int option" string
  | AppendLog string string
  | Restart

fun apply_op :: "db_op \<Rightarrow> task_db \<Rightarrow> task_db" where
  "apply_op (CreateTask now t) db = fst (create_task now t db)"
| "apply_op (UpdateTask now i s pid code err actor) db = update_task_status now i s pid code err actor db"
| "apply_op (CreatePipeline now i n sts d by_who) db = fst (create_pipeline now i n sts d by_who db)"
| "apply_op (CreateRun now i p a s by_who from_where) db =
     fst (create_pipeline_run now i p a s by_who from_where db)"
| "apply_op (UpdateRun now i s n actor) db = update_pipeline_run_status now i s n actor db"
| "apply_op (AppendLog i data) db = append_log i data db"
| "apply_op Restart db = db_stop db"

definition run_ops :: "db_op list \<Rightarrow> task_db \<Rightarrow> task_db" where
  "run_ops ops db = fold apply_op ops db"

definition tables_ok :: "tables \<Rightarrow> bool" where
  "tables_ok w \<longleftrightarrow>
     distinct (map t_id (tasks w)) \<and>
     distinct (map p_id (pipelines w)) \<and>
     distinct (map (\<lambda>s. (s_pipeline_id s, s_step_index s)) (pipeline_steps w)) \<and>
     distinct (map r_id (pipeline_runs w)) \<and>
     (\<forall>s\<in>set (pipeline_steps w). s_pipeline_id s \<in> p_id ` set (pipelines w)) \<and>
     (\<forall>r\<in>set (pipeline_runs w). r_pipeline_id r \<in> p_id ` set (pipelines w)) \<and>
     map a_id (audit_log w) = [1..<Suc (audit_seq w)]"

definition db_ok :: "task_db \<Rightarrow> bool" where
  "db_ok db \<longleftrightarrow>
     tables_ok (working db) \<and> tables_ok (durable db) \<and>
     (\<exists>pending. length pending \<le> 1 \<and>
        audit_log (working db) = audit_log (durable db) @ pending)"

lemma set_task_status_id [simp]: "t_id (set_task_status now s pid code err r) = t_id r"
  by (simp add: set_task_status_def Let_def)

lemma set_run_status_id [simp]:
  "r_id (set_run_status now s n r) = r_id r"
  "r_pipeline_id (set_run_status now s n r) = r_pipeline_id r"
  by (simp_all add: set_run_status_def Let_def split: option.split)

lemma task_insert_row_id [simp]: "t_id (task_insert_row t now) = ts_id t"
  by (simp add: task_insert_row_def)

text \<open>Every successful write commits first and audits afterwards.\<close>

lemma audit_working:
  "audit_log (working (audit now et ei act actor det ip db)) =
     audit_log (working db) @ [\<lparr>a_id = Suc (audit_seq (working db)), a_ts = now, a_entity_type = et,
       a_entity_id = ei, a_action = act, a_actor = actor, a_detail = det, a_ip = ip\<rparr>]"
  "durable (audit now et ei act actor det ip db) = durable db"
  "logs (audit now et ei act actor det ip db) = logs db"
  by (simp_all add: audit_def Let_def)

lemma tables_ok_audit [simp]:
  "tables_ok (working (audit now et ei act actor det ip db)) = tables_ok (working db)"
  by (auto simp: tables_ok_def audit_def Let_def)

lemma commit_simps [simp]:
  "working (commit db) = working db" "durable (commit db) = working db" "logs (commit db) = logs db"
  by (simp_all add: commit_def)

lemma db_ok_commit_audit:
  "tables_ok (working db) \<Longrightarrow> db_ok (audit now et ei act actor det ip (commit db))"
  by (simp add: db_ok_def audit_working)

lemma tables_ok_tasks_insert:
  "tables_ok w \<Longrightarrow> \<forall>r\<in>set (tasks w). t_id r \<noteq> t_id row \<Longrightarrow>
   tables_ok (w\<lparr>tasks := tasks w @ [row]\<rparr>)"
  by (auto simp: tables_ok_def)

lemma tables_ok_tasks_update:
  "tables_ok w \<Longrightarrow>
   tables_ok (w\<lparr>tasks := update_where p (set_task_status now s pid code err) (tasks w)\<rparr>)"
  by (simp add: tables_ok_def)

lemma tables_ok_runs_update:
  "tables_ok w \<Longrightarrow>
   tables_ok (w\<lparr>pipeline_runs := update_where p (set_run_status now s n) (pipeline_runs w)\<rparr>)"
  by (auto simp: tables_ok_def set_update_where)

lemma tables_ok_runs_insert:
  "tables_ok w \<Longrightarrow> \<forall>r\<in>set (pipeline_runs w). r_id r \<noteq> r_id row \<Longrightarrow>
   r_pipeline_id row \<in> p_id ` set (pipelines w) \<Longrightarrow>
   tables_ok (w\<lparr>pipeline_runs := pipeline_runs w @ [row]\<rparr>)"
  by (auto simp: tables_ok_def)

lemma tables_ok_pipelines_insert:
  "tables_ok w \<Longrightarrow> \<forall>p\<in>set (pipelines w). p_id p \<noteq> p_id row \<Longrightarrow>
   tables_ok (w\<lparr>pipelines := pipelines w @ [row]\<rparr>)"
  by (auto simp: tables_ok_def)

lemma insert_step_Inr:
  "insert_step pid st w = Inr w' \<longleftrightarrow>
     (\<exists>script. sd_script st = Some script \<and>
        (\<forall>r\<in>set (pipeline_steps w). s_pipeline_id r = pid \<longrightarrow> s_step_index r \<noteq> the_or (sd_step_index st) 0) \<and>
        w' = w\<lparr>pipeline_steps := pipeline_steps w @ [step_insert_row pid (Suc (step_seq w)) st script],
               step_seq := Suc (step_seq w)\<rparr>)"
  by (auto simp: insert_step_def step_insert_row_def Let_def split: option.splits if_splits)

lemma insert_step_ok:
  assumes "insert_step pid st w = Inr w'" "tables_ok w" "pid \<in> p_id ` set (pipelines w)"
  shows "tables_ok w'" "pipelines w' = pipelines w" "audit_log w' = audit_log w"
proof -
  obtain script where new: "\<forall>r\<in>set (pipeline_steps w). s_pipeline_id r = pid \<longrightarrow>
        s_step_index r \<noteq> the_or (sd_step_index st) 0"
    and w': "w' = w\<lparr>pipeline_steps := pipeline_steps w @ [step_insert_row pid (Suc (step_seq w)) st script],
               step_seq := Suc (step_seq w)\<rparr>"
    using assms(1) by (auto simp: insert_step_Inr)
  have "(pid, the_or (sd_step_index st) 0) \<notin>
      (\<lambda>s. (s_pipeline_id s, s_step_index s)) ` set (pipeline_steps w)"
    using new by auto
  then show "tables_ok w'" using assms(2,3) unfolding w'
    by (simp add: tables_ok_def step_insert_row_def)
  show "pipelines w' = pipelines w" "audit_log w' = audit_log w" by (simp_all add: w')
qed

lemma insert_steps_ok:
  "tables_ok w \<Longrightarrow> pid \<in> p_id ` set (pipelines w) \<Longrightarrow>
   tables_ok (fst (insert_steps pid sts w)) \<and>
   audit_log (fst (insert_steps pid sts w)) = audit_log w"
proof (induction pid sts w rule: insert_steps.induct)
  case (2 pid st sts w)
  then show ?case using insert_step_ok [of pid st w] by (auto split: sum.split)
qed simp

lemma db_ok_apply_op:
  assumes "db_ok db"
  shows "db_ok (apply_op op db)"
proof -
  have w: "tables_ok (working db)" using assms by (simp add: db_ok_def)
  show ?thesis
  proof (cases op)
    case (CreateTask now t)
    then show ?thesis using assms w
      by (auto simp: create_task_def Let_def intro!: db_ok_commit_audit tables_ok_tasks_insert)
  next
    case (UpdateTask now i s pid code err actor)
    then show ?thesis using w
      by (simp add: update_task_status_def Let_def db_ok_commit_audit tables_ok_tasks_update)
  next
    case (CreatePipeline now i n sts d by_who)
    show ?thesis
    proof (cases "\<exists>p\<in>set (pipelines (working db)). p_id p = i")
      case True
      then show ?thesis using assms by (simp add: CreatePipeline create_pipeline_def)
    next
      case False
      define w1 where "w1 = (working db)\<lparr>pipelines := pipelines (working db) @
        [\<lparr>p_id = i, p_name = n, p_description = d, p_created_by = by_who, p_created_at = now,
          p_updated_at = now\<rparr>]\<rparr>"
      obtain w2 r where r: "insert_steps i sts w1 = (w2, r)" by (cases "insert_steps i sts w1")
      have "tables_ok w1" unfolding w1_def
        using False w by (intro tables_ok_pipelines_insert) auto
      then have ok: "tables_ok w2" "audit_log w2 = audit_log (working db)"
        using insert_steps_ok [of w1 i sts] r by (auto simp: w1_def)
      show ?thesis
        using False r ok assms
        by (simp add: CreatePipeline create_pipeline_def Let_def w1_def [symmetric]
            db_ok_commit_audit split: sum.split) (simp add: db_ok_def)
    qed
  next
    case (CreateRun now i p a s by_who from_where)
    then show ?thesis using assms w
      by (auto simp: create_pipeline_run_def Let_def intro!: db_ok_commit_audit tables_ok_runs_insert)
  next
    case (UpdateRun now i s n actor)
    then show ?thesis using w
      by (simp add: update_pipeline_run_status_def Let_def db_ok_commit_audit tables_ok_runs_update)
  next
    case (AppendLog i data)
    then show ?thesis using assms by (simp add: append_log_def Let_def db_ok_def)
  next
    case Restart
    then show ?thesis using assms by (simp add: db_stop_def db_ok_def)
  qed
qed

lemma db_ok_start [simp]: "db_ok db_start"
  by (simp add: db_ok_def tables_ok_def db_start_def empty_tables_def)



section \<open>Round trips\<close>

lemma json_wf_comp [simp]: "json_wf (comp_to_dict c) = json_wf (PDict (comp_config c))"
  by (simp add: comp_to_dict_def)

lemma normalize_comp_to_dict:
  "\<forall>c\<in>set cs. comp_type c \<noteq> [] \<Longrightarrow>
   normalize_components (PList (map comp_to_dict cs)) = map comp_to_dict cs"
proof -
  assume a: "\<forall>c\<in>set cs. comp_type c \<noteq> []"
  then have "concat (map (\<lambda>x. case comp_from_dict x of Inl e \<Rightarrow> [] | Inr c \<Rightarrow> [comp_to_dict c])
      (map comp_to_dict cs)) = map comp_to_dict cs"
    by (induction cs) (simp_all add: comp_round_trip)
  then show ?thesis by (simp add: normalize_components_def)
qed


definition sample_task :: task_spec where
  "sample_task =
     \<lparr>ts_id = ''t1'', ts_kind = ''agent'', ts_agent_id = ''vm1'', ts_script = ''run.bat'', ts_name = [],
      ts_cwd = [], ts_timeout_sec = 300, ts_session = [], ts_pipeline_run_id = None,
      ts_step_index = 0, ts_requested_by = ''user'', ts_requested_from = [],
      ts_payload = [(''k'', PInt (-7))],
      ts_components = [\<lparr>comp_type = ''execution'', comp_config = [(''env'', PDict [])]\<rparr>]\<rparr>"


text \<open>What a status report writes.\<close>

lemma find_set_task_status:
  "get_task i (update_task_status now i s pid code err actor db) =
     map_option (\<lambda>r. map_task_row (set_task_status now s pid code err r))
       (find (\<lambda>r. t_id r = i) (tasks (working db)))"
  by (simp add: get_task_def update_task_status_def Let_def audit_def find_update_where
      option.map_comp comp_def)

lemma find_other_task_status:
  "i \<noteq> j \<Longrightarrow> get_task j (update_task_status now i s pid code err actor db) = get_task j db"
proof -
  assume "i \<noteq> j"
  then have "find (\<lambda>r. t_id r = j) (update_where (\<lambda>r. t_id r = i) (set_task_status now s pid code err)
      (tasks (working db))) = find (\<lambda>r. t_id r = j) (tasks (working db))"
    by (intro find_update_where_other) auto
  then show ?thesis by (simp add: get_task_def update_task_status_def Let_def audit_def)
qed

lemma map_task_row_fields [simp]:
  "t_status (map_task_row r) = t_status r" "t_id (map_task_row r) = t_id r"
  "t_pipeline_run_id (map_task_row r) = t_pipeline_run_id r"
  "t_step_index (map_task_row r) = t_step_index r" "t_agent_id (map_task_row r) = t_agent_id r"
  "t_started_at (map_task_row r) = t_started_at r"
  "t_completed_at (map_task_row r) = t_completed_at r"
  "t_pid (map_task_row r) = t_pid r" "t_exit_code (map_task_row r) = t_exit_code r"
  "t_error (map_task_row r) = t_error r"
  by (simp_all add: map_task_row_def task_cols.defs task_view.defs)

text \<open>A status report sets the status and, of the other columns, exactly
  those the report carries; the start time is written by running, the completion time by the
  four final statuses, and by nothing else.\<close>

theorem status_update_functional:
  assumes "get_task i db = Some v"
  shows "\<exists>v'. get_task i (update_task_status now i s pid code err actor db) = Some v' \<and>
     t_status v' = s \<and>
     t_started_at v' = (if s = ''running'' then Some now else t_started_at v) \<and>
     t_completed_at v' =
       (if s \<in> {''completed'', ''failed'', ''cancelled'', ''timeout''} then Some now
        else t_completed_at v) \<and>
     t_pid v' = (if pid = None then t_pid v else pid) \<and>
     t_exit_code v' = (if code = None then t_exit_code v else code) \<and>
     t_error v' = (if err = None then t_error v else err)"
proof -
  obtain r where r: "find (\<lambda>r. t_id r = i) (tasks (working db)) = Some r" "v = map_task_row r"
    using assms by (auto simp: get_task_def)
  show ?thesis unfolding find_set_task_status r
    by (auto simp: set_task_status_def final_task_statuses_def Let_def)
qed


theorem status_update_functional_witness:
  "\<exists>v. get_task ''t1'' (update_task_status 9 ''t1'' ''failed'' None (Some 3) None ''vm1''
            (fst (create_task 5 sample_task db_start))) = Some v \<and>
     t_status v = ''failed'' \<and> t_completed_at v = Some 9 \<and> t_exit_code v = Some 3"
proof -
  have "get_task ''t1'' (fst (create_task 5 sample_task db_start)) =
      Some (map_task_row (task_insert_row sample_task 5))"
    by (simp add: create_task_def get_task_def db_start_def empty_tables_def sample_task_def
        audit_def Let_def)
  from status_update_functional [OF this, of 9 "''failed''" None "Some 3" None "''vm1''"]
  show ?thesis by auto
qed

section \<open>The pending audit record\<close>

text \<open>A status change and its audit record are not atomic: the change is
  committed before the record is written, so after a restart (or a crash) the new status is there
  and the record of it is gone.\<close>

theorem status_change_without_audit:
  "let db1 = update_task_status now i s pid code err actor db in
   (\<exists>row. audit_log (working db1) = audit_log (working db) @ [row] \<and>
      a_entity_id row = i \<and> a_action row = s \<and> a_actor row = actor \<and> a_ts row = now) \<and>
   get_task i (db_stop db1) = get_task i db1 \<and>
   audit_log (working (db_stop db1)) = audit_log (working db)"
  by (simp add: Let_def update_task_status_def db_stop_def get_task_def audit_def)

section \<open>Creating pipelines\<close>

fun step_rows :: "string \<Rightarrow> nat \<Rightarrow> step_def list \<Rightarrow> step_row list" where
  "step_rows pid n [] = []"
| "step_rows pid n (st # sts) =
     step_insert_row pid (Suc n) st (the_or (sd_script st) []) # step_rows pid (Suc n) sts"

definition step_index :: "step_def \<Rightarrow> int" where
  "step_index st = the_or (sd_step_index st) 0"

lemma step_insert_row_fields [simp]:
  "s_pipeline_id (step_insert_row pid n st script) = pid"
  "s_step_index (step_insert_row pid n st script) = step_index st"
  by (simp_all add: step_insert_row_def step_index_def)

lemma step_rows_indexes [simp]: "map s_step_index (step_rows pid n sts) = map step_index sts"
  by (induction sts arbitrary: n) auto

lemma length_step_rows [simp]: "length (step_rows pid n sts) = length sts"
  by (induction sts arbitrary: n) auto

lemma distinct_map_sort_key:
  "distinct (map f (sort_key g xs)) = distinct (map f xs)"
  by (metis distinct_map distinct_sort set_sort)

lemma step_rows_fields [simp]:
  "s_step_index ` set (step_rows pid n sts) = step_index ` set sts"
  "r \<in> set (step_rows pid n sts) \<Longrightarrow> s_pipeline_id r = pid"
  by (induction sts arbitrary: n) auto

definition index_used :: "string \<Rightarrow> tables \<Rightarrow> int set" where
  "index_used pid w =
     s_step_index ` set (filter (\<lambda>r. s_pipeline_id r = pid) (pipeline_steps w))"

lemma insert_step_success:
  "sd_script st \<noteq> None \<Longrightarrow> step_index st \<notin> index_used pid w \<Longrightarrow>
   insert_step pid st w =
     Inr (w\<lparr>pipeline_steps := pipeline_steps w @
              [step_insert_row pid (Suc (step_seq w)) st (the_or (sd_script st) [])],
            step_seq := Suc (step_seq w)\<rparr>)"
proof -
  assume a: "sd_script st \<noteq> None" "step_index st \<notin> index_used pid w"
  have "\<not> (\<exists>r\<in>set (pipeline_steps w). s_pipeline_id r = pid \<and> s_step_index r = step_index st)"
    using a(2) unfolding index_used_def image_iff set_filter by force
  then show ?thesis using a(1) by (auto simp: insert_step_def Let_def)
qed

lemma insert_step_duplicate:
  assumes "sd_script st \<noteq> None" and "step_index st \<in> index_used pid w"
  shows "\<exists>msg. insert_step pid st w = Inl (IntegrityError msg)"
proof -
  obtain script where sc: "sd_script st = Some script" using assms(1) by blast
  obtain r where r: "r \<in> set (pipeline_steps w)" "s_pipeline_id r = pid" "s_step_index r = step_index st"
    using assms(2) unfolding index_used_def by force
  then have "\<exists>r\<in>set (pipeline_steps w). s_pipeline_id r = pid \<and> s_step_index r = step_index st" by blast
  then show ?thesis using sc by (simp add: insert_step_def Let_def)
qed

lemma insert_steps_success:
  "\<forall>st\<in>set sts. sd_script st \<noteq> None \<Longrightarrow> distinct (map step_index sts) \<Longrightarrow>
   step_index ` set sts \<inter> index_used pid w = {} \<Longrightarrow>
   insert_steps pid sts w =
     (w\<lparr>pipeline_steps := pipeline_steps w @ step_rows pid (step_seq w) sts,
        step_seq := step_seq w + length sts\<rparr>, Inr ())"
proof (induction sts arbitrary: w)
  case (Cons st sts)
  let ?w = "w\<lparr>pipeline_steps := pipeline_steps w @
              [step_insert_row pid (Suc (step_seq w)) st (the_or (sd_script st) [])],
            step_seq := Suc (step_seq w)\<rparr>"
  have "insert_step pid st w = Inr ?w"
    using Cons.prems by (intro insert_step_success) auto
  moreover have "index_used pid ?w = insert (step_index st) (index_used pid w)"
    by (auto simp: index_used_def)
  then have "insert_steps pid sts ?w =
     (?w\<lparr>pipeline_steps := pipeline_steps ?w @ step_rows pid (step_seq ?w) sts,
        step_seq := step_seq ?w + length sts\<rparr>, Inr ())"
    using Cons.prems by (intro Cons.IH) auto
  ultimately show ?case by simp
qed simp

lemma insert_steps_append:
  "insert_steps pid (xs @ ys) w =
     (case insert_steps pid xs w of
        (w', Inl e) \<Rightarrow> (w', Inl e)
      | (w', Inr _) \<Rightarrow> insert_steps pid ys w')"
  by (induction pid xs w rule: insert_steps.induct) (auto split: sum.split)

lemma filter_all: "\<forall>x\<in>set xs. P x \<Longrightarrow> filter P xs = xs"
  by simp

text \<open>The store holds no steps of a pipeline that does not exist (a consequence of the foreign key).\<close>

lemma no_orphan_steps:
  assumes "tables_ok w" and "\<forall>p\<in>set (pipelines w). p_id p \<noteq> pid"
  shows "filter (\<lambda>s. s_pipeline_id s = pid) (pipeline_steps w) = []" and "index_used pid w = {}"
proof -
  have "s_pipeline_id r \<noteq> pid" if "r \<in> set (pipeline_steps w)" for r
  proof -
    have "s_pipeline_id r \<in> p_id ` set (pipelines w)" using assms(1) that by (simp add: tables_ok_def)
    then show ?thesis using assms(2) by auto
  qed
  then show "filter (\<lambda>s. s_pipeline_id s = pid) (pipeline_steps w) = []" "index_used pid w = {}"
    by (auto simp: filter_empty_conv index_used_def)
qed

text \<open>Creating a pipeline with a fresh identifier, a script in every step and
  pairwise distinct step indexes succeeds, is durable, and the steps are read back in the order of
  their indexes whatever their order in the request.\<close>

theorem create_pipeline_success:
  assumes "db_ok db" and "\<forall>p\<in>set (pipelines (working db)). p_id p \<noteq> pid"
    and "\<forall>st\<in>set steps. sd_script st \<noteq> None" and "distinct (map step_index steps)"
  shows "\<exists>db' p rows. create_pipeline now pid name steps descr by_who db = (db', Inr (pid, name, length steps)) \<and>
     get_pipeline pid db' = Some (p, rows) \<and> get_pipeline pid (db_stop db') = Some (p, rows) \<and>
     p_name p = name \<and> sorted (map s_step_index rows) \<and> distinct (map s_step_index rows) \<and>
     rows = sort_key s_step_index (step_rows pid (step_seq (working db)) steps)"
proof -
  let ?row = "\<lparr>p_id = pid, p_name = name, p_description = descr, p_created_by = by_who,
      p_created_at = now, p_updated_at = now\<rparr>"
  let ?w = "(working db)\<lparr>pipelines := pipelines (working db) @ [?row]\<rparr>"
  let ?rows = "step_rows pid (step_seq (working db)) steps"
  have none: "filter (\<lambda>s. s_pipeline_id s = pid) (pipeline_steps (working db)) = []"
    "index_used pid (working db) = {}"
    using no_orphan_steps [of "working db" pid] assms(1,2) by (auto simp: db_ok_def)
  then have "index_used pid ?w = {}" by (simp add: index_used_def)
  then have ins: "insert_steps pid steps ?w =
     (?w\<lparr>pipeline_steps := pipeline_steps ?w @ ?rows, step_seq := step_seq ?w + length steps\<rparr>, Inr ())"
    using assms(3,4) insert_steps_success [of steps pid ?w] by simp
  have f: "find (\<lambda>p. p_id p = pid) (pipelines (working db)) = None"
    using assms(2) by (simp add: find_eq_None_iff)
  have fr: "filter (\<lambda>s. s_pipeline_id s = pid) ?rows = ?rows" by simp
  have d: "distinct (map s_step_index (sort_key s_step_index ?rows))"
    using assms(4) by (simp add: distinct_map_sort_key)
  show ?thesis
    using assms(2) ins f none(1) fr d
    by (auto simp: create_pipeline_def get_pipeline_def Let_def audit_def db_stop_def commit_def
        find_append)
qed


definition sample_step :: "int \<Rightarrow> string \<Rightarrow> step_def" where
  "sample_step i script =
     \<lparr>sd_step_index = Some i, sd_name = None, sd_script = Some script, sd_cwd = None,
      sd_timeout_sec = None, sd_on_fail = None, sd_retry_count = None\<rparr>"

theorem create_pipeline_success_witness:
  "\<exists>db' p rows. create_pipeline 5 ''p'' ''n'' [sample_step 1 ''b'', sample_step 0 ''a''] [] ''u'' db_start
       = (db', Inr (''p'', ''n'', Suc (Suc 0))) \<and> get_pipeline ''p'' (db_stop db') = Some (p, rows) \<and>
     sorted (map s_step_index rows)"
proof -
  have "\<forall>p\<in>set (pipelines (working db_start)). p_id p \<noteq> ''p''"
    by (simp add: db_start_def empty_tables_def)
  from create_pipeline_success [OF db_ok_start this, of "[sample_step 1 ''b'', sample_step 0 ''a'']" 5
      "''n''" "[]" "''u''"]
  show ?thesis by (fastforce simp: sample_step_def step_index_def)
qed

text \<open>Creating a pipeline whose steps repeat an index fails with an
  integrity error, but nothing is rolled back: the pipeline and the steps before the repeated one stay
  in the open transaction, and the next operation that commits, here a status report on any task,
  makes the truncated pipeline durable.\<close>

theorem failed_pipeline_is_kept:
  assumes "db_ok db" and "\<forall>p\<in>set (pipelines (working db)). p_id p \<noteq> pid"
    and "\<forall>st\<in>set good. sd_script st \<noteq> None" and "distinct (map step_index good)"
    and "sd_script bad \<noteq> None" and "step_index bad \<in> step_index ` set good"
  shows "\<exists>db' p rows msg.
     create_pipeline now pid name (good @ bad # rest) descr by_who db = (db', Inl (IntegrityError msg)) \<and>
     durable db' = durable db \<and>
     get_pipeline pid (db_stop (update_task_status now' i s tpid code err actor db')) = Some (p, rows) \<and>
     p_name p = name \<and> length rows = length good"
proof -
  let ?row = "\<lparr>p_id = pid, p_name = name, p_description = descr, p_created_by = by_who,
      p_created_at = now, p_updated_at = now\<rparr>"
  let ?w = "(working db)\<lparr>pipelines := pipelines (working db) @ [?row]\<rparr>"
  let ?rows = "step_rows pid (step_seq (working db)) good"
  let ?w' = "?w\<lparr>pipeline_steps := pipeline_steps ?w @ ?rows, step_seq := step_seq ?w + length good\<rparr>"
  have none: "filter (\<lambda>s. s_pipeline_id s = pid) (pipeline_steps (working db)) = []"
    "index_used pid (working db) = {}"
    using no_orphan_steps [of "working db" pid] assms(1,2) by (auto simp: db_ok_def)
  then have "index_used pid ?w = {}" by (simp add: index_used_def)
  then have ins: "insert_steps pid good ?w = (?w', Inr ())"
    using assms(3,4) insert_steps_success [of good pid ?w] by simp
  have "index_used pid ?w' = step_index ` set good"
    using none(1) step_rows_fields(1) [of pid "step_seq (working db)" good] by (simp add: index_used_def)
  then have "step_index bad \<in> index_used pid ?w'" using assms(6) by simp
  then obtain msg where "insert_step pid bad ?w' = Inl (IntegrityError msg)"
    using insert_step_duplicate [OF assms(5)] by blast
  then have fail: "insert_steps pid (good @ bad # rest) ?w = (?w', Inl (IntegrityError msg))"
    using ins by (simp add: insert_steps_append)
  have f: "find (\<lambda>p. p_id p = pid) (pipelines (working db)) = None"
    using assms(2) by (simp add: find_eq_None_iff)
  have len: "length ?rows = length good" by simp
  let ?db' = "db\<lparr>working := ?w'\<rparr>"
  have "create_pipeline now pid name (good @ bad # rest) descr by_who db = (?db', Inl (IntegrityError msg))"
    using assms(2) fail by (simp add: create_pipeline_def Let_def)
  moreover have "get_pipeline pid (db_stop (update_task_status now' i s tpid code err actor ?db')) =
      Some (?row, sort_key s_step_index ?rows)"
    using f none(1)
    by (simp add: get_pipeline_def Let_def audit_def db_stop_def commit_def update_task_status_def
        find_append)
  ultimately show ?thesis using len by simp
qed

theorem failed_pipeline_is_kept_witness:
  "\<exists>db' p rows msg.
     create_pipeline 5 ''p'' ''n'' ([sample_step 0 ''a''] @ sample_step 0 ''b'' # []) [] ''u'' db_start
       = (db', Inl (IntegrityError msg)) \<and>
     get_pipeline ''p'' (db_stop (update_task_status 6 ''x'' ''running'' None None None ''vm'' db'))
       = Some (p, rows) \<and> length rows = 1"
proof -
  have "\<forall>p\<in>set (pipelines (working db_start)). p_id p \<noteq> ''p''"
    by (simp add: db_start_def empty_tables_def)
  from failed_pipeline_is_kept [OF db_ok_start this, of "[sample_step 0 ''a'']" "sample_step 0 ''b''"
      5 "''n''" "[]" "[]" "''u''" 6 "''x''" "''running''" None None None "''vm''"]
  show ?thesis by (auto simp: sample_step_def step_index_def)
qed

section \<open>Log files\<close>

definition log_text :: "string \<Rightarrow> task_db \<Rightarrow> string" where
  "log_text i db = (case logs db i of None \<Rightarrow> [] | Some f \<Rightarrow> f)"

fun log_line :: "string \<Rightarrow> string" where
  "log_line data = data @ (if ends_with [newline] data then [] else [newline])"

lemma universal_newlines_id: "CHR 0x0D \<notin> set s \<Longrightarrow> universal_newlines s = s"
  by (induction s rule: universal_newlines.induct) auto

text \<open>The log of a task is append-only and loses nothing: reading it back gives the
  concatenation of the chunks in the order of arrival, each ended by a newline if it had none.\<close>

theorem log_append_read:
  assumes "\<forall>data\<in>set chunks. CHR 0x0D \<notin> set data" and "logs db i = None" and "chunks \<noteq> []"
  shows "lc_content (read_log i 0 0 (fold (append_log i) chunks db)) = concat (map log_line chunks)"
proof -
  have *: "log_text i (fold (append_log i) chunks db) = log_text i db @ concat (map log_line chunks)"
    for db
    by (induction chunks arbitrary: db) (simp_all add: log_text_def append_log_def Let_def)
  have s: "logs (fold (append_log i) chunks db) i \<noteq> None" if "chunks \<noteq> []" for chunks
    using that by (induction chunks rule: rev_induct) (simp_all add: append_log_def Let_def)
  then obtain f where f: "logs (fold (append_log i) chunks db) i = Some f" using assms(3) by blast
  then have fe: "f = concat (map log_line chunks)"
    using * [of db] assms(2) by (simp add: log_text_def)
  have "CHR 0x0D \<notin> set f" using assms(1) unfolding fe by (auto simp: newline_def)
  then show ?thesis using f fe by (simp add: read_log_def Let_def universal_newlines_id)
qed

theorem log_append_read_witness:
  "lc_content (read_log ''t1'' 0 0 (fold (append_log ''t1'') [''ab'', ''c''] db_start)) =
     concat (map log_line [''ab'', ''c''])"
  using log_append_read [of "[''ab'', ''c'']" db_start "''t1''"] by (simp add: db_start_def)

end
