(* ===== verification/Task_Service.thy ===== *)
theory Task_Service
  imports Task_DB Net_Events
begin

text \<open>
  Dispatching tasks and advancing pipelines (\<open>tasks/service.py\<close>, \<open>tasks/dispatcher.py\<close>,
  \<open>tasks/network_handler.py\<close>). The state is the task store and the rest of the server, of type
  \<open>'n\<close>: what a dispatch handler, the connection to an agent and the broadcast to the frontends do
  to it are arguments. Each handler runs to its end before the next: an \<open>await\<close> is not a point
  where others interleave. Clock readings and fresh identifiers are arguments.
\<close>

section \<open>The dispatcher\<close>

record dispatch_result =
  dr_accepted :: bool
  dr_status :: "string option"
  dr_error :: "string option"

type_synonym 'n task_handler = "task \<Rightarrow> ('n, dispatch_result) prog"
type_synonym 'n send_event = "string \<Rightarrow> net_event \<Rightarrow> 'n \<Rightarrow> 'n \<times> bool"

definition register_handler ::
    "string \<Rightarrow> 'n task_handler \<Rightarrow> (string \<times> 'n task_handler) list \<Rightarrow> (string \<times> 'n task_handler) list"
  where
  "register_handler kind handler hs = AList.update kind handler hs"

definition dispatcher_dispatch :: "(string \<times> 'n task_handler) list \<Rightarrow> 'n task_handler" where
  "dispatcher_dispatch handlers t =
     (case map_of handlers (ts_kind (spec_of t)) of
        None \<Rightarrow> retP \<lparr>dr_accepted = False, dr_status = Some ''failed'',
                     dr_error = Some (''No handler registered for task kind ''
                       @ [quote_char] @ ts_kind (spec_of t) @ [quote_char])\<rparr>
      | Some h \<Rightarrow> h t)"

definition lift_result :: "'a result \<Rightarrow> ('s, 'a) prog" where
  "lift_result r s = (s, r)"

lemma lift_result_simps [simp]: "lift_result r s = (s, r)"
  by (simp add: lift_result_def)

definition execute_event :: "task_spec \<Rightarrow> execution \<Rightarrow> net_event" where
  "execute_event t ex =
     ExecuteTaskEv \<lparr>et_task_id = ts_id t, et_script = ex_script ex, et_cwd = ex_cwd ex,
       et_timeout_sec = ex_timeout_sec ex, et_session = ex_session ex, et_env = ex_env ex\<rparr>"

definition agent_task_handler :: "'n send_event \<Rightarrow> 'n task_handler" where
  "agent_task_handler send_event t =
     bindP (lift_result (case t of AgentTask s \<Rightarrow> Inr (AgentTask s)
                         | _ \<Rightarrow> agent_from_task_spec (spec_of t))) (\<lambda>agent_task.
     bindP (lift_result (agent_execution (spec_of agent_task))) (\<lambda>ex n.
       (let (n', sent) = send_event (ts_agent_id (spec_of agent_task))
                           (execute_event (spec_of agent_task) ex) n
        in (n', Inr (if sent
              then \<lparr>dr_accepted = True, dr_status = Some ''running'', dr_error = None\<rparr>
              else \<lparr>dr_accepted = False, dr_status = Some ''failed'',
                    dr_error = Some ''Agent not connected''\<rparr>)))))"

definition deployment_task_handler :: "'n task_handler \<Rightarrow> 'n task_handler" where
  "deployment_task_handler dispatch_deployment t =
     bindP (lift_result (case t of DeploymentTask s \<Rightarrow> Inr (DeploymentTask s)
                         | _ \<Rightarrow> deployment_from_task_spec (spec_of t)))
       dispatch_deployment"

section \<open>The service\<close>

record 'n svc =
  sv_db :: task_db
  sv_net :: 'n

definition on_net :: "('n, 'a) prog \<Rightarrow> ('n svc, 'a) prog" where
  "on_net m w = (let (n', r) = m (sv_net w) in (w\<lparr>sv_net := n'\<rparr>, r))"

definition on_db :: "(task_db \<Rightarrow> task_db) \<Rightarrow> 'n svc \<Rightarrow> 'n svc" where
  "on_db f w = w\<lparr>sv_db := f (sv_db w)\<rparr>"

definition service_create_task :: "int \<Rightarrow> task \<Rightarrow> ('n svc, pydict) prog" where
  "service_create_task now t w =
     (let (db', r) = create_task now (spec_of t) (sv_db w) in (w\<lparr>sv_db := db'\<rparr>, r))"

definition service_dispatch ::
    "(string \<times> 'n task_handler) list \<Rightarrow> int \<Rightarrow> task \<Rightarrow> string \<Rightarrow> ('n svc, dispatch_result) prog" where
  "service_dispatch handlers now t actor =
     bindP (on_net (dispatcher_dispatch handlers t)) (\<lambda>res w.
       (case dr_status res of
          None \<Rightarrow> (w, Inr res)
        | Some s \<Rightarrow>
            (on_db (update_task_status now (ts_id (spec_of t)) s None None (dr_error res) actor) w,
             Inr res)))"

definition create_and_dispatch ::
    "(string \<times> 'n task_handler) list \<Rightarrow> int \<Rightarrow> task \<Rightarrow> string
     \<Rightarrow> ('n svc, pydict \<times> dispatch_result) prog" where
  "create_and_dispatch handlers now t actor =
     bindP (service_create_task now t) (\<lambda>created.
     bindP (service_dispatch handlers now t actor) (\<lambda>d.
       (let c1 = (if ostr_or (dr_status d) [] \<noteq> []
                  then AList.update ''status'' (opt_str (dr_status d)) created else created);
            c2 = (if ostr_or (dr_error d) [] \<noteq> []
                  then AList.update ''error'' (opt_str (dr_error d)) c1 else c1)
        in retP (c2, d))))"

definition row_step :: "step_row \<Rightarrow> step_def" where
  "row_step s =
     \<lparr>sd_step_index = Some (s_step_index s), sd_name = Some (s_name s),
      sd_script = Some (s_script s), sd_cwd = Some (s_cwd s),
      sd_timeout_sec = Some (s_timeout_sec s), sd_on_fail = Some (s_on_fail s),
      sd_retry_count = Some (s_retry_count s)\<rparr>"

definition run_status :: "int \<Rightarrow> string \<Rightarrow> string \<Rightarrow> int \<Rightarrow> 'n svc \<Rightarrow> 'n svc" where
  "run_status now run_id s n w = on_db (update_pipeline_run_status now run_id s (Some n) ''system'') w"

definition on_fail_of :: "step_row list \<Rightarrow> int \<Rightarrow> string" where
  "on_fail_of steps current =
     (case find (\<lambda>s. s_step_index s = current) steps of
        None \<Rightarrow> ''stop''
      | Some s \<Rightarrow> s_on_fail s)"

text \<open>The last part of \<open>advance_pipeline\<close>: start the step after \<open>current\<close>, if there is one.\<close>

definition start_next_step ::
    "(string \<times> 'n task_handler) list \<Rightarrow> int \<Rightarrow> string \<Rightarrow> run_row \<Rightarrow> step_row list \<Rightarrow> int
     \<Rightarrow> ('n svc, unit) prog" where
  "start_next_step handlers now uuid run steps current =
     (case find (\<lambda>s. s_step_index s = current + 1) steps of
        None \<Rightarrow> modP (run_status now (r_id run) ''completed'' current)
      | Some next_step \<Rightarrow>
          bindP (lift_result (create_pipeline_step_task (r_agent_id run) (r_session run) (r_id run)
                   (row_step next_step) ''pipeline'' ''server'' None uuid)) (\<lambda>next_task.
          bindP (modP (run_status now (r_id run) ''running'' (current + 1))) (\<lambda>_.
          bindP (create_and_dispatch handlers now next_task ''server'') (\<lambda>(_, d).
            if dr_accepted d then retP ()
            else modP (run_status now (r_id run) ''failed'' (current + 1))))))"

definition advance_pipeline ::
    "(string \<times> 'n task_handler) list \<Rightarrow> int \<Rightarrow> string \<Rightarrow> string \<Rightarrow> string \<Rightarrow> ('n svc, unit) prog" where
  "advance_pipeline handlers now uuid task_id task_status w =
     (case get_task task_id (sv_db w) of
        None \<Rightarrow> (w, Inr ())
      | Some t \<Rightarrow>
          (case t_pipeline_run_id t of
             None \<Rightarrow> (w, Inr ())
           | Some run_id \<Rightarrow>
               if run_id = [] then (w, Inr ())
               else
                 (case get_pipeline_run run_id (sv_db w) of
                    None \<Rightarrow> (w, Inr ())
                  | Some (run, _) \<Rightarrow>
                      if r_status run \<notin> {''running'', ''queued''} then (w, Inr ())
                      else
                        (case get_pipeline (r_pipeline_id run) (sv_db w) of
                           None \<Rightarrow> (w, Inr ())
                         | Some (_, steps) \<Rightarrow>
                             if task_status \<in> {''failed'', ''timeout''} \<and>
                                on_fail_of steps (t_step_index t) = ''stop''
                             then (run_status now (r_id run) ''failed'' (t_step_index t) w, Inr ())
                             else start_next_step handlers now uuid run steps (t_step_index t) w))))"

section \<open>Messages from agents\<close>

definition handle_task_output ::
    "(string \<Rightarrow> pydict \<Rightarrow> 'n \<Rightarrow> 'n) \<Rightarrow> net_event \<Rightarrow> ('n svc, bool) prog" where
  "handle_task_output broadcast ev w =
     (case ev of
        TaskOutputEv d \<Rightarrow>
          (let w1 = on_db (append_log (to_task_id d) (to_data d)) w;
               msg = [(''type'', PStr ''task_output''), (''task_id'', PStr (to_task_id d)),
                      (''stream'', PStr (to_stream d)), (''data'', PStr (to_data d)),
                      (''seq'', PInt (to_seq d))]
           in (w1\<lparr>sv_net := broadcast (to_task_id d) msg (sv_net w1)\<rparr>, Inr True))
      | _ \<Rightarrow> (w, Inr False))"

definition handle_task_status ::
    "(string \<times> 'n task_handler) list \<Rightarrow> (string \<Rightarrow> pydict \<Rightarrow> 'n \<Rightarrow> 'n) \<Rightarrow> int \<Rightarrow> string
     \<Rightarrow> string option \<Rightarrow> net_event \<Rightarrow> ('n svc, bool) prog" where
  "handle_task_status handlers broadcast now uuid client_id ev w =
     (case ev of
        TaskStatusEv d \<Rightarrow>
          (let w1 = on_db (update_task_status now (tt_task_id d) (tt_status d) (tt_pid d)
                       (tt_exit_code d) (tt_error d) (ostr_or client_id ''agent'')) w;
               msg = [(''type'', PStr ''task_status''), (''task_id'', PStr (tt_task_id d)),
                      (''status'', PStr (tt_status d)), (''pid'', opt_int (tt_pid d)),
                      (''exit_code'', opt_int (tt_exit_code d)), (''error'', opt_str (tt_error d))];
               w2 = w1\<lparr>sv_net := broadcast (tt_task_id d) msg (sv_net w1)\<rparr>
           in if tt_status d \<in> {''completed'', ''failed'', ''timeout''}
              then bindP (advance_pipeline handlers now uuid (tt_task_id d) (tt_status d))
                     (\<lambda>_. retP True) w2
              else (w2, Inr True))
      | _ \<Rightarrow> (w, Inr False))"

definition task_event_types :: "string list" where
  "task_event_types = [''task_output'', ''task_status'']"

definition task_can_handle :: "net_event \<Rightarrow> bool" where
  "task_can_handle ev = (event_type ev \<in> set task_event_types)"

definition handle_task_event ::
    "(string \<times> 'n task_handler) list \<Rightarrow> (string \<Rightarrow> pydict \<Rightarrow> 'n \<Rightarrow> 'n) \<Rightarrow> int \<Rightarrow> string
     \<Rightarrow> string option \<Rightarrow> net_event \<Rightarrow> ('n svc, bool) prog" where
  "handle_task_event handlers broadcast now uuid client_id ev =
     (if event_type ev = ''task_output'' then handle_task_output broadcast ev
      else if event_type ev = ''task_status''
        then handle_task_status handlers broadcast now uuid client_id ev
      else retP False)"

section \<open>Reading after writing\<close>

definition find_run :: "string \<Rightarrow> task_db \<Rightarrow> run_row option" where
  "find_run rid db = find (\<lambda>r. r_id r = rid) (pipeline_runs (working db))"

lemma get_pipeline_run_find:
  "get_pipeline_run rid db =
     (case find_run rid db of
        None \<Rightarrow> None
      | Some r \<Rightarrow> Some (r, map map_task_row (sort_key t_step_index
            (filter (\<lambda>t. t_pipeline_run_id t = Some rid) (tasks (working db))))))"
  by (simp add: get_pipeline_run_def find_run_def)

lemma append_log_tables [simp]:
  "working (append_log i data db) = working db" "durable (append_log i data db) = durable db"
  by (simp_all add: append_log_def Let_def)

lemma get_pipeline_cong:
  "pipelines (working a) = pipelines (working b) \<Longrightarrow>
   pipeline_steps (working a) = pipeline_steps (working b) \<Longrightarrow> get_pipeline p a = get_pipeline p b"
  unfolding get_pipeline_def by (simp only:)

lemma get_pipeline_other [simp]:
  "get_pipeline p (update_task_status now i s pid code err actor db) = get_pipeline p db"
  "get_pipeline p (update_pipeline_run_status now rid s n actor db) = get_pipeline p db"
  "get_pipeline p (fst (create_task now t db)) = get_pipeline p db"
  "get_pipeline p (append_log i data db) = get_pipeline p db"
  by (rule get_pipeline_cong; simp add: update_task_status_def update_pipeline_run_status_def
      create_task_def audit_def Let_def)+

lemma find_run_other [simp]:
  "find_run rid (update_task_status now i s pid code err actor db) = find_run rid db"
  "find_run rid (fst (create_task now t db)) = find_run rid db"
  "find_run rid (append_log i data db) = find_run rid db"
  by (simp_all add: find_run_def update_task_status_def create_task_def audit_def Let_def)

lemma find_run_update:
  "find_run rid (update_pipeline_run_status now rid s n actor db) =
     map_option (set_run_status now s n) (find_run rid db)"
  by (simp add: find_run_def update_pipeline_run_status_def audit_def Let_def find_update_where)

lemma get_task_run_update [simp]:
  "get_task i (update_pipeline_run_status now rid s n actor db) = get_task i db"
  by (simp add: get_task_def update_pipeline_run_status_def audit_def Let_def)

lemma find_run_id: "find_run rid db = Some r \<Longrightarrow> r_id r = rid"
  unfolding find_run_def by (drule find_eq_Some_in) simp

definition task_ids :: "task_db \<Rightarrow> string set" where
  "task_ids db = set (map t_id (tasks (working db)))"

lemma task_ids_simps [simp]:
  "task_ids (update_task_status now i s pid code err actor db) = task_ids db"
  "task_ids (update_pipeline_run_status now rid s n actor db) = task_ids db"
  by (simp_all add: task_ids_def update_task_status_def update_pipeline_run_status_def audit_def
      Let_def del: set_map)

lemma create_task_fresh:
  assumes "ts_id t \<notin> task_ids db"
  shows "snd (create_task now t db) = Inr (to_api_dict t ''queued'' (Some now))"
    and "get_task (ts_id t) (fst (create_task now t db)) = Some (map_task_row (task_insert_row t now))"
    and "task_ids (fst (create_task now t db)) = insert (ts_id t) (task_ids db)"
    and "i \<noteq> ts_id t \<Longrightarrow> get_task i (fst (create_task now t db)) = get_task i db"
proof -
  have f: "\<forall>r\<in>set (tasks (working db)). t_id r \<noteq> ts_id t"
    using assms unfolding task_ids_def set_map by (metis imageI)
  then have n: "find (\<lambda>r. t_id r = ts_id t) (tasks (working db)) = None"
    by (simp add: find_eq_None_iff)
  show "snd (create_task now t db) = Inr (to_api_dict t ''queued'' (Some now))"
    using f by (auto simp: create_task_def Let_def)
  show "get_task (ts_id t) (fst (create_task now t db)) = Some (map_task_row (task_insert_row t now))"
    using f n by (auto simp: get_task_def create_task_def audit_def Let_def find_append)
  show "task_ids (fst (create_task now t db)) = insert (ts_id t) (task_ids db)"
    using f by (auto simp: task_ids_def create_task_def audit_def Let_def)
  show "get_task i (fst (create_task now t db)) = get_task i db" if "i \<noteq> ts_id t"
    using f that by (auto simp: get_task_def create_task_def audit_def Let_def find_append split: option.split)
qed

section \<open>The decision\<close>

text \<open>What the run of a task is about to do, read off the store.\<close>

definition active_run :: "string \<Rightarrow> task_db \<Rightarrow> task_view \<Rightarrow> run_row \<Rightarrow> step_row list \<Rightarrow> bool" where
  "active_run i db t run steps \<longleftrightarrow>
     get_task i db = Some t \<and>
     (\<exists>rid p. t_pipeline_run_id t = Some rid \<and> rid \<noteq> [] \<and> find_run rid db = Some run \<and>
        get_pipeline (r_pipeline_id run) db = Some (p, steps)) \<and>
     r_status run \<in> {''running'', ''queued''}"

lemma advance_active:
  assumes "active_run i (sv_db w) t run steps"
  shows "advance_pipeline handlers now uuid i status w =
    (if status \<in> {''failed'', ''timeout''} \<and> on_fail_of steps (t_step_index t) = ''stop''
     then (run_status now (r_id run) ''failed'' (t_step_index t) w, Inr ())
     else start_next_step handlers now uuid run steps (t_step_index t) w)"
proof -
  obtain rid p where rid: "get_task i (sv_db w) = Some t" "t_pipeline_run_id t = Some rid" "rid \<noteq> []"
    "find_run rid (sv_db w) = Some run" "get_pipeline (r_pipeline_id run) (sv_db w) = Some (p, steps)"
    and act: "r_status run \<in> {''running'', ''queued''}"
    using assms unfolding active_run_def by blast
  have r: "r_status run \<notin> {''running'', ''queued''} \<longleftrightarrow> False" using act by blast
  show ?thesis
    unfolding advance_pipeline_def rid(1) option.case rid(2) get_pipeline_run_find rid(4) prod.case rid(5) r
    using rid(3) by simp
qed

text \<open>A report on a task whose run is neither queued nor running has no effect on the pipeline: nothing
  is dispatched, nothing is written.\<close>

theorem inactive_run_unchanged:
  assumes "get_task i (sv_db w) = Some t" and "t_pipeline_run_id t = Some rid"
    and "find_run rid (sv_db w) = Some run" and "r_status run \<notin> {''running'', ''queued''}"
  shows "advance_pipeline handlers now uuid i status w = (w, Inr ())"
  using assms by (simp add: advance_pipeline_def get_pipeline_run_find)

text \<open>When a step whose policy is stop fails or times out, its run becomes failed at that step, with the
  completion time, no message is sent and no task is created.\<close>

theorem failed_step_stops_run:
  assumes "active_run i (sv_db w) t run steps" and "status \<in> {''failed'', ''timeout''}"
    and "on_fail_of steps (t_step_index t) = ''stop''"
  shows "\<exists>w' run'. advance_pipeline handlers now uuid i status w = (w', Inr ()) \<and>
     sv_net w' = sv_net w \<and> task_ids (sv_db w') = task_ids (sv_db w) \<and>
     find_run (r_id run) (sv_db w') = Some run' \<and> r_status run' = ''failed'' \<and>
     r_current_step run' = t_step_index t \<and> r_completed_at run' = Some now"
proof -
  have "find_run (r_id run) (sv_db w) = Some run"
    using assms(1) find_run_id by (auto simp: active_run_def)
  then show ?thesis
    using assms by (simp add: advance_active run_status_def on_db_def find_run_update set_run_status_def Let_def)
qed


lemma get_task_update:
  assumes "get_task i db = Some v"
  shows "\<exists>v'. get_task i (update_task_status now i s pid code err actor db) = Some v' \<and>
     t_status v' = s \<and> t_pipeline_run_id v' = t_pipeline_run_id v \<and>
     t_step_index v' = t_step_index v"
proof -
  obtain r where r: "find (\<lambda>r. t_id r = i) (tasks (working db)) = Some r" "v = map_task_row r"
    using assms by (auto simp: get_task_def)
  show ?thesis unfolding find_set_task_status r
    by (simp add: set_task_status_def Let_def)
qed

section \<open>Starting a step\<close>

definition step_event :: "run_row \<Rightarrow> step_row \<Rightarrow> string \<Rightarrow> net_event" where
  "step_event run s uuid =
     ExecuteTaskEv \<lparr>et_task_id = uuid, et_script = s_script s, et_cwd = s_cwd s,
       et_timeout_sec = s_timeout_sec s, et_session = r_session run, et_env = []\<rparr>"

lemma step_task_of_row:
  assumes "r_id run \<noteq> []" and "uuid \<noteq> []"
  shows "\<exists>t. create_pipeline_step_task (r_agent_id run) (r_session run) (r_id run) (row_step s)
             requester origin None uuid = Inr (AgentTask t) \<and>
     ts_id t = uuid \<and> ts_kind t = TASK_KIND_AGENT \<and> ts_agent_id t = r_agent_id run \<and>
     ts_pipeline_run_id t = Some (r_id run) \<and> ts_step_index t = s_step_index s \<and>
     agent_execution t =
       Inr \<lparr>ex_task_id = uuid, ex_script = s_script s, ex_cwd = s_cwd s,
            ex_timeout_sec = s_timeout_sec s, ex_session = r_session run, ex_env = []\<rparr>"
  using assms
  by (simp add: create_pipeline_step_task_def builder_defs build_def agent_from_task_spec_def
      agent_task_post_init_def get_component_def agent_execution_def as_agent_execution_def Let_def
      row_step_def)

lemma create_and_dispatch_Inr:
  assumes "create_task now (spec_of t) (sv_db w) = (db2, Inr d0)"
    and "dispatcher_dispatch hs t (sv_net w) = (n', Inr res)" and "dr_status res = Some s"
  shows "\<exists>d. create_and_dispatch hs now t actor w =
     (w\<lparr>sv_db := update_task_status now (ts_id (spec_of t)) s None None (dr_error res) actor db2,
        sv_net := n'\<rparr>, Inr (d, res))"
proof -
  have c: "service_create_task now t w = (w\<lparr>sv_db := db2\<rparr>, Inr d0)"
    using assms(1) by (simp add: service_create_task_def)
  have "on_net (dispatcher_dispatch hs t) (w\<lparr>sv_db := db2\<rparr>) = (w\<lparr>sv_db := db2, sv_net := n'\<rparr>, Inr res)"
    using assms(2) by (simp add: on_net_def)
  then have d: "service_dispatch hs now t actor (w\<lparr>sv_db := db2\<rparr>) =
     (w\<lparr>sv_db := update_task_status now (ts_id (spec_of t)) s None None (dr_error res) actor db2,
        sv_net := n'\<rparr>, Inr res)"
    using assms(3) by (simp add: service_dispatch_def on_db_def)
  show ?thesis unfolding create_and_dispatch_def bindP_simps(2) [of "service_create_task now t", OF c]
      bindP_simps(2) [of "service_dispatch hs now t actor", OF d] Let_def prog_simps by simp
qed

definition agent_only :: "'n send_event \<Rightarrow> (string \<times> 'n task_handler) list" where
  "agent_only send = [(TASK_KIND_AGENT, agent_task_handler send)]"

lemma start_next_step_sent:
  assumes nxt: "find (\<lambda>s. s_step_index s = cur + 1) steps = Some s"
    and ids: "r_id run \<noteq> []" "uuid \<noteq> []" and fresh: "uuid \<notin> task_ids (sv_db w)"
    and send: "send (r_agent_id run) (step_event run s uuid) (sv_net w) = (n', True)"
    and run: "find_run (r_id run) (sv_db w) = Some run"
  shows "\<exists>w' run' t'. start_next_step (agent_only send) now uuid run steps cur w = (w', Inr ()) \<and>
     sv_net w' = n' \<and> task_ids (sv_db w') = insert uuid (task_ids (sv_db w)) \<and>
     find_run (r_id run) (sv_db w') = Some run' \<and> r_status run' = ''running'' \<and>
     r_current_step run' = cur + 1 \<and> r_id run' = r_id run \<and>
     r_agent_id run' = r_agent_id run \<and> r_session run' = r_session run \<and>
     r_pipeline_id run' = r_pipeline_id run \<and>
     get_task uuid (sv_db w') = Some t' \<and> t_pipeline_run_id t' = Some (r_id run) \<and>
     t_step_index t' = cur + 1 \<and> t_status t' = ''running'' \<and>
     (\<forall>p. get_pipeline p (sv_db w') = get_pipeline p (sv_db w))"
proof -
  obtain t where t: "create_pipeline_step_task (r_agent_id run) (r_session run) (r_id run) (row_step s)
             ''pipeline'' ''server'' None uuid = Inr (AgentTask t)"
    "ts_id t = uuid" "ts_kind t = TASK_KIND_AGENT" "ts_agent_id t = r_agent_id run"
    "ts_pipeline_run_id t = Some (r_id run)" "ts_step_index t = s_step_index s"
    "agent_execution t =
       Inr \<lparr>ex_task_id = uuid, ex_script = s_script s, ex_cwd = s_cwd s,
            ex_timeout_sec = s_timeout_sec s, ex_session = r_session run, ex_env = []\<rparr>"
    using step_task_of_row [OF ids] by blast
  have idx: "s_step_index s = cur + 1" using find_eq_Some_in [OF nxt] by simp
  let ?w1 = "run_status now (r_id run) ''running'' (cur + 1) w"
  have fresh1: "ts_id t \<notin> task_ids (sv_db ?w1)" using fresh t(2) by (simp add: run_status_def on_db_def)
  let ?db2 = "fst (create_task now t (sv_db ?w1))"
  have c: "create_task now t (sv_db ?w1) = (?db2, Inr (to_api_dict t ''queued'' (Some now)))"
    using create_task_fresh(1) [OF fresh1] by (metis prod.collapse)
  have h: "dispatcher_dispatch (agent_only send) (AgentTask t) (sv_net w) =
      (n', Inr \<lparr>dr_accepted = True, dr_status = Some ''running'', dr_error = None\<rparr>)"
    using t send by (simp add: dispatcher_dispatch_def agent_only_def agent_task_handler_def
        execute_event_def step_event_def bindP_def)
  let ?db3 = "update_task_status now uuid ''running'' None None None ''server'' ?db2"
  let ?w' = "w\<lparr>sv_db := ?db3, sv_net := n'\<rparr>"
  have "start_next_step (agent_only send) now uuid run steps cur w = (?w', Inr ())"
  proof -
    have A: "create_task now (spec_of (AgentTask t)) (sv_db ?w1) =
        (?db2, Inr (to_api_dict t ''queued'' (Some now)))" using c by simp
    have B: "dispatcher_dispatch (agent_only send) (AgentTask t) (sv_net ?w1) =
      (n', Inr \<lparr>dr_accepted = True, dr_status = Some ''running'', dr_error = None\<rparr>)"
      using h by (simp add: run_status_def on_db_def)
    obtain d where d: "create_and_dispatch (agent_only send) now (AgentTask t) ''server'' ?w1 =
        (?w1\<lparr>sv_db := ?db3, sv_net := n'\<rparr>,
         Inr (d, \<lparr>dr_accepted = True, dr_status = Some ''running'', dr_error = None\<rparr>))"
      using create_and_dispatch_Inr [OF A B, of "''running''" "''server''"] t(2)
      unfolding task.sel dispatch_result.simps by blast
    then show ?thesis
      using t(1) by (simp add: start_next_step_def nxt)
  qed
  moreover have g: "get_task uuid ?db2 = Some (map_task_row (task_insert_row t now))"
    using create_task_fresh(2) [OF fresh1] t(2) by simp
  obtain t' where "get_task uuid ?db3 = Some t'" "t_status t' = ''running''"
    "t_pipeline_run_id t' = Some (r_id run)" "t_step_index t' = cur + 1"
    using get_task_update [OF g, of now "''running''" None None None "''server''"] t(5,6) idx
    by (auto simp: task_insert_row_def)
  moreover have "find_run (r_id run) ?db3 = Some (set_run_status now ''running'' (Some (cur + 1)) run)"
    using run by (simp add: run_status_def on_db_def find_run_update)
  moreover have "task_ids ?db3 = insert uuid (task_ids (sv_db w))"
    using create_task_fresh(3) [OF fresh1] t(2) by (simp add: run_status_def on_db_def)
  moreover have "get_pipeline p ?db3 = get_pipeline p (sv_db w)" for p
    by (simp add: run_status_def on_db_def)
  ultimately show ?thesis
    by (intro exI [of _ ?w'] exI [of _ "set_run_status now ''running'' (Some (cur + 1)) run"] exI [of _ t'])
      (simp add: set_run_status_def Let_def)
qed


section \<open>A whole run\<close>

definition completed_report :: "string \<Rightarrow> net_event" where
  "completed_report i =
     TaskStatusEv \<lparr>tt_task_id = i, tt_status = ''completed'', tt_pid = None, tt_exit_code = Some 0,
       tt_error = None\<rparr>"

text \<open>
  The agent reports the running task \<open>i\<close> completed, then the task each report started, in turn:
  \<open>us\<close> are the identifiers the server will give to the following tasks.
\<close>

fun report_all ::
    "'n send_event \<Rightarrow> int \<Rightarrow> string \<Rightarrow> string list \<Rightarrow> 'n svc \<Rightarrow> 'n svc" where
  "report_all send now i [] w =
     fst (handle_task_event (agent_only send) (\<lambda>_ _ n. n) now [] None (completed_report i) w)"
| "report_all send now i (u # us) w =
     report_all send now u us
       (fst (handle_task_event (agent_only send) (\<lambda>_ _ n. n) now u None (completed_report i) w))"

lemma completed_report_handled:
  assumes "active_run i (sv_db w) t run steps"
  shows "\<exists>w1 t1. active_run i (sv_db w1) t1 run steps \<and> t_step_index t1 = t_step_index t \<and>
     sv_net w1 = sv_net w \<and> task_ids (sv_db w1) = task_ids (sv_db w) \<and>
     (\<forall>rid. find_run rid (sv_db w1) = find_run rid (sv_db w)) \<and>
     (\<forall>p. get_pipeline p (sv_db w1) = get_pipeline p (sv_db w)) \<and>
     fst (handle_task_event hs (\<lambda>_ _ n. n) now u None (completed_report i) w) =
       fst (start_next_step hs now u run steps (t_step_index t) w1)"
proof -
  let ?db1 = "update_task_status now i ''completed'' None (Some 0) None ''agent'' (sv_db w)"
  let ?w1 = "w\<lparr>sv_db := ?db1\<rparr>"
  have "get_task i (sv_db w) = Some t" using assms by (simp add: active_run_def)
  then obtain t1 where t1: "get_task i ?db1 = Some t1" "t_pipeline_run_id t1 = t_pipeline_run_id t"
    "t_step_index t1 = t_step_index t"
    using get_task_update [of i "sv_db w" t now "''completed''" None "Some 0" None "''agent''"] by blast
  have act: "active_run i (sv_db ?w1) t1 run steps"
    using assms t1 by (auto simp: active_run_def)
  have "fst (handle_task_event hs (\<lambda>_ _ n. n) now u None (completed_report i) w) =
      fst (bindP (advance_pipeline hs now u i ''completed'') (\<lambda>_. retP True) ?w1)"
    by (simp add: handle_task_event_def completed_report_def handle_task_status_def on_db_def Let_def)
  also have "\<dots> = fst (advance_pipeline hs now u i ''completed'' ?w1)"
    by (auto simp: bindP_def split: prod.split sum.split)
  also have "\<dots> = fst (start_next_step hs now u run steps (t_step_index t) ?w1)"
    using advance_active [OF act, of hs now u "''completed''"] t1(3) by simp
  finally show ?thesis using act t1(3) by (intro exI [of _ ?w1] exI [of _ t1]) simp
qed

lemma find_step_index:
  assumes "map s_step_index steps = map int [0..<n]"
  shows "find (\<lambda>s. s_step_index s = int k) steps = (if k < n then Some (steps ! k) else None)"
proof -
  have len: "length steps = n" using arg_cong [OF assms, of length] by simp
  have idx: "s_step_index (steps ! j) = int j" if "j < n" for j
    using arg_cong [OF assms, of "\<lambda>xs. xs ! j"] that len by simp
  show ?thesis
  proof (cases "k < n")
    case True
    have "find (\<lambda>s. s_step_index s = int k) steps = Some (steps ! k)"
      unfolding find_Some_iff using True len idx by (intro exI [of _ k]) simp
    then show ?thesis using True by simp
  next
    case False
    have "\<forall>s\<in>set steps. s_step_index s \<noteq> int k"
      using idx len False by (auto simp: in_set_conv_nth)
    then show ?thesis using False by (simp add: find_eq_None_iff)
  qed
qed

definition send_all ::
    "'n send_event \<Rightarrow> run_row \<Rightarrow> (step_row \<times> string) list \<Rightarrow> 'n \<Rightarrow> 'n" where
  "send_all send run sus n =
     fold (\<lambda>(s, u) n. fst (send (r_agent_id run) (step_event run s u) n)) sus n"

lemma send_all_simps:
  "send_all send run [] n = n"
  "send_all send run ((s, u) # sus) n =
     send_all send run sus (fst (send (r_agent_id run) (step_event run s u) n))"
  by (simp_all add: send_all_def)

lemma send_all_cong:
  "r_agent_id run' = r_agent_id run \<Longrightarrow> r_session run' = r_session run \<Longrightarrow>
   send_all send run' sus n = send_all send run sus n"
  by (simp add: send_all_def step_event_def)

lemma whole_run:
  assumes "map s_step_index steps = map int [0..<n]" and "\<And>a ev m. snd (send a ev m)"
  shows "active_run i (sv_db w) t run steps \<Longrightarrow> t_step_index t = int k \<Longrightarrow> n = Suc (k + length us) \<Longrightarrow>
    distinct us \<Longrightarrow> [] \<notin> set us \<Longrightarrow> set us \<inter> task_ids (sv_db w) = {} \<Longrightarrow>
    \<exists>run'. find_run (r_id run) (sv_db (report_all send now i us w)) = Some run' \<and>
      r_status run' = ''completed'' \<and> r_current_step run' = int (n - 1) \<and>
      sv_net (report_all send now i us w) = send_all send run (zip (drop (Suc k) steps) us) (sv_net w)"
proof (induction us arbitrary: i w t run k)
  case Nil
  obtain w1 t1 where w1: "active_run i (sv_db w1) t1 run steps" "sv_net w1 = sv_net w"
    "fst (handle_task_event (agent_only send) (\<lambda>_ _ n. n) now [] None (completed_report i) w) =
       fst (start_next_step (agent_only send) now [] run steps (t_step_index t) w1)"
    using completed_report_handled [OF Nil.prems(1), of "agent_only send" now "[]"] by blast
  have "find (\<lambda>s. s_step_index s = int (Suc k)) steps = None"
    using find_step_index [OF assms(1), of "Suc k"] Nil.prems(3) by simp
  then have "start_next_step (agent_only send) now [] run steps (t_step_index t) w1 =
      (run_status now (r_id run) ''completed'' (int k) w1, Inr ())"
    using Nil.prems(2) by (simp add: start_next_step_def add.commute)
  moreover have "find_run (r_id run) (sv_db w1) = Some run"
    using w1(1) find_run_id by (auto simp: active_run_def)
  ultimately show ?case using w1 Nil.prems(3)
    by (simp add: run_status_def on_db_def find_run_update set_run_status_def Let_def send_all_simps)
next
  case (Cons u us)
  obtain w1 t1 where w1: "active_run i (sv_db w1) t1 run steps" "sv_net w1 = sv_net w"
    "task_ids (sv_db w1) = task_ids (sv_db w)"
    "fst (handle_task_event (agent_only send) (\<lambda>_ _ n. n) now u None (completed_report i) w) =
       fst (start_next_step (agent_only send) now u run steps (t_step_index t) w1)"
    using completed_report_handled [OF Cons.prems(1), of "agent_only send" now u] by blast
  have len: "length steps = n" using arg_cong [OF assms(1), of length] by simp
  have nxt: "find (\<lambda>s. s_step_index s = int k + 1) steps = Some (steps ! Suc k)"
    using find_step_index [OF assms(1), of "Suc k"] Cons.prems(3) by (simp add: add.commute)
  have run: "find_run (r_id run) (sv_db w1) = Some run" "r_id run \<noteq> []"
    using w1(1) find_run_id by (auto simp: active_run_def)
  let ?n' = "fst (send (r_agent_id run) (step_event run (steps ! Suc k) u) (sv_net w1))"
  have send: "send (r_agent_id run) (step_event run (steps ! Suc k) u) (sv_net w1) = (?n', True)"
    using assms(2) by (simp add: prod_eq_iff)
  have un: "u \<noteq> []" and uf: "u \<notin> task_ids (sv_db w1)" using Cons.prems(5,6) w1(3) by auto
  obtain w' run' t' where s: "start_next_step (agent_only send) now u run steps (int k) w1 = (w', Inr ())"
    "sv_net w' = ?n'" "task_ids (sv_db w') = insert u (task_ids (sv_db w1))"
    "find_run (r_id run) (sv_db w') = Some run'" "r_status run' = ''running''"
    "r_id run' = r_id run" "r_agent_id run' = r_agent_id run" "r_session run' = r_session run"
    "r_pipeline_id run' = r_pipeline_id run"
    "get_task u (sv_db w') = Some t'" "t_pipeline_run_id t' = Some (r_id run)"
    "t_step_index t' = int k + 1" "\<forall>p. get_pipeline p (sv_db w') = get_pipeline p (sv_db w1)"
    using start_next_step_sent [where send = send and now = now, OF nxt run(2) un uf send run(1)] by blast
  have "active_run u (sv_db w') t' run' steps"
    using s(4-13) w1(1) run(2) by (auto simp: active_run_def)
  then have "\<exists>run''. find_run (r_id run') (sv_db (report_all send now u us w')) = Some run'' \<and>
      r_status run'' = ''completed'' \<and> r_current_step run'' = int (n - 1) \<and>
      sv_net (report_all send now u us w') =
        send_all send run' (zip (drop (Suc (Suc k)) steps) us) (sv_net w')"
    by (rule Cons.IH) (use s(3,12) w1(3) Cons.prems(3-6) in auto)
  moreover have "report_all send now i (u # us) w = report_all send now u us w'"
    using w1(4) s(1) Cons.prems(2) by simp
  moreover have "drop (Suc k) steps = steps ! Suc k # drop (Suc (Suc k)) steps"
    using len Cons.prems(3) by (simp add: Cons_nth_drop_Suc)
  ultimately show ?case
    using s(2,6) w1(2) by (simp add: send_all_simps send_all_cong [OF s(7,8)])
qed

text \<open>Property C9. A pipeline whose steps have the indexes 0, 1, ..., started at step 0, runs to its end: when the
  agent completes every task it is given, each later step is sent to the run's agent exactly once, in
  the order of the indexes, and the run ends as completed at its last step.\<close>

theorem pipeline_runs_every_step:
  assumes "active_run i (sv_db w) t run steps" and "t_step_index t = 0"
    and "map s_step_index steps = map int [0..<length steps]" and "length steps = Suc (length us)"
    and "\<And>a ev m. snd (send a ev m)"
    and "distinct us" and "[] \<notin> set us" and "set us \<inter> task_ids (sv_db w) = {}"
  shows "\<exists>run'. find_run (r_id run) (sv_db (report_all send now i us w)) = Some run' \<and>
      r_status run' = ''completed'' \<and> r_current_step run' = int (length us) \<and>
      sv_net (report_all send now i us w) = send_all send run (zip (tl steps) us) (sv_net w)"
  using whole_run [OF assms(3,5,1), where k = 0 and us = us and now = now] assms(2,4,6-8) by (simp add: drop_Suc)


section \<open>Other outcomes\<close>

text \<open>A failed step whose policy is retry is treated exactly like a completed one: the run goes on with
  the next step, and the step is not run again.\<close>

theorem retry_is_continue:
  assumes "active_run i (sv_db w) t run steps" and "on_fail_of steps (t_step_index t) = ''retry''"
  shows "advance_pipeline handlers now uuid i ''failed'' w =
    advance_pipeline handlers now uuid i ''completed'' w"
  using assms by (simp add: advance_active)

text \<open>A cancelled report never touches the pipeline runs and creates no task: the run of a cancelled
  task keeps its status, so it stays running for ever.\<close>

theorem cancelled_task_leaves_run:
  "\<exists>w'. handle_task_event handlers broadcast now uuid client_id
      (TaskStatusEv \<lparr>tt_task_id = i, tt_status = ''cancelled'', tt_pid = pid, tt_exit_code = code,
                     tt_error = err\<rparr>) w = (w', Inr True) \<and>
     pipeline_runs (working (sv_db w')) = pipeline_runs (working (sv_db w)) \<and>
     task_ids (sv_db w') = task_ids (sv_db w)"
  by (simp add: handle_task_event_def handle_task_status_def on_db_def Let_def update_task_status_def
      audit_def task_ids_def del: set_map)

text \<open>A status report is applied whatever agent sends it: an agent can set the status of a task that
  was given to another.\<close>

theorem status_report_not_bound_to_agent:
  assumes "get_task i (sv_db w) = Some t" and "t_agent_id t \<noteq> reporter"
    and "s \<notin> {''completed'', ''failed'', ''timeout''}"
  shows "\<exists>t'. get_task i (sv_db (fst (handle_task_event handlers broadcast now uuid (Some reporter)
      (TaskStatusEv \<lparr>tt_task_id = i, tt_status = s, tt_pid = pid, tt_exit_code = code,
                     tt_error = err\<rparr>) w))) = Some t' \<and> t_status t' = s"
proof -
  obtain t' where "get_task i (update_task_status now i s pid code err (ostr_or (Some reporter) ''agent'')
      (sv_db w)) = Some t'" "t_status t' = s"
    using get_task_update [OF assms(1)] by blast
  then show ?thesis using assms(3)
    by (simp add: handle_task_event_def handle_task_status_def on_db_def Let_def)
qed


section \<open>A sample store\<close>

definition sample_row :: "int \<Rightarrow> string \<Rightarrow> string \<Rightarrow> step_row" where
  "sample_row k script on_fail =
     \<lparr>s_id = nat k, s_pipeline_id = ''p'', s_step_index = k, s_name = [], s_script = script,
      s_cwd = [], s_timeout_sec = 300, s_on_fail = on_fail, s_retry_count = 0\<rparr>"

definition sample_run :: "string \<Rightarrow> run_row" where
  "sample_run status =
     \<lparr>r_id = ''r'', r_pipeline_id = ''p'', r_agent_id = ''vm1'', r_session = ''bob'', r_status = status,
      r_current_step = 0, r_requested_by = ''u'', r_requested_from = [], r_created_at = 1,
      r_started_at = None, r_completed_at = None\<rparr>"

definition sample_task_row :: task_row where
  "sample_task_row = (task_insert_row sample_task 2)
     \<lparr>t_pipeline_run_id := Some ''r'', t_status := ''running'', t_payload_json := None,
      t_components_json := None\<rparr>"

definition sample_svc :: "string \<Rightarrow> string \<Rightarrow> (string \<times> net_event) list svc" where
  "sample_svc run_st on_fail =
     (let w = \<lparr>tasks = [sample_task_row],
               pipelines = [\<lparr>p_id = ''p'', p_name = [], p_description = [], p_created_by = [],
                             p_created_at = 0, p_updated_at = 0\<rparr>],
               pipeline_steps = [sample_row 0 ''a'' on_fail, sample_row 1 ''b'' ''stop''],
               pipeline_runs = [sample_run run_st], audit_log = [], step_seq = 2, audit_seq = 0\<rparr>
      in \<lparr>sv_db = \<lparr>working = w, durable = w, logs = Map.empty\<rparr>, sv_net = []\<rparr>)"

definition send_ok :: "(string \<times> net_event) list send_event" where
  "send_ok a ev n = (n @ [(a, ev)], True)"

lemma sample_active:
  "active_run ''t1'' (sv_db (sample_svc ''running'' on_fail)) (map_task_row sample_task_row)
     (sample_run ''running'') [sample_row 0 ''a'' on_fail, sample_row 1 ''b'' ''stop'']"
  by (simp add: active_run_def sample_svc_def Let_def get_task_def find_run_def get_pipeline_def sample_run_def
      sample_row_def sample_task_row_def task_insert_row_def sample_task_def)

lemma sample_task_row_fields [simp]:
  "t_step_index sample_task_row = 0" "t_pipeline_run_id sample_task_row = Some ''r''"
  "t_id sample_task_row = ''t1''" "t_agent_id sample_task_row = ''vm1''"
  by (simp_all add: sample_task_row_def task_insert_row_def sample_task_def)

lemma sample_task_ids [simp]: "task_ids (sv_db (sample_svc st f)) = {''t1''}"
  by (simp add: task_ids_def sample_svc_def Let_def)

lemma sample_get_task: "get_task ''t1'' (sv_db (sample_svc st f)) = Some (map_task_row sample_task_row)"
  by (simp add: get_task_def sample_svc_def Let_def)

lemma sample_find_run: "find_run ''r'' (sv_db (sample_svc st f)) = Some (sample_run st)"
  by (simp add: find_run_def sample_svc_def sample_run_def Let_def)

theorem inactive_run_unchanged_witness:
  "advance_pipeline (agent_only send_ok) 9 ''n'' ''t1'' ''completed'' (sample_svc ''failed'' ''stop'') =
     (sample_svc ''failed'' ''stop'', Inr ())"
  by (rule inactive_run_unchanged [OF sample_get_task _ sample_find_run]) (simp_all add: sample_run_def)

theorem failed_step_stops_run_witness:
  "\<exists>w' run'. advance_pipeline (agent_only send_ok) 9 ''n'' ''t1'' ''timeout'' (sample_svc ''running'' ''stop'')
       = (w', Inr ()) \<and> sv_net w' = [] \<and> find_run ''r'' (sv_db w') = Some run' \<and> r_status run' = ''failed''"
proof -
  have "on_fail_of [sample_row 0 ''a'' ''stop'', sample_row 1 ''b'' ''stop'']
      (t_step_index (map_task_row sample_task_row)) = ''stop''"
    by (simp add: on_fail_of_def sample_row_def)
  from failed_step_stops_run [OF sample_active _ this, of "''timeout''" "agent_only send_ok" 9 "''n''"]
  obtain w' run' where "advance_pipeline (agent_only send_ok) 9 ''n'' ''t1'' ''timeout''
      (sample_svc ''running'' ''stop'') = (w', Inr ())"
    "sv_net w' = sv_net (sample_svc ''running'' ''stop'')"
    "find_run (r_id (sample_run ''running'')) (sv_db w') = Some run'" "r_status run' = ''failed''"
    by auto
  moreover have "sv_net (sample_svc ''running'' ''stop'') = []" "r_id (sample_run ''running'') = ''r''"
    by (simp_all add: sample_svc_def sample_run_def Let_def)
  ultimately show ?thesis by simp
qed

theorem retry_is_continue_witness:
  "advance_pipeline (agent_only send_ok) 9 ''n'' ''t1'' ''failed'' (sample_svc ''running'' ''retry'') =
   advance_pipeline (agent_only send_ok) 9 ''n'' ''t1'' ''completed'' (sample_svc ''running'' ''retry'')"
  by (rule retry_is_continue [OF sample_active]) (simp add: on_fail_of_def sample_row_def)

theorem status_report_not_bound_to_agent_witness:
  "\<exists>t'. get_task ''t1'' (sv_db (fst (handle_task_event [] (\<lambda>_ _ n. n) 9 [] (Some ''other'')
      (TaskStatusEv \<lparr>tt_task_id = ''t1'', tt_status = ''cancelled'', tt_pid = None,
         tt_exit_code = None, tt_error = None\<rparr>) (sample_svc ''running'' ''stop'')))) = Some t' \<and>
     t_status t' = ''cancelled''"
  by (rule status_report_not_bound_to_agent [OF sample_get_task]) simp_all


theorem pipeline_runs_every_step_witness:
  "\<exists>run'. find_run ''r'' (sv_db (report_all send_ok 9 ''t1'' [''t2''] (sample_svc ''running'' ''stop''))) = Some run' \<and>
     r_status run' = ''completed'' \<and>
     sv_net (report_all send_ok 9 ''t1'' [''t2''] (sample_svc ''running'' ''stop'')) =
       [(''vm1'', step_event (sample_run ''running'') (sample_row 1 ''b'' ''stop'') ''t2'')]"
proof -
  have "\<exists>run'. find_run (r_id (sample_run ''running''))
      (sv_db (report_all send_ok 9 ''t1'' [''t2''] (sample_svc ''running'' ''stop''))) = Some run' \<and>
      r_status run' = ''completed'' \<and> r_current_step run' = int (length [''t2'']) \<and>
      sv_net (report_all send_ok 9 ''t1'' [''t2''] (sample_svc ''running'' ''stop'')) =
        send_all send_ok (sample_run ''running'')
          (zip (tl [sample_row 0 ''a'' ''stop'', sample_row 1 ''b'' ''stop'']) [''t2''])
          (sv_net (sample_svc ''running'' ''stop''))"
    by (rule pipeline_runs_every_step [OF sample_active])
      (simp_all add: sample_row_def send_ok_def)
  moreover have "sv_net (sample_svc ''running'' ''stop'') = []" "r_id (sample_run ''running'') = ''r''"
    "r_agent_id (sample_run ''running'') = ''vm1''"
    by (simp_all add: sample_svc_def sample_run_def Let_def)
  ultimately show ?thesis by (auto simp: send_all_simps send_ok_def simp del: report_all.simps)
qed

end
