(* ===== verification/Server_Settings.thy ===== *)
theory Server_Settings
  imports Py_Json
begin

text \<open>
  The server settings (\<open>vm_agent_server/src/settings\<close>): the settings tree, the patches an
  administrator sends, the store of one JSON document, and the service that merges a patch into the
  current settings. A pydantic model is a record; \<open>dump_x\<close> is its \<open>model_dump\<close>, and on a patch
  \<open>model_dump(exclude_none=True)\<close>. Pydantic's \<open>ServerSettings.model_validate\<close> is the parameter
  \<open>validate\<close> of the operations that call it.
\<close>

section \<open>The settings and the patches\<close>

definition MICROSOFT_SSO_REDIRECT_PATH :: string where
  "MICROSOFT_SSO_REDIRECT_PATH = ''/api/users/callback/microsoft''"

definition opt_field :: "string \<Rightarrow> ('a \<Rightarrow> pyval) \<Rightarrow> 'a option \<Rightarrow> pydict" where
  "opt_field k f v = (case v of None \<Rightarrow> [] | Some x \<Rightarrow> [(k, f x)])"

record deployment_settings =
  dp_default_repo_url :: string
  dp_artifact_share_root :: string
  dp_latest_installer_share_template :: string

definition default_deployment_settings :: deployment_settings where
  "default_deployment_settings =
     \<lparr>dp_default_repo_url = [],
      dp_artifact_share_root = [],
      dp_latest_installer_share_template = []\<rparr>"

definition dump_deployment_settings :: "deployment_settings \<Rightarrow> pydict" where
  "dump_deployment_settings s =
     [(''default_repo_url'', PStr (dp_default_repo_url s)),
      (''artifact_share_root'', PStr (dp_artifact_share_root s)),
      (''latest_installer_share_template'', PStr (dp_latest_installer_share_template s))]"

record group_mapping =
  gm_group_object_id :: string
  gm_group_name :: string
  gm_app_roles :: "string list"

definition default_group_mapping :: group_mapping where
  "default_group_mapping =
     \<lparr>gm_group_object_id = [],
      gm_group_name = [],
      gm_app_roles = []\<rparr>"

definition dump_group_mapping :: "group_mapping \<Rightarrow> pydict" where
  "dump_group_mapping s =
     [(''group_object_id'', PStr (gm_group_object_id s)),
      (''group_name'', PStr (gm_group_name s)),
      (''app_roles'', PList (map PStr (gm_app_roles s)))]"

record access_settings =
  ac_mode :: string
  ac_allow_mapped_groups :: bool
  ac_allowed_user_subjects :: "string list"
  ac_allowed_group_ids :: "string list"

definition default_access_settings :: access_settings where
  "default_access_settings =
     \<lparr>ac_mode = ''allow_all'',
      ac_allow_mapped_groups = True,
      ac_allowed_user_subjects = [],
      ac_allowed_group_ids = []\<rparr>"

definition dump_access_settings :: "access_settings \<Rightarrow> pydict" where
  "dump_access_settings s =
     [(''mode'', PStr (ac_mode s)),
      (''allow_mapped_groups'', PBool (ac_allow_mapped_groups s)),
      (''allowed_user_subjects'', PList (map PStr (ac_allowed_user_subjects s))),
      (''allowed_group_ids'', PList (map PStr (ac_allowed_group_ids s)))]"

record azure_settings =
  az_tenant_id :: string
  az_client_id :: string
  az_client_secret :: string
  az_authority_url :: string
  az_redirect_path :: string
  az_scopes :: "string list"
  az_group_role_mappings :: "group_mapping list"
  az_activated_at :: "int option"

definition default_azure_settings :: azure_settings where
  "default_azure_settings =
     \<lparr>az_tenant_id = [],
      az_client_id = [],
      az_client_secret = [],
      az_authority_url = [],
      az_redirect_path = MICROSOFT_SSO_REDIRECT_PATH,
      az_scopes = [''openid'', ''profile'', ''email''],
      az_group_role_mappings = [],
      az_activated_at = None\<rparr>"

definition dump_azure_settings :: "azure_settings \<Rightarrow> pydict" where
  "dump_azure_settings s =
     [(''tenant_id'', PStr (az_tenant_id s)),
      (''client_id'', PStr (az_client_id s)),
      (''client_secret'', PStr (az_client_secret s)),
      (''authority_url'', PStr (az_authority_url s)),
      (''redirect_path'', PStr (az_redirect_path s)),
      (''scopes'', PList (map PStr (az_scopes s))),
      (''group_role_mappings'', PList (map (\<lambda>m. PDict (dump_group_mapping m)) (az_group_role_mappings s))),
      (''activated_at'', opt_int (az_activated_at s))]"

record identity_settings =
  id_provider :: string
  id_provider_locked :: bool
  id_session_ttl_seconds :: int
  id_access :: access_settings
  id_azure :: azure_settings

definition default_identity_settings :: identity_settings where
  "default_identity_settings =
     \<lparr>id_provider = ''local_bootstrap'',
      id_provider_locked = False,
      id_session_ttl_seconds = 43200,
      id_access = default_access_settings,
      id_azure = default_azure_settings\<rparr>"

definition dump_identity_settings :: "identity_settings \<Rightarrow> pydict" where
  "dump_identity_settings s =
     [(''provider'', PStr (id_provider s)),
      (''provider_locked'', PBool (id_provider_locked s)),
      (''session_ttl_seconds'', PInt (id_session_ttl_seconds s)),
      (''access'', PDict (dump_access_settings (id_access s))),
      (''azure'', PDict (dump_azure_settings (id_azure s)))]"

record recording_settings =
  rec_enabled :: bool
  rec_browse_url :: string
  rec_path_template :: string
  rec_name_template :: string
  rec_create_path :: bool
  rec_exclude_output :: bool
  rec_exclude_mouse :: bool
  rec_exclude_touch :: bool
  rec_include_keys :: bool

definition default_recording_settings :: recording_settings where
  "default_recording_settings =
     \<lparr>rec_enabled = False,
      rec_browse_url = [],
      rec_path_template = [],
      rec_name_template = ''{connection_name}-{timestamp}.guac'',
      rec_create_path = True,
      rec_exclude_output = False,
      rec_exclude_mouse = False,
      rec_exclude_touch = False,
      rec_include_keys = True\<rparr>"

definition dump_recording_settings :: "recording_settings \<Rightarrow> pydict" where
  "dump_recording_settings s =
     [(''enabled'', PBool (rec_enabled s)),
      (''browse_url'', PStr (rec_browse_url s)),
      (''path_template'', PStr (rec_path_template s)),
      (''name_template'', PStr (rec_name_template s)),
      (''create_path'', PBool (rec_create_path s)),
      (''exclude_output'', PBool (rec_exclude_output s)),
      (''exclude_mouse'', PBool (rec_exclude_mouse s)),
      (''exclude_touch'', PBool (rec_exclude_touch s)),
      (''include_keys'', PBool (rec_include_keys s))]"

record display_settings =
  dis_mode :: string
  dis_width :: "int option"
  dis_height :: "int option"
  dis_dpi :: int

definition default_display_settings :: display_settings where
  "default_display_settings =
     \<lparr>dis_mode = ''dynamic'',
      dis_width = None,
      dis_height = None,
      dis_dpi = 96\<rparr>"

definition dump_display_settings :: "display_settings \<Rightarrow> pydict" where
  "dump_display_settings s =
     [(''mode'', PStr (dis_mode s)),
      (''width'', opt_int (dis_width s)),
      (''height'', opt_int (dis_height s)),
      (''dpi'', PInt (dis_dpi s))]"

record guacamole_settings =
  gs_display :: display_settings
  gs_recording :: recording_settings

definition default_guacamole_settings :: guacamole_settings where
  "default_guacamole_settings =
     \<lparr>gs_display = default_display_settings,
      gs_recording = default_recording_settings\<rparr>"

definition dump_guacamole_settings :: "guacamole_settings \<Rightarrow> pydict" where
  "dump_guacamole_settings s =
     [(''display'', PDict (dump_display_settings (gs_display s))),
      (''recording'', PDict (dump_recording_settings (gs_recording s)))]"

record server_settings =
  ss_deployment :: deployment_settings
  ss_identity :: identity_settings
  ss_guacamole :: guacamole_settings

definition default_server_settings :: server_settings where
  "default_server_settings =
     \<lparr>ss_deployment = default_deployment_settings,
      ss_identity = default_identity_settings,
      ss_guacamole = default_guacamole_settings\<rparr>"

definition dump_server_settings :: "server_settings \<Rightarrow> pydict" where
  "dump_server_settings s =
     [(''deployment'', PDict (dump_deployment_settings (ss_deployment s))),
      (''identity'', PDict (dump_identity_settings (ss_identity s))),
      (''guacamole'', PDict (dump_guacamole_settings (ss_guacamole s)))]"

record deployment_patch =
  dpp_default_repo_url :: "string option"
  dpp_artifact_share_root :: "string option"
  dpp_latest_installer_share_template :: "string option"

definition dump_deployment_patch :: "deployment_patch \<Rightarrow> pydict" where
  "dump_deployment_patch s =
     opt_field ''default_repo_url'' PStr (dpp_default_repo_url s)
     @ opt_field ''artifact_share_root'' PStr (dpp_artifact_share_root s)
     @ opt_field ''latest_installer_share_template'' PStr (dpp_latest_installer_share_template s)"

record group_mapping_patch =
  gmp_group_object_id :: "string option"
  gmp_group_name :: "string option"
  gmp_app_roles :: "string list option"

definition dump_group_mapping_patch :: "group_mapping_patch \<Rightarrow> pydict" where
  "dump_group_mapping_patch s =
     opt_field ''group_object_id'' PStr (gmp_group_object_id s)
     @ opt_field ''group_name'' PStr (gmp_group_name s)
     @ opt_field ''app_roles'' (\<lambda>xs. PList (map PStr xs)) (gmp_app_roles s)"

record access_patch =
  acp_mode :: "string option"
  acp_allow_mapped_groups :: "bool option"
  acp_allowed_user_subjects :: "string list option"
  acp_allowed_group_ids :: "string list option"

definition dump_access_patch :: "access_patch \<Rightarrow> pydict" where
  "dump_access_patch s =
     opt_field ''mode'' PStr (acp_mode s)
     @ opt_field ''allow_mapped_groups'' PBool (acp_allow_mapped_groups s)
     @ opt_field ''allowed_user_subjects'' (\<lambda>xs. PList (map PStr xs)) (acp_allowed_user_subjects s)
     @ opt_field ''allowed_group_ids'' (\<lambda>xs. PList (map PStr xs)) (acp_allowed_group_ids s)"

record azure_patch =
  azp_tenant_id :: "string option"
  azp_client_id :: "string option"
  azp_client_secret :: "string option"
  azp_authority_url :: "string option"
  azp_redirect_path :: "string option"
  azp_scopes :: "string list option"
  azp_group_role_mappings :: "group_mapping_patch list option"
  azp_activate :: "bool option"

definition dump_azure_patch :: "azure_patch \<Rightarrow> pydict" where
  "dump_azure_patch s =
     opt_field ''tenant_id'' PStr (azp_tenant_id s)
     @ opt_field ''client_id'' PStr (azp_client_id s)
     @ opt_field ''client_secret'' PStr (azp_client_secret s)
     @ opt_field ''authority_url'' PStr (azp_authority_url s)
     @ opt_field ''redirect_path'' PStr (azp_redirect_path s)
     @ opt_field ''scopes'' (\<lambda>xs. PList (map PStr xs)) (azp_scopes s)
     @ opt_field ''group_role_mappings'' (\<lambda>xs. PList (map (\<lambda>m. PDict (dump_group_mapping_patch m)) xs)) (azp_group_role_mappings s)
     @ opt_field ''activate'' PBool (azp_activate s)"

record identity_patch =
  idp_session_ttl_seconds :: "int option"
  idp_access :: "access_patch option"
  idp_azure :: "azure_patch option"

definition dump_identity_patch :: "identity_patch \<Rightarrow> pydict" where
  "dump_identity_patch s =
     opt_field ''session_ttl_seconds'' PInt (idp_session_ttl_seconds s)
     @ opt_field ''access'' (\<lambda>p. PDict (dump_access_patch p)) (idp_access s)
     @ opt_field ''azure'' (\<lambda>p. PDict (dump_azure_patch p)) (idp_azure s)"

record recording_patch =
  recp_enabled :: "bool option"
  recp_browse_url :: "string option"
  recp_path_template :: "string option"
  recp_name_template :: "string option"
  recp_create_path :: "bool option"
  recp_exclude_output :: "bool option"
  recp_exclude_mouse :: "bool option"
  recp_exclude_touch :: "bool option"
  recp_include_keys :: "bool option"

definition dump_recording_patch :: "recording_patch \<Rightarrow> pydict" where
  "dump_recording_patch s =
     opt_field ''enabled'' PBool (recp_enabled s)
     @ opt_field ''browse_url'' PStr (recp_browse_url s)
     @ opt_field ''path_template'' PStr (recp_path_template s)
     @ opt_field ''name_template'' PStr (recp_name_template s)
     @ opt_field ''create_path'' PBool (recp_create_path s)
     @ opt_field ''exclude_output'' PBool (recp_exclude_output s)
     @ opt_field ''exclude_mouse'' PBool (recp_exclude_mouse s)
     @ opt_field ''exclude_touch'' PBool (recp_exclude_touch s)
     @ opt_field ''include_keys'' PBool (recp_include_keys s)"

record display_patch =
  disp_mode :: "string option"
  disp_width :: "int option"
  disp_height :: "int option"
  disp_dpi :: "int option"

definition dump_display_patch :: "display_patch \<Rightarrow> pydict" where
  "dump_display_patch s =
     opt_field ''mode'' PStr (disp_mode s)
     @ opt_field ''width'' PInt (disp_width s)
     @ opt_field ''height'' PInt (disp_height s)
     @ opt_field ''dpi'' PInt (disp_dpi s)"

record guacamole_patch =
  gsp_display :: "display_patch option"
  gsp_recording :: "recording_patch option"

definition dump_guacamole_patch :: "guacamole_patch \<Rightarrow> pydict" where
  "dump_guacamole_patch s =
     opt_field ''display'' (\<lambda>p. PDict (dump_display_patch p)) (gsp_display s)
     @ opt_field ''recording'' (\<lambda>p. PDict (dump_recording_patch p)) (gsp_recording s)"

record settings_patch =
  ssp_deployment :: "deployment_patch option"
  ssp_identity :: "identity_patch option"
  ssp_guacamole :: "guacamole_patch option"

definition dump_settings_patch :: "settings_patch \<Rightarrow> pydict" where
  "dump_settings_patch s =
     opt_field ''deployment'' (\<lambda>p. PDict (dump_deployment_patch p)) (ssp_deployment s)
     @ opt_field ''identity'' (\<lambda>p. PDict (dump_identity_patch p)) (ssp_identity s)
     @ opt_field ''guacamole'' (\<lambda>p. PDict (dump_guacamole_patch p)) (ssp_guacamole s)"

section \<open>Merging\<close>

text \<open>
  \<open>_deep_merge\<close>: a dictionary in the patch is merged into a dictionary in the settings, anything
  else replaces what was there.
\<close>

function deep_merge :: "pydict \<Rightarrow> pydict \<Rightarrow> pydict" where
  "deep_merge current [] = current"
| "deep_merge current ((key, value) # patch) =
     (case (map_of current key, value) of
        (Some (PDict c), PDict p) \<Rightarrow> deep_merge (AList.update key (PDict (deep_merge c p)) current) patch
      | _ \<Rightarrow> deep_merge (AList.update key value current) patch)"
  by pat_completeness auto

termination
  by (relation "measure (\<lambda>(c, p). size_list (size_prod (\<lambda>_. 0) size) p)") auto

section \<open>The store\<close>

record settings_db =
  sdb_open :: bool
  sdb_row :: "(string \<times> int) option"

definition sdb_start :: "settings_db \<Rightarrow> settings_db" where
  "sdb_start db = db\<lparr>sdb_open := True\<rparr>"

definition sdb_stop :: "settings_db \<Rightarrow> settings_db" where
  "sdb_stop db = db\<lparr>sdb_open := False\<rparr>"

definition settings_load ::
    "(pyval \<Rightarrow> server_settings result) \<Rightarrow> settings_db \<Rightarrow> server_settings result" where
  "settings_load validate db =
     (if \<not> sdb_open db then Inl (RuntimeError ''ServerSettingsDB is not started'')
      else
        (case sdb_row db of
           None \<Rightarrow> Inr default_server_settings
         | Some (payload_json, _) \<Rightarrow>
             if payload_json = [] then Inr default_server_settings
             else
               (case json_loads payload_json of
                  None \<Rightarrow> Inr default_server_settings
                | Some payload \<Rightarrow>
                    (case validate payload of
                       Inl e \<Rightarrow> Inr default_server_settings
                     | Inr s \<Rightarrow> Inr s))))"

definition settings_save :: "int \<Rightarrow> server_settings \<Rightarrow> (settings_db, unit) prog" where
  "settings_save now s db =
     (if \<not> sdb_open db then (db, Inl (RuntimeError ''ServerSettingsDB is not started''))
      else (db\<lparr>sdb_row := Some (json_dumps (PDict (dump_server_settings s)), now)\<rparr>, Inr ()))"

section \<open>The service\<close>

record settings_service =
  set_store :: settings_db
  set_current :: server_settings

definition new_settings_service :: "settings_db \<Rightarrow> settings_service" where
  "new_settings_service store = \<lparr>set_store = store, set_current = default_server_settings\<rparr>"

definition settings_initialize ::
    "(pyval \<Rightarrow> server_settings result) \<Rightarrow> (settings_service, unit) prog" where
  "settings_initialize validate sv =
     (case settings_load validate (set_store sv) of
        Inl e \<Rightarrow> (sv, Inl e)
      | Inr s \<Rightarrow> (sv\<lparr>set_current := s\<rparr>, Inr ()))"

definition settings_snapshot :: "settings_service \<Rightarrow> server_settings" where
  "settings_snapshot sv = set_current sv"

definition settings_replace ::
    "int \<Rightarrow> server_settings \<Rightarrow> (settings_service, server_settings) prog" where
  "settings_replace now s sv =
     (case settings_save now s (set_store sv) of
        (st, Inl e) \<Rightarrow> (sv\<lparr>set_store := st\<rparr>, Inl e)
      | (st, Inr _) \<Rightarrow> (sv\<lparr>set_store := st, set_current := s\<rparr>, Inr s))"

definition settings_update ::
    "(pyval \<Rightarrow> server_settings result) \<Rightarrow> int \<Rightarrow> settings_patch
     \<Rightarrow> (settings_service, server_settings) prog" where
  "settings_update validate now patch sv =
     (let patch_payload = dump_settings_patch patch in
      if patch_payload = [] then (sv, Inr (settings_snapshot sv))
      else
        (case validate (PDict (deep_merge (dump_server_settings (set_current sv)) patch_payload)) of
           Inl e \<Rightarrow> (sv, Inl e)
         | Inr next_settings \<Rightarrow> settings_replace now next_settings sv))"

section \<open>Properties of the merge\<close>

definition merge_value :: "pyval option \<Rightarrow> pyval \<Rightarrow> pyval" where
  "merge_value old new =
     (case (old, new) of (Some (PDict c), PDict p) \<Rightarrow> PDict (deep_merge c p) | _ \<Rightarrow> new)"

lemma merge_value_simps [simp]:
  "merge_value (Some (PDict c)) (PDict p) = PDict (deep_merge c p)"
  "merge_value None v = v"
  "\<not> is_dict v \<Longrightarrow> merge_value old v = v"
  "\<not> is_dict o' \<Longrightarrow> merge_value (Some o') v = v"
  by (auto simp: merge_value_def is_dict_def split: option.split pyval.split)

lemma deep_merge_Cons:
  "deep_merge c ((k, v) # p) = deep_merge (AList.update k (merge_value (map_of c k) v) c) p"
  by (auto simp: merge_value_def split: option.split pyval.split)

lemma map_of_deep_merge:
  "distinct (map fst p) \<Longrightarrow>
   map_of (deep_merge c p) k =
     (case map_of p k of None \<Rightarrow> map_of c k | Some v \<Rightarrow> Some (merge_value (map_of c k) v))"
proof (induction p arbitrary: c)
  case (Cons x p)
  obtain k' v where x: "x = (k', v)" by (cases x)
  have d: "distinct (map fst p)" using Cons.prems by simp
  have "map_of p k' = None" using Cons.prems x by (simp add: map_of_eq_None_iff)
  then show ?case
    unfolding x deep_merge_Cons Cons.IH [OF d] by (auto split: option.split)
qed simp

text \<open>The value at the end of a path of keys.\<close>

fun path_get :: "pydict \<Rightarrow> string list \<Rightarrow> pyval option" where
  "path_get d [] = Some (PDict d)"
| "path_get d (k # ks) =
     (case map_of d k of
        None \<Rightarrow> None
      | Some v \<Rightarrow>
          (if ks = [] then Some v else if is_dict v then path_get (as_dict v) ks else None))"

text \<open>The patch says nothing about the path: neither the path nor a prefix or an extension of it.\<close>

fun untouched :: "pydict \<Rightarrow> pydict \<Rightarrow> string list \<Rightarrow> bool" where
  "untouched c p [] = (p = [])"
| "untouched c p (k # ks) =
     (case map_of p k of
        None \<Rightarrow> True
      | Some v \<Rightarrow> is_dict v \<and>
          (case map_of c k of
             None \<Rightarrow> False
           | Some w \<Rightarrow> is_dict w \<and> untouched (as_dict w) (as_dict v) ks))"

lemma json_wf_value:
  "json_wf (PDict p) \<Longrightarrow> map_of p k = Some v \<Longrightarrow> json_wf v"
  by (auto dest: map_of_SomeD)

lemma is_dictE: "is_dict v \<Longrightarrow> \<exists>d. v = PDict d"
  by (cases v) simp_all

text \<open>Every value the patch gives at the end of a path of keys is at the end of that path after the merge.\<close>

theorem deep_merge_sets:
  assumes "json_wf (PDict p)" and "path_get p ks = Some v" and "\<not> is_dict v"
  shows "path_get (deep_merge c p) ks = Some v"
  using assms(1,2)
proof (induction ks arbitrary: c p)
  case Nil
  then show ?case using assms(3) by auto
next
  case (Cons k ks)
  have d: "distinct (map fst p)" using Cons.prems(1) by simp
  obtain w where w: "map_of p k = Some w" using Cons.prems(2) by (auto split: option.splits)
  show ?case
  proof (cases "ks = []")
    case True
    then have "w = v" using Cons.prems(2) w by simp
    then show ?thesis using True w assms(3) by (simp add: map_of_deep_merge [OF d])
  next
    case False
    have "is_dict w" using Cons.prems(2) w False by (auto split: if_splits)
    then obtain p' where p': "w = PDict p'" using is_dictE by blast
    have wf: "json_wf (PDict p')" using json_wf_value [OF Cons.prems(1) w] p' by simp
    have pv: "path_get p' ks = Some v" using Cons.prems(2) w p' False by simp
    have IH: "path_get (deep_merge c' p') ks = Some v" for c' using Cons.IH [OF wf pv] .
    have Nil: "path_get p' ks = Some v" by (rule pv)
    show ?thesis
      using IH Nil False w p'
      by (cases "map_of c k") (auto simp: map_of_deep_merge [OF d] merge_value_def split: pyval.split)
  qed
qed

text \<open>The merge keeps every path the patch does not touch: no value is lost by patching its siblings.\<close>

theorem deep_merge_keeps:
  assumes "json_wf (PDict p)" and "untouched c p ks" and "ks \<noteq> []"
  shows "path_get (deep_merge c p) ks = path_get c ks"
  using assms
proof (induction ks arbitrary: c p)
  case (Cons k ks)
  have d: "distinct (map fst p)" using Cons.prems(1) by simp
  show ?case
  proof (cases "map_of p k")
    case None
    then show ?thesis by (simp add: map_of_deep_merge [OF d])
  next
    case (Some v)
    then obtain w where w: "map_of c k = Some w" "is_dict v" "is_dict w"
      "untouched (as_dict w) (as_dict v) ks"
      using Cons.prems(2) by (auto split: option.splits)
    obtain p' c' where pc: "v = PDict p'" "w = PDict c'" using w(2,3) is_dictE by blast
    have wf: "json_wf (PDict p')" using json_wf_value [OF Cons.prems(1) Some] pc by simp
    show ?thesis
    proof (cases "ks = []")
      case True
      then have "p' = []" using w(4) pc by simp
      then show ?thesis using True Some w(1) pc by (simp add: map_of_deep_merge [OF d])
    next
      case False
      have "path_get (deep_merge c' p') ks = path_get c' ks"
        using Cons.IH [OF wf] w(4) pc False by simp
      then show ?thesis using Some w(1) pc False by (simp add: map_of_deep_merge [OF d])
    qed
  qed
qed simp

theorem deep_merge_keeps_witness:
  "path_get (deep_merge [(''a'', PDict [(''x'', PInt 1), (''y'', PInt 2)])]
     [(''a'', PDict [(''x'', PInt 5)])]) [''a'', ''y''] = Some (PInt 2)"
  using deep_merge_keeps [of "[(''a'', PDict [(''x'', PInt 5)])]"
      "[(''a'', PDict [(''x'', PInt 1), (''y'', PInt 2)])]" "[''a'', ''y'']"]
  by simp

theorem deep_merge_sets_witness:
  "path_get (deep_merge [(''a'', PInt 3)] [(''a'', PDict [(''x'', PInt 5)])]) [''a'', ''x''] = Some (PInt 5)"
  using deep_merge_sets [of "[(''a'', PDict [(''x'', PInt 5)])]" "[''a'', ''x'']" "PInt 5" "[(''a'', PInt 3)]"]
  by simp

section \<open>Persistence\<close>

lemma json_wf_opt [simp]: "json_wf (opt_int v)" "json_wf (opt_str s)"
  by (simp_all add: opt_int_def opt_str_def split: option.split)

lemma json_wf_strings [simp]: "json_wf (PList (map PStr xs))"
  by simp

lemma json_wf_dump: "json_wf (PDict (dump_server_settings s))"
proof -
  have "json_wf (PDict (dump_deployment_settings d))" for d
    by (simp add: dump_deployment_settings_def)
  moreover have m: "json_wf (PDict (dump_group_mapping m))" for m
    by (simp add: dump_group_mapping_def)
  moreover have a: "json_wf (PDict (dump_access_settings a))" for a
    by (simp add: dump_access_settings_def)
  moreover have z: "json_wf (PDict (dump_azure_settings z))" for z
    using m by (simp add: dump_azure_settings_def del: json_wf.simps(2)) (simp add: dump_azure_settings_def)
  moreover have "json_wf (PDict (dump_identity_settings i))" for i
    using a [of "id_access i"] z [of "id_azure i"] by (simp add: dump_identity_settings_def)
  moreover have r: "json_wf (PDict (dump_recording_settings r))" for r
    by (simp add: dump_recording_settings_def)
  moreover have di: "json_wf (PDict (dump_display_settings d))" for d
    by (simp add: dump_display_settings_def)
  moreover have "json_wf (PDict (dump_guacamole_settings g))" for g
    using r [of "gs_recording g"] di [of "gs_display g"] by (simp add: dump_guacamole_settings_def)
  ultimately show ?thesis by (simp add: dump_server_settings_def)
qed



theorem settings_update_error:
  assumes "settings_update validate now patch sv = (sv', Inl e)"
  shows "sv' = sv"
proof -
  have "sv\<lparr>set_store := set_store sv\<rparr> = sv" by simp
  with assms show ?thesis
    by (auto simp: settings_update_def Let_def settings_replace_def settings_save_def
        split: if_splits sum.splits)
qed

definition sample_patch :: settings_patch where
  "sample_patch =
     \<lparr>ssp_deployment = Some \<lparr>dpp_default_repo_url = Some ''git'', dpp_artifact_share_root = None,
        dpp_latest_installer_share_template = None\<rparr>, ssp_identity = None, ssp_guacamole = None\<rparr>"


end
