(* ===== verification/Py_Base64.thy ===== *)
theory Py_Base64
  imports Py_Prelude
begin

text \<open>
  Python's \<open>base64\<close> with the URL-safe alphabet, on byte strings (a byte is an 8-bit character).
  Decoding is the scanner of \<open>binascii.a2b_base64\<close> in its default, lenient mode: characters
  outside the alphabet are skipped, a complete padding ends the scan, and an incomplete last group
  is an error (None).
\<close>

section \<open>Encoding\<close>

definition b64_char :: "nat \<Rightarrow> char" where
  "b64_char n =
     (if n < 26 then char_of (65 + n)
      else if n < 52 then char_of (71 + n)
      else if n < 62 then char_of (n - 4)
      else if n = 62 then CHR ''-'' else CHR ''_'')"

fun b64_encode :: "string \<Rightarrow> string" where
  "b64_encode [] = []"
| "b64_encode [a] =
     (let x = of_char a :: nat
      in [b64_char (x div 4), b64_char (x mod 4 * 16), CHR ''='', CHR ''=''])"
| "b64_encode [a, b] =
     (let x = of_char a :: nat; y = of_char b
      in [b64_char (x div 4), b64_char (x mod 4 * 16 + y div 16), b64_char (y mod 16 * 4), CHR ''=''])"
| "b64_encode (a # b # c # s) =
     (let x = of_char a :: nat; y = of_char b; z = of_char c
      in [b64_char (x div 4), b64_char (x mod 4 * 16 + y div 16),
          b64_char (y mod 16 * 4 + z div 64), b64_char (z mod 64)] @ b64_encode s)"

section \<open>Decoding\<close>

definition b64_value :: "char \<Rightarrow> nat option" where
  "b64_value c =
     (let n = of_char c :: nat in
      if 65 \<le> n \<and> n \<le> 90 then Some (n - 65)
      else if 97 \<le> n \<and> n \<le> 122 then Some (n - 71)
      else if 48 \<le> n \<and> n \<le> 57 then Some (n + 4)
      else if n = 45 \<or> n = 43 then Some 62
      else if n = 95 \<or> n = 47 then Some 63
      else None)"

text \<open>The scanner: position in the group of four, bits left over, number of padding characters.\<close>

fun b64_scan :: "nat \<Rightarrow> nat \<Rightarrow> nat \<Rightarrow> string \<Rightarrow> string option" where
  "b64_scan quad left pads [] = (if quad = 0 then Some [] else None)"
| "b64_scan quad left pads (c # cs) =
     (if c = CHR ''='' then
        (if 2 \<le> quad then
           (if 4 \<le> quad + Suc pads then Some [] else b64_scan quad left (Suc pads) cs)
         else b64_scan quad left pads cs)
      else
        (case b64_value c of
           None \<Rightarrow> b64_scan quad left pads cs
         | Some v \<Rightarrow>
             if quad = 0 then b64_scan 1 v 0 cs
             else if quad = 1 then
               map_option ((#) (char_of (left * 4 + v div 16))) (b64_scan 2 (v mod 16) 0 cs)
             else if quad = 2 then
               map_option ((#) (char_of (left * 16 + v div 4))) (b64_scan 3 (v mod 4) 0 cs)
             else map_option ((#) (char_of (left * 64 + v))) (b64_scan 0 0 0 cs)))"

definition b64_decode :: "string \<Rightarrow> string option" where
  "b64_decode s = b64_scan 0 0 0 s"

section \<open>The round trip\<close>

lemma b64_value_char [simp]: "n < 64 \<Longrightarrow> b64_value (b64_char n) = Some n"
  by (auto simp: b64_value_def b64_char_def Let_def char_of_take_bit_eq take_bit_eq_mod)

lemma b64_char_not_pad [simp]: "n < 64 \<Longrightarrow> b64_char n \<noteq> CHR ''=''"
proof
  assume "n < 64" "b64_char n = CHR ''=''"
  then have "b64_value (CHR ''='') = Some n" by (metis b64_value_char)
  then show False by (simp add: b64_value_def Let_def)
qed

lemma b64_char_not_dot [simp]: "n < 64 \<Longrightarrow> b64_char n \<noteq> CHR ''.''"
proof
  assume "n < 64" "b64_char n = CHR ''.''"
  then have "b64_value (CHR ''.'') = Some n" by (metis b64_value_char)
  then show False by (simp add: b64_value_def Let_def)
qed

lemmas b64_char_not [simp] = b64_char_not_pad [THEN not_sym] b64_char_not_dot [THEN not_sym]

lemma b64_pieces:
  assumes "x < 256" "y < 256" "z < (256::nat)"
  shows "x div 4 < 64" "x mod 4 * 16 < 64" "x mod 4 * 16 + y div 16 < 64" "y mod 16 * 4 < 64"
    "y mod 16 * 4 + z div 64 < 64" "z mod 64 < 64"
    "x div 4 * 4 + (x mod 4 * 16) div 16 = x" "(x div 4) * 4 + (x mod 4 * 16 + y div 16) div 16 = x"
    "(x mod 4 * 16 + y div 16) mod 16 * 16 + (y mod 16 * 4) div 4 = y"
    "(x mod 4 * 16 + y div 16) mod 16 * 16 + (y mod 16 * 4 + z div 64) div 4 = y"
    "(y mod 16 * 4 + z div 64) mod 4 * 64 + z mod 64 = z" "y div 16 mod 16 * 16 + y mod 16 = y"
proof -
  have "x mod 4 < 4" "y mod 16 < 16" "y div 16 < 16" "z div 64 < 4" using assms by simp_all
  then show "x div 4 < 64" "x mod 4 * 16 < 64" "x mod 4 * 16 + y div 16 < 64" "y mod 16 * 4 < 64"
    "y mod 16 * 4 + z div 64 < 64" "z mod 64 < 64" using assms by linarith+
  show "x div 4 * 4 + (x mod 4 * 16) div 16 = x" by simp
  show "(x div 4) * 4 + (x mod 4 * 16 + y div 16) div 16 = x" using assms by simp
  show "(x mod 4 * 16 + y div 16) mod 16 * 16 + (y mod 16 * 4) div 4 = y" using assms by simp
  show "(x mod 4 * 16 + y div 16) mod 16 * 16 + (y mod 16 * 4 + z div 64) div 4 = y" using assms by simp
  show "(y mod 16 * 4 + z div 64) mod 4 * 64 + z mod 64 = z" using assms by simp
  show "y div 16 mod 16 * 16 + y mod 16 = y" using assms by simp
qed

lemma b64_round_trip: "b64_decode (b64_encode s) = Some s"
  unfolding b64_decode_def
proof (induction s rule: b64_encode.induct)
  case (2 a)
  then show ?case using b64_pieces [of "of_char a" 0 0] by (simp add: Let_def)
next
  case (3 a b)
  then show ?case using b64_pieces [of "of_char a" "of_char b" 0] by (simp add: Let_def)
next
  case (4 a b c s)
  then show ?case using b64_pieces [of "of_char a" "of_char b" "of_char c"] by (simp add: Let_def)
qed simp

text \<open>The encoding without its padding, and the padding a text of that length is completed with.\<close>

lemma rstrip_char_append: "rstrip_char p (s @ [p]) = rstrip_char p s"
  by (simp add: rstrip_char_def)

lemma rstrip_char_id: "p \<notin> set s \<Longrightarrow> rstrip_char p s = s"
  by (cases s rule: rev_cases) (auto simp: rstrip_char_def)

definition pad_for :: "string \<Rightarrow> string" where
  "pad_for s = replicate ((4 - length s mod 4) mod 4) (CHR ''='')"

lemma rstrip_char_group:
  "p \<notin> set g \<Longrightarrow> rstrip_char p (g @ s) = g @ rstrip_char p s"
proof (induction s rule: rev_induct)
  case Nil
  then show ?case using rstrip_char_id [of p g] by (simp add: rstrip_char_def)
next
  case (snoc x s)
  show ?case
  proof (cases "x = p")
    case True
    then show ?thesis using snoc rstrip_char_append [of p "g @ s"] by (simp add: rstrip_char_append)
  qed (simp add: rstrip_char_def)
qed

lemma b64_strip_pad:
  "rstrip_char (CHR ''='') (b64_encode s) @ pad_for (rstrip_char (CHR ''='') (b64_encode s)) = b64_encode s
   \<and> CHR ''.'' \<notin> set (b64_encode s)"
proof (induction s rule: b64_encode.induct)
  case 1
  then show ?case by (simp add: rstrip_char_def pad_for_def)
next
  case (2 a)
  then show ?case using b64_pieces [of "of_char a" 0 0]
    by (auto simp: Let_def rstrip_char_def pad_for_def numeral_2_eq_2)
next
  case (3 a b)
  then show ?case using b64_pieces [of "of_char a" "of_char b" 0]
    by (auto simp: Let_def rstrip_char_def pad_for_def numeral_2_eq_2)
next
  case (4 a b c s)
  let ?p = "of_char a :: nat" let ?q = "of_char b :: nat" let ?r = "of_char c :: nat"
  let ?g = "[b64_char (?p div 4), b64_char (?p mod 4 * 16 + ?q div 16),
             b64_char (?q mod 16 * 4 + ?r div 64), b64_char (?r mod 64)]"
  have g: "CHR ''='' \<notin> set ?g" "CHR ''.'' \<notin> set ?g"
    using b64_pieces [of ?p ?q ?r] by simp_all
  have e: "b64_encode (a # b # c # s) = ?g @ b64_encode s" by (simp add: Let_def)
  have p: "pad_for (?g @ t) = pad_for t" for t by (simp add: pad_for_def)
  have r: "rstrip_char (CHR ''='') (?g @ b64_encode s) = ?g @ rstrip_char (CHR ''='') (b64_encode s)"
    by (rule rstrip_char_group [OF g(1)])
  have "set (?g @ b64_encode s) = set ?g \<union> set (b64_encode s)" by (rule set_append)
  then have "CHR ''.'' \<notin> set (?g @ b64_encode s)" using g(2) 4 by blast
  then show ?case unfolding e r p append_assoc using 4 by (simp only: conj_absorb simp_thms)
qed

end
