(* ===== verification/Agent_JWT.thy ===== *)
theory Agent_JWT
  imports Py_Json Py_Base64 "HOL-Library.List_Lexorder" "HOL-Library.Char_ord"
begin

text \<open>
  The bearer tokens of the agents (\<open>shared/security/agent_jwt.py\<close>, \<open>agent_auth.py\<close>): HS256 JSON web
  tokens. JSON and base64 are the library models, so a token is the concrete text; HMAC-SHA256 is
  the parameter \<open>hmac\<close> (secret and message to digest bytes). \<open>conv\<close> is pydantic's reading of a
  numeric string as an int. Texts are ASCII: bytes above 127 in a decoded segment count as
  undecodable.
\<close>

section \<open>Claims\<close>

definition AGENT_JWT_ALGORITHM :: string where "AGENT_JWT_ALGORITHM = ''HS256''"

definition TOKEN_PURPOSE_AGENT_WS :: string where "TOKEN_PURPOSE_AGENT_WS = ''agent_ws''"

record claims =
  cl_iss :: string
  cl_sub :: string
  cl_agent_id :: string
  cl_purpose :: string
  cl_iat :: int
  cl_exp :: "int option"
  cl_jti :: string
  cl_ver :: int

text \<open>\<open>model_dump(exclude_none=True)\<close>.\<close>

definition dump_claims :: "claims \<Rightarrow> pydict" where
  "dump_claims c =
     [(''iss'', PStr (cl_iss c)), (''sub'', PStr (cl_sub c)), (''agent_id'', PStr (cl_agent_id c)),
      (''purpose'', PStr (cl_purpose c)), (''iat'', PInt (cl_iat c))]
     @ (case cl_exp c of None \<Rightarrow> [] | Some e \<Rightarrow> [(''exp'', PInt e)])
     @ [(''jti'', PStr (cl_jti c)), (''ver'', PInt (cl_ver c))]"

text \<open>\<open>model_validate\<close>: the fields with their defaults, then \<open>_validate_subject\<close>.\<close>

definition as_str :: "pyval \<Rightarrow> string option" where
  "as_str v = (case v of PStr s \<Rightarrow> Some s | _ \<Rightarrow> None)"

definition as_int :: "(string \<Rightarrow> int option) \<Rightarrow> pyval \<Rightarrow> int option" where
  "as_int conv v =
     (case v of PInt i \<Rightarrow> Some i | PBool b \<Rightarrow> Some (if b then 1 else 0) | PStr s \<Rightarrow> conv s | _ \<Rightarrow> None)"

definition field_or :: "(pyval \<Rightarrow> 'a option) \<Rightarrow> pydict \<Rightarrow> string \<Rightarrow> 'a option \<Rightarrow> 'a option" where
  "field_or conv d k dflt = (case map_of d k of None \<Rightarrow> dflt | Some v \<Rightarrow> conv v)"

definition as_opt_int :: "(string \<Rightarrow> int option) \<Rightarrow> pyval \<Rightarrow> int option option" where
  "as_opt_int conv v = (if v = PNone then Some None else map_option Some (as_int conv v))"

definition validate_claims :: "(string \<Rightarrow> int option) \<Rightarrow> string \<Rightarrow> pyval \<Rightarrow> claims option" where
  "validate_claims conv uuid payload =
     (case payload of
        PDict d \<Rightarrow>
          (case (field_or as_str d ''iss'' (Some ''vm_agent_server''),
                 field_or as_str d ''sub'' None,
                 field_or as_str d ''agent_id'' None,
                 field_or as_str d ''purpose'' (Some TOKEN_PURPOSE_AGENT_WS),
                 field_or (as_int conv) d ''iat'' None,
                 field_or (as_opt_int conv) d ''exp'' (Some None),
                 field_or as_str d ''jti'' (Some uuid),
                 field_or (as_int conv) d ''ver'' (Some 1)) of
             (Some iss, Some sub, Some agent_id, Some purpose, Some iat, Some exp, Some jti, Some ver) \<Rightarrow>
               if sub = agent_id
               then Some \<lparr>cl_iss = iss, cl_sub = sub, cl_agent_id = agent_id, cl_purpose = purpose,
                          cl_iat = iat, cl_exp = exp, cl_jti = jti, cl_ver = ver\<rparr>
               else None
           | _ \<Rightarrow> None)
      | _ \<Rightarrow> None)"

section \<open>Encoding\<close>

definition is_ascii :: "string \<Rightarrow> bool" where
  "is_ascii s = (\<forall>c\<in>set s. (of_char c :: nat) < 128)"

definition b64url_encode :: "string \<Rightarrow> string" where
  "b64url_encode payload = rstrip_char (CHR ''='') (b64_encode payload)"

definition b64url_decode :: "string \<Rightarrow> string result" where
  "b64url_decode value =
     (if \<not> is_ascii value then Inl (ValueError ''invalid base64url payload'')
      else
        (case b64_decode (value @ pad_for value) of
           None \<Rightarrow> Inl (ValueError ''invalid base64url payload'')
         | Some s \<Rightarrow> Inr s))"

text \<open>The dictionaries the code serialises are flat: sorting the keys is one sort.\<close>

definition json_dumps_compact :: "pydict \<Rightarrow> string" where
  "json_dumps_compact d = json_enc '','' '':'' (PDict (sort_key fst d))"

definition looks_like_jwt :: "string option \<Rightarrow> bool" where
  "looks_like_jwt token =
     (case token of
        None \<Rightarrow> False
      | Some t \<Rightarrow> t \<noteq> [] \<and> length (filter (\<lambda>c. c = CHR ''.'') t) = 2)"

section \<open>Signing and verifying\<close>

type_synonym mac = "string \<Rightarrow> string \<Rightarrow> string"

definition jwt_header :: pydict where
  "jwt_header = [(''alg'', PStr AGENT_JWT_ALGORITHM), (''typ'', PStr ''JWT'')]"

definition signature_for :: "mac \<Rightarrow> string \<Rightarrow> string \<Rightarrow> string \<Rightarrow> string" where
  "signature_for hmac secret h p = b64url_encode (hmac secret (h @ ''.'' @ p))"

definition sign_agent_jwt :: "mac \<Rightarrow> claims \<Rightarrow> string \<Rightarrow> string result" where
  "sign_agent_jwt hmac claims secret =
     (if secret = [] then Inl (ValueError ''signing secret is required'')
      else
        (let h = b64url_encode (json_dumps_compact jwt_header);
             p = b64url_encode (json_dumps_compact (dump_claims claims))
         in Inr (h @ ''.'' @ p @ ''.'' @ signature_for hmac secret h p)))"

definition decode_segment :: "string \<Rightarrow> pyval result" where
  "decode_segment segment =
     bindE (b64url_decode segment) (\<lambda>bytes.
       if \<not> is_ascii bytes then Inl (ValueError ''invalid token payload'')
       else (case json_loads bytes of
               None \<Rightarrow> Inl (ValueError ''invalid token payload'')
             | Some v \<Rightarrow> Inr v))"

record expectation =
  xp_agent_id :: "string option"
  xp_version :: "int option"
  xp_purpose :: "string option"
  xp_issuer :: "string option"

text \<open>The checks on the validated claims.\<close>

definition check_claims :: "expectation \<Rightarrow> int \<Rightarrow> claims \<Rightarrow> claims result" where
  "check_claims xp timestamp c =
     (if (case cl_exp c of None \<Rightarrow> False | Some e \<Rightarrow> e < timestamp)
        then Inl (ValueError ''token expired'')
      else if ostr_or (xp_agent_id xp) [] \<noteq> [] \<and> Some (cl_agent_id c) \<noteq> xp_agent_id xp
        then Inl (ValueError ''token agent mismatch'')
      else if xp_version xp \<noteq> None \<and> Some (cl_ver c) \<noteq> xp_version xp
        then Inl (ValueError ''token version mismatch'')
      else if ostr_or (xp_purpose xp) [] \<noteq> [] \<and> Some (cl_purpose c) \<noteq> xp_purpose xp
        then Inl (ValueError ''token purpose mismatch'')
      else if ostr_or (xp_issuer xp) [] \<noteq> [] \<and> Some (cl_iss c) \<noteq> xp_issuer xp
        then Inl (ValueError ''token issuer mismatch'')
      else Inr c)"

definition verify_agent_jwt ::
    "mac \<Rightarrow> (string \<Rightarrow> int option) \<Rightarrow> string \<Rightarrow> string \<Rightarrow> string \<Rightarrow> expectation \<Rightarrow> int \<Rightarrow> claims result" where
  "verify_agent_jwt hmac conv uuid token secret xp now =
     (if secret = [] then Inl (ValueError ''signing secret is required'')
      else
        (case split_on (CHR ''.'') token of
           [h, p, s] \<Rightarrow>
             bindE (decode_segment h) (\<lambda>header.
             bindE (decode_segment p) (\<lambda>payload.
               (case header of
                  PDict hdr \<Rightarrow>
                    if dget hdr ''alg'' \<noteq> PStr AGENT_JWT_ALGORITHM
                      then Inl (ValueError ''unsupported token algorithm'')
                    else if \<not> is_ascii s
                      then Inl (TypeError ''comparing strings with non-ASCII characters is not supported'')
                    else if s \<noteq> signature_for hmac secret h p
                      then Inl (ValueError ''invalid token signature'')
                    else
                      (case validate_claims conv uuid payload of
                         None \<Rightarrow> Inl (ValueError ''invalid token claims'')
                       | Some c \<Rightarrow> check_claims xp now c)
                | _ \<Rightarrow> Inl (AttributeError ''get''))))
         | _ \<Rightarrow> Inl (ValueError ''invalid token format'')))"

definition issue_agent_jwt ::
    "mac \<Rightarrow> string \<Rightarrow> string \<Rightarrow> string \<Rightarrow> string \<Rightarrow> int \<Rightarrow> int option \<Rightarrow> int \<Rightarrow> string \<Rightarrow> string result" where
  "issue_agent_jwt hmac secret agent_id issuer purpose token_version ttl_seconds now uuid =
     (let expires_at = (case ttl_seconds of
                          None \<Rightarrow> None
                        | Some ttl \<Rightarrow> if ttl > 0 then Some (now + ttl) else None)
      in sign_agent_jwt hmac
           \<lparr>cl_iss = issuer, cl_sub = agent_id, cl_agent_id = agent_id, cl_purpose = purpose,
            cl_iat = now, cl_exp = expires_at, cl_jti = uuid, cl_ver = token_version\<rparr> secret)"

section \<open>The server's configuration\<close>

text \<open>\<open>env\<close> is \<open>os.getenv\<close>.\<close>

type_synonym env = "string \<Rightarrow> string option"

definition DEFAULT_AGENT_JWT_SECRET :: string where
  "DEFAULT_AGENT_JWT_SECRET = ''vm-agent-development-secret-change-me''"

definition DEFAULT_AGENT_JWT_ISSUER :: string where
  "DEFAULT_AGENT_JWT_ISSUER = ''vm_agent_server''"

definition get_agent_jwt_secret :: "env \<Rightarrow> string" where
  "get_agent_jwt_secret env = ostr_or (env ''VM_AGENT_JWT_SECRET'') DEFAULT_AGENT_JWT_SECRET"

definition get_agent_jwt_issuer :: "env \<Rightarrow> string" where
  "get_agent_jwt_issuer env = ostr_or (env ''VM_AGENT_JWT_ISSUER'') DEFAULT_AGENT_JWT_ISSUER"

definition get_agent_jwt_ttl_seconds :: "env \<Rightarrow> int option" where
  "get_agent_jwt_ttl_seconds env =
     (let raw = strip (ostr_or (env ''VM_AGENT_JWT_TTL_SECONDS'') [])
      in if raw = [] then None
         else (case parse_int raw of
                 None \<Rightarrow> None
               | Some ttl \<Rightarrow> if ttl > 0 then Some ttl else None))"

definition issue_agent_access_token :: "mac \<Rightarrow> env \<Rightarrow> string \<Rightarrow> int \<Rightarrow> int \<Rightarrow> string \<Rightarrow> string result" where
  "issue_agent_access_token hmac env agent_id token_version now uuid =
     issue_agent_jwt hmac (get_agent_jwt_secret env) agent_id (get_agent_jwt_issuer env)
       TOKEN_PURPOSE_AGENT_WS token_version (get_agent_jwt_ttl_seconds env) now uuid"

definition verify_agent_access_token ::
    "mac \<Rightarrow> (string \<Rightarrow> int option) \<Rightarrow> env \<Rightarrow> string \<Rightarrow> string \<Rightarrow> int \<Rightarrow> int \<Rightarrow> string \<Rightarrow> claims result" where
  "verify_agent_access_token hmac conv env token expected_agent_id expected_version now uuid =
     verify_agent_jwt hmac conv uuid token (get_agent_jwt_secret env)
       \<lparr>xp_agent_id = Some expected_agent_id, xp_version = Some expected_version,
        xp_purpose = Some TOKEN_PURPOSE_AGENT_WS, xp_issuer = Some (get_agent_jwt_issuer env)\<rparr> now"

section \<open>ASCII\<close>

lemma is_ascii_simps [simp]:
  "is_ascii []" "is_ascii (c # s) \<longleftrightarrow> (of_char c :: nat) < 128 \<and> is_ascii s"
  "is_ascii (s @ t) \<longleftrightarrow> is_ascii s \<and> is_ascii t"
  by (auto simp: is_ascii_def)

lemma b64_char_ascii [simp]: "(of_char (b64_char n) :: nat) < 128" if "n < 64"
  using that by (auto simp: b64_char_def char_of_take_bit_eq take_bit_eq_mod)

lemma b64_encode_ascii [simp]: "is_ascii (b64_encode s)"
proof (induction s rule: b64_encode.induct)
  case (2 a)
  then show ?case using b64_pieces [of "of_char a" 0 0] by (simp add: Let_def)
next
  case (3 a b)
  then show ?case using b64_pieces [of "of_char a" "of_char b" 0] by (simp add: Let_def)
next
  case (4 a b c s)
  then show ?case using b64_pieces [of "of_char a" "of_char b" "of_char c"] by (simp add: Let_def)
qed simp

lemma rstrip_char_subset: "set (rstrip_char p s) \<subseteq> set s"
  unfolding rstrip_char_def by (auto dest: set_dropWhileD)

lemma b64url_encode_ascii [simp]: "is_ascii (b64url_encode s)"
  using rstrip_char_subset b64_encode_ascii [of s] unfolding b64url_encode_def is_ascii_def by blast

lemma b64url_encode_no_dot [simp]: "CHR ''.'' \<notin> set (b64url_encode s)"
  using rstrip_char_subset b64_strip_pad [of s] unfolding b64url_encode_def by blast

lemma b64url_round_trip [simp]: "b64url_decode (b64url_encode s) = Inr s"
  using b64_strip_pad [of s] b64_round_trip [of s]
  by (simp add: b64url_decode_def) (simp add: b64url_encode_def)

lemma hex_digit_ascii [simp]: "(of_char (hex_digit n) :: nat) < 128" if "n < 16"
  using that by (auto simp: hex_digit_def char_of_take_bit_eq take_bit_eq_mod)

lemma esc_char_ascii [simp]: "is_ascii (esc_char c)"
  by (auto simp: esc_char_def hex4_def Let_def)

lemma enc_str_ascii [simp]: "is_ascii (enc_str s)"
proof -
  have "is_ascii (concat (map esc_char s))" by (induction s) simp_all
  then show ?thesis by (simp add: enc_str_def)
qed

lemma nat_digits_ascii [simp]: "is_ascii (nat_digits n)"
  unfolding is_ascii_def
proof
  fix c assume "c \<in> set (nat_digits n)"
  then have "is_digit c" by (rule nat_digits_digits)
  then show "(of_char c :: nat) < 128" by (simp add: is_digit_def Let_def)
qed

lemma str_int_ascii [simp]: "is_ascii (str_int i)"
  by (simp add: str_int_def)

lemma join_ascii: "is_ascii sep \<Longrightarrow> (\<And>x. x \<in> set xs \<Longrightarrow> is_ascii x) \<Longrightarrow> is_ascii (join sep xs)"
  by (induction sep xs rule: join.induct) simp_all

lemma json_enc_ascii [simp]: "is_ascii (json_enc '','' '':'' v)"
proof (induction v)
  case (PList xs)
  then show ?case by (auto intro!: join_ascii)
next
  case (PDict d)
  then show ?case by (auto intro!: join_ascii)
qed simp_all

section \<open>Decoding what was encoded\<close>

lemma sort_key_distinct: "distinct (map fst d) \<Longrightarrow> distinct (map fst (sort_key f d))"
  by (simp add: distinct_map)

lemma map_of_sort_key:
  assumes "distinct (map fst d)"
  shows "map_of (sort_key f d) = map_of d"
proof -
  have "set (sort_key f d) = set d" by simp
  then show ?thesis using assms sort_key_distinct [OF assms, of f]
    by (intro map_of_inject_set [THEN iffD2]) auto
qed

lemma json_compact_round_trip:
  "json_wf (PDict d) \<Longrightarrow> json_loads (json_dumps_compact d) = Some (PDict (sort_key fst d))"
  unfolding json_dumps_compact_def
  by (rule compact_seps.json_round_trip) (auto simp: distinct_map)

lemma json_dumps_compact_ascii [simp]: "is_ascii (json_dumps_compact d)"
  unfolding json_dumps_compact_def by (rule json_enc_ascii)

lemma decode_segment_round_trip:
  "json_wf (PDict d) \<Longrightarrow> decode_segment (b64url_encode (json_dumps_compact d)) = Inr (PDict (sort_key fst d))"
  using json_compact_round_trip [of d] by (simp add: decode_segment_def del: json_wf.simps)

lemma dump_claims_wf [simp]: "json_wf (PDict (dump_claims c))"
  by (auto simp: dump_claims_def split: option.split)

lemma dump_claims_distinct: "distinct (map fst (dump_claims c))"
  using dump_claims_wf [of c] by simp

lemma validate_dump_claims:
  "cl_sub c = cl_agent_id c \<Longrightarrow>
   validate_claims conv uuid (PDict (sort_key fst (dump_claims c))) = Some c"
  unfolding validate_claims_def pyval.case field_or_def map_of_sort_key [OF dump_claims_distinct]
  by (cases "cl_exp c")
    (simp_all add: dump_claims_def as_str_def as_int_def as_opt_int_def)

lemma header_wf [simp]: "json_wf (PDict jwt_header)"
  by (simp add: jwt_header_def)

lemma header_alg: "dget (sort_key fst jwt_header) ''alg'' = PStr AGENT_JWT_ALGORITHM"
  unfolding dget_def map_of_sort_key [OF header_wf [simplified, THEN conjunct1]]
  by (simp add: jwt_header_def)

lemma split_token:
  "CHR ''.'' \<notin> set h \<Longrightarrow> CHR ''.'' \<notin> set p \<Longrightarrow> CHR ''.'' \<notin> set s \<Longrightarrow>
   split_on (CHR ''.'') (h @ ''.'' @ p @ ''.'' @ s) = [h, p, s]"
  by (simp add: split_on_append_sep split_on_no_sep)

lemma verify_signed:
  assumes "sign_agent_jwt hmac c secret = Inr token" and "cl_sub c = cl_agent_id c"
  shows "verify_agent_jwt hmac conv uuid token secret xp now = check_claims xp now c"
proof -
  let ?h = "b64url_encode (json_dumps_compact jwt_header)"
  let ?p = "b64url_encode (json_dumps_compact (dump_claims c))"
  have s: "secret \<noteq> []" "token = ?h @ ''.'' @ ?p @ ''.'' @ signature_for hmac secret ?h ?p"
    using assms(1) by (auto simp: sign_agent_jwt_def Let_def split: if_splits)
  have sp: "split_on (CHR ''.'') token = [?h, ?p, signature_for hmac secret ?h ?p]"
    unfolding s(2) by (rule split_token) (simp_all add: signature_for_def)
  have a: "is_ascii (signature_for hmac secret ?h ?p)" by (simp add: signature_for_def)
  show ?thesis
    using s(1) a
    by (simp add: verify_agent_jwt_def sp decode_segment_round_trip header_alg
        validate_dump_claims [OF assms(2)] del: json_wf.simps)
qed


section \<open>Issued tokens\<close>

lemma secret_not_empty [simp]: "get_agent_jwt_secret env \<noteq> []"
  by (simp add: get_agent_jwt_secret_def ostr_or_def DEFAULT_AGENT_JWT_SECRET_def split: option.split)

lemma issuer_not_empty [simp]: "get_agent_jwt_issuer env \<noteq> []"
  by (simp add: get_agent_jwt_issuer_def ostr_or_def DEFAULT_AGENT_JWT_ISSUER_def split: option.split)

definition issued_claims :: "env \<Rightarrow> string \<Rightarrow> int \<Rightarrow> int \<Rightarrow> string \<Rightarrow> claims" where
  "issued_claims env agent_id version now uuid =
     \<lparr>cl_iss = get_agent_jwt_issuer env, cl_sub = agent_id, cl_agent_id = agent_id,
      cl_purpose = TOKEN_PURPOSE_AGENT_WS, cl_iat = now,
      cl_exp = map_option (\<lambda>ttl. now + ttl) (get_agent_jwt_ttl_seconds env), cl_jti = uuid,
      cl_ver = version\<rparr>"

lemma ttl_positive: "get_agent_jwt_ttl_seconds env = Some ttl \<Longrightarrow> ttl > 0"
  by (auto simp: get_agent_jwt_ttl_seconds_def Let_def split: if_splits option.splits)

lemma issue_total:
  "\<exists>token. issue_agent_access_token hmac env agent_id version now uuid = Inr token \<and>
     sign_agent_jwt hmac (issued_claims env agent_id version now uuid) (get_agent_jwt_secret env) = Inr token"
proof -
  have "(case get_agent_jwt_ttl_seconds env of None \<Rightarrow> None
         | Some ttl \<Rightarrow> if ttl > 0 then Some (now + ttl) else None) =
      map_option (\<lambda>ttl. now + ttl) (get_agent_jwt_ttl_seconds env)"
    using ttl_positive by (cases "get_agent_jwt_ttl_seconds env") auto
  then show ?thesis
    by (simp add: issue_agent_access_token_def issue_agent_jwt_def issued_claims_def sign_agent_jwt_def Let_def)
qed

lemma verify_issued_eq:
  "\<exists>token. issue_agent_access_token hmac env agent_id version now uuid = Inr token \<and>
     verify_agent_access_token hmac conv env token agent_id' version' now' uuid' =
       (if (case get_agent_jwt_ttl_seconds env of None \<Rightarrow> False | Some ttl \<Rightarrow> now + ttl < now')
          then Inl (ValueError ''token expired'')
        else if agent_id' \<noteq> [] \<and> agent_id' \<noteq> agent_id then Inl (ValueError ''token agent mismatch'')
        else if version' \<noteq> version then Inl (ValueError ''token version mismatch'')
        else Inr (issued_claims env agent_id version now uuid))"
proof -
  obtain token where t: "issue_agent_access_token hmac env agent_id version now uuid = Inr token"
    "sign_agent_jwt hmac (issued_claims env agent_id version now uuid) (get_agent_jwt_secret env) = Inr token"
    using issue_total by blast
  have p: "TOKEN_PURPOSE_AGENT_WS \<noteq> []" by (simp add: TOKEN_PURPOSE_AGENT_WS_def)
  have "cl_sub (issued_claims env agent_id version now uuid) = cl_agent_id (issued_claims env agent_id version now uuid)"
    by (simp add: issued_claims_def)
  from verify_signed [OF t(2) this, of conv uuid']
  have "verify_agent_access_token hmac conv env token agent_id' version' now' uuid' =
     check_claims \<lparr>xp_agent_id = Some agent_id', xp_version = Some version',
        xp_purpose = Some TOKEN_PURPOSE_AGENT_WS, xp_issuer = Some (get_agent_jwt_issuer env)\<rparr> now'
       (issued_claims env agent_id version now uuid)"
    by (simp add: verify_agent_access_token_def)
  then show ?thesis using t(1) p
    by (cases "get_agent_jwt_ttl_seconds env")
      (auto simp: check_claims_def issued_claims_def str_or_def)
qed

text \<open>Property C13. A token the server issues is accepted for exactly the agent and the token version it
  was issued for, until its life time (if one is configured) is over; in every other case the
  verifier names the reason. This goes through the whole text: JSON with sorted keys, unpadded
  URL-safe base64, the three segments and the signature, for every MAC function and every agent
  identifier.\<close>

theorem issued_token_verifies:
  "\<exists>token. issue_agent_access_token hmac env agent_id version now uuid = Inr token \<and>
     verify_agent_access_token hmac conv env token agent_id' version' now' uuid' =
       (if (case get_agent_jwt_ttl_seconds env of None \<Rightarrow> False | Some ttl \<Rightarrow> now + ttl < now')
          then Inl (ValueError ''token expired'')
        else if agent_id' \<noteq> [] \<and> agent_id' \<noteq> agent_id then Inl (ValueError ''token agent mismatch'')
        else if version' \<noteq> version then Inl (ValueError ''token version mismatch'')
        else Inr (issued_claims env agent_id version now uuid))"
  by (rule verify_issued_eq)

lemma verify_accepts:
  assumes "verify_agent_jwt hmac conv uuid token secret xp now = Inr c"
  shows "\<exists>h p. split_on (CHR ''.'') token = [h, p, signature_for hmac secret h p] \<and>
     secret \<noteq> [] \<and> check_claims xp now c = Inr c \<and> cl_sub c = cl_agent_id c \<and>
     (\<exists>hdr. decode_segment h = Inr (PDict hdr) \<and> dget hdr ''alg'' = PStr AGENT_JWT_ALGORITHM) \<and>
     (\<exists>payload. decode_segment p = Inr payload \<and> validate_claims conv uuid payload = Some c)"
proof -
  have sec: "secret \<noteq> []" using assms by (auto simp: verify_agent_jwt_def)
  obtain h p s where sp: "split_on (CHR ''.'') token = [h, p, s]"
    using assms sec by (auto simp: verify_agent_jwt_def split: list.splits)
  obtain hv pv where d: "decode_segment h = Inr hv" "decode_segment p = Inr pv"
    using assms sec by (auto simp: verify_agent_jwt_def sp bindE_eq_Inr)
  obtain hdr where hv: "hv = PDict hdr"
    using assms sec d by (cases hv) (simp_all add: verify_agent_jwt_def sp)
  have alg: "dget hdr ''alg'' = PStr AGENT_JWT_ALGORITHM"
    and sig: "s = signature_for hmac secret h p"
    using assms sec d hv by (auto simp: verify_agent_jwt_def sp split: if_splits)
  obtain c' where c': "validate_claims conv uuid pv = Some c'" "check_claims xp now c' = Inr c"
    using assms sec d hv alg sig by (auto simp: verify_agent_jwt_def sp split: if_splits option.splits)
  then have "c' = c" by (auto simp: check_claims_def split: if_splits)
  moreover have "cl_sub c' = cl_agent_id c'"
    using c'(1) by (auto simp: validate_claims_def split: pyval.splits option.splits if_splits)
  ultimately show ?thesis using sp sec d hv alg sig c' by blast
qed

text \<open>Property C14. Whatever text is presented, an accepted token has three segments whose last is the MAC
  of the first two under the server's secret, names the algorithm HS256 in its header, carries valid
  claims about one agent, the expected one, at the expected version, for this purpose and issuer,
  and has not expired.\<close>

theorem accepted_token_sound:
  assumes "verify_agent_access_token hmac conv env token agent_id version now uuid = Inr c"
  shows "\<exists>h p. split_on (CHR ''.'') token = [h, p, signature_for hmac (get_agent_jwt_secret env) h p] \<and>
     (\<exists>hdr. decode_segment h = Inr (PDict hdr) \<and> dget hdr ''alg'' = PStr ''HS256'') \<and>
     (\<exists>payload. decode_segment p = Inr payload \<and> validate_claims conv uuid payload = Some c) \<and>
     cl_sub c = cl_agent_id c \<and> (agent_id \<noteq> [] \<longrightarrow> cl_agent_id c = agent_id) \<and> cl_ver c = version \<and>
     cl_purpose c = ''agent_ws'' \<and> cl_iss c = get_agent_jwt_issuer env \<and>
     (\<forall>e. cl_exp c = Some e \<longrightarrow> now \<le> e)"
proof -
  from verify_accepts [OF assms [unfolded verify_agent_access_token_def]]
  obtain h p where hp: "split_on (CHR ''.'') token = [h, p, signature_for hmac (get_agent_jwt_secret env) h p]"
    "check_claims \<lparr>xp_agent_id = Some agent_id, xp_version = Some version,
        xp_purpose = Some TOKEN_PURPOSE_AGENT_WS, xp_issuer = Some (get_agent_jwt_issuer env)\<rparr> now c = Inr c"
    "cl_sub c = cl_agent_id c"
    "\<exists>hdr. decode_segment h = Inr (PDict hdr) \<and> dget hdr ''alg'' = PStr AGENT_JWT_ALGORITHM"
    "\<exists>payload. decode_segment p = Inr payload \<and> validate_claims conv uuid payload = Some c"
    by blast
  have "(\<forall>e. cl_exp c = Some e \<longrightarrow> now \<le> e) \<and> (agent_id \<noteq> [] \<longrightarrow> cl_agent_id c = agent_id) \<and>
      cl_ver c = version \<and> cl_purpose c = ''agent_ws'' \<and> cl_iss c = get_agent_jwt_issuer env"
    using hp(2) by (auto simp: check_claims_def TOKEN_PURPOSE_AGENT_WS_def split: if_splits option.splits)
  then show ?thesis using hp unfolding AGENT_JWT_ALGORITHM_def by blast
qed

theorem accepted_token_sound_witness:
  "\<exists>token h p. issue_agent_access_token (\<lambda>k m. k @ m) (\<lambda>_. None) ''vm1'' 3 100 ''j'' = Inr token \<and>
     split_on (CHR ''.'') token = [h, p, signature_for (\<lambda>k m. k @ m) DEFAULT_AGENT_JWT_SECRET h p]"
proof -
  obtain token where t: "issue_agent_access_token (\<lambda>k m. k @ m) (\<lambda>_. None) ''vm1'' 3 100 ''j'' = Inr token"
    "verify_agent_access_token (\<lambda>k m. k @ m) (\<lambda>_. None) (\<lambda>_. None) token ''vm1'' 3 200 ''u'' =
       Inr (issued_claims (\<lambda>_. None) ''vm1'' 3 100 ''j'')"
    using verify_issued_eq [of "\<lambda>k m. k @ m" "\<lambda>_. None" "''vm1''" 3 100 "''j''" "\<lambda>_. None" "''vm1''" 3 200 "''u''"]
    by (auto simp: get_agent_jwt_ttl_seconds_def)
  from accepted_token_sound [OF t(2)] t(1) show ?thesis
    by (auto simp: get_agent_jwt_secret_def)
qed

section \<open>The token service as an interface\<close>

text \<open>
  What the agent registry relies on: issuing never fails, a fresh token is accepted for its agent
  and version, and a token is accepted for at most one agent and one version.
\<close>

locale token_service =
  fixes issue :: "string \<Rightarrow> int \<Rightarrow> int \<Rightarrow> string \<Rightarrow> string result"
    and accepts :: "string \<Rightarrow> string \<Rightarrow> int \<Rightarrow> int \<Rightarrow> bool"
  assumes issue_succeeds: "\<exists>token. issue agent version now uuid = Inr token"
    and fresh_accepted: "issue agent version now uuid = Inr token \<Longrightarrow> accepts token agent version now"
    and one_agent: "accepts token agent version now \<Longrightarrow> accepts token agent' version' now' \<Longrightarrow>
        agent \<noteq> [] \<Longrightarrow> agent' \<noteq> [] \<Longrightarrow> agent = agent' \<and> version = version'"
begin

lemma rotated_version_rejected:
  assumes "issue agent version now uuid = Inr token" and "agent \<noteq> []" and "version' \<noteq> version"
  shows "\<not> accepts token agent version' now'"
  using fresh_accepted [OF assms(1)] one_agent assms(2,3) by blast

lemma other_agent_rejected:
  assumes "issue agent version now uuid = Inr token" and "agent \<noteq> []" and "agent' \<noteq> []" and "agent' \<noteq> agent"
  shows "\<not> accepts token agent' version' now'"
  using fresh_accepted [OF assms(1)] one_agent assms(2-4) by blast

end

definition token_accepted ::
    "mac \<Rightarrow> (string \<Rightarrow> int option) \<Rightarrow> env \<Rightarrow> string \<Rightarrow> string \<Rightarrow> int \<Rightarrow> int \<Rightarrow> bool" where
  "token_accepted hmac conv env token agent_id version now =
     (\<exists>uuid c. verify_agent_access_token hmac conv env token agent_id version now uuid = Inr c)"

lemma validate_claims_uuid:
  "validate_claims conv uuid d = Some c \<Longrightarrow> validate_claims conv uuid' d = Some c' \<Longrightarrow>
   cl_agent_id c = cl_agent_id c' \<and> cl_ver c = cl_ver c'"
  by (auto simp: validate_claims_def split: pyval.splits option.splits if_splits)

interpretation jwt: token_service
  "issue_agent_access_token hmac env" "token_accepted hmac conv env" for hmac conv env
proof
  fix agent version now uuid
  show "\<exists>token. issue_agent_access_token hmac env agent version now uuid = Inr token"
    using issue_total by blast
next
  fix agent version now uuid token
  assume "issue_agent_access_token hmac env agent version now uuid = Inr token"
  moreover have "\<not> now + ttl < now" if "get_agent_jwt_ttl_seconds env = Some ttl" for ttl
    using ttl_positive [OF that] by simp
  ultimately have "verify_agent_access_token hmac conv env token agent version now uuid =
      Inr (issued_claims env agent version now uuid)"
    using verify_issued_eq [of hmac env agent version now uuid conv agent version now uuid]
    by (auto split: option.splits)
  then show "token_accepted hmac conv env token agent version now" by (auto simp: token_accepted_def)
next
  fix token agent version now agent' version' now'
  assume a: "token_accepted hmac conv env token agent version now"
    "token_accepted hmac conv env token agent' version' now'" "agent \<noteq> []" "agent' \<noteq> []"
  obtain u c where "verify_agent_jwt hmac conv u token (get_agent_jwt_secret env)
       \<lparr>xp_agent_id = Some agent, xp_version = Some version,
        xp_purpose = Some TOKEN_PURPOSE_AGENT_WS, xp_issuer = Some (get_agent_jwt_issuer env)\<rparr> now = Inr c"
    using a(1) by (auto simp: token_accepted_def verify_agent_access_token_def)
  note 1 = verify_accepts [OF this]
  obtain u' c' where "verify_agent_jwt hmac conv u' token (get_agent_jwt_secret env)
       \<lparr>xp_agent_id = Some agent', xp_version = Some version',
        xp_purpose = Some TOKEN_PURPOSE_AGENT_WS, xp_issuer = Some (get_agent_jwt_issuer env)\<rparr> now' = Inr c'"
    using a(2) by (auto simp: token_accepted_def verify_agent_access_token_def)
  note 2 = verify_accepts [OF this]
  obtain d where d: "validate_claims conv u d = Some c" "validate_claims conv u' d = Some c'"
    using 1 2 by auto
  have "cl_agent_id c = agent" "cl_ver c = version" "cl_agent_id c' = agent'" "cl_ver c' = version'"
    using 1 2 a(3,4) by (auto simp: check_claims_def split: if_splits)
  then show "agent = agent' \<and> version = version'" using validate_claims_uuid [OF d] by simp
qed

end
