(* ===== verification/Agent_Registry.thy ===== *)
theory Agent_Registry
  imports Server_Settings Agent_JWT
begin

text \<open>
  The registry of agents (\<open>persistence/agent_registry_db.py\<close>): agents, their credentials, deployments,
  releases and update jobs in SQLite, and the authorization of agents by bootstrap token, shared secret
  or signed token.

  Every operation is one statement that is committed at once, so one copy of the tables is enough. A
  statement that breaks a key or, at its end, a foreign key raises \<open>IntegrityError\<close> and changes
  nothing; \<open>ON DELETE CASCADE\<close> removes the dependent rows within the statement. The clock, fresh
  identifiers, SHA-256, HMAC and the environment are arguments.
\<close>

section \<open>Tables\<close>

record agent_cols =
  ag_id :: string
  ag_hostname :: string
  ag_display_name :: string
  ag_status :: string
  ag_connection_status :: string
  ag_current_version :: string
  ag_last_deployment_id :: "string option"
  ag_created_at :: int
  ag_updated_at :: int
  ag_last_seen_at :: "int option"

record agent_row = agent_cols +
  ag_metadata_json :: string

record agent_view = agent_cols +
  av_metadata :: pydict

record credentials_row =
  cr_agent_id :: string
  cr_bootstrap_token_hash :: "string option"
  cr_bootstrap_expires_at :: "int option"
  cr_bootstrap_used_at :: "int option"
  cr_secret_hash :: "string option"
  cr_secret_rotated_at :: "int option"
  cr_token_version :: int
  cr_created_at :: int
  cr_updated_at :: int

record deployment_cols =
  de_id :: string
  de_agent_id :: string
  de_release_id :: "string option"
  de_hostname :: string
  de_requested_by :: string
  de_status :: string
  de_task_id :: "string option"
  de_commit_sha :: string
  de_tag_name :: string
  de_artifact_dir :: string
  de_artifact_exe_path :: string
  de_package_zip_path :: string
  de_bootstrap_path :: string
  de_install_script_path :: string
  de_installer_copy_path :: string
  de_error :: "string option"
  de_build_log :: string
  de_created_at :: int
  de_started_at :: "int option"
  de_completed_at :: "int option"

record deployment_row = deployment_cols +
  de_metadata_json :: string

record deployment_view = deployment_cols +
  dv_metadata :: pydict

record release_cols =
  re_id :: string
  re_version :: string
  re_tag_name :: string
  re_commit_sha :: string
  re_artifact_url :: string
  re_artifact_sha256 :: string
  re_workflow_run_id :: "string option"
  re_created_at :: int
  re_published_at :: "int option"

record release_row = release_cols +
  re_metadata_json :: string

record release_view = release_cols +
  rv_metadata :: pydict

record job_row =
  jo_id :: string
  jo_agent_id :: string
  jo_deployment_id :: "string option"
  jo_from_release_id :: "string option"
  jo_to_release_id :: "string option"
  jo_status :: string
  jo_requested_by :: string
  jo_task_id :: "string option"
  jo_error :: "string option"
  jo_created_at :: int
  jo_started_at :: "int option"
  jo_completed_at :: "int option"

text \<open>\<open>_db\<close> is \<open>None\<close> before \<open>start\<close>; a closed connection raises on every use.\<close>

datatype conn = NotStarted | Live | Closed

record registry =
  reg_conn :: conn
  reg_agents :: "agent_row list"
  reg_credentials :: "credentials_row list"
  reg_deployments :: "deployment_row list"
  reg_releases :: "release_row list"
  reg_jobs :: "job_row list"

definition empty_registry :: registry where
  "empty_registry = \<lparr>reg_conn = NotStarted, reg_agents = [], reg_credentials = [], reg_deployments = [],
     reg_releases = [], reg_jobs = []\<rparr>"

section \<open>Statements\<close>

definition opt_in :: "string option \<Rightarrow> string list \<Rightarrow> bool" where
  "opt_in v ids = (case v of None \<Rightarrow> True | Some i \<Rightarrow> i \<in> set ids)"

definition agent_ids :: "registry \<Rightarrow> string list" where
  "agent_ids db = map ag_id (reg_agents db)"

definition deployment_ids :: "registry \<Rightarrow> string list" where
  "deployment_ids db = map de_id (reg_deployments db)"

definition release_ids :: "registry \<Rightarrow> string list" where
  "release_ids db = map re_id (reg_releases db)"

text \<open>The \<open>REFERENCES\<close> clauses of the schema.\<close>

definition fk_ok :: "registry \<Rightarrow> bool" where
  "fk_ok db \<longleftrightarrow>
     (\<forall>a\<in>set (reg_agents db). opt_in (ag_last_deployment_id a) (deployment_ids db)) \<and>
     (\<forall>c\<in>set (reg_credentials db). cr_agent_id c \<in> set (agent_ids db)) \<and>
     (\<forall>d\<in>set (reg_deployments db).
        de_agent_id d \<in> set (agent_ids db) \<and> opt_in (de_release_id d) (release_ids db)) \<and>
     (\<forall>j\<in>set (reg_jobs db).
        jo_agent_id j \<in> set (agent_ids db) \<and> opt_in (jo_deployment_id j) (deployment_ids db) \<and>
        opt_in (jo_from_release_id j) (release_ids db) \<and> opt_in (jo_to_release_id j) (release_ids db))"

definition exec_stmt :: "(registry \<Rightarrow> registry) \<Rightarrow> (registry, unit) prog" where
  "exec_stmt f db =
     (if fk_ok (f db) then (f db, Inr ())
      else (db, Inl (IntegrityError ''FOREIGN KEY constraint failed'')))"

definition with_db :: "'a \<Rightarrow> (registry, 'a) prog \<Rightarrow> (registry, 'a) prog" where
  "with_db dflt m db =
     (case reg_conn db of
        NotStarted \<Rightarrow> (db, Inr dflt)
      | Live \<Rightarrow> m db
      | Closed \<Rightarrow> (db, Inl (ValueError ''no active connection'')))"

definition query_db :: "'a \<Rightarrow> (registry \<Rightarrow> 'a) \<Rightarrow> registry \<Rightarrow> 'a result" where
  "query_db dflt f db =
     (case reg_conn db of
        NotStarted \<Rightarrow> Inr dflt
      | Live \<Rightarrow> Inr (f db)
      | Closed \<Rightarrow> Inl (ValueError ''no active connection''))"

text \<open>\<open>INSERT ... ON CONFLICT(key) DO UPDATE\<close> with one row.\<close>

definition upsert_by :: "('r \<Rightarrow> string) \<Rightarrow> 'r \<Rightarrow> ('r \<Rightarrow> 'r) \<Rightarrow> 'r list \<Rightarrow> 'r list" where
  "upsert_by key row upd rows =
     (if \<exists>r\<in>set rows. key r = key row then update_where (\<lambda>r. key r = key row) upd rows else rows @ [row])"

text \<open>\<open>ORDER BY published_at DESC, created_at DESC\<close>: \<open>NULL\<close> is the smallest value.\<close>

definition order_desc_opt :: "('r \<Rightarrow> int option) \<Rightarrow> 'r list \<Rightarrow> 'r list" where
  "order_desc_opt key rows =
     order_desc (\<lambda>r. case key r of None \<Rightarrow> 0 | Some t \<Rightarrow> t) (filter (\<lambda>r. key r \<noteq> None) rows)
     @ filter (\<lambda>r. key r = None) rows"

definition order_asc :: "('r \<Rightarrow> int) \<Rightarrow> 'r list \<Rightarrow> 'r list" where
  "order_asc key rows = sort_key key rows"

definition head_opt :: "'r list \<Rightarrow> 'r option" where
  "head_opt rows = (case rows of [] \<Rightarrow> None | r # _ \<Rightarrow> Some r)"

section \<open>Metadata and hashes\<close>

definition serialize_metadata :: "pydict option \<Rightarrow> string" where
  "serialize_metadata metadata = json_dumps (PDict (the_or metadata []))"

definition deserialize_metadata :: "string \<Rightarrow> pydict" where
  "deserialize_metadata value =
     (if value = [] then []
      else (case json_loads value of Some (PDict d) \<Rightarrow> d | _ \<Rightarrow> []))"

text \<open>\<open>_merge_metadata\<close> recurses on the dictionaries both sides have, as \<open>_deep_merge\<close> does.\<close>

definition merge_metadata :: "pydict option \<Rightarrow> pydict option \<Rightarrow> pydict" where
  "merge_metadata existing incoming = deep_merge (the_or existing []) (the_or incoming [])"

text \<open>What the authorization uses from outside: HMAC, the integer conversion of pydantic, the
  environment, \<open>hash_token\<close> (SHA-256 in hexadecimal) and the recovery window.\<close>

record auth_ctx =
  ax_hmac :: mac
  ax_conv :: "string \<Rightarrow> int option"
  ax_env :: env
  ax_hash_token :: "string \<Rightarrow> string"
  ax_window :: int

definition bootstrap_recovery_window :: "env \<Rightarrow> int result" where
  "bootstrap_recovery_window env =
     py_int (PStr (the_or (env ''VM_AGENT_BOOTSTRAP_RECOVERY_WINDOW_SECONDS'') (str_int (24 * 60 * 60))))"

section \<open>Connection\<close>

definition reg_start :: "registry \<Rightarrow> registry" where
  "reg_start db = db\<lparr>reg_conn := Live\<rparr>"

definition reg_stop :: "registry \<Rightarrow> registry" where
  "reg_stop db = (if reg_conn db = NotStarted then db else db\<lparr>reg_conn := Closed\<rparr>)"

section \<open>Agents\<close>

definition map_agent_row :: "agent_row \<Rightarrow> agent_view" where
  "map_agent_row r =
     \<lparr>ag_id = ag_id r, ag_hostname = ag_hostname r, ag_display_name = ag_display_name r,
      ag_status = ag_status r, ag_connection_status = ag_connection_status r,
      ag_current_version = ag_current_version r, ag_last_deployment_id = ag_last_deployment_id r,
      ag_created_at = ag_created_at r, ag_updated_at = ag_updated_at r,
      ag_last_seen_at = ag_last_seen_at r, av_metadata = deserialize_metadata (ag_metadata_json r)\<rparr>"

definition find_agent :: "string \<Rightarrow> registry \<Rightarrow> agent_view option" where
  "find_agent agent_id db = map_option map_agent_row (find (\<lambda>r. ag_id r = agent_id) (reg_agents db))"

definition get_agent :: "string \<Rightarrow> registry \<Rightarrow> agent_view option result" where
  "get_agent agent_id = query_db None (find_agent agent_id)"

definition get_agents :: "int \<Rightarrow> registry \<Rightarrow> agent_view list result" where
  "get_agents lim =
     query_db [] (\<lambda>db. map map_agent_row (limit lim (order_desc ag_updated_at (reg_agents db))))"

text \<open>The keyword arguments of \<open>upsert_agent\<close>.\<close>

record agent_upsert =
  up_hostname :: string
  up_display_name :: string
  up_status :: "string option"
  up_connection_status :: "string option"
  up_metadata :: "pydict option"
  up_last_seen_at :: "int option"
  up_current_version :: "string option"
  up_last_deployment_id :: "string option"

definition no_upsert :: agent_upsert where
  "no_upsert = \<lparr>up_hostname = [], up_display_name = [], up_status = None, up_connection_status = None,
     up_metadata = None, up_last_seen_at = None, up_current_version = None, up_last_deployment_id = None\<rparr>"

definition upsert_row :: "int \<Rightarrow> string \<Rightarrow> agent_upsert \<Rightarrow> agent_view option \<Rightarrow> agent_row" where
  "upsert_row now agent_id up existing =
     (let old = (\<lambda>f dflt. case existing of None \<Rightarrow> dflt | Some v \<Rightarrow> f v) in
      \<lparr>ag_id = agent_id,
       ag_hostname = str_or (up_hostname up) (old ag_hostname []),
       ag_display_name = str_or (up_display_name up) (old ag_display_name []),
       ag_status = ostr_or (up_status up) (old ag_status ''registered''),
       ag_connection_status = ostr_or (up_connection_status up) (old ag_connection_status ''offline''),
       ag_current_version = ostr_or (up_current_version up) (old ag_current_version []),
       ag_last_deployment_id =
         (if the_or (up_last_deployment_id up) [] \<noteq> [] then up_last_deployment_id up
          else (case existing of None \<Rightarrow> None | Some v \<Rightarrow> ag_last_deployment_id v)),
       ag_created_at = (case existing of None \<Rightarrow> now | Some v \<Rightarrow> ag_created_at v),
       ag_updated_at = now,
       ag_last_seen_at =
         (if up_last_seen_at up \<noteq> None then up_last_seen_at up
          else (case existing of None \<Rightarrow> None | Some v \<Rightarrow> ag_last_seen_at v)),
       ag_metadata_json = serialize_metadata (Some (merge_metadata
         (Some (case existing of None \<Rightarrow> [] | Some v \<Rightarrow> av_metadata v)) (up_metadata up)))\<rparr>)"

definition upsert_agent :: "int \<Rightarrow> string \<Rightarrow> agent_upsert \<Rightarrow> (registry, unit) prog" where
  "upsert_agent now agent_id up =
     with_db () (\<lambda>db.
       (let row = upsert_row now agent_id up (find_agent agent_id db)
        in exec_stmt (\<lambda>db. db\<lparr>reg_agents := upsert_by ag_id row
             (\<lambda>r. row\<lparr>ag_created_at := ag_created_at r\<rparr>) (reg_agents db)\<rparr>) db))"

definition delete_agent :: "string \<Rightarrow> (registry, unit) prog" where
  "delete_agent agent_id =
     with_db () (exec_stmt (\<lambda>db. db
       \<lparr>reg_agents := filter (\<lambda>r. ag_id r \<noteq> agent_id) (reg_agents db),
        reg_credentials := filter (\<lambda>r. cr_agent_id r \<noteq> agent_id) (reg_credentials db),
        reg_deployments := filter (\<lambda>r. de_agent_id r \<noteq> agent_id) (reg_deployments db),
        reg_jobs := filter (\<lambda>r. jo_agent_id r \<noteq> agent_id) (reg_jobs db)\<rparr>))"

section \<open>Credentials\<close>

definition find_credentials :: "string \<Rightarrow> registry \<Rightarrow> credentials_row option" where
  "find_credentials agent_id db = find (\<lambda>r. cr_agent_id r = agent_id) (reg_credentials db)"

definition get_agent_credentials :: "string \<Rightarrow> registry \<Rightarrow> credentials_row option result" where
  "get_agent_credentials agent_id = query_db None (find_credentials agent_id)"

definition blank_credentials :: "string \<Rightarrow> int \<Rightarrow> credentials_row" where
  "blank_credentials agent_id now =
     \<lparr>cr_agent_id = agent_id, cr_bootstrap_token_hash = None, cr_bootstrap_expires_at = None,
      cr_bootstrap_used_at = None, cr_secret_hash = None, cr_secret_rotated_at = None,
      cr_token_version = 0, cr_created_at = now, cr_updated_at = now\<rparr>"

definition set_bootstrap_token :: "int \<Rightarrow> string \<Rightarrow> string \<Rightarrow> int \<Rightarrow> (registry, unit) prog" where
  "set_bootstrap_token now agent_id token_hash expires_at =
     with_db () (exec_stmt (\<lambda>db. db\<lparr>reg_credentials :=
       upsert_by cr_agent_id
         ((blank_credentials agent_id now)
            \<lparr>cr_bootstrap_token_hash := Some token_hash, cr_bootstrap_expires_at := Some expires_at\<rparr>)
         (\<lambda>r. r\<lparr>cr_bootstrap_token_hash := Some token_hash, cr_bootstrap_expires_at := Some expires_at,
               cr_bootstrap_used_at := None, cr_updated_at := now\<rparr>)
         (reg_credentials db)\<rparr>))"

record rotation =
  ro_agent_id :: string
  ro_token_version :: int
  ro_rotated_at :: int

definition rotate_agent_token_version :: "int \<Rightarrow> string \<Rightarrow> (registry, rotation option) prog" where
  "rotate_agent_token_version now agent_id =
     with_db None (\<lambda>db.
       (case find_agent agent_id db of
          None \<Rightarrow> (db, Inr None)
        | Some _ \<Rightarrow>
            (let version = (case find_credentials agent_id db of None \<Rightarrow> 0 | Some c \<Rightarrow> cr_token_version c);
                 next_version = max version 0 + 1
             in bindP (exec_stmt (\<lambda>db. db\<lparr>reg_credentials :=
                  upsert_by cr_agent_id
                    ((blank_credentials agent_id now)
                       \<lparr>cr_token_version := next_version, cr_secret_rotated_at := Some now\<rparr>)
                    (\<lambda>r. r\<lparr>cr_secret_hash := None, cr_token_version := next_version,
                          cr_secret_rotated_at := Some now, cr_updated_at := now\<rparr>)
                    (reg_credentials db)\<rparr>))
                  (\<lambda>_. retP (Some \<lparr>ro_agent_id = agent_id, ro_token_version = next_version,
                                   ro_rotated_at = now\<rparr>)) db)))"

section \<open>Authorization\<close>

datatype authorization = Authorized string "string option" | Refused string

definition update_credentials ::
    "string \<Rightarrow> (credentials_row \<Rightarrow> credentials_row) \<Rightarrow> (registry, unit) prog" where
  "update_credentials agent_id f =
     exec_stmt (\<lambda>db. db\<lparr>reg_credentials := update_where (\<lambda>r. cr_agent_id r = agent_id) f (reg_credentials db)\<rparr>)"

text \<open>The first use of a token issued for the bootstrap token closes the bootstrap.\<close>

definition mark_bootstrap_used :: "int \<Rightarrow> credentials_row \<Rightarrow> (registry, unit) prog" where
  "mark_bootstrap_used now c db =
     (if truthy (opt_int (cr_bootstrap_used_at c)) then (db, Inr ())
      else update_credentials (cr_agent_id c)
             (\<lambda>r. r\<lparr>cr_bootstrap_used_at := Some now, cr_updated_at := now\<rparr>) db)"

definition issue_next_token ::
    "auth_ctx \<Rightarrow> int \<Rightarrow> string \<Rightarrow> credentials_row \<Rightarrow> int \<Rightarrow> string \<Rightarrow> (registry, authorization) prog" where
  "issue_next_token ax now uuid c next_version mode =
     (case issue_agent_access_token (ax_hmac ax) (ax_env ax) (cr_agent_id c) next_version now uuid of
        Inl e \<Rightarrow> raiseP e
      | Inr secret \<Rightarrow>
          bindP (update_credentials (cr_agent_id c)
                   (\<lambda>r. r\<lparr>cr_secret_hash := None, cr_secret_rotated_at := Some now,
                         cr_token_version := next_version, cr_updated_at := now\<rparr>))
                (\<lambda>_. retP (Authorized mode (Some secret))))"

definition bootstrap_matches :: "auth_ctx \<Rightarrow> string \<Rightarrow> credentials_row \<Rightarrow> bool" where
  "bootstrap_matches ax token c =
     (the_or (cr_bootstrap_token_hash c) [] \<noteq> [] \<and> cr_bootstrap_token_hash c = Some (ax_hash_token ax token))"

definition bootstrap_used :: "credentials_row \<Rightarrow> bool" where
  "bootstrap_used c = truthy (opt_int (cr_bootstrap_used_at c))"

definition recovery_open :: "auth_ctx \<Rightarrow> int \<Rightarrow> credentials_row \<Rightarrow> bool" where
  "recovery_open ax now c =
     (case cr_secret_rotated_at c of None \<Rightarrow> False | Some t \<Rightarrow> t \<noteq> 0 \<and> now - t \<le> ax_window ax)"

text \<open>A signed token, and a secret or the bootstrap token.\<close>

definition authorize_jwt ::
    "auth_ctx \<Rightarrow> int \<Rightarrow> string \<Rightarrow> string \<Rightarrow> credentials_row \<Rightarrow> string \<Rightarrow> (registry, authorization) prog"
  where
  "authorize_jwt ax now uuid agent_id c t db =
     (if cr_token_version c \<le> 0 then (db, Inr (Refused ''invalid bearer token''))
      else
        (case verify_agent_access_token (ax_hmac ax) (ax_conv ax) (ax_env ax) t agent_id
                (cr_token_version c) now uuid of
           Inr _ \<Rightarrow> bindP (mark_bootstrap_used now c) (\<lambda>_. retP (Authorized ''jwt'' None)) db
         | Inl (ValueError _) \<Rightarrow> (db, Inr (Refused ''invalid bearer token''))
         | Inl e \<Rightarrow> (db, Inl e)))"

definition authorize_opaque ::
    "auth_ctx \<Rightarrow> int \<Rightarrow> string \<Rightarrow> credentials_row \<Rightarrow> string \<Rightarrow> (registry, authorization) prog" where
  "authorize_opaque ax now uuid c t db =
     (if the_or (cr_secret_hash c) [] \<noteq> [] \<and> cr_secret_hash c = Some (ax_hash_token ax t) then
        bindP (mark_bootstrap_used now c) (\<lambda>_. retP (Authorized ''secret'' None)) db
      else if bootstrap_matches ax t c \<and> \<not> bootstrap_used c \<and>
           (case cr_bootstrap_expires_at c of None \<Rightarrow> True | Some e \<Rightarrow> e \<ge> now) then
        issue_next_token ax now uuid c (max (cr_token_version c) 0 + 1) ''bootstrap'' db
      else if bootstrap_matches ax t c \<and> bootstrap_used c \<and> cr_token_version c > 0 \<and>
           recovery_open ax now c then
        issue_next_token ax now uuid c (cr_token_version c + 1) ''bootstrap-recovery'' db
      else if the_or (cr_bootstrap_token_hash c) [] \<noteq> [] \<and>
           (case cr_bootstrap_expires_at c of None \<Rightarrow> False | Some e \<Rightarrow> e \<noteq> 0 \<and> e < now) \<and>
           \<not> bootstrap_used c then
        (db, Inr (Refused ''bootstrap token expired''))
      else if bootstrap_matches ax t c \<and> bootstrap_used c then
        (db, Inr (Refused ''bootstrap token already used''))
      else (db, Inr (Refused ''invalid bearer token'')))"

definition authorize_agent ::
    "auth_ctx \<Rightarrow> int \<Rightarrow> string \<Rightarrow> string \<Rightarrow> string option \<Rightarrow> (registry, authorization) prog" where
  "authorize_agent ax now uuid agent_id token db =
     (case get_agent_credentials agent_id db of
        Inl e \<Rightarrow> (db, Inl e)
      | Inr None \<Rightarrow> (db, Inr (Authorized ''legacy'' None))
      | Inr (Some c) \<Rightarrow>
          if the_or token [] = [] then
            (db, Inr (if the_or (cr_bootstrap_token_hash c) [] \<noteq> [] \<or> the_or (cr_secret_hash c) [] \<noteq> [] \<or>
                         cr_token_version c > 0
                      then Refused ''missing bearer token'' else Authorized ''legacy'' None))
          else if looks_like_jwt token then authorize_jwt ax now uuid agent_id c (the_or token []) db
          else authorize_opaque ax now uuid c (the_or token []) db)"

section \<open>Deployments\<close>

definition map_deployment_row :: "deployment_row \<Rightarrow> deployment_view" where
  "map_deployment_row r =
     \<lparr>de_id = de_id r, de_agent_id = de_agent_id r, de_release_id = de_release_id r,
      de_hostname = de_hostname r, de_requested_by = de_requested_by r, de_status = de_status r,
      de_task_id = de_task_id r, de_commit_sha = de_commit_sha r, de_tag_name = de_tag_name r,
      de_artifact_dir = de_artifact_dir r, de_artifact_exe_path = de_artifact_exe_path r,
      de_package_zip_path = de_package_zip_path r, de_bootstrap_path = de_bootstrap_path r,
      de_install_script_path = de_install_script_path r,
      de_installer_copy_path = de_installer_copy_path r, de_error = de_error r,
      de_build_log = de_build_log r, de_created_at = de_created_at r, de_started_at = de_started_at r,
      de_completed_at = de_completed_at r, dv_metadata = deserialize_metadata (de_metadata_json r)\<rparr>"

definition find_deployment :: "string \<Rightarrow> registry \<Rightarrow> deployment_view option" where
  "find_deployment deployment_id db =
     map_option map_deployment_row (find (\<lambda>r. de_id r = deployment_id) (reg_deployments db))"

definition get_deployment :: "string \<Rightarrow> registry \<Rightarrow> deployment_view option result" where
  "get_deployment deployment_id = query_db None (find_deployment deployment_id)"

definition get_deployments :: "string option \<Rightarrow> int \<Rightarrow> registry \<Rightarrow> deployment_view list result" where
  "get_deployments agent_id lim =
     query_db [] (\<lambda>db. map map_deployment_row (limit lim (order_desc de_created_at
       (filter (\<lambda>r. the_or agent_id [] = [] \<or> Some (de_agent_id r) = agent_id) (reg_deployments db)))))"

definition active_status :: "string \<Rightarrow> bool" where
  "active_status s = (s \<in> {''queued'', ''building'', ''preparing''})"

definition get_active_deployments :: "registry \<Rightarrow> deployment_view list result" where
  "get_active_deployments =
     query_db [] (\<lambda>db. map map_deployment_row (order_asc de_created_at
       (filter (\<lambda>r. active_status (de_status r)) (reg_deployments db))))"

definition get_active_deployment :: "registry \<Rightarrow> deployment_view option result" where
  "get_active_deployment =
     query_db None (\<lambda>db. head_opt (map map_deployment_row (limit 1 (order_asc de_created_at
       (filter (\<lambda>r. active_status (de_status r)) (reg_deployments db))))))"

definition latest_deployment :: "string \<Rightarrow> registry \<Rightarrow> deployment_view option" where
  "latest_deployment agent_id db =
     head_opt (map map_deployment_row (limit 1 (order_desc de_created_at
       (filter (\<lambda>r. de_agent_id r = agent_id) (reg_deployments db)))))"

definition get_latest_deployment_for_agent :: "string \<Rightarrow> registry \<Rightarrow> deployment_view option result" where
  "get_latest_deployment_for_agent agent_id = query_db None (latest_deployment agent_id)"

definition get_expected_hostname_for_agent :: "string \<Rightarrow> registry \<Rightarrow> string result" where
  "get_expected_hostname_for_agent agent_id db =
     bindE (get_agent agent_id db) (\<lambda>agent.
       (let hostname = strip (case agent of None \<Rightarrow> [] | Some v \<Rightarrow> ag_hostname v)
        in if hostname \<noteq> [] then Inr hostname
           else bindE (get_latest_deployment_for_agent agent_id db) (\<lambda>deployment.
             Inr (strip (case deployment of None \<Rightarrow> [] | Some v \<Rightarrow> de_hostname v)))))"

definition deployment_insert_row ::
    "int \<Rightarrow> string \<Rightarrow> string \<Rightarrow> string \<Rightarrow> string \<Rightarrow> string \<Rightarrow> string option \<Rightarrow> pydict option \<Rightarrow> deployment_row"
  where
  "deployment_insert_row now deployment_id agent_id hostname requested_by task_id release_id metadata =
     \<lparr>de_id = deployment_id, de_agent_id = agent_id, de_release_id = release_id, de_hostname = hostname,
      de_requested_by = requested_by, de_status = ''queued'', de_task_id = Some task_id,
      de_commit_sha = [], de_tag_name = [], de_artifact_dir = [], de_artifact_exe_path = [],
      de_package_zip_path = [], de_bootstrap_path = [], de_install_script_path = [],
      de_installer_copy_path = [], de_error = None, de_build_log = [], de_created_at = now,
      de_started_at = None, de_completed_at = None, de_metadata_json = serialize_metadata metadata\<rparr>"

text \<open>\<open>now'\<close> is the clock of the \<open>upsert_agent\<close> that follows the insertion.\<close>

definition create_deployment ::
    "int \<Rightarrow> int \<Rightarrow> string \<Rightarrow> string \<Rightarrow> string \<Rightarrow> string \<Rightarrow> string \<Rightarrow> string option \<Rightarrow> pydict option
     \<Rightarrow> (registry, unit) prog" where
  "create_deployment now now' deployment_id agent_id hostname requested_by task_id release_id metadata =
     with_db () (bindP
       (\<lambda>db. if deployment_id \<in> set (deployment_ids db)
             then (db, Inl (IntegrityError ''UNIQUE constraint failed: agent_deployments.id''))
             else exec_stmt (\<lambda>db. db\<lparr>reg_deployments := reg_deployments db @
               [deployment_insert_row now deployment_id agent_id hostname requested_by task_id release_id
                  metadata]\<rparr>) db)
       (\<lambda>_. upsert_agent now' agent_id
          (no_upsert\<lparr>up_hostname := hostname, up_last_deployment_id := Some deployment_id\<rparr>)))"

text \<open>The keyword arguments of \<open>update_deployment\<close>; \<open>None\<close> leaves a column alone.\<close>

record deployment_update =
  du_status :: "string option"
  du_task_id :: "string option"
  du_release_id :: "string option"
  du_commit_sha :: "string option"
  du_tag_name :: "string option"
  du_artifact_dir :: "string option"
  du_artifact_exe_path :: "string option"
  du_package_zip_path :: "string option"
  du_bootstrap_path :: "string option"
  du_install_script_path :: "string option"
  du_installer_copy_path :: "string option"
  du_error :: "string option"
  du_build_log :: "string option"
  du_started_at :: "int option"
  du_completed_at :: "int option"
  du_metadata :: "pydict option"

definition no_update :: deployment_update where
  "no_update = \<lparr>du_status = None, du_task_id = None, du_release_id = None, du_commit_sha = None,
     du_tag_name = None, du_artifact_dir = None, du_artifact_exe_path = None, du_package_zip_path = None,
     du_bootstrap_path = None, du_install_script_path = None, du_installer_copy_path = None,
     du_error = None, du_build_log = None, du_started_at = None, du_completed_at = None,
     du_metadata = None\<rparr>"

definition opt_set :: "'a option \<Rightarrow> 'a option \<Rightarrow> 'a option" where
  "opt_set new old = (if new = None then old else new)"

definition apply_deployment_update :: "deployment_update \<Rightarrow> string option \<Rightarrow> deployment_row \<Rightarrow> deployment_row" where
  "apply_deployment_update u metadata_json r =
     r\<lparr>de_status := the_or (du_status u) (de_status r), de_task_id := opt_set (du_task_id u) (de_task_id r),
       de_release_id := opt_set (du_release_id u) (de_release_id r),
       de_commit_sha := the_or (du_commit_sha u) (de_commit_sha r),
       de_tag_name := the_or (du_tag_name u) (de_tag_name r),
       de_artifact_dir := the_or (du_artifact_dir u) (de_artifact_dir r),
       de_artifact_exe_path := the_or (du_artifact_exe_path u) (de_artifact_exe_path r),
       de_package_zip_path := the_or (du_package_zip_path u) (de_package_zip_path r),
       de_bootstrap_path := the_or (du_bootstrap_path u) (de_bootstrap_path r),
       de_install_script_path := the_or (du_install_script_path u) (de_install_script_path r),
       de_installer_copy_path := the_or (du_installer_copy_path u) (de_installer_copy_path r),
       de_error := opt_set (du_error u) (de_error r),
       de_build_log := the_or (du_build_log u) (de_build_log r),
       de_started_at := opt_set (du_started_at u) (de_started_at r),
       de_completed_at := opt_set (du_completed_at u) (de_completed_at r),
       de_metadata_json := the_or metadata_json (de_metadata_json r)\<rparr>"

definition update_deployment :: "string \<Rightarrow> deployment_update \<Rightarrow> (registry, unit) prog" where
  "update_deployment deployment_id u =
     with_db () (\<lambda>db.
       (let metadata_json = map_option (\<lambda>m. serialize_metadata (Some (merge_metadata
              (Some (case find_deployment deployment_id db of None \<Rightarrow> [] | Some v \<Rightarrow> dv_metadata v))
              (Some m)))) (du_metadata u)
        in if u = no_update then (db, Inr ())
           else exec_stmt (\<lambda>db. db\<lparr>reg_deployments :=
             update_where (\<lambda>r. de_id r = deployment_id) (apply_deployment_update u metadata_json)
               (reg_deployments db)\<rparr>) db))"

section \<open>Releases\<close>

definition map_release_row :: "release_row \<Rightarrow> release_view" where
  "map_release_row r =
     \<lparr>re_id = re_id r, re_version = re_version r, re_tag_name = re_tag_name r,
      re_commit_sha = re_commit_sha r, re_artifact_url = re_artifact_url r,
      re_artifact_sha256 = re_artifact_sha256 r, re_workflow_run_id = re_workflow_run_id r,
      re_created_at = re_created_at r, re_published_at = re_published_at r,
      rv_metadata = deserialize_metadata (re_metadata_json r)\<rparr>"

definition order_releases :: "release_row list \<Rightarrow> release_row list" where
  "order_releases rows = order_desc_opt re_published_at (order_desc re_created_at rows)"

definition find_release :: "string \<Rightarrow> registry \<Rightarrow> release_view option" where
  "find_release release_id db =
     map_option map_release_row (find (\<lambda>r. re_id r = release_id) (reg_releases db))"

definition find_release_by :: "(release_row \<Rightarrow> bool) \<Rightarrow> registry \<Rightarrow> release_view option" where
  "find_release_by p db = head_opt (map map_release_row (limit 1 (order_releases (filter p (reg_releases db)))))"

definition get_release :: "string \<Rightarrow> registry \<Rightarrow> release_view option result" where
  "get_release release_id = query_db None (find_release release_id)"

definition get_release_by_version :: "string \<Rightarrow> registry \<Rightarrow> release_view option result" where
  "get_release_by_version version = query_db None (find_release_by (\<lambda>r. re_version r = version))"

definition get_release_by_tag :: "string \<Rightarrow> registry \<Rightarrow> release_view option result" where
  "get_release_by_tag tag_name = query_db None (find_release_by (\<lambda>r. re_tag_name r = tag_name))"

definition get_latest_release :: "registry \<Rightarrow> release_view option result" where
  "get_latest_release = query_db None (find_release_by (\<lambda>r. True))"

definition get_releases :: "int \<Rightarrow> registry \<Rightarrow> release_view list result" where
  "get_releases lim = query_db [] (\<lambda>db. map map_release_row (limit lim (order_releases (reg_releases db))))"

record release_source =
  rs_version :: string
  rs_commit_sha :: string
  rs_artifact_url :: string
  rs_artifact_sha256 :: string
  rs_tag_name :: string
  rs_workflow_run_id :: "string option"
  rs_published_at :: "int option"
  rs_metadata :: "pydict option"
  rs_release_id :: "string option"

text \<open>The release a source belongs to: by its identifier, by its tag, by its version.\<close>

definition existing_release :: "release_source \<Rightarrow> registry \<Rightarrow> release_view option" where
  "existing_release src db =
     (let by_id = (if the_or (rs_release_id src) [] \<noteq> [] then find_release (the_or (rs_release_id src) []) db
                   else None);
          by_tag = (if by_id = None \<and> rs_tag_name src \<noteq> []
                    then find_release_by (\<lambda>r. re_tag_name r = rs_tag_name src) db else by_id)
      in if by_tag = None then find_release_by (\<lambda>r. re_version r = rs_version src) db else by_tag)"

definition upsert_release_from_source ::
    "int \<Rightarrow> string \<Rightarrow> release_source \<Rightarrow> (registry, release_view option) prog" where
  "upsert_release_from_source now uuid src =
     with_db None (\<lambda>db.
       (let existing = existing_release src db;
            resolved = ostr_or (rs_release_id src)
              (str_or (case existing of None \<Rightarrow> [] | Some v \<Rightarrow> re_id v) uuid);
            created_at = (case existing of None \<Rightarrow> now
                          | Some v \<Rightarrow> if re_created_at v \<noteq> 0 then re_created_at v else now);
            row = \<lparr>re_id = resolved, re_version = rs_version src, re_tag_name = rs_tag_name src,
                   re_commit_sha = rs_commit_sha src, re_artifact_url = rs_artifact_url src,
                   re_artifact_sha256 = rs_artifact_sha256 src,
                   re_workflow_run_id = rs_workflow_run_id src, re_created_at = created_at,
                   re_published_at = rs_published_at src,
                   re_metadata_json = serialize_metadata (Some (merge_metadata
                     (Some (case existing of None \<Rightarrow> [] | Some v \<Rightarrow> rv_metadata v)) (rs_metadata src)))\<rparr>
        in bindP (exec_stmt (\<lambda>db. db\<lparr>reg_releases :=
             upsert_by re_id row (\<lambda>r. row\<lparr>re_created_at := re_created_at r\<rparr>) (reg_releases db)\<rparr>))
             (\<lambda>_ db. (db, Inr (find_release resolved db))) db))"

section \<open>Update jobs\<close>

definition find_job :: "string \<Rightarrow> registry \<Rightarrow> job_row option" where
  "find_job job_id db = find (\<lambda>r. jo_id r = job_id) (reg_jobs db)"

definition get_update_job :: "string \<Rightarrow> registry \<Rightarrow> job_row option result" where
  "get_update_job job_id = query_db None (find_job job_id)"

definition get_update_jobs :: "string option \<Rightarrow> int \<Rightarrow> registry \<Rightarrow> job_row list result" where
  "get_update_jobs agent_id lim =
     query_db [] (\<lambda>db. limit lim (order_desc jo_created_at
       (filter (\<lambda>r. the_or agent_id [] = [] \<or> Some (jo_agent_id r) = agent_id) (reg_jobs db))))"

record job_request =
  jq_agent_id :: string
  jq_requested_by :: string
  jq_deployment_id :: "string option"
  jq_from_release_id :: "string option"
  jq_to_release_id :: "string option"
  jq_task_id :: "string option"
  jq_status :: string
  jq_error :: "string option"
  jq_job_id :: "string option"

definition create_update_job ::
    "int \<Rightarrow> string \<Rightarrow> job_request \<Rightarrow> (registry, job_row option) prog" where
  "create_update_job now uuid q =
     with_db None (\<lambda>db.
       (let resolved = ostr_or (jq_job_id q) uuid;
            row = \<lparr>jo_id = resolved, jo_agent_id = jq_agent_id q, jo_deployment_id = jq_deployment_id q,
                   jo_from_release_id = jq_from_release_id q, jo_to_release_id = jq_to_release_id q,
                   jo_status = jq_status q, jo_requested_by = jq_requested_by q, jo_task_id = jq_task_id q,
                   jo_error = jq_error q, jo_created_at = now, jo_started_at = None,
                   jo_completed_at = None\<rparr>
        in if find_job resolved db \<noteq> None
           then (db, Inl (IntegrityError ''UNIQUE constraint failed: agent_update_jobs.id''))
           else bindP (exec_stmt (\<lambda>db. db\<lparr>reg_jobs := reg_jobs db @ [row]\<rparr>))
                  (\<lambda>_ db. (db, Inr (find_job resolved db))) db))"

record job_update =
  ju_deployment_id :: "string option"
  ju_from_release_id :: "string option"
  ju_to_release_id :: "string option"
  ju_status :: "string option"
  ju_requested_by :: "string option"
  ju_task_id :: "string option"
  ju_error :: "string option"
  ju_started_at :: "int option"
  ju_completed_at :: "int option"

definition no_job_update :: job_update where
  "no_job_update = \<lparr>ju_deployment_id = None, ju_from_release_id = None, ju_to_release_id = None,
     ju_status = None, ju_requested_by = None, ju_task_id = None, ju_error = None, ju_started_at = None,
     ju_completed_at = None\<rparr>"

definition apply_job_update :: "job_update \<Rightarrow> job_row \<Rightarrow> job_row" where
  "apply_job_update u r =
     r\<lparr>jo_deployment_id := opt_set (ju_deployment_id u) (jo_deployment_id r),
       jo_from_release_id := opt_set (ju_from_release_id u) (jo_from_release_id r),
       jo_to_release_id := opt_set (ju_to_release_id u) (jo_to_release_id r),
       jo_status := the_or (ju_status u) (jo_status r),
       jo_requested_by := the_or (ju_requested_by u) (jo_requested_by r),
       jo_task_id := opt_set (ju_task_id u) (jo_task_id r), jo_error := opt_set (ju_error u) (jo_error r),
       jo_started_at := opt_set (ju_started_at u) (jo_started_at r),
       jo_completed_at := opt_set (ju_completed_at u) (jo_completed_at r)\<rparr>"

definition update_update_job :: "string \<Rightarrow> job_update \<Rightarrow> (registry, unit) prog" where
  "update_update_job job_id u =
     with_db () (\<lambda>db. if u = no_job_update then (db, Inr ())
       else exec_stmt (\<lambda>db. db\<lparr>reg_jobs := update_where (\<lambda>r. jo_id r = job_id) (apply_job_update u)
              (reg_jobs db)\<rparr>) db)"

section \<open>Migration of an older database\<close>

text \<open>
  A table as SQLite sees it: its columns and its rows, each row a dictionary. \<open>_ensure_column\<close> adds a
  missing column with its default. A deployments table with the columns \<open>repo_url\<close> or \<open>source_ref\<close> is
  copied into the new table, which has no other columns than those of the schema; a \<open>NULL\<close> in a
  column that must not be null stops the copy.
\<close>

record raw_table =
  rt_columns :: "string list"
  rt_rows :: "pydict list"

definition ensure_column :: "string \<Rightarrow> pyval \<Rightarrow> raw_table \<Rightarrow> raw_table" where
  "ensure_column column dflt t =
     (if column \<in> set (rt_columns t) then t
      else t\<lparr>rt_columns := rt_columns t @ [column], rt_rows := map (\<lambda>r. r @ [(column, dflt)]) (rt_rows t)\<rparr>)"

definition DESIRED_COLUMNS :: "(string \<times> pyval) list" where
  "DESIRED_COLUMNS =
     [(''id'', PNone), (''agent_id'', PNone), (''release_id'', PNone), (''hostname'', PNone),
      (''requested_by'', PNone), (''status'', PNone), (''task_id'', PNone), (''commit_sha'', PStr []),
      (''tag_name'', PStr []), (''artifact_dir'', PStr []), (''artifact_exe_path'', PStr []),
      (''package_zip_path'', PStr []), (''bootstrap_path'', PStr []), (''install_script_path'', PStr []),
      (''installer_copy_path'', PStr []), (''metadata_json'', PStr ''{}''), (''error'', PNone),
      (''build_log'', PStr []), (''created_at'', PNone), (''started_at'', PNone), (''completed_at'', PNone)]"

definition not_null_columns :: "string list" where
  "not_null_columns =
     [''agent_id'', ''hostname'', ''requested_by'', ''status'', ''commit_sha'', ''tag_name'', ''artifact_dir'',
      ''artifact_exe_path'', ''package_zip_path'', ''bootstrap_path'', ''install_script_path'',
      ''installer_copy_path'', ''metadata_json'', ''build_log'', ''created_at'']"

definition migrate_row :: "string list \<Rightarrow> pydict \<Rightarrow> pydict" where
  "migrate_row existing r =
     map (\<lambda>(column, dflt). (column, if column \<in> set existing then dget r column else dflt)) DESIRED_COLUMNS"

definition migrate_agent_deployments :: "raw_table \<Rightarrow> raw_table result" where
  "migrate_agent_deployments t =
     (let existing = rt_columns t in
      if existing = [] \<or> (''repo_url'' \<notin> set existing \<and> ''source_ref'' \<notin> set existing) then Inr t
      else
        (let rows = map (migrate_row existing) (rt_rows t) in
         if \<exists>r\<in>set rows. \<exists>column\<in>set not_null_columns. dget r column = PNone
         then Inl (IntegrityError ''NOT NULL constraint failed'')
         else Inr \<lparr>rt_columns = map fst DESIRED_COLUMNS, rt_rows = rows\<rparr>))"

section \<open>Keys and references\<close>

definition registry_ok :: "registry \<Rightarrow> bool" where
  "registry_ok db \<longleftrightarrow>
     distinct (agent_ids db) \<and> distinct (map cr_agent_id (reg_credentials db)) \<and>
     distinct (deployment_ids db) \<and> distinct (release_ids db) \<and> distinct (map jo_id (reg_jobs db)) \<and>
     fk_ok db"

lemma registry_ok_conn [simp]: "registry_ok (db\<lparr>reg_conn := c\<rparr>) = registry_ok db"
  by (simp add: registry_ok_def fk_ok_def agent_ids_def deployment_ids_def release_ids_def)

lemma upsert_by_keys:
  assumes "\<And>r. key r = key row \<Longrightarrow> key (upd r) = key r" and "distinct (map key rows)"
  shows "distinct (map key (upsert_by key row upd rows))"
proof -
  have "map key (update_where (\<lambda>r. key r = key row) upd rows) = map key rows"
    using assms(1) by (induction rows) (auto simp: update_where_def)
  then show ?thesis using assms(2) by (auto simp: upsert_by_def)
qed

text \<open>A statement keeps the invariant when it keeps the keys.\<close>

lemma exec_stmt_cases:
  "(fk_ok (f db) \<and> exec_stmt f db = (f db, Inr ())) \<or>
   (\<not> fk_ok (f db) \<and> exec_stmt f db = (db, Inl (IntegrityError ''FOREIGN KEY constraint failed'')))"
  by (simp add: exec_stmt_def)

lemma exec_stmt_ok:
  assumes "registry_ok db" and "fk_ok (f db) \<Longrightarrow> registry_ok (f db)"
  shows "registry_ok (fst (exec_stmt f db))"
  using assms by (simp add: exec_stmt_def)

lemma with_db_ok: "registry_ok db \<Longrightarrow> registry_ok (fst (m db)) \<Longrightarrow> registry_ok (fst (with_db d m db))"
  by (simp add: with_db_def split: conn.split)

lemma bindP_fst: "fst (bindP m f db) = (case m db of (db', Inl e) \<Rightarrow> db' | (db', Inr x) \<Rightarrow> fst (f x db'))"
  by (simp add: bindP_def split: prod.split sum.split)

lemma bindP_ok:
  "registry_ok (fst (m db)) \<Longrightarrow> (\<And>x db'. registry_ok db' \<Longrightarrow> registry_ok (fst (f x db'))) \<Longrightarrow>
   registry_ok (fst (bindP m f db))"
  by (cases "m db") (auto simp: bindP_fst split: sum.split)

lemma upsert_agent_ok: "registry_ok db \<Longrightarrow> registry_ok (fst (upsert_agent now i up db))"
  unfolding upsert_agent_def Let_def
  by (rule with_db_ok, assumption, rule exec_stmt_ok, assumption)
    (auto simp: registry_ok_def agent_ids_def deployment_ids_def release_ids_def upsert_row_def Let_def
      intro!: upsert_by_keys)

lemma delete_agent_ok: "registry_ok db \<Longrightarrow> registry_ok (fst (delete_agent i db))"
  unfolding delete_agent_def
  by (rule with_db_ok, assumption, rule exec_stmt_ok, assumption)
    (auto simp: registry_ok_def agent_ids_def deployment_ids_def release_ids_def distinct_map
      intro: inj_on_subset)

lemma set_bootstrap_token_ok: "registry_ok db \<Longrightarrow> registry_ok (fst (set_bootstrap_token now i h e db))"
  unfolding set_bootstrap_token_def
  by (rule with_db_ok, assumption, rule exec_stmt_ok, assumption)
    (auto simp: registry_ok_def agent_ids_def deployment_ids_def release_ids_def intro!: upsert_by_keys)

lemma if_ok: "registry_ok (fst x) \<Longrightarrow> registry_ok (fst y) \<Longrightarrow> registry_ok (fst (if b then x else y))"
  by simp

lemma if_not_ok:
  "registry_ok (fst x) \<Longrightarrow> (\<not> b \<Longrightarrow> registry_ok (fst y)) \<Longrightarrow> registry_ok (fst (if b then x else y))"
  by simp

lemma rotate_ok: "registry_ok db \<Longrightarrow> registry_ok (fst (rotate_agent_token_version now i db))"
proof -
  assume ok: "registry_ok db"
  let ?v = "max (case find_credentials i db of None \<Rightarrow> 0 | Some c \<Rightarrow> cr_token_version c) 0 + 1"
  have "registry_ok (fst (exec_stmt (\<lambda>db. db\<lparr>reg_credentials :=
      upsert_by cr_agent_id
        ((blank_credentials i now)\<lparr>cr_token_version := ?v, cr_secret_rotated_at := Some now\<rparr>)
        (\<lambda>r. r\<lparr>cr_secret_hash := None, cr_token_version := ?v, cr_secret_rotated_at := Some now,
              cr_updated_at := now\<rparr>) (reg_credentials db)\<rparr>) db))"
    using ok by (intro exec_stmt_ok)
      (auto simp: registry_ok_def agent_ids_def deployment_ids_def release_ids_def intro!: upsert_by_keys)
  then show ?thesis
    unfolding rotate_agent_token_version_def Let_def
    by (intro with_db_ok ok) (auto simp: ok intro: bindP_ok split: option.split)
qed

lemma update_credentials_ok:
  assumes "registry_ok db" and "\<And>r. cr_agent_id (f r) = cr_agent_id r"
  shows "registry_ok (fst (update_credentials i f db))"
  unfolding update_credentials_def
  by (rule exec_stmt_ok)
    (use assms in \<open>auto simp: registry_ok_def agent_ids_def deployment_ids_def release_ids_def\<close>)

lemma mark_bootstrap_used_ok: "registry_ok db \<Longrightarrow> registry_ok (fst (mark_bootstrap_used now c db))"
  by (auto simp: mark_bootstrap_used_def intro: update_credentials_ok)

lemma issue_next_token_ok: "registry_ok db \<Longrightarrow> registry_ok (fst (issue_next_token ax now uuid c v m db))"
  by (auto simp: issue_next_token_def intro!: bindP_ok update_credentials_ok split: sum.split)

lemma authorize_jwt_ok: "registry_ok db \<Longrightarrow> registry_ok (fst (authorize_jwt ax now uuid i c t db))"
  unfolding authorize_jwt_def
  by (auto intro!: bindP_ok mark_bootstrap_used_ok split: sum.split pyexc.split)

lemma authorize_opaque_ok: "registry_ok db \<Longrightarrow> registry_ok (fst (authorize_opaque ax now uuid c t db))"
  unfolding authorize_opaque_def
  by (intro if_ok bindP_ok mark_bootstrap_used_ok issue_next_token_ok) simp_all

lemma authorize_agent_ok: "registry_ok db \<Longrightarrow> registry_ok (fst (authorize_agent ax now uuid i t db))"
  unfolding authorize_agent_def
  by (auto intro!: authorize_jwt_ok authorize_opaque_ok split: sum.split option.split)

lemma create_deployment_ok:
  "registry_ok db \<Longrightarrow> registry_ok (fst (create_deployment now now' d i h r t rel m db))"
  unfolding create_deployment_def
  by (rule with_db_ok, assumption, rule bindP_ok, rule if_not_ok, simp, rule exec_stmt_ok, assumption)
    (simp add: registry_ok_def agent_ids_def deployment_ids_def release_ids_def deployment_insert_row_def,
     rule upsert_agent_ok)

lemma update_deployment_ok: "registry_ok db \<Longrightarrow> registry_ok (fst (update_deployment d u db))"
  unfolding update_deployment_def Let_def
  by (rule with_db_ok, assumption, rule if_ok, simp, rule exec_stmt_ok, assumption)
    (auto simp: registry_ok_def agent_ids_def deployment_ids_def release_ids_def apply_deployment_update_def)

lemma upsert_release_ok: "registry_ok db \<Longrightarrow> registry_ok (fst (upsert_release_from_source now u src db))"
  unfolding upsert_release_from_source_def Let_def
  by (rule with_db_ok, assumption, rule bindP_ok, rule exec_stmt_ok)
    (auto simp: registry_ok_def agent_ids_def deployment_ids_def release_ids_def intro!: upsert_by_keys)

lemma create_update_job_ok: "registry_ok db \<Longrightarrow> registry_ok (fst (create_update_job now u q db))"
  unfolding create_update_job_def Let_def
  by (rule with_db_ok, assumption, rule if_not_ok, simp, rule bindP_ok, rule exec_stmt_ok, assumption)
    (auto simp: registry_ok_def agent_ids_def deployment_ids_def release_ids_def find_job_def find_eq_None_iff)

lemma update_update_job_ok: "registry_ok db \<Longrightarrow> registry_ok (fst (update_update_job j u db))"
  unfolding update_update_job_def
  by (rule with_db_ok, assumption, rule if_ok, simp, rule exec_stmt_ok, assumption)
    (auto simp: registry_ok_def agent_ids_def deployment_ids_def release_ids_def apply_job_update_def)

datatype reg_op =
    RStart | RStop
  | RUpsert int string agent_upsert
  | RDelete string
  | RBootstrap int string string int
  | RRotate int string
  | RAuthorize auth_ctx int string string "string option"
  | RCreateDeployment int int string string string string string "string option" "pydict option"
  | RUpdateDeployment string deployment_update
  | RRelease int string release_source
  | RCreateJob int string job_request
  | RUpdateJob string job_update

fun apply_reg_op :: "reg_op \<Rightarrow> registry \<Rightarrow> registry" where
  "apply_reg_op RStart db = reg_start db"
| "apply_reg_op RStop db = reg_stop db"
| "apply_reg_op (RUpsert now i up) db = fst (upsert_agent now i up db)"
| "apply_reg_op (RDelete i) db = fst (delete_agent i db)"
| "apply_reg_op (RBootstrap now i h e) db = fst (set_bootstrap_token now i h e db)"
| "apply_reg_op (RRotate now i) db = fst (rotate_agent_token_version now i db)"
| "apply_reg_op (RAuthorize ax now u i t) db = fst (authorize_agent ax now u i t db)"
| "apply_reg_op (RCreateDeployment now now' d i h r t rel m) db =
     fst (create_deployment now now' d i h r t rel m db)"
| "apply_reg_op (RUpdateDeployment d u) db = fst (update_deployment d u db)"
| "apply_reg_op (RRelease now u src) db = fst (upsert_release_from_source now u src db)"
| "apply_reg_op (RCreateJob now u q) db = fst (create_update_job now u q db)"
| "apply_reg_op (RUpdateJob j u) db = fst (update_update_job j u db)"

lemmas registry_ops_ok = upsert_agent_ok delete_agent_ok set_bootstrap_token_ok rotate_ok authorize_agent_ok
  create_deployment_ok update_deployment_ok upsert_release_ok create_update_job_ok update_update_job_ok

lemma apply_reg_op_ok: "registry_ok db \<Longrightarrow> registry_ok (apply_reg_op op db)"
  by (cases op) (simp_all add: registry_ops_ok reg_start_def reg_stop_def)

lemma registry_ok_fold: "registry_ok db \<Longrightarrow> registry_ok (fold apply_reg_op ops db)"
  by (induction ops arbitrary: db) (simp_all add: apply_reg_op_ok)

lemma registry_ok_empty: "registry_ok empty_registry"
  by (simp add: registry_ok_def empty_registry_def agent_ids_def deployment_ids_def release_ids_def fk_ok_def)


section \<open>Credentials and the operations\<close>

lemma find_upsert_by:
  assumes "\<And>r. key r = key row \<Longrightarrow> key (upd r) = key r"
  shows "find (\<lambda>r. key r = k) (upsert_by key row upd rows) =
    (if k = key row then Some (case find (\<lambda>r. key r = k) rows of None \<Rightarrow> row | Some r \<Rightarrow> upd r)
     else find (\<lambda>r. key r = k) rows)"
proof (cases "k = key row")
  case True
  then show ?thesis using assms
    by (auto simp: upsert_by_def find_update_where find_append find_eq_None_iff split: option.split
        dest: find_eq_Some_in)
next
  case False
  then have "find (\<lambda>r. key r = k) (update_where (\<lambda>r. key r = key row) upd rows) = find (\<lambda>r. key r = k) rows"
    using assms by (intro find_update_where_other) auto
  then show ?thesis using False by (simp add: upsert_by_def find_append split: option.split)
qed

lemma find_update_key:
  assumes "\<And>r. key (f r) = key r"
  shows "find (\<lambda>r. key r = k) (update_where (\<lambda>r. key r = i) f rows) =
    (if k = i then map_option f (find (\<lambda>r. key r = k) rows) else find (\<lambda>r. key r = k) rows)"
  using assms by (auto simp: find_update_where intro: find_update_where_other)

definition live_registry :: "registry \<Rightarrow> bool" where
  "live_registry db \<longleftrightarrow> registry_ok db \<and> reg_conn db = Live"

lemma update_credentials_live:
  fixes i :: string
  assumes "live_registry db" and "\<And>r. cr_agent_id (f r) = cr_agent_id r"
  defines "db' \<equiv> db\<lparr>reg_credentials := update_where (\<lambda>r. cr_agent_id r = i) f (reg_credentials db)\<rparr>"
  shows "update_credentials i f db = (db', Inr ())" and "live_registry db'"
    and "find_credentials k db' =
      (if k = i then map_option f (find_credentials k db) else find_credentials k db)"
proof -
  have "fk_ok db'"
    using assms by (auto simp: live_registry_def registry_ok_def fk_ok_def agent_ids_def deployment_ids_def
        release_ids_def set_update_where db'_def)
  then show u: "update_credentials i f db = (db', Inr ())"
    by (simp add: update_credentials_def exec_stmt_def db'_def)
  show "live_registry db'"
    using update_credentials_ok [of db f i] u assms by (simp add: live_registry_def db'_def)
  show "find_credentials k db' = (if k = i then map_option f (find_credentials k db) else find_credentials k db)"
    unfolding db'_def find_credentials_def by (simp add: find_update_key [where key = cr_agent_id] assms(2))
qed

lemma find_credentials_id: "find_credentials i db = Some c \<Longrightarrow> cr_agent_id c = i"
  by (auto simp: find_credentials_def dest: find_eq_Some_in)

lemma get_credentials_live: "live_registry db \<Longrightarrow> get_agent_credentials i db = Inr (find_credentials i db)"
  by (simp add: live_registry_def get_agent_credentials_def query_db_def)

text \<open>The two ways an authorization changes the credentials.\<close>

definition rotated_row :: "int \<Rightarrow> int \<Rightarrow> credentials_row \<Rightarrow> credentials_row" where
  "rotated_row now version r =
     r\<lparr>cr_secret_hash := None, cr_secret_rotated_at := Some now, cr_token_version := version,
       cr_updated_at := now\<rparr>"

definition used_row :: "int \<Rightarrow> credentials_row \<Rightarrow> credentials_row" where
  "used_row now r = (if bootstrap_used r then r else r\<lparr>cr_bootstrap_used_at := Some now, cr_updated_at := now\<rparr>)"

lemma issue_next_token_live:
  assumes "live_registry db" and "find_credentials i db = Some c"
  obtains db' s where "issue_next_token ax now uuid c v mode db = (db', Inr (Authorized mode (Some s)))"
    and "issue_agent_access_token (ax_hmac ax) (ax_env ax) i v now uuid = Inr s"
    and "live_registry db'" and "find_credentials i db' = Some (rotated_row now v c)"
proof -
  have id: "cr_agent_id c = i" using assms(2) by (rule find_credentials_id)
  obtain s where s: "issue_agent_access_token (ax_hmac ax) (ax_env ax) i v now uuid = Inr s"
    using jwt.issue_succeeds by blast
  let ?f = "\<lambda>r. r\<lparr>cr_secret_hash := None, cr_secret_rotated_at := Some now, cr_token_version := v,
      cr_updated_at := now\<rparr>"
  note u = update_credentials_live [OF assms(1), of ?f i, simplified]
  show thesis
    by (rule that [OF _ s u(2)]) (simp_all add: issue_next_token_def id s u(1,3) bindP_def assms(2) rotated_row_def)
qed

lemma mark_bootstrap_used_live:
  assumes "live_registry db" and "find_credentials i db = Some c"
  obtains db' where "mark_bootstrap_used now c db = (db', Inr ())" and "live_registry db'"
    and "find_credentials i db' = Some (used_row now c)"
proof (cases "bootstrap_used c")
  case True
  then show thesis using that [of db] assms by (simp add: mark_bootstrap_used_def bootstrap_used_def used_row_def)
next
  case False
  have id: "cr_agent_id c = i" using assms(2) by (rule find_credentials_id)
  let ?f = "\<lambda>r. r\<lparr>cr_bootstrap_used_at := Some now, cr_updated_at := now\<rparr>"
  note u = update_credentials_live [OF assms(1), of ?f i, simplified]
  show thesis
    by (rule that [OF _ u(2)])
      (use False in \<open>simp_all add: mark_bootstrap_used_def bootstrap_used_def id u(1,3) assms(2) used_row_def\<close>)
qed

section \<open>What an authorization means\<close>

lemma opaque_authorized:
  assumes "authorize_opaque ax now uuid c t db = (db', Inr (Authorized mode issued))"
  shows "(mode = ''secret'' \<and> issued = None \<and> cr_secret_hash c = Some (ax_hash_token ax t)) \<or>
    (mode = ''bootstrap'' \<and> bootstrap_matches ax t c \<and> \<not> bootstrap_used c \<and>
       (\<forall>e. cr_bootstrap_expires_at c = Some e \<longrightarrow> now \<le> e)) \<or>
    (mode = ''bootstrap-recovery'' \<and> bootstrap_matches ax t c \<and> bootstrap_used c \<and>
       cr_token_version c > 0 \<and> recovery_open ax now c)"
  using assms unfolding authorize_opaque_def
  by (auto simp: bindP_def issue_next_token_def split: if_splits sum.splits prod.splits option.splits)

lemma jwt_authorized:
  assumes "authorize_jwt ax now uuid i c t db = (db', Inr (Authorized mode issued))"
  shows "mode = ''jwt'' \<and> issued = None \<and> cr_token_version c > 0 \<and>
    token_accepted (ax_hmac ax) (ax_conv ax) (ax_env ax) t i (cr_token_version c) now"
proof -
  have v: "cr_token_version c > 0" using assms by (auto simp: authorize_jwt_def split: if_splits)
  obtain cl where cl: "verify_agent_access_token (ax_hmac ax) (ax_conv ax) (ax_env ax) t i
      (cr_token_version c) now uuid = Inr cl"
    using assms v by (auto simp: authorize_jwt_def split: sum.splits pyexc.splits)
  then show ?thesis using assms v
    by (auto simp: authorize_jwt_def token_accepted_def bindP_def split: prod.splits sum.splits)
qed

text \<open>Property C22. What it takes to be authorized. An agent with credentials that hold anything gets in
  only with a signed token that verifies for this agent and the current token version, with a token
  whose hash is the stored secret, with the bootstrap token while it is unused and not expired, or
  with the used bootstrap token within the recovery window after the last rotation. Without
  credentials, or with empty ones and no token, it gets in as a legacy agent.\<close>

theorem authorize_sound:
  assumes "live_registry db" and "authorize_agent ax now uuid i token db = (db', Inr (Authorized mode issued))"
  shows "(mode = ''legacy'' \<and> find_credentials i db = None) \<or>
    (\<exists>c. find_credentials i db = Some c \<and>
      ((mode = ''legacy'' \<and> the_or token [] = [] \<and> the_or (cr_bootstrap_token_hash c) [] = [] \<and>
          the_or (cr_secret_hash c) [] = [] \<and> cr_token_version c \<le> 0) \<or>
       (\<exists>t. token = Some t \<and>
         ((mode = ''jwt'' \<and> cr_token_version c > 0 \<and>
             token_accepted (ax_hmac ax) (ax_conv ax) (ax_env ax) t i (cr_token_version c) now) \<or>
          (mode = ''secret'' \<and> cr_secret_hash c = Some (ax_hash_token ax t)) \<or>
          (mode = ''bootstrap'' \<and> bootstrap_matches ax t c \<and> \<not> bootstrap_used c \<and>
             (\<forall>e. cr_bootstrap_expires_at c = Some e \<longrightarrow> now \<le> e)) \<or>
          (mode = ''bootstrap-recovery'' \<and> bootstrap_matches ax t c \<and> bootstrap_used c \<and>
             cr_token_version c > 0 \<and> recovery_open ax now c)))))"
proof (cases "find_credentials i db")
  case None
  then show ?thesis using assms by (simp add: authorize_agent_def get_credentials_live)
next
  case (Some c)
  note a = assms(2) [unfolded authorize_agent_def get_credentials_live [OF assms(1)] Some, simplified]
  show ?thesis
  proof (cases "the_or token [] = []")
    case True
    then show ?thesis using a Some by (auto split: if_splits)
  next
    case False
    then obtain t where t: "token = Some t" "t \<noteq> []" by (cases token) auto
    show ?thesis
    proof (cases "looks_like_jwt token")
      case True
      then have "authorize_jwt ax now uuid i c t db = (db', Inr (Authorized mode issued))" using a t by simp
      note j = jwt_authorized [OF this]
      show ?thesis by (intro disjI2 exI [of _ c] conjI Some exI [of _ t] t(1) disjI1) (use j in simp_all)
    next
      case F: False
      then have "authorize_opaque ax now uuid c t db = (db', Inr (Authorized mode issued))" using a t by simp
      note o = opaque_authorized [OF this]
      then have "(mode = ''secret'' \<and> cr_secret_hash c = Some (ax_hash_token ax t)) \<or>
          (mode = ''bootstrap'' \<and> bootstrap_matches ax t c \<and> \<not> bootstrap_used c \<and>
             (\<forall>e. cr_bootstrap_expires_at c = Some e \<longrightarrow> now \<le> e)) \<or>
          (mode = ''bootstrap-recovery'' \<and> bootstrap_matches ax t c \<and> bootstrap_used c \<and>
             cr_token_version c > 0 \<and> recovery_open ax now c)" by argo
      then show ?thesis
        by - (rule disjI2, rule exI [of _ c], rule conjI [OF Some], rule disjI2, rule exI [of _ t],
          rule conjI [OF t(1)], rule disjI2, assumption)
    qed
  qed
qed

section \<open>The life of the credentials\<close>

lemma count_split: "length (split_on c s) = length (filter (\<lambda>x. x = c) s) + 1"
  by (induction s) (auto split: list.split)

lemma issued_looks_like_jwt:
  assumes "issue_agent_access_token hmac env i v now uuid = Inr t"
  shows "looks_like_jwt (Some t)" and "t \<noteq> []"
proof -
  obtain c where "verify_agent_access_token hmac (\<lambda>_. None) env t i v now uuid = Inr c"
    using verify_issued_eq [of hmac env i v now uuid "\<lambda>_. None" i v now uuid] assms
      ttl_positive [of env] by (auto split: option.splits)
  from verify_accepts [OF this [unfolded verify_agent_access_token_def]]
  obtain h p where sp: "split_on (CHR ''.'') t = [h, p, signature_for hmac (get_agent_jwt_secret env) h p]"
    by blast
  then have "length (filter (\<lambda>x. x = CHR ''.'') t) = 2" using count_split [of "CHR ''.''" t] by simp
  moreover from this show "t \<noteq> []" by auto
  ultimately show "looks_like_jwt (Some t)" by (simp add: looks_like_jwt_def)
qed

lemma authorize_opaque_route:
  assumes "live_registry db" and "find_credentials i db = Some c" and "t \<noteq> []" and "\<not> looks_like_jwt (Some t)"
  shows "authorize_agent ax now uuid i (Some t) db = authorize_opaque ax now uuid c t db"
  using assms by (simp add: authorize_agent_def get_credentials_live)

lemma authorize_jwt_route:
  assumes "live_registry db" and "find_credentials i db = Some c"
    and "issue_agent_access_token hmac env i' v' now' uuid' = Inr t"
  shows "authorize_agent ax now uuid i (Some t) db = authorize_jwt ax now uuid i c t db"
  using assms issued_looks_like_jwt [OF assms(3)] by (simp add: authorize_agent_def get_credentials_live)

lemma authorize_bootstrap:
  assumes "live_registry db" and "find_credentials i db = Some c" and "t \<noteq> []" and "\<not> looks_like_jwt (Some t)"
    and "cr_secret_hash c \<noteq> Some (ax_hash_token ax t)" and "bootstrap_matches ax t c"
    and "\<not> bootstrap_used c" and "\<forall>e. cr_bootstrap_expires_at c = Some e \<longrightarrow> now \<le> e"
  obtains db' s where "authorize_agent ax now uuid i (Some t) db = (db', Inr (Authorized ''bootstrap'' (Some s)))"
    and "issue_agent_access_token (ax_hmac ax) (ax_env ax) i (max (cr_token_version c) 0 + 1) now uuid = Inr s"
    and "live_registry db'"
    and "find_credentials i db' = Some (rotated_row now (max (cr_token_version c) 0 + 1) c)"
proof -
  have "authorize_agent ax now uuid i (Some t) db =
      issue_next_token ax now uuid c (max (cr_token_version c) 0 + 1) ''bootstrap'' db"
    using assms(5-8) authorize_opaque_route [OF assms(1-4)]
    by (auto simp: authorize_opaque_def split: option.splits)
  then show thesis using that issue_next_token_live [OF assms(1,2)] by metis
qed

lemma authorize_recovery:
  assumes "live_registry db" and "find_credentials i db = Some c" and "t \<noteq> []" and "\<not> looks_like_jwt (Some t)"
    and "cr_secret_hash c \<noteq> Some (ax_hash_token ax t)" and "bootstrap_matches ax t c"
    and "bootstrap_used c" and "cr_token_version c > 0" and "recovery_open ax now c"
  obtains db' s where
      "authorize_agent ax now uuid i (Some t) db = (db', Inr (Authorized ''bootstrap-recovery'' (Some s)))"
    and "issue_agent_access_token (ax_hmac ax) (ax_env ax) i (cr_token_version c + 1) now uuid = Inr s"
    and "live_registry db'"
    and "find_credentials i db' = Some (rotated_row now (cr_token_version c + 1) c)"
proof -
  have "authorize_agent ax now uuid i (Some t) db =
      issue_next_token ax now uuid c (cr_token_version c + 1) ''bootstrap-recovery'' db"
    using assms(5-9) authorize_opaque_route [OF assms(1-4)]
    by (auto simp: authorize_opaque_def)
  then show thesis using that issue_next_token_live [OF assms(1,2)] by metis
qed

lemma authorize_issued:
  assumes "live_registry db" and "find_credentials i db = Some c"
    and "issue_agent_access_token (ax_hmac ax) (ax_env ax) i (cr_token_version c) now0 uuid0 = Inr t"
    and "cr_token_version c > 0"
    and "\<forall>ttl. get_agent_jwt_ttl_seconds (ax_env ax) = Some ttl \<longrightarrow> now \<le> now0 + ttl"
  obtains db' where "authorize_agent ax now uuid i (Some t) db = (db', Inr (Authorized ''jwt'' None))"
    and "live_registry db'" and "find_credentials i db' = Some (used_row now c)"
proof -
  obtain cl where "verify_agent_access_token (ax_hmac ax) (ax_conv ax) (ax_env ax) t i (cr_token_version c)
      now uuid = Inr cl"
    using verify_issued_eq [of "ax_hmac ax" "ax_env ax" i "cr_token_version c" now0 uuid0 "ax_conv ax" i
        "cr_token_version c" now uuid] assms(3,5)
    by (auto split: option.splits)
  then have "authorize_agent ax now uuid i (Some t) db =
      bindP (mark_bootstrap_used now c) (\<lambda>_. retP (Authorized ''jwt'' None)) db"
    using authorize_jwt_route [OF assms(1-3)] assms(4) by (simp add: authorize_jwt_def)
  moreover obtain db' where "mark_bootstrap_used now c db = (db', Inr ())" "live_registry db'"
      "find_credentials i db' = Some (used_row now c)"
    using mark_bootstrap_used_live [OF assms(1,2)] by blast
  ultimately show thesis using that by simp
qed

lemma set_bootstrap_live:
  assumes "live_registry db" and "i \<in> set (agent_ids db)"
  obtains db' c where "set_bootstrap_token now i h e db = (db', Inr ())" and "live_registry db'"
    and "find_credentials i db' = Some c" and "cr_bootstrap_token_hash c = Some h"
    and "cr_bootstrap_expires_at c = Some e" and "\<not> bootstrap_used c"
    and "cr_secret_hash c = (case find_credentials i db of None \<Rightarrow> None | Some c0 \<Rightarrow> cr_secret_hash c0)"
    and "cr_token_version c = (case find_credentials i db of None \<Rightarrow> 0 | Some c0 \<Rightarrow> cr_token_version c0)"
proof -
  let ?row = "(blank_credentials i now)\<lparr>cr_bootstrap_token_hash := Some h, cr_bootstrap_expires_at := Some e\<rparr>"
  let ?f = "\<lambda>r. r\<lparr>cr_bootstrap_token_hash := Some h, cr_bootstrap_expires_at := Some e,
               cr_bootstrap_used_at := None, cr_updated_at := now\<rparr>"
  let ?db = "db\<lparr>reg_credentials := upsert_by cr_agent_id ?row ?f (reg_credentials db)\<rparr>"
  have id: "cr_agent_id ?row = i" by (simp add: blank_credentials_def)
  have "fk_ok ?db"
    using assms by (auto simp: live_registry_def registry_ok_def fk_ok_def agent_ids_def deployment_ids_def
        release_ids_def upsert_by_def set_update_where id)
  then have u: "set_bootstrap_token now i h e db = (?db, Inr ())"
    using assms(1) by (simp add: set_bootstrap_token_def with_db_def live_registry_def exec_stmt_def)
  have f: "find_credentials i ?db = Some (case find_credentials i db of None \<Rightarrow> ?row | Some r \<Rightarrow> ?f r)"
    using find_upsert_by [of cr_agent_id ?row ?f i "reg_credentials db"] id
    by (simp add: find_credentials_def)
  have l: "live_registry ?db"
    using set_bootstrap_token_ok [of db now i h e] u assms(1) by (simp add: live_registry_def)
  show thesis
    by (rule that [OF u l f]; cases "find_credentials i db")
      (simp_all add: bootstrap_used_def opt_int_def blank_credentials_def)
qed

lemma rotated_row_simps [simp]:
  "cr_token_version (rotated_row now v c) = v" "cr_secret_hash (rotated_row now v c) = None"
  "cr_secret_rotated_at (rotated_row now v c) = Some now" "bootstrap_used (rotated_row now v c) = bootstrap_used c"
  "bootstrap_matches ax t (rotated_row now v c) = bootstrap_matches ax t c"
  by (simp_all add: rotated_row_def bootstrap_used_def bootstrap_matches_def)

lemma used_row_simps [simp]:
  "cr_token_version (used_row now c) = cr_token_version c" "cr_secret_hash (used_row now c) = cr_secret_hash c"
  "cr_secret_rotated_at (used_row now c) = cr_secret_rotated_at c"
  "bootstrap_matches ax t (used_row now c) = bootstrap_matches ax t c"
  "now \<noteq> 0 \<Longrightarrow> bootstrap_used (used_row now c)"
  by (auto simp: used_row_def bootstrap_used_def bootstrap_matches_def opt_int_def)

text \<open>From the bootstrap token to a signed one. After \<open>set_bootstrap_token\<close>, the
  bootstrap token gets the agent a signed token before it expires; the signed token is accepted
  as long as its lifetime lasts; and once it has been used, the bootstrap token is refused as already
  used when the recovery window is over.\<close>

theorem bootstrap_life:
  assumes "live_registry db" and "i \<in> set (agent_ids db)"
    and "t \<noteq> []" and "\<not> looks_like_jwt (Some t)" and "ax_hash_token ax t \<noteq> []"
    and "\<forall>c. find_credentials i db = Some c \<longrightarrow> cr_secret_hash c \<noteq> Some (ax_hash_token ax t)"
    and "now \<le> e" and "\<forall>ttl. get_agent_jwt_ttl_seconds (ax_env ax) = Some ttl \<longrightarrow> now1 \<le> now + ttl"
    and "now1 \<noteq> 0" and "ax_window ax < now2 - now"
  shows "\<exists>db1 db2 db3 s.
    set_bootstrap_token now0 i (ax_hash_token ax t) e db = (db1, Inr ()) \<and>
    authorize_agent ax now u i (Some t) db1 = (db2, Inr (Authorized ''bootstrap'' (Some s))) \<and>
    authorize_agent ax now1 u1 i (Some s) db2 = (db3, Inr (Authorized ''jwt'' None)) \<and>
    authorize_agent ax now2 u2 i (Some t) db3 = (db3, Inr (Refused ''bootstrap token already used''))"
proof -
  obtain db1 c where 1: "set_bootstrap_token now0 i (ax_hash_token ax t) e db = (db1, Inr ())"
    "live_registry db1" "find_credentials i db1 = Some c" "cr_bootstrap_token_hash c = Some (ax_hash_token ax t)"
    "cr_bootstrap_expires_at c = Some e" "\<not> bootstrap_used c"
    "cr_secret_hash c = (case find_credentials i db of None \<Rightarrow> None | Some c0 \<Rightarrow> cr_secret_hash c0)"
    by (rule set_bootstrap_live [OF assms(1,2), of now0 "ax_hash_token ax t" e])
  have m: "bootstrap_matches ax t c" using 1(4) assms(5) by (simp add: bootstrap_matches_def)
  have ns: "cr_secret_hash c \<noteq> Some (ax_hash_token ax t)" using 1(7) assms(6) by (simp split: option.splits)
  have ex: "\<forall>x. cr_bootstrap_expires_at c = Some x \<longrightarrow> now \<le> x" using 1(5) assms(7) by simp
  let ?v = "max (cr_token_version c) 0 + 1"
  obtain db2 s where 2: "authorize_agent ax now u i (Some t) db1 = (db2, Inr (Authorized ''bootstrap'' (Some s)))"
    "issue_agent_access_token (ax_hmac ax) (ax_env ax) i ?v now u = Inr s" "live_registry db2"
    "find_credentials i db2 = Some (rotated_row now ?v c)"
    by (rule authorize_bootstrap [OF 1(2,3) assms(3,4) ns m 1(6) ex, of u])
  have iss: "issue_agent_access_token (ax_hmac ax) (ax_env ax) i (cr_token_version (rotated_row now ?v c)) now u = Inr s"
    using 2(2) by simp
  have vpos: "cr_token_version (rotated_row now ?v c) > 0" by simp
  obtain db3 where 3: "authorize_agent ax now1 u1 i (Some s) db2 = (db3, Inr (Authorized ''jwt'' None))"
    "live_registry db3" "find_credentials i db3 = Some (used_row now1 (rotated_row now ?v c))"
    by (rule authorize_issued [OF 2(3,4) iss vpos assms(8), of u1])
  let ?c = "used_row now1 (rotated_row now ?v c)"
  have "\<not> recovery_open ax now2 ?c" using assms(10) by (simp add: recovery_open_def)
  then have "authorize_agent ax now2 u2 i (Some t) db3 = (db3, Inr (Refused ''bootstrap token already used''))"
    using authorize_opaque_route [OF 3(2,3) assms(3,4), of ax now2 u2] m assms(9)
    by (simp add: authorize_opaque_def)
  then show ?thesis using 1(1) 2(1) 3(1) by blast
qed

section \<open>Versions only grow\<close>

lemma rotate_live:
  assumes "live_registry db" and "i \<in> set (agent_ids db)"
  obtains db' c where "rotate_agent_token_version now i db = (db', Inr (Some \<lparr>ro_agent_id = i,
        ro_token_version = cr_token_version c, ro_rotated_at = now\<rparr>))" and "live_registry db'"
    and "find_credentials i db' = Some c" and "cr_secret_hash c = None" and "cr_secret_rotated_at c = Some now"
    and "cr_token_version c = max (case find_credentials i db of None \<Rightarrow> 0 | Some c0 \<Rightarrow> cr_token_version c0) 0 + 1"
    and "\<And>c0. find_credentials i db = Some c0 \<Longrightarrow>
      bootstrap_used c = bootstrap_used c0 \<and> cr_bootstrap_token_hash c = cr_bootstrap_token_hash c0"
proof -
  let ?v = "max (case find_credentials i db of None \<Rightarrow> 0 | Some c \<Rightarrow> cr_token_version c) 0 + 1"
  let ?row = "(blank_credentials i now)\<lparr>cr_token_version := ?v, cr_secret_rotated_at := Some now\<rparr>"
  let ?f = "\<lambda>r. r\<lparr>cr_secret_hash := None, cr_token_version := ?v, cr_secret_rotated_at := Some now, cr_updated_at := now\<rparr>"
  let ?db = "db\<lparr>reg_credentials := upsert_by cr_agent_id ?row ?f (reg_credentials db)\<rparr>"
  have id: "cr_agent_id ?row = i" by (simp add: blank_credentials_def)
  have "find_agent i db \<noteq> None"
    using assms(2) by (auto simp: find_agent_def find_eq_None_iff agent_ids_def)
  moreover have "fk_ok ?db"
    using assms by (auto simp: live_registry_def registry_ok_def fk_ok_def agent_ids_def deployment_ids_def
        release_ids_def upsert_by_def set_update_where id)
  ultimately have u: "rotate_agent_token_version now i db = (?db, Inr (Some \<lparr>ro_agent_id = i,
      ro_token_version = ?v, ro_rotated_at = now\<rparr>))"
    using assms(1)
    by (auto simp: rotate_agent_token_version_def with_db_def live_registry_def exec_stmt_def Let_def bindP_def)
  have f: "find_credentials i ?db = Some (case find_credentials i db of None \<Rightarrow> ?row | Some r \<Rightarrow> ?f r)"
    using find_upsert_by [of cr_agent_id ?row ?f i "reg_credentials db"] id
    by (simp add: find_credentials_def)
  have l: "live_registry ?db"
    using rotate_ok [of db now i] u assms(1) by (simp add: live_registry_def)
  have v: "cr_token_version (case find_credentials i db of None \<Rightarrow> ?row | Some r \<Rightarrow> ?f r) = ?v"
    by (simp split: option.split)
  show thesis
    by (rule that [OF _ l f]; (simp only: v u)?; cases "find_credentials i db")
      (simp_all add: bootstrap_used_def blank_credentials_def)
qed

text \<open>Property C24. Revoking an agent's token reopens its bootstrap token. The administrator's rotation
  of the token version sets the time of the last rotation, which is what the recovery window is counted
  from: a bootstrap token that was used long ago, and is past its own expiry, again gets a
  new signed token, without anything but the old bootstrap token.\<close>

theorem rotation_reopens_bootstrap:
  assumes "live_registry db" and "i \<in> set (agent_ids db)" and "find_credentials i db = Some c"
    and "t \<noteq> []" and "\<not> looks_like_jwt (Some t)" and "bootstrap_matches ax t c" and "bootstrap_used c"
    and "now \<noteq> 0" and "now1 - now \<le> ax_window ax"
  shows "\<exists>db1 rotation db2 s.
    rotate_agent_token_version now i db = (db1, Inr (Some rotation)) \<and>
    authorize_agent ax now1 u i (Some t) db1 = (db2, Inr (Authorized ''bootstrap-recovery'' (Some s)))"
proof -
  obtain db1 c1 where 1: "rotate_agent_token_version now i db = (db1, Inr (Some \<lparr>ro_agent_id = i,
        ro_token_version = cr_token_version c1, ro_rotated_at = now\<rparr>))" "live_registry db1"
    "find_credentials i db1 = Some c1" "cr_secret_hash c1 = None" "cr_secret_rotated_at c1 = Some now"
    "cr_token_version c1 = max (case find_credentials i db of None \<Rightarrow> 0 | Some c0 \<Rightarrow> cr_token_version c0) 0 + 1"
    "\<And>c0. find_credentials i db = Some c0 \<Longrightarrow>
      bootstrap_used c1 = bootstrap_used c0 \<and> cr_bootstrap_token_hash c1 = cr_bootstrap_token_hash c0"
    by (rule rotate_live [OF assms(1,2), of now]) blast
  have m: "bootstrap_matches ax t c1" "bootstrap_used c1"
    using 1(7) [OF assms(3)] assms(6,7) by (auto simp: bootstrap_matches_def)
  have r: "recovery_open ax now1 c1" using 1(5) assms(8,9) by (simp add: recovery_open_def)
  have ns: "cr_secret_hash c1 \<noteq> Some (ax_hash_token ax t)" using 1(4) by simp
  have v: "cr_token_version c1 > 0" using 1(6) by simp
  obtain db2 s where "authorize_agent ax now1 u i (Some t) db1 =
      (db2, Inr (Authorized ''bootstrap-recovery'' (Some s)))"
    by (rule authorize_recovery [OF 1(2,3) assms(4,5) ns m v r, of u])
  then show ?thesis using 1(1) by blast
qed


text \<open>An operation other than the deletion of the agent keeps its credentials, and never lowers their
  version.\<close>

definition cred_mono :: "string \<Rightarrow> registry \<Rightarrow> registry \<Rightarrow> bool" where
  "cred_mono i db db' \<longleftrightarrow> (reg_conn db \<noteq> NotStarted \<longrightarrow> reg_conn db' \<noteq> NotStarted) \<and>
     (\<forall>c. find_credentials i db = Some c \<longrightarrow>
        (\<exists>c'. find_credentials i db' = Some c' \<and> cr_token_version c \<le> cr_token_version c'))"

lemma cred_mono_refl [simp]: "cred_mono i db db"
  by (simp add: cred_mono_def)

lemma cred_mono_trans: "cred_mono i a b \<Longrightarrow> cred_mono i b c \<Longrightarrow> cred_mono i a c"
  unfolding cred_mono_def by (metis order_trans)

lemma cred_mono_same:
  "reg_conn db' = reg_conn db \<Longrightarrow> reg_credentials db' = reg_credentials db \<Longrightarrow> cred_mono i db db'"
  by (simp add: cred_mono_def find_credentials_def)

lemma cred_mono_exec: "cred_mono i db (f db) \<Longrightarrow> cred_mono i db (fst (exec_stmt f db))"
  by (simp add: exec_stmt_def)

lemma cred_mono_with_db: "cred_mono i db (fst (m db)) \<Longrightarrow> cred_mono i db (fst (with_db d m db))"
  by (simp add: with_db_def split: conn.split)

lemma cred_mono_bindP:
  "cred_mono i db (fst (m db)) \<Longrightarrow> (\<And>x db'. cred_mono i db' (fst (f x db'))) \<Longrightarrow>
   cred_mono i db (fst (bindP m f db))"
  using cred_mono_trans [of i db] by (cases "m db") (auto simp: bindP_fst split: sum.split)

lemma cred_mono_if: "cred_mono i db (fst x) \<Longrightarrow> cred_mono i db (fst y) \<Longrightarrow> cred_mono i db (fst (if b then x else y))"
  by simp

lemma cred_mono_update:
  assumes "\<And>r. cr_agent_id (f r) = cr_agent_id r"
    and "\<And>r. find_credentials k db = Some r \<Longrightarrow> cr_token_version r \<le> cr_token_version (f r)"
  shows "cred_mono i db (fst (update_credentials k f db))"
proof -
  have "find_credentials i (db\<lparr>reg_credentials := update_where (\<lambda>r. cr_agent_id r = k) f (reg_credentials db)\<rparr>) =
      (if i = k then map_option f (find_credentials i db) else find_credentials i db)"
    using find_update_key [of cr_agent_id f i k] assms(1) by (simp add: find_credentials_def)
  then show ?thesis unfolding update_credentials_def
    by (intro cred_mono_exec) (use assms(2) in \<open>auto simp: cred_mono_def\<close>)
qed

lemma cred_mono_upsert:
  assumes "\<And>r. cr_agent_id (f r) = cr_agent_id r"
    and "\<And>r. find_credentials (cr_agent_id row) db = Some r \<Longrightarrow> cr_token_version r \<le> cr_token_version (f r)"
  shows "cred_mono i db (db\<lparr>reg_credentials := upsert_by cr_agent_id row f (reg_credentials db)\<rparr>)"
  using find_upsert_by [of cr_agent_id row f i "reg_credentials db"] assms
  by (auto simp: cred_mono_def find_credentials_def)

lemma cred_mono_mark: "find_credentials k db = Some c \<Longrightarrow> cred_mono i db (fst (mark_bootstrap_used now c db))"
  by (auto simp: mark_bootstrap_used_def intro!: cred_mono_update)

lemma cred_mono_issue:
  "find_credentials k db = Some c \<Longrightarrow> cr_token_version c \<le> v \<Longrightarrow>
   cred_mono i db (fst (issue_next_token ax now uuid c v mode db))"
  using find_credentials_id [of k db c]
  by (auto simp: issue_next_token_def intro!: cred_mono_bindP cred_mono_update split: sum.split)

lemma cred_mono_authorize: "cred_mono i db (fst (authorize_agent ax now uuid k t db))"
proof (cases "get_agent_credentials k db")
  case (Inr co)
  show ?thesis
  proof (cases co)
    case (Some c)
    then have f: "find_credentials k db = Some c"
      using Inr by (auto simp: get_agent_credentials_def query_db_def split: conn.splits)
    have "cred_mono i db (fst (authorize_jwt ax now uuid k c t' db))" for t'
      unfolding authorize_jwt_def
      by (auto intro!: cred_mono_bindP cred_mono_mark [OF f] split: sum.split pyexc.split)
    moreover have "cred_mono i db (fst (authorize_opaque ax now uuid c t' db))" for t'
      unfolding authorize_opaque_def
      by (intro cred_mono_if cred_mono_bindP cred_mono_mark [OF f] cred_mono_issue [OF f]) simp_all
    ultimately show ?thesis using Inr Some by (simp add: authorize_agent_def)
  qed (use Inr in \<open>simp add: authorize_agent_def\<close>)
qed (simp add: authorize_agent_def)

lemma cred_mono_rotate: "cred_mono i db (fst (rotate_agent_token_version now k db))"
  unfolding rotate_agent_token_version_def Let_def
  by (intro cred_mono_with_db)
    (auto simp: blank_credentials_def intro!: cred_mono_bindP cred_mono_exec cred_mono_upsert split: option.split)

lemma cred_mono_upsert_agent: "cred_mono i db (fst (upsert_agent now k up db))"
  unfolding upsert_agent_def Let_def
  by (intro cred_mono_with_db cred_mono_exec cred_mono_same) simp_all

lemma cred_mono_op:
  assumes "op \<noteq> RDelete i"
  shows "cred_mono i db (apply_reg_op op db)"
proof (cases op)
  case (RDelete k)
  then have "find (\<lambda>r. cr_agent_id r = i) (filter (\<lambda>r. cr_agent_id r \<noteq> k) rows) =
      find (\<lambda>r. cr_agent_id r = i) rows" for rows :: "credentials_row list"
    using assms by (induction rows) auto
  then show ?thesis unfolding RDelete apply_reg_op.simps delete_agent_def
    by (intro cred_mono_with_db cred_mono_exec) (simp add: cred_mono_def find_credentials_def)
next
  case (RBootstrap now k h e)
  show ?thesis unfolding RBootstrap apply_reg_op.simps set_bootstrap_token_def
    by (intro cred_mono_with_db cred_mono_exec cred_mono_upsert) simp_all
next
  case (RCreateDeployment now now' d k h r t rel m)
  show ?thesis unfolding RCreateDeployment apply_reg_op.simps create_deployment_def
    by (intro cred_mono_with_db cred_mono_bindP cred_mono_if cred_mono_upsert_agent cred_mono_exec cred_mono_same)
      simp_all
next
  case (RUpdateDeployment d u)
  show ?thesis unfolding RUpdateDeployment apply_reg_op.simps update_deployment_def Let_def
    by (intro cred_mono_with_db cred_mono_if cred_mono_exec cred_mono_same) simp_all
next
  case (RRelease now u src)
  show ?thesis unfolding RRelease apply_reg_op.simps upsert_release_from_source_def Let_def
    by (intro cred_mono_with_db cred_mono_bindP cred_mono_exec cred_mono_same) simp_all
next
  case (RCreateJob now u q)
  show ?thesis unfolding RCreateJob apply_reg_op.simps create_update_job_def Let_def
    by (intro cred_mono_with_db cred_mono_if cred_mono_bindP cred_mono_exec cred_mono_same) simp_all
next
  case (RUpdateJob j u)
  show ?thesis unfolding RUpdateJob apply_reg_op.simps update_update_job_def
    by (intro cred_mono_with_db cred_mono_if cred_mono_exec cred_mono_same) simp_all
qed (auto simp: reg_start_def reg_stop_def cred_mono_rotate cred_mono_authorize cred_mono_upsert_agent
      cred_mono_def [of i db "db\<lparr>reg_conn := _\<rparr>"] find_credentials_def)

lemma cred_mono_fold: "RDelete i \<notin> set ops \<Longrightarrow> cred_mono i db (fold apply_reg_op ops db)"
proof (induction ops arbitrary: db)
  case (Cons op ops)
  have "cred_mono i db (apply_reg_op op db)" by (rule cred_mono_op) (use Cons.prems in auto)
  moreover have "cred_mono i (apply_reg_op op db) (fold apply_reg_op ops (apply_reg_op op db))"
    by (rule Cons.IH) (use Cons.prems in simp)
  ultimately show ?case by (simp add: cred_mono_trans [of i db])
qed simp


text \<open>Property C23. A rotated token is dead. Let a signed token be issued for a version that an agent with
  credentials has reached. After the administrator rotates the version, and whatever else happens except
  the deletion of the agent (further rotations, bootstraps, recoveries, reconnections), the token
  never authorizes the agent again.\<close>

theorem rotated_token_refused:
  assumes "live_registry db" and "find_credentials i db = Some c" and "v \<le> cr_token_version c" and "0 \<le> v"
    and "issue_agent_access_token (ax_hmac ax) (ax_env ax) i v now0 uuid0 = Inr token"
    and "RDelete i \<notin> set ops"
  shows "let db' = fold apply_reg_op ops (fst (rotate_agent_token_version now i db)) in
    snd (authorize_agent ax now1 uuid1 i (Some token) db') \<noteq> Inr (Authorized mode issued)"
proof -
  have mem: "i \<in> set (agent_ids db)"
  proof -
    have "c \<in> set (reg_credentials db) \<and> cr_agent_id c = i"
      using assms(2) unfolding find_credentials_def by (rule find_eq_Some_in)
    moreover have "fk_ok db" using assms(1) by (simp add: live_registry_def registry_ok_def)
    ultimately show ?thesis by (auto simp: fk_ok_def)
  qed
  obtain db1 c1 where 1: "rotate_agent_token_version now i db = (db1, Inr (Some \<lparr>ro_agent_id = i,
        ro_token_version = cr_token_version c1, ro_rotated_at = now\<rparr>))" "live_registry db1"
    "find_credentials i db1 = Some c1" 
    "cr_token_version c1 = max (case find_credentials i db of None \<Rightarrow> 0 | Some c0 \<Rightarrow> cr_token_version c0) 0 + 1"
    by (rule rotate_live [OF assms(1) mem, of now]) (rule that, assumption+)
  let ?db = "fold apply_reg_op ops db1"
  obtain c2 where 2: "find_credentials i ?db = Some c2" "v < cr_token_version c2" "reg_conn ?db \<noteq> NotStarted"
    using cred_mono_fold [OF assms(6), of db1] 1 assms(2,3) by (auto simp: cred_mono_def live_registry_def)
  have "snd (authorize_agent ax now1 uuid1 i (Some token) ?db) \<noteq> Inr (Authorized mode issued)"
  proof (cases "reg_conn ?db")
    case Live
    moreover have "registry_ok ?db" using registry_ok_fold 1(2) by (simp add: live_registry_def)
    ultimately have l: "live_registry ?db" by (simp add: live_registry_def)
    have "verify_agent_access_token (ax_hmac ax) (ax_conv ax) (ax_env ax) token i (cr_token_version c2) now1 uuid1
        \<in> Inl ` range ValueError"
      using verify_issued_eq [of "ax_hmac ax" "ax_env ax" i v now0 uuid0 "ax_conv ax" i "cr_token_version c2" now1
          uuid1] assms(5) 2(2) by (auto split: option.splits if_splits)
    then have "authorize_jwt ax now1 uuid1 i c2 token ?db = (?db, Inr (Refused ''invalid bearer token''))"
      using 2(2) assms(4) by (auto simp: authorize_jwt_def)
    then show ?thesis using authorize_jwt_route [OF l 2(1) assms(5)] by simp
  next
    case Closed
    then show ?thesis by (simp add: authorize_agent_def get_agent_credentials_def query_db_def)
  qed (use 2 in simp)
  then show ?thesis by (simp add: 1(1))
qed

section \<open>Recovery, deletion, and the references of an agent\<close>

fun spaced :: "int \<Rightarrow> int \<Rightarrow> int list \<Rightarrow> bool" where
  "spaced w t0 [] = True"
| "spaced w t0 (t # ts) = (t \<noteq> 0 \<and> t - t0 \<le> w \<and> spaced w t ts)"

fun recoveries :: "auth_ctx \<Rightarrow> string \<Rightarrow> string \<Rightarrow> int list \<Rightarrow> registry \<Rightarrow> authorization result list" where
  "recoveries ax i tok [] db = []"
| "recoveries ax i tok (now # ts) db =
     (case authorize_agent ax now [] i (Some tok) db of (db', r) \<Rightarrow> r # recoveries ax i tok ts db')"

text \<open>Every recovery starts the recovery window again: a used bootstrap token that is presented at least
  once per window works for ever, past its expiry.\<close>

lemma recovery_renews:
  assumes "t \<noteq> []" and "\<not> looks_like_jwt (Some t)"
  shows "live_registry db \<Longrightarrow> find_credentials i db = Some c \<Longrightarrow>
    cr_secret_hash c \<noteq> Some (ax_hash_token ax t) \<Longrightarrow> bootstrap_matches ax t c \<Longrightarrow> bootstrap_used c \<Longrightarrow>
    cr_token_version c > 0 \<Longrightarrow> cr_secret_rotated_at c = Some t0 \<Longrightarrow> t0 \<noteq> 0 \<Longrightarrow> spaced (ax_window ax) t0 ts \<Longrightarrow>
    list_all (\<lambda>r. \<exists>s. r = Inr (Authorized ''bootstrap-recovery'' (Some s))) (recoveries ax i t ts db)"
proof (induction ts arbitrary: db c t0)
  case (Cons now ts)
  have r: "recovery_open ax now c" using Cons.prems by (simp add: recovery_open_def)
  obtain db' s where a: "authorize_agent ax now [] i (Some t) db =
      (db', Inr (Authorized ''bootstrap-recovery'' (Some s)))" "live_registry db'"
    "find_credentials i db' = Some (rotated_row now (cr_token_version c + 1) c)"
    by (rule authorize_recovery [OF Cons.prems(1,2) assms Cons.prems(3-6) r, of "[]"])
  have "list_all (\<lambda>r. \<exists>s. r = Inr (Authorized ''bootstrap-recovery'' (Some s))) (recoveries ax i t ts db')"
    by (rule Cons.IH [OF a(2,3), of now]) (use Cons.prems in simp_all)
  then show ?case by (simp add: a(1))
qed simp

text \<open>Deleting an agent removes every row that belongs to it and touches no other row; and
  from then on its identifier is a legacy one: whoever connects under it is authorized, with any
  token or none.\<close>

theorem delete_agent_functional:
  assumes "reg_conn db = Live" and "delete_agent i db = (db', Inr ())"
  shows "reg_agents db' = filter (\<lambda>r. ag_id r \<noteq> i) (reg_agents db) \<and>
    reg_deployments db' = filter (\<lambda>r. de_agent_id r \<noteq> i) (reg_deployments db) \<and>
    reg_jobs db' = filter (\<lambda>r. jo_agent_id r \<noteq> i) (reg_jobs db) \<and> reg_releases db' = reg_releases db \<and>
    get_agent i db' = Inr None \<and> get_agent_credentials i db' = Inr None \<and>
    (k \<noteq> i \<longrightarrow> get_agent_credentials k db' = get_agent_credentials k db) \<and>
    authorize_agent ax now uuid i token db' = (db', Inr (Authorized ''legacy'' None))"
proof -
  have db': "db' = db\<lparr>reg_agents := filter (\<lambda>r. ag_id r \<noteq> i) (reg_agents db),
        reg_credentials := filter (\<lambda>r. cr_agent_id r \<noteq> i) (reg_credentials db),
        reg_deployments := filter (\<lambda>r. de_agent_id r \<noteq> i) (reg_deployments db),
        reg_jobs := filter (\<lambda>r. jo_agent_id r \<noteq> i) (reg_jobs db)\<rparr>"
    using assms by (auto simp: delete_agent_def with_db_def exec_stmt_def split: if_splits)
  have n: "find (\<lambda>r. cr_agent_id r = i) (filter (\<lambda>r. cr_agent_id r \<noteq> i) (reg_credentials db)) = None"
    "find (\<lambda>r. ag_id r = i) (filter (\<lambda>r. ag_id r \<noteq> i) (reg_agents db)) = None"
    by (auto simp: find_eq_None_iff)
  have o: "find (\<lambda>r. cr_agent_id r = k) (filter (\<lambda>r. cr_agent_id r \<noteq> i) rows) = find (\<lambda>r. cr_agent_id r = k) rows"
    if "k \<noteq> i" for rows :: "credentials_row list"
    using that by (induction rows) auto
  show ?thesis using assms(1)
    by (simp add: db' get_agent_def query_db_def find_agent_def n get_agent_credentials_def find_credentials_def
        authorize_agent_def o)
qed

lemma find_agent_row: "find_agent i db = Some v \<longleftrightarrow>
    (\<exists>r. find (\<lambda>r. ag_id r = i) (reg_agents db) = Some r \<and> v = map_agent_row r)"
  by (auto simp: find_agent_def)

lemma map_agent_row_fields [simp]:
  "ag_id (map_agent_row r) = ag_id r" "ag_hostname (map_agent_row r) = ag_hostname r"
  "ag_display_name (map_agent_row r) = ag_display_name r" "ag_status (map_agent_row r) = ag_status r"
  "ag_connection_status (map_agent_row r) = ag_connection_status r"
  "ag_current_version (map_agent_row r) = ag_current_version r"
  "ag_last_deployment_id (map_agent_row r) = ag_last_deployment_id r"
  "ag_created_at (map_agent_row r) = ag_created_at r" "ag_updated_at (map_agent_row r) = ag_updated_at r"
  "ag_last_seen_at (map_agent_row r) = ag_last_seen_at r"
  "av_metadata (map_agent_row r) = deserialize_metadata (ag_metadata_json r)"
  by (simp_all add: map_agent_row_def)

text \<open>Metadata through its JSON column.\<close>

lemma json_wf_update: "json_wf (PDict d) \<Longrightarrow> json_wf v \<Longrightarrow> json_wf (PDict (AList.update k v d))"
  using set_alist_update_subset [of k v d] by (fastforce simp: distinct_update)

lemma deep_merge_wf:
  "json_wf (PDict c) \<Longrightarrow> json_wf (PDict p) \<Longrightarrow> json_wf (PDict (deep_merge c p))"
proof (induction p arbitrary: c rule: measure_induct_rule [of "\<lambda>p. size (PDict p)"])
  case (less p)
  show ?case
  proof (cases p)
    case Nil
    then show ?thesis using less.prems(1) by simp
  next
    case (Cons x p')
    obtain k v where x: "x = (k, v)" by (cases x)
    have p: "json_wf v" "json_wf (PDict p')" using less.prems(2) Cons x by auto
    have "json_wf (merge_value (map_of c k) v)"
    proof (cases "\<exists>c' q. map_of c k = Some (PDict c') \<and> v = PDict q")
      case True
      then obtain c' q where c': "map_of c k = Some (PDict c')" "v = PDict q" by blast
      have "json_wf (PDict (deep_merge c' q))"
        by (rule less.IH) (use c' p Cons x json_wf_value [OF less.prems(1) c'(1)] in auto)
      then show ?thesis using c' by simp
    next
      case False
      then have "merge_value (map_of c k) v = v"
        by (auto simp: merge_value_def split: option.split pyval.split)
      then show ?thesis using p by simp
    qed
    then have "json_wf (PDict (AList.update k (merge_value (map_of c k) v) c))"
      by (rule json_wf_update [OF less.prems(1)])
    then have "json_wf (PDict (deep_merge (AList.update k (merge_value (map_of c k) v) c) p'))"
      by (rule less.IH [rotated]) (use p Cons in simp_all)
    then show ?thesis by (simp only: Cons x deep_merge_Cons)
  qed
qed

lemma deserialize_serialize: "json_wf (PDict d) \<Longrightarrow> deserialize_metadata (serialize_metadata (Some d)) = d"
proof -
  assume "json_wf (PDict d)"
  moreover have "json_dumps (PDict d) \<noteq> []" by (simp add: json_dumps_def)
  ultimately show ?thesis by (simp add: deserialize_metadata_def serialize_metadata_def del: json_wf.simps)
qed

lemma upsert_row_simps [simp]: "ag_id (upsert_row now i up e) = i"
  by (simp add: upsert_row_def Let_def)

lemma upsert_agent_db:
  assumes "reg_conn db = Live" and "upsert_agent now i up db = (db', Inr ())"
  shows "db' = db\<lparr>reg_agents := upsert_by ag_id (upsert_row now i up (find_agent i db))
      (\<lambda>r. (upsert_row now i up (find_agent i db))\<lparr>ag_created_at := ag_created_at r\<rparr>) (reg_agents db)\<rparr>"
  using assms by (auto simp: upsert_agent_def with_db_def exec_stmt_def Let_def split: if_splits)

lemma find_agent_upsert:
  assumes "reg_conn db = Live" and "upsert_agent now i up db = (db', Inr ())"
  shows "find_agent k db' =
    (if k = i then Some (map_agent_row (upsert_row now i up (find_agent i db))) else find_agent k db)"
proof -
  let ?row = "upsert_row now i up (find_agent i db)"
  have c: "ag_created_at r = ag_created_at ?row" if "find (\<lambda>r. ag_id r = i) (reg_agents db) = Some r" for r
    using that by (simp add: upsert_row_def Let_def find_agent_def)
  have f: "find (\<lambda>r. ag_id r = k) (upsert_by ag_id ?row (\<lambda>r. ?row\<lparr>ag_created_at := ag_created_at r\<rparr>) (reg_agents db)) =
      (if k = i then Some ?row else find (\<lambda>r. ag_id r = k) (reg_agents db))"
    using find_upsert_by [of ag_id ?row "\<lambda>r. ?row\<lparr>ag_created_at := ag_created_at r\<rparr>" k "reg_agents db"] c
    by (cases "find (\<lambda>r. ag_id r = i) (reg_agents db)") auto
  have a: "reg_agents db' = upsert_by ag_id ?row (\<lambda>r. ?row\<lparr>ag_created_at := ag_created_at r\<rparr>) (reg_agents db)"
    unfolding upsert_agent_db [OF assms] by simp
  have "find_agent k db' = map_option map_agent_row
      (if k = i then Some ?row else find (\<lambda>r. ag_id r = k) (reg_agents db))"
    unfolding f [symmetric] a [symmetric] by (rule find_agent_def)
  then show ?thesis by (simp add: find_agent_def [of k db])
qed

text \<open>What \<open>upsert_agent\<close> does to a known agent. Each text that is given and not empty is
  written, each other one is kept, as are the creation time and what a caller does not give of the last
  contact and the last deployment; the metadata read back are the old ones with the new ones merged into
  them, through the JSON column; no other agent changes.\<close>

theorem upsert_agent_functional:
  assumes "reg_conn db = Live" and "upsert_agent now i up db = (db', Inr ())" and "find_agent i db = Some v"
    and "json_wf (PDict (av_metadata v))" and "json_wf (PDict (the_or (up_metadata up) []))"
  shows "(\<exists>v'. get_agent i db' = Inr (Some v') \<and>
      ag_hostname v' = str_or (up_hostname up) (ag_hostname v) \<and>
      ag_display_name v' = str_or (up_display_name up) (ag_display_name v) \<and>
      ag_status v' = ostr_or (up_status up) (ag_status v) \<and>
      ag_connection_status v' = ostr_or (up_connection_status up) (ag_connection_status v) \<and>
      ag_current_version v' = ostr_or (up_current_version up) (ag_current_version v) \<and>
      ag_created_at v' = ag_created_at v \<and> ag_updated_at v' = now \<and>
      ag_last_seen_at v' = (if up_last_seen_at up = None then ag_last_seen_at v else up_last_seen_at up) \<and>
      (the_or (up_last_deployment_id up) [] = [] \<longrightarrow> ag_last_deployment_id v' = ag_last_deployment_id v) \<and>
      av_metadata v' = deep_merge (av_metadata v) (the_or (up_metadata up) [])) \<and>
    (k \<noteq> i \<longrightarrow> get_agent k db' = get_agent k db)"
proof -
  have conn: "reg_conn db' = Live" using assms(1) unfolding upsert_agent_db [OF assms(1,2)] by simp
  have "json_wf (PDict (deep_merge (av_metadata v) (the_or (up_metadata up) [])))"
    by (rule deep_merge_wf [OF assms(4,5)])
  then have m: "deserialize_metadata (serialize_metadata (Some (merge_metadata (Some (av_metadata v)) (up_metadata up)))) =
      deep_merge (av_metadata v) (the_or (up_metadata up) [])"
    by (simp add: merge_metadata_def deserialize_serialize del: json_wf.simps)
  show ?thesis
    using find_agent_upsert [OF assms(1,2)] m assms(1) conn
    by (simp add: get_agent_def query_db_def assms(3)) (simp add: upsert_row_def Let_def)
qed

lemma fk_ok_upsert:
  assumes "fk_ok db" and "opt_in (ag_last_deployment_id row) (deployment_ids db)" and "\<And>r. ag_id (f r) = ag_id row"
    and "\<And>r. ag_last_deployment_id (f r) = ag_last_deployment_id row"
  shows "fk_ok (db\<lparr>reg_agents := upsert_by ag_id row f (reg_agents db)\<rparr>)"
proof -
  let ?db = "db\<lparr>reg_agents := upsert_by ag_id row f (reg_agents db)\<rparr>"
  have "set (agent_ids db) \<subseteq> set (agent_ids ?db)"
  proof -
    have "map ag_id (update_where (\<lambda>r. ag_id r = ag_id row) f rows) = map ag_id rows" for rows
      by (simp add: update_where_def assms(3))
    then show ?thesis by (auto simp: agent_ids_def upsert_by_def simp flip: set_map)
  qed
  moreover have "\<forall>a\<in>set (reg_agents ?db). opt_in (ag_last_deployment_id a) (deployment_ids db)"
    using assms by (auto simp: upsert_by_def set_update_where fk_ok_def)
  moreover have "deployment_ids ?db = deployment_ids db" "release_ids ?db = release_ids db"
    by (simp_all add: deployment_ids_def release_ids_def)
  ultimately show ?thesis using assms(1) unfolding fk_ok_def by auto
qed

lemma find_deployment_new:
  "find (\<lambda>r. de_id r = d) rows = None \<Longrightarrow> de_id row = d \<Longrightarrow> find (\<lambda>r. de_id r = d) (rows @ [row]) = Some row"
  by (simp add: find_append)

text \<open>Naming a deployment that does not exist breaks the reference, whether the agent is new or not.\<close>

lemma upsert_unknown_deployment:
  assumes "reg_conn db = Live" and "up_last_deployment_id up = Some d" and "d \<noteq> []" and "d \<notin> set (deployment_ids db)"
  shows "upsert_agent now i up db = (db, Inl (IntegrityError ''FOREIGN KEY constraint failed''))"
proof -
  let ?row = "upsert_row now i up (find_agent i db)"
  let ?rows = "upsert_by ag_id ?row (\<lambda>r. ?row\<lparr>ag_created_at := ag_created_at r\<rparr>) (reg_agents db)"
  have l: "ag_last_deployment_id ?row = Some d" using assms(2,3) by (simp add: upsert_row_def Let_def)
  have "\<exists>r\<in>set ?rows. ag_last_deployment_id r = Some d"
  proof (cases "\<exists>r\<in>set (reg_agents db). ag_id r = ag_id ?row")
    case True
    then obtain r where "r \<in> set (reg_agents db)" "ag_id r = ag_id ?row" by blast
    then have "?row\<lparr>ag_created_at := ag_created_at r\<rparr> \<in> set ?rows"
      by (auto simp: upsert_by_def set_update_where intro!: image_eqI [of _ _ r])
    then show ?thesis using l by (intro bexI [of _ "?row\<lparr>ag_created_at := ag_created_at r\<rparr>"]) simp_all
  next
    case False
    then show ?thesis using l by (simp add: upsert_by_def)
  qed
  then obtain a where a: "a \<in> set ?rows" "ag_last_deployment_id a = Some d" by blast
  have "\<not> fk_ok (db\<lparr>reg_agents := ?rows\<rparr>)"
  proof
    assume "fk_ok (db\<lparr>reg_agents := ?rows\<rparr>)"
    then have "\<forall>a\<in>set ?rows. opt_in (ag_last_deployment_id a) (deployment_ids db)"
      by (simp add: fk_ok_def deployment_ids_def)
    then have "opt_in (Some d) (deployment_ids db)" using a by metis
    then show False using assms(4) by (simp add: opt_in_def)
  qed
  then show ?thesis using assms(1) by (simp add: upsert_agent_def with_db_def exec_stmt_def Let_def)
qed

text \<open>The order of a new deployment. A deployment has to be created before its agent names
  it: naming a deployment that does not exist breaks the reference, raises \<open>IntegrityError\<close> and changes
  nothing, while \<open>create_deployment\<close> for a known agent inserts the deployment as queued and then makes
  the agent name it.\<close>

theorem deployment_before_agent:
  assumes "live_registry db" and "i \<in> set (agent_ids db)" and "d \<notin> set (deployment_ids db)" and "d \<noteq> []"
    and "opt_in rel (release_ids db)"
  shows "upsert_agent now i (up\<lparr>up_last_deployment_id := Some d\<rparr>) db =
      (db, Inl (IntegrityError ''FOREIGN KEY constraint failed'')) \<and>
    (\<exists>db' v a. create_deployment now now' d i host who task rel meta db = (db', Inr ()) \<and>
       get_deployment d db' = Inr (Some v) \<and> de_status v = ''queued'' \<and> de_agent_id v = i \<and>
       de_task_id v = Some task \<and> get_agent i db' = Inr (Some a) \<and> ag_last_deployment_id a = Some d)"
proof
  have live: "reg_conn db = Live" "registry_ok db" "fk_ok db"
    using assms(1) by (simp_all add: live_registry_def registry_ok_def)
  show "upsert_agent now i (up\<lparr>up_last_deployment_id := Some d\<rparr>) db =
      (db, Inl (IntegrityError ''FOREIGN KEY constraint failed''))"
    using live(1) assms(3,4) by (intro upsert_unknown_deployment) simp_all
  let ?drow = "deployment_insert_row now d i host who task rel meta"
  let ?db1 = "db\<lparr>reg_deployments := reg_deployments db @ [?drow]\<rparr>"
  have drow: "de_id ?drow = d" "de_agent_id ?drow = i" "de_release_id ?drow = rel"
    by (simp_all add: deployment_insert_row_def)
  have ids: "deployment_ids ?db1 = deployment_ids db @ [d]" "agent_ids ?db1 = agent_ids db"
    "release_ids ?db1 = release_ids db" "reg_conn ?db1 = Live"
    using live by (simp_all add: deployment_ids_def drow agent_ids_def release_ids_def)
  have grow: "opt_in x (deployment_ids db) \<Longrightarrow> opt_in x (deployment_ids db @ [d])" for x
    by (auto simp: opt_in_def split: option.splits)
  have fk1: "fk_ok ?db1"
    using live(3) assms(2,5) grow unfolding fk_ok_def ids by (auto simp: drow)
  let ?up = "no_upsert\<lparr>up_hostname := host, up_last_deployment_id := Some d\<rparr>"
  let ?row2 = "upsert_row now' i ?up (find_agent i ?db1)"
  let ?db2 = "?db1\<lparr>reg_agents := upsert_by ag_id ?row2 (\<lambda>r. ?row2\<lparr>ag_created_at := ag_created_at r\<rparr>) (reg_agents ?db1)\<rparr>"
  have l2: "ag_last_deployment_id ?row2 = Some d" using assms(4) by (simp add: upsert_row_def Let_def)
  have "fk_ok ?db2" by (rule fk_ok_upsert [OF fk1]) (use l2 in \<open>simp_all add: ids opt_in_def\<close>)
  then have u: "upsert_agent now' i ?up ?db1 = (?db2, Inr ())"
    using ids(4) by (simp add: upsert_agent_def with_db_def exec_stmt_def Let_def)
  have c: "create_deployment now now' d i host who task rel meta db = (?db2, Inr ())"
    using live(1) assms(3) fk1 u by (simp add: create_deployment_def with_db_def exec_stmt_def bindP_def)
  have "find (\<lambda>r. de_id r = d) (reg_deployments db) = None"
    using assms(3) by (auto simp: find_eq_None_iff deployment_ids_def)
  then have fd: "find_deployment d ?db2 = Some (map_deployment_row ?drow)"
    using drow(1) by (simp add: find_deployment_def find_deployment_new)
  have fa: "find_agent i ?db2 = Some (map_agent_row ?row2)"
    using find_agent_upsert [OF ids(4) u] by simp
  show "\<exists>db' v a. create_deployment now now' d i host who task rel meta db = (db', Inr ()) \<and>
       get_deployment d db' = Inr (Some v) \<and> de_status v = ''queued'' \<and> de_agent_id v = i \<and>
       de_task_id v = Some task \<and> get_agent i db' = Inr (Some a) \<and> ag_last_deployment_id a = Some d"
    by (rule exI [of _ ?db2], rule exI [of _ "map_deployment_row ?drow"], rule exI [of _ "map_agent_row ?row2"])
      (use c fd fa ids(4) l2 in \<open>simp add: get_deployment_def get_agent_def query_db_def live(1) map_deployment_row_def
         deployment_insert_row_def\<close>)
qed

section \<open>The migration\<close>

lemma desired_distinct: "distinct (map fst DESIRED_COLUMNS)"
  by (simp add: DESIRED_COLUMNS_def)

lemma dget_migrate_row:
  assumes "c \<in> fst ` set DESIRED_COLUMNS" and "c \<in> set existing"
  shows "dget (migrate_row existing r) c = dget r c"
proof -
  have "c \<in> fst ` set cols \<Longrightarrow> c \<in> set existing \<Longrightarrow>
      dget (map (\<lambda>(column, dflt). (column, if column \<in> set existing then dget r column else dflt)) cols) c = dget r c"
    for cols :: "(string \<times> pyval) list"
    by (induction cols) (auto simp: rev_image_eqI)
  then show ?thesis unfolding migrate_row_def using assms by blast
qed

text \<open>The migration of an older deployments table. When it succeeds, the table has exactly the
  columns of the schema and as many rows as before; every row keeps the value of every column that the
  old table had, no column that must not be null is null, and migrating again changes nothing.\<close>

theorem migration_keeps_rows:
  assumes "''repo_url'' \<in> set (rt_columns t)" and "migrate_agent_deployments t = Inr t'"
  shows "rt_columns t' = map fst DESIRED_COLUMNS \<and> length (rt_rows t') = length (rt_rows t) \<and>
    list_all2 (\<lambda>old new. \<forall>c \<in> fst ` set DESIRED_COLUMNS \<inter> set (rt_columns t). dget new c = dget old c)
      (rt_rows t) (rt_rows t') \<and>
    (\<forall>row\<in>set (rt_rows t'). \<forall>c\<in>set not_null_columns. dget row c \<noteq> PNone) \<and>
    migrate_agent_deployments t' = Inr t'"
proof -
  let ?rows = "map (migrate_row (rt_columns t)) (rt_rows t)"
  have ne: "rt_columns t \<noteq> []" using assms(1) by auto
  have t': "t' = \<lparr>rt_columns = map fst DESIRED_COLUMNS, rt_rows = ?rows\<rparr>"
    and nn: "\<forall>r\<in>set ?rows. \<forall>c\<in>set not_null_columns. dget r c \<noteq> PNone"
    using assms ne unfolding migrate_agent_deployments_def Let_def by (simp_all split: if_splits)
  have "list_all2 (\<lambda>old new. \<forall>c \<in> fst ` set DESIRED_COLUMNS \<inter> set (rt_columns t). dget new c = dget old c)
      (rt_rows t) ?rows"
    by (simp add: list_all2_conv_all_nth dget_migrate_row)
  moreover have "migrate_agent_deployments t' = Inr t'"
    unfolding t' by (simp add: migrate_agent_deployments_def DESIRED_COLUMNS_def)
  ultimately show ?thesis using nn by (simp add: t')
qed

definition legacy_table :: raw_table where
  "legacy_table = \<lparr>rt_columns = ''repo_url'' # map fst DESIRED_COLUMNS,
     rt_rows = [(''repo_url'', PStr ''git'') # map (\<lambda>(c, v). (c, PStr ''x'')) DESIRED_COLUMNS]\<rparr>"

theorem migration_keeps_rows_witness:
  "\<exists>t'. migrate_agent_deployments legacy_table = Inr t' \<and> rt_columns t' = map fst DESIRED_COLUMNS \<and>
     length (rt_rows t') = 1 \<and> migrate_agent_deployments t' = Inr t'"
proof -
  obtain t' where m: "migrate_agent_deployments legacy_table = Inr t'"
    by (simp add: migrate_agent_deployments_def legacy_table_def migrate_row_def DESIRED_COLUMNS_def
        not_null_columns_def Let_def)
  have "''repo_url'' \<in> set (rt_columns legacy_table)" "length (rt_rows legacy_table) = 1"
    by (simp_all add: legacy_table_def)
  then show ?thesis using m migration_keeps_rows [OF _ m] by simp
qed

section \<open>Concrete registries\<close>

definition sample_ax :: auth_ctx where
  "sample_ax = \<lparr>ax_hmac = (\<lambda>k m. k @ m), ax_conv = (\<lambda>_. None), ax_env = (\<lambda>_. None),
     ax_hash_token = (\<lambda>s. CHR ''h'' # s), ax_window = 86400\<rparr>"

definition sample_agent :: agent_row where
  "sample_agent = \<lparr>ag_id = ''vm'', ag_hostname = ''host'', ag_display_name = [], ag_status = ''registered'',
     ag_connection_status = ''offline'', ag_current_version = [], ag_last_deployment_id = None,
     ag_created_at = 1, ag_updated_at = 1, ag_last_seen_at = None, ag_metadata_json = ''{}''\<rparr>"

definition sample_registry :: "credentials_row list \<Rightarrow> registry" where
  "sample_registry cs = empty_registry\<lparr>reg_conn := Live, reg_agents := [sample_agent], reg_credentials := cs\<rparr>"

definition sample_credentials :: "int option \<Rightarrow> credentials_row" where
  "sample_credentials used = (blank_credentials ''vm'' 1)
     \<lparr>cr_bootstrap_token_hash := Some ''hboot'', cr_bootstrap_expires_at := Some 10,
      cr_bootstrap_used_at := used, cr_token_version := 1, cr_secret_rotated_at := Some 5\<rparr>"

lemma sample_live: "live_registry (sample_registry [sample_credentials used])" "live_registry (sample_registry [])"
  by (simp_all add: live_registry_def sample_registry_def registry_ok_def fk_ok_def empty_registry_def
      sample_agent_def sample_credentials_def blank_credentials_def opt_in_def agent_ids_def deployment_ids_def
      release_ids_def)

lemma sample_find:
  "find_credentials ''vm'' (sample_registry [sample_credentials used]) = Some (sample_credentials used)"
  "find_credentials ''vm'' (sample_registry []) = None" "''vm'' \<in> set (agent_ids (sample_registry cs))"
  by (simp_all add: find_credentials_def sample_registry_def sample_credentials_def blank_credentials_def
      empty_registry_def agent_ids_def sample_agent_def)

lemma sample_boot: "bootstrap_matches sample_ax ''boot'' (sample_credentials used)"
  "\<not> looks_like_jwt (Some ''boot'')" "bootstrap_used (sample_credentials (Some 6))"
  "\<not> bootstrap_used (sample_credentials None)" "cr_secret_hash (sample_credentials used) = None"
  "cr_token_version (sample_credentials used) = 1"
  by (simp_all add: bootstrap_matches_def sample_ax_def sample_credentials_def bootstrap_used_def opt_int_def
      looks_like_jwt_def blank_credentials_def)

theorem authorize_sound_witness:
  "\<exists>db' mode s. authorize_agent sample_ax 9 ''u'' ''vm'' (Some ''boot'') (sample_registry [sample_credentials None])
       = (db', Inr (Authorized mode (Some s))) \<and> mode \<noteq> ''legacy'' \<and>
     (mode = ''jwt'' \<or> mode = ''secret'' \<or> bootstrap_matches sample_ax ''boot'' (sample_credentials None))"
proof -
  have e: "\<forall>e. cr_bootstrap_expires_at (sample_credentials None) = Some e \<longrightarrow> 9 \<le> e"
    by (simp add: sample_credentials_def)
  obtain db' s where a: "authorize_agent sample_ax 9 ''u'' ''vm'' (Some ''boot'')
      (sample_registry [sample_credentials None]) = (db', Inr (Authorized ''bootstrap'' (Some s)))"
    by (rule authorize_bootstrap [OF sample_live(1) sample_find(1) _ sample_boot(2) _ sample_boot(1,4) e, of "''u''"])
      (simp_all add: sample_boot)
  show ?thesis using a authorize_sound [OF sample_live(1) a] by (auto simp: sample_find)
qed

theorem bootstrap_life_witness:
  "\<exists>db1 db2 db3 s.
    set_bootstrap_token 1 ''vm'' ''hboot'' 100 (sample_registry []) = (db1, Inr ()) \<and>
    authorize_agent sample_ax 50 ''u'' ''vm'' (Some ''boot'') db1 = (db2, Inr (Authorized ''bootstrap'' (Some s))) \<and>
    authorize_agent sample_ax 60 ''u'' ''vm'' (Some s) db2 = (db3, Inr (Authorized ''jwt'' None)) \<and>
    authorize_agent sample_ax 90000 ''u'' ''vm'' (Some ''boot'') db3 =
      (db3, Inr (Refused ''bootstrap token already used''))"
  using bootstrap_life [OF sample_live(2) sample_find(3), of "''boot''" sample_ax 50 100 60 90000 1 "''u''" "''u''" "''u''"]
  by (simp add: sample_boot sample_find) (simp add: sample_ax_def get_agent_jwt_ttl_seconds_def)

theorem rotation_reopens_bootstrap_witness:
  "\<exists>db1 rotation db2 s.
    rotate_agent_token_version 1000000 ''vm'' (sample_registry [sample_credentials (Some 6)]) =
      (db1, Inr (Some rotation)) \<and>
    authorize_agent sample_ax 1000009 ''u'' ''vm'' (Some ''boot'') db1 =
      (db2, Inr (Authorized ''bootstrap-recovery'' (Some s)))"
  by (rule rotation_reopens_bootstrap [OF sample_live(1) sample_find(3) sample_find(1) _ sample_boot(2,1,3)])
    (simp_all add: sample_ax_def)

theorem rotated_token_refused_witness:
  "\<exists>token. issue_agent_access_token (\<lambda>k m. k @ m) (\<lambda>_. None) ''vm'' 1 5 ''j'' = Inr token \<and>
     snd (authorize_agent sample_ax 30 ''u'' ''vm'' (Some token)
       (fold apply_reg_op [RRotate 20 ''vm'', RStop]
         (fst (rotate_agent_token_version 10 ''vm'' (sample_registry [sample_credentials (Some 6)]))))) \<noteq>
     Inr (Authorized ''jwt'' None)"
proof -
  obtain token where t: "issue_agent_access_token (\<lambda>k m. k @ m) (\<lambda>_. None) ''vm'' 1 5 ''j'' = Inr token"
    using jwt.issue_succeeds by blast
  have i: "issue_agent_access_token (ax_hmac sample_ax) (ax_env sample_ax) ''vm'' 1 5 ''j'' = Inr token"
    using t by (simp add: sample_ax_def)
  have r: "RDelete ''vm'' \<notin> set [RRotate 20 ''vm'', RStop]" by simp
  have "1 \<le> cr_token_version (sample_credentials (Some 6))" "(0::int) \<le> 1" by (simp_all add: sample_boot)
  from rotated_token_refused [OF sample_live(1) sample_find(1) this i r, of 10 30 "''u''" "''jwt''" None]
  show ?thesis using t unfolding Let_def by blast
qed

theorem delete_agent_functional_witness:
  "\<exists>db'. delete_agent ''vm'' (sample_registry [sample_credentials None]) = (db', Inr ()) \<and>
     get_agent ''vm'' db' = Inr None \<and>
     authorize_agent sample_ax 5 ''u'' ''vm'' None db' = (db', Inr (Authorized ''legacy'' None))"
proof -
  obtain db' where d: "delete_agent ''vm'' (sample_registry [sample_credentials None]) = (db', Inr ())"
    by (simp add: delete_agent_def with_db_def sample_registry_def empty_registry_def exec_stmt_def
        sample_agent_def sample_credentials_def blank_credentials_def fk_ok_def)
  have "reg_conn (sample_registry [sample_credentials None]) = Live" by (simp add: sample_registry_def)
  from delete_agent_functional [OF this d] d show ?thesis by blast
qed

definition sample_upsert :: agent_upsert where
  "sample_upsert = no_upsert\<lparr>up_status := Some ''connected'', up_metadata := Some [(''os'', PStr ''win'')]\<rparr>"

theorem upsert_agent_functional_witness:
  "\<exists>db' v'. upsert_agent 7 ''vm'' sample_upsert (sample_registry []) = (db', Inr ()) \<and>
     get_agent ''vm'' db' = Inr (Some v') \<and> ag_hostname v' = ''host'' \<and> ag_status v' = ''connected'' \<and>
     av_metadata v' = [(''os'', PStr ''win'')]"
proof -
  obtain db' where u: "upsert_agent 7 ''vm'' sample_upsert (sample_registry []) = (db', Inr ())"
    by (simp add: upsert_agent_def with_db_def sample_registry_def empty_registry_def exec_stmt_def upsert_by_def
        sample_agent_def fk_ok_def update_where_def upsert_row_def Let_def find_agent_def opt_in_def
        sample_upsert_def no_upsert_def map_agent_row_def)
  have m: "deserialize_metadata ''{}'' = []" by code_simp
  have f: "find_agent ''vm'' (sample_registry []) = Some (map_agent_row sample_agent)"
    by (simp add: find_agent_def sample_registry_def sample_agent_def)
  have "reg_conn (sample_registry []) = Live" by (simp add: sample_registry_def)
  from upsert_agent_functional [OF this u f] u show ?thesis
    by (auto simp: m sample_agent_def sample_upsert_def no_upsert_def)
qed

theorem deployment_before_agent_witness:
  "upsert_agent 7 ''vm'' (no_upsert\<lparr>up_last_deployment_id := Some ''d1''\<rparr>) (sample_registry []) =
     (sample_registry [], Inl (IntegrityError ''FOREIGN KEY constraint failed'')) \<and>
   (\<exists>db' v a. create_deployment 7 7 ''d1'' ''vm'' ''host'' ''user'' ''t1'' None None (sample_registry []) = (db', Inr ()) \<and>
      get_deployment ''d1'' db' = Inr (Some v) \<and> de_status v = ''queued'' \<and> de_agent_id v = ''vm'' \<and>
      de_task_id v = Some ''t1'' \<and> get_agent ''vm'' db' = Inr (Some a) \<and> ag_last_deployment_id a = Some ''d1'')"
  by (rule deployment_before_agent [OF sample_live(2) sample_find(3)])
    (simp_all add: sample_registry_def empty_registry_def deployment_ids_def opt_in_def)

end
