(* ===== verification/Authz.thy ===== *)
theory Authz
  imports Server_Settings
begin

text \<open>
  Who may do what: application roles and agent visibility (\<open>authz.py\<close>), the login policy of the
  identity provider (\<open>users/access_policy.py\<close>) and the remote desktop permissions
  (\<open>guacamole/access_policy.py\<close>). Roles are ranked viewer < operator < admin. A request or a
  websocket carries the session of its user, if any. Raw policies come from JSON metadata, so they
  are arbitrary \<open>pyval\<close>s; the normalised policy is again a JSON dictionary, as in the code.
\<close>

section \<open>Identities and sessions\<close>

record user_identity =
  u_subject :: string
  u_username :: string
  u_display_name :: string
  u_email :: string
  u_avatar_url :: string
  u_avatar_initials :: string
  u_auth_provider :: string
  u_roles :: "string list"
  u_agent_visibility :: string
  u_group_ids :: "string list"
  u_group_names :: "string list"
  u_claims :: pydict

record user_session =
  us_access_token :: string
  us_user :: user_identity
  us_created_at :: int
  us_expires_at :: int
  us_last_seen_at :: int

section \<open>Roles\<close>

definition ROLE_ORDER :: "(string \<times> nat) list" where
  "ROLE_ORDER = [(''viewer'', 0), (''operator'', 1), (''admin'', 2)]"

definition is_role :: "string \<Rightarrow> bool" where
  "is_role r = (map_of ROLE_ORDER r \<noteq> None)"

definition role_rank :: "string \<Rightarrow> nat" where
  "role_rank r = (case map_of ROLE_ORDER r of None \<Rightarrow> 0 | Some n \<Rightarrow> n)"

text \<open>\<open>normalize_roles\<close> returns a set: here the list of its elements.\<close>

definition normalize_roles :: "string list option \<Rightarrow> string list" where
  "normalize_roles roles =
     (let normalized = remdups (filter is_role
            (map (\<lambda>r. lower (strip r)) (case roles of None \<Rightarrow> [] | Some rs \<Rightarrow> rs)))
      in if normalized = [] then [''viewer''] else normalized)"

definition get_highest_role :: "string list option \<Rightarrow> string" where
  "get_highest_role roles =
     (let rs = normalize_roles roles in max_by role_rank (hd rs) (tl rs))"

definition has_minimum_role :: "string list option \<Rightarrow> string \<Rightarrow> bool" where
  "has_minimum_role roles minimum_role =
     (let minimum = (case map_of ROLE_ORDER minimum_role of
                       None \<Rightarrow> role_rank ''admin''
                     | Some n \<Rightarrow> n)
      in minimum \<le> role_rank (get_highest_role roles))"

definition user_has_agent_visibility :: "user_identity option \<Rightarrow> bool" where
  "user_has_agent_visibility user =
     (case user of
        None \<Rightarrow> False
      | Some u \<Rightarrow> lower (strip (str_or (u_agent_visibility u) ''all'')) \<noteq> ''none'')"

definition request_has_agent_visibility :: "user_session option \<Rightarrow> bool" where
  "request_has_agent_visibility session =
     (case session of None \<Rightarrow> False | Some s \<Rightarrow> user_has_agent_visibility (Some (us_user s)))"

definition websocket_has_agent_visibility :: "user_session option \<Rightarrow> bool" where
  "websocket_has_agent_visibility session =
     (case session of None \<Rightarrow> False | Some s \<Rightarrow> user_has_agent_visibility (Some (us_user s)))"

definition request_has_minimum_role :: "user_session option \<Rightarrow> string \<Rightarrow> bool" where
  "request_has_minimum_role session minimum_role =
     (case session of
        None \<Rightarrow> False
      | Some s \<Rightarrow> has_minimum_role (Some (u_roles (us_user s))) minimum_role)"

definition websocket_has_minimum_role :: "user_session option \<Rightarrow> string \<Rightarrow> bool" where
  "websocket_has_minimum_role session minimum_role =
     (case session of
        None \<Rightarrow> False
      | Some s \<Rightarrow> has_minimum_role (Some (u_roles (us_user s))) minimum_role)"

section \<open>The login policy\<close>

record access_decision =
  ad_allow_login :: bool
  ad_agent_visibility :: string

definition is_subject_or_group_allowed ::
    "access_settings \<Rightarrow> string \<Rightarrow> string list \<Rightarrow> string set \<Rightarrow> bool" where
  "is_subject_or_group_allowed access subject group_ids matched =
     (let allowed_subjects = filter (\<lambda>s. s \<noteq> []) (map strip (ac_allowed_user_subjects access));
          allowed_groups = filter (\<lambda>s. s \<noteq> []) (map strip (ac_allowed_group_ids access))
      in subject \<in> set allowed_subjects \<or>
         set allowed_groups \<inter> set group_ids \<noteq> {} \<or>
         (ac_allow_mapped_groups access \<and> matched \<noteq> {}))"

definition evaluate_identity_access ::
    "identity_settings \<Rightarrow> string \<Rightarrow> string list \<Rightarrow> string set \<Rightarrow> access_decision" where
  "evaluate_identity_access identity subject group_ids matched =
     (let access = id_access identity in
      if ac_mode access = ''allow_all''
      then \<lparr>ad_allow_login = True, ad_agent_visibility = ''all''\<rparr>
      else
        (let is_allowed = is_subject_or_group_allowed access subject group_ids matched in
         if ac_mode access = ''deny_unlisted''
         then \<lparr>ad_allow_login = is_allowed,
               ad_agent_visibility = (if is_allowed then ''all'' else ''none'')\<rparr>
         else if ac_mode access = ''allow_limited''
         then \<lparr>ad_allow_login = True,
               ad_agent_visibility = (if is_allowed then ''all'' else ''none'')\<rparr>
         else \<lparr>ad_allow_login = True, ad_agent_visibility = ''all''\<rparr>))"

section \<open>Remote desktop permissions\<close>

definition PERMISSION_DEFAULTS :: "(string \<times> string) list" where
  "PERMISSION_DEFAULTS =
     [(''view'', ''operator''), (''interact'', ''admin''), (''clipboard'', ''operator''),
      (''upload'', ''admin''), (''download'', ''admin''), (''recording'', ''operator''),
      (''session_kick'', ''admin'')]"

definition normalize_principals :: "pyval \<Rightarrow> string list" where
  "normalize_principals values =
     (case values of
        PList vs \<Rightarrow> dedup_casefold [] (map str_or_empty vs)
      | _ \<Rightarrow> [])"

definition normalize_role :: "pyval \<Rightarrow> string \<Rightarrow> string" where
  "normalize_role value dflt =
     (let role = lower (str_or_empty value) in if is_role role then role else dflt)"

definition bool_or_true :: "pyval \<Rightarrow> bool" where
  "bool_or_true v = (case v of PBool b \<Rightarrow> b | _ \<Rightarrow> True)"

definition normalize_permission_rule :: "pyval \<Rightarrow> string \<Rightarrow> pydict" where
  "normalize_permission_rule raw_rule default_minimum_role =
     (let rule = as_dict raw_rule;
          minimum_role = (if dget rule ''minimum_role'' \<noteq> PNone
                          then normalize_role (dget rule ''minimum_role'') default_minimum_role
                          else default_minimum_role)
      in [(''enabled'', PBool (bool_or_true (dget rule ''enabled''))),
          (''minimum_role'', PStr minimum_role),
          (''users'', PList (map PStr (normalize_principals (dget rule ''users'')))),
          (''groups'', PList (map PStr (normalize_principals (dget rule ''groups''))))])"

text \<open>The rule a permission gets when the policy names none: from the fields of the older format.\<close>

definition legacy_rule :: "pydict \<Rightarrow> string \<Rightarrow> pyval" where
  "legacy_rule policy permission =
     (let view_role = normalize_role (dget policy ''minimum_role'') ''operator'';
          interact_role = normalize_role (dget policy ''interactive_minimum_role'') ''admin'';
          transfer = as_dict (dget policy ''file_transfer'')
      in if permission = ''view'' then PDict [(''minimum_role'', PStr view_role)]
         else if permission = ''interact'' then PDict [(''minimum_role'', PStr interact_role)]
         else if permission \<in> {''clipboard'', ''recording''}
           then PDict [(''minimum_role'', PStr view_role)]
         else if permission = ''upload''
           then PDict [(''minimum_role'', PStr interact_role),
                       (''enabled'', PBool (bool_or_true (dget transfer ''upload_enabled'')))]
         else if permission = ''download''
           then PDict [(''minimum_role'', PStr interact_role),
                       (''enabled'', PBool (bool_or_true (dget transfer ''download_enabled'')))]
         else PNone)"

definition normalize_guacamole_access_policy :: "pyval \<Rightarrow> pydict" where
  "normalize_guacamole_access_policy raw_policy =
     (let policy = as_dict raw_policy;
          permissions = as_dict (dget policy ''permissions'')
      in [(''permissions'', PDict (map (\<lambda>(permission, minimum_role).
             (permission,
              PDict (normalize_permission_rule
                (if dget permissions permission = PNone then legacy_rule policy permission
                 else dget permissions permission) minimum_role)))
           PERMISSION_DEFAULTS))])"

record principal_context =
  pc_roles :: "string list"
  pc_subject :: string
  pc_group_ids :: "string list"

definition build_guacamole_principal_context :: "user_identity option \<Rightarrow> principal_context" where
  "build_guacamole_principal_context user =
     (case user of
        None \<Rightarrow> \<lparr>pc_roles = [''viewer''], pc_subject = [], pc_group_ids = []\<rparr>
      | Some u \<Rightarrow> \<lparr>pc_roles = u_roles u, pc_subject = strip (u_subject u),
                   pc_group_ids = filter (\<lambda>g. g \<noteq> []) (map strip (u_group_ids u))\<rparr>)"

text \<open>The strings of a list: what iterating over \<open>rule.get("users") or []\<close> yields after normalisation.\<close>

definition string_items :: "pyval \<Rightarrow> string list" where
  "string_items v = (case v of PList vs \<Rightarrow> map py_str vs | _ \<Rightarrow> [])"

definition has_guacamole_permission :: "pyval \<Rightarrow> user_identity option \<Rightarrow> string \<Rightarrow> bool" where
  "has_guacamole_permission policy user permission =
     (let rules = as_dict (dget (normalize_guacamole_access_policy policy) ''permissions'')
      in case dget rules permission of
           PDict rule \<Rightarrow>
             (if \<not> truthy (dget rule ''enabled'') then False
              else
                (let pc = build_guacamole_principal_context user;
                     subject = casefold (pc_subject pc);
                     allowed_groups = map casefold (string_items (dget rule ''groups''))
                 in has_minimum_role (Some (pc_roles pc))
                      (py_str (py_or (dget rule ''minimum_role'') (PStr ''admin''))) \<or>
                    (subject \<noteq> [] \<and>
                     subject \<in> set (map casefold (string_items (dget rule ''users'')))) \<or>
                    (\<exists>g\<in>set (pc_group_ids pc). casefold g \<in> set allowed_groups)))
         | _ \<Rightarrow> False)"

definition attach_effective_permissions :: "pyval \<Rightarrow> user_identity option \<Rightarrow> pydict" where
  "attach_effective_permissions policy user =
     (let normalized = normalize_guacamole_access_policy policy
      in AList.update ''effective_permissions''
           (PDict (map (\<lambda>(permission, _).
                (permission, PBool (has_guacamole_permission (PDict normalized) user permission)))
              PERMISSION_DEFAULTS))
           normalized)"

definition extract_guacamole_access_policy :: "pyval \<Rightarrow> pydict" where
  "extract_guacamole_access_policy agent_state =
     (case agent_state of
        PDict state \<Rightarrow>
          (let agent_record = (case dget state ''__agent_record'' of PDict r \<Rightarrow> r | _ \<Rightarrow> state);
               metadata = as_dict (dget agent_record ''metadata'');
               guacamole = as_dict (dget metadata ''guacamole'');
               raw_policy = as_dict (dget guacamole ''access'');
               legacy = as_dict (dget guacamole ''file_transfer'');
               raw_policy' = (if legacy \<noteq> []
                 then AList.update ''file_transfer''
                        (PDict (dupdate (dupdate [] (as_dict (dget raw_policy ''file_transfer''))) legacy))
                        (dupdate [] raw_policy)
                 else raw_policy)
           in normalize_guacamole_access_policy (PDict raw_policy'))
      | _ \<Rightarrow> normalize_guacamole_access_policy PNone)"

section \<open>Roles\<close>

lemma is_role_iff: "is_role r \<longleftrightarrow> r \<in> {''viewer'', ''operator'', ''admin''}"
  by (auto simp: is_role_def ROLE_ORDER_def)

lemma role_clean: "is_role r \<Longrightarrow> lower (strip r) = r"
proof -
  have "lower (strip ''viewer'') = ''viewer''" "lower (strip ''operator'') = ''operator''"
    "lower (strip ''admin'') = ''admin''" by code_simp+
  then show "is_role r \<Longrightarrow> lower (strip r) = r" by (auto simp: is_role_iff)
qed

lemma role_rank_simps [simp]:
  "role_rank ''viewer'' = 0" "role_rank ''operator'' = 1" "role_rank ''admin'' = 2"
  by (simp_all add: role_rank_def ROLE_ORDER_def)

lemma normalize_roles_neq_Nil [simp]: "normalize_roles rs \<noteq> []"
  by (simp add: normalize_roles_def Let_def)

lemma normalize_roles_roles: "r \<in> set (normalize_roles rs) \<Longrightarrow> is_role r"
  by (auto simp: normalize_roles_def Let_def is_role_iff split: if_splits)

lemma highest_in: "get_highest_role rs \<in> set (normalize_roles rs)"
proof -
  have "get_highest_role rs \<in> insert (hd (normalize_roles rs)) (set (tl (normalize_roles rs)))"
    unfolding get_highest_role_def Let_def by (rule max_by_in)
  then show ?thesis using hd_in_set [OF normalize_roles_neq_Nil, of rs]
    by (metis insert_iff list.set_sel(2) normalize_roles_neq_Nil)
qed

lemma highest_ge: "r \<in> set (normalize_roles rs) \<Longrightarrow> role_rank r \<le> role_rank (get_highest_role rs)"
proof -
  assume "r \<in> set (normalize_roles rs)"
  then have "r \<in> insert (hd (normalize_roles rs)) (set (tl (normalize_roles rs)))"
    by (metis list.exhaust_sel list.set_intros list.simps(15) normalize_roles_neq_Nil)
  then show ?thesis unfolding get_highest_role_def Let_def by (rule max_by_ge)
qed

text \<open>The rank of a list of roles, as the code sees it.\<close>

definition rank_of :: "string list \<Rightarrow> nat" where
  "rank_of rs = Max (insert 0 ((\<lambda>r. role_rank (lower (strip r))) ` {r \<in> set rs. is_role (lower (strip r))}))"

lemma rank_highest: "role_rank (get_highest_role (Some rs)) = rank_of rs"
proof -
  let ?S = "(\<lambda>r. role_rank (lower (strip r))) ` {r \<in> set rs. is_role (lower (strip r))}"
  have img: "role_rank ` set (normalize_roles (Some rs)) = (if ?S = {} then {0} else ?S)"
    by (auto simp: normalize_roles_def Let_def filter_empty_conv)
  have "role_rank (get_highest_role (Some rs)) \<in> role_rank ` set (normalize_roles (Some rs))"
    using highest_in by blast
  then have in_S: "role_rank (get_highest_role (Some rs)) \<in> insert 0 ?S" using img by (auto split: if_splits)
  have "n \<le> role_rank (get_highest_role (Some rs))" if "n \<in> insert 0 ?S" for n
  proof (cases "n = 0")
    case False
    then have "n \<in> role_rank ` set (normalize_roles (Some rs))" using that img by auto
    then show ?thesis using highest_ge by blast
  qed simp
  then show ?thesis unfolding rank_of_def using in_S
    by (intro Max_eqI [symmetric]) auto
qed

lemma has_minimum_role_iff:
  "has_minimum_role (Some rs) m = ((if is_role m then role_rank m else 2) \<le> rank_of rs)"
  unfolding has_minimum_role_def rank_highest [symmetric]
  by (auto simp: is_role_def role_rank_def ROLE_ORDER_def Let_def)

text \<open>A user has the minimum role exactly if the highest of the user's known roles ranks
  at least as high; a minimum role that is not a known role demands an administrator. So more roles
  never take a permission away, and unknown roles give none.\<close>

theorem minimum_role_threshold:
  "has_minimum_role (Some rs) m = ((if is_role m then role_rank m else 2) \<le> rank_of rs) \<and>
   (set rs \<subseteq> set rs' \<longrightarrow> has_minimum_role (Some rs) m \<longrightarrow> has_minimum_role (Some rs') m) \<and>
   ((\<forall>r\<in>set rs. \<not> is_role (lower (strip r))) \<longrightarrow>
      has_minimum_role (Some rs) m = (m = ''viewer''))"
proof -
  note 1 = has_minimum_role_iff
  have "rank_of rs \<le> rank_of rs'" if "set rs \<subseteq> set rs'"
    unfolding rank_of_def using that by (intro Max_mono) auto
  moreover have "rank_of rs = 0" if "\<forall>r\<in>set rs. \<not> is_role (lower (strip r))"
  proof -
    have "{r \<in> set rs. is_role (lower (strip r))} = {}" using that by blast
    then show ?thesis unfolding rank_of_def by (simp only: image_empty Max_singleton)
  qed
  ultimately show ?thesis unfolding 1 by (auto simp: is_role_iff)
qed

theorem minimum_role_threshold_witness:
  "has_minimum_role (Some ['' Admin '', ''x'']) ''nonsense''"
proof -
  have "has_minimum_role (Some ['' Admin '']) ''nonsense''" by code_simp
  moreover have "set ['' Admin ''] \<subseteq> set ['' Admin '', ''x'']" by simp
  ultimately show ?thesis
    using minimum_role_threshold [of "['' Admin '']" "''nonsense''" "['' Admin '', ''x'']"] by blast
qed

section \<open>Normalised policies\<close>

lemma normalize_role_is_role: "is_role d \<Longrightarrow> is_role (normalize_role v d)"
  by (simp add: normalize_role_def Let_def)

lemma normalize_role_idem [simp]:
  "is_role d \<Longrightarrow> normalize_role (PStr (normalize_role v d)) d = normalize_role v d"
proof -
  assume d: "is_role d"
  have "lower (strip (lower (str_or_empty v))) = lower (str_or_empty v)"
    by (simp add: strip_lower)
  then show ?thesis using role_clean [OF d]
    by (cases "is_role (lower (str_or_empty v))") (simp_all add: normalize_role_def Let_def)
qed

lemma normalize_principals_idem [simp]:
  "normalize_principals (PList (map PStr (normalize_principals v))) = normalize_principals v"
proof -
  have s: "map strip (normalize_principals v) = normalize_principals v"
  proof (rule map_idI)
    fix x assume "x \<in> set (normalize_principals v)"
    then have "\<exists>w. x = str_or_empty w"
      using dedup_casefold_subset by (fastforce simp: normalize_principals_def split: pyval.splits)
    then show "strip x = x" by auto
  qed
  have "normalize_principals (PList (map PStr (normalize_principals v))) =
      dedup_casefold [] (map strip (normalize_principals v))"
    by (simp add: normalize_principals_def comp_def)
  also have "\<dots> = normalize_principals v"
    unfolding s by (simp add: normalize_principals_def split: pyval.split)
  finally show ?thesis .
qed

lemma rule_idem:
  "is_role d \<Longrightarrow> normalize_permission_rule (PDict (normalize_permission_rule r d)) d = normalize_permission_rule r d"
  using role_clean [of d] normalize_role_idem [of d]
  by (auto simp: normalize_permission_rule_def Let_def bool_or_true_def normalize_role_def [of "PStr d"])

lemma map_of_permissions:
  "map_of (map (\<lambda>(p, m). (p, f p m)) xs) p = map_option (f p) (map_of xs p)"
  by (induction xs) auto

lemma permission_default_role: "map_of PERMISSION_DEFAULTS p = Some m \<Longrightarrow> is_role m"
  by (auto simp: PERMISSION_DEFAULTS_def is_role_iff split: if_splits)

text \<open>Normalising an access policy twice is normalising it once, whatever the stored JSON is:
  the normalised policy is stable, its seven rules are always present, every minimum role in it is
  a known role, and no principal is listed twice or empty.\<close>

theorem policy_normal_form:
  "normalize_guacamole_access_policy (PDict (normalize_guacamole_access_policy raw)) =
     normalize_guacamole_access_policy raw \<and>
   list_all (\<lambda>(p, m).
      \<exists>rule. dget (as_dict (dget (normalize_guacamole_access_policy raw) ''permissions'')) p = PDict rule \<and>
        (\<exists>r us gs. dget rule ''minimum_role'' = PStr r \<and> is_role r \<and>
           dget rule ''users'' = PList (map PStr us) \<and> dget rule ''groups'' = PList (map PStr gs) \<and>
           distinct (map casefold us) \<and> distinct (map casefold gs) \<and> [] \<notin> set us \<and> [] \<notin> set gs)) PERMISSION_DEFAULTS"
proof
  have r: "is_role ''operator''" "is_role ''admin''" by (simp_all add: is_role_iff)
  show "normalize_guacamole_access_policy (PDict (normalize_guacamole_access_policy raw)) =
     normalize_guacamole_access_policy raw"
    by (simp add: normalize_guacamole_access_policy_def PERMISSION_DEFAULTS_def Let_def rule_idem r)
  show "list_all (\<lambda>(p, m).
      \<exists>rule. dget (as_dict (dget (normalize_guacamole_access_policy raw) ''permissions'')) p = PDict rule \<and>
        (\<exists>r us gs. dget rule ''minimum_role'' = PStr r \<and> is_role r \<and>
           dget rule ''users'' = PList (map PStr us) \<and> dget rule ''groups'' = PList (map PStr gs) \<and>
           distinct (map casefold us) \<and> distinct (map casefold gs) \<and> [] \<notin> set us \<and> [] \<notin> set gs)) PERMISSION_DEFAULTS"
  unfolding list_all_iff
  proof (intro ballI, clarify)
    fix p m assume pm: "(p, m) \<in> set PERMISSION_DEFAULTS"
    then have mp: "map_of PERMISSION_DEFAULTS p = Some m"
      by (intro map_of_is_SomeI) (simp_all add: PERMISSION_DEFAULTS_def)
    define rr where "rr = (let policy = as_dict raw; permissions = as_dict (dget policy ''permissions'')
      in if dget permissions p = PNone then legacy_rule policy p else dget permissions p)"
    have g: "dget (as_dict (dget (normalize_guacamole_access_policy raw) ''permissions'')) p =
        PDict (normalize_permission_rule rr m)"
      by (simp add: normalize_guacamole_access_policy_def Let_def dget_def [of "map _ _"]
          map_of_permissions mp rr_def)
    have n: "distinct (map casefold (normalize_principals v)) \<and> [] \<notin> set (normalize_principals v)" for v
      using dedup_casefold_nonempty by (auto simp: normalize_principals_def dedup_casefold_distinct split: pyval.split)
    show "\<exists>rule. dget (as_dict (dget (normalize_guacamole_access_policy raw) ''permissions'')) p = PDict rule \<and>
        (\<exists>r us gs. dget rule ''minimum_role'' = PStr r \<and> is_role r \<and>
           dget rule ''users'' = PList (map PStr us) \<and> dget rule ''groups'' = PList (map PStr gs) \<and>
           distinct (map casefold us) \<and> distinct (map casefold gs) \<and> [] \<notin> set us \<and> [] \<notin> set gs)"
      unfolding g using n permission_default_role [OF mp] normalize_role_is_role
      by (auto simp: normalize_permission_rule_def Let_def)
  qed
qed


section \<open>Permissions\<close>

definition rule_of :: "pyval \<Rightarrow> string \<Rightarrow> pydict option" where
  "rule_of raw p =
     map_option (\<lambda>m. normalize_permission_rule
       (if dget (as_dict (dget (as_dict raw) ''permissions'')) p = PNone then legacy_rule (as_dict raw) p
        else dget (as_dict (dget (as_dict raw) ''permissions'')) p) m) (map_of PERMISSION_DEFAULTS p)"

lemma dget_rule:
  "dget (as_dict (dget (normalize_guacamole_access_policy raw) ''permissions'')) p =
     (case rule_of raw p of None \<Rightarrow> PNone | Some r \<Rightarrow> PDict r)"
  by (auto simp: normalize_guacamole_access_policy_def rule_of_def Let_def dget_def [of "map _ _"]
      map_of_permissions split: option.split)

lemma string_items_strings [simp]: "string_items (PList (map PStr xs)) = xs"
  by (simp add: string_items_def comp_def)

lemma permission_iff:
  "has_guacamole_permission raw (Some u) p \<longleftrightarrow>
     (\<exists>rule. rule_of raw p = Some rule \<and> dget rule ''enabled'' = PBool True \<and>
       (has_minimum_role (Some (u_roles u)) (py_str (dget rule ''minimum_role'')) \<or>
        (strip (u_subject u) \<noteq> [] \<and>
         casefold (strip (u_subject u)) \<in> casefold ` set (string_items (dget rule ''users''))) \<or>
        (\<exists>g\<in>set (u_group_ids u). strip g \<noteq> [] \<and>
         casefold (strip g) \<in> casefold ` set (string_items (dget rule ''groups'')))))"
proof (cases "rule_of raw p")
  case None
  then show ?thesis by (simp add: has_guacamole_permission_def dget_rule)
next
  case (Some rule)
  then obtain x m where rule: "rule = normalize_permission_rule x m" "map_of PERMISSION_DEFAULTS p = Some m"
    by (auto simp: rule_of_def)
  obtain b r us gs where r: "rule = [(''enabled'', PBool b), (''minimum_role'', PStr r),
      (''users'', PList (map PStr us)), (''groups'', PList (map PStr gs))]" "is_role r"
    using rule permission_default_role normalize_role_is_role
    by (auto simp: normalize_permission_rule_def Let_def)
  then have rn: "r \<noteq> []" by (auto simp: is_role_iff)
  have lo: "casefold t = [] \<longleftrightarrow> t = []" for t by (simp add: lower_def)
  show ?thesis using rn
    by (auto simp: has_guacamole_permission_def dget_rule Some r(1) build_guacamole_principal_context_def
        Let_def py_or_def lo)
qed

definition plain_rule :: "string \<Rightarrow> pydict" where
  "plain_rule m = [(''enabled'', PBool True), (''minimum_role'', PStr m), (''users'', PList []),
     (''groups'', PList [])]"

lemma default_rules:
  "rule_of PNone ''view'' = Some (plain_rule ''operator'')"
  "rule_of PNone ''clipboard'' = Some (plain_rule ''operator'')"
  "rule_of PNone ''recording'' = Some (plain_rule ''operator'')"
  "rule_of PNone ''interact'' = Some (plain_rule ''admin'')"
  "rule_of PNone ''upload'' = Some (plain_rule ''admin'')"
  "rule_of PNone ''download'' = Some (plain_rule ''admin'')"
  "rule_of PNone ''session_kick'' = Some (plain_rule ''admin'')"
  by code_simp+

lemma plain_rule_grants:
  "rule_of raw p = Some (plain_rule m) \<Longrightarrow>
   has_guacamole_permission raw (Some u) p = has_minimum_role (Some (u_roles u)) m"
  unfolding permission_iff by (simp add: plain_rule_def string_items_def)

text \<open>Without a configured policy nobody is listed by name: operators (and
  administrators) may view, use the clipboard and record, only administrators may interact, transfer
  files and end sessions, a viewer may do nothing, and no other permission exists.\<close>

theorem default_policy_permissions:
  "has_guacamole_permission PNone (Some u) p =
     (if p \<in> {''view'', ''clipboard'', ''recording''} then 1 \<le> rank_of (u_roles u)
      else if p \<in> {''interact'', ''upload'', ''download'', ''session_kick''} then 2 \<le> rank_of (u_roles u)
      else False)"
proof (cases "map_of PERMISSION_DEFAULTS p")
  case None
  then have "\<not> has_guacamole_permission PNone (Some u) p"
    unfolding permission_iff by (simp add: rule_of_def)
  moreover have "p \<notin> {''view'', ''clipboard'', ''recording'', ''interact'', ''upload'', ''download'', ''session_kick''}"
    using None by (auto simp: PERMISSION_DEFAULTS_def)
  ultimately show ?thesis by auto
next
  case (Some m)
  then have "p \<in> {''view'', ''clipboard'', ''recording'', ''interact'', ''upload'', ''download'', ''session_kick''}"
    by (auto simp: PERMISSION_DEFAULTS_def split: if_splits)
  then show ?thesis
    using default_rules [THEN plain_rule_grants, of u]
    by (elim insertE emptyE) (simp_all add: has_minimum_role_iff is_role_iff)
qed


definition sample_user :: "string list \<Rightarrow> user_identity" where
  "sample_user roles =
     \<lparr>u_subject = ''s1'', u_username = ''ann'', u_display_name = [], u_email = [], u_avatar_url = [],
      u_avatar_initials = [], u_auth_provider = ''azure_entra'', u_roles = roles,
      u_agent_visibility = ''all'', u_group_ids = [''g1''], u_group_names = [], u_claims = []\<rparr>"


section \<open>Logging in\<close>

text \<open>The login policy refuses exactly the unlisted users of the mode deny_unlisted and
  hides the agents exactly from the unlisted users of deny_unlisted and allow_limited; a user who is
  listed by subject or group, or has a mapped group where mappings count, is never refused; and more
  groups never make an allowed user refused.\<close>

theorem login_policy:
  "ad_allow_login (evaluate_identity_access i subject gs ms) =
     (ac_mode (id_access i) \<noteq> ''deny_unlisted'' \<or>
      is_subject_or_group_allowed (id_access i) subject gs ms) \<and>
   (ad_agent_visibility (evaluate_identity_access i subject gs ms) = ''none'') =
     (ac_mode (id_access i) \<in> {''deny_unlisted'', ''allow_limited''} \<and>
      \<not> is_subject_or_group_allowed (id_access i) subject gs ms) \<and>
   (set gs \<subseteq> set gs' \<longrightarrow> ms \<subseteq> ms' \<longrightarrow> ad_allow_login (evaluate_identity_access i subject gs ms) \<longrightarrow>
      ad_allow_login (evaluate_identity_access i subject gs' ms'))"
  by (auto simp: evaluate_identity_access_def is_subject_or_group_allowed_def Let_def)

theorem login_policy_witness:
  "ad_allow_login (evaluate_identity_access (default_identity_settings\<lparr>id_access := default_access_settings
      \<lparr>ac_mode := ''deny_unlisted'', ac_allowed_group_ids := [''g1'']\<rparr>\<rparr>) ''s'' [''g1'', ''g2''] {})"
proof -
  let ?i = "default_identity_settings\<lparr>id_access := default_access_settings
      \<lparr>ac_mode := ''deny_unlisted'', ac_allowed_group_ids := [''g1'']\<rparr>\<rparr>"
  have "ad_allow_login (evaluate_identity_access ?i ''s'' [''g1''] {})" by code_simp
  moreover have "set [''g1''] \<subseteq> set [''g1'', ''g2'']" by simp
  ultimately show ?thesis
    using login_policy [of ?i "''s''" "[''g1'']" "{}" "[''g1'', ''g2'']" "{}"] by blast
qed

end
