(* ===== verification/User_Service.thy ===== *)
theory User_Service
  imports Authz Agent_JWT
begin

text \<open>
  Users of the web frontend (\<open>users/service.py\<close>, \<open>users/helpers.py\<close>, \<open>users/models.py\<close>,
  \<open>users/recent_users_db.py\<close>): login of the local administrator, OpenID Connect login with
  Microsoft, sessions, and the identity settings. The dictionaries of sessions and of pending logins
  are association lists. The clock, fresh tokens, the environment, SHA-256 and the outcome of an
  HTTP request are arguments. A pydantic model with \<open>str_strip_whitespace\<close> strips the texts that
  are not already clean.
\<close>

section \<open>Text helpers\<close>

definition clean_str :: "string option \<Rightarrow> string" where
  "clean_str v = strip (ostr_or v [])"

text \<open>\<open>str.split()\<close>, \<open>s.replace(c, d)\<close> on characters, \<open>str.upper\<close>, and \<open>t in s\<close>.\<close>

definition split_ws :: "string \<Rightarrow> string list" where
  "split_ws s = filter (\<lambda>w. w \<noteq> [])
     (split_on (CHR '' '') (map (\<lambda>c. if is_space c then CHR '' '' else c) s))"

definition replace_chars :: "char set \<Rightarrow> char \<Rightarrow> string \<Rightarrow> string" where
  "replace_chars cs d s = map (\<lambda>c. if c \<in> cs then d else c) s"

definition upper_char :: "char \<Rightarrow> char" where
  "upper_char c = (let n = of_char c :: nat in if 97 \<le> n \<and> n \<le> 122 then char_of (n - 32) else c)"

fun contains :: "string \<Rightarrow> string \<Rightarrow> bool" where
  "contains s t = (starts_with t s \<or> (case s of [] \<Rightarrow> False | _ # s' \<Rightarrow> contains s' t))"

declare contains.simps [simp del]

definition truncate_message :: "string \<Rightarrow> nat \<Rightarrow> string" where
  "truncate_message value lim =
     (let cleaned = join '' '' (split_ws value)
      in if length cleaned \<le> lim then cleaned else take (lim - 3) cleaned @ ''...'')"

definition avatar_tokens :: "string \<Rightarrow> string list" where
  "avatar_tokens value =
     (let cleaned = strip value;
          local = (if CHR ''@'' \<in> set cleaned then before_first (CHR ''@'') cleaned else cleaned)
      in split_ws (replace_chars {CHR 0x5C, CHR ''.'', CHR ''_'', CHR ''-''} (CHR '' '') local))"

definition build_avatar_initials :: "string list \<Rightarrow> string" where
  "build_avatar_initials values =
     (case find (\<lambda>ts. ts \<noteq> []) (map avatar_tokens values) of
        None \<Rightarrow> ''U''
      | Some [t] \<Rightarrow> map upper_char (take 2 t)
      | Some (t # u # _) \<Rightarrow> map upper_char [hd t, hd u]
      | Some [] \<Rightarrow> ''U'')"

definition decode_unverified_jwt :: "string \<Rightarrow> pydict result" where
  "decode_unverified_jwt token =
     (case split_on (CHR ''.'') token of
        [_, payload, _] \<Rightarrow>
          (if \<not> is_ascii payload then Inl (ValueError ''non-ASCII base64'')
           else
             (case b64_decode (payload @ pad_for payload) of
                None \<Rightarrow> Inl (ValueError ''Incorrect padding'')
              | Some bytes \<Rightarrow>
                  if \<not> is_ascii bytes then Inl (ValueError ''invalid utf-8'')
                  else
                    (case json_loads bytes of
                       None \<Rightarrow> Inl (ValueError ''JSONDecodeError'')
                     | Some (PDict d) \<Rightarrow> Inr d
                     | Some _ \<Rightarrow> Inl (ValueError ''Invalid JWT payload''))))
      | _ \<Rightarrow> Inl (ValueError ''Invalid JWT format''))"

text \<open>What \<open>urlopen\<close> may do: a body, an HTTP error with its status and body, or no connection.\<close>

datatype http_outcome = HttpBody string | HttpError int string | NoConnection string

definition read_error_payload :: "string \<Rightarrow> pydict" where
  "read_error_payload raw_payload =
     (let decoded = strip raw_payload in
      if decoded = [] then []
      else (case json_loads decoded of
              Some (PDict d) \<Rightarrow> d
            | _ \<Rightarrow> [(''raw'', PStr decoded)]))"

definition format_http_error :: "string \<Rightarrow> string \<Rightarrow> int \<Rightarrow> string \<Rightarrow> string" where
  "format_http_error provider_label action code body =
     (let payload = read_error_payload body;
          oauth_error = str_or_empty (dget payload ''error'');
          descr = truncate_message (py_str (py_or (dget payload ''error_description'')
            (py_or (dget payload ''error_summary'') (py_or (dget payload ''message'')
              (py_or (dget payload ''raw'') (PStr [])))))) 500;
          m1 = provider_label @ '' '' @ action @ '' failed'';
          m2 = (if oauth_error \<noteq> [] then m1 @ '': '' @ oauth_error
                else m1 @ '' with HTTP '' @ str_int code);
          m3 = (if descr \<noteq> [] then m2 @ '' - '' @ descr else m2)
      in case dget payload ''error_codes'' of
           PList (c # cs) \<Rightarrow> m3 @ '' (codes: '' @ join '', '' (map py_str (take 5 (c # cs))) @ '')''
         | _ \<Rightarrow> m3)"

text \<open>\<open>urllib.parse.urlencode\<close>.\<close>

definition url_safe :: "char \<Rightarrow> bool" where
  "url_safe c =
     (let n = of_char c :: nat in
      (48 \<le> n \<and> n \<le> 57) \<or> (65 \<le> n \<and> n \<le> 90) \<or> (97 \<le> n \<and> n \<le> 122) \<or>
      c \<in> {CHR ''_'', CHR ''.'', CHR ''-'', CHR ''~''})"

definition quote_plus :: "string \<Rightarrow> string" where
  "quote_plus s =
     concat (map (\<lambda>c. if url_safe c then [c] else if c = CHR '' '' then [CHR ''+'']
                       else [CHR ''%'', upper_char (hex_digit (of_char c div 16)),
                             upper_char (hex_digit (of_char c mod 16))]) s)"

definition urlencode :: "(string \<times> string) list \<Rightarrow> string" where
  "urlencode kvs = join ''&'' (map (\<lambda>(k, v). quote_plus k @ ''='' @ quote_plus v) kvs)"

section \<open>State\<close>

record pending_login =
  pl_state :: string
  pl_nonce :: string
  pl_code_verifier :: string
  pl_redirect_uri :: string
  pl_return_to :: string
  pl_expires_at :: int

record user_service =
  sessions :: "(string \<times> user_session) list"
  pending_oidc :: "(string \<times> pending_login) list"
  metadata_cache :: "pydict option"
  metadata_fetched_at :: int
  has_recent_db :: bool
  scheduled_records :: "user_identity list"

definition new_user_service :: "bool \<Rightarrow> user_service" where
  "new_user_service recent =
     \<lparr>sessions = [], pending_oidc = [], metadata_cache = None, metadata_fetched_at = 0,
      has_recent_db = recent, scheduled_records = []\<rparr>"

section \<open>Sessions\<close>

definition purge_expired_sessions :: "int \<Rightarrow> user_service \<Rightarrow> user_service" where
  "purge_expired_sessions now us = us\<lparr>sessions := filter (\<lambda>(t, s). now < us_expires_at s) (sessions us)\<rparr>"

definition purge_expired_pending :: "int \<Rightarrow> user_service \<Rightarrow> user_service" where
  "purge_expired_pending now us =
     us\<lparr>pending_oidc := filter (\<lambda>(t, p). now < pl_expires_at p) (pending_oidc us)\<rparr>"

definition session_ttl :: "identity_settings \<Rightarrow> int" where
  "session_ttl identity =
     max 900 (if id_session_ttl_seconds identity \<noteq> 0 then id_session_ttl_seconds identity else 43200)"

definition create_session ::
    "int \<Rightarrow> string \<Rightarrow> identity_settings \<Rightarrow> user_identity \<Rightarrow> user_service \<Rightarrow> user_service \<times> user_session"
  where
  "create_session now access_token identity user us =
     (let us1 = purge_expired_sessions now us;
          s = \<lparr>us_access_token = access_token, us_user = user, us_created_at = now,
               us_expires_at = now + session_ttl identity, us_last_seen_at = now\<rparr>;
          us2 = us1\<lparr>sessions := AList.update access_token s (sessions us1)\<rparr>
      in (if has_recent_db us2 then us2\<lparr>scheduled_records := scheduled_records us2 @ [user]\<rparr> else us2, s))"

definition get_session ::
    "int \<Rightarrow> string option \<Rightarrow> user_service \<Rightarrow> user_service \<times> user_session option" where
  "get_session now access_token us =
     (let us1 = purge_expired_sessions now us in
      case access_token of
        None \<Rightarrow> (us1, None)
      | Some tok \<Rightarrow>
          if tok = [] then (us1, None)
          else
            (case map_of (sessions us1) tok of
               None \<Rightarrow> (us1, None)
             | Some s \<Rightarrow>
                 (let s' = s\<lparr>us_last_seen_at := now\<rparr>
                  in (us1\<lparr>sessions := AList.update tok s' (sessions us1)\<rparr>, Some s'))))"

definition revoke_session :: "string option \<Rightarrow> user_service \<Rightarrow> user_service" where
  "revoke_session access_token us =
     (case access_token of
        None \<Rightarrow> us
      | Some tok \<Rightarrow> if tok = [] then us else us\<lparr>sessions := AList.delete tok (sessions us)\<rparr>)"

fun first_by_subject :: "string list \<Rightarrow> user_session list \<Rightarrow> user_identity list" where
  "first_by_subject seen [] = []"
| "first_by_subject seen (s # ss) =
     (let subject = strip (u_subject (us_user s)) in
      if subject = [] \<or> subject \<in> set seen then first_by_subject seen ss
      else us_user s # first_by_subject (subject # seen) ss)"

definition list_active_identities :: "int \<Rightarrow> user_service \<Rightarrow> user_service \<times> user_identity list" where
  "list_active_identities now us =
     (let us1 = purge_expired_sessions now us
      in (us1, first_by_subject [] (map snd (sessions us1))))"

section \<open>Configuration\<close>

record public_auth_config =
  pac_provider :: string
  pac_provider_locked :: bool
  pac_local_bootstrap_available :: bool
  pac_azure_configured :: bool
  pac_azure_active :: bool
  pac_microsoft_login_available :: bool
  pac_client_id_configured :: bool
  pac_tenant_id_configured :: bool
  pac_client_secret_configured :: bool
  pac_group_mapping_count :: int

definition local_bootstrap_available :: "env \<Rightarrow> identity_settings \<Rightarrow> bool" where
  "local_bootstrap_available env identity =
     (if id_provider identity = ''azure_entra'' \<and> id_provider_locked identity then False
      else clean_str (env ''VM_AGENT_LOCAL_ADMIN_USERNAME'') \<noteq> [] \<and>
           clean_str (env ''VM_AGENT_LOCAL_ADMIN_PASSWORD'') \<noteq> [])"

definition azure_is_active :: "identity_settings \<Rightarrow> bool" where
  "azure_is_active identity =
     (id_provider identity = ''azure_entra'' \<and> truthy (opt_int (az_activated_at (id_azure identity))))"

definition get_public_auth_config :: "env \<Rightarrow> identity_settings \<Rightarrow> public_auth_config" where
  "get_public_auth_config env identity =
     (let azure = id_azure identity;
          azure_configured = (strip (az_tenant_id azure) \<noteq> [] \<and> strip (az_client_id azure) \<noteq> []);
          azure_active = azure_is_active identity
      in \<lparr>pac_provider = id_provider identity, pac_provider_locked = id_provider_locked identity,
          pac_local_bootstrap_available = local_bootstrap_available env identity,
          pac_azure_configured = azure_configured, pac_azure_active = azure_active,
          pac_microsoft_login_available = (azure_active \<and> azure_configured),
          pac_client_id_configured = (strip (az_client_id azure) \<noteq> []),
          pac_tenant_id_configured = (strip (az_tenant_id azure) \<noteq> []),
          pac_client_secret_configured = (strip (az_client_secret azure) \<noteq> []),
          pac_group_mapping_count = int (length (az_group_role_mappings azure))\<rparr>)"

definition build_settings_response_identity :: "env \<Rightarrow> identity_settings \<Rightarrow> pydict" where
  "build_settings_response_identity env identity =
     (let azure = id_azure identity; access = id_access identity in
      [(''provider'', PStr (id_provider identity)),
       (''provider_locked'', PBool (id_provider_locked identity)),
       (''session_ttl_seconds'', PInt (id_session_ttl_seconds identity)),
       (''local_bootstrap_available'', PBool (local_bootstrap_available env identity)),
       (''access'', PDict
          [(''mode'', PStr (ac_mode access)),
           (''allow_mapped_groups'', PBool (ac_allow_mapped_groups access)),
           (''allowed_user_subjects'', PList (map PStr (ac_allowed_user_subjects access))),
           (''allowed_group_ids'', PList (map PStr (ac_allowed_group_ids access)))]),
       (''azure'', PDict
          [(''tenant_id'', PStr (az_tenant_id azure)),
           (''client_id'', PStr (az_client_id azure)),
           (''authority_url'', PStr (az_authority_url azure)),
           (''redirect_path'', PStr MICROSOFT_SSO_REDIRECT_PATH),
           (''scopes'', PList (map PStr (az_scopes azure))),
           (''group_role_mappings'',
             PList (map (\<lambda>m. PDict (dump_group_mapping m)) (az_group_role_mappings azure))),
           (''client_secret_configured'', PBool (strip (az_client_secret azure) \<noteq> [])),
           (''activated_at'', opt_int (az_activated_at azure)),
           (''active'', PBool (azure_is_active identity))])])"

section \<open>Changing the identity settings\<close>

definition strip_items :: "string list \<Rightarrow> string list" where
  "strip_items xs = filter (\<lambda>s. s \<noteq> []) (map strip xs)"

definition clean_access_patch :: "access_patch \<Rightarrow> access_patch" where
  "clean_access_patch p =
     p\<lparr>acp_allowed_user_subjects := map_option strip_items (acp_allowed_user_subjects p),
       acp_allowed_group_ids := map_option strip_items (acp_allowed_group_ids p)\<rparr>"

definition immutable_changes :: "identity_settings \<Rightarrow> azure_patch \<Rightarrow> string list" where
  "immutable_changes current p =
     (let azure = id_azure current;
          changed = (\<lambda>new old. new \<noteq> None \<and> new \<noteq> Some old)
      in (if changed (azp_tenant_id p) (az_tenant_id azure) then [''tenant_id''] else [])
       @ (if changed (azp_client_id p) (az_client_id azure) then [''client_id''] else [])
       @ (if changed (azp_authority_url p) (az_authority_url azure) then [''authority_url''] else []))"

definition prepare_identity_patch ::
    "identity_settings \<Rightarrow> identity_patch \<Rightarrow> identity_patch result" where
  "prepare_identity_patch current requested =
     (if (case idp_session_ttl_seconds requested of None \<Rightarrow> False | Some n \<Rightarrow> n < 900)
        then Inl (ValueError ''Session TTL must be at least 900 seconds'')
      else
        (let requested' = requested\<lparr>idp_access := map_option clean_access_patch (idp_access requested)\<rparr> in
         case idp_azure requested of
           None \<Rightarrow> Inr requested'
         | Some p \<Rightarrow>
             if id_provider_locked current \<and> id_provider current = ''azure_entra'' \<and>
                immutable_changes current p \<noteq> []
               then Inl (ValueError (''Azure SSO provider is locked. Immutable fields cannot change: ''
                      @ join '', '' (immutable_changes current p)))
             else if azp_activate p = Some True \<and>
                (str_or (clean_str (azp_tenant_id p)) (az_tenant_id (id_azure current)) = [] \<or>
                 str_or (clean_str (azp_client_id p)) (az_client_id (id_azure current)) = [])
               then Inl (ValueError ''Azure SSO activation requires tenant_id and client_id'')
             else Inr requested'))"

definition finalize_identity_settings :: "identity_settings \<Rightarrow> identity_settings" where
  "finalize_identity_settings requested =
     (if truthy (opt_int (az_activated_at (id_azure requested))) \<and> id_provider requested \<noteq> ''azure_entra''
      then requested\<lparr>id_provider := ''azure_entra''\<rparr> else requested)"

definition complete_mapping :: "group_mapping_patch \<Rightarrow> pyval" where
  "complete_mapping m =
     PDict (dump_group_mapping
       \<lparr>gm_group_object_id = the_or (gmp_group_object_id m) [],
        gm_group_name = the_or (gmp_group_name m) [],
        gm_app_roles = the_or (gmp_app_roles m) []\<rparr>)"

definition set_in :: "string \<Rightarrow> string \<Rightarrow> pyval \<Rightarrow> pydict \<Rightarrow> pydict" where
  "set_in outer key v d =
     AList.update outer (PDict (AList.update key v (as_dict (dget d outer)))) d"

text \<open>The payload of a change, before and after it is merged into the settings.\<close>

definition activating :: "identity_patch \<Rightarrow> bool" where
  "activating patch =
     (case idp_azure patch of None \<Rightarrow> False | Some p \<Rightarrow> azp_activate p = Some True)"

definition identity_patch_payload :: "int \<Rightarrow> identity_settings \<Rightarrow> identity_patch \<Rightarrow> pydict" where
  "identity_patch_payload now current patch =
     (let pp0 = dump_identity_patch patch;
          pp1 = (case idp_azure patch of
                   None \<Rightarrow> pp0
                 | Some p \<Rightarrow>
                     (case azp_group_role_mappings p of
                        None \<Rightarrow> pp0
                      | Some ms \<Rightarrow> set_in ''azure'' ''group_role_mappings''
                          (PList (map complete_mapping ms)) pp0));
          pp2 = (if map_of pp1 ''azure'' \<noteq> None
                 then set_in ''azure'' ''redirect_path'' (PStr MICROSOFT_SSO_REDIRECT_PATH)
                        (AList.update ''azure''
                           (PDict (AList.delete ''redirect_path'' (as_dict (dget pp1 ''azure'')))) pp1)
                 else pp1)
      in if activating patch
         then set_in ''azure'' ''activated_at''
                (py_or (opt_int (az_activated_at (id_azure current))) (PInt now)) pp2
         else pp2)"

definition merge_identity_payload :: "pydict \<Rightarrow> pydict \<Rightarrow> pydict" where
  "merge_identity_payload payload pp =
     (let payload2 = dupdate payload (filter (\<lambda>(k, v). k \<notin> {''access'', ''azure''}) pp);
          payload3 = (if map_of pp ''access'' \<noteq> None
                      then AList.update ''access'' (PDict (dupdate (as_dict (dget payload2 ''access''))
                             (as_dict (dget pp ''access'')))) payload2
                      else payload2)
      in if map_of pp ''azure'' \<noteq> None
         then AList.update ''azure'' (PDict (dupdate (as_dict (dget payload3 ''azure''))
                (filter (\<lambda>(k, v). k \<noteq> ''activate'') (as_dict (dget pp ''azure''))))) payload3
         else payload3)"

definition build_identity_payload_after_update ::
    "int \<Rightarrow> identity_settings \<Rightarrow> identity_patch \<Rightarrow> pydict" where
  "build_identity_payload_after_update now current patch =
     (let payload = dump_identity_settings current
      in if dump_identity_patch patch = [] then payload
         else merge_identity_payload
           (if activating patch
            then AList.update ''provider_locked'' (PBool True)
                   (AList.update ''provider'' (PStr ''azure_entra'') payload)
            else payload)
           (identity_patch_payload now current patch))"

section \<open>The local administrator\<close>

definition authenticate_local_admin ::
    "env \<Rightarrow> identity_settings \<Rightarrow> string \<Rightarrow> string \<Rightarrow> user_identity option" where
  "authenticate_local_admin env identity username password =
     (if \<not> local_bootstrap_available env identity then None
      else
        (let expected_username = clean_str (env ''VM_AGENT_LOCAL_ADMIN_USERNAME'');
             expected_password = clean_str (env ''VM_AGENT_LOCAL_ADMIN_PASSWORD'')
         in if username \<noteq> expected_username \<or> password \<noteq> expected_password then None
            else Some
              \<lparr>u_subject = ''local:'' @ expected_username, u_username = expected_username,
               u_display_name = ''Local Admin'', u_email = [], u_avatar_url = [],
               u_avatar_initials = build_avatar_initials [''Local Admin'', expected_username],
               u_auth_provider = ''local_bootstrap'', u_roles = [''admin''],
               u_agent_visibility = ''all'', u_group_ids = [], u_group_names = [], u_claims = []\<rparr>))"

section \<open>Microsoft login\<close>

text \<open>One call of the identity provider: \<open>http_get\<close> and \<open>http_post\<close> are the network.\<close>

definition parse_http :: "string \<Rightarrow> string \<Rightarrow> string \<Rightarrow> http_outcome \<Rightarrow> pydict result" where
  "parse_http provider_label reason_prefix invalid outcome =
     (case outcome of
        HttpError code body \<Rightarrow> Inl (RuntimeError (format_http_error provider_label ''request'' code body))
      | NoConnection reason \<Rightarrow> Inl (RuntimeError (reason_prefix @ '' request failed: '' @ reason))
      | HttpBody body \<Rightarrow>
          (case json_loads body of
             None \<Rightarrow> Inl (ValueError ''JSONDecodeError'')
           | Some (PDict d) \<Rightarrow> Inr d
           | Some _ \<Rightarrow> Inl (RuntimeError invalid)))"

definition fetch_oidc_metadata ::
    "(string \<Rightarrow> http_outcome) \<Rightarrow> int \<Rightarrow> identity_settings \<Rightarrow> (user_service, pydict) prog" where
  "fetch_oidc_metadata http_get now identity us =
     (let configured = strip (az_authority_url (id_azure identity));
          tenant_id = strip (az_tenant_id (id_azure identity))
      in if configured = [] \<and> tenant_id = []
         then (us, Inl (RuntimeError ''Azure SSO tenant_id is not configured''))
         else
           (let authority_url = (if configured \<noteq> [] then configured
                  else ''https://login.microsoftonline.com/'' @ tenant_id @ ''/v2.0'');
                discovery_url = rstrip_char (CHR ''/'') authority_url @ ''/.well-known/openid-configuration''
            in case parse_http ''OIDC discovery'' ''OIDC discovery'' ''OIDC discovery response is invalid''
                      (http_get discovery_url) of
                 Inl e \<Rightarrow> (us, Inl e)
               | Inr payload \<Rightarrow>
                   (us\<lparr>metadata_cache := Some payload, metadata_fetched_at := now\<rparr>, Inr payload)))"

definition get_oidc_metadata ::
    "(string \<Rightarrow> http_outcome) \<Rightarrow> int \<Rightarrow> identity_settings \<Rightarrow> (user_service, pydict) prog" where
  "get_oidc_metadata http_get now identity us =
     (case metadata_cache us of
        Some m \<Rightarrow>
          if m \<noteq> [] \<and> now - metadata_fetched_at us < 3600 then (us, Inr m)
          else fetch_oidc_metadata http_get now identity us
      | None \<Rightarrow> fetch_oidc_metadata http_get now identity us)"

definition build_pkce_challenge :: "(string \<Rightarrow> string) \<Rightarrow> string \<Rightarrow> string" where
  "build_pkce_challenge sha256 verifier = b64url_encode (sha256 verifier)"

definition login_scopes :: "identity_settings \<Rightarrow> string list" where
  "login_scopes identity =
     (let configured = az_scopes (id_azure identity);
          scopes = (if configured \<noteq> [] then configured else [''openid'', ''profile'', ''email''])
      in if ''openid'' \<in> set scopes then scopes else ''openid'' # scopes)"

text \<open>\<open>state\<close>, \<open>nonce\<close> and \<open>verifier\<close> are the three fresh random tokens.\<close>

definition begin_microsoft_login ::
    "(string \<Rightarrow> http_outcome) \<Rightarrow> (string \<Rightarrow> string) \<Rightarrow> int \<Rightarrow> string \<times> string \<times> string
     \<Rightarrow> identity_settings \<Rightarrow> string \<Rightarrow> string \<Rightarrow> (user_service, string) prog" where
  "begin_microsoft_login http_get sha256 now fresh identity public_base_url return_to =
     bindP (get_oidc_metadata http_get now identity) (\<lambda>metadata us.
       (let authorize_endpoint = str_or_empty (dget metadata ''authorization_endpoint'');
            (state, nonce, verifier) = fresh;
            redirect_uri = rstrip_char (CHR ''/'') public_base_url @ MICROSOFT_SSO_REDIRECT_PATH;
            pending = \<lparr>pl_state = state, pl_nonce = nonce, pl_code_verifier = verifier,
                       pl_redirect_uri = strip redirect_uri, pl_return_to = strip return_to,
                       pl_expires_at = now + 600\<rparr>;
            query = urlencode
              [(''client_id'', az_client_id (id_azure identity)), (''response_type'', ''code''),
               (''redirect_uri'', redirect_uri), (''response_mode'', ''query''),
               (''scope'', join '' '' (login_scopes identity)), (''state'', state), (''nonce'', nonce),
               (''code_challenge'', build_pkce_challenge sha256 verifier),
               (''code_challenge_method'', ''S256'')]
        in if authorize_endpoint = []
           then (us, Inl (RuntimeError ''Microsoft authorization endpoint is not configured''))
           else (us\<lparr>pending_oidc := AList.update state pending (pending_oidc us)\<rparr>,
                 Inr (authorize_endpoint @ ''?'' @ query))))"

definition exchange_authorization_code ::
    "(string \<Rightarrow> http_outcome) \<Rightarrow> (string \<Rightarrow> string \<Rightarrow> http_outcome) \<Rightarrow> int \<Rightarrow> identity_settings \<Rightarrow> string
     \<Rightarrow> pending_login \<Rightarrow> (user_service, pydict) prog" where
  "exchange_authorization_code http_get http_post now identity code pending =
     bindP (get_oidc_metadata http_get now identity) (\<lambda>metadata.
       (let token_endpoint = str_or_empty (dget metadata ''token_endpoint'');
            secret = az_client_secret (id_azure identity);
            form = [(''grant_type'', ''authorization_code''),
                    (''client_id'', az_client_id (id_azure identity)), (''code'', code),
                    (''redirect_uri'', pl_redirect_uri pending),
                    (''code_verifier'', pl_code_verifier pending)]
                   @ (if strip secret \<noteq> [] then [(''client_secret'', secret)] else [])
        in if token_endpoint = []
           then raiseP (RuntimeError ''Microsoft token endpoint is not configured'')
           else (\<lambda>us. (us, parse_http ''Microsoft token exchange'' ''Microsoft token exchange''
                   ''Microsoft token response is invalid'' (http_post token_endpoint (urlencode form))))))"

text \<open>The claims of the id token.\<close>

definition claim :: "pydict \<Rightarrow> string list \<Rightarrow> pyval" where
  "claim claims names = foldr (\<lambda>n v. py_or (dget claims n) v) names (PStr [])"

definition claim_list :: "pydict \<Rightarrow> string \<Rightarrow> string list" where
  "claim_list claims name =
     (case dget claims name of PList xs \<Rightarrow> strip_items (map py_str xs) | _ \<Rightarrow> [])"

definition audience_ok :: "string \<Rightarrow> pyval \<Rightarrow> bool" where
  "audience_ok client_id audience =
     (case audience of
        PStr a \<Rightarrow> a = client_id
      | PList xs \<Rightarrow> (\<exists>x\<in>set xs. x = PStr client_id)
      | _ \<Rightarrow> True)"

definition matching_mappings :: "identity_settings \<Rightarrow> string list \<Rightarrow> group_mapping list" where
  "matching_mappings identity group_ids =
     filter (\<lambda>m. strip (gm_group_object_id m) \<noteq> [] \<and> strip (gm_group_object_id m) \<in> set group_ids)
       (az_group_role_mappings (id_azure identity))"

definition build_user_from_claims ::
    "int \<Rightarrow> identity_settings \<Rightarrow> pydict \<Rightarrow> user_identity result" where
  "build_user_from_claims now identity claims =
     bindE (py_int (py_or (dget claims ''exp'') (PInt 0))) (\<lambda>exp.
       (let issuer = str_or_empty (dget claims ''iss'');
            tenant_id = az_tenant_id (id_azure identity);
            subject = strip (py_str (claim claims [''sub'', ''oid'']));
            username = strip (py_str (py_or (claim claims [''preferred_username'', ''email'', ''upn''])
                         (PStr subject)));
            display_name = strip (py_str (py_or (dget claims ''name'') (PStr username)));
            email = strip (py_str (claim claims [''email'', ''preferred_username'']));
            group_ids = claim_list claims ''groups'';
            role_names = claim_list claims ''roles'';
            matching = matching_mappings identity group_ids;
            mapped_roles = role_names @ concat (map (\<lambda>m. filter (\<lambda>r. r \<noteq> []) (gm_app_roles m)) matching);
            matched_ids = (\<lambda>m. strip (gm_group_object_id m)) ` set matching;
            subject_key = ''microsoft:'' @ subject;
            decision = evaluate_identity_access identity subject_key group_ids matched_ids
        in if exp \<noteq> 0 \<and> exp < now then Inl (ValueError ''Microsoft id_token is expired'')
           else if \<not> audience_ok (az_client_id (id_azure identity)) (dget claims ''aud'')
             then Inl (ValueError ''Microsoft id_token audience mismatch'')
           else if tenant_id \<noteq> [] \<and> \<not> contains issuer tenant_id
             then Inl (ValueError ''Microsoft id_token issuer mismatch'')
           else if subject = [] then Inl (ValueError ''Microsoft id_token is missing subject'')
           else if \<not> ad_allow_login decision
             then Inl (ValueError ''This user is not authorized for this application'')
           else Inr
             \<lparr>u_subject = subject_key, u_username = username, u_display_name = display_name,
              u_email = email, u_avatar_url = str_or_empty (dget claims ''picture''),
              u_avatar_initials = build_avatar_initials [display_name, username, email],
              u_auth_provider = ''azure_entra'', u_roles = [get_highest_role (Some mapped_roles)],
              u_agent_visibility = ad_agent_visibility decision, u_group_ids = group_ids,
              u_group_names = sort (remdups (filter (\<lambda>n. n \<noteq> []) (map gm_group_name matching))),
              u_claims =
                [(''oid'', dget claims ''oid''), (''tid'', dget claims ''tid''),
                 (''preferred_username'', dget claims ''preferred_username''),
                 (''upn'', dget claims ''upn''), (''email'', dget claims ''email''),
                 (''picture'', dget claims ''picture''), (''roles'', PList (map PStr role_names)),
                 (''has_groups_overage'',
                   PBool (truthy (dget claims ''_claim_names'') \<or> truthy (dget claims ''hasgroups'')))]\<rparr>))"

definition finish_microsoft_login ::
    "(string \<Rightarrow> http_outcome) \<Rightarrow> (string \<Rightarrow> string \<Rightarrow> http_outcome) \<Rightarrow> int \<Rightarrow> string
     \<Rightarrow> identity_settings \<Rightarrow> string \<Rightarrow> string \<Rightarrow> (user_service, user_session \<times> string) prog" where
  "finish_microsoft_login http_get http_post now access_token identity state code us =
     (let us1 = purge_expired_pending now us in
      case map_of (pending_oidc us1) state of
        None \<Rightarrow> (us1, Inl (ValueError ''Invalid or expired Microsoft login state''))
      | Some pending \<Rightarrow>
          bindP (exchange_authorization_code http_get http_post now identity code pending) (\<lambda>tokens.
            (let id_token = str_or_empty (dget tokens ''id_token'') in
             if id_token = []
             then raiseP (RuntimeError ''Microsoft token response did not include an id_token'')
             else bindP (\<lambda>us. (us, decode_unverified_jwt id_token)) (\<lambda>claims.
               if str_or_empty (dget claims ''nonce'') \<noteq> pl_nonce pending
               then raiseP (ValueError ''Microsoft login nonce mismatch'')
               else bindP (\<lambda>us. (us, build_user_from_claims now identity claims)) (\<lambda>user us2.
                 (let (us3, s) = create_session now access_token identity user us2
                  in (us3, Inr (s, pl_return_to pending)))))))
            (us1\<lparr>pending_oidc := AList.delete state (pending_oidc us1)\<rparr>))"

section \<open>The life of a session\<close>

datatype session_op =
    Login int string identity_settings user_identity
  | Access int "string option"
  | Revoke "string option"
  | ListActive int

fun apply_session_op :: "session_op \<Rightarrow> user_service \<Rightarrow> user_service" where
  "apply_session_op (Login now tok i u) us = fst (create_session now tok i u us)"
| "apply_session_op (Access now tok) us = fst (get_session now tok us)"
| "apply_session_op (Revoke tok) us = revoke_session tok us"
| "apply_session_op (ListActive now) us = fst (list_active_identities now us)"

text \<open>The operation is about another token, and happens before time \<open>e\<close>.\<close>

fun leaves_token :: "string \<Rightarrow> int \<Rightarrow> session_op \<Rightarrow> bool" where
  "leaves_token tok e (Login now t i u) = (t \<noteq> tok \<and> now < e)"
| "leaves_token tok e (Access now t) = (now < e)"
| "leaves_token tok e (Revoke t) = (t \<noteq> Some tok)"
| "leaves_token tok e (ListActive now) = (now < e)"

definition live_session :: "string \<Rightarrow> user_identity \<Rightarrow> int \<Rightarrow> user_service \<Rightarrow> bool" where
  "live_session tok u e us \<longleftrightarrow>
     distinct (map fst (sessions us)) \<and>
     (\<exists>s. map_of (sessions us) tok = Some s \<and> us_user s = u \<and> us_expires_at s = e)"

lemma distinct_filter_keys: "distinct (map fst al) \<Longrightarrow> distinct (map fst (filter P al))"
  by (induction al) auto

lemma purge_sessions [simp]:
  "distinct (map fst (sessions us)) \<Longrightarrow> distinct (map fst (sessions (purge_expired_sessions now us)))"
  "distinct (map fst (sessions us)) \<Longrightarrow>
   map_of (sessions (purge_expired_sessions now us)) t =
     (case map_of (sessions us) t of
        None \<Rightarrow> None | Some s \<Rightarrow> if now < us_expires_at s then Some s else None)"
  by (simp_all add: purge_expired_sessions_def distinct_filter_keys map_of_filter_distinct)

lemma create_session_sessions:
  "distinct (map fst (sessions us)) \<Longrightarrow> distinct (map fst (sessions (fst (create_session now t i v us))))"
  "map_of (sessions (fst (create_session now t i v us))) =
     (map_of (sessions (purge_expired_sessions now us)))
       (t \<mapsto> \<lparr>us_access_token = t, us_user = v, us_created_at = now,
             us_expires_at = now + session_ttl i, us_last_seen_at = now\<rparr>)"
  by (simp_all add: create_session_def Let_def update_conv' distinct_update)

lemma live_sessionI:
  "distinct (map fst (sessions us)) \<Longrightarrow> map_of (sessions us) tok = Some s \<Longrightarrow> us_user s = u \<Longrightarrow>
   us_expires_at s = e \<Longrightarrow> live_session tok u e us"
  by (simp add: live_session_def)

lemma live_purge:
  assumes "live_session tok u e us" and "now < e"
  shows "live_session tok u e (purge_expired_sessions now us)"
proof -
  obtain s where d: "distinct (map fst (sessions us))" and
    s: "map_of (sessions us) tok = Some s" "us_user s = u" "us_expires_at s = e"
    using assms(1) unfolding live_session_def by blast
  show ?thesis by (rule live_sessionI) (use d s assms(2) in simp_all)
qed

lemma live_touch:
  assumes "live_session tok u e us" and "map_of (sessions us) k = Some v"
    and "us_user w = us_user v" and "us_expires_at w = us_expires_at v"
  shows "live_session tok u e (us\<lparr>sessions := AList.update k w (sessions us)\<rparr>)"
proof -
  obtain s where d: "distinct (map fst (sessions us))" and
    s: "map_of (sessions us) tok = Some s" "us_user s = u" "us_expires_at s = e"
    using assms(1) unfolding live_session_def by blast
  show ?thesis
    by (rule live_sessionI [where s = "if k = tok then w else s"])
      (use d s assms in \<open>auto simp: update_conv' distinct_update simp del: map_of_eq_Some_iff\<close>)
qed

lemma live_session_kept:
  assumes "live_session tok u e us" and "leaves_token tok e op"
  shows "live_session tok u e (apply_session_op op us)"
proof -
  obtain s where d: "distinct (map fst (sessions us))" and
    s: "map_of (sessions us) tok = Some s" "us_user s = u" "us_expires_at s = e"
    using assms(1) by (auto simp: live_session_def)
  show ?thesis
  proof (cases op)
    case (Login now t i v)
    then have n: "tok \<noteq> t" "now < e" using assms(2) by auto
    show ?thesis unfolding Login apply_session_op.simps
    proof (rule live_sessionI)
      show "distinct (map fst (sessions (fst (create_session now t i v us))))"
        using d by (rule create_session_sessions)
      show "map_of (sessions (fst (create_session now t i v us))) tok = Some s"
        using d s(1,3) n by (simp add: create_session_sessions)
    qed (use s in simp_all)
  next
    case (Access now t)
    then have l: "live_session tok u e (purge_expired_sessions now us)"
      using live_purge [OF assms(1)] assms(2) by simp
    show ?thesis unfolding Access apply_session_op.simps get_session_def Let_def
      using l by (auto split: option.split intro: live_touch)
  next
    case (Revoke t)
    show ?thesis unfolding Revoke apply_session_op.simps
      by (rule live_sessionI [OF _ _ s(2,3)])
        (use d s assms(2) Revoke in \<open>auto simp: revoke_session_def delete_conv' distinct_delete
           simp del: map_of_eq_Some_iff split: option.split\<close>)
  next
    case (ListActive now)
    then show ?thesis using live_purge [OF assms(1)] assms(2)
      by (simp add: list_active_identities_def Let_def)
  qed
qed

lemma live_session_fold:
  "live_session tok u e us \<Longrightarrow> (\<And>op. op \<in> set ops \<Longrightarrow> leaves_token tok e op) \<Longrightarrow>
   live_session tok u e (fold apply_session_op ops us)"
  by (induction ops arbitrary: us) (simp_all add: live_session_kept)

lemma distinct_session_op:
  assumes d: "distinct (map fst (sessions us))"
  shows "distinct (map fst (sessions (apply_session_op op us)))"
proof (cases op)
  case (Login now t i v)
  then show ?thesis using create_session_sessions(1) [OF d] by simp
next
  case (Access now t)
  then show ?thesis using d
    by (auto simp: get_session_def Let_def split: option.split)
next
  case (Revoke t)
  then show ?thesis using d by (auto simp: revoke_session_def split: option.split)
next
  case (ListActive now)
  then show ?thesis using d by (simp add: list_active_identities_def Let_def)
qed

lemma distinct_session_ops:
  "distinct (map fst (sessions us)) \<Longrightarrow> distinct (map fst (sessions (fold apply_session_op ops us)))"
  by (induction ops arbitrary: us) (simp_all add: distinct_session_op)

text \<open>Property C17. The life of a session. After any history, a login of \<open>user\<close> at time \<open>t0\<close>
  gives the token a life of at least 900 seconds. Whatever operations follow (other logins, requests,
  listings before the session ends, and logouts of other tokens), a request that carries the
  token is the user's as long as the session has not expired, and nobody's from the expiry on; after
  the logout of the token it is nobody's at once.\<close>

theorem session_lifetime:
  assumes "tok \<noteq> []"
    and "\<And>op. op \<in> set ops \<Longrightarrow> leaves_token tok (t0 + session_ttl identity) op"
  shows "let us = fold apply_session_op ops (apply_session_op (Login t0 tok identity user)
                     (fold apply_session_op history (new_user_service recent)))
         in (case snd (get_session now (Some tok) us) of
               None \<Rightarrow> t0 + session_ttl identity \<le> now
             | Some s \<Rightarrow> now < t0 + session_ttl identity \<and> us_user s = user) \<and>
            900 \<le> session_ttl identity \<and>
            snd (get_session now (Some tok) (revoke_session (Some tok) us)) = None"
proof -
  let ?us0 = "fold apply_session_op history (new_user_service recent)"
  have d: "distinct (map fst (sessions ?us0))"
    by (rule distinct_session_ops) (simp add: new_user_service_def)
  have "live_session tok user (t0 + session_ttl identity)
      (apply_session_op (Login t0 tok identity user) ?us0)" unfolding apply_session_op.simps
    by (rule live_sessionI, rule create_session_sessions, rule d)
      (simp add: create_session_sessions, simp, simp)
  then have l: "live_session tok user (t0 + session_ttl identity)
      (fold apply_session_op ops (apply_session_op (Login t0 tok identity user) ?us0))"
    by (rule live_session_fold) (rule assms(2))
  have r: "snd (get_session now (Some tok) (revoke_session (Some tok) us')) = None"
    if "distinct (map fst (sessions us'))" for us'
    using that by (simp add: get_session_def revoke_session_def Let_def)
  show ?thesis using l assms(1) r
    by (auto simp: live_session_def get_session_def Let_def session_ttl_def)
qed

theorem session_lifetime_witness:
  "let us = fold apply_session_op [Access 900 (Some ''t1''), Revoke (Some ''t2'')]
              (apply_session_op (Login 0 ''t1'' default_identity_settings (sample_user [''viewer'']))
                (fold apply_session_op [Login (-1) ''t2'' default_identity_settings (sample_user [''admin''])]
                  (new_user_service False)))
   in (case snd (get_session 1000 (Some ''t1'') us) of
         None \<Rightarrow> 0 + session_ttl default_identity_settings \<le> 1000
       | Some s \<Rightarrow> 1000 < 0 + session_ttl default_identity_settings \<and> us_user s = sample_user [''viewer'']) \<and>
      900 \<le> session_ttl default_identity_settings \<and>
      snd (get_session 1000 (Some ''t1'') (revoke_session (Some ''t1'') us)) = None"
  by (rule session_lifetime) (auto simp: session_ttl_def default_identity_settings_def)

section \<open>Microsoft login\<close>

lemma fetch_metadata_pending [simp]:
  "pending_oidc (fst (fetch_oidc_metadata g now i us)) = pending_oidc us"
  "sessions (fst (fetch_oidc_metadata g now i us)) = sessions us"
  by (auto simp: fetch_oidc_metadata_def Let_def split: sum.split)

lemma get_metadata_pending [simp]:
  "pending_oidc (fst (get_oidc_metadata g now i us)) = pending_oidc us"
  "sessions (fst (get_oidc_metadata g now i us)) = sessions us"
  by (auto simp: get_oidc_metadata_def split: option.split)

lemma exchange_pending [simp]:
  "pending_oidc (fst (exchange_authorization_code g p now i code pl us)) = pending_oidc us"
  "sessions (fst (exchange_authorization_code g p now i code pl us)) = sessions us"
proof -
  obtain us2 r where e: "get_oidc_metadata g now i us = (us2, r)"
    by (cases "get_oidc_metadata g now i us")
  then have *: "pending_oidc us2 = pending_oidc us" "sessions us2 = sessions us"
    using get_metadata_pending [of g now i us] by simp_all
  show "pending_oidc (fst (exchange_authorization_code g p now i code pl us)) = pending_oidc us"
    "sessions (fst (exchange_authorization_code g p now i code pl us)) = sessions us"
    by (cases r; simp add: exchange_authorization_code_def bindP_def Let_def e * raiseP_def)+
qed

lemma create_session_pending [simp]:
  "pending_oidc (fst (create_session now t i u us)) = pending_oidc us"
  by (simp add: create_session_def Let_def purge_expired_sessions_def)

lemma purge_pending [simp]:
  "map_of (pending_oidc us) st = None \<Longrightarrow> map_of (pending_oidc (purge_expired_pending now us)) st = None"
  unfolding purge_expired_pending_def by (auto simp: map_of_eq_None_iff)

text \<open>Every attempt to finish a login forgets its state, and no other one.\<close>

lemma finish_pending_eq:
  "pending_oidc (fst (finish_microsoft_login g p now tok i st code us)) =
     AList.delete st (pending_oidc (purge_expired_pending now us))"
proof (cases "map_of (pending_oidc (purge_expired_pending now us)) st")
  case None
  then show ?thesis
    by (simp add: finish_microsoft_login_def Let_def delete_id map_of_eq_None_iff [symmetric])
next
  case (Some pl)
  let ?us = "(purge_expired_pending now us)\<lparr>pending_oidc :=
      AList.delete st (pending_oidc (purge_expired_pending now us))\<rparr>"
  obtain us2 r where ex: "exchange_authorization_code g p now i code pl ?us = (us2, r)"
    by (cases "exchange_authorization_code g p now i code pl ?us")
  have p2: "pending_oidc us2 = AList.delete st (pending_oidc (purge_expired_pending now us))"
    using exchange_pending(1) [of g p now i code pl ?us] ex by simp
  note f = finish_microsoft_login_def Let_def Some bindP_def ex
  show ?thesis
  proof (cases r)
    case (Inl e)
    then show ?thesis using p2 by (simp add: f)
  next
    case r: (Inr tokens)
    show ?thesis
    proof (cases "decode_unverified_jwt (str_or_empty (dget tokens ''id_token''))")
      case (Inl e)
      then show ?thesis using p2 by (simp add: f r)
    next
      case d: (Inr claims)
      obtain us3 ses where cs: "\<And>u. create_session now tok i u us2 = (us3 u, ses u)"
        using that [of "\<lambda>u. fst (create_session now tok i u us2)"
            "\<lambda>u. snd (create_session now tok i u us2)"] by simp
      then have p3: "pending_oidc (us3 u) = pending_oidc us2" for u
        using create_session_pending [of now tok i u us2] by simp
      show ?thesis
        by (cases "build_user_from_claims now i claims") (simp_all add: f r d cs p2 p3)
    qed
  qed
qed

lemma finish_pending:
  "map_of (pending_oidc (fst (finish_microsoft_login g p now tok i st code us))) st = None"
  by (simp add: finish_pending_eq)

text \<open>The network and the fresh token of one step are its own.\<close>

datatype login_op =
    BeginLogin "string \<Rightarrow> http_outcome" int "string \<times> string \<times> string" identity_settings string string
  | FinishLogin "string \<Rightarrow> http_outcome" "string \<Rightarrow> string \<Rightarrow> http_outcome" int string
      identity_settings string string

fun apply_login_op :: "(string \<Rightarrow> string) \<Rightarrow> login_op \<Rightarrow> user_service \<Rightarrow> user_service" where
  "apply_login_op sha256 (BeginLogin g now fresh i base ret) us =
     fst (begin_microsoft_login g sha256 now fresh i base ret us)"
| "apply_login_op sha256 (FinishLogin g p now tok i st code) us =
     fst (finish_microsoft_login g p now tok i st code us)"

fun draws_state :: "string \<Rightarrow> login_op \<Rightarrow> bool" where
  "draws_state st (BeginLogin g now fresh i base ret) = (fst fresh = st)"
| "draws_state st (FinishLogin g p now tok i st' code) = False"

lemma begin_pending:
  "map_of (pending_oidc us) st = None \<Longrightarrow> fst fresh \<noteq> st \<Longrightarrow>
   map_of (pending_oidc (fst (begin_microsoft_login g sha256 now fresh i base ret us))) st = None"
proof -
  assume *: "map_of (pending_oidc us) st = None" "fst fresh \<noteq> st"
  obtain us2 r where e: "get_oidc_metadata g now i us = (us2, r)"
    by (cases "get_oidc_metadata g now i us")
  then have "pending_oidc us2 = pending_oidc us" using get_metadata_pending(1) [of g now i us] by simp
  then show ?thesis using * e
    by (cases r; cases fresh; simp add: begin_microsoft_login_def bindP_def Let_def)
qed

lemma finish_pending_other:
  "map_of (pending_oidc us) st = None \<Longrightarrow>
   map_of (pending_oidc (fst (finish_microsoft_login g p now tok i st' code us))) st = None"
  by (simp add: finish_pending_eq)

lemma login_ops_pending:
  "map_of (pending_oidc us) st = None \<Longrightarrow> (\<And>op. op \<in> set ops \<Longrightarrow> \<not> draws_state st op) \<Longrightarrow>
   map_of (pending_oidc (fold (apply_login_op sha256) ops us)) st = None"
proof (induction ops arbitrary: us)
  case (Cons op ops)
  have "map_of (pending_oidc (apply_login_op sha256 op us)) st = None"
  proof (cases op)
    case (BeginLogin g now fresh i base ret)
    then have "fst fresh \<noteq> st" using Cons.prems(2) [of op] by simp
    then show ?thesis unfolding BeginLogin apply_login_op.simps by (rule begin_pending [OF Cons.prems(1)])
  next
    case FinishLogin
    then show ?thesis using finish_pending_other [OF Cons.prems(1)] by simp
  qed
  then have "map_of (pending_oidc (fold (apply_login_op sha256) ops (apply_login_op sha256 op us))) st = None"
    by (rule Cons.IH) (rule Cons.prems(2), simp)
  then show ?case by simp
qed simp

text \<open>Property C18. A login state works once. After an attempt to finish a login with state \<open>st\<close>,
  successful or not, and whatever logins are begun (with other states) and finished later, a further
  attempt with \<open>st\<close> is refused with \<open>Invalid or expired Microsoft login state\<close> and creates no
  session.\<close>

theorem login_state_single_use:
  assumes "\<And>op. op \<in> set ops \<Longrightarrow> \<not> draws_state st op"
  shows "let us = fold (apply_login_op sha256) ops
                    (fst (finish_microsoft_login g p now tok i st code us0)) in
         snd (finish_microsoft_login g' p' now' tok' i' st code' us) =
           Inl (ValueError ''Invalid or expired Microsoft login state'') \<and>
         sessions (fst (finish_microsoft_login g' p' now' tok' i' st code' us)) = sessions us"
proof -
  let ?us = "fold (apply_login_op sha256) ops (fst (finish_microsoft_login g p now tok i st code us0))"
  have "map_of (pending_oidc ?us) st = None"
    by (rule login_ops_pending, rule finish_pending, rule assms)
  then have "map_of (pending_oidc (purge_expired_pending now' ?us)) st = None" by simp
  then show ?thesis
    by (simp add: finish_microsoft_login_def Let_def) (simp add: purge_expired_pending_def)
qed


theorem login_state_single_use_witness:
  "let us = fold (apply_login_op (\<lambda>s. s))
              [BeginLogin (\<lambda>u. NoConnection ''down'') 0 (''s2'', ''n'', ''v'') default_identity_settings [] []]
              (fst (finish_microsoft_login (\<lambda>u. HttpBody ''{}'') (\<lambda>u b. HttpBody ''{}'') 0 ''tok''
                 default_identity_settings ''s1'' ''code'' (new_user_service False))) in
   snd (finish_microsoft_login (\<lambda>u. HttpBody ''{}'') (\<lambda>u b. HttpBody ''{}'') 1 ''tok''
          default_identity_settings ''s1'' ''code'' us) =
     Inl (ValueError ''Invalid or expired Microsoft login state'') \<and>
   sessions (fst (finish_microsoft_login (\<lambda>u. HttpBody ''{}'') (\<lambda>u b. HttpBody ''{}'') 1 ''tok''
          default_identity_settings ''s1'' ''code'' us)) = sessions us"
  by (rule login_state_single_use) auto

lemma get_highest_role_is_role: "is_role (get_highest_role rs)"
  using normalize_roles_roles highest_in by blast

lemma build_user_sound:
  assumes "build_user_from_claims now identity claims = Inr u"
  shows "\<exists>exp subject. py_int (py_or (dget claims ''exp'') (PInt 0)) = Inr exp \<and> (exp = 0 \<or> now \<le> exp) \<and>
           audience_ok (az_client_id (id_azure identity)) (dget claims ''aud'') \<and>
           contains (str_or_empty (dget claims ''iss'')) (az_tenant_id (id_azure identity)) \<and>
           subject \<noteq> [] \<and> u_subject u = ''microsoft:'' @ subject \<and>
           ad_allow_login (evaluate_identity_access identity (u_subject u) (u_group_ids u)
             ((\<lambda>m. strip (gm_group_object_id m)) ` set (matching_mappings identity (u_group_ids u)))) \<and>
           u_agent_visibility u = ad_agent_visibility (evaluate_identity_access identity (u_subject u)
             (u_group_ids u)
             ((\<lambda>m. strip (gm_group_object_id m)) ` set (matching_mappings identity (u_group_ids u)))) \<and>
           (\<exists>r. u_roles u = [r] \<and> is_role r)"
proof -
  have [simp]: "contains s []" for s by (cases s) (simp_all add: contains.simps starts_with_def)
  show ?thesis
    using assms
    by (auto simp: build_user_from_claims_def bindE_eq_Inr Let_def get_highest_role_is_role
        split: if_splits)
qed



definition sample_pending :: pending_login where
  "sample_pending = \<lparr>pl_state = ''st'', pl_nonce = ''n'', pl_code_verifier = ''v'', pl_redirect_uri = [],
     pl_return_to = ''back'', pl_expires_at = 600\<rparr>"

definition sample_identity :: identity_settings where
  "sample_identity = default_identity_settings
     \<lparr>id_azure := default_azure_settings\<lparr>az_authority_url := ''https://idp''\<rparr>\<rparr>"

definition sample_network :: "string \<Rightarrow> http_outcome" where
  "sample_network url =
     (if url = ''token'' then HttpBody (json_dumps (PDict [(''id_token'', PStr (''h.'' @ b64url_encode (json_dumps
        (PDict [(''nonce'', PStr ''n''), (''sub'', PStr ''a'')])) @ ''.s''))]))
      else HttpBody (json_dumps (PDict [(''token_endpoint'', PStr ''token'')])))"


section \<open>The locked identity provider\<close>

lemma map_of_filter_key: "map_of (filter (\<lambda>(k, v). P k) al) k = (if P k then map_of al k else None)"
  by (induction al) auto

lemma distinct_filter_fst: "distinct (map fst al) \<Longrightarrow> distinct (map fst (filter P al))"
  by (induction al) auto

lemma map_of_dupdate_distinct:
  "distinct (map fst e) \<Longrightarrow>
   map_of (dupdate d e) k = (case map_of e k of None \<Rightarrow> map_of d k | Some v \<Rightarrow> Some v)"
proof -
  assume "distinct (map fst e)"
  then have "map_of (rev e) = map_of e"
    by (subst map_of_inject_set) (simp_all add: rev_map [symmetric])
  then show ?thesis by (simp add: map_of_dupdate)
qed

lemma dget_dupdate_filter:
  "distinct (map fst e) \<Longrightarrow> dget (dupdate d (filter (\<lambda>(k, v). P k) e)) k =
     (case map_of e k of None \<Rightarrow> dget d k | Some v \<Rightarrow> if P k then v else dget d k)"
  by (simp add: dget_def map_of_dupdate_distinct distinct_filter_fst map_of_filter_key split: option.split)

lemma map_of_opt_field [simp]: "map_of (opt_field k f v) k' = (if k' = k then map_option f v else None)"
  by (cases v) (simp_all add: opt_field_def)

lemma fst_opt_field: "map fst (opt_field k f v) = (if v = None then [] else [k])"
  by (cases v) (simp_all add: opt_field_def)

lemma distinct_azure_patch: "distinct (map fst (dump_azure_patch p))"
  by (simp add: dump_azure_patch_def fst_opt_field)

lemma distinct_identity_patch: "distinct (map fst (dump_identity_patch p))"
  by (simp add: dump_identity_patch_def fst_opt_field)

lemma dget_azure_patch: "dget (dump_identity_patch p) ''azure'' =
    (case idp_azure p of None \<Rightarrow> PNone | Some q \<Rightarrow> PDict (dump_azure_patch q))"
  by (cases "idp_azure p") (simp_all add: dget_def dump_identity_patch_def map_add_def)

lemma azure_in_patch: "map_of (dump_identity_patch p) ''azure'' =
    map_option (\<lambda>q. PDict (dump_azure_patch q)) (idp_azure p)"
  by (simp add: dump_identity_patch_def map_add_def split: option.split)

text \<open>The keys of the payload that belong to the provider.\<close>

definition provider_key :: "string \<Rightarrow> bool" where
  "provider_key k \<longleftrightarrow> k \<in> {''tenant_id'', ''client_id'', ''authority_url''}"

lemma provider_key_other:
  "provider_key k \<Longrightarrow>
   k \<noteq> ''activate'' \<and> k \<noteq> ''redirect_path'' \<and> k \<noteq> ''group_role_mappings'' \<and> k \<noteq> ''activated_at''"
  by (auto simp: provider_key_def)

lemma map_of_identity_patch:
  "k \<notin> {''session_ttl_seconds'', ''access'', ''azure''} \<Longrightarrow> map_of (dump_identity_patch p) k = None"
  by (simp add: dump_identity_patch_def map_add_def)

lemma patch_payload_outer:
  "distinct (map fst (identity_patch_payload now current p))"
  "k \<noteq> ''azure'' \<Longrightarrow> map_of (identity_patch_payload now current p) k = map_of (dump_identity_patch p) k"
  using distinct_identity_patch [of p]
  by (auto simp: identity_patch_payload_def Let_def set_in_def activating_def split: option.split)

lemma patch_payload_none:
  "idp_azure p = None \<Longrightarrow> map_of (identity_patch_payload now current p) ''azure'' = None"
  by (simp add: identity_patch_payload_def Let_def activating_def azure_in_patch)

lemma patch_payload_some:
  assumes "idp_azure p = Some q"
  shows "\<exists>d. map_of (identity_patch_payload now current p) ''azure'' = Some (PDict d) \<and> distinct (map fst d) \<and>
    (\<forall>k. provider_key k \<longrightarrow> map_of d k = map_of (dump_azure_patch q) k)"
  using distinct_azure_patch [of q] assms provider_key_other
  by (cases "azp_group_role_mappings q"; cases "activating p")
    (simp_all add: identity_patch_payload_def Let_def set_in_def azure_in_patch dget_azure_patch)

lemma merge_outer:
  "distinct (map fst pp) \<Longrightarrow> k \<notin> {''access'', ''azure''} \<Longrightarrow>
   dget (merge_identity_payload payload pp) k = (case map_of pp k of None \<Rightarrow> dget payload k | Some v \<Rightarrow> v)"
  by (simp add: merge_identity_payload_def Let_def dget_dupdate_filter split: option.split)

lemma merge_azure_none:
  "distinct (map fst pp) \<Longrightarrow> map_of pp ''azure'' = None \<Longrightarrow>
   dget (merge_identity_payload payload pp) ''azure'' = dget payload ''azure''"
  by (simp add: merge_identity_payload_def Let_def dget_dupdate_filter)

lemma merge_azure_some:
  assumes "distinct (map fst pp)" and "map_of pp ''azure'' = Some (PDict d)" and "distinct (map fst d)"
    and "k \<noteq> ''activate''"
  shows "dget (as_dict (dget (merge_identity_payload payload pp) ''azure'')) k =
    (case map_of d k of None \<Rightarrow> dget (as_dict (dget payload ''azure'')) k | Some v \<Rightarrow> v)"
proof -
  have "dget pp ''azure'' = PDict d" using assms(2) by (simp add: dget_def)
  then show ?thesis using assms
    by (simp add: merge_identity_payload_def Let_def dget_dupdate_filter split: option.split)
qed

lemma payload_provider:
  assumes "id_provider current = ''azure_entra''" and "id_provider_locked current"
  shows "dget (build_identity_payload_after_update now current p) ''provider'' = PStr ''azure_entra''"
    and "dget (build_identity_payload_after_update now current p) ''provider_locked'' = PBool True"
  using assms
  by (simp_all add: build_identity_payload_after_update_def Let_def merge_outer patch_payload_outer map_of_identity_patch
      dump_identity_settings_def)

lemma payload_azure_none:
  "idp_azure p = None \<Longrightarrow>
   dget (build_identity_payload_after_update now current p) ''azure'' = PDict (dump_azure_settings (id_azure current))"
  by (simp add: build_identity_payload_after_update_def Let_def merge_azure_none patch_payload_outer patch_payload_none
      activating_def dump_identity_settings_def)

lemma payload_azure_some:
  assumes "idp_azure p = Some q" and k: "provider_key k"
  shows "dget (as_dict (dget (build_identity_payload_after_update now current p) ''azure'')) k =
    (case map_of (dump_azure_patch q) k of
       None \<Rightarrow> dget (dump_azure_settings (id_azure current)) k | Some v \<Rightarrow> v)"
proof -
  obtain d where d: "map_of (identity_patch_payload now current p) ''azure'' = Some (PDict d)"
      "distinct (map fst d)" "map_of d k = map_of (dump_azure_patch q) k"
    using patch_payload_some [OF assms(1)] k by blast
  have "dump_identity_patch p \<noteq> []" using assms(1) azure_in_patch [of p] by auto
  then show ?thesis
    using merge_azure_some [OF patch_payload_outer(1) d(1,2), of k] provider_key_other [OF k] d(3)
    by (simp add: build_identity_payload_after_update_def Let_def dump_identity_settings_def split: option.split)
qed

text \<open>The locked provider. Once the Azure provider is active and locked, a settings change
  that passes \<open>prepare_identity_patch\<close> yields settings with the same provider, still locked, and with
  the same tenant, client and authority, whatever else it sets; and local logins stay closed.\<close>

theorem locked_provider_immutable:
  assumes "id_provider current = ''azure_entra''" and "id_provider_locked current"
    and "prepare_identity_patch current requested = Inr p"
  shows "let payload = build_identity_payload_after_update now current p;
             azure = as_dict (dget payload ''azure'') in
         dget payload ''provider'' = PStr ''azure_entra'' \<and> dget payload ''provider_locked'' = PBool True \<and>
         dget azure ''tenant_id'' = PStr (az_tenant_id (id_azure current)) \<and>
         dget azure ''client_id'' = PStr (az_client_id (id_azure current)) \<and>
         dget azure ''authority_url'' = PStr (az_authority_url (id_azure current)) \<and>
         \<not> local_bootstrap_available env current"
proof (cases "idp_azure p")
  case None
  show ?thesis
    using payload_provider [OF assms(1,2)] assms(1,2)
    by (simp add: payload_azure_none None local_bootstrap_available_def dump_azure_settings_def)
next
  case (Some q)
  have "immutable_changes current q = []"
    using assms Some by (auto simp: prepare_identity_patch_def Let_def split: if_splits option.splits)
  then have q: "azp_tenant_id q \<in> {None, Some (az_tenant_id (id_azure current))}"
      "azp_client_id q \<in> {None, Some (az_client_id (id_azure current))}"
      "azp_authority_url q \<in> {None, Some (az_authority_url (id_azure current))}"
    by (auto simp: immutable_changes_def Let_def split: if_splits)
  show ?thesis
    using payload_provider [OF assms(1,2)] assms(1,2) q
    by (auto simp: Let_def payload_azure_some [OF Some] provider_key_def dump_azure_patch_def
        dump_azure_settings_def map_add_def local_bootstrap_available_def)
qed

definition locked_identity :: identity_settings where
  "locked_identity = default_identity_settings
     \<lparr>id_provider := ''azure_entra'', id_provider_locked := True,
      id_azure := default_azure_settings\<lparr>az_tenant_id := ''t'', az_client_id := ''c''\<rparr>\<rparr>"

definition ttl_patch :: identity_patch where
  "ttl_patch = \<lparr>idp_session_ttl_seconds = Some 1000, idp_access = None,
     idp_azure = Some \<lparr>azp_tenant_id = Some ''t'', azp_client_id = None, azp_client_secret = Some ''new'',
       azp_authority_url = None, azp_redirect_path = None, azp_scopes = None,
       azp_group_role_mappings = None, azp_activate = None\<rparr>\<rparr>"

theorem locked_provider_immutable_witness:
  "let payload = build_identity_payload_after_update 5 locked_identity ttl_patch;
       azure = as_dict (dget payload ''azure'') in
   dget payload ''provider'' = PStr ''azure_entra'' \<and> dget payload ''provider_locked'' = PBool True \<and>
   dget azure ''tenant_id'' = PStr (az_tenant_id (id_azure locked_identity)) \<and>
   dget azure ''client_id'' = PStr (az_client_id (id_azure locked_identity)) \<and>
   dget azure ''authority_url'' = PStr (az_authority_url (id_azure locked_identity)) \<and>
   \<not> local_bootstrap_available (\<lambda>_. Some ''x'') locked_identity"
  by (rule locked_provider_immutable [where requested = ttl_patch])
    (simp_all add: locked_identity_def ttl_patch_def prepare_identity_patch_def immutable_changes_def
      default_identity_settings_def Let_def)

section \<open>Two gaps of the Microsoft login\<close>

text \<open>An id token without an audience (or with one that is neither a text nor a list) is accepted whatever
  the client of the application is.\<close>

lemma missing_audience_accepted:
  assumes "dget claims ''aud'' = PNone"
  shows "build_user_from_claims now (identity\<lparr>id_azure := (id_azure identity)\<lparr>az_client_id := c\<rparr>\<rparr>) claims =
    build_user_from_claims now identity claims"
  by (simp add: build_user_from_claims_def assms audience_ok_def matching_mappings_def evaluate_identity_access_def
      is_subject_or_group_allowed_def Let_def)

text \<open>The discovery document is kept for an hour for every tenant: after a login for \<open>i\<close>, a login for
  another tenant or authority uses the endpoints of the first, without a request.\<close>

lemma stale_metadata:
  assumes "fetch_oidc_metadata g now i us = (us', Inr m)" and "m \<noteq> []" and "now' - now < 3600"
  shows "get_oidc_metadata g' now' i' us' = (us', Inr m)"
  using assms by (auto simp: fetch_oidc_metadata_def get_oidc_metadata_def Let_def split: if_splits sum.splits)

end
