(* ===== verification/Guacamole_Mapping.thy ===== *)
theory Guacamole_Mapping
  imports User_Service
begin

text \<open>
  The mapping of an agent to its Guacamole group and connection (\<open>guacamole/mapping.py\<close>).

  A template is rendered with \<open>str.format_map\<close>. Replacement fields that are a plain name are
  interpreted here, an unknown name being empty; a field with an attribute, an index, a conversion or a
  format specification is the business of the argument \<open>fmt\<close>, the library's \<open>format_map\<close>, None standing
  for the exceptions it raises.
\<close>

section \<open>Templates\<close>

type_synonym format_map = "string \<Rightarrow> (string \<times> string) list \<Rightarrow> string option"

definition clean_string :: "string \<Rightarrow> string" where
  "clean_string value = strip value"

definition template_value :: "(string \<times> string) list \<Rightarrow> string \<Rightarrow> string" where
  "template_value values key = (case map_of values key of None \<Rightarrow> [] | Some v \<Rightarrow> v)"

datatype rendered = Text string | Malformed | Extended

definition prepend :: "string \<Rightarrow> rendered \<Rightarrow> rendered" where
  "prepend s r = (case r of Text t \<Rightarrow> Text (s @ t) | Malformed \<Rightarrow> Malformed | Extended \<Rightarrow> Extended)"

definition lbrace :: char where "lbrace = CHR 0x7B"

definition rbrace :: char where "rbrace = CHR 0x7D"

definition all_digits :: "string \<Rightarrow> bool" where
  "all_digits s = list_all (\<lambda>c. digit_value c \<noteq> None) s"

text \<open>The field after an opening brace: an empty or numeric name is positional, which \<open>format_map\<close>
  refuses.\<close>

definition field_value :: "(string \<times> string) list \<Rightarrow> string \<Rightarrow> rendered" where
  "field_value values f =
     (if \<exists>c\<in>set f. c \<in> {CHR ''.'', CHR ''['', CHR ''!'', CHR '':'', lbrace} then Extended
      else if all_digits f then Malformed
      else Text (template_value values f))"

lemma length_rest [simp]: "length (dropWhile P cs) - Suc 0 < Suc (length cs)"
  "length (dropWhile P cs) - Suc 0 < Suc (Suc (length cs))"
  using length_dropWhile_le [of P cs] by linarith+

function format_plain :: "(string \<times> string) list \<Rightarrow> string \<Rightarrow> rendered" where
  "format_plain values [] = Text []"
| "format_plain values (c # cs) =
     (if c = lbrace then
        (case cs of
           [] \<Rightarrow> Malformed
         | d # ds \<Rightarrow>
             if d = lbrace then prepend [lbrace] (format_plain values ds)
             else if rbrace \<notin> set cs then Malformed
             else
               (case field_value values (takeWhile (\<lambda>x. x \<noteq> rbrace) cs) of
                  Text v \<Rightarrow> prepend v (format_plain values (tl (dropWhile (\<lambda>x. x \<noteq> rbrace) cs)))
                | r \<Rightarrow> r))
      else if c = rbrace then
        (case cs of
           [] \<Rightarrow> Malformed
         | d # ds \<Rightarrow> if d = rbrace then prepend [rbrace] (format_plain values ds) else Malformed)
      else prepend [c] (format_plain values cs))"
  by pat_completeness auto

termination
  by (relation "measure (\<lambda>(_, s). length s)") auto

definition render_template :: "format_map \<Rightarrow> string \<Rightarrow> (string \<times> string) list \<Rightarrow> string" where
  "render_template fmt template values =
     (if template = [] then []
      else (case format_plain values template of
              Text t \<Rightarrow> t
            | Malformed \<Rightarrow> []
            | Extended \<Rightarrow> (case fmt template values of None \<Rightarrow> [] | Some t \<Rightarrow> t)))"

section \<open>The mapping\<close>

definition unique_strings :: "string list \<Rightarrow> string list" where
  "unique_strings values = dedup_casefold [] (map clean_string values)"

record mapping_request =
  mq_agent_id :: string
  mq_hostname :: string
  mq_display_name :: string
  mq_target_host :: string
  mq_username :: string
  mq_domain :: string
  mq_group_name :: string
  mq_connection_name :: string
  mq_connection_identifier :: string

definition mapping_values :: "mapping_request \<Rightarrow> (string \<times> string) list" where
  "mapping_values q =
     (let host = clean_string (mq_hostname q) in
      [(''agent_id'', clean_string (mq_agent_id q)),
       (''hostname'', host),
       (''target_host'', str_or (clean_string (mq_target_host q)) host),
       (''display_name'', str_or (clean_string (mq_display_name q)) (str_or host (clean_string (mq_agent_id q)))),
       (''username'', clean_string (mq_username q)),
       (''domain'', clean_string (mq_domain q))])"

definition env_template :: "env \<Rightarrow> string \<Rightarrow> string" where
  "env_template env key = clean_string (the_or (env key) [])"

definition build_agent_guacamole_mapping :: "format_map \<Rightarrow> env \<Rightarrow> mapping_request \<Rightarrow> pydict" where
  "build_agent_guacamole_mapping fmt env q =
     (let agent = clean_string (mq_agent_id q); host = clean_string (mq_hostname q);
          display = clean_string (mq_display_name q); target = clean_string (mq_target_host q);
          user = clean_string (mq_username q); dom = clean_string (mq_domain q);
          render = (\<lambda>t. render_template fmt t (mapping_values q));
          rendered_group = render (str_or (env_template env ''GUACAMOLE_AGENT_GROUP_TEMPLATE'')
                                     (lbrace # ''display_name'' @ [rbrace]));
          rendered_connection = render (str_or (env_template env ''GUACAMOLE_CONNECTION_NAME_TEMPLATE'')
                                     (lbrace # ''hostname'' @ [rbrace]));
          rendered_identifier = render (env_template env ''GUACAMOLE_CONNECTION_IDENTIFIER_TEMPLATE'');
          rendered_user = render (env_template env ''GUACAMOLE_USERNAME_TEMPLATE'');
          group = str_or (clean_string (mq_group_name q)) (str_or rendered_group (str_or user agent));
          connection = str_or (clean_string (mq_connection_name q))
                         (str_or rendered_connection (str_or host agent));
          identifier = str_or (clean_string (mq_connection_identifier q)) rendered_identifier
      in [(''version'', PInt 1), (''mapping_strategy'', PStr ''agent_group''),
          (''group_name'', PStr group), (''group_identifier'', PStr []),
          (''connection_name'', PStr connection), (''connection_identifier'', PStr identifier),
          (''target_host'', PStr (str_or target host)), (''username'', PStr (str_or user rendered_user)),
          (''domain'', PStr dom),
          (''group_candidates'', PList (map PStr (unique_strings [group, user, agent]))),
          (''connection_candidates'',
             PList (map PStr (unique_strings [identifier, connection, target, host, display, agent])))])"

section \<open>What the mapping promises\<close>

lemma dedup_casefold_hd: "x \<noteq> [] \<Longrightarrow> dedup_casefold [] (x # xs) = x # dedup_casefold [casefold x] xs"
  by simp

lemma hd_unique_strings: "g \<noteq> [] \<Longrightarrow> clean_string g = g \<Longrightarrow> hd (unique_strings (g # vs)) = g"
  by (simp add: unique_strings_def)

lemma unique_strings_distinct: "distinct (map casefold (unique_strings vs))"
  by (simp add: unique_strings_def dedup_casefold_distinct)

lemma unique_strings_complete:
  "v \<in> set vs \<Longrightarrow> clean_string v \<noteq> [] \<Longrightarrow> casefold (clean_string v) \<in> casefold ` set (unique_strings vs)"
  unfolding unique_strings_def
  using dedup_casefold_complete [of "clean_string v" "map clean_string vs" "[]"] by auto

text \<open>A template without braces is its own rendering: only a brace starts a replacement.\<close>

lemma format_plain_text:
  "lbrace \<notin> set s \<Longrightarrow> rbrace \<notin> set s \<Longrightarrow> format_plain values s = Text s"
  by (induction s) (auto simp: prepend_def)

lemma format_plain_field:
  assumes "lbrace \<notin> set name" "rbrace \<notin> set name" "\<not> all_digits name"
    and "\<forall>c\<in>set name. c \<notin> {CHR ''.'', CHR ''['', CHR ''!'', CHR '':''}"
  shows "format_plain values (lbrace # name @ rbrace # rest) =
    prepend (template_value values name) (format_plain values rest)"
proof -
  have "name \<noteq> []" using assms(3) by (auto simp: all_digits_def)
  then obtain d ds where n: "name = d # ds" by (cases name) auto
  have ne: "lbrace \<noteq> rbrace" by (simp add: lbrace_def rbrace_def)
  have t: "takeWhile (\<lambda>x. x \<noteq> rbrace) (name @ rbrace # rest) = name"
    using assms(2) by (metis (mono_tags, lifting) takeWhile_append2 takeWhile.simps(2) append_Nil2)
  have dr: "dropWhile (\<lambda>x. x \<noteq> rbrace) (name @ rbrace # rest) = rbrace # rest"
    using assms(2) by (metis (mono_tags, lifting) dropWhile_append2 dropWhile.simps(2))
  have f: "field_value values name = Text (template_value values name)"
    using assms by (auto simp: field_value_def)
  show ?thesis
    using t dr f assms(1) by (auto simp: n)
qed

lemma default_field:
  assumes "name = ''display_name'' \<or> name = ''hostname''"
  shows "render_template fmt (lbrace # name @ [rbrace]) values = template_value values name"
proof -
  have "format_plain values (lbrace # name @ rbrace # []) = prepend (template_value values name) (Text [])"
    using assms by (intro trans [OF format_plain_field])
      (auto simp: lbrace_def rbrace_def all_digits_def digit_value_def)
  then show ?thesis by (simp add: render_template_def prepend_def)
qed

lemma no_template [simp]: "env k = None \<Longrightarrow> env_template env k = []"
  by (simp add: env_template_def clean_string_def)

text \<open>Without templates in the environment the group is the requested one, else the display name, else
  the host, else the agent, and it heads the group candidates, which never repeat a name in another
  spelling and are never empty strings.\<close>

theorem mapping_default_group:
  assumes "env ''GUACAMOLE_AGENT_GROUP_TEMPLATE'' = None" and "env ''GUACAMOLE_CONNECTION_NAME_TEMPLATE'' = None"
    and "clean_string (mq_agent_id q) \<noteq> []"
  shows "\<exists>name gs. dget (build_agent_guacamole_mapping fmt env q) ''group_name'' = PStr name \<and>
     name = str_or (clean_string (mq_group_name q)) (str_or (clean_string (mq_display_name q))
       (str_or (clean_string (mq_hostname q)) (clean_string (mq_agent_id q)))) \<and>
     dget (build_agent_guacamole_mapping fmt env q) ''group_candidates'' = PList (map PStr gs) \<and>
     hd gs = name \<and> distinct (map casefold gs) \<and> [] \<notin> set gs \<and>
     casefold (clean_string (mq_agent_id q)) \<in> casefold ` set gs"
proof -
  let ?group = "str_or (clean_string (mq_group_name q)) (str_or (clean_string (mq_display_name q))
       (str_or (clean_string (mq_hostname q)) (clean_string (mq_agent_id q))))"
  let ?gs = "unique_strings [?group, clean_string (mq_username q), clean_string (mq_agent_id q)]"
  have r: "render_template fmt (lbrace # ''display_name'' @ [rbrace]) (mapping_values q) =
      str_or (clean_string (mq_display_name q)) (str_or (clean_string (mq_hostname q)) (clean_string (mq_agent_id q)))"
    by (subst default_field) (simp_all add: mapping_values_def template_value_def Let_def)
  have ne: "?group \<noteq> []" using assms(3) by simp
  have c: "clean_string ?group = ?group" by (simp add: clean_string_def str_or_def)
  have name: "dget (build_agent_guacamole_mapping fmt env q) ''group_name'' = PStr ?group"
    and cands: "dget (build_agent_guacamole_mapping fmt env q) ''group_candidates'' = PList (map PStr ?gs)"
    using r assms(1,3) by (simp_all add: build_agent_guacamole_mapping_def Let_def str_or_def)
  have hd: "hd ?gs = ?group" by (rule hd_unique_strings [OF ne c])
  have agent: "casefold (clean_string (mq_agent_id q)) \<in> casefold ` set ?gs"
    using unique_strings_complete [of "clean_string (mq_agent_id q)" "[?group, clean_string (mq_username q), clean_string (mq_agent_id q)]"] assms(3)
    by (simp add: clean_string_def)
  have nn: "[] \<notin> set ?gs" unfolding unique_strings_def using dedup_casefold_nonempty by blast
  show ?thesis
    by (intro exI conjI, rule name, rule refl, rule cands, rule hd, rule unique_strings_distinct, rule nn, rule agent)
qed

definition sample_mapping_request :: mapping_request where
  "sample_mapping_request = \<lparr>mq_agent_id = ''vm1'', mq_hostname = ''VM1.lan'', mq_display_name = [],
     mq_target_host = [], mq_username = ''bob'', mq_domain = [], mq_group_name = [], mq_connection_name = [],
     mq_connection_identifier = []\<rparr>"

theorem mapping_default_group_witness:
  "dget (build_agent_guacamole_mapping (\<lambda>_ _. None) (\<lambda>_. None) sample_mapping_request) ''group_name'' = PStr ''VM1.lan''"
proof -
  have "clean_string (mq_agent_id sample_mapping_request) \<noteq> []" by code_simp
  from mapping_default_group [OF refl refl this, of "\<lambda>_ _. None"] obtain name where
    n: "dget (build_agent_guacamole_mapping (\<lambda>_ _. None) (\<lambda>_. None) sample_mapping_request) ''group_name'' = PStr name"
      "name = str_or (clean_string (mq_group_name sample_mapping_request)) (str_or (clean_string (mq_display_name sample_mapping_request))
       (str_or (clean_string (mq_hostname sample_mapping_request)) (clean_string (mq_agent_id sample_mapping_request))))" by blast
  have "name = ''VM1.lan''" unfolding n(2) by code_simp
  then show ?thesis using n(1) by simp
qed

end
