(* ===== verification/Deployment_Service.thy ===== *)
theory Deployment_Service
  imports Task_Service Agent_Registry Guacamole_Mapping
begin

text \<open>
  Preparing the installation of an agent (\<open>services/deployment_service.py\<close>): releases read from GitHub,
  the deployment and its task, the package on disk, the release cache, and the recovery after a restart.

  The service works on the registry, the files of the server and the task store. A file is its path and
  its contents; \<open>a / b\<close> on paths is \<open>path_join\<close>. What comes from outside is in \<open>deploy_ctx\<close>: the
  environment, git, the network, SHA-256, \<open>urlparse\<close>, \<open>mktime\<close>, the Guacamole bridge, the archive writer
  and the PowerShell text around the two values the install script is given. A handler runs to its end
  before the next one; a prepared package is built by a job that runs later.
\<close>

section \<open>The outside\<close>

text \<open>A download opens the connection or not; what was received before an error stays on disk.\<close>

datatype download = Unopened pyexc | Received string "pyexc option"

record deploy_ctx =
  dc_env :: env
  dc_settings :: "server_settings option"
  dc_remote_url :: "string option"
  dc_hostname :: string
  dc_repo_root :: string
  dc_urlparse :: "string \<Rightarrow> string \<times> string"
  dc_http :: "(string \<times> string) list \<Rightarrow> string \<Rightarrow> string result"
  dc_download :: "(string \<times> string) list \<Rightarrow> string \<Rightarrow> download"
  dc_mktime :: "string \<Rightarrow> int option"
  dc_sha256 :: "string \<Rightarrow> string"
  dc_format :: format_map
  dc_provision :: "string \<Rightarrow> string \<Rightarrow> pydict \<Rightarrow> (string \<times> string) list \<Rightarrow> (pydict \<times> pydict) result"
  dc_writable :: "string \<Rightarrow> bool"
  dc_zip :: "(string \<times> string) list \<Rightarrow> string"
  dc_script :: "string \<Rightarrow> string \<Rightarrow> string"

definition path_join :: "string \<Rightarrow> string \<Rightarrow> string" where
  "path_join a b = (if starts_with ''/'' b then b else a @ ''/'' @ b)"

definition backslash :: char where "backslash = CHR 0x5C"

section \<open>Names and configuration\<close>

definition DEFAULT_RELEASE_ASSET_NAME :: string where
  "DEFAULT_RELEASE_ASSET_NAME = ''agent_service.exe''"

definition DEFAULT_RELEASE_CHECKSUM_NAME :: string where
  "DEFAULT_RELEASE_CHECKSUM_NAME = ''agent_service.exe.sha256''"

definition normalize_hostname_value :: "string \<Rightarrow> string \<times> string" where
  "normalize_hostname_value value =
     (let cleaned = lower (rstrip_char (CHR ''.'') (strip value))
      in (cleaned, if cleaned \<noteq> [] then before_first (CHR ''.'') cleaned else []))"

definition resolve_bootstrap_hostnames :: "string \<Rightarrow> string \<times> string" where
  "resolve_bootstrap_hostnames hostname =
     (case normalize_hostname_value hostname of
        (full_name, short_name) \<Rightarrow>
          if CHR ''.'' \<in> set full_name then (strip hostname, short_name) else ([], strip hostname))"

text \<open>The value of the settings when the service has settings, empty when not.\<close>

definition configured :: "deploy_ctx \<Rightarrow> (deployment_settings \<Rightarrow> string) \<Rightarrow> string" where
  "configured cx field =
     (case dc_settings cx of None \<Rightarrow> [] | Some s \<Rightarrow> strip (field (ss_deployment s)))"

definition get_default_repo_url :: "deploy_ctx \<Rightarrow> string" where
  "get_default_repo_url cx =
     str_or (configured cx dp_default_repo_url)
       (ostr_or (dc_env cx ''VM_AGENT_REPO_URL'')
         (case dc_remote_url cx of None \<Rightarrow> [] | Some out \<Rightarrow> strip out))"

definition get_artifact_share_root :: "deploy_ctx \<Rightarrow> string" where
  "get_artifact_share_root cx =
     str_or (configured cx dp_artifact_share_root)
       (ostr_or (dc_env cx ''VM_AGENT_ARTIFACT_SHARE_ROOT'')
         ([backslash, backslash] @ dc_hostname cx @ [backslash] @ ''agent'' @ [backslash] @ ''DevOPS''
          @ [backslash] @ ''artifacts'' @ [backslash] @ ''deployments''))"

definition get_latest_installer_share_template :: "deploy_ctx \<Rightarrow> string" where
  "get_latest_installer_share_template cx =
     str_or (configured cx dp_latest_installer_share_template)
       (let share_root = get_artifact_share_root cx;
            tail = [backslash] @ ''deployments'';
            script = [backslash] @ ''latest'' @ [backslash] @ ''install-'' @ (lbrace # ''deployment_id'' @ [rbrace]) @ ''.ps1''
        in if ends_with tail share_root then take (length share_root - length tail) share_root @ script
           else share_root @ [backslash] @ ''..'' @ script)"

definition get_release_asset_name :: "deploy_ctx \<Rightarrow> string" where
  "get_release_asset_name cx =
     str_or (strip (the_or (dc_env cx ''VM_AGENT_RELEASE_ASSET_NAME'') DEFAULT_RELEASE_ASSET_NAME))
       DEFAULT_RELEASE_ASSET_NAME"

definition get_release_checksum_name :: "deploy_ctx \<Rightarrow> string" where
  "get_release_checksum_name cx =
     str_or (strip (the_or (dc_env cx ''VM_AGENT_RELEASE_CHECKSUM_NAME'') DEFAULT_RELEASE_CHECKSUM_NAME))
       DEFAULT_RELEASE_CHECKSUM_NAME"

definition get_github_token :: "deploy_ctx \<Rightarrow> string" where
  "get_github_token cx =
     str_or (strip (the_or (dc_env cx ''VM_AGENT_GITHUB_TOKEN'') [])) (strip (the_or (dc_env cx ''GITHUB_TOKEN'') []))"

definition strip_slashes :: "string \<Rightarrow> string" where
  "strip_slashes s = rstrip_char (CHR ''/'') (dropWhile (\<lambda>c. c = CHR ''/'') s)"

definition get_github_repo_slug :: "deploy_ctx \<Rightarrow> string" where
  "get_github_repo_slug cx =
     (let repo_url = strip (get_default_repo_url cx) in
      if repo_url = [] then []
      else
        (let normalized = (if ends_with ''.git'' repo_url then take (length repo_url - 4) repo_url else repo_url)
         in if starts_with ''git@github.com:'' normalized
            then strip_slashes (drop (length ''git@github.com:'') normalized)
            else (case dc_urlparse cx normalized of
                    (netloc, path) \<Rightarrow> if lower netloc = ''github.com'' then strip_slashes path else [])))"

definition github_headers :: "deploy_ctx \<Rightarrow> (string \<times> string) list" where
  "github_headers cx =
     [(''Accept'', ''application/vnd.github+json''), (''User-Agent'', ''vm-agent-server''),
      (''X-GitHub-Api-Version'', ''2022-11-28'')]
     @ (if get_github_token cx \<noteq> [] then [(''Authorization'', ''Bearer '' @ get_github_token cx)] else [])"

definition read_text_url :: "deploy_ctx \<Rightarrow> string \<Rightarrow> string result" where
  "read_text_url cx url = dc_http cx (github_headers cx) url"

definition read_json_url :: "deploy_ctx \<Rightarrow> string \<Rightarrow> pyval result" where
  "read_json_url cx url =
     bindE (read_text_url cx url) (\<lambda>text.
       case json_loads text of None \<Rightarrow> Inl (JSONDecodeError ''invalid JSON'') | Some v \<Rightarrow> Inr v)"

section \<open>Releases\<close>

text \<open>\<open>splitlines\<close>; the separators it knows are all white space, and blank lines are skipped.\<close>

definition text_lines :: "string \<Rightarrow> string list" where
  "text_lines s =
     split_on newline (map (\<lambda>c. if (of_char c :: nat) \<in> {10, 11, 12, 13, 28, 29, 30} then newline else c) s)"

fun checksum_in :: "string \<Rightarrow> string list \<Rightarrow> string" where
  "checksum_in expected_name [] = []"
| "checksum_in expected_name (raw_line # rest) =
     (case split_ws raw_line of
        [] \<Rightarrow> checksum_in expected_name rest
      | [h] \<Rightarrow> lower h
      | h # names \<Rightarrow>
          if dropWhile (\<lambda>c. c = CHR ''*'') (last names) = expected_name then lower h
          else checksum_in expected_name rest)"

definition extract_checksum :: "string \<Rightarrow> string \<Rightarrow> string" where
  "extract_checksum checksum_text expected_name = checksum_in expected_name (text_lines checksum_text)"

definition ne_opt :: "string \<Rightarrow> string option" where
  "ne_opt s = (if s = [] then None else Some s)"

definition asset_named :: "string \<Rightarrow> pyval list \<Rightarrow> pydict option" where
  "asset_named name assets =
     map_option as_dict (find (\<lambda>a. is_dict a \<and> dget (as_dict a) ''name'' = PStr name) assets)"

definition removeprefix_v :: "string \<Rightarrow> string" where
  "removeprefix_v s = (if starts_with ''v'' s then drop 1 s else s)"

definition build_release_record :: "deploy_ctx \<Rightarrow> pyval \<Rightarrow> release_source option result" where
  "build_release_record cx entry =
     (case entry of
        PDict release \<Rightarrow>
          (let asset_name = get_release_asset_name cx;
               checksum_name = get_release_checksum_name cx;
               assets = (case dget release ''assets'' of PList xs \<Rightarrow> xs | _ \<Rightarrow> []);
               field = (\<lambda>k. str_or_empty (dget release k))
           in case asset_named asset_name assets of
                None \<Rightarrow> Inr None
              | Some binary \<Rightarrow>
                  (let checksum_url = str_or_empty (dget (the_or (asset_named checksum_name assets) [])
                                        ''browser_download_url'')
                   in bindE (if checksum_url \<noteq> []
                             then bindE (read_text_url cx checksum_url)
                                    (\<lambda>text. Inr (extract_checksum text asset_name))
                             else Inr []) (\<lambda>checksum_value.
                      Inr (Some
                        \<lparr>rs_version = str_or (removeprefix_v (field ''tag_name''))
                           (str_or (field ''tag_name'') (field ''name'')),
                         rs_commit_sha = field ''target_commitish'',
                         rs_artifact_url = str_or_empty (dget binary ''browser_download_url''),
                         rs_artifact_sha256 = checksum_value,
                         rs_tag_name = field ''tag_name'',
                         rs_workflow_run_id =
                           ne_opt (str_or_empty (dget (as_dict (dget release ''author'')) ''id'')),
                         rs_published_at =
                           (if field ''published_at'' \<noteq> [] then dc_mktime cx (field ''published_at'') else None),
                         rs_metadata = Some
                           [(''release_name'', PStr (field ''name'')), (''html_url'', PStr (field ''html_url'')),
                            (''prerelease'', PBool (truthy (dget release ''prerelease''))),
                            (''draft'', PBool (truthy (dget release ''draft''))),
                            (''asset_name'', PStr asset_name), (''checksum_asset_name'', PStr checksum_name)],
                         rs_release_id = ne_opt (field ''id'')\<rparr>))))
      | _ \<Rightarrow> Inr None)"

fun release_records :: "deploy_ctx \<Rightarrow> pyval list \<Rightarrow> release_source list result" where
  "release_records cx [] = Inr []"
| "release_records cx (entry # rest) =
     bindE (build_release_record cx entry) (\<lambda>r.
     bindE (release_records cx rest) (\<lambda>rs.
       Inr (case r of None \<Rightarrow> rs | Some s \<Rightarrow> s # rs)))"

definition sync_github_releases :: "deploy_ctx \<Rightarrow> int \<Rightarrow> release_source list result" where
  "sync_github_releases cx lim =
     (let repo_slug = get_github_repo_slug cx in
      if repo_slug = [] then Inr []
      else bindE (read_json_url cx (''https://api.github.com/repos/'' @ repo_slug @ ''/releases?per_page='' @ str_int lim))
             (\<lambda>payload. case payload of PList xs \<Rightarrow> release_records cx xs | _ \<Rightarrow> Inr []))"

text \<open>The exceptions \<open>sync_release_metadata_from_github\<close> catches.\<close>

definition network_error :: "pyexc \<Rightarrow> bool" where
  "network_error e = (case e of OSError _ \<Rightarrow> True | JSONDecodeError _ \<Rightarrow> True | _ \<Rightarrow> False)"

text \<open>\<open>uuids\<close> are the fresh identifiers, one for each release of the list.\<close>

fun store_releases :: "int \<Rightarrow> (nat \<Rightarrow> string) \<Rightarrow> nat \<Rightarrow> release_source list \<Rightarrow> (registry, release_view list) prog" where
  "store_releases now uuids n [] = retP []"
| "store_releases now uuids n (src # rest) =
     bindP (upsert_release_from_source now (uuids n) src) (\<lambda>persisted.
     bindP (store_releases now uuids (Suc n) rest) (\<lambda>synced.
       retP (case persisted of None \<Rightarrow> synced | Some v \<Rightarrow> v # synced)))"

definition ask :: "(registry \<Rightarrow> 'a result) \<Rightarrow> (registry, 'a) prog" where
  "ask q db = (db, q db)"

definition sync_release_metadata_from_github ::
    "deploy_ctx \<Rightarrow> int \<Rightarrow> (nat \<Rightarrow> string) \<Rightarrow> int \<Rightarrow> (registry, release_view list) prog" where
  "sync_release_metadata_from_github cx now uuids lim =
     (case sync_github_releases cx lim of
        Inl e \<Rightarrow> if network_error e then ask (get_releases lim) else raiseP e
      | Inr releases \<Rightarrow>
          bindP (store_releases now uuids 0 releases) (\<lambda>synced.
            if synced \<noteq> [] then retP synced else ask (get_releases lim)))"

record prepare_config =
  pc_default_repo_url :: string
  pc_artifact_share_root :: string
  pc_latest_installer_share_template :: string
  pc_active_deployment :: "deployment_view option"
  pc_latest_release :: "release_view option"
  pc_releases :: "release_view list"

definition get_prepare_config :: "deploy_ctx \<Rightarrow> int \<Rightarrow> (nat \<Rightarrow> string) \<Rightarrow> (registry, prepare_config) prog" where
  "get_prepare_config cx now uuids =
     bindP (ask get_active_deployment) (\<lambda>active.
     bindP (sync_release_metadata_from_github cx now uuids 20) (\<lambda>releases.
       retP \<lparr>pc_default_repo_url = get_default_repo_url cx, pc_artifact_share_root = get_artifact_share_root cx,
             pc_latest_installer_share_template = get_latest_installer_share_template cx,
             pc_active_deployment = active, pc_latest_release = head_opt releases, pc_releases = releases\<rparr>))"

record releases_config =
  rc_repo_slug :: string
  rc_repo_url :: string
  rc_latest_release :: "release_view option"
  rc_releases :: "release_view list"

definition get_releases_config :: "deploy_ctx \<Rightarrow> int \<Rightarrow> (nat \<Rightarrow> string) \<Rightarrow> int \<Rightarrow> (registry, releases_config) prog" where
  "get_releases_config cx now uuids lim =
     bindP (sync_release_metadata_from_github cx now uuids lim) (\<lambda>releases.
       retP \<lparr>rc_repo_slug = get_github_repo_slug cx, rc_repo_url = get_default_repo_url cx,
             rc_latest_release = head_opt releases, rc_releases = releases\<rparr>)"

definition resolve_prepare_release ::
    "deploy_ctx \<Rightarrow> int \<Rightarrow> (nat \<Rightarrow> string) \<Rightarrow> string option \<Rightarrow> (registry, release_view) prog" where
  "resolve_prepare_release cx now uuids release_id =
     (let selected = strip (the_or release_id []) in
      bindP (sync_release_metadata_from_github cx now uuids 20) (\<lambda>releases.
        if selected \<noteq> [] then
          (case find (\<lambda>r. strip (re_id r) = selected) releases of
             Some r \<Rightarrow> retP r
           | None \<Rightarrow>
               bindP (ask (get_release selected)) (\<lambda>persisted.
                 case persisted of
                   Some r \<Rightarrow> retP r
                 | None \<Rightarrow> raiseP (RuntimeError (''Release not found: '' @ selected))))
        else
          (case releases of
             r # _ \<Rightarrow> retP r
           | [] \<Rightarrow>
               bindP (ask get_latest_release) (\<lambda>latest.
                 case latest of
                   Some r \<Rightarrow> retP r
                 | None \<Rightarrow> raiseP (RuntimeError ''No agent release is available for deployment'')))))"

section \<open>The state of the service\<close>

text \<open>The payload of a prepare task once its fields are read: the arguments of the job.\<close>

record prepare_job =
  pj_deployment_id :: string
  pj_task_id :: string
  pj_agent_id :: string
  pj_release_id :: string
  pj_release_version :: string
  pj_release_tag_name :: string
  pj_artifact_url :: string
  pj_artifact_sha256 :: string
  pj_commit_sha :: string
  pj_hostname :: string
  pj_display_name :: string
  pj_guacamole :: pydict
  pj_server_ws_url :: string
  pj_bootstrap_token :: string
  pj_bootstrap_expires_at :: int

text \<open>\<open>ds_running\<close> are the keys of \<open>_tasks\<close>, \<open>ds_pending\<close> the jobs that were created and have not run.\<close>

record deploy_state =
  ds_registry :: registry
  ds_files :: "(string \<times> string) list"
  ds_running :: "string list"
  ds_pending :: "prepare_job list"

type_synonym 'a deploy_prog = "(deploy_state, 'a) prog"

definition on_registry :: "(registry, 'a) prog \<Rightarrow> 'a deploy_prog" where
  "on_registry m w = (let (db, r) = m (ds_registry w) in (w\<lparr>ds_registry := db\<rparr>, r))"

definition on_reg :: "(registry, 'a) prog \<Rightarrow> (deploy_state svc, 'a) prog" where
  "on_reg m = on_net (on_registry m)"

section \<open>Preparing a deployment\<close>

record prepare_request =
  pq_agent_id :: string
  pq_hostname :: string
  pq_display_name :: string
  pq_target_host :: string
  pq_username :: string
  pq_domain :: string
  pq_password :: string
  pq_secret :: string
  pq_group_name :: string
  pq_connection_name :: string
  pq_release_id :: "string option"
  pq_requested_by :: string
  pq_server_ws_url :: string

text \<open>What the call draws: identifiers, the bootstrap token, its hash and the clock.\<close>

record prepare_fresh =
  pf_deployment_id :: string
  pf_task_id :: string
  pf_token :: string
  pf_token_hash :: string
  pf_now :: int
  pf_uuids :: "nat \<Rightarrow> string"

definition request_mapping :: "prepare_request \<Rightarrow> mapping_request" where
  "request_mapping q =
     \<lparr>mq_agent_id = pq_agent_id q, mq_hostname = pq_hostname q, mq_display_name = pq_display_name q,
      mq_target_host = pq_target_host q, mq_username = pq_username q, mq_domain = pq_domain q,
      mq_group_name = pq_group_name q, mq_connection_name = pq_connection_name q,
      mq_connection_identifier = []\<rparr>"

text \<open>What both the payload and the deployment component carry; only the place of the agent differs.\<close>

definition deployment_fields ::
    "bool \<Rightarrow> prepare_request \<Rightarrow> prepare_fresh \<Rightarrow> release_view \<Rightarrow> pydict \<Rightarrow> pydict" where
  "deployment_fields agent_second q fr rel mapping =
     (let tag = strip (re_tag_name rel); agent = [(''agent_id'', PStr (pq_agent_id q))] in
      [(''deployment_id'', PStr (pf_deployment_id fr))]
      @ (if agent_second then agent else [])
      @ [(''release_id'', PStr (strip (re_id rel))),
         (''release_version'', PStr (strip (str_or (re_version rel) (str_or tag (strip (re_id rel)))))),
         (''release_tag_name'', PStr tag),
         (''artifact_url'', PStr (strip (re_artifact_url rel))),
         (''artifact_sha256'', PStr (lower (strip (re_artifact_sha256 rel)))),
         (''commit_sha'', PStr (strip (re_commit_sha rel))),
         (''hostname'', PStr (pq_hostname q)),
         (''display_name'', PStr (pq_display_name q))]
      @ (if agent_second then [] else agent)
      @ [(''guacamole'', PDict mapping),
         (''server_ws_url'', PStr (pq_server_ws_url q)),
         (''bootstrap_token'', PStr (pf_token fr)),
         (''bootstrap_expires_at'', PInt (pf_now fr + 3600))])"

definition prepare_builder ::
    "deploy_ctx \<Rightarrow> prepare_request \<Rightarrow> prepare_fresh \<Rightarrow> release_view \<Rightarrow> pydict \<Rightarrow> task_builder" where
  "prepare_builder cx q fr rel mapping =
     (b_component ''deployment'' (deployment_fields True q fr rel mapping)
        (fold (\<lambda>(k, v). b_payload_field k v) (deployment_fields False q fr rel mapping)
          (b_requested_from ''server''
            (b_requested_by (pq_requested_by q)
              (b_timeout 7200
                (b_cwd (dc_repo_root cx)
                  (b_name (''Prepare deployment for '' @ pq_hostname q)
                    (builder_deployment (pq_agent_id q) ''prepare'' (Some (pf_task_id fr)) (pf_task_id fr)))))))))"

datatype prepared = Stored deployment_view | Stub string

definition active_message :: "deployment_view \<Rightarrow> string" where
  "active_message v = ''Another deployment is already running: '' @ de_id v @ '' ('' @ de_hostname v @ '')''"

definition release_metadata :: "release_view \<Rightarrow> pydict" where
  "release_metadata rel =
     [(''id'', PStr (strip (re_id rel))),
      (''version'', PStr (strip (str_or (re_version rel) (str_or (strip (re_tag_name rel)) (strip (re_id rel)))))),
      (''tag_name'', PStr (strip (re_tag_name rel))),
      (''artifact_url'', PStr (strip (re_artifact_url rel))),
      (''artifact_sha256'', PStr (lower (strip (re_artifact_sha256 rel))))]"

text \<open>\<open>prepare_deployment\<close>; \<open>handlers\<close> is the dispatcher of the task service, None before
  \<open>set_task_service\<close>.\<close>

definition prepare_deployment ::
    "deploy_ctx \<Rightarrow> (string \<times> deploy_state task_handler) list option \<Rightarrow> prepare_fresh \<Rightarrow> prepare_request
     \<Rightarrow> (deploy_state svc, prepared) prog" where
  "prepare_deployment cx handlers fr q =
     (let now = pf_now fr; dep = pf_deployment_id fr in
      bindP (on_reg (ask get_active_deployment)) (\<lambda>active.
      bindP (case active of None \<Rightarrow> retP () | Some v \<Rightarrow> raiseP (RuntimeError (active_message v))) (\<lambda>_.
      bindP (on_reg (resolve_prepare_release cx now (pf_uuids fr) (pq_release_id q))) (\<lambda>rel.
      bindP (if strip (re_id rel) = [] then raiseP (RuntimeError ''Selected release is missing an id'') else retP ()) (\<lambda>_.
      bindP (if strip (re_artifact_url rel) = []
             then raiseP (RuntimeError (''Selected release '' @ strip (re_id rel)
                    @ '' does not have a downloadable artifact'')) else retP ()) (\<lambda>_.
      bindP (lift_result (dc_provision cx (pq_agent_id q) (pq_hostname q)
               (build_agent_guacamole_mapping (dc_format cx) (dc_env cx) (request_mapping q))
               [(''password'', pq_password q), (''secret'', pq_secret q)])) (\<lambda>(mapping, provisioning).
      bindP (on_reg (upsert_agent now (pq_agent_id q)
               (no_upsert\<lparr>up_hostname := pq_hostname q, up_display_name := pq_display_name q,
                  up_status := Some ''provisioning'', up_connection_status := Some ''offline'',
                  up_last_deployment_id := Some dep, up_metadata := Some [(''guacamole'', PDict mapping)]\<rparr>))) (\<lambda>_.
      bindP (on_reg (set_bootstrap_token now (pq_agent_id q) (pf_token_hash fr) (now + 3600))) (\<lambda>_.
      bindP (lift_result (build (prepare_builder cx q fr rel mapping))) (\<lambda>task_spec.
      bindP (on_reg (create_deployment now now dep (pq_agent_id q) (pq_hostname q) (pq_requested_by q)
               (pf_task_id fr) (Some (strip (re_id rel)))
               (Some [(''guacamole_provisioning'', PDict provisioning),
                      (''release'', PDict (release_metadata rel))]))) (\<lambda>_.
      bindP (case handlers of
               None \<Rightarrow> raiseP (RuntimeError ''TaskService is not configured for DeploymentService'')
             | Some hs \<Rightarrow> create_and_dispatch hs now task_spec ''server'') (\<lambda>(_, dispatch).
      bindP (if dr_accepted dispatch then retP ()
             else
               bindP (on_reg (update_deployment dep
                 (no_update\<lparr>du_status := Some ''failed'', du_release_id := Some (strip (re_id rel)),
                    du_error := Some (ostr_or (dr_error dispatch) ''Deployment dispatch failed''),
                    du_completed_at := Some now, du_task_id := Some (pf_task_id fr)\<rparr>))) (\<lambda>_.
               on_reg (upsert_agent now (pq_agent_id q)
                 (no_upsert\<lparr>up_hostname := pq_hostname q, up_display_name := pq_display_name q,
                    up_status := Some ''deploy_failed'', up_connection_status := Some ''offline'',
                    up_last_deployment_id := Some dep\<rparr>)))) (\<lambda>_.
      bindP (on_reg (ask (get_deployment dep))) (\<lambda>deployment.
        retP (case deployment of Some v \<Rightarrow> Stored v | None \<Rightarrow> Stub dep)))))))))))))))"

section \<open>Recovery after a restart\<close>

definition recovery_update :: "int \<Rightarrow> string \<Rightarrow> deployment_update" where
  "recovery_update now status =
     no_update\<lparr>du_status := Some ''failed'',
       du_error := Some (''Deployment prepare was interrupted while in '' @ [quote_char] @ status @ [quote_char]
         @ ''. The server was restarted before the release package was prepared.''),
       du_completed_at := Some now\<rparr>"

definition recover_one :: "int \<Rightarrow> deployment_view \<Rightarrow> int deploy_prog" where
  "recover_one now v w =
     (let dep = strip (de_id v); agent_id = strip (de_agent_id v); hostname = strip (de_hostname v);
          status = str_or (strip (str_or (de_status v) ''queued'')) ''queued''
      in if dep = [] \<or> dep \<in> set (ds_running w) then retP 0 w
         else
           bindP (on_registry (update_deployment dep (recovery_update now status))) (\<lambda>_.
           bindP (if agent_id = [] then retP ()
                  else on_registry (upsert_agent now agent_id
                    (no_upsert\<lparr>up_hostname := hostname, up_status := Some ''deploy_failed'',
                       up_connection_status := Some ''offline'', up_last_deployment_id := Some dep\<rparr>))) (\<lambda>_.
             retP 1)) w)"

fun recover_each :: "int \<Rightarrow> deployment_view list \<Rightarrow> int deploy_prog" where
  "recover_each now [] = retP 0"
| "recover_each now (v # vs) =
     bindP (recover_one now v) (\<lambda>n. bindP (recover_each now vs) (\<lambda>m. retP (n + m)))"

definition recover_interrupted_deployments :: "int \<Rightarrow> int deploy_prog" where
  "recover_interrupted_deployments now =
     bindP (on_registry (ask get_active_deployments)) (recover_each now)"

section \<open>Dispatching a prepare task\<close>

definition refused :: "string \<Rightarrow> dispatch_result" where
  "refused msg = \<lparr>dr_accepted = False, dr_status = Some ''failed'', dr_error = Some msg\<rparr>"

text \<open>The fields of the payload, and whether they are complete.\<close>

definition read_job :: "task_spec \<Rightarrow> prepare_job result" where
  "read_job t =
     (let p = ts_payload t; field = (\<lambda>k. str_or_empty (dget p k)); hostname = field ''hostname'' in
      bindE (py_int (py_or (dget p ''bootstrap_expires_at'') (PInt 0))) (\<lambda>expires.
        Inr \<lparr>pj_deployment_id = field ''deployment_id'', pj_task_id = ts_id t,
             pj_agent_id = strip (py_str (py_or (dget p ''agent_id'') (PStr (ts_agent_id t)))),
             pj_release_id = field ''release_id'', pj_release_version = field ''release_version'',
             pj_release_tag_name = field ''release_tag_name'', pj_artifact_url = field ''artifact_url'',
             pj_artifact_sha256 = lower (field ''artifact_sha256''), pj_commit_sha = field ''commit_sha'',
             pj_hostname = hostname,
             pj_display_name = strip (py_str (py_or (dget p ''display_name'') (PStr hostname))),
             pj_guacamole = as_dict (dget p ''guacamole''), pj_server_ws_url = field ''server_ws_url'',
             pj_bootstrap_token = field ''bootstrap_token'', pj_bootstrap_expires_at = expires\<rparr>))"

definition job_complete :: "prepare_job \<Rightarrow> bool" where
  "job_complete j \<longleftrightarrow>
     pj_deployment_id j \<noteq> [] \<and> pj_hostname j \<noteq> [] \<and> pj_agent_id j \<noteq> [] \<and> pj_release_id j \<noteq> [] \<and>
     pj_artifact_url j \<noteq> [] \<and> pj_server_ws_url j \<noteq> [] \<and> pj_bootstrap_token j \<noteq> [] \<and>
     0 < pj_bootstrap_expires_at j"

definition dispatch_task :: "int \<Rightarrow> deploy_state task_handler" where
  "dispatch_task now t =
     (let op = deployment_operation (spec_of t) in
      if op \<noteq> ''prepare'' then retP (refused (''Unsupported deployment task operation: '' @ op))
      else
        bindP (lift_result (read_job (spec_of t))) (\<lambda>j.
        if \<not> job_complete j then retP (refused ''Deployment task payload is incomplete'')
        else
          bindP (on_registry (update_deployment (pj_deployment_id j)
            (no_update\<lparr>du_release_id := Some (pj_release_id j), du_status := Some ''preparing'',
               du_tag_name := Some (pj_release_tag_name j), du_commit_sha := Some (pj_commit_sha j),
               du_started_at := Some now, du_task_id := Some (pj_task_id j)\<rparr>))) (\<lambda>_.
          bindP (modP (\<lambda>w. w\<lparr>ds_running := List.insert (pj_deployment_id j) (ds_running w),
                             ds_pending := ds_pending w @ [j]\<rparr>)) (\<lambda>_.
            retP \<lparr>dr_accepted = True, dr_status = Some ''running'', dr_error = None\<rparr>))))"

section \<open>Files\<close>

definition read_file :: "string \<Rightarrow> deploy_state \<Rightarrow> string option" where
  "read_file path w = map_of (ds_files w) path"

definition write_file :: "deploy_ctx \<Rightarrow> string \<Rightarrow> string \<Rightarrow> unit deploy_prog" where
  "write_file cx path contents =
     (if dc_writable cx path then modP (\<lambda>w. w\<lparr>ds_files := AList.update path contents (ds_files w)\<rparr>)
      else raiseP (OSError path))"

definition remove_file :: "deploy_ctx \<Rightarrow> string \<Rightarrow> deploy_state \<Rightarrow> deploy_state" where
  "remove_file cx path w =
     (if dc_writable cx path then w\<lparr>ds_files := AList.delete path (ds_files w)\<rparr> else w)"

text \<open>\<open>_download_release_artifact\<close> without its log lines: the file holds what was received, the result is
  the hash of a complete download.\<close>

definition download_release_artifact :: "deploy_ctx \<Rightarrow> string \<Rightarrow> string \<Rightarrow> string deploy_prog" where
  "download_release_artifact cx artifact_url destination =
     (case dc_download cx (github_headers cx) artifact_url of
        Unopened e \<Rightarrow> raiseP e
      | Received body err \<Rightarrow>
          bindP (write_file cx destination body) (\<lambda>_.
            case err of Some e \<Rightarrow> raiseP e | None \<Rightarrow> retP (lower (dc_sha256 cx body))))"

section \<open>The release cache\<close>

definition release_cache_root :: "deploy_ctx \<Rightarrow> string" where
  "release_cache_root cx = path_join (path_join (dc_repo_root cx) ''artifacts'') ''release-proxy''"

definition mismatch :: "string \<Rightarrow> string \<Rightarrow> string \<Rightarrow> pyexc" where
  "mismatch label actual expected =
     RuntimeError (''Downloaded artifact checksum mismatch for release '' @ label @ '': '' @ actual @ '' != '' @ expected)"

definition release_asset_name :: "deploy_ctx \<Rightarrow> release_view \<Rightarrow> string" where
  "release_asset_name cx rel =
     str_or (str_or_empty (dget (rv_metadata rel) ''asset_name'')) (get_release_asset_name cx)"

definition cached_artifact_path :: "deploy_ctx \<Rightarrow> string \<Rightarrow> release_view \<Rightarrow> string" where
  "cached_artifact_path cx release_id rel =
     path_join (path_join (release_cache_root cx) release_id) (release_asset_name cx rel)"

definition serve_artifact ::
    "deploy_ctx \<Rightarrow> string \<Rightarrow> release_view \<Rightarrow> (string \<times> string) deploy_prog" where
  "serve_artifact cx release_id rel w =
     (let artifact_url = strip (re_artifact_url rel);
          cached = cached_artifact_path cx release_id rel;
          expected = lower (strip (re_artifact_sha256 rel));
          found = (cached, release_asset_name cx rel)
      in if artifact_url = []
         then (w, Inl (RuntimeError (''Release '' @ release_id @ '' does not expose an artifact URL'')))
         else if (case read_file cached w of
                    None \<Rightarrow> False
                  | Some body \<Rightarrow> expected = [] \<or> lower (dc_sha256 cx body) = expected)
         then (w, Inr found)
         else
           bindP (download_release_artifact cx artifact_url cached) (\<lambda>downloaded.
             if expected \<noteq> [] \<and> downloaded \<noteq> expected
             then bindP (modP (remove_file cx cached)) (\<lambda>_. raiseP (mismatch release_id downloaded expected))
             else retP found) w)"

definition get_release_artifact_proxy ::
    "deploy_ctx \<Rightarrow> int \<Rightarrow> (nat \<Rightarrow> string) \<Rightarrow> string \<Rightarrow> (string \<times> string) deploy_prog" where
  "get_release_artifact_proxy cx now uuids release_id =
     bindP (on_registry (resolve_prepare_release cx now uuids (Some release_id)))
       (serve_artifact cx release_id)"

section \<open>The package of a deployment\<close>

text \<open>\<open>json.dumps(value, indent=2)\<close>.\<close>

definition pad :: "nat \<Rightarrow> string" where
  "pad n = newline # replicate (2 * n) (CHR '' '')"

fun json_pretty :: "nat \<Rightarrow> pyval \<Rightarrow> string" where
  "json_pretty n (PList []) = ''[]''"
| "json_pretty n (PList (x # xs)) =
     ''['' @ pad (Suc n) @ join ('','' @ pad (Suc n)) (map (json_pretty (Suc n)) (x # xs)) @ pad n @ '']''"
| "json_pretty n (PDict []) = [lbrace, rbrace]"
| "json_pretty n (PDict (e # es)) =
     [lbrace] @ pad (Suc n)
     @ join ('','' @ pad (Suc n)) (map (\<lambda>(k, v). enc_str k @ '': '' @ json_pretty (Suc n) v) (e # es))
     @ pad n @ [rbrace]"
| "json_pretty n v = json_dumps v"

definition artifact_root :: "deploy_ctx \<Rightarrow> prepare_job \<Rightarrow> string" where
  "artifact_root cx j =
     path_join (path_join (path_join (dc_repo_root cx) ''artifacts'') ''deployments'') (pj_deployment_id j)"

definition package_dir :: "deploy_ctx \<Rightarrow> prepare_job \<Rightarrow> string" where
  "package_dir cx j = path_join (artifact_root cx j) ''package''"

definition latest_dir :: "deploy_ctx \<Rightarrow> string" where
  "latest_dir cx = path_join (path_join (dc_repo_root cx) ''artifacts'') ''latest''"

definition package_exe :: "deploy_ctx \<Rightarrow> prepare_job \<Rightarrow> string" where
  "package_exe cx j = path_join (package_dir cx j) ''agent_service.exe''"

definition package_file :: "deploy_ctx \<Rightarrow> prepare_job \<Rightarrow> string \<Rightarrow> string" where
  "package_file cx j name = path_join (package_dir cx j) name"

definition installer_copy :: "deploy_ctx \<Rightarrow> prepare_job \<Rightarrow> string" where
  "installer_copy cx j = path_join (latest_dir cx) (''install-'' @ pj_deployment_id j @ ''.ps1'')"

definition package_zip :: "deploy_ctx \<Rightarrow> prepare_job \<Rightarrow> string" where
  "package_zip cx j = path_join (artifact_root cx j) ''package.zip''"

definition release_label :: "prepare_job \<Rightarrow> string" where
  "release_label j = str_or (pj_release_tag_name j) (str_or (pj_release_version j) (pj_release_id j))"

text \<open>The script is given the deployment and the share, whose double quotes get a back-tick.\<close>

definition escape_share :: "string \<Rightarrow> string" where
  "escape_share s = concat (map (\<lambda>c. if c = dquote_char then [CHR 0x60, c] else [c]) s)"

definition build_install_script :: "deploy_ctx \<Rightarrow> string \<Rightarrow> string" where
  "build_install_script cx deployment_id = dc_script cx deployment_id (escape_share (get_artifact_share_root cx))"

definition bootstrap_payload :: "prepare_job \<Rightarrow> string \<Rightarrow> pyval" where
  "bootstrap_payload j downloaded =
     (case resolve_bootstrap_hostnames (pj_hostname j) of (fqdn, short) \<Rightarrow>
      PDict [(''agent_id'', PStr (pj_agent_id j)), (''hostname'', PStr (str_or short (pj_hostname j))),
        (''fqdn'', PStr fqdn), (''display_name'', PStr (pj_display_name j)),
        (''guacamole'', PDict (pj_guacamole j)), (''server_url'', PStr (pj_server_ws_url j)),
        (''bootstrap_token'', PStr (pj_bootstrap_token j)),
        (''bootstrap_expires_at'', PInt (pj_bootstrap_expires_at j)),
        (''deployment_id'', PStr (pj_deployment_id j)), (''release_id'', PStr (pj_release_id j)),
        (''release_version'', PStr (pj_release_version j)), (''tag_name'', PStr (pj_release_tag_name j)),
        (''artifact_url'', PStr (pj_artifact_url j)),
        (''artifact_sha256'', PStr (str_or (pj_artifact_sha256 j) downloaded)),
        (''commit_sha'', PStr (pj_commit_sha j))])"

definition manifest_payload :: "prepare_job \<Rightarrow> string \<Rightarrow> pyval" where
  "manifest_payload j downloaded =
     PDict [(''deployment_id'', PStr (pj_deployment_id j)), (''agent_id'', PStr (pj_agent_id j)),
       (''hostname'', PStr (pj_hostname j)), (''display_name'', PStr (pj_display_name j)),
       (''guacamole'', PDict (pj_guacamole j)), (''release_id'', PStr (pj_release_id j)),
       (''release_version'', PStr (pj_release_version j)), (''tag_name'', PStr (pj_release_tag_name j)),
       (''artifact_url'', PStr (pj_artifact_url j)),
       (''artifact_sha256'', PStr (str_or (pj_artifact_sha256 j) downloaded)),
       (''commit_sha'', PStr (pj_commit_sha j)), (''artifact_exe'', PStr ''agent_service.exe''),
       (''package_zip'', PStr ''package.zip''), (''bootstrap_file'', PStr ''agent.bootstrap.json''),
       (''install_script'', PStr ''install.ps1'')]"

text \<open>The archive holds the files below the package directory, by relative path in order.\<close>

definition package_members :: "string \<Rightarrow> (string \<times> string) list \<Rightarrow> (string \<times> string) list" where
  "package_members dir files =
     map (\<lambda>(p, body). (drop (length dir + 1) p, body))
       (sort_key fst (filter (\<lambda>(p, _). starts_with (dir @ ''/'') p) files))"

definition create_package_zip :: "deploy_ctx \<Rightarrow> string \<Rightarrow> string \<Rightarrow> unit deploy_prog" where
  "create_package_zip cx dir zip_path w =
     write_file cx zip_path (dc_zip cx (package_members dir (ds_files w))) w"

text \<open>The body of the job runs on the build log and the state: an exception keeps both.\<close>

type_synonym 'a build_prog = "(string list \<times> deploy_state svc, 'a) prog"

definition noting :: "string \<Rightarrow> unit build_prog" where
  "noting part = modP (\<lambda>(parts, w). (parts @ [part], w))"

definition within :: "(deploy_state svc, 'a) prog \<Rightarrow> 'a build_prog" where
  "within m = (\<lambda>(parts, w). (let (w', r) = m w in ((parts, w'), r)))"

definition append_task_log :: "string \<Rightarrow> string \<Rightarrow> (deploy_state svc, unit) prog" where
  "append_task_log task_id content =
     (if content = [] then retP () else modP (on_db (append_log task_id content)))"

definition fetch_artifact :: "deploy_ctx \<Rightarrow> prepare_job \<Rightarrow> (deploy_state svc, string) prog" where
  "fetch_artifact cx j =
     bindP (on_net (download_release_artifact cx (pj_artifact_url j) (package_exe cx j))) (\<lambda>checksum.
     bindP (\<lambda>w. append_task_log (pj_task_id j) (''Downloaded agent_service.exe (''
              @ str_int (int (length (the_or (read_file (package_exe cx j) (sv_net w)) []))) @ '' bytes)'') w) (\<lambda>_.
     bindP (append_task_log (pj_task_id j) (''Computed SHA256: '' @ checksum)) (\<lambda>_.
       retP checksum)))"

definition check_artifact :: "prepare_job \<Rightarrow> string \<Rightarrow> unit build_prog" where
  "check_artifact j downloaded =
     (if pj_artifact_sha256 j \<noteq> [] then
        bindP (noting (''Expected SHA256: '' @ pj_artifact_sha256 j)) (\<lambda>_.
        bindP (noting (''Downloaded SHA256: '' @ downloaded)) (\<lambda>_.
          if downloaded \<noteq> pj_artifact_sha256 j
          then raiseP (mismatch (release_label j) downloaded (pj_artifact_sha256 j)) else retP ()))
      else if downloaded \<noteq> [] then noting (''Downloaded SHA256: '' @ downloaded)
      else retP ())"

definition write_package :: "deploy_ctx \<Rightarrow> prepare_job \<Rightarrow> string \<Rightarrow> unit deploy_prog" where
  "write_package cx j downloaded =
     (let script = build_install_script cx (pj_deployment_id j) in
      bindP (write_file cx (package_file cx j ''agent.bootstrap.json'') (json_pretty 0 (bootstrap_payload j downloaded))) (\<lambda>_.
      bindP (write_file cx (package_file cx j ''install.ps1'') script) (\<lambda>_.
      bindP (write_file cx (installer_copy cx j) script) (\<lambda>_.
      bindP (write_file cx (path_join (latest_dir cx) ''install-latest.ps1'') script) (\<lambda>_.
      bindP (create_package_zip cx (package_dir cx j) (package_zip cx j)) (\<lambda>_.
        write_file cx (package_file cx j ''deployment-manifest.json'') (json_pretty 0 (manifest_payload j downloaded))))))))"

definition ready_update :: "deploy_ctx \<Rightarrow> prepare_job \<Rightarrow> int \<Rightarrow> string list \<Rightarrow> deployment_update" where
  "ready_update cx j now parts =
     no_update\<lparr>du_release_id := Some (pj_release_id j), du_status := Some ''ready'',
       du_commit_sha := Some (pj_commit_sha j), du_tag_name := Some (pj_release_tag_name j),
       du_artifact_dir := Some (package_dir cx j), du_artifact_exe_path := Some (package_exe cx j),
       du_package_zip_path := Some (package_zip cx j),
       du_bootstrap_path := Some (package_file cx j ''agent.bootstrap.json''),
       du_install_script_path := Some (package_file cx j ''install.ps1''),
       du_installer_copy_path := Some (installer_copy cx j),
       du_build_log := Some (join [newline, newline] parts), du_completed_at := Some now\<rparr>"

text \<open>The \<open>try\<close> block.\<close>

definition build_package :: "deploy_ctx \<Rightarrow> int \<Rightarrow> prepare_job \<Rightarrow> unit build_prog" where
  "build_package cx now j =
     bindP (within (fetch_artifact cx j)) (\<lambda>downloaded.
     bindP (noting (''Downloaded release artifact: '' @ pj_artifact_url j)) (\<lambda>_.
     bindP (check_artifact j downloaded) (\<lambda>_.
     bindP (within (on_net (write_package cx j downloaded))) (\<lambda>_.
     bindP (\<lambda>(parts, w). within (on_reg (update_deployment (pj_deployment_id j) (ready_update cx j now parts))) (parts, w)) (\<lambda>_.
     bindP (within (modP (on_db (update_task_status now (pj_task_id j) ''completed'' None None None ''server'')))) (\<lambda>_.
       within (on_reg (upsert_agent now (pj_agent_id j)
         (no_upsert\<lparr>up_hostname := pj_hostname j, up_display_name := pj_display_name j,
            up_status := Some ''ready_for_install'', up_last_deployment_id := Some (pj_deployment_id j),
            up_current_version := Some (str_or (pj_release_version j)
              (str_or (pj_release_tag_name j) (take 12 (pj_commit_sha j))))\<rparr>)))))))))"

text \<open>The \<open>except\<close> block.\<close>

definition fail_package :: "int \<Rightarrow> prepare_job \<Rightarrow> string list \<Rightarrow> pyexc \<Rightarrow> (deploy_state svc, unit) prog" where
  "fail_package now j parts e =
     (let message = exc_message e; parts' = parts @ [''ERROR: '' @ message] in
      bindP (append_task_log (pj_task_id j) (''ERROR: '' @ message)) (\<lambda>_.
      bindP (on_reg (update_deployment (pj_deployment_id j)
        (no_update\<lparr>du_release_id := Some (pj_release_id j), du_status := Some ''failed'',
           du_error := Some message, du_build_log := Some (join [newline, newline] parts'),
           du_completed_at := Some now\<rparr>))) (\<lambda>_.
      bindP (modP (on_db (update_task_status now (pj_task_id j) ''failed'' None None (Some message) ''server''))) (\<lambda>_.
        on_reg (upsert_agent now (pj_agent_id j)
          (no_upsert\<lparr>up_hostname := pj_hostname j, up_display_name := pj_display_name j,
             up_status := Some ''deploy_failed''\<rparr>))))))"

definition run_prepare :: "deploy_ctx \<Rightarrow> int \<Rightarrow> prepare_job \<Rightarrow> (deploy_state svc, unit) prog" where
  "run_prepare cx now j w =
     (let w0 = fst (append_task_log (pj_task_id j) (''Starting deployment prepare for '' @ pj_hostname j
                 @ '' ('' @ release_label j @ '')'') w)
      in case build_package cx now j ([], w0) of
           ((parts, w1), Inr _) \<Rightarrow> (w1, Inr ())
         | ((parts, w1), Inl e) \<Rightarrow> fail_package now j parts e w1)"

text \<open>The event loop runs the oldest job; when the task is done its key leaves \<open>_tasks\<close>.\<close>

definition run_pending_job :: "deploy_ctx \<Rightarrow> int \<Rightarrow> deploy_state svc \<Rightarrow> deploy_state svc" where
  "run_pending_job cx now w =
     (case ds_pending (sv_net w) of
        [] \<Rightarrow> w
      | j # js \<Rightarrow>
          (let w1 = fst (run_prepare cx now j (w\<lparr>sv_net := (sv_net w)\<lparr>ds_pending := js\<rparr>\<rparr>))
           in w1\<lparr>sv_net := (sv_net w1)\<lparr>ds_running := removeAll (pj_deployment_id j) (ds_running (sv_net w1))\<rparr>\<rparr>))"

section \<open>A deployment is never prepared\<close>

text \<open>Two states that differ at most in the releases of the registry.\<close>

definition releases_only :: "registry \<Rightarrow> registry \<Rightarrow> bool" where
  "releases_only db db' \<longleftrightarrow> reg_conn db' = reg_conn db \<and> reg_agents db' = reg_agents db \<and>
     reg_credentials db' = reg_credentials db \<and> reg_deployments db' = reg_deployments db \<and> reg_jobs db' = reg_jobs db"

definition unprepared :: "deploy_state svc \<Rightarrow> deploy_state svc \<Rightarrow> bool" where
  "unprepared w w' \<longleftrightarrow> sv_db w' = sv_db w \<and> releases_only (ds_registry (sv_net w)) (ds_registry (sv_net w')) \<and>
     ds_files (sv_net w') = ds_files (sv_net w) \<and> ds_running (sv_net w') = ds_running (sv_net w) \<and>
     ds_pending (sv_net w') = ds_pending (sv_net w)"

lemma releases_only_refl [simp]: "releases_only db db"
  by (simp add: releases_only_def)

lemma releases_only_trans: "releases_only a b \<Longrightarrow> releases_only b c \<Longrightarrow> releases_only a c"
  by (simp add: releases_only_def)

lemma unprepared_refl [simp]: "unprepared w w"
  by (simp add: unprepared_def)

lemma unprepared_trans: "unprepared a b \<Longrightarrow> unprepared b c \<Longrightarrow> unprepared a c"
  by (auto simp: unprepared_def intro: releases_only_trans)

lemma bindP_releases_only:
  assumes "releases_only db (fst (m db))" and "\<And>x db'. releases_only db' (fst (f x db'))"
  shows "releases_only db (fst (bindP m f db))"
proof (cases "m db")
  case (Pair db' r)
  then show ?thesis
  proof (cases r)
    case (Inr x)
    have "releases_only db db'" using assms(1) Pair by simp
    from releases_only_trans [OF this assms(2) [of db' x]] show ?thesis using Pair Inr by simp
  qed (use assms(1) Pair in simp)
qed

lemma store_one_releases_only: "releases_only db (fst (upsert_release_from_source now u src db))"
  unfolding upsert_release_from_source_def with_db_def Let_def
  by (auto simp: bindP_def exec_stmt_def releases_only_def split: conn.splits)

lemma store_releases_only: "releases_only db (fst (store_releases now uuids n srcs db))"
proof (induction srcs arbitrary: n db)
  case (Cons src srcs)
  show ?case unfolding store_releases.simps
    by (rule bindP_releases_only, rule store_one_releases_only, rule bindP_releases_only, rule Cons.IH, simp)
qed simp

lemma sync_releases_only: "releases_only db (fst (sync_release_metadata_from_github cx now uuids lim db))"
proof (cases "sync_github_releases cx lim")
  case (Inl e)
  then show ?thesis by (simp add: sync_release_metadata_from_github_def ask_def)
next
  case (Inr rels)
  then show ?thesis unfolding sync_release_metadata_from_github_def Inr sum.case
    by (intro bindP_releases_only store_releases_only) (simp add: ask_def)
qed

lemma ask_state [simp]: "fst (ask q db) = db"
  by (simp add: ask_def)

lemma resolve_releases_only: "releases_only db (fst (resolve_prepare_release cx now uuids rid db))"
  unfolding resolve_prepare_release_def Let_def
  by (rule bindP_releases_only, rule sync_releases_only)
    (simp add: bindP_def ask_def split: option.split list.split sum.split)

lemma on_reg_split:
  "m (ds_registry (sv_net w)) = (db, r) \<Longrightarrow> on_reg m w = (w\<lparr>sv_net := (sv_net w)\<lparr>ds_registry := db\<rparr>\<rparr>, r)"
  by (simp add: on_reg_def on_net_def on_registry_def)

lemma on_reg_unprepared:
  "releases_only (ds_registry (sv_net w)) (fst (m (ds_registry (sv_net w)))) \<Longrightarrow> unprepared w (fst (on_reg m w))"
  by (cases "m (ds_registry (sv_net w))") (simp add: on_reg_split unprepared_def)

text \<open>A routine that fails from every state that differs from the start only in releases.\<close>

definition stuck :: "deploy_state svc \<Rightarrow> (deploy_state svc, 'a) prog \<Rightarrow> bool" where
  "stuck w0 m \<longleftrightarrow> (\<forall>w. unprepared w0 w \<longrightarrow> (\<exists>e. snd (m w) = Inl e) \<and> unprepared w0 (fst (m w)))"

lemma stuck_bind:
  assumes "\<And>w. unprepared w0 w \<Longrightarrow> unprepared w (fst (m w))" and "\<And>x. stuck w0 (f x)"
  shows "stuck w0 (bindP m f)"
  unfolding stuck_def
proof (intro allI impI)
  fix w assume w: "unprepared w0 w"
  have u: "unprepared w0 (fst (m w))" using w assms(1) unprepared_trans by blast
  show "(\<exists>e. snd (bindP m f w) = Inl e) \<and> unprepared w0 (fst (bindP m f w))"
  proof (cases "m w")
    case (Pair w' r)
    then show ?thesis using u assms(2) [unfolded stuck_def] by (cases r) simp_all
  qed
qed

lemma stuck_first: "stuck w0 m \<Longrightarrow> stuck w0 (bindP m f)"
  unfolding stuck_def by (auto simp: bindP_def split: prod.splits sum.splits)


definition sample_ctx :: deploy_ctx where
  "sample_ctx = \<lparr>dc_env = (\<lambda>_. None), dc_settings = None, dc_remote_url = None, dc_hostname = ''srv'',
     dc_repo_root = ''/srv'', dc_urlparse = (\<lambda>_. ([], [])), dc_http = (\<lambda>_ _. Inl (OSError ''offline'')),
     dc_download = (\<lambda>_ _. Received ''MZ'' None), dc_mktime = (\<lambda>_. None), dc_sha256 = (\<lambda>s. ''H'' @ s),
     dc_format = (\<lambda>_ _. None), dc_provision = (\<lambda>_ _ m _. Inr (m, [])), dc_writable = (\<lambda>_. True),
     dc_zip = (\<lambda>ms. concat (map snd ms)), dc_script = (\<lambda>d r. ''script '' @ d)\<rparr>"

definition sample_release :: release_row where
  "sample_release = \<lparr>re_id = ''7'', re_version = ''1.0'', re_tag_name = ''v1.0'', re_commit_sha = ''abc'',
     re_artifact_url = ''https://x/a.exe'', re_artifact_sha256 = ''HMZ'', re_workflow_run_id = None,
     re_created_at = 1, re_published_at = None, re_metadata_json = [lbrace, rbrace]\<rparr>"

definition sample_deploy_registry :: registry where
  "sample_deploy_registry = empty_registry\<lparr>reg_conn := Live, reg_releases := [sample_release]\<rparr>"

definition sample_deploy :: "registry \<Rightarrow> deploy_state svc" where
  "sample_deploy db = \<lparr>sv_db = db_start,
     sv_net = \<lparr>ds_registry = db, ds_files = [], ds_running = [], ds_pending = []\<rparr>\<rparr>"

definition sample_fresh :: prepare_fresh where
  "sample_fresh = \<lparr>pf_deployment_id = ''d1'', pf_task_id = ''t1'', pf_token = ''tok'', pf_token_hash = ''h'',
     pf_now = 100, pf_uuids = (\<lambda>_. ''u'')\<rparr>"

definition sample_prepare :: prepare_request where
  "sample_prepare = \<lparr>pq_agent_id = ''vm1'', pq_hostname = ''vm1'', pq_display_name = [], pq_target_host = [],
     pq_username = [], pq_domain = [], pq_password = [], pq_secret = [], pq_group_name = [],
     pq_connection_name = [], pq_release_id = None, pq_requested_by = ''op'', pq_server_ws_url = ''ws://s''\<rparr>"


section \<open>The release cache serves what was checked\<close>

text \<open>Property C33. What the proxy serves.\<close>

theorem artifact_proxy_verified:
  "case get_release_artifact_proxy cx now uuids rid w of
     (w', Inl e) \<Rightarrow> True
   | (w', Inr (p, name)) \<Rightarrow>
       (\<exists>rel body. snd (resolve_prepare_release cx now uuids (Some rid) (ds_registry w)) = Inr rel \<and>
          p = cached_artifact_path cx rid rel \<and> read_file p w' = Some body \<and>
          lower (strip (re_artifact_sha256 rel)) \<in> {[], lower (dc_sha256 cx body)})"
proof -
  obtain db r where res: "resolve_prepare_release cx now uuids (Some rid) (ds_registry w) = (db, r)"
    by fastforce
  let ?w = "w\<lparr>ds_registry := db\<rparr>"
  have reg: "on_registry (resolve_prepare_release cx now uuids (Some rid)) w = (?w, r)"
    by (simp add: on_registry_def res)
  show ?thesis
  proof (cases r)
    case (Inl e)
    then show ?thesis using reg by (simp add: get_release_artifact_proxy_def)
  next
    case (Inr rel)
    have "case serve_artifact cx rid rel ?w of (w', Inl e) \<Rightarrow> True
      | (w', Inr (p, name)) \<Rightarrow> p = cached_artifact_path cx rid rel \<and> (\<exists>body. read_file p w' = Some body \<and>
          lower (strip (re_artifact_sha256 rel)) \<in> {[], lower (dc_sha256 cx body)})"
      by (auto simp: serve_artifact_def Let_def download_release_artifact_def write_file_def read_file_def bindP_def
          split: download.split option.split sum.split prod.split)
    then show ?thesis
      using reg res Inr by (auto simp: get_release_artifact_proxy_def split: prod.splits sum.splits)
  qed
qed

text \<open>A truncated release is served.\<close>

theorem truncated_artifact_served:
  assumes "strip (re_artifact_url rel) \<noteq> []" and "strip (re_artifact_sha256 rel) = []"
    and "read_file (cached_artifact_path cx rid rel) w = None" and "dc_writable cx (cached_artifact_path cx rid rel)"
    and "dc_download cx (github_headers cx) (strip (re_artifact_url rel)) = Received part (Some e)"
  shows "\<exists>w1. serve_artifact cx rid rel w = (w1, Inl e) \<and>
    serve_artifact (cx\<lparr>dc_download := network\<rparr>) rid rel w1 =
      (w1, Inr (cached_artifact_path cx rid rel, release_asset_name cx rel)) \<and>
    read_file (cached_artifact_path cx rid rel) w1 = Some part"
proof -
  let ?p = "cached_artifact_path cx rid rel"
  let ?w1 = "w\<lparr>ds_files := AList.update ?p part (ds_files w)\<rparr>"
  have sha: "lower (strip (re_artifact_sha256 rel)) = []" by (simp add: assms(2) lower_def)
  have 1: "serve_artifact cx rid rel w = (?w1, Inl e)"
    using assms sha by (simp add: serve_artifact_def Let_def download_release_artifact_def write_file_def)
  have same: "cached_artifact_path (cx\<lparr>dc_download := network\<rparr>) rid rel = ?p"
    "release_asset_name (cx\<lparr>dc_download := network\<rparr>) rel = release_asset_name cx rel"
    by (simp_all add: cached_artifact_path_def release_cache_root_def release_asset_name_def get_release_asset_name_def)
  have 2: "serve_artifact (cx\<lparr>dc_download := network\<rparr>) rid rel ?w1 = (?w1, Inr (?p, release_asset_name cx rel))"
    using assms(1) sha by (simp add: serve_artifact_def Let_def same read_file_def)
  show ?thesis by (intro exI [of _ ?w1] conjI 1 2) (simp add: read_file_def)
qed

definition sample_release_view :: release_view where
  "sample_release_view = map_release_row (sample_release\<lparr>re_artifact_sha256 := []\<rparr>)"

theorem truncated_artifact_served_witness:
  "\<exists>w1. serve_artifact (sample_ctx\<lparr>dc_download := (\<lambda>_ _. Received ''M'' (Some (OSError ''reset'')))\<rparr>) ''7'' sample_release_view
      (sv_net (sample_deploy sample_deploy_registry)) = (w1, Inl (OSError ''reset'')) \<and>
    snd (serve_artifact sample_ctx ''7'' sample_release_view w1) =
      Inr (''/srv/artifacts/release-proxy/7/agent_service.exe'', ''agent_service.exe'') \<and>
    read_file ''/srv/artifacts/release-proxy/7/agent_service.exe'' w1 = Some ''M''"
proof -
  let ?cx = "sample_ctx\<lparr>dc_download := (\<lambda>_ _. Received ''M'' (Some (OSError ''reset'')))\<rparr>"
  let ?w = "sv_net (sample_deploy sample_deploy_registry)"
  have p: "cached_artifact_path ?cx ''7'' sample_release_view = ''/srv/artifacts/release-proxy/7/agent_service.exe''"
    by code_simp
  have n: "release_asset_name ?cx sample_release_view = ''agent_service.exe''" by code_simp
  have cx: "?cx\<lparr>dc_download := dc_download sample_ctx\<rparr> = sample_ctx" by simp
  have a: "strip (re_artifact_url sample_release_view) \<noteq> []" "strip (re_artifact_sha256 sample_release_view) = []"
    by code_simp+
  have b: "read_file (cached_artifact_path ?cx ''7'' sample_release_view) ?w = None"
    by (simp add: read_file_def sample_deploy_def)
  have c: "dc_writable ?cx (cached_artifact_path ?cx ''7'' sample_release_view)"
    "dc_download ?cx (github_headers ?cx) (strip (re_artifact_url sample_release_view)) = Received ''M'' (Some (OSError ''reset''))"
    by (simp_all add: sample_ctx_def)
  show ?thesis using truncated_artifact_served [OF a b c, of "dc_download sample_ctx"] unfolding p n cx by auto
qed

section \<open>Recovery\<close>

lemma update_deployment_live:
  fixes d :: string
  assumes "live_registry db" and "du_metadata u = None" and "u \<noteq> no_update"
    and "opt_in (du_release_id u) (release_ids db)"
  defines "rows \<equiv> update_where (\<lambda>r. de_id r = d) (apply_deployment_update u None) (reg_deployments db)"
  shows "update_deployment d u db = (db\<lparr>reg_deployments := rows\<rparr>, Inr ())"
    and "live_registry (db\<lparr>reg_deployments := rows\<rparr>)" and "map de_id rows = deployment_ids db"
proof -
  let ?db = "db\<lparr>reg_deployments := rows\<rparr>"
  have f: "de_id (apply_deployment_update u None r) = de_id r" "de_agent_id (apply_deployment_update u None r) = de_agent_id r"
    "de_release_id (apply_deployment_update u None r) = opt_set (du_release_id u) (de_release_id r)" for r
    by (simp_all add: apply_deployment_update_def)
  show m: "map de_id rows = deployment_ids db"
    unfolding rows_def deployment_ids_def by (simp add: update_where_def f)
  have ids: "deployment_ids ?db = deployment_ids db" "agent_ids ?db = agent_ids db" "release_ids ?db = release_ids db"
    using m by (simp_all add: deployment_ids_def agent_ids_def release_ids_def)
  have ok: "registry_ok db" "reg_conn db = Live" using assms(1) by (simp_all add: live_registry_def)
  have fk: "fk_ok ?db"
    using ok(1) assms(4) unfolding registry_ok_def fk_ok_def ids
    by (auto simp: rows_def set_update_where f opt_set_def)
  show "update_deployment d u db = (?db, Inr ())"
    using assms(2,3) ok fk by (simp add: update_deployment_def with_db_def exec_stmt_def rows_def)
  show "live_registry ?db"
    using ok fk unfolding live_registry_def registry_ok_def ids by simp
qed

lemma upsert_agent_live:
  assumes "live_registry db" and "opt_in (up_last_deployment_id up) (deployment_ids db)"
  shows "\<exists>rows. upsert_agent now i up db = (db\<lparr>reg_agents := rows\<rparr>, Inr ()) \<and> live_registry (db\<lparr>reg_agents := rows\<rparr>)"
proof -
  let ?row = "upsert_row now i up (find_agent i db)"
  let ?rows = "upsert_by ag_id ?row (\<lambda>r. ?row\<lparr>ag_created_at := ag_created_at r\<rparr>) (reg_agents db)"
  have ok: "registry_ok db" "reg_conn db = Live" "fk_ok db"
    using assms(1) by (simp_all add: live_registry_def registry_ok_def)
  have "opt_in (ag_last_deployment_id ?row) (deployment_ids db)"
    using assms(2) conjunct1 [OF ok(3) [unfolded fk_ok_def]]
    by (auto simp: upsert_row_def Let_def find_agent_row opt_in_def dest!: find_eq_Some_in split: option.split)
  then have fk: "fk_ok (db\<lparr>reg_agents := ?rows\<rparr>)" by (intro fk_ok_upsert [OF ok(3)]) simp_all
  have u: "upsert_agent now i up db = (db\<lparr>reg_agents := ?rows\<rparr>, Inr ())"
    using ok fk by (simp add: upsert_agent_def with_db_def exec_stmt_def Let_def)
  have "live_registry (db\<lparr>reg_agents := ?rows\<rparr>)"
    using upsert_agent_ok [OF ok(1), of now i up] ok(2) u by (simp add: live_registry_def)
  with u show ?thesis by blast
qed

text \<open>The identifiers of the deployments are non-empty and have no surrounding blanks.\<close>

definition clean_ids :: "registry \<Rightarrow> bool" where
  "clean_ids db \<longleftrightarrow> (\<forall>r\<in>set (reg_deployments db). de_id r \<noteq> [] \<and> strip (de_id r) = de_id r)"

definition active_rows :: "registry \<Rightarrow> deployment_row list" where
  "active_rows db = filter (\<lambda>r. active_status (de_status r)) (reg_deployments db)"

lemma recover_one_live:
  assumes "live_registry (ds_registry w)" and "strip (de_id v) = de_id v" and "de_id v \<noteq> []"
    and "de_id v \<in> set (deployment_ids (ds_registry w))" and "de_id v \<notin> set (ds_running w)"
  shows "\<exists>w'. recover_one now v w = (w', Inr 1) \<and> live_registry (ds_registry w') \<and> ds_running w' = ds_running w \<and>
     deployment_ids (ds_registry w') = deployment_ids (ds_registry w) \<and>
     set (active_rows (ds_registry w')) = {r \<in> set (active_rows (ds_registry w)). de_id r \<noteq> de_id v}"
proof -
  let ?dep = "de_id v" and ?db = "ds_registry w"
  define u where "u = recovery_update now (str_or (strip (str_or (de_status v) ''queued'')) ''queued'')"
  define rows where "rows = update_where (\<lambda>r. de_id r = ?dep) (apply_deployment_update u None) (reg_deployments ?db)"
  let ?db1 = "?db\<lparr>reg_deployments := rows\<rparr>"
  have u: "du_metadata u = None" "u \<noteq> no_update" "du_release_id u = None"
    by (simp_all add: u_def recovery_update_def no_update_def)
  have "opt_in (du_release_id u) (release_ids ?db)" by (simp add: u(3) opt_in_def)
  note upd = update_deployment_live [OF assms(1) u(1,2) this, of ?dep, folded rows_def]
  define up where "up = no_upsert\<lparr>up_hostname := strip (de_hostname v), up_status := Some ''deploy_failed'',
     up_connection_status := Some ''offline'', up_last_deployment_id := Some ?dep\<rparr>"
  have ids: "deployment_ids ?db1 = deployment_ids ?db" using upd(3) by (simp add: deployment_ids_def)
  have "opt_in (up_last_deployment_id up) (deployment_ids ?db1)"
    using assms(4) ids by (simp add: up_def opt_in_def)
  from upsert_agent_live [OF upd(2) this] obtain ags where ags:
    "upsert_agent now (strip (de_agent_id v)) up ?db1 = (?db1\<lparr>reg_agents := ags\<rparr>, Inr ())"
    "live_registry (?db1\<lparr>reg_agents := ags\<rparr>)" by blast
  define db2 where "db2 = (if strip (de_agent_id v) = [] then ?db1 else ?db1\<lparr>reg_agents := ags\<rparr>)"
  let ?w' = "w\<lparr>ds_registry := db2\<rparr>"
  have step1: "on_registry (update_deployment ?dep u) w = (w\<lparr>ds_registry := ?db1\<rparr>, Inr ())"
    by (simp add: on_registry_def upd(1))
  have step2: "(if strip (de_agent_id v) = [] then retP () else on_registry (upsert_agent now (strip (de_agent_id v)) up))
      (w\<lparr>ds_registry := ?db1\<rparr>) = (?w', Inr ())"
    using ags(1) by (simp add: on_registry_def db2_def)
  have run: "recover_one now v w = (?w', Inr 1)"
    unfolding recover_one_def Let_def using step1 step2 assms(2,3,5)
    by (cases "strip (de_agent_id v) = []") (simp_all add: u_def [symmetric] up_def [symmetric])
  have deps: "reg_deployments db2 = rows" by (simp add: db2_def)
  have st: "de_status (apply_deployment_update u None r) = ''failed''" for r
    by (simp add: apply_deployment_update_def u_def recovery_update_def)
  have "set (active_rows db2) = {r \<in> set (active_rows ?db). de_id r \<noteq> ?dep}"
    unfolding active_rows_def deps rows_def by (auto simp: set_update_where st active_status_def)
  moreover have "live_registry db2" using ags(2) upd(2) by (simp add: db2_def)
  moreover have "deployment_ids db2 = deployment_ids ?db" using upd(3) by (simp add: deployment_ids_def deps)
  ultimately show ?thesis using run by (intro exI [of _ ?w']) simp
qed

lemma recover_each_live:
  assumes "live_registry (ds_registry w)" and "\<forall>v\<in>set vs. strip (de_id v) = de_id v \<and> de_id v \<noteq> [] \<and>
     de_id v \<in> set (deployment_ids (ds_registry w)) \<and> de_id v \<notin> set (ds_running w)"
  shows "\<exists>w'. recover_each now vs w = (w', Inr (int (length vs))) \<and> live_registry (ds_registry w') \<and>
     set (active_rows (ds_registry w')) = {r \<in> set (active_rows (ds_registry w)). de_id r \<notin> de_id ` set vs}"
  using assms
proof (induction vs arbitrary: w)
  case (Cons v vs)
  obtain w1 where w1: "recover_one now v w = (w1, Inr 1)" "live_registry (ds_registry w1)" "ds_running w1 = ds_running w"
    "deployment_ids (ds_registry w1) = deployment_ids (ds_registry w)"
    "set (active_rows (ds_registry w1)) = {r \<in> set (active_rows (ds_registry w)). de_id r \<noteq> de_id v}"
    using recover_one_live [of w v now] Cons.prems by auto
  obtain w2 where w2: "recover_each now vs w1 = (w2, Inr (int (length vs)))" "live_registry (ds_registry w2)"
    "set (active_rows (ds_registry w2)) = {r \<in> set (active_rows (ds_registry w1)). de_id r \<notin> de_id ` set vs}"
    using Cons.IH [OF w1(2)] Cons.prems(2) w1(3,4) by auto
  show ?case by (intro exI [of _ w2]) (use w1 w2 in auto)
qed simp

text \<open>Property C32. Recovery at start-up.\<close>

theorem recovery_frees_the_server:
  assumes "live_registry (ds_registry w)" and "clean_ids (ds_registry w)" and "ds_running w = []"
  shows "\<exists>w'. recover_interrupted_deployments now w = (w', Inr (int (length (active_rows (ds_registry w))))) \<and>
    get_active_deployment (ds_registry w') = Inr None \<and> live_registry (ds_registry w')"
proof -
  let ?db = "ds_registry w"
  let ?vs = "map map_deployment_row (order_asc de_created_at (active_rows ?db))"
  have live: "reg_conn ?db = Live" using assms(1) by (simp add: live_registry_def)
  have ask: "on_registry (ask get_active_deployments) w = (w, Inr ?vs)"
    using live by (simp add: on_registry_def ask_def get_active_deployments_def query_db_def active_rows_def)
  have id: "de_id (map_deployment_row r) = de_id r" for r by (simp add: map_deployment_row_def)
  have set: "set (order_asc de_created_at (active_rows ?db)) = set (active_rows ?db)" by (simp add: order_asc_def)
  have "\<forall>v\<in>set ?vs. strip (de_id v) = de_id v \<and> de_id v \<noteq> [] \<and> de_id v \<in> set (deployment_ids ?db) \<and>
      de_id v \<notin> set (ds_running w)"
    using assms(2,3) by (simp add: id set) (auto simp: active_rows_def clean_ids_def deployment_ids_def)
  from recover_each_live [OF assms(1) this, of now] obtain w' where
    w': "recover_each now ?vs w = (w', Inr (int (length ?vs)))" "live_registry (ds_registry w')"
      "set (active_rows (ds_registry w')) = {r \<in> set (active_rows ?db). de_id r \<notin> de_id ` set ?vs}" by blast
  have "set (active_rows (ds_registry w')) = {}" unfolding w'(3) by (auto simp: set id image_image)
  then have none: "active_rows (ds_registry w') = []" by simp
  have "get_active_deployment (ds_registry w') = Inr None"
    using w'(2) none unfolding active_rows_def
    by (simp add: get_active_deployment_def query_db_def live_registry_def order_asc_def limit_def head_opt_def)
  moreover have "length ?vs = length (active_rows ?db)" by (simp add: order_asc_def)
  ultimately show ?thesis using w' ask by (intro exI [of _ w']) (simp add: recover_interrupted_deployments_def)
qed

definition stuck_deployment :: deployment_row where
  "stuck_deployment = (deployment_insert_row 1 ''d0'' ''vm1'' ''vm1'' ''op'' ''t0'' None None)\<lparr>de_status := ''preparing''\<rparr>"

definition stuck_registry :: registry where
  "stuck_registry = sample_deploy_registry\<lparr>reg_agents := [upsert_row 1 ''vm1'' no_upsert None],
     reg_deployments := [stuck_deployment]\<rparr>"

lemma stuck_registry_live: "live_registry stuck_registry"
  by (simp add: stuck_registry_def sample_deploy_registry_def live_registry_def registry_ok_def fk_ok_def
      empty_registry_def agent_ids_def deployment_ids_def release_ids_def sample_release_def stuck_deployment_def
      deployment_insert_row_def upsert_row_def Let_def opt_in_def no_upsert_def)

theorem recovery_frees_the_server_witness:
  "\<exists>w'. recover_interrupted_deployments 9 (sv_net (sample_deploy stuck_registry)) = (w', Inr 1) \<and>
    get_active_deployment (ds_registry w') = Inr None"
proof -
  have "live_registry (ds_registry (sv_net (sample_deploy stuck_registry)))"
    by (simp add: sample_deploy_def stuck_registry_live)
  moreover have "clean_ids (ds_registry (sv_net (sample_deploy stuck_registry)))" by code_simp
  moreover have "ds_running (sv_net (sample_deploy stuck_registry)) = []" by (simp add: sample_deploy_def)
  moreover have "length (active_rows (ds_registry (sv_net (sample_deploy stuck_registry)))) = 1" by code_simp
  ultimately show ?thesis
    using recovery_frees_the_server [of "sv_net (sample_deploy stuck_registry)" 9] by auto
qed

section \<open>A ready deployment has the artifact that was asked for\<close>

definition deployment_status :: "string \<Rightarrow> deploy_state svc \<Rightarrow> string option" where
  "deployment_status d w = map_option de_status (find_deployment d (ds_registry (sv_net w)))"

definition exe_verified :: "deploy_ctx \<Rightarrow> prepare_job \<Rightarrow> deploy_state svc \<Rightarrow> bool" where
  "exe_verified cx j w \<longleftrightarrow>
     (\<exists>body. read_file (package_exe cx j) (sv_net w) = Some body \<and>
        pj_artifact_sha256 j \<in> {[], lower (dc_sha256 cx body)})"

text \<open>Paths that end in another letter are other files.\<close>

lemma last_path_join: "b \<noteq> [] \<Longrightarrow> last (path_join a b) = last b"
  by (simp add: path_join_def)

lemma last_package_exe: "last (package_exe cx j) = CHR ''e''"
  by (simp add: package_exe_def last_path_join)

lemma read_write_other:
  assumes "last path \<noteq> CHR ''e''" and "write_file cx path body s = (s', r)"
  shows "read_file (package_exe cx j) s' = read_file (package_exe cx j) s" and "ds_registry s' = ds_registry s"
proof -
  have "package_exe cx j \<noteq> path" using last_package_exe assms(1) by metis
  then show "read_file (package_exe cx j) s' = read_file (package_exe cx j) s" "ds_registry s' = ds_registry s"
    using assms(2) by (auto simp: write_file_def read_file_def split: if_splits)
qed

text \<open>Conditions on the registry and on the file of the artifact that a write elsewhere keeps.\<close>

lemma triple_write_other:
  assumes "last path \<noteq> CHR ''e''"
    and "\<And>s s'. read_file (package_exe cx j) s' = read_file (package_exe cx j) s \<Longrightarrow> ds_registry s' = ds_registry s \<Longrightarrow> P s \<Longrightarrow> P s'"
  shows "keeps P (write_file cx path body)"
  by (rule tripleI) (use assms read_write_other [OF assms(1)] in blast)+

lemma triple_write_package:
  assumes "\<And>s s'. read_file (package_exe cx j) s' = read_file (package_exe cx j) s \<Longrightarrow> ds_registry s' = ds_registry s \<Longrightarrow> P s \<Longrightarrow> P s'"
  shows "keeps P (write_package cx j c)"
proof -
  have zip: "keeps P (create_package_zip cx d z)" if "last z \<noteq> CHR ''e''" for d z
    unfolding create_package_zip_def
    by (rule tripleI) (use assms read_write_other [OF that] in blast)+
  show ?thesis unfolding write_package_def Let_def
    by (intro keeps_bind triple_write_other zip)
      (assumption | rule assms | simp add: package_file_def installer_copy_def package_zip_def last_path_join)+
qed

lemma triple_on_net:
  assumes "triple (\<lambda>n. P n) m (\<lambda>x n. Q x n) E"
  shows "triple (\<lambda>w. P (sv_net w)) (on_net m) (\<lambda>x w. Q x (sv_net w)) (\<lambda>w. E (sv_net w))"
  by (rule tripleI)
    (use tripleD [OF assms] in \<open>auto simp: on_net_def split: prod.splits sum.splits\<close>)

lemma triple_within:
  assumes "triple P m Q E"
  shows "triple (\<lambda>(l, w). P w) (within m) (\<lambda>x (l, w). Q x w) (\<lambda>(l, w). E w)"
  by (rule tripleI)
    (use tripleD [OF assms] in \<open>auto simp: within_def split: prod.splits sum.splits\<close>)

lemma triple_noting: "triple (\<lambda>(l, w). P w) (noting part) (\<lambda>_ (l, w). P w) E"
  unfolding noting_def by (rule triple_mod) auto

lemma update_deployment_cases:
  assumes "update_deployment d u db = (db', r)"
  shows "db' = db \<or> (r = Inr () \<and> (\<exists>m. reg_deployments db' = update_where (\<lambda>r. de_id r = d) (apply_deployment_update u m) (reg_deployments db)))"
  using assms by (auto simp: update_deployment_def with_db_def exec_stmt_def Let_def split: conn.splits if_splits)

lemma upsert_agent_deployments: "upsert_agent now i up db = (db', r) \<Longrightarrow> reg_deployments db' = reg_deployments db"
  by (auto simp: upsert_agent_def with_db_def exec_stmt_def Let_def split: conn.splits if_splits)

lemma deployment_status_rows:
  "deployment_status d w = map_option de_status (find (\<lambda>r. de_id r = d) (reg_deployments (ds_registry (sv_net w))))"
  by (simp add: deployment_status_def find_deployment_def option.map_comp o_def map_deployment_row_def)

definition sound_ready :: "deploy_ctx \<Rightarrow> prepare_job \<Rightarrow> deploy_state svc \<Rightarrow> bool" where
  "sound_ready cx j w \<longleftrightarrow> (deployment_status (pj_deployment_id j) w = Some ''ready'' \<longrightarrow> exe_verified cx j w)"

lemma sound_ready_other:
  assumes "reg_deployments (ds_registry (sv_net w')) = reg_deployments (ds_registry (sv_net w))"
    and "ds_files (sv_net w') = ds_files (sv_net w)"
  shows "sound_ready cx j w' = sound_ready cx j w" "deployment_status d w' = deployment_status d w"
    "exe_verified cx j w' = exe_verified cx j w"
  using assms by (simp_all add: sound_ready_def deployment_status_rows exe_verified_def read_file_def)

lemma triple_update_status:
  assumes "du_status u = Some s" and "s \<noteq> ''ready''"
  shows "keeps (sound_ready cx j) (on_reg (update_deployment (pj_deployment_id j) u))"
proof -
  have "sound_ready cx j w'" if w: "sound_ready cx j w" and
      m: "on_reg (update_deployment (pj_deployment_id j) u) w = (w', r)" for w w' r
  proof -
    obtain db x where db: "update_deployment (pj_deployment_id j) u (ds_registry (sv_net w)) = (db, x)" by fastforce
    then have w': "w' = w\<lparr>sv_net := (sv_net w)\<lparr>ds_registry := db\<rparr>\<rparr>" using m on_reg_split [of "update_deployment (pj_deployment_id j) u" w, OF db] by simp
    from update_deployment_cases [OF db] show ?thesis
    proof (elim disjE conjE exE)
      assume "db = ds_registry (sv_net w)"
      then show ?thesis using w w' by simp
    next
      fix f assume "reg_deployments db = update_where (\<lambda>r. de_id r = pj_deployment_id j) (apply_deployment_update u f)
        (reg_deployments (ds_registry (sv_net w)))"
      then have "deployment_status (pj_deployment_id j) w' \<noteq> Some ''ready''"
        using assms by (auto simp: deployment_status_rows w' find_update_where apply_deployment_update_def)
      then show ?thesis by (simp add: sound_ready_def)
    qed
  qed
  then show ?thesis by (intro tripleI)
qed

lemma triple_upsert:
  assumes "\<And>w w'. reg_deployments (ds_registry (sv_net w')) = reg_deployments (ds_registry (sv_net w)) \<Longrightarrow>
      ds_files (sv_net w') = ds_files (sv_net w) \<Longrightarrow> P w \<Longrightarrow> P w'"
  shows "keeps P (on_reg (upsert_agent now i up))"
proof -
  have "P w'" if "P w" "on_reg (upsert_agent now i up) w = (w', r)" for w w' r
  proof -
    obtain db x where db: "upsert_agent now i up (ds_registry (sv_net w)) = (db, x)" by fastforce
    then have "w' = w\<lparr>sv_net := (sv_net w)\<lparr>ds_registry := db\<rparr>\<rparr>" using that(2) on_reg_split [of "upsert_agent now i up" w, OF db] by simp
    then show ?thesis using upsert_agent_deployments [OF db] by (intro assms [OF _ _ that(1)]) simp_all
  qed
  then show ?thesis by (intro tripleI)
qed

lemma triple_on_db:
  assumes "\<And>w w'. reg_deployments (ds_registry (sv_net w')) = reg_deployments (ds_registry (sv_net w)) \<Longrightarrow>
      ds_files (sv_net w') = ds_files (sv_net w) \<Longrightarrow> P w \<Longrightarrow> P w'"
  shows "keeps P (modP (on_db f))"
  by (rule triple_mod, rule assms) (simp_all add: on_db_def)

lemma triple_append_log:
  assumes "\<And>w w'. reg_deployments (ds_registry (sv_net w')) = reg_deployments (ds_registry (sv_net w)) \<Longrightarrow>
      ds_files (sv_net w') = ds_files (sv_net w) \<Longrightarrow> P w \<Longrightarrow> P w'"
  shows "keeps P (append_task_log i c)"
  unfolding append_task_log_def
  by (rule triple_if) (rule triple_ret, assumption, rule triple_on_db, rule assms)

text \<open>The conditions the steps of \<open>build_package\<close> pass on.\<close>

definition unready :: "prepare_job \<Rightarrow> deploy_state svc \<Rightarrow> bool" where
  "unready j w \<longleftrightarrow> deployment_status (pj_deployment_id j) w \<noteq> Some ''ready''"

definition fetched :: "deploy_ctx \<Rightarrow> prepare_job \<Rightarrow> string \<Rightarrow> deploy_state svc \<Rightarrow> bool" where
  "fetched cx j c w \<longleftrightarrow> unready j w \<and>
     (\<exists>body. read_file (package_exe cx j) (sv_net w) = Some body \<and> c = lower (dc_sha256 cx body))"

lemma unready_other:
  "reg_deployments (ds_registry (sv_net w')) = reg_deployments (ds_registry (sv_net w)) \<Longrightarrow> unready j w \<Longrightarrow> unready j w'"
  by (simp add: unready_def deployment_status_rows)

lemma fetched_other:
  "reg_deployments (ds_registry (sv_net w')) = reg_deployments (ds_registry (sv_net w)) \<Longrightarrow>
   ds_files (sv_net w') = ds_files (sv_net w) \<Longrightarrow> fetched cx j c w \<Longrightarrow> fetched cx j c w'"
  by (auto simp: fetched_def unready_def deployment_status_rows read_file_def)

lemma triple_download:
  "triple (unready j) (on_net (download_release_artifact cx url (package_exe cx j))) (fetched cx j) (unready j)"
proof (rule tripleI)
  fix w w' e
  assume "unready j w" "on_net (download_release_artifact cx url (package_exe cx j)) w = (w', Inl e)"
  then show "unready j w'"
    by (auto simp: on_net_def download_release_artifact_def write_file_def unready_def deployment_status_rows
        split: download.splits option.splits if_splits prod.splits)
next
  fix w w' c
  assume "unready j w" "on_net (download_release_artifact cx url (package_exe cx j)) w = (w', Inr c)"
  then show "fetched cx j c w'"
    by (auto simp: on_net_def download_release_artifact_def write_file_def fetched_def unready_def read_file_def
        deployment_status_rows split: download.splits option.splits if_splits prod.splits)
qed

lemma fetched_unready: "fetched cx j c w \<Longrightarrow> unready j w"
  by (simp add: fetched_def)

lemma triple_fetch: "triple (unready j) (fetch_artifact cx j) (fetched cx j) (unready j)"
  unfolding fetch_artifact_def
proof (rule triple_bind [OF triple_download], rule triple_bind)
  fix c
  show "triple (fetched cx j c)
     (\<lambda>w. append_task_log (pj_task_id j) (''Downloaded agent_service.exe (''
              @ str_int (int (length (the_or (read_file (package_exe cx j) (sv_net w)) []))) @ '' bytes)'') w)
     (\<lambda>_. fetched cx j c) (unready j)"
    by (rule triple_conseq [OF keepsI [where P = "fetched cx j c"]])
      (rule keepsD [OF triple_append_log], (assumption | erule fetched_unready | rule fetched_other)+)
next
  fix c and u :: unit
  show "triple (fetched cx j c)
     (bindP (append_task_log (pj_task_id j) (''Computed SHA256: '' @ c)) (\<lambda>_. retP c)) (fetched cx j) (unready j)"
    by (rule triple_bind, rule triple_conseq [OF triple_append_log], rule fetched_other)
      (assumption | erule fetched_unready | rule triple_ret)+
qed

lemma triple_check:
  "triple (\<lambda>(l, w). fetched cx j c w) (check_artifact j c) (\<lambda>_ (l, w). unready j w \<and> exe_verified cx j w)
     (\<lambda>(l, w). unready j w)"
proof -
  have n: "triple (\<lambda>(l, w). fetched cx j c w) (noting p) (\<lambda>_ (l, w). fetched cx j c w) (\<lambda>(l, w). unready j w)" for p
    by (rule triple_noting)
  have ok: "P \<Longrightarrow> triple (\<lambda>(l, w). fetched cx j c w) (retP ()) (\<lambda>_ (l, w). unready j w \<and> exe_verified cx j w)
     (\<lambda>(l, w). unready j w)" if "P \<Longrightarrow> pj_artifact_sha256 j \<in> {[], c}" for P
    by (rule triple_ret) (use that in \<open>auto simp: fetched_def exe_verified_def\<close>)
  have raise: "triple (\<lambda>(l, w). fetched cx j c w) (raiseP e) (\<lambda>_ (l, w). unready j w \<and> exe_verified cx j w)
     (\<lambda>(l, w). unready j w)" for e
    by (rule triple_raise) (auto simp: fetched_def)
  have plain: "pj_artifact_sha256 j = [] \<Longrightarrow> triple (\<lambda>(l, w). fetched cx j c w) (noting p)
     (\<lambda>_ (l, w). unready j w \<and> exe_verified cx j w) (\<lambda>(l, w). unready j w)" for p
    by (rule triple_conseq [OF n]) (auto simp: fetched_def exe_verified_def)
  show ?thesis unfolding check_artifact_def
    by (rule triple_if, rule triple_bind, rule n, rule triple_bind, rule n, rule triple_if, rule raise, erule ok [rotated], simp,
        rule triple_if, rule plain, simp, rule ok, simp_all)
qed

lemma build_package_sound:
  "triple (\<lambda>(l, w). unready j w) (build_package cx now j) (\<lambda>_ (l, w). sound_ready cx j w) (\<lambda>(l, w). sound_ready cx j w)"
proof -
  let ?bad = "\<lambda>(l :: string list, w). unready j w"
  let ?ver = "\<lambda>(l :: string list, w). unready j w \<and> exe_verified cx j w"
  let ?exe = "\<lambda>(l :: string list, w). exe_verified cx j w"
  let ?fet = "\<lambda>c (l :: string list, w). fetched cx j c w"
  have f: "triple ?bad (within (fetch_artifact cx j)) ?fet ?bad"
    by (rule triple_within [OF triple_fetch])
  have n: "triple (?fet c) (noting p) (\<lambda>_. ?fet c) ?bad" for c p by (rule triple_noting)
  have p: "triple ?ver (within (on_net (write_package cx j c))) (\<lambda>_. ?ver) ?bad" for c
  proof -
    have "keeps (\<lambda>w. unready j w \<and> exe_verified cx j w) (on_net (write_package cx j c))"
    proof (rule keepsI)
      fix w assume w: "unready j w \<and> exe_verified cx j w"
      have "keeps (\<lambda>s. unready j (w\<lparr>sv_net := s\<rparr>) \<and> exe_verified cx j (w\<lparr>sv_net := s\<rparr>)) (write_package cx j c)"
        by (rule triple_write_package) (simp add: unready_def deployment_status_rows exe_verified_def)
      from keepsD [OF this, of "sv_net w"] w
      show "unready j (fst (on_net (write_package cx j c) w)) \<and> exe_verified cx j (fst (on_net (write_package cx j c) w))"
        by (cases "write_package cx j c (sv_net w)") (simp add: on_net_def)
    qed
    from triple_within [OF this] show ?thesis by (rule triple_conseq) auto
  qed
  have u: "triple ?ver (\<lambda>(parts, w). within (on_reg (update_deployment (pj_deployment_id j) (ready_update cx j now parts))) (parts, w))
     (\<lambda>_. ?exe) (\<lambda>(l, w). sound_ready cx j w)"
    by (rule tripleI) (auto simp: within_def on_reg_def on_net_def on_registry_def exe_verified_def read_file_def
        sound_ready_def split: prod.splits)
  have d: "triple ?exe (within (modP (on_db g))) (\<lambda>_. ?exe) (\<lambda>(l, w). sound_ready cx j w)" for g
    by (rule triple_conseq [OF triple_within [OF triple_on_db [where P = "exe_verified cx j"]]])
      (auto simp: sound_ready_def exe_verified_def read_file_def)
  have a: "triple ?exe (within (on_reg (upsert_agent now i up))) (\<lambda>_ (l, w). sound_ready cx j w) (\<lambda>(l, w). sound_ready cx j w)" for i up
    by (rule triple_conseq [OF triple_within [OF triple_upsert [where P = "exe_verified cx j"]]])
      (auto simp: sound_ready_def exe_verified_def read_file_def)
  have weak: "triple P m Q ?bad \<Longrightarrow> triple P m Q (\<lambda>(l, w). sound_ready cx j w)" for P Q and m :: "'x build_prog"
    by (rule triple_conseq, assumption) (auto simp: unready_def sound_ready_def)
  show ?thesis unfolding build_package_def
    by (rule triple_bind, rule weak, rule f, rule triple_bind, rule weak, rule n,
        rule triple_bind, rule weak, rule triple_check, rule triple_bind, rule weak, rule p,
        rule triple_bind, rule u, rule triple_bind, rule d, rule a)
qed

lemma sound_ready_mono:
  "reg_deployments (ds_registry (sv_net w')) = reg_deployments (ds_registry (sv_net w)) \<Longrightarrow>
   ds_files (sv_net w') = ds_files (sv_net w) \<Longrightarrow> sound_ready cx j w \<Longrightarrow> sound_ready cx j w'"
  by (rule iffD2 [OF sound_ready_other(1)])

lemma fail_package_sound: "keeps (sound_ready cx j) (fail_package now j parts e)"
proof -
  have u: "keeps (sound_ready cx j) (on_reg (update_deployment (pj_deployment_id j)
        (no_update\<lparr>du_release_id := x, du_status := Some ''failed'', du_error := y, du_build_log := z, du_completed_at := t\<rparr>)))"
    for x y z t by (rule triple_update_status [where s = "''failed''"]) simp_all
  show ?thesis unfolding fail_package_def Let_def
    by (rule keeps_bind, rule triple_append_log, erule (2) sound_ready_mono, rule keeps_bind, rule u,
        rule keeps_bind, rule triple_on_db, erule (2) sound_ready_mono, rule triple_upsert, erule (2) sound_ready_mono)
qed

text \<open>Property C31. When the job of a deployment that was not ready leaves it ready, the executable in its
  package is there, and it hashes to the checksum of the release when the release has one. This holds on
  every path of the job: a failed download, a file that cannot be written, a refused statement.\<close>

theorem ready_package_verified:
  assumes "deployment_status (pj_deployment_id j) w \<noteq> Some ''ready''"
  shows "case run_prepare cx now j w of (w', r) \<Rightarrow>
     deployment_status (pj_deployment_id j) w' \<noteq> Some ''ready'' \<or> exe_verified cx j w'"
proof -
  let ?m = "append_task_log (pj_task_id j) (''Starting deployment prepare for '' @ pj_hostname j
                 @ '' ('' @ release_label j @ '')'')"
  let ?w0 = "fst (?m w)"
  have "unready j w" using assms by (simp add: unready_def)
  then have w0: "unready j ?w0"
    by (rule keepsD [OF triple_append_log, rotated]) (rule unready_other)
  have "sound_ready cx j (fst (run_prepare cx now j w))"
  proof (cases "build_package cx now j ([], ?w0)")
    case (Pair s r)
    obtain parts w1 where s: "s = (parts, w1)" by (cases s)
    show ?thesis
    proof (cases r)
      case (Inl e)
      have "sound_ready cx j w1"
        using tripleD(1) [OF build_package_sound, of j "([], ?w0)" cx now s e] w0 Pair Inl s by simp
      from keepsD [OF fail_package_sound this] show ?thesis
        using Pair Inl s by (simp add: run_prepare_def Let_def)
    next
      case (Inr u)
      have "sound_ready cx j w1"
        using tripleD(2) [OF build_package_sound, of j "([], ?w0)" cx now s u] w0 Pair Inr s by simp
      then show ?thesis using Pair Inr s by (simp add: run_prepare_def Let_def)
    qed
  qed
  then show ?thesis by (auto simp: sound_ready_def split: prod.split)
qed

definition sample_job :: prepare_job where
  "sample_job = \<lparr>pj_deployment_id = ''d0'', pj_task_id = ''t0'', pj_agent_id = ''vm1'', pj_release_id = ''7'',
     pj_release_version = ''1.0'', pj_release_tag_name = ''v1.0'', pj_artifact_url = ''https://x/a.exe'',
     pj_artifact_sha256 = ''hmz'', pj_commit_sha = ''abc'', pj_hostname = ''vm1'', pj_display_name = ''vm1'',
     pj_guacamole = [], pj_server_ws_url = ''ws://s'', pj_bootstrap_token = ''tok'', pj_bootstrap_expires_at = 99\<rparr>"

section \<open>A job that succeeds\<close>

lemma within_Inr: "m w = (w', r) \<Longrightarrow> within m (l, w) = ((l, w'), r)"
  by (simp add: within_def)

lemma write_file_ok: "dc_writable cx p \<Longrightarrow> write_file cx p body s = (s\<lparr>ds_files := AList.update p body (ds_files s)\<rparr>, Inr ())"
  by (simp add: write_file_def)

lemma write_package_ok:
  assumes "\<And>p. dc_writable cx p"
  shows "\<exists>files. write_package cx j c s = (s\<lparr>ds_files := files\<rparr>, Inr ())"
  by (simp add: write_package_def Let_def write_file_ok create_package_zip_def assms) blast

lemma on_reg_update:
  assumes "live_registry (ds_registry (sv_net w))" and "d \<in> set (deployment_ids (ds_registry (sv_net w)))"
    and "du_metadata u = None" and "du_status u = Some s" and "opt_in (du_release_id u) (release_ids (ds_registry (sv_net w)))"
  shows "\<exists>db. on_reg (update_deployment d u) w = (w\<lparr>sv_net := (sv_net w)\<lparr>ds_registry := db\<rparr>\<rparr>, Inr ()) \<and> live_registry db \<and>
     deployment_ids db = deployment_ids (ds_registry (sv_net w)) \<and>
     map_option de_status (find (\<lambda>r. de_id r = d) (reg_deployments db)) = Some s"
proof -
  have "u \<noteq> no_update" using assms(4) by (auto simp: no_update_def)
  note upd = update_deployment_live [OF assms(1) assms(3) this assms(5), of d]
  obtain r where "find (\<lambda>r. de_id r = d) (reg_deployments (ds_registry (sv_net w))) = Some r"
    using assms(2) by (cases "find (\<lambda>r. de_id r = d) (reg_deployments (ds_registry (sv_net w)))")
      (auto simp: deployment_ids_def find_eq_None_iff)
  then show ?thesis
    using upd assms(4) on_reg_split [of "update_deployment d u" w, OF upd(1)]
    by (intro exI conjI) (assumption, simp_all add: deployment_ids_def find_update_where apply_deployment_update_def)
qed

lemma on_reg_upsert:
  assumes "live_registry (ds_registry (sv_net w))"
    and "opt_in (up_last_deployment_id up) (deployment_ids (ds_registry (sv_net w)))"
  shows "\<exists>ags. on_reg (upsert_agent now i up) w =
      (w\<lparr>sv_net := (sv_net w)\<lparr>ds_registry := (ds_registry (sv_net w))\<lparr>reg_agents := ags\<rparr>\<rparr>\<rparr>, Inr ()) \<and>
    live_registry ((ds_registry (sv_net w))\<lparr>reg_agents := ags\<rparr>)"
  using upsert_agent_live [OF assms] on_reg_split [of "upsert_agent now i up" w] by blast

lemma append_task_log_ok: "\<exists>db. append_task_log i c w = (w\<lparr>sv_db := db\<rparr>, Inr ())"
proof (cases "c = []")
  case True
  then show ?thesis by (intro exI [of _ "sv_db w"]) (simp add: append_task_log_def)
next
  case False
  then show ?thesis by (intro exI) (simp add: append_task_log_def on_db_def)
qed

lemma fetch_artifact_ok:
  assumes "dc_download cx (github_headers cx) (pj_artifact_url j) = Received body None" and "dc_writable cx (package_exe cx j)"
  shows "\<exists>db files. fetch_artifact cx j w =
     (w\<lparr>sv_db := db, sv_net := (sv_net w)\<lparr>ds_files := files\<rparr>\<rparr>, Inr (lower (dc_sha256 cx body)))"
proof -
  let ?files = "AList.update (package_exe cx j) body (ds_files (sv_net w))"
  let ?w1 = "w\<lparr>sv_net := (sv_net w)\<lparr>ds_files := ?files\<rparr>\<rparr>"
  have d: "on_net (download_release_artifact cx (pj_artifact_url j) (package_exe cx j)) w = (?w1, Inr (lower (dc_sha256 cx body)))"
    using assms by (simp add: download_release_artifact_def write_file_ok on_net_def)
  define m where "m = (\<lambda>w :: deploy_state svc. ''Downloaded agent_service.exe (''
              @ str_int (int (length (the_or (read_file (package_exe cx j) (sv_net w)) []))) @ '' bytes)'')"
  obtain t where t: "append_task_log (pj_task_id j) (m ?w1) ?w1 = (?w1\<lparr>sv_db := t\<rparr>, Inr ())"
    using append_task_log_ok by blast
  obtain t2 where t2: "append_task_log (pj_task_id j) (''Computed SHA256: '' @ lower (dc_sha256 cx body)) (?w1\<lparr>sv_db := t\<rparr>) =
      (?w1\<lparr>sv_db := t, sv_db := t2\<rparr>, Inr ())"
    using append_task_log_ok by blast
  show ?thesis unfolding fetch_artifact_def
    by (intro exI [of _ t2] exI [of _ ?files], rule bindP_Inr, rule d, rule bindP_Inr, rule t [unfolded m_def], rule bindP_Inr, rule t2) simp
qed

lemma run_prepare_Inr:
  assumes "build_package cx now j ([], fst (append_task_log (pj_task_id j) (''Starting deployment prepare for '' @ pj_hostname j
                 @ '' ('' @ release_label j @ '')'') w)) = ((parts, w1), Inr x)"
  shows "run_prepare cx now j w = (w1, Inr ())"
  unfolding run_prepare_def Let_def assms by simp

lemma prepare_job_succeeds:
  assumes live: "live_registry (ds_registry (sv_net w))" and dep: "pj_deployment_id j \<in> set (deployment_ids (ds_registry (sv_net w)))"
    and rel: "pj_release_id j \<in> set (release_ids (ds_registry (sv_net w)))"
    and wr: "\<And>p. dc_writable cx p"
    and dl: "dc_download cx (github_headers cx) (pj_artifact_url j) = Received body None"
    and sha: "pj_artifact_sha256 j \<in> {[], lower (dc_sha256 cx body)}"
  shows "\<exists>w'. run_prepare cx now j w = (w', Inr ()) \<and> deployment_status (pj_deployment_id j) w' = Some ''ready''"
proof -
  define w0 where "w0 = fst (append_task_log (pj_task_id j) (''Starting deployment prepare for '' @ pj_hostname j
                 @ '' ('' @ release_label j @ '')'') w)"
  have net0: "sv_net w0 = sv_net w" by (simp add: w0_def append_task_log_def on_db_def)
  define c where "c = lower (dc_sha256 cx body)"
  obtain t1 f1 where fetch: "fetch_artifact cx j w0 = (w0\<lparr>sv_db := t1, sv_net := (sv_net w0)\<lparr>ds_files := f1\<rparr>\<rparr>, Inr c)"
    using fetch_artifact_ok [of cx j body w0] dl wr unfolding c_def by blast
  let ?w1 = "w0\<lparr>sv_db := t1, sv_net := (sv_net w0)\<lparr>ds_files := f1\<rparr>\<rparr>"
  obtain l1 where check: "check_artifact j c (l0, ?w1) = (l1 l0, Inr ())" "snd (l1 l0) = ?w1" for l0
  proof -
    have "\<forall>l0. \<exists>s. check_artifact j c (l0, ?w1) = (s, Inr ()) \<and> snd s = ?w1"
      using sha by (auto simp: check_artifact_def noting_def c_def)
    then show ?thesis using that by metis
  qed
  obtain f2 where pkg: "write_package cx j c (sv_net ?w1) = ((sv_net ?w1)\<lparr>ds_files := f2\<rparr>, Inr ())"
    using write_package_ok [of cx j c "sv_net ?w1"] wr by blast
  let ?w2 = "?w1\<lparr>sv_net := (sv_net ?w1)\<lparr>ds_files := f2\<rparr>\<rparr>"
  have reg2: "ds_registry (sv_net ?w2) = ds_registry (sv_net w)" by (simp add: net0)
  let ?parts = "fst (l1 ([] @ [''Downloaded release artifact: '' @ pj_artifact_url j]))"
  have u: "du_metadata (ready_update cx j now ?parts) = None" "du_status (ready_update cx j now ?parts) = Some ''ready''"
    "du_release_id (ready_update cx j now ?parts) = Some (pj_release_id j)"
    by (simp_all add: ready_update_def no_update_def)
  obtain db where upd: "on_reg (update_deployment (pj_deployment_id j) (ready_update cx j now ?parts)) ?w2 =
        (?w2\<lparr>sv_net := (sv_net ?w2)\<lparr>ds_registry := db\<rparr>\<rparr>, Inr ())" "live_registry db"
      "deployment_ids db = deployment_ids (ds_registry (sv_net w))"
      "map_option de_status (find (\<lambda>r. de_id r = pj_deployment_id j) (reg_deployments db)) = Some ''ready''"
    using on_reg_update [of ?w2 "pj_deployment_id j" "ready_update cx j now ?parts" "''ready''"] live dep rel u
    unfolding reg2 by (auto simp: opt_in_def)
  let ?w3 = "?w2\<lparr>sv_net := (sv_net ?w2)\<lparr>ds_registry := db\<rparr>\<rparr>"
  let ?w4 = "on_db (update_task_status now (pj_task_id j) ''completed'' None None None ''server'') ?w3"
  define up where "up = no_upsert\<lparr>up_hostname := pj_hostname j, up_display_name := pj_display_name j,
            up_status := Some ''ready_for_install'', up_last_deployment_id := Some (pj_deployment_id j),
            up_current_version := Some (str_or (pj_release_version j)
              (str_or (pj_release_tag_name j) (take 12 (pj_commit_sha j))))\<rparr>"
  have net4: "ds_registry (sv_net ?w4) = db" by (simp add: on_db_def)
  obtain ags where ups: "on_reg (upsert_agent now (pj_agent_id j) up) ?w4 =
      (?w4\<lparr>sv_net := (sv_net ?w4)\<lparr>ds_registry := (ds_registry (sv_net ?w4))\<lparr>reg_agents := ags\<rparr>\<rparr>\<rparr>, Inr ())"
    using on_reg_upsert [of ?w4 up now "pj_agent_id j"] upd(2,3) dep unfolding net4 by (auto simp: up_def opt_in_def)
  let ?w5 = "?w4\<lparr>sv_net := (sv_net ?w4)\<lparr>ds_registry := (ds_registry (sv_net ?w4))\<lparr>reg_agents := ags\<rparr>\<rparr>\<rparr>"
  have l1: "l1 x = (fst (l1 x), ?w1)" for x using check(2) [of x] by (metis prod.collapse)
  have "build_package cx now j ([], w0) = ((?parts, ?w5), Inr ())"
    unfolding build_package_def
  proof (rule bindP_Inr, rule within_Inr, rule fetch, rule bindP_Inr)
    show "noting (''Downloaded release artifact: '' @ pj_artifact_url j) ([], ?w1) =
        (([] @ [''Downloaded release artifact: '' @ pj_artifact_url j], ?w1), Inr ())"
      by (simp add: noting_def)
  next
    let ?s = "([] @ [''Downloaded release artifact: '' @ pj_artifact_url j], ?w1)"
    have chk: "check_artifact j c ?s = ((?parts, ?w1), Inr ())" unfolding check(1) using l1 by simp
    have pkg': "on_net (write_package cx j c) ?w1 = (?w2, Inr ())" using pkg by (simp add: on_net_def)
    have upd': "(case (?parts, ?w2) of (parts, w) \<Rightarrow> within (on_reg (update_deployment (pj_deployment_id j)
        (ready_update cx j now parts))) (parts, w)) = ((?parts, ?w3), Inr ())"
      unfolding prod.case by (rule within_Inr, rule upd(1))
    have st: "modP (on_db (update_task_status now (pj_task_id j) ''completed'' None None None ''server'')) ?w3 = (?w4, Inr ())"
      by simp
    show "bindP (check_artifact j c) (\<lambda>_. bindP (within (on_net (write_package cx j c))) (\<lambda>_.
       bindP (\<lambda>(parts, w). within (on_reg (update_deployment (pj_deployment_id j) (ready_update cx j now parts))) (parts, w)) (\<lambda>_.
       bindP (within (modP (on_db (update_task_status now (pj_task_id j) ''completed'' None None None ''server'')))) (\<lambda>_.
         within (on_reg (upsert_agent now (pj_agent_id j)
         (no_upsert\<lparr>up_hostname := pj_hostname j, up_display_name := pj_display_name j,
            up_status := Some ''ready_for_install'', up_last_deployment_id := Some (pj_deployment_id j),
            up_current_version := Some (str_or (pj_release_version j)
              (str_or (pj_release_tag_name j) (take 12 (pj_commit_sha j))))\<rparr>)))))) ) ?s = ((?parts, ?w5), Inr ())"
      unfolding up_def [symmetric]
      by (rule bindP_Inr, rule chk, rule bindP_Inr, rule within_Inr, rule pkg', rule bindP_Inr, rule upd',
          rule bindP_Inr, rule within_Inr, rule st, rule within_Inr, rule ups)
  qed
  moreover have "deployment_status (pj_deployment_id j) ?w5 = Some ''ready''"
  proof -
    have "reg_deployments (ds_registry (sv_net ?w5)) = reg_deployments db" by (simp add: on_db_def)
    then show ?thesis unfolding deployment_status_rows using upd(4) by (simp only:)
  qed
  ultimately show ?thesis unfolding w0_def using run_prepare_Inr by blast
qed

theorem ready_package_verified_witness:
  "exe_verified sample_ctx sample_job (fst (run_prepare sample_ctx 9 sample_job (sample_deploy stuck_registry)))"
proof -
  let ?w = "sample_deploy stuck_registry"
  have reg: "ds_registry (sv_net ?w) = stuck_registry" by (simp add: sample_deploy_def)
  have "deployment_status (pj_deployment_id sample_job) ?w \<noteq> Some ''ready''" by code_simp
  note th = ready_package_verified [OF this, of sample_ctx 9]
  have "pj_deployment_id sample_job \<in> set (deployment_ids stuck_registry)"
    "pj_release_id sample_job \<in> set (release_ids stuck_registry)" by code_simp+
  moreover have "dc_writable sample_ctx p" for p by (simp add: sample_ctx_def)
  moreover have "dc_download sample_ctx h (pj_artifact_url sample_job) = Received ''MZ'' None" for h
    by (simp add: sample_ctx_def)
  moreover have "pj_artifact_sha256 sample_job \<in> {[], lower (dc_sha256 sample_ctx ''MZ'')}" by code_simp
  ultimately obtain w' where w': "run_prepare sample_ctx 9 sample_job ?w = (w', Inr ())"
      "deployment_status (pj_deployment_id sample_job) w' = Some ''ready''"
    using prepare_job_succeeds [of ?w sample_job sample_ctx "''MZ''" 9] stuck_registry_live reg by auto
  then show ?thesis using th by simp
qed

end
