(* ===== verification/Agent_Hub.thy ===== *)
theory Agent_Hub
  imports Agent_Runtime Deployment_Service Authz
begin

text \<open>
  The sockets of the server: the agents and the browsers that are connected, who watches the process
  manager of which agent, and what is sent to whom (\<open>server.py\<close>, \<open>process_monitoring/network_handler.py\<close>,
  \<open>agents/command_handler.py\<close>).

  Python sets of sockets and of agents are lists in the order of insertion; the order in which a set is
  iterated over is not specified by the code, and no property depends on it. A socket that is dead or was
  closed by the server refuses to send, and \<open>hu_sent\<close> keeps what was sent to which socket, in order.
\<close>

section \<open>State\<close>

text \<open>An event for an agent is its JSON text; a browser gets \<open>{kind: ..., ...}\<close>.\<close>

datatype frame = EventFrame net_event | JsonFrame pydict

record hub =
  hu_live :: live
  hu_deploy :: deploy_state
  hu_clients :: "ws list"
  hu_watchers :: "(string \<times> ws list) list"
  hu_watched :: "(ws \<times> string list) list"
  hu_sessions :: "(ws \<times> user_session) list"
  hu_snapshot :: bool
  hu_sent :: "(ws \<times> frame) list"
  hu_dead :: "ws list"

abbreviation hu_runtime :: "hub \<Rightarrow> agent_runtime" where
  "hu_runtime h \<equiv> fst (hu_live h)"

definition set_runtime :: "agent_runtime \<Rightarrow> hub \<Rightarrow> hub" where
  "set_runtime rt h = h\<lparr>hu_live := (rt, snd (hu_live h))\<rparr>"

definition usable :: "hub \<Rightarrow> ws \<Rightarrow> bool" where
  "usable h s \<longleftrightarrow> s \<notin> set (hu_dead h) \<and> s \<notin> set (ar_closed (hu_runtime h))"

definition record_sent :: "ws \<Rightarrow> frame \<Rightarrow> hub \<Rightarrow> hub" where
  "record_sent s f h = h\<lparr>hu_sent := hu_sent h @ [(s, f)]\<rparr>"

definition members :: "('k \<times> 'v list) list \<Rightarrow> 'k \<Rightarrow> 'v list" where
  "members m k = (case map_of m k of None \<Rightarrow> [] | Some vs \<Rightarrow> vs)"

section \<open>Sending\<close>

definition send_to_agent :: "int \<Rightarrow> string \<Rightarrow> net_event \<Rightarrow> hub \<Rightarrow> hub \<times> bool" where
  "send_to_agent now agent_id ev h =
     (case get_agent_socket agent_id (hu_runtime h) of
        None \<Rightarrow> (h, False)
      | Some s \<Rightarrow>
          if usable h s then (record_sent s (EventFrame ev) h, True)
          else (set_runtime (fst (unregister_agent now (Some agent_id) (Some s) (hu_runtime h))) h\<lparr>hu_snapshot := True\<rparr>,
                False))"

definition session_user :: "ws \<Rightarrow> hub \<Rightarrow> user_identity option" where
  "session_user s h = map_option us_user (map_of (hu_sessions h) s)"

text \<open>The three broadcasts: the snapshot is emptied for those who see no agents, the others skip them. A
  socket that fails to send leaves the clients.\<close>

definition drop_client :: "ws \<Rightarrow> hub \<Rightarrow> hub" where
  "drop_client s h = h\<lparr>hu_clients := removeAll s (hu_clients h)\<rparr>"

definition send_client :: "ws \<Rightarrow> pydict \<Rightarrow> hub \<Rightarrow> hub" where
  "send_client s msg h = (if usable h s then record_sent s (JsonFrame msg) h else drop_client s h)"

definition broadcast_to_frontends :: "pyval \<Rightarrow> hub \<Rightarrow> hub" where
  "broadcast_to_frontends data h =
     fold (\<lambda>s h. send_client s [(''kind'', PStr ''agents_snapshot''),
              (''data'', if user_has_agent_visibility (session_user s h) then data else PDict [])] h)
       (hu_clients h) h"

definition broadcast_visible :: "string \<Rightarrow> pydict \<Rightarrow> hub \<Rightarrow> hub" where
  "broadcast_visible kind payload h =
     fold (\<lambda>s h. if user_has_agent_visibility (session_user s h)
                 then send_client s [(''kind'', PStr kind), (''data'', PDict payload)] h else h)
       (hu_clients h) h"

definition broadcast_task_event :: "string \<Rightarrow> pydict \<Rightarrow> hub \<Rightarrow> hub" where
  "broadcast_task_event task_id payload = broadcast_visible ''task_event'' payload"

definition broadcast_process_screenshot :: "pydict \<Rightarrow> hub \<Rightarrow> hub" where
  "broadcast_process_screenshot payload = broadcast_visible ''process_screenshot'' payload"

text \<open>One turn of \<open>_frontend_snapshot_broadcaster\<close>, when the event is set.\<close>

definition snapshot_turn :: "hub \<Rightarrow> hub" where
  "snapshot_turn h =
     (if hu_snapshot h then
        (let h1 = h\<lparr>hu_snapshot := False\<rparr> in
         if hu_clients h1 \<noteq> [] then broadcast_to_frontends (PDict (build_frontend_snapshot (hu_runtime h1))) h1 else h1)
      else h)"

definition forward_frontend_event :: "int \<Rightarrow> string \<Rightarrow> net_event \<Rightarrow> hub \<Rightarrow> hub \<times> bool" where
  "forward_frontend_event now requested ev h =
     (let target = str_or requested (the_or (get_default_target_agent_id (hu_runtime h)) [])
      in if target = [] then (h, False) else send_to_agent now target ev h)"

section \<open>Watching the process manager\<close>

definition set_agent_window_tracking :: "int \<Rightarrow> string \<Rightarrow> bool \<Rightarrow> hub \<Rightarrow> hub \<times> bool" where
  "set_agent_window_tracking now agent_id enabled h =
     send_to_agent now agent_id (SetWindowTrackingEv \<lparr>wt_agent_id = agent_id, wt_enabled = enabled\<rparr>) h"

definition add_watcher :: "int \<Rightarrow> ws \<Rightarrow> string \<Rightarrow> hub \<Rightarrow> hub" where
  "add_watcher now s agent_id h =
     (if agent_id = [] then h
      else
        (let watched = members (hu_watched h) s; h0 = h\<lparr>hu_watched := AList.update s watched (hu_watched h)\<rparr> in
         if agent_id \<in> set watched then h0
         else
           (let watchers = members (hu_watchers h) agent_id;
                h1 = h0\<lparr>hu_watchers := AList.update agent_id (List.insert s watchers) (hu_watchers h0),
                        hu_watched := AList.update s (agent_id # watched) (hu_watched h0)\<rparr>
            in if watchers = [] then fst (set_agent_window_tracking now agent_id True h1) else h1)))"

definition remove_watcher :: "int \<Rightarrow> ws \<Rightarrow> string \<Rightarrow> hub \<Rightarrow> hub" where
  "remove_watcher now s agent_id h =
     (if agent_id = [] then h
      else
        (let h0 = (case map_of (hu_watched h) s of
                     None \<Rightarrow> h
                   | Some watched \<Rightarrow> h\<lparr>hu_watched := AList.update s (removeAll agent_id watched) (hu_watched h)\<rparr>);
             watchers = members (hu_watchers h0) agent_id
         in if watchers = [] then h0
            else
              (let rest = removeAll s watchers in
               if rest = []
               then fst (set_agent_window_tracking now agent_id False
                      (h0\<lparr>hu_watchers := AList.delete agent_id (hu_watchers h0)\<rparr>))
               else h0\<lparr>hu_watchers := AList.update agent_id rest (hu_watchers h0)\<rparr>)))"

definition remove_all_watchers :: "int \<Rightarrow> ws \<Rightarrow> hub \<Rightarrow> hub" where
  "remove_all_watchers now s h = fold (\<lambda>a h. remove_watcher now s a h) (members (hu_watched h) s) h"

section \<open>Commands from the browser\<close>

definition operator_event_types :: "string list" where
  "operator_event_types = [''start_program'', ''start_monitored_process'', ''create_session'']"

definition command_event_types :: "string list" where
  "command_event_types = operator_event_types @ [''capture_process_screenshot'']"

text \<open>\<open>send_json\<close> on a socket of the caller: raises when the socket cannot send.\<close>

definition send_json :: "ws \<Rightarrow> pydict \<Rightarrow> (hub, unit) prog" where
  "send_json s msg h =
     (if usable h s then (record_sent s (JsonFrame msg) h, Inr ())
      else (h, Inl (RuntimeError ''websocket is closed'')))"

definition reject_frontend_command :: "ws \<Rightarrow> string \<Rightarrow> string \<Rightarrow> (hub, unit) prog" where
  "reject_frontend_command s minimum_role event_ty =
     send_json s [(''kind'', PStr ''command_rejected''), (''event_type'', PStr event_ty),
       (''error'', PStr ((case minimum_role of [] \<Rightarrow> [] | c # cs \<Rightarrow> upper_char c # lower cs) @ '' role required''))]"

definition handle_command :: "int \<Rightarrow> ws \<Rightarrow> net_event \<Rightarrow> (hub, bool) prog" where
  "handle_command now s ev h =
     (if event_type ev \<notin> set command_event_types then (h, Inr False)
      else if event_type ev \<in> set operator_event_types \<and>
              \<not> websocket_has_minimum_role (map_of (hu_sessions h) s) ''operator''
      then bindP (reject_frontend_command s ''operator'' (event_type ev)) (\<lambda>_. retP True) h
      else (fst (forward_frontend_event now (data_agent_id ev) ev h), Inr True))"

section \<open>The watcher indices agree\<close>

text \<open>Who watches an agent and what a browser watches are the two directions of one relation, no agent has
  an empty set of watchers, and the empty identifier is never watched.\<close>

definition mirrored :: "hub \<Rightarrow> bool" where
  "mirrored h \<longleftrightarrow>
     (\<forall>a s. s \<in> set (members (hu_watchers h) a) \<longleftrightarrow> a \<in> set (members (hu_watched h) s))"

definition watched_by_someone :: "hub \<Rightarrow> bool" where
  "watched_by_someone h \<longleftrightarrow> (\<forall>a l. map_of (hu_watchers h) a = Some l \<longrightarrow> l \<noteq> [] \<and> a \<noteq> [])"

definition one_entry_each :: "hub \<Rightarrow> bool" where
  "one_entry_each h \<longleftrightarrow> distinct (map fst (hu_watchers h)) \<and> distinct (map fst (hu_watched h))"

definition watch_ok :: "hub \<Rightarrow> bool" where
  "watch_ok h \<longleftrightarrow> one_entry_each h \<and> mirrored h \<and> watched_by_someone h"

lemma members_update [simp]: "members (AList.update k v m) k' = (if k' = k then v else members m k')"
  by (simp add: members_def)

lemma members_delete [simp]: "members (AList.delete k m) k' = (if k' = k then [] else members m k')"
  by (simp add: members_def)

lemma hub_frame_fields [simp]:
  "hu_watchers (fst (send_to_agent now a ev h)) = hu_watchers h"
  "hu_watched (fst (send_to_agent now a ev h)) = hu_watched h"
  "hu_watchers (fst (set_agent_window_tracking now a b h)) = hu_watchers h"
  "hu_watched (fst (set_agent_window_tracking now a b h)) = hu_watched h"
  by (simp_all add: send_to_agent_def set_agent_window_tracking_def record_sent_def set_runtime_def split: option.split)

lemma watch_parts_cong:
  assumes "hu_watchers h' = hu_watchers h" "hu_watched h' = hu_watched h"
  shows "mirrored h' = mirrored h" "watched_by_someone h' = watched_by_someone h"
    "one_entry_each h' = one_entry_each h" "watch_ok h' = watch_ok h"
  using assms by (simp_all add: mirrored_def watched_by_someone_def one_entry_each_def watch_ok_def)

lemma add_watcher_indices:
  "members (hu_watchers (add_watcher now s a h)) b =
     (if b = a \<and> a \<noteq> [] \<and> a \<notin> set (members (hu_watched h) s)
      then List.insert s (members (hu_watchers h) b) else members (hu_watchers h) b)"
  "members (hu_watched (add_watcher now s a h)) t =
     (if t = s \<and> a \<noteq> [] \<and> a \<notin> set (members (hu_watched h) s)
      then a # members (hu_watched h) t else members (hu_watched h) t)"
  by (simp_all add: add_watcher_def Let_def)

lemma mirrored_add: "mirrored h \<Longrightarrow> mirrored (add_watcher now s a h)"
  unfolding mirrored_def add_watcher_indices by auto

lemma insert_not_Nil [simp]: "List.insert x xs \<noteq> []"
  by (simp add: List.insert_def) (metis empty_iff empty_set)

lemma watched_by_someone_add: "watched_by_someone h \<Longrightarrow> watched_by_someone (add_watcher now s a h)"
  by (auto simp: watched_by_someone_def add_watcher_def Let_def split: if_splits)

lemma one_entry_add: "one_entry_each h \<Longrightarrow> one_entry_each (add_watcher now s a h)"
  by (simp add: one_entry_each_def add_watcher_def Let_def distinct_update)

lemma watch_ok_add: "watch_ok h \<Longrightarrow> watch_ok (add_watcher now s a h)"
  by (simp add: watch_ok_def mirrored_add watched_by_someone_add one_entry_add)

lemma remove_watcher_indices:
  "members (hu_watchers (remove_watcher now s a h)) b =
     (if b = a \<and> a \<noteq> [] then removeAll s (members (hu_watchers h) b) else members (hu_watchers h) b)"
  "members (hu_watched (remove_watcher now s a h)) t =
     (if t = s \<and> a \<noteq> [] then removeAll a (members (hu_watched h) t) else members (hu_watched h) t)"
  by (auto simp: remove_watcher_def Let_def members_def split: option.splits)

lemma mirrored_remove: "mirrored h \<Longrightarrow> mirrored (remove_watcher now s a h)"
  unfolding mirrored_def remove_watcher_indices by auto

lemma watched_by_someone_remove: "watched_by_someone h \<Longrightarrow> watched_by_someone (remove_watcher now s a h)"
  by (auto simp: watched_by_someone_def remove_watcher_def Let_def split: option.splits if_splits)

lemma one_entry_remove: "one_entry_each h \<Longrightarrow> one_entry_each (remove_watcher now s a h)"
  by (simp add: one_entry_each_def remove_watcher_def Let_def distinct_update distinct_delete split: option.split)

lemma watch_ok_remove: "watch_ok h \<Longrightarrow> watch_ok (remove_watcher now s a h)"
  by (simp add: watch_ok_def mirrored_remove watched_by_someone_remove one_entry_remove)

lemma watch_ok_remove_all: "watch_ok h \<Longrightarrow> watch_ok (remove_all_watchers now s h)"
proof -
  have "watch_ok h \<Longrightarrow> watch_ok (fold (\<lambda>a h. remove_watcher now s a h) as h)" for as
    by (induction as arbitrary: h) (simp_all add: watch_ok_remove)
  then show "watch_ok h \<Longrightarrow> watch_ok (remove_all_watchers now s h)" by (simp add: remove_all_watchers_def)
qed

lemma remove_all_clears:
  assumes "watch_ok h"
  shows "members (hu_watched (remove_all_watchers now s h)) s = []"
proof -
  have "set (members (hu_watched (fold (\<lambda>a h. remove_watcher now s a h) as h)) s) \<subseteq>
      {a \<in> set (members (hu_watched h) s). a \<notin> set as \<or> a = []}" for as h
  proof (induction as arbitrary: h)
    case (Cons a as)
    from Cons.IH [of "remove_watcher now s a h"] show ?case
      by (auto simp: remove_watcher_indices split: if_splits)
  qed auto
  then have "set (members (hu_watched (remove_all_watchers now s h)) s) \<subseteq> {[]} \<inter> set (members (hu_watched h) s)"
    unfolding remove_all_watchers_def by blast
  moreover have "[] \<notin> set (members (hu_watched h) s)"
  proof
    assume "[] \<in> set (members (hu_watched h) s)"
    then have "s \<in> set (members (hu_watchers h) [])" using assms by (simp add: watch_ok_def mirrored_def)
    then obtain l where "map_of (hu_watchers h) [] = Some l" by (cases "map_of (hu_watchers h) []") (auto simp: members_def)
    then show False using assms by (auto simp: watch_ok_def watched_by_someone_def)
  qed
  ultimately show ?thesis by auto
qed

end
