(* ===== verification/Web_Api.thy ===== *)
theory Web_Api
  imports User_Service
begin

text \<open>
  The HTTP side of users and settings: the table of recently seen users
  (\<open>users/recent_users_db.py\<close>), the authentication middleware of \<open>server.py\<close>, and the routes of
  \<open>api/routers/users_router.py\<close> and \<open>api/routers/settings_router.py\<close>. A request body is given after
  its validation by pydantic; the request models of a settings change have the optional fields of the
  patch records, which stand for both.
\<close>

section \<open>Recently seen users\<close>

record recent_row =
  rr_subject :: string
  rr_username :: string
  rr_display_name :: string
  rr_email :: string
  rr_avatar_url :: string
  rr_avatar_initials :: string
  rr_auth_provider :: string
  rr_roles_json :: string
  rr_group_ids_json :: string
  rr_group_names_json :: string
  rr_last_seen_at :: int

record recent_db =
  rdb_open :: bool
  rdb_rows :: "recent_row list"

record recent_identity =
  ri_subject :: string
  ri_username :: string
  ri_display_name :: string
  ri_email :: string
  ri_avatar_url :: string
  ri_avatar_initials :: string
  ri_auth_provider :: string
  ri_roles :: "string list"
  ri_group_ids :: "string list"
  ri_group_names :: "string list"
  ri_last_seen_at :: int

definition rdb_start :: "recent_db \<Rightarrow> recent_db" where
  "rdb_start db = db\<lparr>rdb_open := True\<rparr>"

definition rdb_stop :: "recent_db \<Rightarrow> recent_db" where
  "rdb_stop db = db\<lparr>rdb_open := False\<rparr>"

definition dump_strings :: "string list \<Rightarrow> string" where
  "dump_strings xs = json_dumps (PList (map PStr xs))"

definition recent_insert_row :: "int \<Rightarrow> user_identity \<Rightarrow> recent_row" where
  "recent_insert_row now u =
     \<lparr>rr_subject = u_subject u, rr_username = u_username u, rr_display_name = u_display_name u,
      rr_email = u_email u, rr_avatar_url = u_avatar_url u, rr_avatar_initials = u_avatar_initials u,
      rr_auth_provider = u_auth_provider u, rr_roles_json = dump_strings (u_roles u),
      rr_group_ids_json = dump_strings (u_group_ids u),
      rr_group_names_json = dump_strings (u_group_names u), rr_last_seen_at = now\<rparr>"

text \<open>The upsert keeps the place of an existing row.\<close>

definition record_identity :: "int \<Rightarrow> user_identity \<Rightarrow> (recent_db, unit) prog" where
  "record_identity now u db =
     (if \<not> rdb_open db then (db, Inl (RuntimeError ''RecentUsersDB is not started''))
      else
        (let row = recent_insert_row now u in
         if \<exists>r\<in>set (rdb_rows db). rr_subject r = u_subject u
         then (db\<lparr>rdb_rows := update_where (\<lambda>r. rr_subject r = u_subject u) (\<lambda>r. row) (rdb_rows db)\<rparr>, Inr ())
         else (db\<lparr>rdb_rows := rdb_rows db @ [row]\<rparr>, Inr ())))"

text \<open>\<open>json.loads(row[i] or "[]")\<close>, and its check as a list of texts.\<close>

fun all_strings :: "pyval list \<Rightarrow> string list option" where
  "all_strings [] = Some []"
| "all_strings (PStr s # vs) = map_option (\<lambda>ss. s # ss) (all_strings vs)"
| "all_strings (v # vs) = None"

definition load_strings :: "string \<Rightarrow> string list result" where
  "load_strings s =
     (case json_loads (str_or s ''[]'') of
        None \<Rightarrow> Inl (ValueError ''JSONDecodeError'')
      | Some (PList vs) \<Rightarrow>
          (case all_strings vs of None \<Rightarrow> Inl (ValueError ''ValidationError'') | Some ss \<Rightarrow> Inr ss)
      | Some _ \<Rightarrow> Inl (ValueError ''ValidationError''))"

definition map_recent_row :: "recent_row \<Rightarrow> recent_identity result" where
  "map_recent_row r =
     bindE (load_strings (rr_roles_json r)) (\<lambda>roles.
     bindE (load_strings (rr_group_ids_json r)) (\<lambda>group_ids.
     bindE (load_strings (rr_group_names_json r)) (\<lambda>group_names.
       Inr \<lparr>ri_subject = rr_subject r, ri_username = rr_username r, ri_display_name = rr_display_name r,
            ri_email = rr_email r, ri_avatar_url = rr_avatar_url r,
            ri_avatar_initials = rr_avatar_initials r, ri_auth_provider = rr_auth_provider r,
            ri_roles = roles, ri_group_ids = group_ids, ri_group_names = group_names,
            ri_last_seen_at = rr_last_seen_at r\<rparr>)))"

fun map_results :: "('a \<Rightarrow> 'b result) \<Rightarrow> 'a list \<Rightarrow> 'b list result" where
  "map_results f [] = Inr []"
| "map_results f (x # xs) = bindE (f x) (\<lambda>y. bindE (map_results f xs) (\<lambda>ys. Inr (y # ys)))"

definition list_recent :: "int \<Rightarrow> recent_db \<Rightarrow> recent_identity list result" where
  "list_recent lim db =
     (if \<not> rdb_open db then Inl (RuntimeError ''RecentUsersDB is not started'')
      else map_results map_recent_row (limit lim (order_desc rr_last_seen_at (rdb_rows db))))"

section \<open>Requests, responses and the state of the server\<close>

record request =
  rq_method :: string
  rq_path :: string
  rq_authorization :: "string option"
  rq_query :: "string \<Rightarrow> string option"

datatype response = Json int pyval | Redirect string

record web =
  web_users :: user_service
  web_settings :: settings_service
  web_recent :: recent_db

type_synonym 'a web_prog = "(web, 'a) prog"

definition error_response :: "int \<Rightarrow> string \<Rightarrow> response" where
  "error_response code message = Json code (PDict [(''error'', PStr message)])"

section \<open>The middleware\<close>

definition extract_bearer_token :: "string option \<Rightarrow> string option" where
  "extract_bearer_token header_value =
     (case header_value of
        None \<Rightarrow> None
      | Some h \<Rightarrow> if h \<noteq> [] \<and> starts_with ''bearer '' (lower h) then Some (strip (drop 7 h)) else None)"

definition is_public_user_api_path :: "string \<Rightarrow> bool" where
  "is_public_user_api_path path =
     (path \<in> {''/api/users/auth-config'', ''/api/users/login/local'', ''/api/users/login/microsoft'',
       ''/api/users/callback/microsoft'', ''/api/guacamole/tunnel''})"

definition request_token :: "request \<Rightarrow> string option" where
  "request_token rq =
     (case extract_bearer_token (rq_authorization rq) of
        Some (c # t) \<Rightarrow> Some (c # t)
      | _ \<Rightarrow>
          (case rq_query rq ''access_token'' of
             Some (c # t) \<Rightarrow> Some (c # t)
           | _ \<Rightarrow> rq_query rq ''app_access_token''))"

definition user_auth_middleware ::
    "int \<Rightarrow> request \<Rightarrow> (user_session option \<Rightarrow> response web_prog) \<Rightarrow> response web_prog" where
  "user_auth_middleware now rq call_next w =
     (if rq_method rq = ''OPTIONS'' \<or> \<not> starts_with ''/api'' (rq_path rq) \<or>
         is_public_user_api_path (rq_path rq)
      then call_next None w
      else
        (case get_session now (request_token rq) (web_users w) of
           (us, None) \<Rightarrow> (w\<lparr>web_users := us\<rparr>, Inr (error_response 401 ''Unauthorized''))
         | (us, Some s) \<Rightarrow> call_next (Some s) (w\<lparr>web_users := us\<rparr>)))"

definition is_admin_session :: "user_session option \<Rightarrow> bool" where
  "is_admin_session session =
     (case session of None \<Rightarrow> False | Some s \<Rightarrow> ''admin'' \<in> set (u_roles (us_user s)))"

section \<open>Settings routes\<close>

definition build_response_payload :: "env \<Rightarrow> server_settings \<Rightarrow> pyval" where
  "build_response_payload env settings =
     PDict (AList.update ''identity'' (PDict (build_settings_response_identity env (ss_identity settings)))
       (dump_server_settings settings))"

definition api_get_server_settings :: "env \<Rightarrow> user_session option \<Rightarrow> response web_prog" where
  "api_get_server_settings env session w =
     (if \<not> is_admin_session session then (w, Inr (error_response 403 ''Admin role required''))
      else (w, Inr (Json 200 (build_response_payload env (settings_snapshot (web_settings w))))))"

text \<open>The new settings of a change that has an identity part.\<close>

definition next_settings_payload ::
    "int \<Rightarrow> server_settings \<Rightarrow> deployment_patch option \<Rightarrow> identity_patch \<Rightarrow> pydict" where
  "next_settings_payload now current deployment identity_patch =
     (let payload = dump_server_settings current;
          payload1 = (case deployment of
                        None \<Rightarrow> payload
                      | Some p \<Rightarrow> AList.update ''deployment''
                          (PDict (dupdate (as_dict (dget payload ''deployment'')) (dump_deployment_patch p))) payload)
      in AList.update ''identity''
           (PDict (build_identity_payload_after_update now (ss_identity current) identity_patch)) payload1)"

definition respond_settings ::
    "env \<Rightarrow> web \<Rightarrow> settings_service \<times> server_settings result \<Rightarrow> web \<times> response result" where
  "respond_settings env w r =
     (case r of
        (sv, Inl e) \<Rightarrow> (w\<lparr>web_settings := sv\<rparr>, Inl e)
      | (sv, Inr updated) \<Rightarrow>
          (w\<lparr>web_settings := sv\<rparr>, Inr (Json 200 (build_response_payload env updated))))"

definition api_update_server_settings ::
    "(pyval \<Rightarrow> server_settings result) \<Rightarrow> int \<Rightarrow> env \<Rightarrow> settings_patch \<Rightarrow> user_session option
     \<Rightarrow> response web_prog" where
  "api_update_server_settings validate now env body session w =
     (if \<not> is_admin_session session then (w, Inr (error_response 403 ''Admin role required''))
      else
        (let current = settings_snapshot (web_settings w) in
         case ssp_identity body of
           None \<Rightarrow> respond_settings env w (settings_update validate now body (web_settings w))
         | Some requested \<Rightarrow>
             (case prepare_identity_patch (ss_identity current) requested of
                Inl e \<Rightarrow> (w, Inl e)
              | Inr identity_patch \<Rightarrow>
                  (case validate (PDict (next_settings_payload now current (ssp_deployment body) identity_patch)) of
                     Inl e \<Rightarrow> (w, Inl e)
                   | Inr settings \<Rightarrow> respond_settings env w (settings_replace now settings (web_settings w))))))"

section \<open>User routes\<close>

definition dump_user_identity :: "user_identity \<Rightarrow> pydict" where
  "dump_user_identity u =
     [(''subject'', PStr (u_subject u)), (''username'', PStr (u_username u)),
      (''display_name'', PStr (u_display_name u)), (''email'', PStr (u_email u)),
      (''avatar_url'', PStr (u_avatar_url u)), (''avatar_initials'', PStr (u_avatar_initials u)),
      (''auth_provider'', PStr (u_auth_provider u)), (''roles'', PList (map PStr (u_roles u))),
      (''agent_visibility'', PStr (u_agent_visibility u)), (''group_ids'', PList (map PStr (u_group_ids u))),
      (''group_names'', PList (map PStr (u_group_names u))), (''claims'', PDict (u_claims u))]"

definition dump_user_session :: "user_session \<Rightarrow> pyval" where
  "dump_user_session s =
     PDict [(''access_token'', PStr (us_access_token s)), (''user'', PDict (dump_user_identity (us_user s))),
            (''created_at'', PInt (us_created_at s)), (''expires_at'', PInt (us_expires_at s)),
            (''last_seen_at'', PInt (us_last_seen_at s))]"

definition dump_public_auth_config :: "public_auth_config \<Rightarrow> pyval" where
  "dump_public_auth_config c =
     PDict [(''provider'', PStr (pac_provider c)), (''provider_locked'', PBool (pac_provider_locked c)),
            (''local_bootstrap_available'', PBool (pac_local_bootstrap_available c)),
            (''azure_configured'', PBool (pac_azure_configured c)), (''azure_active'', PBool (pac_azure_active c)),
            (''microsoft_login_available'', PBool (pac_microsoft_login_available c)),
            (''client_id_configured'', PBool (pac_client_id_configured c)),
            (''tenant_id_configured'', PBool (pac_tenant_id_configured c)),
            (''client_secret_configured'', PBool (pac_client_secret_configured c)),
            (''group_mapping_count'', PInt (pac_group_mapping_count c))]"

definition current_identity :: "web \<Rightarrow> identity_settings" where
  "current_identity w = ss_identity (settings_snapshot (web_settings w))"

definition api_user_auth_config :: "env \<Rightarrow> response web_prog" where
  "api_user_auth_config env w =
     (w, Inr (Json 200 (dump_public_auth_config (get_public_auth_config env (current_identity w)))))"

definition api_user_local_login ::
    "env \<Rightarrow> int \<Rightarrow> string \<Rightarrow> string \<Rightarrow> string \<Rightarrow> response web_prog" where
  "api_user_local_login env now fresh_token username password w =
     (case authenticate_local_admin env (current_identity w) username password of
        None \<Rightarrow> (w, Inr (error_response 401 ''Invalid credentials''))
      | Some user \<Rightarrow>
          (case create_session now fresh_token (current_identity w) user (web_users w) of
             (us, s) \<Rightarrow> (w\<lparr>web_users := us\<rparr>, Inr (Json 200 (dump_user_session s)))))"

definition api_user_begin_microsoft_login ::
    "(string \<Rightarrow> http_outcome) \<Rightarrow> (string \<Rightarrow> string) \<Rightarrow> int \<Rightarrow> string \<times> string \<times> string
     \<Rightarrow> string \<Rightarrow> string \<Rightarrow> response web_prog" where
  "api_user_begin_microsoft_login http_get sha256 now fresh public_base_url return_to w =
     (case begin_microsoft_login http_get sha256 now fresh (current_identity w) public_base_url return_to
             (web_users w) of
        (us, Inl e) \<Rightarrow> (w\<lparr>web_users := us\<rparr>, Inr (error_response 400 (exc_message e)))
      | (us, Inr url) \<Rightarrow>
          (w\<lparr>web_users := us\<rparr>, Inr (Json 200 (PDict [(''authorize_url'', PStr url)]))))"

definition api_user_microsoft_callback ::
    "(string \<Rightarrow> http_outcome) \<Rightarrow> (string \<Rightarrow> string \<Rightarrow> http_outcome) \<Rightarrow> int \<Rightarrow> string
     \<Rightarrow> string \<Rightarrow> string \<Rightarrow> response web_prog" where
  "api_user_microsoft_callback http_get http_post now fresh_token state code w =
     (case finish_microsoft_login http_get http_post now fresh_token (current_identity w) state code
             (web_users w) of
        (us, Inl e) \<Rightarrow> (w\<lparr>web_users := us\<rparr>, Inr (error_response 400 (exc_message e)))
      | (us, Inr (s, return_to)) \<Rightarrow>
          (w\<lparr>web_users := us\<rparr>,
           Inr (Redirect (return_to
             @ (if CHR ''#'' \<in> set return_to \<or> CHR ''?'' \<in> set return_to then ''&'' else ''#'')
             @ ''auth_token='' @ us_access_token s))))"

definition api_user_me :: "user_session option \<Rightarrow> response web_prog" where
  "api_user_me session w =
     (w, Inr (case session of
                None \<Rightarrow> error_response 401 ''Unauthorized''
              | Some s \<Rightarrow> Json 200 (dump_user_session s)))"

definition dump_recent_identity :: "recent_identity \<Rightarrow> pyval" where
  "dump_recent_identity r =
     PDict [(''subject'', PStr (ri_subject r)), (''username'', PStr (ri_username r)),
            (''display_name'', PStr (ri_display_name r)), (''email'', PStr (ri_email r)),
            (''avatar_url'', PStr (ri_avatar_url r)), (''avatar_initials'', PStr (ri_avatar_initials r)),
            (''auth_provider'', PStr (ri_auth_provider r)), (''roles'', PList (map PStr (ri_roles r))),
            (''group_ids'', PList (map PStr (ri_group_ids r))),
            (''group_names'', PList (map PStr (ri_group_names r))),
            (''last_seen_at'', PInt (ri_last_seen_at r))]"

definition list_recent_identities :: "int \<Rightarrow> web \<Rightarrow> recent_identity list result" where
  "list_recent_identities lim w =
     (if has_recent_db (web_users w) then list_recent lim (web_recent w) else Inr [])"

definition api_recent_users :: "int \<Rightarrow> user_session option \<Rightarrow> response web_prog" where
  "api_recent_users lim session w =
     (if \<not> is_admin_session session then (w, Inr (error_response 403 ''Admin role required''))
      else
        (case list_recent_identities lim w of
           Inl e \<Rightarrow> (w, Inl e)
         | Inr items \<Rightarrow> (w, Inr (Json 200 (PDict [(''items'', PList (map dump_recent_identity items))])))))"

definition api_user_logout :: "user_session option \<Rightarrow> response web_prog" where
  "api_user_logout session w =
     (case session of
        None \<Rightarrow> (w, Inr (Json 200 (PDict [(''ok'', PBool True)])))
      | Some s \<Rightarrow>
          (w\<lparr>web_users := revoke_session (Some (us_access_token s)) (web_users w)\<rparr>,
           Inr (Json 200 (PDict [(''ok'', PBool True)]))))"

text \<open>The tasks that record the identities of new sessions run after the request.\<close>

definition run_scheduled_record :: "int \<Rightarrow> web \<Rightarrow> web" where
  "run_scheduled_record now w =
     (case scheduled_records (web_users w) of
        [] \<Rightarrow> w
      | u # us \<Rightarrow>
          w\<lparr>web_users := (web_users w)\<lparr>scheduled_records := us\<rparr>,
            web_recent := fst (record_identity now u (web_recent w))\<rparr>)"

section \<open>Who may change and read the settings\<close>

lemma get_session_sound:
  assumes "get_session now tok us = (us', Some s)"
  shows "\<exists>t s0. tok = Some t \<and> (t, s0) \<in> set (sessions us) \<and> now < us_expires_at s0 \<and>
    us_user s = us_user s0 \<and> us_access_token s = us_access_token s0"
proof -
  obtain t where t: "tok = Some t" "t \<noteq> []"
    using assms by (auto simp: get_session_def Let_def split: option.splits if_splits)
  obtain s0 where s0: "map_of (sessions (purge_expired_sessions now us)) t = Some s0"
    and s: "s = s0\<lparr>us_last_seen_at := now\<rparr>"
    using assms t by (auto simp: get_session_def Let_def split: option.splits)
  have "(t, s0) \<in> set (sessions us) \<and> now < us_expires_at s0"
    using map_of_SomeD [OF s0] by (simp add: purge_expired_sessions_def)
  then show ?thesis using t s by auto
qed

lemma update_settings_not_admin:
  "\<not> is_admin_session session \<Longrightarrow>
   api_update_server_settings validate now env body session w = (w, Inr (error_response 403 ''Admin role required''))"
  by (simp add: api_update_server_settings_def)

text \<open>Property C20. Who may change the settings. Whatever the request and its body, if the settings route
  behind the authentication middleware changes anything of the settings, then the request carried a
  token of a session that is stored, has not expired, and belongs to a user with the role \<open>admin\<close>.\<close>

theorem settings_change_needs_admin:
  assumes "user_auth_middleware now rq (api_update_server_settings validate now env body) w = (w', r)"
    and "web_settings w' \<noteq> web_settings w"
  shows "\<exists>tok s. request_token rq = Some tok \<and> (tok, s) \<in> set (sessions (web_users w)) \<and>
    now < us_expires_at s \<and> ''admin'' \<in> set (u_roles (us_user s))"
proof -
  obtain us so where g: "get_session now (request_token rq) (web_users w) = (us, so)"
    by (cases "get_session now (request_token rq) (web_users w)")
  have na: "\<not> is_admin_session None" by (simp add: is_admin_session_def)
  note n = update_settings_not_admin
  have "\<not> (rq_method rq = ''OPTIONS'' \<or> \<not> starts_with ''/api'' (rq_path rq) \<or>
      is_public_user_api_path (rq_path rq))" (is "\<not> ?public")
  proof
    assume ?public
    then have "(w', r) = api_update_server_settings validate now env body None w"
      using assms(1) by (simp add: user_auth_middleware_def)
    then show False using assms(2) n [OF na, of validate now env body w] by simp
  qed
  then have m: "(w', r) = (case (us, so) of
       (us, None) \<Rightarrow> (w\<lparr>web_users := us\<rparr>, Inr (error_response 401 ''Unauthorized''))
     | (us, Some s) \<Rightarrow> api_update_server_settings validate now env body (Some s) (w\<lparr>web_users := us\<rparr>))"
    using assms(1) by (simp add: user_auth_middleware_def g)
  obtain s where s: "so = Some s" using m assms(2) by (cases so) auto
  have a: "is_admin_session (Some s)"
  proof (rule ccontr)
    assume "\<not> is_admin_session (Some s)"
    then show False using m assms(2) s n [of "Some s" validate now env body "w\<lparr>web_users := us\<rparr>"] by simp
  qed
  show ?thesis using get_session_sound [of now "request_token rq" "web_users w" us s] g s a
    by (fastforce simp: is_admin_session_def)
qed

definition with_client_secret :: "string \<Rightarrow> server_settings \<Rightarrow> server_settings" where
  "with_client_secret secret settings =
     settings\<lparr>ss_identity := (ss_identity settings)
       \<lparr>id_azure := (id_azure (ss_identity settings))\<lparr>az_client_secret := secret\<rparr>\<rparr>\<rparr>"

text \<open>The client secret never leaves the server. Two settings that differ only in a
  non-empty client secret give the same response of the settings routes.\<close>

theorem settings_response_hides_secret:
  assumes "strip secret1 \<noteq> []" and "strip secret2 \<noteq> []"
  shows "build_response_payload env (with_client_secret secret1 settings) =
    build_response_payload env (with_client_secret secret2 settings)"
  using assms
  by (simp add: with_client_secret_def build_response_payload_def dump_server_settings_def
      build_settings_response_identity_def local_bootstrap_available_def azure_is_active_def)

theorem settings_response_hides_secret_witness:
  "build_response_payload (\<lambda>_. None) (with_client_secret ''a'' default_server_settings) =
   build_response_payload (\<lambda>_. None) (with_client_secret ''b'' default_server_settings)"
  by (rule settings_response_hides_secret) code_simp+

text \<open>A change that has an identity part ignores its Guacamole part.\<close>

lemma settings_patch_drops_guacamole:
  assumes "ssp_identity body = Some requested"
  shows "api_update_server_settings validate now env (body\<lparr>ssp_guacamole := g\<rparr>) session w =
    api_update_server_settings validate now env (body\<lparr>ssp_guacamole := None\<rparr>) session w"
  by (simp add: api_update_server_settings_def assms Let_def cong: sum.case_cong)

section \<open>Recently seen users\<close>

lemma json_wf_strs: "json_wf (PList (map PStr xs))"
  by simp

lemma all_strings_map [simp]: "all_strings (map PStr xs) = Some xs"
  by (induction xs) simp_all

lemma load_dump_strings [simp]: "load_strings (dump_strings xs) = Inr xs"
proof -
  have "dump_strings xs \<noteq> []" by (simp add: dump_strings_def json_dumps_def)
  then show ?thesis by (simp add: load_strings_def dump_strings_def)
qed


lemma map_recent_insert_row:
  "map_recent_row (recent_insert_row now u) = Inr
     \<lparr>ri_subject = u_subject u, ri_username = u_username u, ri_display_name = u_display_name u,
      ri_email = u_email u, ri_avatar_url = u_avatar_url u, ri_avatar_initials = u_avatar_initials u,
      ri_auth_provider = u_auth_provider u, ri_roles = u_roles u, ri_group_ids = u_group_ids u,
      ri_group_names = u_group_names u, ri_last_seen_at = now\<rparr>"
  by (simp add: map_recent_row_def recent_insert_row_def)

definition recent_of :: "int \<Rightarrow> user_identity \<Rightarrow> recent_identity" where
  "recent_of now u =
     \<lparr>ri_subject = u_subject u, ri_username = u_username u, ri_display_name = u_display_name u,
      ri_email = u_email u, ri_avatar_url = u_avatar_url u, ri_avatar_initials = u_avatar_initials u,
      ri_auth_provider = u_auth_provider u, ri_roles = u_roles u, ri_group_ids = u_group_ids u,
      ri_group_names = u_group_names u, ri_last_seen_at = now\<rparr>"

text \<open>The rows after a history of recordings: one per subject, with what was last recorded for it.\<close>

definition last_record :: "(int \<times> user_identity) list \<Rightarrow> string \<Rightarrow> (int \<times> user_identity) option" where
  "last_record h subject = find (\<lambda>(t, u). u_subject u = subject) (rev h)"

definition run_records :: "(int \<times> user_identity) list \<Rightarrow> recent_db \<Rightarrow> recent_db" where
  "run_records h db = fold (\<lambda>(t, u) db. fst (record_identity t u db)) h db"

lemma rr_subject_insert [simp]: "rr_subject (recent_insert_row t u) = u_subject u"
  "rr_last_seen_at (recent_insert_row t u) = t"
  by (simp_all add: recent_insert_row_def)

lemma record_find:
  assumes "rdb_open db"
  shows "find (\<lambda>r. rr_subject r = s) (rdb_rows (fst (record_identity t u db))) =
    (if s = u_subject u then Some (recent_insert_row t u) else find (\<lambda>r. rr_subject r = s) (rdb_rows db))"
proof (cases "s = u_subject u")
  case True
  then show ?thesis using assms
    by (auto simp: record_identity_def Let_def find_update_where find_append find_eq_None_iff
        dest: find_eq_Some_in split: option.split)
next
  case False
  then show ?thesis using assms
    by (simp add: record_identity_def Let_def find_update_where_other find_append split: option.split)
qed

lemma record_rows:
  assumes "rdb_open db" and "distinct (map rr_subject (rdb_rows db))"
  shows "rdb_open (fst (record_identity t u db))"
    and "distinct (map rr_subject (rdb_rows (fst (record_identity t u db))))"
proof -
  have "map rr_subject (update_where (\<lambda>r. rr_subject r = u_subject u) (\<lambda>r. recent_insert_row t u) rows) =
      map rr_subject rows" for rows
    by (simp add: update_where_def)
  then show "rdb_open (fst (record_identity t u db))"
    "distinct (map rr_subject (rdb_rows (fst (record_identity t u db))))"
    using assms by (auto simp: record_identity_def Let_def)
qed

lemma run_records_rows:
  assumes "rdb_open db" and "rdb_rows db = []"
  shows "rdb_open (run_records h db) \<and> distinct (map rr_subject (rdb_rows (run_records h db))) \<and>
    (\<forall>s. find (\<lambda>r. rr_subject r = s) (rdb_rows (run_records h db)) =
       map_option (\<lambda>(t, u). recent_insert_row t u) (last_record h s))"
proof (induction h rule: rev_induct)
  case Nil
  then show ?case using assms by (simp add: run_records_def last_record_def)
next
  case (snoc x h)
  obtain t u where x: "x = (t, u)" by (cases x)
  have run: "run_records (h @ [x]) db = fst (record_identity t u (run_records h db))"
    by (simp add: run_records_def x)
  have last: "last_record (h @ [x]) s = (if s = u_subject u then Some (t, u) else last_record h s)" for s
    by (simp add: last_record_def x)
  show ?case using snoc record_rows [of "run_records h db" t u]
    by (simp add: run record_find last)
qed

lemma map_results_all:
  "(\<And>x. x \<in> set xs \<Longrightarrow> f x = Inr (g x)) \<Longrightarrow> map_results f xs = Inr (map g xs)"
  by (induction xs) simp_all

lemma find_distinct:
  "distinct (map k xs) \<Longrightarrow> x \<in> set xs \<Longrightarrow> find (\<lambda>r. k r = k x) xs = Some x"
  by (induction xs) auto

text \<open>The identity that a row stands for.\<close>

definition row_identity :: "recent_row \<Rightarrow> recent_identity" where
  "row_identity r = projr (map_recent_row r)"

lemma row_identity_insert: "row_identity (recent_insert_row t u) = recent_of t u"
  by (simp add: row_identity_def map_recent_insert_row recent_of_def)

text \<open>The recently seen users. After any history of recordings, \<open>list_recent\<close> never fails
  on its JSON columns; it returns at most one entry per subject, newest first, and each entry holds
  exactly what was recorded last for its subject; with a limit that covers the table, every subject
  recorded is listed.\<close>

theorem recent_users_round_trip:
  assumes "rdb_open db" and "rdb_rows db = []"
  shows "\<exists>items. list_recent lim (run_records h db) = Inr items \<and>
    sorted_wrt (\<lambda>a b. ri_last_seen_at b \<le> ri_last_seen_at a) items \<and> distinct (map ri_subject items) \<and>
    (\<forall>item\<in>set items. \<exists>t u. last_record h (ri_subject item) = Some (t, u) \<and> item = recent_of t u) \<and>
    (lim < 0 \<or> int (length (rdb_rows (run_records h db))) \<le> lim \<longrightarrow>
       (\<forall>s t u. last_record h s = Some (t, u) \<longrightarrow> recent_of t u \<in> set items))"
proof -
  let ?rows = "rdb_rows (run_records h db)"
  let ?sorted = "order_desc rr_last_seen_at ?rows"
  have o: "rdb_open (run_records h db)" and d: "distinct (map rr_subject ?rows)"
    and f: "\<And>s. find (\<lambda>r. rr_subject r = s) ?rows = map_option (\<lambda>(t, u). recent_insert_row t u) (last_record h s)"
    using run_records_rows [OF assms, of h] by auto
  have row: "\<exists>t u. r = recent_insert_row t u \<and> last_record h (rr_subject r) = Some (t, u)" if "r \<in> set ?rows" for r
    using find_distinct [OF d that] f [of "rr_subject r"] by auto
  have ri: "map_recent_row r = Inr (row_identity r) \<and> ri_subject (row_identity r) = rr_subject r \<and>
      ri_last_seen_at (row_identity r) = rr_last_seen_at r" if "r \<in> set ?rows" for r
    using row [OF that] by (auto simp: row_identity_insert map_recent_insert_row recent_of_def)
  have ts: "ri_last_seen_at (row_identity r) = rr_last_seen_at r" if "r \<in> set ?rows" for r
    using ri [OF that] by simp
  have sub: "set (limit lim ?sorted) \<subseteq> set ?rows" using set_limit_subset by fastforce
  let ?items = "map row_identity (limit lim ?sorted)"
  have l: "list_recent lim (run_records h db) = Inr ?items"
    using o sub ri by (auto simp: list_recent_def intro!: map_results_all)
  have "sorted_wrt (\<lambda>a b. rr_last_seen_at b \<le> rr_last_seen_at a) ?sorted"
    unfolding order_desc_def using sorted_sort_key [of "\<lambda>r. - rr_last_seen_at r" ?rows]
    by (simp add: sorted_map)
  then have "sorted_wrt (\<lambda>a b. rr_last_seen_at b \<le> rr_last_seen_at a) (limit lim ?sorted)"
    by (simp add: limit_def sorted_wrt_take)
  then have s: "sorted_wrt (\<lambda>a b. ri_last_seen_at b \<le> ri_last_seen_at a) ?items"
    unfolding sorted_wrt_map by (rule sorted_wrt_mono_rel [rotated]) (use sub ts in \<open>simp add: subset_iff\<close>)
  have "distinct (map rr_subject ?sorted)"
    using d by (simp add: order_desc_def distinct_map inj_on_def)
  then have "distinct (map rr_subject (limit lim ?sorted))"
    by (simp add: limit_def take_map [symmetric])
  moreover have "map ri_subject ?items = map rr_subject (limit lim ?sorted)"
    using sub ri by (auto simp: comp_def)
  ultimately have di: "distinct (map ri_subject ?items)" by (simp only:)
  have e: "\<exists>t u. last_record h (ri_subject item) = Some (t, u) \<and> item = recent_of t u"
    if "item \<in> set ?items" for item
    using that sub row ri by (force simp: row_identity_insert)
  have a: "recent_of t u \<in> set ?items"
    if "lim < 0 \<or> int (length ?rows) \<le> lim" "last_record h s = Some (t, u)" for s t u
  proof -
    have "limit lim ?sorted = ?sorted" using that(1) by (auto simp: limit_def order_desc_def)
    moreover have "recent_insert_row t u \<in> set ?rows"
      using f [of s] that(2) by (auto dest: find_eq_Some_in)
    ultimately show ?thesis by (force simp: row_identity_insert [symmetric])
  qed
  show ?thesis using l s di e a by blast
qed

theorem recent_users_round_trip_witness:
  "let db = run_records [(1, sample_user [''admin'']), (2, sample_user [''viewer''])] \<lparr>rdb_open = True, rdb_rows = []\<rparr>
   in \<exists>items. list_recent 100 db = Inr items \<and> distinct (map ri_subject items) \<and>
        recent_of 2 (sample_user [''viewer'']) \<in> set items"
proof -
  let ?h = "[(1, sample_user [''admin'']), (2, sample_user [''viewer''])]"
  let ?db = "\<lparr>rdb_open = True, rdb_rows = []\<rparr>"
  have "int (length (rdb_rows (run_records ?h ?db))) \<le> 100"
    by (simp add: run_records_def record_identity_def Let_def)
  moreover have "last_record ?h (u_subject (sample_user [''viewer''])) = Some (2, sample_user [''viewer''])"
    by (simp add: last_record_def)
  ultimately show ?thesis
    unfolding Let_def using recent_users_round_trip [of ?db 100 ?h] by fastforce
qed

definition admin_web :: web where
  "admin_web =
     \<lparr>web_users = (new_user_service False)\<lparr>sessions := [(''t'',
        \<lparr>us_access_token = ''t'', us_user = sample_user [''admin''], us_created_at = 0,
         us_expires_at = 900, us_last_seen_at = 0\<rparr>)]\<rparr>,
      web_settings = new_settings_service \<lparr>sdb_open = True, sdb_row = None\<rparr>,
      web_recent = \<lparr>rdb_open = True, rdb_rows = []\<rparr>\<rparr>"

definition admin_request :: request where
  "admin_request = \<lparr>rq_method = ''PATCH'', rq_path = ''/api/settings/server'',
     rq_authorization = Some ''Bearer t'', rq_query = (\<lambda>_. None)\<rparr>"

definition empty_identity_patch :: settings_patch where
  "empty_identity_patch = \<lparr>ssp_deployment = None, ssp_identity = Some
     \<lparr>idp_session_ttl_seconds = None, idp_access = None, idp_azure = None\<rparr>, ssp_guacamole = None\<rparr>"

theorem settings_change_needs_admin_witness:
  "\<exists>tok s. request_token admin_request = Some tok \<and> (tok, s) \<in> set (sessions (web_users admin_web)) \<and>
    (1::int) < us_expires_at s \<and> ''admin'' \<in> set (u_roles (us_user s))"
proof -
  let ?r = "user_auth_middleware 1 admin_request (api_update_server_settings
      (\<lambda>v. Inr default_server_settings) 1 (\<lambda>_. None) empty_identity_patch) admin_web"
  have t: "request_token admin_request = Some ''t''" by code_simp
  have p: "starts_with ''/api'' (rq_path admin_request)" "\<not> is_public_user_api_path (rq_path admin_request)"
    "rq_method admin_request \<noteq> ''OPTIONS''" by code_simp+
  have "sdb_row (set_store (web_settings (fst ?r))) \<noteq> sdb_row (set_store (web_settings admin_web))"
    by (simp add: user_auth_middleware_def t p get_session_def
        admin_web_def purge_expired_sessions_def new_user_service_def Let_def api_update_server_settings_def
        is_admin_session_def sample_user_def empty_identity_patch_def prepare_identity_patch_def respond_settings_def
        settings_replace_def settings_save_def new_settings_service_def)
  then have c: "web_settings (fst ?r) \<noteq> web_settings admin_web" by auto
  show ?thesis
    by (rule settings_change_needs_admin [OF _ c, where r = "snd ?r"]) simp
qed

end
