(* ===== verification/Agent_Sessions.thy ===== *)
theory Agent_Sessions
  imports Agent_Hub User_Service Web_Api
begin

text \<open>
  The sessions of agents and browsers on the sockets of the server: the handshake and the heartbeats
  (\<open>agents/lifecycle_handler.py\<close>), the loops that read a socket (\<open>network/agent_session.py\<close>,
  \<open>network/frontend_session.py\<close>), the endpoints \<open>/ws\<close> and \<open>/frontend\<close>, the background turns and the
  shutdown (\<open>server.py\<close>). One message is handled to its end before the next one; the clock readings of
  one handler are one argument. What the environment does - a socket that connects, sends, or dies - is
  the choice of a step of \<open>server_step\<close>.
\<close>

section \<open>Handlers on the hub\<close>

definition on_deploy :: "'a deploy_prog \<Rightarrow> (hub, 'a) prog" where
  "on_deploy m h = (let (d, r) = m (hu_deploy h) in (h\<lparr>hu_deploy := d\<rparr>, r))"

definition on_agents :: "(registry, 'a) prog \<Rightarrow> (hub, 'a) prog" where
  "on_agents m = on_deploy (on_registry m)"

definition on_live :: "(live, 'a) prog \<Rightarrow> (hub, 'a) prog" where
  "on_live m h = (let (l, r) = m (hu_live h) in (h\<lparr>hu_live := l\<rparr>, r))"

definition request_snapshot :: "hub \<Rightarrow> hub" where
  "request_snapshot h = h\<lparr>hu_snapshot := True\<rparr>"

definition closed_socket :: pyexc where
  "closed_socket = RuntimeError ''websocket is closed''"

definition send_text :: "ws \<Rightarrow> net_event \<Rightarrow> (hub, unit) prog" where
  "send_text s ev h =
     (if usable h s then (record_sent s (EventFrame ev) h, Inr ()) else (h, Inl closed_socket))"

definition close_ws :: "ws \<Rightarrow> (hub, unit) prog" where
  "close_ws s h =
     (if usable h s then (set_runtime (close_socket s (hu_runtime h)) h, Inr ()) else (h, Inl closed_socket))"

section \<open>Handshakes and heartbeats\<close>

text \<open>A candidate that is not a string has no \<open>strip\<close>.\<close>

definition names_match :: "string \<times> string \<Rightarrow> string \<times> string \<Rightarrow> bool" where
  "names_match e c \<longleftrightarrow> fst e \<in> {fst c, snd c} \<or> snd e \<in> {fst c, snd c}"

fun any_host_matches :: "string \<times> string \<Rightarrow> pyval list \<Rightarrow> bool result" where
  "any_host_matches e [] = Inr False"
| "any_host_matches e (v # vs) =
     (case v of
        PStr s \<Rightarrow>
          (let c = normalize_hostname_value s in
           if fst c = [] \<and> snd c = [] then any_host_matches e vs
           else if names_match e c then Inr True
           else any_host_matches e vs)
      | _ \<Rightarrow> Inl (AttributeError ''strip''))"

definition host_matches :: "string \<Rightarrow> pyval list \<Rightarrow> bool result" where
  "host_matches expected candidates =
     (let e = normalize_hostname_value expected in
      if fst e = [] \<and> snd e = [] then Inr True else any_host_matches e candidates)"

record agent_conn =
  ac_client_id :: "string option"
  ac_authenticated :: bool
  ac_token :: "string option"

definition new_conn :: "string option \<Rightarrow> agent_conn" where
  "new_conn token = \<lparr>ac_client_id = None, ac_authenticated = False, ac_token = token\<rparr>"

type_synonym 'a session_prog = "(hub \<times> agent_conn, 'a) prog"

definition on_hub :: "(hub, 'a) prog \<Rightarrow> 'a session_prog" where
  "on_hub m w = (let (h, r) = m (fst w) in ((h, snd w), r))"

definition bootstrap_expired_update :: "int \<Rightarrow> deployment_update" where
  "bootstrap_expired_update now = no_update\<lparr>du_status := Some ''expired_bootstrap'',
     du_error := Some ''Bootstrap token expired before the first successful agent start.'',
     du_completed_at := Some now\<rparr>"

definition note_expired_bootstrap :: "int \<Rightarrow> string \<Rightarrow> string \<Rightarrow> (hub, unit) prog" where
  "note_expired_bootstrap now agent_id reason =
     bindP (on_agents (ask (get_latest_deployment_for_agent agent_id))) (\<lambda>d.
       case d of
         None \<Rightarrow> retP ()
       | Some v \<Rightarrow>
           if reason \<noteq> ''bootstrap token expired'' then retP ()
           else bindP (on_agents (update_deployment (de_id v) (bootstrap_expired_update now))) (\<lambda>_.
             on_agents (upsert_agent now agent_id
               (no_upsert\<lparr>up_status := Some ''bootstrap_expired'', up_connection_status := Some ''offline'',
                  up_last_deployment_id := Some (de_id v), up_last_seen_at := Some now\<rparr>))))"

definition reject_handshake :: "ws \<Rightarrow> string \<Rightarrow> string \<Rightarrow> (hub, bool) prog" where
  "reject_handshake s agent_id reason =
     bindP (send_text s (AuthResultEv (default_auth_result
       \<lparr>ar_status := ''error'', ar_agent_id := agent_id, ar_reason := reason\<rparr>))) (\<lambda>_.
     bindP (close_ws s) (\<lambda>_. retP False))"

definition mismatch_upsert :: "int \<Rightarrow> string \<Rightarrow> agent_upsert" where
  "mismatch_upsert now expected = no_upsert\<lparr>up_hostname := expected, up_status := Some ''hostname_mismatch'',
     up_connection_status := Some ''offline'', up_last_seen_at := Some now\<rparr>"

definition note_wrong_host :: "int \<Rightarrow> string \<Rightarrow> string \<Rightarrow> string \<Rightarrow> (hub, unit) prog" where
  "note_wrong_host now agent_id expected shown =
     bindP (on_agents (ask (get_latest_deployment_for_agent agent_id))) (\<lambda>d.
     bindP (case d of
              None \<Rightarrow> retP ()
            | Some v \<Rightarrow> on_agents (update_deployment (de_id v) (no_update\<lparr>du_error := Some
                (''Agent attempted bootstrap from unexpected host '' @ [quote_char] @ shown @ [quote_char] @
                 ''. Expected '' @ [quote_char] @ expected @ [quote_char] @ ''.'')\<rparr>))) (\<lambda>_.
       on_agents (upsert_agent now agent_id (mismatch_upsert now expected))))"

definition online_upsert :: "int \<Rightarrow> agent_upsert" where
  "online_upsert now = no_upsert\<lparr>up_status := Some ''registered'', up_connection_status := Some ''online'',
     up_last_seen_at := Some now\<rparr>"

text \<open>What follows the acceptance: the token, the registration, the tracking of windows.\<close>

definition accept_handshake :: "int \<Rightarrow> ws \<Rightarrow> string \<Rightarrow> string option \<Rightarrow> (hub, bool) prog" where
  "accept_handshake now s agent_id issued =
     bindP (send_text s (AuthResultEv (default_auth_result
       \<lparr>ar_status := ''ok'', ar_agent_id := agent_id, ar_access_token := the_or issued [],
        ar_access_token_issued := the_or issued [] \<noteq> []\<rparr>))) (\<lambda>_.
     bindP (modP (\<lambda>h. set_runtime (register_agent now agent_id s (hu_runtime h)) h)) (\<lambda>_.
     bindP (on_agents (upsert_agent now agent_id (online_upsert now))) (\<lambda>_.
     bindP (modP (\<lambda>h. if members (hu_watchers h) agent_id \<noteq> []
                      then fst (set_agent_window_tracking now agent_id True h) else h)) (\<lambda>_.
     bindP (modP request_snapshot) (\<lambda>_. retP True)))))"

definition set_authenticated :: "string \<Rightarrow> unit session_prog" where
  "set_authenticated agent_id =
     modP (\<lambda>(h, c). (h, c\<lparr>ac_client_id := Some agent_id, ac_authenticated := True\<rparr>))"

definition handle_handshake ::
    "auth_ctx \<Rightarrow> int \<Rightarrow> string \<Rightarrow> ws \<Rightarrow> handshake_data \<Rightarrow> bool session_prog" where
  "handle_handshake ax now uuid s d w =
     (let agent_id = hs_client_id d; hostname = strip (hs_hostname d); fqdn = strip (hs_fqdn d) in
      bindP (on_hub (on_agents (authorize_agent ax now uuid agent_id (ac_token (snd w))))) (\<lambda>auth.
        case auth of
          Refused reason \<Rightarrow>
            on_hub (bindP (note_expired_bootstrap now agent_id reason) (\<lambda>_. reject_handshake s agent_id reason))
        | Authorized _ issued \<Rightarrow>
            bindP (on_hub (on_agents (ask (get_expected_hostname_for_agent agent_id)))) (\<lambda>expected.
            bindP (lift_result (if expected = [] then Inr True else host_matches expected [PStr hostname, PStr fqdn]))
              (\<lambda>ok.
               if \<not> ok
               then on_hub (bindP (note_wrong_host now agent_id expected (str_or fqdn hostname)) (\<lambda>_.
                      reject_handshake s agent_id
                        (''hostname mismatch: expected '' @ expected @ '', got '' @ str_or fqdn hostname)))
               else bindP (set_authenticated agent_id) (\<lambda>_.
                      on_hub (accept_handshake now s agent_id issued))))) w)"

text \<open>How SQLite stores a value bound to the column \<open>hostname\<close> of type text.\<close>

definition bind_text :: "pyval \<Rightarrow> string result" where
  "bind_text v =
     (if \<not> truthy v then Inr []
      else (case v of
              PStr t \<Rightarrow> Inr t
            | PInt n \<Rightarrow> Inr (str_int n)
            | PBool _ \<Rightarrow> Inr ''1''
            | _ \<Rightarrow> Inl (RuntimeError ''type is not supported'')))"

definition active_upsert :: "int \<Rightarrow> string \<Rightarrow> pydict \<Rightarrow> agent_upsert" where
  "active_upsert now hostname metrics = no_upsert\<lparr>up_hostname := hostname, up_status := Some ''active'',
     up_connection_status := Some ''online'', up_metadata := Some metrics, up_last_seen_at := Some now\<rparr>"

definition is_named :: "agent_conn \<Rightarrow> bool" where
  "is_named c \<longleftrightarrow> the_or (ac_client_id c) [] \<noteq> []"

definition client_id_of :: "agent_conn \<Rightarrow> string" where
  "client_id_of c = the_or (ac_client_id c) []"

definition handle_heartbeat :: "int \<Rightarrow> ws \<Rightarrow> heartbeat_data \<Rightarrow> agent_conn \<Rightarrow> (hub, bool) prog" where
  "handle_heartbeat now s d c =
     (if \<not> ac_authenticated c then bindP (close_ws s) (\<lambda>_. retP False)
      else
        bindP (on_live (merge_heartbeat now d)) (\<lambda>_.
          (let metrics = the_or (hb_system_metrics d) [];
               hostname = dget_or metrics ''hostname'' (PStr []);
               fqdn = dget_or metrics ''fqdn'' (PStr [])
           in
           if \<not> is_named c then bindP (modP request_snapshot) (\<lambda>_. retP True)
           else
             bindP (on_agents (ask (get_expected_hostname_for_agent (client_id_of c)))) (\<lambda>expected.
             bindP (lift_result (if expected = [] then Inr True else host_matches expected [hostname, fqdn])) (\<lambda>ok.
               if \<not> ok
               then bindP (on_agents (upsert_agent now (client_id_of c) (mismatch_upsert now expected))) (\<lambda>_.
                    bindP (close_ws s) (\<lambda>_. retP False))
               else
                 bindP (lift_result (if expected \<noteq> [] then Inr expected else bind_text hostname)) (\<lambda>host.
                 bindP (on_agents (upsert_agent now (client_id_of c) (active_upsert now host metrics))) (\<lambda>_.
                 bindP (modP request_snapshot) (\<lambda>_. retP True))))))))"

definition lifecycle_event_types :: "string list" where
  "lifecycle_event_types = [''handshake'', ''heartbeat'']"

definition handle_lifecycle :: "auth_ctx \<Rightarrow> int \<Rightarrow> string \<Rightarrow> ws \<Rightarrow> net_event \<Rightarrow> bool session_prog" where
  "handle_lifecycle ax now uuid s ev w =
     (if event_type ev = ''handshake''
      then (case ev of HandshakeEv d \<Rightarrow> handle_handshake ax now uuid s d w | _ \<Rightarrow> (w, Inr True))
      else if event_type ev = ''heartbeat''
      then (case ev of HeartbeatEv d \<Rightarrow> on_hub (handle_heartbeat now s d (snd w)) w | _ \<Rightarrow> (w, Inr True))
      else (w, Inr True))"

definition offline_upsert :: "int \<Rightarrow> agent_upsert" where
  "offline_upsert now = no_upsert\<lparr>up_status := Some ''registered'', up_connection_status := Some ''offline'',
     up_last_seen_at := Some now\<rparr>"

definition cleanup_connection :: "int \<Rightarrow> ws \<Rightarrow> agent_conn \<Rightarrow> (hub, bool) prog" where
  "cleanup_connection now s c =
     bindP (if is_named c then on_agents (upsert_agent now (client_id_of c) (offline_upsert now)) else retP ())
       (\<lambda>_ h. let (rt, b) = unregister_agent now (ac_client_id c) (Some s) (hu_runtime h)
               in (set_runtime rt h, Inr b))"

section \<open>The loop of an agent's socket\<close>

definition screenshot_message :: "string option \<Rightarrow> process_screenshot_data \<Rightarrow> pydict" where
  "screenshot_message client_id d =
     [(''type'', PStr ''process_screenshot''),
      (''agent_id'', PStr (str_or (ps_agent_id d) (ostr_or client_id []))),
      (''target_type'', PStr (ps_target_type d)), (''pid'', opt_int (ps_pid d)), (''hwnd'', opt_int (ps_hwnd d)),
      (''session_id'', opt_int (ps_session_id d)), (''request_id'', PStr (ps_request_id d)),
      (''status'', PStr (ps_status d)), (''image_base64'', opt_str (ps_image_base64 d)),
      (''image_format'', PStr (ps_image_format d)), (''window_title'', opt_str (ps_window_title d)),
      (''error'', opt_str (ps_error d)), (''captured_at'', opt_int (ps_captured_at d))]"

definition handle_screenshot :: "string option \<Rightarrow> net_event \<Rightarrow> (hub, bool) prog" where
  "handle_screenshot client_id ev h =
     (case ev of
        ProcessScreenshotEv d \<Rightarrow> (broadcast_process_screenshot (screenshot_message client_id d) h, Inr True)
      | _ \<Rightarrow> (h, Inr False))"

text \<open>\<open>_configure_task_handlers\<close>.\<close>

definition task_handlers :: "int \<Rightarrow> (string \<times> hub task_handler) list" where
  "task_handlers now =
     register_handler ''deployment'' (deployment_task_handler (\<lambda>t. on_deploy (dispatch_task now t)))
       (register_handler ''agent'' (agent_task_handler (send_to_agent now)) [])"

record session_ctx =
  sx_auth :: auth_ctx
  sx_validate :: "event_class \<Rightarrow> pydict \<Rightarrow> net_event result"

type_synonym agent_world = "hub svc \<times> agent_conn"

definition lifecycle_route ::
    "session_ctx \<Rightarrow> int \<Rightarrow> string \<Rightarrow> ws \<Rightarrow> net_event \<Rightarrow> (agent_world, bool) prog" where
  "lifecycle_route ctx now uuid s ev w =
     (let ((h, c), r) = handle_lifecycle (sx_auth ctx) now uuid s ev (sv_net (fst w), snd w)
      in (((fst w)\<lparr>sv_net := h\<rparr>, c), r))"

definition task_route :: "int \<Rightarrow> string \<Rightarrow> net_event \<Rightarrow> (agent_world, bool) prog" where
  "task_route now uuid ev w =
     (let (v, r) = handle_task_event (task_handlers now) broadcast_task_event now uuid
                     (ac_client_id (snd w)) ev (fst w)
      in ((v, snd w), r))"

definition screenshot_route :: "net_event \<Rightarrow> (agent_world, bool) prog" where
  "screenshot_route ev w =
     (let (v, r) = on_net (handle_screenshot (ac_client_id (snd w)) ev) (fst w) in ((v, snd w), r))"

definition agent_routes ::
    "session_ctx \<Rightarrow> int \<Rightarrow> string \<Rightarrow> ws \<Rightarrow> (net_event \<Rightarrow> (agent_world, bool) prog) routes" where
  "agent_routes ctx now uuid s =
     router_register [''process_screenshot''] screenshot_route
       (router_register task_event_types (task_route now uuid)
         (router_register lifecycle_event_types (lifecycle_route ctx now uuid s) []))"

datatype turn = Continue | Return | Become_Frontend pydict

text \<open>An authentication frame of a browser on the socket of agents.\<close>

definition frontend_frame :: "string \<Rightarrow> pydict option" where
  "frontend_frame msg =
     (case json_loads msg of
        Some (PDict p) \<Rightarrow>
          if dget p ''type'' = PStr ''auth'' \<and> truthy (dget p ''access_token'') then Some p else None
      | _ \<Rightarrow> None)"

definition agent_event :: "session_ctx \<Rightarrow> int \<Rightarrow> string \<Rightarrow> ws \<Rightarrow> net_event \<Rightarrow> agent_world \<Rightarrow> agent_world \<times> turn" where
  "agent_event ctx now uuid s ev w =
     (if event_type ev \<noteq> ''handshake'' \<and> \<not> ac_authenticated (snd w)
      then (let (v, r) = on_net (close_ws s) (fst w)
            in ((v, snd w), case r of Inl _ \<Rightarrow> Continue | Inr _ \<Rightarrow> Return))
      else
        (let (w', r) = router_dispatch (agent_routes ctx now uuid s) ev w
         in (w', case r of
                   Inl _ \<Rightarrow> Continue
                 | Inr handled \<Rightarrow>
                     if event_type ev \<in> set lifecycle_event_types \<and> \<not> handled then Return else Continue)))"

definition agent_receive :: "session_ctx \<Rightarrow> int \<Rightarrow> string \<Rightarrow> ws \<Rightarrow> string \<Rightarrow> agent_world \<Rightarrow> agent_world \<times> turn" where
  "agent_receive ctx now uuid s msg w =
     (case frontend_frame msg of
        Some p \<Rightarrow> (w, Become_Frontend p)
      | None \<Rightarrow>
          (case parse_event (sx_validate ctx) msg of
             Inl _ \<Rightarrow> (w, Continue)
           | Inr ev \<Rightarrow> agent_event ctx now uuid s ev w))"

section \<open>The server\<close>

text \<open>\<open>se_conns\<close> are the sockets whose agent loop runs, with its state, \<open>se_fronts\<close> those in the loop of a
  browser; a socket of both entered the second loop from the first.\<close>

record server =
  se_svc :: "hub svc"
  se_users :: user_service
  se_conns :: "(ws \<times> agent_conn) list"
  se_fronts :: "ws list"

abbreviation hub_of :: "server \<Rightarrow> hub" where
  "hub_of w \<equiv> sv_net (se_svc w)"

definition on_server :: "(hub, 'a) prog \<Rightarrow> (server, 'a) prog" where
  "on_server m w = (let (v, r) = on_net m (se_svc w) in (w\<lparr>se_svc := v\<rparr>, r))"

definition change_hub :: "(hub \<Rightarrow> hub) \<Rightarrow> server \<Rightarrow> server" where
  "change_hub f w = w\<lparr>se_svc := (se_svc w)\<lparr>sv_net := f (hub_of w)\<rparr>\<rparr>"

definition mark_dead :: "ws \<Rightarrow> hub \<Rightarrow> hub" where
  "mark_dead s h = h\<lparr>hu_dead := s # hu_dead h\<rparr>"

text \<open>The end of an agent's session: the \<open>finally\<close> part, then the socket is gone.\<close>

definition finish_agent :: "int \<Rightarrow> ws \<Rightarrow> agent_conn \<Rightarrow> hub \<Rightarrow> hub" where
  "finish_agent now s c h =
     (let (h1, r) = cleanup_connection now s c h
      in mark_dead s (if r = Inr True then request_snapshot h1 else h1))"

definition end_agent :: "int \<Rightarrow> ws \<Rightarrow> server \<Rightarrow> server" where
  "end_agent now s w =
     (case map_of (se_conns w) s of
        None \<Rightarrow> w
      | Some c \<Rightarrow> (change_hub (finish_agent now s c) w)\<lparr>se_conns := AList.delete s (se_conns w)\<rparr>)"

text \<open>The start of a browser's session, up to its loop.\<close>

definition start_frontend :: "ws \<Rightarrow> user_session \<Rightarrow> (hub, unit) prog" where
  "start_frontend s u =
     bindP (modP (\<lambda>h. h\<lparr>hu_sessions := AList.update s u (hu_sessions h)\<rparr>)) (\<lambda>_.
     bindP (send_json s [(''kind'', PStr ''auth_ok'')]) (\<lambda>_.
     bindP (modP (\<lambda>h. h\<lparr>hu_clients := List.insert s (hu_clients h),
                        hu_watched := AList.update s [] (hu_watched h)\<rparr>)) (\<lambda>_ h.
       if latest_stats (hu_runtime h) \<noteq> []
       then send_json s [(''kind'', PStr ''agents_snapshot''),
              (''data'', PDict (if websocket_has_agent_visibility (map_of (hu_sessions h) s)
                                then build_frontend_snapshot (hu_runtime h) else []))] h
       else (h, Inr ()))))"

definition open_frontend :: "int \<Rightarrow> ws \<Rightarrow> pydict \<Rightarrow> (server, bool) prog" where
  "open_frontend now s payload w =
     (let (us, found) = get_session now (Some (str_or_empty (dget payload ''access_token''))) (se_users w);
          w1 = w\<lparr>se_users := us\<rparr>
      in case found of
           None \<Rightarrow> bindP (on_server (close_ws s)) (\<lambda>_. retP False) w1
         | Some u \<Rightarrow> bindP (on_server (start_frontend s u)) (\<lambda>_. retP True) w1)"

definition finish_frontend :: "int \<Rightarrow> ws \<Rightarrow> hub \<Rightarrow> hub" where
  "finish_frontend now s h =
     (let h1 = remove_all_watchers now s h
      in h1\<lparr>hu_watched := AList.delete s (hu_watched h1), hu_clients := removeAll s (hu_clients h1)\<rparr>)"

definition end_frontend :: "int \<Rightarrow> ws \<Rightarrow> server \<Rightarrow> server" where
  "end_frontend now s w =
     (let w1 = (change_hub (finish_frontend now s) w)\<lparr>se_fronts := removeAll s (se_fronts w)\<rparr>
      in case map_of (se_conns w1) s of
           None \<Rightarrow> change_hub (mark_dead s) w1
         | Some _ \<Rightarrow> end_agent now s w1)"

definition enter_frontend :: "ws \<Rightarrow> server \<Rightarrow> server" where
  "enter_frontend s w = w\<lparr>se_fronts := List.insert s (se_fronts w)\<rparr>"

definition agent_turn :: "session_ctx \<Rightarrow> int \<Rightarrow> string \<Rightarrow> ws \<Rightarrow> string \<Rightarrow> server \<Rightarrow> server" where
  "agent_turn ctx now uuid s msg w =
     (case map_of (se_conns w) s of
        None \<Rightarrow> w
      | Some c \<Rightarrow>
          (let ((v, c'), t) = agent_receive ctx now uuid s msg (se_svc w, c);
               w1 = w\<lparr>se_svc := v, se_conns := AList.update s c' (se_conns w)\<rparr>
           in case t of
                Continue \<Rightarrow> w1
              | Return \<Rightarrow> end_agent now s w1
              | Become_Frontend p \<Rightarrow>
                  (case open_frontend now s p w1 of
                     (w2, Inl _) \<Rightarrow> w2
                   | (w2, Inr entered) \<Rightarrow> if entered then enter_frontend s w2 else end_agent now s w2)))"

text \<open>The messages of a browser. An event of these types that is not of their class has no \<open>agent_id\<close>.\<close>

definition watch_route :: "int \<Rightarrow> ws \<Rightarrow> net_event \<Rightarrow> (hub, bool) prog" where
  "watch_route now s ev h =
     (case ev of
        WatchProcessManagerEv d \<Rightarrow> (add_watcher now s (wp_agent_id d) h, Inr True)
      | UnwatchProcessManagerEv d \<Rightarrow> (remove_watcher now s (wp_agent_id d) h, Inr True)
      | _ \<Rightarrow> (h, Inl (AttributeError ''agent_id'')))"

definition frontend_routes :: "int \<Rightarrow> ws \<Rightarrow> (net_event \<Rightarrow> (hub, bool) prog) routes" where
  "frontend_routes now s =
     router_register [''watch_process_manager'', ''unwatch_process_manager''] (watch_route now s)
       (router_register command_event_types (handle_command now s) [])"

definition frontend_receive ::
    "(event_class \<Rightarrow> pydict \<Rightarrow> net_event result) \<Rightarrow> int \<Rightarrow> ws \<Rightarrow> string \<Rightarrow> (hub, bool) prog" where
  "frontend_receive validate now s msg =
     bindP (lift_result (parse_event validate msg)) (\<lambda>ev. router_dispatch (frontend_routes now s) ev)"

definition frontend_turn :: "session_ctx \<Rightarrow> int \<Rightarrow> ws \<Rightarrow> string \<Rightarrow> server \<Rightarrow> server" where
  "frontend_turn ctx now s msg w =
     (let (w1, r) = on_server (frontend_receive (sx_validate ctx) now s msg) w
      in case r of Inl _ \<Rightarrow> end_frontend now s w1 | Inr _ \<Rightarrow> w1)"

section \<open>The endpoints\<close>

definition server_hello :: net_event where
  "server_hello = HandshakeEv (default_handshake\<lparr>hs_client_id := ''server'', hs_capabilities := [''ws'']\<rparr>)"

definition websocket_endpoint :: "ws \<Rightarrow> string option \<Rightarrow> server \<Rightarrow> server" where
  "websocket_endpoint s header w =
     (case on_server (send_text s server_hello) w of
        (w1, Inl _) \<Rightarrow> w1
      | (w1, Inr _) \<Rightarrow>
          w1\<lparr>se_conns := AList.update s (new_conn (extract_bearer_token header)) (se_conns w1)\<rparr>)"

definition frontend_endpoint :: "int \<Rightarrow> ws \<Rightarrow> string \<Rightarrow> server \<Rightarrow> server" where
  "frontend_endpoint now s msg w =
     (case json_loads msg of
        Some (PDict p) \<Rightarrow>
          if dget p ''type'' = PStr ''auth''
          then (case open_frontend now s p w of
                  (w1, Inr entered) \<Rightarrow> if entered then enter_frontend s w1 else w1
                | (w1, Inl _) \<Rightarrow> w1)
          else fst (on_server (close_ws s) w)
      | _ \<Rightarrow> fst (on_server (close_ws s) w))"

text \<open>The heartbeat watchdog and the shutdown.\<close>

definition heartbeat_watchdog :: "int \<Rightarrow> hub \<Rightarrow> hub" where
  "heartbeat_watchdog now h =
     (let (rt, r) = heartbeat_watchdog_round now (hu_runtime h); h1 = set_runtime rt h
      in if r = Inr True then request_snapshot h1 else h1)"

definition close_frontend :: "int \<Rightarrow> ws \<Rightarrow> hub \<Rightarrow> hub" where
  "close_frontend now s h =
     (let h1 = fst (close_ws s (remove_all_watchers now s h))
      in h1\<lparr>hu_watched := AList.delete s (hu_watched h1), hu_clients := removeAll s (hu_clients h1)\<rparr>)"

definition shutdown_open_connections :: "int \<Rightarrow> hub \<Rightarrow> hub" where
  "shutdown_open_connections now h =
     (let h1 = fold (close_frontend now) (hu_clients h) h; h2 = h1\<lparr>hu_watchers := [], hu_watched := []\<rparr>
      in set_runtime (fst (close_all_connections now (hu_runtime h2))) h2)"

end
