(* ===== verification/Effects.thy ===== *)
theory Effects
  imports Task_Service
begin

text \<open>
  What a routine may do to the part of the state it works on, as a reflexive and transitive relation
  between the state before and after, whether the routine returns or raises; and the part of the server
  that the task service relies on, its transport, as an interface: the dispatch handlers and the
  broadcast to the browsers.
\<close>

section \<open>Effects of routines\<close>

definition effect :: "('s \<Rightarrow> 'h) \<Rightarrow> ('h \<Rightarrow> 'h \<Rightarrow> bool) \<Rightarrow> ('s, 'a) prog \<Rightarrow> bool" where
  "effect p R m \<longleftrightarrow> (\<forall>s. R (p s) (p (fst (m s))))"

named_theorems effects

lemma effectI: "(\<And>s. R (p s) (p (fst (m s)))) \<Longrightarrow> effect p R m"
  by (simp add: effect_def)

lemma effectD: "effect p R m \<Longrightarrow> R (p s) (p (fst (m s)))"
  by (simp add: effect_def)

locale effect_relation =
  fixes R :: "'h \<Rightarrow> 'h \<Rightarrow> bool"
  assumes refl: "R h h"
    and trans: "R h h1 \<Longrightarrow> R h1 h2 \<Longrightarrow> R h h2"
begin

lemma ret: "effect p R (retP x)"
  by (simp add: effect_def refl)

lemma raise: "effect p R (raiseP e)"
  by (simp add: effect_def refl)

lemma lift: "effect p R (lift_result r)"
  by (simp add: effect_def refl)

lemma bind:
  assumes "effect p R m" and "\<And>x. effect p R (f x)"
  shows "effect p R (bindP m f)"
proof (rule effectI)
  fix s
  obtain s1 r where m: "m s = (s1, r)" by (cases "m s")
  then have 1: "R (p s) (p s1)" using effectD [OF assms(1), of s] by simp
  show "R (p s) (p (fst (bindP m f s)))"
  proof (cases r)
    case (Inl e)
    then show ?thesis using m 1 by simp
  next
    case (Inr x)
    then show ?thesis using m trans [OF 1 effectD [OF assms(2)]] by simp
  qed
qed

lemma mod: "(\<And>s. R (p s) (p (f s))) \<Longrightarrow> effect p R (modP f)"
  by (simp add: effect_def)

lemma cond: "(b \<Longrightarrow> effect p R m) \<Longrightarrow> (\<not> b \<Longrightarrow> effect p R n) \<Longrightarrow> effect p R (if b then m else n)"
  by simp

lemma folding: "(\<And>x h. R h (f x h)) \<Longrightarrow> R h (fold f xs h)"
  by (induction xs arbitrary: h) (auto intro: refl trans)

lemmas routine = ret raise lift bind mod cond

end

section \<open>The transport of the task service\<close>

locale task_transport = effect_relation R
  for R :: "'n \<Rightarrow> 'n \<Rightarrow> bool" +
  fixes handlers :: "(string \<times> 'n task_handler) list"
    and broadcast :: "string \<Rightarrow> pydict \<Rightarrow> 'n \<Rightarrow> 'n"
  assumes handler: "map_of handlers k = Some run \<Longrightarrow> R n (fst (run t n))"
    and broadcast: "R n (broadcast i m n)"
begin

lemma dispatcher: "R n (fst (dispatcher_dispatch handlers t n))"
  by (auto simp: dispatcher_dispatch_def refl split: option.split dest: handler)

lemma task_store: "sv_net (on_db f w) = sv_net w" "sv_net (run_status now r s i w) = sv_net w"
    "sv_net (fst (service_create_task now t w)) = sv_net w"
  by (simp_all add: on_db_def run_status_def service_create_task_def split_beta)

lemma service_dispatch: "effect sv_net R (service_dispatch handlers now t actor)"
  unfolding service_dispatch_def
  by (rule bind) (auto simp: effect_def on_net_def split_beta task_store refl dispatcher split: option.split)

lemma create_and_dispatch: "effect sv_net R (create_and_dispatch handlers now t actor)"
  unfolding create_and_dispatch_def Let_def
  by (intro bind service_dispatch ret) (simp add: effect_def task_store refl)

lemma start_next_step: "effect sv_net R (start_next_step handlers now uuid run steps current)"
  unfolding start_next_step_def
  by (auto simp: task_store refl split: option.split intro!: routine create_and_dispatch)

lemma advance_pipeline: "effect sv_net R (advance_pipeline handlers now uuid i status)"
  unfolding advance_pipeline_def effect_def
  using effectD [OF start_next_step]
  by (auto simp: task_store refl split: option.split)

lemma handle_task_event: "effect sv_net R (handle_task_event handlers broadcast now uuid client_id ev)"
proof (rule effectI)
  fix w
  have "R (sv_net w) (sv_net (fst (handle_task_output broadcast ev w)))"
    by (simp add: handle_task_output_def Let_def task_store refl broadcast split: net_event.split)
  moreover have "R (sv_net w) (sv_net (fst (handle_task_status handlers broadcast now uuid client_id ev w)))"
  proof (cases ev)
    case (TaskStatusEv d)
    let ?w1 = "on_db (update_task_status now (tt_task_id d) (tt_status d) (tt_pid d) (tt_exit_code d)
       (tt_error d) (ostr_or client_id ''agent'')) w"
    let ?msg = "[(''type'', PStr ''task_status''), (''task_id'', PStr (tt_task_id d)),
       (''status'', PStr (tt_status d)), (''pid'', opt_int (tt_pid d)),
       (''exit_code'', opt_int (tt_exit_code d)), (''error'', opt_str (tt_error d))]"
    let ?w2 = "?w1\<lparr>sv_net := broadcast (tt_task_id d) ?msg (sv_net ?w1)\<rparr>"
    have 1: "R (sv_net w) (sv_net ?w2)" by (simp add: task_store broadcast)
    have "effect sv_net R (bindP (advance_pipeline handlers now uuid (tt_task_id d) (tt_status d)) (\<lambda>_. retP True))"
      by (intro bind advance_pipeline ret)
    then have "R (sv_net ?w2) (sv_net (fst (bindP (advance_pipeline handlers now uuid (tt_task_id d) (tt_status d))
        (\<lambda>_. retP True) ?w2)))" by (rule effectD)
    then have 2: "R (sv_net w) (sv_net (fst (bindP (advance_pipeline handlers now uuid (tt_task_id d) (tt_status d))
        (\<lambda>_. retP True) ?w2)))" by (rule trans [OF 1])
    show ?thesis
      unfolding TaskStatusEv handle_task_status_def net_event.case Let_def
      using 1 2 by (simp only: if_distrib [where f = fst] if_distrib [where f = sv_net] fst_conv split: if_split) simp
  qed (simp_all add: handle_task_status_def refl)
  ultimately show "R (sv_net w) (sv_net (fst (handle_task_event handlers broadcast now uuid client_id ev w)))"
    by (simp add: handle_task_event_def refl)
qed

end

end
