(* ===== verification/Server_Runs.thy ===== *)
theory Server_Runs
  imports Agent_Sessions Effects
begin

text \<open>
  The runs of the server: the steps that its environment can choose, what every handler needs of the
  operations on the sockets, stated as an interface, and the invariants of all runs.
\<close>

section \<open>Steps\<close>

abbreviation hub_registry :: "hub \<Rightarrow> registry" where
  "hub_registry h \<equiv> ds_registry (hu_deploy h)"

definition change_registry :: "reg_op \<Rightarrow> hub \<Rightarrow> hub" where
  "change_registry c h =
     h\<lparr>hu_deploy := (hu_deploy h)\<lparr>ds_registry := apply_reg_op c (hub_registry h)\<rparr>\<rparr>"

text \<open>The live part of the deletion of an agent (\<open>agent_runtime_router.py\<close>).\<close>

definition forget_agent :: "int \<Rightarrow> string \<Rightarrow> hub \<Rightarrow> hub" where
  "forget_agent now a h = set_runtime (remove_agent a (fst (timeout_agent now a (hu_runtime h)))) h"

definition connecting :: "ws \<Rightarrow> server \<Rightarrow> bool" where
  "connecting s w \<longleftrightarrow> usable (hub_of w) s \<and> map_of (se_conns w) s = None \<and> s \<notin> set (se_fronts w)"

inductive server_step :: "session_ctx \<Rightarrow> server \<Rightarrow> server \<Rightarrow> bool" for ctx where
  agent_connects: "connecting s w \<Longrightarrow> server_step ctx w (websocket_endpoint s header w)"
| agent_sends: "map_of (se_conns w) s = Some c \<Longrightarrow> s \<notin> set (se_fronts w) \<Longrightarrow>
    server_step ctx w (agent_turn ctx now uuid s msg w)"
| agent_leaves: "s \<notin> set (se_fronts w) \<Longrightarrow> \<not> usable (hub_of w) s \<Longrightarrow> server_step ctx w (end_agent now s w)"
| browser_connects: "connecting s w \<Longrightarrow> server_step ctx w (frontend_endpoint now s msg w)"
| browser_sends: "s \<in> set (se_fronts w) \<Longrightarrow> server_step ctx w (frontend_turn ctx now s msg w)"
| browser_leaves: "s \<in> set (se_fronts w) \<Longrightarrow> \<not> usable (hub_of w) s \<Longrightarrow>
    server_step ctx w (end_frontend now s w)"
| socket_dies: "server_step ctx w (change_hub (mark_dead s) w)"
| agents_time_out: "server_step ctx w (change_hub (heartbeat_watchdog now) w)"
| snapshot_is_sent: "server_step ctx w (change_hub snapshot_turn w)"
| telemetry_runs: "server_step ctx w (change_hub (\<lambda>h. h\<lparr>hu_live := (fst (hu_live h), t)\<rparr>) w)"
| task_is_submitted: "server_step ctx w (w\<lparr>se_svc := fst (create_and_dispatch (task_handlers now) now t actor (se_svc w))\<rparr>)"
| task_store_changes: "server_step ctx w (w\<lparr>se_svc := on_db f (se_svc w)\<rparr>)"
| registry_changes: "c \<notin> {RStart, RStop} \<Longrightarrow> server_step ctx w (change_hub (change_registry c) w)"
| agent_is_deleted: "server_step ctx w (change_hub (forget_agent now a) w)"
| users_change: "server_step ctx w (w\<lparr>se_users := apply_session_op c (se_users w)\<rparr>)"
| server_stops: "server_step ctx w (change_hub (shutdown_open_connections now) w)"

inductive_cases server_stepE: "server_step ctx w w'"

definition init_hub :: "registry \<Rightarrow> hub" where
  "init_hub db = \<lparr>hu_live = live_init,
     hu_deploy = \<lparr>ds_registry = db, ds_files = [], ds_running = [], ds_pending = []\<rparr>,
     hu_clients = [], hu_watchers = [], hu_watched = [], hu_sessions = [], hu_snapshot = False,
     hu_sent = [], hu_dead = []\<rparr>"

definition starting :: "server \<Rightarrow> bool" where
  "starting w \<longleftrightarrow> (\<exists>db. live_registry db \<and> hub_of w = init_hub db) \<and> se_conns w = [] \<and> se_fronts w = []"

inductive reachable :: "session_ctx \<Rightarrow> server \<Rightarrow> bool" for ctx where
  start: "starting w \<Longrightarrow> reachable ctx w"
| step: "reachable ctx w \<Longrightarrow> server_step ctx w w' \<Longrightarrow> reachable ctx w'"

section \<open>The registry stays live\<close>

lemma exec_stmt_conn: "(\<And>d. reg_conn (f d) = reg_conn d) \<Longrightarrow> reg_conn (fst (exec_stmt f db)) = reg_conn db"
  by (simp add: exec_stmt_def)

lemma with_db_conn:
  "(\<And>d. reg_conn (fst (m d)) = reg_conn d) \<Longrightarrow> reg_conn (fst (with_db x m db)) = reg_conn db"
  by (simp add: with_db_def split: conn.split)

lemma bind_conn:
  "reg_conn (fst (m db)) = reg_conn db \<Longrightarrow> (\<And>x d. reg_conn (fst (f x d)) = reg_conn d) \<Longrightarrow>
   reg_conn (fst (bindP m f db)) = reg_conn db"
  by (cases "m db"; cases "snd (m db)") auto

lemma upsert_agent_conn [simp]: "reg_conn (fst (upsert_agent now i up db)) = reg_conn db"
  unfolding upsert_agent_def Let_def by (rule with_db_conn, rule exec_stmt_conn) simp

lemma update_deployment_conn [simp]: "reg_conn (fst (update_deployment d u db)) = reg_conn db"
  unfolding update_deployment_def Let_def by (rule with_db_conn) (simp add: exec_stmt_conn)

lemma update_credentials_conn [simp]: "reg_conn (fst (update_credentials i f db)) = reg_conn db"
  unfolding update_credentials_def by (rule exec_stmt_conn) simp

lemma mark_bootstrap_used_conn [simp]: "reg_conn (fst (mark_bootstrap_used now c db)) = reg_conn db"
  by (simp add: mark_bootstrap_used_def)

lemma issue_next_token_conn [simp]: "reg_conn (fst (issue_next_token ax now uuid c v m db)) = reg_conn db"
  unfolding issue_next_token_def by (auto intro!: bind_conn split: sum.split)

lemma authorize_jwt_conn [simp]: "reg_conn (fst (authorize_jwt ax now uuid i c t db)) = reg_conn db"
  unfolding authorize_jwt_def by (simp add: bind_conn split: sum.split pyexc.split)

lemma authorize_opaque_conn [simp]: "reg_conn (fst (authorize_opaque ax now uuid c t db)) = reg_conn db"
  unfolding authorize_opaque_def by (simp add: bind_conn)

lemma authorize_agent_conn [simp]: "reg_conn (fst (authorize_agent ax now uuid i t db)) = reg_conn db"
  unfolding authorize_agent_def by (simp split: sum.split option.split)

lemma registry_ops_conn [simp]:
  "reg_conn (fst (delete_agent i db)) = reg_conn db"
  "reg_conn (fst (set_bootstrap_token now i h e db)) = reg_conn db"
  "reg_conn (fst (rotate_agent_token_version now i db)) = reg_conn db"
  "reg_conn (fst (create_deployment now now' d i h r tk rel m db)) = reg_conn db"
  "reg_conn (fst (upsert_release_from_source now u src db)) = reg_conn db"
  "reg_conn (fst (create_update_job now u q db)) = reg_conn db"
  "reg_conn (fst (update_update_job j ju db)) = reg_conn db"
  unfolding delete_agent_def set_bootstrap_token_def rotate_agent_token_version_def create_deployment_def
    upsert_release_from_source_def create_update_job_def update_update_job_def Let_def
  by (rule with_db_conn; auto intro!: bind_conn exec_stmt_conn split: option.split)+

lemma apply_reg_op_conn: "c \<notin> {RStart, RStop} \<Longrightarrow> reg_conn (apply_reg_op c db) = reg_conn db"
  by (cases c) simp_all

lemma live_registry_ops:
  "live_registry db \<Longrightarrow> live_registry (fst (upsert_agent now i up db))"
  "live_registry db \<Longrightarrow> live_registry (fst (update_deployment d u db))"
  "live_registry db \<Longrightarrow> live_registry (fst (authorize_agent ax now uuid i t db))"
  "live_registry db \<Longrightarrow> c \<notin> {RStart, RStop} \<Longrightarrow> live_registry (apply_reg_op c db)"
  "live_registry db \<Longrightarrow> live_registry (fst (ask q db))"
  using apply_reg_op_conn [of c db] apply_reg_op_ok [of db c]
  by (auto simp: live_registry_def upsert_agent_conn update_deployment_conn authorize_agent_conn
      upsert_agent_ok update_deployment_ok authorize_agent_ok ask_def)

lemma upsert_live:
  "live_registry db \<Longrightarrow> up_last_deployment_id up = None \<Longrightarrow> snd (upsert_agent now i up db) = Inr ()"
  using upsert_agent_live [of db up now i] by (auto simp: opt_in_def)

section \<open>The contract of the sockets\<close>

text \<open>
  What the handlers use of the hub, each operation as a whole. \<open>R\<close> relates the hub before and after,
  \<open>F\<close> are the sockets that browsers may act on; the registry of the server is live.
\<close>

definition plain_answer :: "net_event \<Rightarrow> bool" where
  "plain_answer ev \<longleftrightarrow> ev = server_hello \<or> (\<exists>d. ev = AuthResultEv d \<and> ar_status d \<noteq> ''ok'')"

locale hub_contract = effect_relation R for R :: "hub \<Rightarrow> hub \<Rightarrow> bool" +
  fixes F :: "ws set"
  assumes deploying: "R h (h\<lparr>hu_deploy := d\<rparr>)"
    and sending: "event_type ev \<noteq> ''set_window_tracking'' \<Longrightarrow> event_type ev \<noteq> ''auth_result'' \<Longrightarrow>
      R h (fst (send_to_agent now a ev h))"
    and answering: "plain_answer ev \<Longrightarrow> R h (fst (send_text s ev h))"
    and accepting: "live_registry (hub_registry h) \<Longrightarrow> R h (fst (accept_handshake now s a issued h))"
    and closing: "R h (fst (close_ws s h))"
    and merging: "R h (fst (on_live (merge_heartbeat now d') h))"
    and requesting: "R h (request_snapshot h)"
    and showing: "R h (broadcast_visible k m h)"
    and refreshing: "R h (snapshot_turn h)"
    and refusing: "R h (fst (reject_frontend_command s r ty h))"
    and starting_browser: "members (hu_watched h) s = [] \<Longrightarrow> R h (fst (start_frontend s u h))"
    and watching: "s \<in> F \<Longrightarrow> R h (add_watcher now s a h)"
    and unwatching: "R h (remove_watcher now s a h)"
    and leaving: "R h (finish_frontend now s h)"
    and ending: "R h (finish_agent now s c h)"
    and dying: "R h (mark_dead s h)"
    and timing_out: "R h (heartbeat_watchdog now h)"
    and recording: "R h (h\<lparr>hu_live := (fst (hu_live h), tel)\<rparr>)"
    and forgetting: "R h (forget_agent now a h)"
    and stopping: "R h (shutdown_open_connections now h)"

definition live_effect :: "(hub \<Rightarrow> hub \<Rightarrow> bool) \<Rightarrow> hub \<Rightarrow> hub \<Rightarrow> bool" where
  "live_effect R h h' \<longleftrightarrow>
     (live_registry (hub_registry h) \<longrightarrow> live_registry (hub_registry h') \<and> R h h')"

sublocale hub_contract \<subseteq> lv: effect_relation "live_effect R"
  by unfold_locales (auto simp: live_effect_def intro: refl trans)

lemma deploy_of_small_ops [simp]:
  "hu_deploy (fst (send_to_agent now a ev h)) = hu_deploy h"
  "hu_deploy (fst (set_agent_window_tracking now a b h)) = hu_deploy h"
  "hu_deploy (fst (send_text s ev h)) = hu_deploy h"
  "hu_deploy (fst (close_ws s h)) = hu_deploy h"
  "hu_deploy (fst (on_live m h)) = hu_deploy h"
  "hu_deploy (request_snapshot h) = hu_deploy h"
  "hu_deploy (send_client s msg h) = hu_deploy h"
  "hu_deploy (fst (send_json s msg h)) = hu_deploy h"
  "hu_deploy (fst (reject_frontend_command s r ty h)) = hu_deploy h"
  "hu_deploy (mark_dead s h) = hu_deploy h"
  "hu_deploy (forget_agent now a h) = hu_deploy h"
  "hu_deploy (set_runtime rt h) = hu_deploy h"
  by (simp_all add: send_to_agent_def set_agent_window_tracking_def send_text_def close_ws_def on_live_def
      request_snapshot_def send_client_def drop_client_def send_json_def reject_frontend_command_def mark_dead_def
      forget_agent_def set_runtime_def record_sent_def split_beta split: option.split)

lemma fold_deploy:
  "(\<And>x h. hu_deploy (f x h) = hu_deploy h) \<Longrightarrow> hu_deploy (fold f xs h) = hu_deploy h"
  by (induction xs arbitrary: h) simp_all

lemma deploy_of_ops [simp]:
  "hu_deploy (broadcast_visible k m h) = hu_deploy h"
  "hu_deploy (broadcast_to_frontends v h) = hu_deploy h"
  "hu_deploy (snapshot_turn h) = hu_deploy h"
  "hu_deploy (fst (start_frontend s u h)) = hu_deploy h"
  "hu_deploy (add_watcher now s a h) = hu_deploy h"
  "hu_deploy (remove_watcher now s a h) = hu_deploy h"
  "hu_deploy (remove_all_watchers now s h) = hu_deploy h"
  "hu_deploy (finish_frontend now s h) = hu_deploy h"
  "hu_deploy (heartbeat_watchdog now h) = hu_deploy h"
  "hu_deploy (shutdown_open_connections now h) = hu_deploy h"
proof -
  have b: "hu_deploy (broadcast_visible k m h) = hu_deploy h" "hu_deploy (broadcast_to_frontends v h) = hu_deploy h"
    for k m v h
    by (auto simp: broadcast_visible_def broadcast_to_frontends_def intro!: fold_deploy)
  show "hu_deploy (broadcast_visible k m h) = hu_deploy h" "hu_deploy (broadcast_to_frontends v h) = hu_deploy h"
    by (rule b)+
  show "hu_deploy (snapshot_turn h) = hu_deploy h" by (simp add: snapshot_turn_def Let_def b)
  show "hu_deploy (fst (start_frontend s u h)) = hu_deploy h"
    by (simp add: start_frontend_def send_json_def record_sent_def bindP_def split_beta)
  show "hu_deploy (add_watcher now s a h) = hu_deploy h" by (simp add: add_watcher_def Let_def)
  show r: "hu_deploy (remove_watcher now s a h) = hu_deploy h" for s a h
    by (simp add: remove_watcher_def Let_def split: option.split)
  show ra: "hu_deploy (remove_all_watchers now s h) = hu_deploy h" for s h
    unfolding remove_all_watchers_def by (rule fold_deploy) (rule r)
  show "hu_deploy (finish_frontend now s h) = hu_deploy h" by (simp add: finish_frontend_def Let_def ra)
  show "hu_deploy (heartbeat_watchdog now h) = hu_deploy h" by (simp add: heartbeat_watchdog_def split_beta Let_def)
  have "hu_deploy (close_frontend now s h) = hu_deploy h" for s h by (simp add: close_frontend_def Let_def ra)
  then show "hu_deploy (shutdown_open_connections now h) = hu_deploy h"
    by (simp add: shutdown_open_connections_def Let_def fold_deploy)
qed

section \<open>Handlers keep the contract\<close>

interpretation lt: effect_relation "live_effect (\<lambda>_ _. True)"
  by unfold_locales (auto simp: live_effect_def)

lemma on_agents_live:
  "(\<And>db. live_registry db \<Longrightarrow> live_registry (fst (m db))) \<Longrightarrow> effect id (live_effect (\<lambda>_ _. True)) (on_agents m)"
  by (rule effectI) (simp add: on_agents_def on_deploy_def on_registry_def split_beta live_effect_def)

lemma accept_live:
  "live_registry (hub_registry h) \<Longrightarrow> live_registry (hub_registry (fst (accept_handshake now s a issued h)))"
proof -
  have "effect id (live_effect (\<lambda>_ _. True)) (accept_handshake now s a issued)"
    unfolding accept_handshake_def
    by (intro lt.bind lt.mod lt.ret on_agents_live live_registry_ops; simp add: effect_def live_effect_def)
  then show "live_registry (hub_registry h) \<Longrightarrow> ?thesis" by (simp add: effect_def live_effect_def)
qed

context hub_contract
begin

lemma live_stepI: "hu_deploy h' = hu_deploy h \<Longrightarrow> R h h' \<Longrightarrow> live_effect R h h'"
  by (simp add: live_effect_def)

lemma deploy_step:
  "(live_registry (hub_registry h) \<Longrightarrow> live_registry (ds_registry d)) \<Longrightarrow> live_effect R h (h\<lparr>hu_deploy := d\<rparr>)"
  by (simp add: live_effect_def deploying)

lemma agents_step:
  "(\<And>db. live_registry db \<Longrightarrow> live_registry (fst (m db))) \<Longrightarrow> effect id (live_effect R) (on_agents m)"
  by (rule effectI) (simp add: on_agents_def on_deploy_def on_registry_def split_beta deploy_step)

lemma agent_ops:
  "effect id (live_effect R) (on_agents (upsert_agent now a up))"
  "effect id (live_effect R) (on_agents (update_deployment d u))"
  "effect id (live_effect R) (on_agents (authorize_agent ax now uuid a tok))"
  "effect id (live_effect R) (on_agents (ask q))"
  by (rule agents_step, simp add: live_registry_ops)+

lemma socket_ops:
  "effect id (live_effect R) (close_ws s)"
  "effect id (live_effect R) (on_live (merge_heartbeat now hb))"
  "effect id (live_effect R) (modP request_snapshot)"
  "effect id (live_effect R) (reject_frontend_command s r ty)"
  "plain_answer ev \<Longrightarrow> effect id (live_effect R) (send_text s ev)"
  by (auto intro!: effectI live_stepI closing merging requesting refusing answering)

lemma reject_step: "effect id (live_effect R) (reject_handshake s a reason)"
  unfolding reject_handshake_def
  by (intro lv.bind lv.ret socket_ops) (simp add: plain_answer_def default_auth_result_def)

lemma note_expired_step: "effect id (live_effect R) (note_expired_bootstrap now a reason)"
  unfolding note_expired_bootstrap_def
  by (rule lv.bind, rule agent_ops) (auto intro!: lv.routine agent_ops split: option.split)

lemma note_wrong_host_step: "effect id (live_effect R) (note_wrong_host now a e shown)"
  unfolding note_wrong_host_def
  by (rule lv.bind, rule agent_ops) (auto intro!: lv.routine agent_ops split: option.split)

lemma accept_step: "effect id (live_effect R) (accept_handshake now s a issued)"
  by (rule effectI) (simp add: live_effect_def accept_live accepting)

lemma authorization_cases:
  "(\<And>m i. effect p R' (f m i)) \<Longrightarrow> (\<And>r. effect p R' (g r)) \<Longrightarrow>
   effect p R' (case a of Authorized m i \<Rightarrow> f m i | Refused r \<Rightarrow> g r)"
  by (cases a) simp_all

lemma on_hub_step: "effect id (live_effect R) m \<Longrightarrow> effect fst (live_effect R) (on_hub m)"
  by (simp add: effect_def on_hub_def split_beta)

lemma authenticated_step: "effect fst (live_effect R) (set_authenticated a)"
  by (simp add: effect_def set_authenticated_def split_beta lv.refl)

lemma handshake_step: "effect fst (live_effect R) (handle_handshake ax now uuid s d)"
proof (rule effectI)
  fix w :: "hub \<times> agent_conn"
  show "live_effect R (fst w) (fst (fst (handle_handshake ax now uuid s d w)))"
    unfolding handle_handshake_def Let_def
    by (rule effectD [where p = fst and R = "live_effect R"]) (intro lv.bind lv.lift lv.cond authorization_cases on_hub_step agent_ops
        note_expired_step note_wrong_host_step reject_step accept_step authenticated_step)
qed

lemma heartbeat_step: "effect id (live_effect R) (handle_heartbeat now s d c)"
  unfolding handle_heartbeat_def Let_def
  by (intro lv.cond lv.ret lv.lift lv.bind agent_ops socket_ops)

lemma lifecycle_step: "effect fst (live_effect R) (handle_lifecycle ax now uuid s ev)"
  using effectD [OF handshake_step] effectD [OF on_hub_step [OF heartbeat_step]]
  by (auto simp: effect_def handle_lifecycle_def lv.refl split: net_event.split)

end

interpretation lr: effect_relation "\<lambda>a b. live_registry a \<longrightarrow> live_registry b"
  by unfold_locales auto

lemma on_registry_live:
  "(\<And>db. live_registry db \<Longrightarrow> live_registry (fst (m db))) \<Longrightarrow>
   effect ds_registry (\<lambda>a b. live_registry a \<longrightarrow> live_registry b) (on_registry m)"
  by (simp add: effect_def on_registry_def split_beta)

lemma dispatch_live: "effect ds_registry (\<lambda>a b. live_registry a \<longrightarrow> live_registry b) (dispatch_task now t)"
  unfolding dispatch_task_def Let_def
  by (intro lr.cond lr.ret lr.bind lr.lift on_registry_live lr.mod live_registry_ops) simp_all

context hub_contract
begin

lemma on_deploy_step:
  "effect ds_registry (\<lambda>a b. live_registry a \<longrightarrow> live_registry b) m \<Longrightarrow> effect id (live_effect R) (on_deploy m)"
  by (rule effectI) (simp add: on_deploy_def split_beta effect_def deploy_step)

lemma agent_task_step: "effect id (live_effect R) (agent_task_handler (send_to_agent now) t)"
proof -
  have "effect id (live_effect R) (\<lambda>n. let (n', sent) = send_to_agent now a (execute_event ts ex) n in (n', Inr (f sent)))"
    for a ts ex and f :: "bool \<Rightarrow> dispatch_result"
    by (rule effectI) (simp add: split_beta live_stepI sending execute_event_def)
  then show ?thesis unfolding agent_task_handler_def by (intro lv.bind lv.lift)
qed

lemma deployment_task_step: "effect id (live_effect R) (deployment_task_handler (\<lambda>t. on_deploy (dispatch_task now t)) t)"
  unfolding deployment_task_handler_def by (intro lv.bind lv.lift on_deploy_step dispatch_live)

lemma task_handler_step:
  assumes "map_of (task_handlers now) k = Some run"
  shows "live_effect R h (fst (run t h))"
proof -
  have "run = agent_task_handler (send_to_agent now) \<or>
      run = deployment_task_handler (\<lambda>t. on_deploy (dispatch_task now t))"
    using assms by (auto simp: task_handlers_def register_handler_def split: if_splits)
  then show ?thesis
    using effectD [OF agent_task_step, of h now t] effectD [OF deployment_task_step, of h now t] by auto
qed

end

sublocale hub_contract \<subseteq> tt: task_transport "live_effect R" "task_handlers now" broadcast_task_event for now
  by unfold_locales (auto intro: task_handler_step live_stepI showing simp: broadcast_task_event_def)

context hub_contract
begin

lemma on_net_step: "effect id (live_effect R) m \<Longrightarrow> effect sv_net (live_effect R) (on_net m)"
  by (simp add: effect_def on_net_def split_beta)

lemma route_steps:
  "effect (sv_net \<circ> fst) (live_effect R) (lifecycle_route ctx now uuid s ev)"
  "effect (sv_net \<circ> fst) (live_effect R) (task_route now uuid ev)"
  "effect (sv_net \<circ> fst) (live_effect R) (screenshot_route ev)"
  using effectD [OF lifecycle_step] effectD [OF tt.handle_task_event]
  by (auto simp: effect_def lifecycle_route_def task_route_def screenshot_route_def handle_screenshot_def
      on_net_def split_beta lv.refl broadcast_process_screenshot_def live_stepI showing split: net_event.split)

lemma dispatch_step:
  assumes "\<And>f. f \<in> ran (map_of routes) \<Longrightarrow> effect p (live_effect R) (f ev)"
  shows "effect p (live_effect R) (router_dispatch routes ev)"
  using assms by (auto simp: effect_def router_dispatch_def lv.refl ran_def split: option.split)

lemma agent_event_step:
  "live_effect R (sv_net (fst w)) (sv_net (fst (fst (agent_event ctx now uuid s ev w))))"
proof -
  have "f \<in> {screenshot_route, task_route now uuid, lifecycle_route ctx now uuid s}"
    if "f \<in> ran (map_of (agent_routes ctx now uuid s))" for f
    using that by (auto simp: agent_routes_def ran_def split: if_splits)
  then have "effect (sv_net \<circ> fst) (live_effect R) (router_dispatch (agent_routes ctx now uuid s) ev)"
    using route_steps by (intro dispatch_step) blast
  note 1 = effectD [OF this, of w] and 2 = effectD [OF on_net_step [OF socket_ops(1)], of "fst w" s]
  show ?thesis using 1 2 by (simp add: agent_event_def split_beta)
qed

lemma agent_receive_step:
  "live_effect R (sv_net (fst w)) (sv_net (fst (fst (agent_receive ctx now uuid s msg w))))"
  by (simp add: agent_receive_def agent_event_step lv.refl split: option.split sum.split)

end

lemma finish_agent_live:
  assumes "live_registry (hub_registry h)"
  shows "live_registry (hub_registry (finish_agent now s c h))"
proof -
  have "effect id (live_effect (\<lambda>_ _. True)) (cleanup_connection now s c)"
    unfolding cleanup_connection_def
    by (intro lt.bind lt.cond lt.ret on_agents_live live_registry_ops)
      (simp_all add: effect_def live_effect_def split_beta)
  then have "live_registry (hub_registry (fst (cleanup_connection now s c h)))"
    using assms by (simp add: effect_def live_effect_def)
  then show ?thesis by (simp add: finish_agent_def split_beta)
qed

lemma server_simps [simp]:
  "hub_of (change_hub f w) = f (hub_of w)"
  "se_fronts (change_hub f w) = se_fronts w" "se_conns (change_hub f w) = se_conns w"
  "se_fronts (fst (on_server m w)) = se_fronts w" "se_conns (fst (on_server m w)) = se_conns w"
  "hub_of (enter_frontend s w) = hub_of w" "se_conns (enter_frontend s w) = se_conns w"
  "hub_of (fst (on_server m w)) = fst (m (hub_of w))" "snd (on_server m w) = snd (m (hub_of w))"
  by (simp_all add: change_hub_def on_server_def enter_frontend_def on_net_def split_beta)

context hub_contract
begin

lemma end_agent_step: "live_effect R (hub_of w) (hub_of (end_agent now s w))"
  by (simp add: end_agent_def refl live_effect_def finish_agent_live ending split: option.split)

lemma open_frontend_step:
  assumes "members (hu_watched (hub_of w)) s = []"
  shows "live_effect R (hub_of w) (hub_of (fst (open_frontend now s p w)))"
proof -
  have c: "live_effect R (hub_of w) (fst (close_ws s (hub_of w)))"
    by (simp add: live_stepI closing)
  have o: "live_effect R (hub_of w) (fst (start_frontend s u (hub_of w)))" for u
    by (simp add: live_stepI starting_browser assms)
  show ?thesis
    using c o by (auto simp: open_frontend_def Let_def bindP_def split_beta split: option.split sum.split)
qed

lemma end_frontend_step: "live_effect R (hub_of w) (hub_of (end_frontend now s w))"
proof -
  let ?w = "(change_hub (finish_frontend now s) w)\<lparr>se_fronts := removeAll s (se_fronts w)\<rparr>"
  have 1: "live_effect R (hub_of w) (hub_of ?w)" by (simp add: live_stepI leaving)
  have 2: "live_effect R (hub_of ?w) (hub_of (change_hub (mark_dead s) ?w))" by (simp add: live_stepI dying)
  show ?thesis
    unfolding end_frontend_def Let_def
    using lv.trans [OF 1 2] lv.trans [OF 1 end_agent_step [of ?w now s]] by (auto split: option.split)
qed

lemma frontend_receive_step:
  assumes "s \<in> F"
  shows "effect id (live_effect R) (frontend_receive v now s msg)"
proof -
  have "effect id (live_effect R) (watch_route now s ev)" for ev
    by (auto simp: effect_def watch_route_def lv.refl assms intro!: live_stepI watching unwatching split: net_event.split)
  moreover have "effect id (live_effect R) (handle_command now s ev)" for ev
  proof (rule effectI)
    fix h
    have f: "event_type ev \<in> set command_event_types \<Longrightarrow>
        live_effect R h (fst (forward_frontend_event now (data_agent_id ev) ev h))"
      by (auto simp: forward_frontend_event_def Let_def lv.refl command_event_types_def operator_event_types_def
          intro!: live_stepI sending)
    have "effect id (live_effect R) (bindP (reject_frontend_command s r ty) (\<lambda>_. retP True))" for r ty
      by (intro lv.bind lv.ret socket_ops)
    then show "live_effect R (id h) (id (fst (handle_command now s ev h)))"
      using f by (auto simp: handle_command_def lv.refl effect_def)
  qed
  moreover have "f \<in> {watch_route now s, handle_command now s}" if "f \<in> ran (map_of (frontend_routes now s))" for f
    using that by (auto simp: frontend_routes_def ran_def split: if_splits)
  ultimately have "effect id (live_effect R) (router_dispatch (frontend_routes now s) ev)" for ev
    by (intro dispatch_step) blast
  then show ?thesis unfolding frontend_receive_def by (intro lv.bind lv.lift)
qed

lemma frontend_turn_step:
  assumes "s \<in> F"
  shows "live_effect R (hub_of w) (hub_of (frontend_turn ctx now s msg w))"
proof -
  let ?w = "fst (on_server (frontend_receive (sx_validate ctx) now s msg) w)"
  have 1: "live_effect R (hub_of w) (hub_of ?w)"
    using effectD [OF frontend_receive_step [OF assms]] by simp
  show ?thesis using 1 lv.trans [OF 1 end_frontend_step [of ?w now s]]
    by (auto simp: frontend_turn_def split_beta split: sum.split)
qed

lemma agent_turn_step:
  assumes "members (hu_watched (hub_of w)) s = []"
  shows "live_effect R (hub_of w) (hub_of (agent_turn ctx now uuid s msg w))"
proof (cases "map_of (se_conns w) s")
  case None
  then show ?thesis by (simp add: agent_turn_def lv.refl)
next
  case (Some c)
  obtain v c' t where r: "agent_receive ctx now uuid s msg (se_svc w, c) = ((v, c'), t)"
    by (metis prod.exhaust)
  let ?w = "w\<lparr>se_svc := v, se_conns := AList.update s c' (se_conns w)\<rparr>"
  have 1: "live_effect R (hub_of w) (hub_of ?w)"
    using agent_receive_step [of "(se_svc w, c)" ctx now uuid s msg] r by simp
  show ?thesis
  proof (cases t)
    case (Become_Frontend p)
    then have v: "v = se_svc w" using r
      by (auto simp: agent_receive_def agent_event_def split_beta split: option.splits sum.splits if_splits)
    let ?o = "open_frontend now s p ?w"
    have 2: "live_effect R (hub_of w) (hub_of (fst ?o))"
      using open_frontend_step [of ?w s now p] assms v by simp
    show ?thesis using Some r Become_Frontend 2 lv.trans [OF 2 end_agent_step [of "fst ?o" now s]]
      by (auto simp: agent_turn_def split: prod.split sum.split)
  qed (use Some r 1 lv.trans [OF 1 end_agent_step [of ?w now s]] in \<open>simp_all add: agent_turn_def\<close>)
qed

text \<open>No browser watches anything before its loop runs.\<close>

lemma server_step_effect:
  assumes "server_step ctx w w'" and "\<And>s. s \<notin> set (se_fronts w) \<Longrightarrow> members (hu_watched (hub_of w)) s = []"
    and "set (se_fronts w) \<subseteq> F"
  shows "live_effect R (hub_of w) (hub_of w')"
  using assms(1)
proof (cases rule: server_step.cases)
  case (agent_connects s header)
  have "live_effect R (hub_of w) (fst (send_text s server_hello (hub_of w)))"
    by (simp add: live_stepI answering plain_answer_def)
  moreover obtain x r where o: "on_server (send_text s server_hello) w = (x, r)" by (metis prod.exhaust)
  ultimately have "live_effect R (hub_of w) (hub_of x)"
    using server_simps(8) [of "send_text s server_hello" w] by simp
  then show ?thesis using agent_connects o by (simp add: websocket_endpoint_def split: sum.split)
next
  case (agent_sends s c now uuid msg)
  then show ?thesis using agent_turn_step assms(2) by simp
next
  case (agent_leaves s now)
  then show ?thesis using end_agent_step by simp
next
  case (browser_connects s now msg)
  have "live_effect R (hub_of w) (hub_of (fst (open_frontend now s p w)))" for p
    using browser_connects(2) by (intro open_frontend_step assms(2)) (simp add: connecting_def)
  moreover have "live_effect R (hub_of w) (fst (close_ws s (hub_of w)))" by (simp add: live_stepI closing)
  ultimately show ?thesis using browser_connects(1)
    by (auto simp: frontend_endpoint_def split_beta split: option.split pyval.split sum.split prod.split)
next
  case (browser_sends s now msg)
  then show ?thesis using frontend_turn_step assms(3) by auto
next
  case (browser_leaves s now)
  then show ?thesis using end_frontend_step by simp
next
  case (task_is_submitted now t actor)
  then show ?thesis using effectD [OF tt.create_and_dispatch] by simp
next
  case (registry_changes c)
  then show ?thesis by (simp add: change_registry_def deploy_step live_registry_ops)
qed (simp_all add: live_stepI dying timing_out refreshing recording forgetting stopping lv.refl on_db_def)

end

end
