(* ===== verification/Server_Properties.thy ===== *)
theory Server_Properties
  imports Server_Runs
begin

text \<open>
  What holds in every run of the server: the two indices of the watchers agree, an agent captures its
  windows exactly while someone watches, and no order reaches a socket that was not accepted as the
  agent's. Each one is an interpretation of the contract of the sockets.
\<close>

section \<open>Fields that operations leave alone\<close>

lemma watch_fields [simp]:
  "hu_watchers (fst (on_deploy m h)) = hu_watchers h" "hu_watched (fst (on_deploy m h)) = hu_watched h"
  "hu_watchers (fst (send_text s ev h)) = hu_watchers h" "hu_watched (fst (send_text s ev h)) = hu_watched h"
  "hu_watchers (fst (close_ws s h)) = hu_watchers h" "hu_watched (fst (close_ws s h)) = hu_watched h"
  "hu_watchers (fst (on_live ml h)) = hu_watchers h" "hu_watched (fst (on_live ml h)) = hu_watched h"
  "hu_watchers (request_snapshot h) = hu_watchers h" "hu_watched (request_snapshot h) = hu_watched h"
  "hu_watchers (send_client s msg h) = hu_watchers h" "hu_watched (send_client s msg h) = hu_watched h"
  "hu_watchers (fst (send_json s msg h)) = hu_watchers h" "hu_watched (fst (send_json s msg h)) = hu_watched h"
  "hu_watchers (fst (reject_frontend_command s r ty h)) = hu_watchers h"
  "hu_watched (fst (reject_frontend_command s r ty h)) = hu_watched h"
  "hu_watchers (mark_dead s h) = hu_watchers h" "hu_watched (mark_dead s h) = hu_watched h"
  "hu_watchers (set_runtime rt h) = hu_watchers h" "hu_watched (set_runtime rt h) = hu_watched h"
  "hu_watchers (forget_agent now a h) = hu_watchers h" "hu_watched (forget_agent now a h) = hu_watched h"
  by (simp_all add: on_deploy_def send_text_def close_ws_def on_live_def request_snapshot_def send_client_def
      drop_client_def send_json_def reject_frontend_command_def mark_dead_def set_runtime_def forget_agent_def
      record_sent_def split_beta)

definition same_watch :: "hub \<Rightarrow> hub \<Rightarrow> bool" where
  "same_watch h h' \<longleftrightarrow> hu_watchers h' = hu_watchers h \<and> hu_watched h' = hu_watched h"

interpretation sw: effect_relation same_watch
  by unfold_locales (simp_all add: same_watch_def)

lemma same_watch_accept: "same_watch h (fst (accept_handshake now s a issued h))"
proof -
  have "effect id same_watch (accept_handshake now s a issued)"
    unfolding accept_handshake_def on_agents_def
    by (intro sw.bind sw.ret sw.mod; simp add: effect_def same_watch_def)
  then show ?thesis by (simp add: effect_def)
qed

lemma same_watch_finish: "same_watch h (finish_agent now s c h)"
proof -
  have "effect id same_watch (cleanup_connection now s c)"
    unfolding cleanup_connection_def on_agents_def
    by (intro sw.bind sw.ret sw.cond; simp add: effect_def same_watch_def split_beta)
  then have "same_watch h (fst (cleanup_connection now s c h))" by (simp add: effect_def)
  then show ?thesis by (simp add: finish_agent_def split_beta same_watch_def)
qed

lemma same_watch_ops:
  "same_watch h (broadcast_visible k m h)" "same_watch h (broadcast_to_frontends v h)" "same_watch h (snapshot_turn h)"
  "same_watch h (heartbeat_watchdog now h)"
proof -
  have b: "same_watch h (broadcast_visible k m h)" "same_watch h (broadcast_to_frontends v h)" for k m v h
    unfolding broadcast_visible_def broadcast_to_frontends_def
    by (rule sw.folding, simp add: same_watch_def)+
  show "same_watch h (broadcast_visible k m h)" "same_watch h (broadcast_to_frontends v h)" by (rule b)+
  show "same_watch h (snapshot_turn h)"
    using b(2) [of "h\<lparr>hu_snapshot := False\<rparr>"] by (simp add: snapshot_turn_def Let_def same_watch_def)
  show "same_watch h (heartbeat_watchdog now h)" by (simp add: heartbeat_watchdog_def split_beta Let_def same_watch_def)
qed

lemmas same_watch_fields = same_watch_ops [unfolded same_watch_def] same_watch_accept [unfolded same_watch_def]
  same_watch_finish [unfolded same_watch_def]

lemma start_frontend_watch:
  "hu_watchers (fst (start_frontend s u h)) = hu_watchers h"
  "hu_watched (fst (start_frontend s u h)) = hu_watched h \<or>
   hu_watched (fst (start_frontend s u h)) = AList.update s [] (hu_watched h)"
  by (auto simp: start_frontend_def bindP_def split_beta split: sum.split)

section \<open>Nothing is watched before the loop of a browser\<close>

definition watches_no_more :: "ws \<Rightarrow> hub \<Rightarrow> hub \<Rightarrow> bool" where
  "watches_no_more t h h' \<longleftrightarrow> set (members (hu_watched h') t) \<subseteq> set (members (hu_watched h) t)"

interpretation nm: effect_relation "watches_no_more t" for t
  by unfold_locales (auto simp: watches_no_more_def)

lemma no_more_remove_all: "watches_no_more t h (remove_all_watchers now s h)"
  unfolding remove_all_watchers_def
  by (rule nm.folding) (auto simp: watches_no_more_def remove_watcher_indices)

lemma no_more_leave:
  "watches_no_more t h (finish_frontend now s h)" "watches_no_more t h (close_frontend now s h)"
  using no_more_remove_all [of t h now s]
  by (auto simp: watches_no_more_def finish_frontend_def close_frontend_def Let_def)

interpretation idle: hub_contract "watches_no_more t" "- {t}" for t
proof unfold_locales
  show "watches_no_more t h (shutdown_open_connections now h)" for t now h
    by (simp add: watches_no_more_def shutdown_open_connections_def Let_def members_def)
  show "watches_no_more t h (fst (start_frontend s u h))" for t s u h
    using start_frontend_watch(2) [of s u h] by (auto simp: watches_no_more_def split: if_splits)
qed (simp_all add: watches_no_more_def same_watch_fields remove_watcher_indices add_watcher_indices
    no_more_leave [unfolded watches_no_more_def])

definition idle :: "server \<Rightarrow> bool" where
  "idle w \<longleftrightarrow> (\<forall>s. s \<notin> set (se_fronts w) \<longrightarrow> members (hu_watched (hub_of w)) s = [])"

lemma end_agent_watch: "same_watch (hub_of w) (hub_of (end_agent now s w))"
  by (simp add: end_agent_def same_watch_finish sw.refl split: option.split)

lemma end_agent_fronts [simp]: "se_fronts (end_agent now s w) = se_fronts w"
  by (simp add: end_agent_def split: option.split)

lemma end_frontend_fronts: "se_fronts (end_frontend now s w) = removeAll s (se_fronts w)"
  by (simp add: end_frontend_def Let_def split: option.split)

lemma end_frontend_clears: "members (hu_watched (hub_of (end_frontend now s w))) s = []"
proof -
  let ?w = "(change_hub (finish_frontend now s) w)\<lparr>se_fronts := removeAll s (se_fronts w)\<rparr>"
  have "members (hu_watched (hub_of ?w)) s = []" by (simp add: finish_frontend_def Let_def)
  then show ?thesis
    using end_agent_watch [of ?w now s]
    by (auto simp: end_frontend_def Let_def same_watch_def split: option.split)
qed

lemma open_frontend_fronts [simp]: "se_fronts (fst (open_frontend now s p w)) = se_fronts w"
  by (auto simp: open_frontend_def Let_def bindP_def split_beta split: option.split sum.split)

lemma websocket_endpoint_fronts [simp]: "se_fronts (websocket_endpoint s header w) = se_fronts w"
  using server_simps(4) [of "send_text s server_hello" w]
  by (cases "on_server (send_text s server_hello) w")
    (simp add: websocket_endpoint_def del: server_simps split: sum.split)

lemma fronts_stay:
  assumes "t \<in> set (se_fronts w)"
  shows "t \<in> set (se_fronts (agent_turn ctx now uuid s msg w))"
    and "t \<in> set (se_fronts (frontend_endpoint now s msg w))"
proof -
  have o: "t \<in> set (se_fronts x)" if "open_frontend now s p v = (x, r)" "t \<in> set (se_fronts v)" for x r p v
    using open_frontend_fronts [of now s p v] that by simp
  have e: "se_fronts (enter_frontend s x) = List.insert s (se_fronts x)" for x
    by (simp add: enter_frontend_def)
  show "t \<in> set (se_fronts (frontend_endpoint now s msg w))"
    using assms o by (auto simp: frontend_endpoint_def e split: option.split pyval.split prod.split sum.split)
  show "t \<in> set (se_fronts (agent_turn ctx now uuid s msg w))"
    using assms o by (auto simp: agent_turn_def Let_def e split: option.split prod.split sum.split turn.split)
qed

text \<open>A socket that leaves the browsers' loops watches nothing any more.\<close>

lemma idle_step:
  assumes "server_step ctx w w'" and "idle w" and "live_registry (hub_registry (hub_of w))"
  shows "idle w'"
  unfolding idle_def
proof (intro allI impI)
  fix t assume t: "t \<notin> set (se_fronts w')"
  have keep: "members (hu_watched (hub_of w')) t = []" if "t \<notin> set (se_fronts w)"
  proof -
    have "live_effect (watches_no_more t) (hub_of w) (hub_of w')"
      by (rule idle.server_step_effect [OF assms(1)]) (use assms(2) that in \<open>auto simp: idle_def\<close>)
    then show ?thesis using assms(2,3) that by (simp add: live_effect_def watches_no_more_def idle_def)
  qed
  show "members (hu_watched (hub_of w')) t = []"
  proof (cases "t \<in> set (se_fronts w)")
    case True
    from assms(1) show ?thesis
    proof (cases rule: server_step.cases)
      case (browser_sends s now msg)
      then show ?thesis using True t
        by (auto simp: frontend_turn_def split_beta end_frontend_fronts end_frontend_clears split: sum.splits if_splits)
    next
      case (browser_leaves s now)
      then show ?thesis using True t by (auto simp: end_frontend_fronts end_frontend_clears)
    qed (use True t fronts_stay in simp_all)
  qed (rule keep)
qed

section \<open>The indices of the watchers\<close>

definition keeps_watch_ok :: "hub \<Rightarrow> hub \<Rightarrow> bool" where
  "keeps_watch_ok h h' \<longleftrightarrow> (watch_ok h \<longrightarrow> watch_ok h')"

lemma keeps_same_watch: "same_watch h h' \<Longrightarrow> keeps_watch_ok h h'"
  using watch_parts_cong(4) [of h' h] by (simp add: keeps_watch_ok_def same_watch_def)

lemma watch_ok_entry:
  assumes "watch_ok h" and "members (hu_watched h) s = []" and "hu_watchers h' = hu_watchers h"
    and "hu_watched h' = AList.update s [] (hu_watched h) \<or> hu_watched h' = AList.delete s (hu_watched h)"
  shows "watch_ok h'"
proof -
  have "members (hu_watched h') t = members (hu_watched h) t" for t using assms(2,4) by auto
  then have "mirrored h'" using assms(1,3) by (simp add: watch_ok_def mirrored_def)
  moreover have "one_entry_each h'"
    using assms(1,3,4) unfolding watch_ok_def one_entry_each_def by (elim disjE) simp_all
  ultimately show ?thesis using assms(1,3) by (simp add: watch_ok_def watched_by_someone_def)
qed

lemma keeps_finish_frontend: "keeps_watch_ok h (finish_frontend now s h)"
proof -
  have "watch_ok h \<Longrightarrow> watch_ok (finish_frontend now s h)"
    by (rule watch_ok_entry [where h = "remove_all_watchers now s h" and s = s])
      (simp_all add: watch_ok_remove_all remove_all_clears finish_frontend_def Let_def)
  then show ?thesis by (simp add: keeps_watch_ok_def)
qed

lemma keeps_start_frontend: "members (hu_watched h) s = [] \<Longrightarrow> keeps_watch_ok h (fst (start_frontend s u h))"
  using start_frontend_watch [of s u h] watch_ok_entry [of h s "fst (start_frontend s u h)"]
    watch_parts_cong(4) [of "fst (start_frontend s u h)" h]
  by (auto simp: keeps_watch_ok_def)

interpretation watch: hub_contract keeps_watch_ok UNIV
proof unfold_locales
  show "keeps_watch_ok h (shutdown_open_connections now h)" for now h
    by (simp add: keeps_watch_ok_def shutdown_open_connections_def Let_def watch_ok_def mirrored_def
        watched_by_someone_def one_entry_each_def members_def)
  show "keeps_watch_ok h (add_watcher now s a h)" "keeps_watch_ok h (remove_watcher now s a h)" for now s a h
    by (simp_all add: keeps_watch_ok_def watch_ok_add watch_ok_remove)
qed (simp_all add: keeps_finish_frontend keeps_start_frontend keeps_same_watch same_watch_def same_watch_fields,
    simp_all add: keeps_watch_ok_def)

lemma reachable_basic:
  "reachable ctx w \<Longrightarrow> live_registry (hub_registry (hub_of w)) \<and> idle w \<and> watch_ok (hub_of w)"
proof (induction rule: reachable.induct)
  case (start w)
  then show ?case
    by (auto simp: starting_def init_hub_def idle_def watch_ok_def mirrored_def watched_by_someone_def
        one_entry_each_def members_def)
next
  case (step w w')
  have "live_effect keeps_watch_ok (hub_of w) (hub_of w')"
    by (rule watch.server_step_effect [OF step(2)]) (use step.IH in \<open>auto simp: idle_def\<close>)
  then show ?case using step idle_step by (simp add: live_effect_def keeps_watch_ok_def)
qed

section \<open>Capturing windows while someone watches\<close>

text \<open>The last order about the windows of agent \<open>a\<close> that was sent to socket \<open>s\<close>.\<close>

definition tracking_frame :: "string \<Rightarrow> ws \<Rightarrow> ws \<times> frame \<Rightarrow> bool \<Rightarrow> bool" where
  "tracking_frame a s f b =
     (case f of
        (t, EventFrame (SetWindowTrackingEv d)) \<Rightarrow> if t = s \<and> wt_agent_id d = a then wt_enabled d else b
      | _ \<Rightarrow> b)"

definition last_tracking :: "string \<Rightarrow> ws \<Rightarrow> (ws \<times> frame) list \<Rightarrow> bool" where
  "last_tracking a s fs = fold (tracking_frame a s) fs False"

lemma last_tracking_snoc [simp]:
  "last_tracking a s (fs @ [f]) = tracking_frame a s f (last_tracking a s fs)"
  by (simp add: last_tracking_def)

lemma tracking_frame_other [simp]:
  "tracking_frame a s (t, JsonFrame m) b = b"
  "event_type ev \<noteq> ''set_window_tracking'' \<Longrightarrow> tracking_frame a s (t, EventFrame ev) b = b"
  by (auto simp: tracking_frame_def split: net_event.split)

definition tracked :: "string \<Rightarrow> ws \<Rightarrow> hub \<Rightarrow> bool" where
  "tracked a s h \<longleftrightarrow> map_of (active_agents (hu_runtime h)) a = Some s \<and> members (hu_watchers h) a \<noteq> []"

definition tracking_ok :: "hub \<Rightarrow> bool" where
  "tracking_ok h \<longleftrightarrow> (\<forall>a s. usable h s \<longrightarrow> last_tracking a s (hu_sent h) = tracked a s h)"

text \<open>How the connections of the runtime may change: sockets are closed, and those that stay open keep
  their agents. \<open>X\<close> are sockets that died.\<close>

definition conns_rel :: "ws set \<Rightarrow> agent_runtime \<Rightarrow> agent_runtime \<Rightarrow> bool" where
  "conns_rel X rt rt' \<longleftrightarrow>
     set (ar_closed rt) \<subseteq> set (ar_closed rt') \<and>
     (\<forall>a t. t \<notin> X \<longrightarrow> t \<notin> set (ar_closed rt') \<longrightarrow>
        (map_of (active_agents rt') a = Some t) = (map_of (active_agents rt) a = Some t))"

interpretation cr: effect_relation "conns_rel X" for X
  by unfold_locales (auto simp: conns_rel_def)

lemma conns_rel_mono: "conns_rel {} rt rt' \<Longrightarrow> conns_rel X rt rt'"
  by (auto simp: conns_rel_def)

lemma reset_state_conns [simp]:
  "active_agents (reset_agent_runtime_state now a rt) = active_agents rt"
  "ar_closed (reset_agent_runtime_state now a rt) = ar_closed rt"
  by (simp_all add: reset_agent_runtime_state_def Let_def set_agent_state_def split: option.split)

lemma conns_rel_close: "conns_rel {} rt (close_socket s rt)"
  by (auto simp: conns_rel_def close_socket_def)

lemma conns_rel_drop:
  assumes "\<And>t. map_of (active_agents rt) a = Some t \<Longrightarrow> t \<in> X \<or> t \<in> set (ar_closed rt)"
  shows "conns_rel X rt (rt\<lparr>active_agents := AList.delete a (active_agents rt)\<rparr>)"
  using assms by (auto simp: conns_rel_def)

lemma conns_rel_timeout: "conns_rel {} rt (fst (timeout_agent now a rt))"
  by (auto simp: conns_rel_def timeout_agent_def close_socket_def split: option.split)

lemma conns_rel_timeouts: "conns_rel {} rt (fst (timeout_agents now as rt))"
proof (induction as arbitrary: rt)
  case (Cons a as)
  show ?case using cr.trans [OF conns_rel_timeout Cons.IH] by (simp add: split_beta)
qed (simp add: cr.refl)

lemma conns_rel_watchdog: "conns_rel {} rt (fst (heartbeat_watchdog_round now rt))"
  by (auto simp: heartbeat_watchdog_round_def split_beta conns_rel_timeouts cr.refl split: sum.split)

lemma conns_rel_forget: "conns_rel {} rt (remove_agent a (fst (timeout_agent now a rt)))"
  by (auto simp: conns_rel_def timeout_agent_def remove_agent_def close_socket_def split: option.split)

lemma conns_rel_close_all: "conns_rel {} rt (fst (close_all_connections now rt))"
proof -
  let ?step = "\<lambda>(a, ws) rt. reset_agent_runtime_state now a
      (close_socket ws (rt\<lparr>active_agents := AList.delete a (active_agents rt)\<rparr>))"
  have "(\<forall>a t. map_of (active_agents rt) a = Some t \<longrightarrow> map_of l a = Some t) \<Longrightarrow> conns_rel {} rt (fold ?step l rt)" for l
  proof (induction l arbitrary: rt)
    case (Cons x l)
    obtain a s where x: "x = (a, s)" by (cases x)
    have "map_of (active_agents rt) a = Some t \<Longrightarrow> t = s" for t
      using Cons.prems x by fastforce
    then have 1: "conns_rel {} rt (?step x rt)" by (auto simp: conns_rel_def close_socket_def x)
    have "conns_rel {} (?step x rt) (fold ?step l (?step x rt))"
      by (rule Cons.IH) (use Cons.prems in \<open>auto simp: x close_socket_def split: if_splits\<close>)
    from cr.trans [OF 1 this] show ?case by simp
  qed (simp add: cr.refl)
  then show ?thesis by (simp add: close_all_connections_def)
qed

lemma conns_rel_unregister: "conns_rel {s} rt (fst (unregister_agent now a (Some s) rt))"
  by (auto simp: conns_rel_def unregister_agent_def Let_def)

definition keeps_tracking :: "hub \<Rightarrow> hub \<Rightarrow> bool" where
  "keeps_tracking h h' \<longleftrightarrow> (tracking_ok h \<longrightarrow> tracking_ok h')"

interpretation kt: effect_relation keeps_tracking
  by unfold_locales (auto simp: keeps_tracking_def)

text \<open>A step that says nothing about windows and whose open sockets keep their agents.\<close>

definition quiet :: "hub \<Rightarrow> hub \<Rightarrow> bool" where
  "quiet h h' \<longleftrightarrow>
     (\<forall>s. usable h' s \<longrightarrow> usable h s \<and>
        (\<forall>a. last_tracking a s (hu_sent h') = last_tracking a s (hu_sent h) \<and> tracked a s h' = tracked a s h))"

interpretation quiet: effect_relation quiet
  by unfold_locales (auto simp: quiet_def)

lemma keeps_quiet: "quiet h h' \<Longrightarrow> keeps_tracking h h'"
  by (auto simp: quiet_def keeps_tracking_def tracking_ok_def)

lemma usable_simps [simp]:
  "usable (record_sent s f h) = usable h" "usable (request_snapshot h) = usable h" "usable (drop_client s h) = usable h"
  "usable (h\<lparr>hu_watchers := ws\<rparr>) = usable h" "usable (h\<lparr>hu_watched := wd\<rparr>) = usable h"
  "usable (h\<lparr>hu_clients := cl\<rparr>) = usable h" "usable (h\<lparr>hu_sessions := se\<rparr>) = usable h"
  "usable (h\<lparr>hu_snapshot := sn\<rparr>) = usable h" "usable (h\<lparr>hu_deploy := dp\<rparr>) = usable h"
  "usable (mark_dead s h) t \<longleftrightarrow> t \<noteq> s \<and> usable h t"
  by (auto simp: usable_def fun_eq_iff record_sent_def request_snapshot_def drop_client_def mark_dead_def)

lemma tracked_simps [simp]:
  "tracked a s (record_sent t f h) = tracked a s h" "tracked a s (request_snapshot h) = tracked a s h"
  "tracked a s (drop_client t h) = tracked a s h" "tracked a s (mark_dead t h) = tracked a s h"
  "tracked a s (h\<lparr>hu_watched := wd\<rparr>) = tracked a s h"
  "tracked a s (h\<lparr>hu_clients := cl\<rparr>) = tracked a s h" "tracked a s (h\<lparr>hu_sessions := se\<rparr>) = tracked a s h"
  "tracked a s (h\<lparr>hu_snapshot := sn\<rparr>) = tracked a s h" "tracked a s (h\<lparr>hu_deploy := dp\<rparr>) = tracked a s h"
  by (simp_all add: tracked_def record_sent_def request_snapshot_def drop_client_def mark_dead_def)

lemma sent_simps [simp]:
  "hu_sent (record_sent s f h) = hu_sent h @ [(s, f)]" "hu_sent (request_snapshot h) = hu_sent h"
  "hu_sent (drop_client s h) = hu_sent h" "hu_sent (mark_dead s h) = hu_sent h" "hu_sent (set_runtime rt h) = hu_sent h"
  by (simp_all add: record_sent_def request_snapshot_def drop_client_def mark_dead_def set_runtime_def)

lemma quiet_runtime:
  assumes "conns_rel X (hu_runtime h) rt" and "\<And>t. t \<in> X \<Longrightarrow> \<not> usable h t"
  shows "quiet h (set_runtime rt h)"
proof -
  have c: "set (ar_closed (hu_runtime h)) \<subseteq> set (ar_closed rt)"
    "t \<notin> X \<Longrightarrow> t \<notin> set (ar_closed rt) \<Longrightarrow>
       (map_of (active_agents rt) a = Some t) = (map_of (active_agents (hu_runtime h)) a = Some t)" for a t
    using assms(1) by (auto simp: conns_rel_def)
  have "usable (set_runtime rt h) s \<Longrightarrow> usable h s \<and> s \<notin> X \<and> s \<notin> set (ar_closed rt)" for s
    using assms(2) c(1) by (auto simp: usable_def set_runtime_def)
  then show ?thesis using c(2) by (simp add: quiet_def tracked_def) (simp add: set_runtime_def)
qed

lemma quiet_small:
  "f = JsonFrame m \<or> (\<exists>ev. f = EventFrame ev \<and> event_type ev \<noteq> ''set_window_tracking'') \<Longrightarrow> quiet h (record_sent s f h)"
  "quiet h (request_snapshot h)" "quiet h (drop_client s h)" "quiet h (h\<lparr>hu_clients := cl\<rparr>)"
  "quiet h (h\<lparr>hu_watched := wd\<rparr>)" "quiet h (h\<lparr>hu_sessions := se\<rparr>)" "quiet h (h\<lparr>hu_snapshot := sn\<rparr>)"
  "quiet h (h\<lparr>hu_deploy := d\<rparr>)" "quiet h (mark_dead s h)"
  by (auto simp: quiet_def)

lemma quiet_unregister:
  "\<not> usable h s \<Longrightarrow> quiet h (set_runtime (fst (unregister_agent now a (Some s) (hu_runtime h))) h)"
  by (rule quiet_runtime [OF conns_rel_unregister]) simp

lemma quiet_send:
  assumes "event_type ev \<noteq> ''set_window_tracking''"
  shows "quiet h (fst (send_to_agent now a ev h))"
proof (cases "get_agent_socket a (hu_runtime h)")
  case (Some s)
  have "quiet h (set_runtime (fst (unregister_agent now (Some a) (Some s) (hu_runtime h))) h\<lparr>hu_snapshot := True\<rparr>)"
    if "\<not> usable h s"
    using quiet.trans [OF quiet_unregister [OF that] quiet_small(7)] by simp
  then show ?thesis using Some assms quiet_small(1) by (auto simp: send_to_agent_def)
qed (simp add: send_to_agent_def quiet.refl)

lemma quiet_client: "quiet h (send_client s msg h)"
  by (simp add: send_client_def quiet_small)

lemma quiet_broadcasts:
  "quiet h (broadcast_visible k m h)" "quiet h (broadcast_to_frontends v h)" "quiet h (snapshot_turn h)"
proof -
  have b: "quiet h (broadcast_visible k m h)" "quiet h (broadcast_to_frontends v h)" for k m v h
    unfolding broadcast_visible_def broadcast_to_frontends_def
    by (rule quiet.folding, simp add: quiet_client quiet.refl)+
  show "quiet h (broadcast_visible k m h)" "quiet h (broadcast_to_frontends v h)" by (rule b)+
  show "quiet h (snapshot_turn h)"
    using quiet.trans [OF quiet_small(7) b(2)] by (simp add: snapshot_turn_def Let_def quiet_small quiet.refl)
qed

text \<open>The orders about windows: when the watchers of agent \<open>a\<close> have changed, everything about the other agents
  still agrees, and sockets that are not the agent's have no order to capture for it.\<close>

definition tracking_but :: "string \<Rightarrow> hub \<Rightarrow> bool" where
  "tracking_but a h \<longleftrightarrow>
     (\<forall>b s. usable h s \<longrightarrow>
        (if b = a then map_of (active_agents (hu_runtime h)) a \<noteq> Some s \<longrightarrow> \<not> last_tracking a s (hu_sent h)
         else last_tracking b s (hu_sent h) = tracked b s h))"

lemma tracking_butD:
  assumes "tracking_but a h" and "usable h s"
  shows "b \<noteq> a \<Longrightarrow> last_tracking b s (hu_sent h) = tracked b s h"
    and "map_of (active_agents (hu_runtime h)) a \<noteq> Some s \<Longrightarrow> \<not> last_tracking a s (hu_sent h)"
  using assms by (auto simp: tracking_but_def)

lemma tracking_but_ok:
  assumes "tracking_but a h" and "\<And>s. map_of (active_agents (hu_runtime h)) a = Some s \<Longrightarrow> \<not> usable h s"
  shows "tracking_ok h"
  unfolding tracking_ok_def
proof (intro allI impI)
  fix b t assume u: "usable h t"
  then have "map_of (active_agents (hu_runtime h)) a \<noteq> Some t" using assms(2) by blast
  then show "last_tracking b t (hu_sent h) = tracked b t h"
    using tracking_butD(1) [OF assms(1) u, of b] tracking_butD(2) [OF assms(1) u] by (cases "b = a") (simp_all add: tracked_def del: map_of_eq_Some_iff)
qed

lemma set_tracking_ok:
  assumes "tracking_but a h" and "on \<longleftrightarrow> members (hu_watchers h) a \<noteq> []"
  shows "tracking_ok (fst (set_agent_window_tracking now a on h))"
proof (cases "map_of (active_agents (hu_runtime h)) a")
  case None
  then show ?thesis using tracking_but_ok [OF assms(1)]
    by (simp add: set_agent_window_tracking_def send_to_agent_def get_agent_socket_def)
next
  case (Some s)
  show ?thesis
  proof (cases "usable h s")
    case True
    let ?f = "(s, EventFrame (SetWindowTrackingEv \<lparr>wt_agent_id = a, wt_enabled = on\<rparr>))"
    have "last_tracking b t (hu_sent h @ [?f]) = tracked b t h" if u: "usable h t" for b t
      using tracking_butD(1) [OF assms(1) u, of b] tracking_butD(2) [OF assms(1) u] assms(2) Some
      by (cases "b = a"; cases "t = s") (simp_all add: tracked_def tracking_frame_def)
    then show ?thesis using True Some
      by (simp add: set_agent_window_tracking_def send_to_agent_def get_agent_socket_def tracking_ok_def)
  next
    case False
    have "tracking_ok h" by (rule tracking_but_ok [OF assms(1)]) (use Some False in simp)
    moreover have "quiet h (set_runtime (fst (unregister_agent now (Some a) (Some s) (hu_runtime h))) h\<lparr>hu_snapshot := True\<rparr>)"
      using quiet.trans [OF quiet_unregister [OF False] quiet_small(7)] by simp
    ultimately show ?thesis using False Some keeps_quiet
      by (auto simp: set_agent_window_tracking_def send_to_agent_def get_agent_socket_def keeps_tracking_def)
  qed
qed

lemma tracking_ok_but:
  assumes "tracking_ok h" and "\<And>b. b \<noteq> a \<Longrightarrow> members (hu_watchers h') b = members (hu_watchers h) b"
    and "hu_live h' = hu_live h" "hu_sent h' = hu_sent h" "hu_dead h' = hu_dead h"
  shows "tracking_but a h'"
  using assms by (auto simp: tracking_ok_def tracking_but_def tracked_def usable_def)

lemma tracking_ok_same:
  assumes "tracking_ok h" and "\<And>b. (members (hu_watchers h') b = []) = (members (hu_watchers h) b = [])"
    and "hu_live h' = hu_live h" "hu_sent h' = hu_sent h" "hu_dead h' = hu_dead h"
  shows "tracking_ok h'"
  using assms by (auto simp: tracking_ok_def tracked_def usable_def)

lemma keeps_add_watcher: "keeps_tracking h (add_watcher now s a h)"
proof -
  let ?h1 = "\<lambda>v wd. h\<lparr>hu_watchers := AList.update a v (hu_watchers h), hu_watched := wd\<rparr>"
  have "tracking_ok (fst (set_agent_window_tracking now a True (?h1 v wd)))" if "tracking_ok h" "v \<noteq> []" for v wd
    by (rule set_tracking_ok [OF tracking_ok_but [OF that(1)]]) (use that in auto)
  moreover have "tracking_ok (?h1 v wd)" if "tracking_ok h" "v \<noteq> []" "members (hu_watchers h) a \<noteq> []" for v wd
    by (rule tracking_ok_same [OF that(1)]) (use that in auto)
  moreover have "tracking_ok (h\<lparr>hu_watched := wd\<rparr>)" if "tracking_ok h" for wd
    by (rule tracking_ok_same [OF that]) auto
  ultimately show ?thesis by (simp add: keeps_tracking_def add_watcher_def Let_def)
qed

lemma keeps_remove_watcher: "keeps_tracking h (remove_watcher now s a h)"
proof -
  define h0 where "h0 = (case map_of (hu_watched h) s of None \<Rightarrow> h
    | Some watched \<Rightarrow> h\<lparr>hu_watched := AList.update s (removeAll a watched) (hu_watched h)\<rparr>)"
  have 0: "tracking_ok h0" if "tracking_ok h"
    using that by (auto simp: h0_def split: option.split intro: tracking_ok_same)
  then have "tracking_ok (fst (set_agent_window_tracking now a False
      (h0\<lparr>hu_watchers := AList.delete a (hu_watchers h0)\<rparr>)))" if "tracking_ok h"
    by (rule set_tracking_ok [OF tracking_ok_but]) (use that in auto)
  moreover have "tracking_ok (h0\<lparr>hu_watchers := AList.update a (removeAll s (members (hu_watchers h0) a)) (hu_watchers h0)\<rparr>)"
    if "tracking_ok h" "members (hu_watchers h0) a \<noteq> []" "removeAll s (members (hu_watchers h0) a) \<noteq> []"
    by (rule tracking_ok_same [OF 0]) (use that in auto)
  ultimately show ?thesis using 0
    by (simp add: keeps_tracking_def remove_watcher_def Let_def h0_def [symmetric])
qed

lemma keeps_remove_all: "keeps_tracking h (remove_all_watchers now s h)"
  unfolding remove_all_watchers_def by (rule kt.folding) (rule keeps_remove_watcher)

lemma quiet_close: "quiet h (fst (close_ws s h))"
  using quiet_runtime [OF conns_rel_close] by (simp add: close_ws_def quiet.refl)

lemma keeps_leave: "keeps_tracking h (finish_frontend now s h)" "keeps_tracking h (close_frontend now s h)"
proof -
  have k: "keeps_tracking g (g\<lparr>hu_watched := wd, hu_clients := cl\<rparr>)" for g wd cl
    using keeps_quiet [OF quiet.trans [OF quiet_small(5) quiet_small(4)]] by simp
  show "keeps_tracking h (finish_frontend now s h)"
    using kt.trans [OF keeps_remove_all k] by (simp add: finish_frontend_def Let_def)
  show "keeps_tracking h (close_frontend now s h)"
    using kt.trans [OF kt.trans [OF keeps_remove_all keeps_quiet [OF quiet_close]] k]
    by (simp add: close_frontend_def Let_def)
qed

text \<open>A handshake that is accepted on an open socket runs to its end.\<close>

definition accept_answer :: "string \<Rightarrow> string option \<Rightarrow> net_event" where
  "accept_answer a issued = AuthResultEv (default_auth_result
     \<lparr>ar_status := ''ok'', ar_agent_id := a, ar_access_token := the_or issued [],
      ar_access_token_issued := the_or issued [] \<noteq> []\<rparr>)"

definition registered_hub :: "int \<Rightarrow> ws \<Rightarrow> string \<Rightarrow> string option \<Rightarrow> deploy_state \<Rightarrow> hub \<Rightarrow> hub" where
  "registered_hub now s a issued d h =
     (set_runtime (register_agent now a s (hu_runtime h)) (record_sent s (EventFrame (accept_answer a issued)) h))
       \<lparr>hu_deploy := d\<rparr>"

lemma accept_runs:
  assumes "live_registry (hub_registry h)" and "usable h s"
  shows "\<exists>d. accept_handshake now s a issued h =
     (let h1 = registered_hub now s a issued d h
      in (request_snapshot (if members (hu_watchers h) a \<noteq> [] then fst (set_agent_window_tracking now a True h1) else h1),
          Inr True))"
proof -
  let ?h1 = "set_runtime (register_agent now a s (hu_runtime h)) (record_sent s (EventFrame (accept_answer a issued)) h)"
  have l: "live_registry (hub_registry ?h1)" using assms(1) by (simp add: set_runtime_def record_sent_def)
  have "snd (upsert_agent now a (online_upsert now) (hub_registry ?h1)) = Inr ()"
    by (rule upsert_live [OF l]) (simp add: online_upsert_def no_upsert_def)
  then obtain db where "upsert_agent now a (online_upsert now) (hub_registry ?h1) = (db, Inr ())"
    by (metis prod.collapse)
  then have u: "on_agents (upsert_agent now a (online_upsert now)) ?h1 =
      (?h1\<lparr>hu_deploy := (hu_deploy ?h1)\<lparr>ds_registry := db\<rparr>\<rparr>, Inr ())"
    by (simp add: on_agents_def on_deploy_def on_registry_def)
  have s: "send_text s (accept_answer a issued) h = (record_sent s (EventFrame (accept_answer a issued)) h, Inr ())"
    using assms(2) by (simp add: send_text_def)
  have r: "hu_runtime (record_sent s f h) = hu_runtime h" for f by (simp add: record_sent_def)
  have w: "hu_watchers (?h1\<lparr>hu_deploy := d\<rparr>) = hu_watchers h" for d by (simp add: record_sent_def)
  show ?thesis
    using u unfolding accept_handshake_def accept_answer_def [symmetric] bindP_simps(2) [of "send_text _ _", OF s]
    by (intro exI [of _ "(hu_deploy ?h1)\<lparr>ds_registry := db\<rparr>"])
      (simp add: Let_def registered_hub_def r w del: watch_fields)
qed

lemma registered_runtime:
  "map_of (active_agents (register_agent now a s rt)) b = (if b = a then Some s else map_of (active_agents rt) b)"
  "set (ar_closed (register_agent now a s rt)) =
     set (ar_closed rt) \<union> {p. map_of (active_agents rt) a = Some p \<and> p \<noteq> s}"
  by (auto simp: register_agent_def Let_def mark_agent_connection_state_def set_agent_state_def close_socket_def
      split: option.split)

lemma registered_hub_fields [simp]:
  "hu_sent (registered_hub now s a issued d h) = hu_sent h @ [(s, EventFrame (accept_answer a issued))]"
  "hu_watchers (registered_hub now s a issued d h) = hu_watchers h"
  "hu_runtime (registered_hub now s a issued d h) = register_agent now a s (hu_runtime h)"
  "usable (registered_hub now s a issued d h) t \<longleftrightarrow>
     usable h t \<and> \<not> (map_of (active_agents (hu_runtime h)) a = Some t \<and> t \<noteq> s)"
  by (auto simp: registered_hub_def set_runtime_def record_sent_def usable_def registered_runtime)

lemma keeps_accept:
  assumes "live_registry (hub_registry h)"
  shows "keeps_tracking h (fst (accept_handshake now s a issued h))"
proof (cases "usable h s")
  case False
  then show ?thesis by (simp add: accept_handshake_def send_text_def bindP_def kt.refl)
next
  case True
  obtain d where d: "accept_handshake now s a issued h =
     (let h1 = registered_hub now s a issued d h
      in (request_snapshot (if members (hu_watchers h) a \<noteq> [] then fst (set_agent_window_tracking now a True h1) else h1),
          Inr True))"
    using accept_runs [OF assms True] by blast
  let ?h1 = "registered_hub now s a issued d h"
  have e: "event_type (accept_answer a issued) \<noteq> ''set_window_tracking''" by (simp add: accept_answer_def)
  have "tracking_ok (if members (hu_watchers h) a \<noteq> [] then fst (set_agent_window_tracking now a True ?h1) else ?h1)"
    if ok: "tracking_ok h"
  proof -
    have l: "last_tracking b t (hu_sent ?h1) = tracked b t h" if "usable ?h1 t" for b t
      using ok that e by (simp add: tracking_ok_def)
    have "last_tracking b t (hu_sent ?h1) = tracked b t ?h1"
      if "usable ?h1 t" "b = a \<Longrightarrow> members (hu_watchers h) a = []" for b t
      using l [OF that(1), of b] that(2) by (auto simp: tracked_def registered_runtime simp del: map_of_eq_Some_iff)
    moreover have "tracking_but a ?h1" unfolding tracking_but_def
    proof (intro allI impI)
      fix b t assume u: "usable ?h1 t"
      show "if b = a then map_of (active_agents (hu_runtime ?h1)) a \<noteq> Some t \<longrightarrow> \<not> last_tracking a t (hu_sent ?h1)
            else last_tracking b t (hu_sent ?h1) = tracked b t ?h1"
        using l [OF u, of b] l [OF u, of a] u by (simp add: tracked_def registered_runtime del: map_of_eq_Some_iff) blast
    qed
    ultimately show ?thesis using set_tracking_ok [of a ?h1 True] by (auto simp: tracking_ok_def)
  qed
  then show ?thesis
    using keeps_quiet [OF quiet_small(2)] by (auto simp: d Let_def keeps_tracking_def)
qed

lemma cleanup_cases:
  "\<exists>d. fst (cleanup_connection now s c h) = h\<lparr>hu_deploy := d\<rparr> \<or>
     fst (cleanup_connection now s c h) =
       set_runtime (fst (unregister_agent now (ac_client_id c) (Some s) (hu_runtime h))) (h\<lparr>hu_deploy := d\<rparr>)"
proof -
  let ?m = "if is_named c then on_agents (upsert_agent now (client_id_of c) (offline_upsert now)) else retP ()"
  have "\<exists>d. fst (?m h) = h\<lparr>hu_deploy := d\<rparr>"
    by (cases "is_named c") (auto simp: on_agents_def on_deploy_def split_beta intro: exI [of _ "hu_deploy h"])
  then obtain d r where m: "?m h = (h\<lparr>hu_deploy := d\<rparr>, r)" by (metis prod.collapse)
  have "fst (cleanup_connection now s c h) = h\<lparr>hu_deploy := d\<rparr> \<or>
     fst (cleanup_connection now s c h) =
       set_runtime (fst (unregister_agent now (ac_client_id c) (Some s) (hu_runtime h))) (h\<lparr>hu_deploy := d\<rparr>)"
    using m by (cases r) (simp_all add: cleanup_connection_def split_beta)
  then show ?thesis by blast
qed

lemma mark_dead_runtime: "mark_dead s (set_runtime rt x) = set_runtime rt (mark_dead s x)"
  by (cases x) (simp add: mark_dead_def set_runtime_def)

lemma mark_dead_snapshot: "mark_dead s (request_snapshot x) = request_snapshot (mark_dead s x)"
  by (cases x) (simp add: mark_dead_def request_snapshot_def)

lemma quiet_finish: "quiet h (finish_agent now s c h)"
proof -
  obtain d where d: "fst (cleanup_connection now s c h) = h\<lparr>hu_deploy := d\<rparr> \<or>
     fst (cleanup_connection now s c h) =
       set_runtime (fst (unregister_agent now (ac_client_id c) (Some s) (hu_runtime h))) (h\<lparr>hu_deploy := d\<rparr>)"
    using cleanup_cases by blast
  let ?g = "mark_dead s (h\<lparr>hu_deploy := d\<rparr>)"
  have g: "quiet h ?g" using quiet.trans [OF quiet_small(8) quiet_small(9)] .
  have "quiet ?g (set_runtime (fst (unregister_agent now (ac_client_id c) (Some s) (hu_runtime ?g))) ?g)"
    by (rule quiet_runtime [OF conns_rel_unregister]) simp
  from quiet.trans [OF g this] have
    "quiet h (mark_dead s (set_runtime (fst (unregister_agent now (ac_client_id c) (Some s) (hu_runtime h))) (h\<lparr>hu_deploy := d\<rparr>)))"
    unfolding mark_dead_runtime by (simp add: mark_dead_def)
  then have c: "quiet h (mark_dead s (fst (cleanup_connection now s c h)))" using d g by auto
  have q: "quiet h (mark_dead s (request_snapshot x))" if "quiet h (mark_dead s x)" for x
    using quiet.trans [OF that quiet_small(2)] by (simp add: mark_dead_snapshot)
  show ?thesis using c q [OF c] by (simp add: finish_agent_def split_beta)
qed

lemma quiet_merge: "quiet h (fst (on_live (merge_heartbeat now d) h))"
proof -
  have "quiet h (h\<lparr>hu_live := l\<rparr>)"
    if "active_agents (fst l) = active_agents (hu_runtime h)" "ar_closed (fst l) = ar_closed (hu_runtime h)" for l
    using that by (simp add: quiet_def usable_def tracked_def)
  moreover obtain rt tel where "hu_live h = (rt, tel)" by (cases "hu_live h")
  ultimately show ?thesis
    using merge_heartbeat_runtime(2,3) [of now d rt tel] by (simp add: on_live_def split_beta)
qed

lemma close_all_active: "map_of (active_agents (fst (close_all_connections now rt))) b = None"
proof -
  let ?step = "\<lambda>(a, ws) rt. reset_agent_runtime_state now a
      (close_socket ws (rt\<lparr>active_agents := AList.delete a (active_agents rt)\<rparr>))"
  have "map_of (active_agents (fold ?step l rt)) b = (if b \<in> fst ` set l then None else map_of (active_agents rt) b)" for l
    by (induction l arbitrary: rt) (auto simp: close_socket_def split_beta)
  then show ?thesis
    by (simp add: close_all_connections_def) (metis map_of_eq_None_iff)
qed

lemma keeps_shutdown: "keeps_tracking h (shutdown_open_connections now h)"
proof -
  define h1 where "h1 = fold (close_frontend now) (hu_clients h) h"
  let ?rt = "fst (close_all_connections now (hu_runtime h1))"
  let ?h3 = "set_runtime ?rt (h1\<lparr>hu_watchers := [], hu_watched := []\<rparr>)"
  have "keeps_tracking h h1" unfolding h1_def by (rule kt.folding) (rule keeps_leave)
  moreover have "tracking_ok ?h3" if ok: "tracking_ok h1"
    unfolding tracking_ok_def
  proof (intro allI impI)
    fix a s assume u: "usable ?h3 s"
    have c: "conns_rel {} (hu_runtime h1) ?rt" by (rule conns_rel_close_all)
    have s: "s \<notin> set (ar_closed ?rt)" using u by (simp add: usable_def set_runtime_def)
    then have "usable h1 s" using u c by (auto simp: usable_def set_runtime_def conns_rel_def)
    moreover have "map_of (active_agents (hu_runtime h1)) a \<noteq> Some s"
    proof
      assume "map_of (active_agents (hu_runtime h1)) a = Some s"
      then have "map_of (active_agents ?rt) a = Some s" using c s unfolding conns_rel_def by blast
      then show False using close_all_active [of now "hu_runtime h1" a] by simp
    qed
    ultimately have "\<not> last_tracking a s (hu_sent h1)" using ok by (simp add: tracking_ok_def tracked_def)
    then show "last_tracking a s (hu_sent ?h3) = tracked a s ?h3"
      by (simp add: tracked_def set_runtime_def members_def)
  qed
  ultimately show ?thesis by (simp add: keeps_tracking_def shutdown_open_connections_def Let_def h1_def)
qed

lemma quiet_answer: "plain_answer ev \<Longrightarrow> quiet h (fst (send_text s ev h))"
  by (auto simp: send_text_def quiet.refl plain_answer_def server_hello_def intro!: quiet_small)

lemma quiet_json: "quiet h (fst (send_json s m h))" "quiet h (fst (reject_frontend_command s r ty h))"
  by (simp_all add: reject_frontend_command_def send_json_def quiet.refl quiet_small)

lemma quiet_start: "quiet h (fst (start_frontend s u h))"
proof -
  have "effect id quiet (start_frontend s u)"
    unfolding start_frontend_def
  proof (intro quiet.bind quiet.mod)
    show "effect id quiet (send_json s m)" for m by (rule effectI) (simp add: quiet_json)
    show "quiet (id x) (id (x\<lparr>hu_clients := cl, hu_watched := wd\<rparr>))" for x cl wd
      using quiet.trans [OF quiet_small(4) quiet_small(5)] by simp
    show "effect id quiet (\<lambda>h. if latest_stats (hu_runtime h) \<noteq> [] then send_json s (m h) h else (h, Inr ()))" for m
      by (rule effectI) (simp add: quiet_json quiet.refl)
  qed (simp add: quiet_small)
  then show ?thesis by (simp add: effect_def)
qed

lemma quiet_watchdog: "quiet h (heartbeat_watchdog now h)"
  using quiet.trans [OF quiet_runtime [OF conns_rel_watchdog] quiet_small(2)]
    quiet_runtime [OF conns_rel_watchdog]
  by (simp add: heartbeat_watchdog_def split_beta Let_def)

lemma quiet_forget: "quiet h (forget_agent now a h)"
  unfolding forget_agent_def by (rule quiet_runtime [OF conns_rel_forget]) simp

lemma quiet_record: "quiet h (h\<lparr>hu_live := (fst (hu_live h), tel)\<rparr>)"
  by (simp add: quiet_def usable_def tracked_def)

lemmas quiet_ops = quiet_small quiet_send quiet_broadcasts quiet_close quiet_finish quiet_merge quiet_answer
  quiet_json quiet_start quiet_watchdog quiet_forget quiet_record

interpretation tracking: hub_contract keeps_tracking UNIV
  by unfold_locales
    (simp_all add: keeps_accept keeps_add_watcher keeps_remove_watcher keeps_leave keeps_shutdown
      keeps_quiet quiet_ops)

lemma starting_tracking: "starting w \<Longrightarrow> tracking_ok (hub_of w)"
  by (auto simp: starting_def init_hub_def tracking_ok_def tracked_def last_tracking_def live_init_def agent_runtime_init_def)

lemma watch_ok_mirrored:
  "watch_ok h \<Longrightarrow> s \<in> set (members (hu_watchers h) a) \<longleftrightarrow> a \<in> set (members (hu_watched h) s)"
  by (simp add: watch_ok_def mirrored_def)

lemma reachable_tracking: "reachable ctx w \<Longrightarrow> tracking_ok (hub_of w)"
proof (induction rule: reachable.induct)
  case (step w w')
  have "live_effect keeps_tracking (hub_of w) (hub_of w')"
    by (rule tracking.server_step_effect [OF step(2)]) (use reachable_basic [OF step(1)] in \<open>auto simp: idle_def\<close>)
  then show ?case using reachable_basic [OF step(1)] step.IH by (simp add: live_effect_def keeps_tracking_def)
qed (rule starting_tracking)

text \<open>Property C1. In every run, whatever connects, shakes hands, logs in, watches, fails, times out or is
  deleted: on every open socket, the last order about the windows of an agent says to capture them exactly
  if this is the socket of that agent and some browser in its loop watches the agent.\<close>

theorem windows_follow_watchers:
  assumes "reachable ctx w" and "usable (hub_of w) s"
  shows "last_tracking a s (hu_sent (hub_of w)) \<longleftrightarrow>
    get_agent_socket a (hu_runtime (hub_of w)) = Some s \<and>
    (\<exists>b \<in> set (se_fronts w). a \<in> set (members (hu_watched (hub_of w)) b))"
proof -
  have b: "idle w" "watch_ok (hub_of w)" using reachable_basic [OF assms(1)] by simp_all
  have "members (hu_watchers (hub_of w)) a \<noteq> [] \<longleftrightarrow> (\<exists>t. a \<in> set (members (hu_watched (hub_of w)) t))"
    using watch_ok_mirrored [OF b(2)] by (metis empty_iff empty_set hd_in_set)
  moreover have "a \<in> set (members (hu_watched (hub_of w)) t) \<Longrightarrow> t \<in> set (se_fronts w)" for t
    using b(1) by (fastforce simp: idle_def)
  ultimately show ?thesis
    using reachable_tracking [OF assms(1)] assms(2)
    by (auto simp: tracking_ok_def tracked_def get_agent_socket_def simp del: map_of_eq_Some_iff)
qed

section \<open>Orders reach accepted agents only\<close>

definition accepted :: "string \<Rightarrow> ws \<Rightarrow> (ws \<times> frame) list \<Rightarrow> bool" where
  "accepted a s fs \<longleftrightarrow>
     (\<exists>d. (s, EventFrame (AuthResultEv d)) \<in> set fs \<and> ar_status d = ''ok'' \<and> ar_agent_id d = a)"

definition harmless :: "ws \<times> frame \<Rightarrow> bool" where
  "harmless f \<longleftrightarrow>
     (case snd f of JsonFrame _ \<Rightarrow> True | EventFrame ev \<Rightarrow> event_type ev \<in> {''handshake'', ''auth_result''})"

definition guarded :: "(ws \<times> frame) list \<Rightarrow> bool" where
  "guarded fs \<longleftrightarrow> (\<forall>xs f ys. fs = xs @ f # ys \<longrightarrow> harmless f \<or> (\<exists>a. accepted a (fst f) xs))"

definition access_ok :: "hub \<Rightarrow> bool" where
  "access_ok h \<longleftrightarrow> guarded (hu_sent h) \<and>
     (\<forall>a s. map_of (active_agents (hu_runtime h)) a = Some s \<longrightarrow> accepted a s (hu_sent h))"

lemma accepted_mono: "accepted a s fs \<Longrightarrow> accepted a s (fs @ gs)"
  by (auto simp: accepted_def)

lemma guarded_snoc: "guarded fs \<Longrightarrow> harmless f \<or> (\<exists>a. accepted a (fst f) fs) \<Longrightarrow> guarded (fs @ [f])"
  unfolding guarded_def by (auto simp: append_eq_append_conv2 append_eq_Cons_conv Cons_eq_append_conv)

lemma guarded_append:
  assumes "guarded fs" and "\<And>f. f \<in> set gs \<Longrightarrow> harmless f \<or> (\<exists>a. accepted a (fst f) fs)"
  shows "guarded (fs @ gs)"
  using assms
proof (induction gs rule: rev_induct)
  case (snoc g gs)
  then have "guarded (fs @ gs)" by simp
  moreover have "harmless g \<or> (\<exists>a. accepted a (fst g) (fs @ gs))"
    using snoc.prems(2) [of g] by (auto dest: accepted_mono)
  ultimately show ?case using guarded_snoc [of "fs @ gs" g] by simp
qed simp

text \<open>No agent is registered, and what is sent is harmless or goes to the socket of an agent.\<close>

definition shrinks :: "agent_runtime \<Rightarrow> agent_runtime \<Rightarrow> bool" where
  "shrinks rt rt' \<longleftrightarrow> (\<forall>a t. map_of (active_agents rt') a = Some t \<longrightarrow> map_of (active_agents rt) a = Some t)"

interpretation shrinks: effect_relation shrinks
  by unfold_locales (auto simp: shrinks_def)

definition tame :: "hub \<Rightarrow> hub \<Rightarrow> bool" where
  "tame h h' \<longleftrightarrow> shrinks (hu_runtime h) (hu_runtime h') \<and>
     (\<exists>fs. hu_sent h' = hu_sent h @ fs \<and>
        (\<forall>f\<in>set fs. harmless f \<or> (\<exists>a. map_of (active_agents (hu_runtime h)) a = Some (fst f))))"

interpretation tame: effect_relation tame
proof unfold_locales
  show "tame h h" for h by (simp add: tame_def shrinks.refl)
  show "tame h h2" if "tame h h1" "tame h1 h2" for h h1 h2
  proof -
    obtain fs gs where f: "hu_sent h1 = hu_sent h @ fs" "hu_sent h2 = hu_sent h1 @ gs"
      "\<forall>f\<in>set fs. harmless f \<or> (\<exists>a. map_of (active_agents (hu_runtime h)) a = Some (fst f))"
      "\<forall>f\<in>set gs. harmless f \<or> (\<exists>a. map_of (active_agents (hu_runtime h1)) a = Some (fst f))"
      using \<open>tame h h1\<close> \<open>tame h1 h2\<close> by (auto simp: tame_def)
    have s: "shrinks (hu_runtime h) (hu_runtime h1)" "shrinks (hu_runtime h) (hu_runtime h2)"
      using \<open>tame h h1\<close> \<open>tame h1 h2\<close> shrinks.trans by (auto simp: tame_def)
    have "\<forall>f\<in>set (fs @ gs). harmless f \<or> (\<exists>a. map_of (active_agents (hu_runtime h)) a = Some (fst f))"
      using f(3,4) s(1) unfolding shrinks_def set_append by blast
    then show ?thesis using f(1,2) s(2) unfolding tame_def by (metis append.assoc)
  qed
qed

lemma tame_access:
  assumes "tame h h'" and "access_ok h"
  shows "access_ok h'"
proof -
  obtain fs where f: "hu_sent h' = hu_sent h @ fs"
    "\<forall>f\<in>set fs. harmless f \<or> (\<exists>a. map_of (active_agents (hu_runtime h)) a = Some (fst f))"
    using assms(1) by (auto simp: tame_def)
  have "guarded (hu_sent h @ fs)"
    by (rule guarded_append) (use assms(2) f(2) in \<open>auto simp: access_ok_def simp del: map_of_eq_Some_iff\<close>)
  then show ?thesis
    using assms f(1) accepted_mono unfolding access_ok_def tame_def shrinks_def by metis
qed

lemma shrinks_drop: "shrinks rt (rt\<lparr>active_agents := AList.delete a (active_agents rt)\<rparr>)"
  by (simp add: shrinks_def)

lemma shrinks_unregister: "shrinks rt (fst (unregister_agent now a s rt))"
  by (simp add: unregister_agent_def Let_def shrinks_def)

lemma shrinks_timeout: "shrinks rt (fst (timeout_agent now a rt))"
  by (simp add: timeout_agent_def shrinks_def close_socket_def split: option.split)

lemma shrinks_timeouts: "shrinks rt (fst (timeout_agents now as rt))"
proof (induction as arbitrary: rt)
  case (Cons a as)
  show ?case using shrinks.trans [OF shrinks_timeout Cons.IH] by (simp add: split_beta)
qed (simp add: shrinks.refl)

lemma shrinks_watchdog: "shrinks rt (fst (heartbeat_watchdog_round now rt))"
  by (auto simp: heartbeat_watchdog_round_def split_beta shrinks_timeouts shrinks.refl split: sum.split)

lemma shrinks_forget: "shrinks rt (remove_agent a (fst (timeout_agent now a rt)))"
  by (simp add: timeout_agent_def shrinks_def close_socket_def remove_agent_def split: option.split)

lemma shrinks_close_all: "shrinks rt (fst (close_all_connections now rt))"
  using close_all_active by (simp add: shrinks_def del: map_of_eq_Some_iff)

lemma tame_runtime: "shrinks (hu_runtime h) rt \<Longrightarrow> tame h (set_runtime rt h)"
  by (simp add: tame_def) (simp add: set_runtime_def)

lemma tame_small:
  "harmless (s, f) \<or> (\<exists>a. map_of (active_agents (hu_runtime h)) a = Some s) \<Longrightarrow> tame h (record_sent s f h)"
  "tame h (request_snapshot h)" "tame h (drop_client s h)" "tame h (h\<lparr>hu_clients := cl\<rparr>)"
  "tame h (h\<lparr>hu_watched := wd\<rparr>)" "tame h (h\<lparr>hu_sessions := se\<rparr>)" "tame h (h\<lparr>hu_snapshot := sn\<rparr>)"
  "tame h (h\<lparr>hu_deploy := d\<rparr>)" "tame h (mark_dead s h)" "tame h (h\<lparr>hu_watchers := wt\<rparr>)"
  by (auto simp: tame_def shrinks_def record_sent_def request_snapshot_def drop_client_def mark_dead_def
      simp del: map_of_eq_Some_iff)

lemma tame_send: "tame h (fst (send_to_agent now a ev h))"
proof (cases "get_agent_socket a (hu_runtime h)")
  case (Some s)
  have "tame h (set_runtime (fst (unregister_agent now (Some a) (Some s) (hu_runtime h))) h\<lparr>hu_snapshot := True\<rparr>)"
    using tame.trans [OF tame_runtime [OF shrinks_unregister] tame_small(7)] by simp
  then show ?thesis using Some tame_small(1) [where f = "EventFrame ev"]
    by (auto simp: send_to_agent_def get_agent_socket_def simp del: map_of_eq_Some_iff)
qed (simp add: send_to_agent_def tame.refl)

lemma tame_client: "tame h (send_client s msg h)"
  by (simp add: send_client_def tame_small harmless_def)

lemma tame_broadcasts:
  "tame h (broadcast_visible k m h)" "tame h (broadcast_to_frontends v h)" "tame h (snapshot_turn h)"
proof -
  have b: "tame h (broadcast_visible k m h)" "tame h (broadcast_to_frontends v h)" for k m v h
    unfolding broadcast_visible_def broadcast_to_frontends_def
    by (rule tame.folding, simp add: tame_client tame.refl)+
  show "tame h (broadcast_visible k m h)" "tame h (broadcast_to_frontends v h)" by (rule b)+
  show "tame h (snapshot_turn h)"
    using tame.trans [OF tame_small(7) b(2)] by (simp add: snapshot_turn_def Let_def tame_small tame.refl)
qed

lemma tame_track: "tame h (fst (set_agent_window_tracking now a b h))"
  by (simp add: set_agent_window_tracking_def tame_send)

lemma tame_add: "tame h (add_watcher now s a h)"
proof -
  have e: "tame h (h\<lparr>hu_watchers := wt, hu_watched := wd\<rparr>)" for wt wd
    using tame.trans [OF tame_small(10) tame_small(5)] by simp
  show ?thesis
    using tame.trans [OF e tame_track] by (simp add: add_watcher_def Let_def tame.refl tame_small e)
qed

lemma tame_remove: "tame h (remove_watcher now s a h)"
proof -
  define h0 where "h0 = (case map_of (hu_watched h) s of None \<Rightarrow> h
    | Some watched \<Rightarrow> h\<lparr>hu_watched := AList.update s (removeAll a watched) (hu_watched h)\<rparr>)"
  have 0: "tame h h0" by (simp add: h0_def tame.refl tame_small split: option.split)
  show ?thesis
    using 0 tame.trans [OF 0 tame_small(10)] tame.trans [OF tame.trans [OF 0 tame_small(10)] tame_track]
    by (simp add: remove_watcher_def Let_def h0_def [symmetric] tame.refl)
qed

lemma tame_close: "tame h (fst (close_ws s h))"
  using tame_runtime [of h "close_socket s (hu_runtime h)"]
  by (simp add: close_ws_def tame.refl shrinks_def close_socket_def)

lemma tame_leave: "tame h (finish_frontend now s h)" "tame h (close_frontend now s h)"
proof -
  have r: "tame h (remove_all_watchers now s h)" for h
    unfolding remove_all_watchers_def by (rule tame.folding) (rule tame_remove)
  have k: "tame g (g\<lparr>hu_watched := wd, hu_clients := cl\<rparr>)" for g wd cl
    using tame.trans [OF tame_small(5) tame_small(4)] by simp
  show "tame h (finish_frontend now s h)"
    using tame.trans [OF r k] by (simp add: finish_frontend_def Let_def)
  show "tame h (close_frontend now s h)"
    using tame.trans [OF tame.trans [OF r tame_close] k] by (simp add: close_frontend_def Let_def)
qed

lemma tame_finish: "tame h (finish_agent now s c h)"
proof -
  obtain d where d: "fst (cleanup_connection now s c h) = h\<lparr>hu_deploy := d\<rparr> \<or>
     fst (cleanup_connection now s c h) =
       set_runtime (fst (unregister_agent now (ac_client_id c) (Some s) (hu_runtime h))) (h\<lparr>hu_deploy := d\<rparr>)"
    using cleanup_cases by blast
  have "tame h (set_runtime (fst (unregister_agent now (ac_client_id c) (Some s) (hu_runtime h))) (h\<lparr>hu_deploy := d\<rparr>))"
    using tame.trans [OF tame_small(8) tame_runtime [of "h\<lparr>hu_deploy := d\<rparr>", OF shrinks_unregister]] by simp
  then have c: "tame h (fst (cleanup_connection now s c h))" using d tame_small(8) by auto
  show ?thesis
    using tame.trans [OF c tame_small(9)] tame.trans [OF tame.trans [OF c tame_small(2)] tame_small(9)]
    by (simp add: finish_agent_def split_beta)
qed

lemma tame_merge: "tame h (fst (on_live (merge_heartbeat now d) h))"
proof -
  obtain rt tel where "hu_live h = (rt, tel)" by (cases "hu_live h")
  then show ?thesis
    using merge_heartbeat_runtime(2) [of now d rt tel] by (simp add: on_live_def split_beta tame_def shrinks_def)
qed

lemma tame_answer: "plain_answer ev \<Longrightarrow> tame h (fst (send_text s ev h))"
  by (auto simp: send_text_def tame.refl plain_answer_def server_hello_def harmless_def intro!: tame_small)

lemma tame_json: "tame h (fst (send_json s m h))" "tame h (fst (reject_frontend_command s r ty h))"
  by (simp_all add: reject_frontend_command_def send_json_def tame.refl tame_small harmless_def)

lemma tame_start: "tame h (fst (start_frontend s u h))"
proof -
  have "effect id tame (start_frontend s u)"
    unfolding start_frontend_def
  proof (intro tame.bind tame.mod)
    show "effect id tame (send_json s m)" for m by (rule effectI) (simp add: tame_json)
    show "tame (id x) (id (x\<lparr>hu_clients := cl, hu_watched := wd\<rparr>))" for x cl wd
      using tame.trans [OF tame_small(4) tame_small(5)] by simp
    show "effect id tame (\<lambda>h. if latest_stats (hu_runtime h) \<noteq> [] then send_json s (m h) h else (h, Inr ()))" for m
      by (rule effectI) (simp add: tame_json tame.refl)
  qed (simp add: tame_small)
  then show ?thesis by (simp add: effect_def)
qed

lemma tame_watchdog: "tame h (heartbeat_watchdog now h)"
  using tame.trans [OF tame_runtime [OF shrinks_watchdog] tame_small(2)] tame_runtime [OF shrinks_watchdog]
  by (simp add: heartbeat_watchdog_def split_beta Let_def)

lemma tame_forget: "tame h (forget_agent now a h)"
  unfolding forget_agent_def by (rule tame_runtime [OF shrinks_forget])

lemma tame_shutdown: "tame h (shutdown_open_connections now h)"
proof -
  have 1: "tame h (fold (close_frontend now) (hu_clients h) h)" by (rule tame.folding) (rule tame_leave)
  have e: "tame g (g\<lparr>hu_watchers := wt, hu_watched := wd\<rparr>)" for g wt wd
    using tame.trans [OF tame_small(10) tame_small(5)] by simp
  show ?thesis
    using tame.trans [OF tame.trans [OF 1 e] tame_runtime [OF shrinks_close_all]]
    by (simp add: shutdown_open_connections_def Let_def)
qed

lemma tame_record: "tame h (h\<lparr>hu_live := (fst (hu_live h), tel)\<rparr>)"
  by (simp add: tame_def shrinks.refl)

lemmas tame_ops = tame_small tame_send tame_broadcasts tame_close tame_finish tame_merge tame_answer tame_add
  tame_remove tame_leave tame_json tame_start tame_watchdog tame_forget tame_record tame_shutdown

definition keeps_access :: "hub \<Rightarrow> hub \<Rightarrow> bool" where
  "keeps_access h h' \<longleftrightarrow> (access_ok h \<longrightarrow> access_ok h')"

lemma keeps_tame: "tame h h' \<Longrightarrow> keeps_access h h'"
  using tame_access by (simp add: keeps_access_def)

lemma keeps_access_accept:
  assumes "live_registry (hub_registry h)"
  shows "keeps_access h (fst (accept_handshake now s a issued h))"
proof (cases "usable h s")
  case False
  then show ?thesis by (simp add: accept_handshake_def send_text_def bindP_def keeps_access_def)
next
  case True
  obtain d where d: "accept_handshake now s a issued h =
     (let h1 = registered_hub now s a issued d h
      in (request_snapshot (if members (hu_watchers h) a \<noteq> [] then fst (set_agent_window_tracking now a True h1) else h1),
          Inr True))"
    using accept_runs [OF assms True] by blast
  let ?h1 = "registered_hub now s a issued d h"
  have "access_ok ?h1" if "access_ok h"
  proof -
    let ?f = "(s, EventFrame (accept_answer a issued))"
    have "harmless ?f" by (simp add: harmless_def accept_answer_def)
    moreover have "accepted a s (hu_sent h @ [?f])"
      by (auto simp: accepted_def accept_answer_def default_auth_result_def)
    moreover have "guarded (hu_sent h @ [?f])"
      using that guarded_snoc [of "hu_sent h" ?f] \<open>harmless ?f\<close> by (simp add: access_ok_def)
    ultimately show ?thesis
      using that accepted_mono by (auto simp: access_ok_def registered_runtime simp del: map_of_eq_Some_iff)
  qed
  moreover have "tame ?h1 (fst (accept_handshake now s a issued h))"
    using tame.trans [OF tame_track tame_small(2)] by (simp add: d Let_def tame_small)
  ultimately show ?thesis using tame_access by (auto simp: keeps_access_def)
qed

interpretation access: hub_contract keeps_access UNIV
proof (rule hub_contract.intro)
  show "effect_relation keeps_access" by unfold_locales (auto simp: keeps_access_def)
  show "hub_contract_axioms keeps_access UNIV"
    by unfold_locales (simp_all add: keeps_access_accept keeps_tame tame_ops)
qed

text \<open>Property C2. In every run, an order to a socket (anything but a greeting or the answer to a handshake)
  comes after the socket was accepted in a handshake, and a socket that is registered for an agent was
  accepted as that agent.\<close>

theorem orders_reach_accepted_agents:
  assumes "reachable ctx w" and "hu_sent (hub_of w) = xs @ (s, EventFrame ev) # ys"
    and "event_type ev \<notin> {''handshake'', ''auth_result''}"
  shows "(\<exists>d. (s, EventFrame (AuthResultEv d)) \<in> set xs \<and> ar_status d = ''ok'') \<and>
    (get_agent_socket a (hu_runtime (hub_of w)) = Some t \<longrightarrow>
      (\<exists>d. (t, EventFrame (AuthResultEv d)) \<in> set (hu_sent (hub_of w)) \<and> ar_status d = ''ok'' \<and> ar_agent_id d = a))"
proof -
  have "access_ok (hub_of w)"
    using assms(1)
  proof (induction rule: reachable.induct)
    case (step w w')
    have "live_effect keeps_access (hub_of w) (hub_of w')"
      by (rule access.server_step_effect [OF step(2)]) (use reachable_basic [OF step(1)] in \<open>auto simp: idle_def\<close>)
    then show ?case using reachable_basic [OF step(1)] step.IH by (simp add: live_effect_def keeps_access_def)
  qed (auto simp: starting_def init_hub_def access_ok_def guarded_def live_init_def agent_runtime_init_def)
  note ok = this [unfolded access_ok_def guarded_def]
  have "harmless (s, EventFrame ev) \<or> (\<exists>a. accepted a s xs)"
    using conjunct1 [OF ok, rule_format, OF assms(2)] by simp
  then have "\<exists>a. accepted a s xs" using assms(3) by (simp add: harmless_def)
  then show ?thesis using ok by (auto simp: accepted_def get_agent_socket_def simp del: map_of_eq_Some_iff)
qed

section \<open>A run\<close>

text \<open>An agent connects and shakes hands, a browser logs in and watches the agent.\<close>

definition run_ctx :: session_ctx where
  "run_ctx = \<lparr>sx_auth = sample_ax,
     sx_validate = (\<lambda>_ raw. if raw = [] then Inr (HandshakeEv (default_handshake\<lparr>hs_client_id := ''vm''\<rparr>))
       else Inr (WatchProcessManagerEv \<lparr>wp_agent_id = ''vm''\<rparr>))\<rparr>"

definition sample_browser :: user_session where
  "sample_browser = \<lparr>us_access_token = ''t'', us_user = sample_user [''viewer''], us_created_at = 0,
     us_expires_at = 99, us_last_seen_at = 0\<rparr>"

definition run_start :: server where
  "run_start = \<lparr>se_svc = \<lparr>sv_db = db_start, sv_net = init_hub (reg_start empty_registry)\<rparr>,
     se_users = (new_user_service False)\<lparr>sessions := [(''t'', sample_browser)]\<rparr>,
     se_conns = [], se_fronts = []\<rparr>"

definition run_connected :: server where
  "run_connected = websocket_endpoint 1 None run_start"

definition run_accepted :: server where
  "run_accepted = agent_turn run_ctx 5 ''u'' 1 ''{}'' run_connected"

definition login_frame :: string where
  "login_frame = ''{'' @ [dquote_char] @ ''type'' @ [dquote_char] @ '':'' @ [dquote_char] @ ''auth'' @ [dquote_char] @
     '','' @ [dquote_char] @ ''access_token'' @ [dquote_char] @ '':'' @ [dquote_char] @ ''t'' @ [dquote_char] @ ''}''"

definition run_browsing :: server where
  "run_browsing = frontend_endpoint 6 2 login_frame run_accepted"

definition run_watching :: server where
  "run_watching = frontend_turn run_ctx 7 2 (''{'' @ [dquote_char] @ ''a'' @ [dquote_char] @ '':1}'') run_browsing"

lemma run_connected_facts: "connecting 1 run_start" "map_of (se_conns run_connected) 1 = Some (new_conn None)"
    "se_fronts run_connected = []"
  by code_simp+

lemma run_accepted_facts: "connecting 2 run_accepted" by code_simp

lemma run_browsing_facts: "se_fronts run_browsing = [2]" by code_simp

lemma run_watching_usable: "usable (hub_of run_watching) 1" by code_simp

lemma run_watching_tracks: "last_tracking ''vm'' 1 (hu_sent (hub_of run_watching))" by code_simp

lemma run_reachable: "reachable run_ctx run_watching"
proof -
  have "live_registry (reg_start empty_registry)"
    by (simp add: live_registry_def reg_start_def registry_ok_empty)
  then have "starting run_start" by (auto simp: starting_def run_start_def)
  then have "reachable run_ctx run_connected"
    unfolding run_connected_def
    by (rule reachable.step [OF reachable.start server_step.agent_connects]) (rule run_connected_facts)
  then have "reachable run_ctx run_accepted"
    unfolding run_accepted_def
    by (rule reachable.step [OF _ server_step.agent_sends [OF run_connected_facts(2)]]) (simp_all add: run_connected_facts)
  then have "reachable run_ctx run_browsing"
    unfolding run_browsing_def
    by (rule reachable.step [OF _ server_step.browser_connects]) (rule run_accepted_facts)
  then show ?thesis
    unfolding run_watching_def
    by (rule reachable.step [OF _ server_step.browser_sends]) (simp add: run_browsing_facts)
qed

lemma run_watching_socket: "get_agent_socket ''vm'' (hu_runtime (hub_of run_watching)) = Some 1"
  using reachable_tracking [OF run_reachable] run_watching_usable run_watching_tracks
  by (simp add: tracking_ok_def tracked_def get_agent_socket_def)

theorem windows_follow_watchers_witness:
  "\<exists>w. reachable run_ctx w \<and> get_agent_socket ''vm'' (hu_runtime (hub_of w)) = Some 1 \<and>
     (\<exists>b. b \<in> set (se_fronts w) \<and> ''vm'' \<in> set (members (hu_watched (hub_of w)) b))"
  using windows_follow_watchers [OF run_reachable run_watching_usable, of "''vm''"] run_watching_tracks
    run_reachable by blast

lemma last_tracking_sent:
  "last_tracking a s fs \<Longrightarrow> \<exists>xs d ys. fs = xs @ (s, EventFrame (SetWindowTrackingEv d)) # ys"
proof (induction fs rule: rev_induct)
  case (snoc f fs)
  then show ?case
    by (auto simp: tracking_frame_def split: prod.splits frame.splits net_event.splits if_splits) blast+
qed (simp add: last_tracking_def)

theorem orders_reach_accepted_agents_witness:
  "\<exists>xs d ys e. hu_sent (hub_of run_watching) = xs @ (1, EventFrame (SetWindowTrackingEv d)) # ys \<and>
     (1, EventFrame (AuthResultEv e)) \<in> set xs \<and> ar_status e = ''ok''"
proof -
  obtain xs d ys where s: "hu_sent (hub_of run_watching) = xs @ (1, EventFrame (SetWindowTrackingEv d)) # ys"
    using last_tracking_sent [OF run_watching_tracks] by blast
  with orders_reach_accepted_agents [OF run_reachable this] show ?thesis by fastforce
qed

section \<open>A connection that ends late\<close>

text \<open>Property C36. The connection of an agent that has connected again ends: the runtime keeps the new socket, the
  registry says that the agent is offline.\<close>

theorem late_cleanup_marks_agent_offline:
  assumes "get_agent_socket a (hu_runtime h) = Some t" and "t \<noteq> s" and "ac_client_id c = Some a" and "a \<noteq> []"
    and "live_registry (hub_registry h)"
  shows "\<exists>h' v. cleanup_connection now s c h = (h', Inr False) \<and> get_agent_socket a (hu_runtime h') = Some t \<and>
    find_agent a (hub_registry h') = Some v \<and> ag_connection_status v = ''offline''"
proof -
  obtain db where db: "upsert_agent now a (offline_upsert now) (hub_registry h) = (db, Inr ())"
    using upsert_live [OF assms(5), of "offline_upsert now" now a]
    by (metis (no_types, lifting) agent_upsert.select_convs(8) agent_upsert.update_convs(3,4,6) no_upsert_def
        offline_upsert_def prod.collapse)
  have "find_agent a db = Some (map_agent_row (upsert_row now a (offline_upsert now) (find_agent a (hub_registry h))))"
    using find_agent_upsert [OF _ db, of a] assms(5) by (simp add: live_registry_def)
  moreover have "ag_connection_status (map_agent_row (upsert_row now a (offline_upsert now) e)) = ''offline''" for e
    by (simp add: map_agent_row_def upsert_row_def Let_def offline_upsert_def no_upsert_def)
  ultimately show ?thesis
    using assms(1-4) db
    by (simp add: cleanup_connection_def is_named_def client_id_of_def on_agents_def on_deploy_def on_registry_def
        unregister_agent_def get_agent_socket_def set_runtime_def del: map_of_eq_Some_iff)
qed

theorem late_cleanup_marks_agent_offline_witness:
  "\<exists>h' v. cleanup_connection 9 7 \<lparr>ac_client_id = Some ''vm'', ac_authenticated = True, ac_token = None\<rparr>
      (hub_of run_watching) = (h', Inr False) \<and> get_agent_socket ''vm'' (hu_runtime h') = Some 1 \<and>
    find_agent ''vm'' (hub_registry h') = Some v \<and> ag_connection_status v = ''offline''"
proof (rule late_cleanup_marks_agent_offline)
  show "get_agent_socket ''vm'' (hu_runtime (hub_of run_watching)) = Some 1" by (rule run_watching_socket)
  show "live_registry (hub_registry (hub_of run_watching))" using reachable_basic [OF run_reachable] by simp
qed simp_all

section \<open>Commands of a browser\<close>

text \<open>Property C35. Without the operator role no event that starts a program or a session leaves the server.\<close>

theorem operator_commands_need_role:
  assumes "event_type ev \<in> set operator_event_types"
    and "\<not> websocket_has_minimum_role (map_of (hu_sessions h) s) ''operator''"
  shows "fst (router_dispatch (frontend_routes now s) ev h) =
    (if usable h s then record_sent s (JsonFrame [(''kind'', PStr ''command_rejected''),
        (''event_type'', PStr (event_type ev)), (''error'', PStr ''Operator role required'')]) h else h)"
proof -
  have "event_type ev \<in> set command_event_types" using assms(1) by (auto simp: command_event_types_def)
  moreover have "event_type ev \<notin> {''watch_process_manager'', ''unwatch_process_manager''}"
    using assms(1) by (auto simp: operator_event_types_def)
  moreover have "upper_char CHR ''o'' # lower ''perator'' = ''Operator''" by code_simp
  ultimately show ?thesis
    using assms by (simp add: router_dispatch_def frontend_routes_def handle_command_def reject_frontend_command_def
        send_json_def bindP_def)
qed

theorem operator_commands_need_role_witness:
  "hu_sent (fst (router_dispatch (frontend_routes 9 2) (StartProgramEv default_start_program)
      ((init_hub empty_registry)\<lparr>hu_sessions := [(2, sample_browser)]\<rparr>))) =
   [(2, JsonFrame [(''kind'', PStr ''command_rejected''),
     (''event_type'', PStr ''start_program''), (''error'', PStr ''Operator role required'')])]"
proof -
  let ?h = "(init_hub empty_registry)\<lparr>hu_sessions := [(2, sample_browser)]\<rparr>"
  have r: "\<not> websocket_has_minimum_role (map_of (hu_sessions ?h) 2) ''operator''" "usable ?h 2"
    by code_simp+
  have "hu_sent ?h = []" by (simp add: init_hub_def)
  then show ?thesis
    using operator_commands_need_role [of "StartProgramEv default_start_program", OF _ r(1), of 9] r(2)
    by (simp add: operator_event_types_def)
qed

end
