(* ===== verification/Rdp_Monitor.thy ===== *)
theory Rdp_Monitor
  imports Py_Prelude "HOL-Library.Char_ord" "HOL-Library.List_Lexorder" "HOL-Library.Product_Lexorder"
begin

text \<open>
  The bookkeeping of open remote desktop sessions (\<open>services/rdp_monitor_service.py\<close>): the tracked
  sessions by their Guacamole token, the token of each tunnel, and the preferred tunnel of each
  token. A dictionary is an association list in insertion order, a Python set of texts is a set;
  \<open>sorted(s)[-1]\<close> is its maximum in the order of code points. A reading of \<open>time.time()\<close> is a number
  of microseconds, given to the operations that take one. Arguments are texts, so \<open>_clean_string\<close>
  is \<open>strip\<close>.
\<close>

section \<open>State\<close>

record rdp_session =
  rs_auth_token :: string
  rs_agent_id :: string
  rs_connection_id :: string
  rs_data_source :: string
  rs_created_at :: int
  rs_last_activity_at :: int
  rs_username :: string
  rs_owner :: "(string \<times> string) list option"
  rs_tunnel_uuids :: "string set"

record rdp_monitor =
  rm_idle_timeout :: int
  rm_sessions :: "(string \<times> rdp_session) list"
  rm_token_by_tunnel :: "(string \<times> string) list"
  rm_primary :: "(string \<times> string) list"

definition rdp_monitor_init :: "int option \<Rightarrow> string option \<Rightarrow> rdp_monitor" where
  "rdp_monitor_init idle_timeout_seconds raw_env =
     (let configured =
            (case idle_timeout_seconds of
               Some n \<Rightarrow> n
             | None \<Rightarrow> the_or (parse_int (strip (ostr_or raw_env ''900''))) 900)
      in \<lparr>rm_idle_timeout = max 0 configured, rm_sessions = [], rm_token_by_tunnel = [],
          rm_primary = []\<rparr>)"

definition owner_subject :: "(string \<times> string) list option \<Rightarrow> string" where
  "owner_subject owner = (case owner of None \<Rightarrow> [] | Some d \<Rightarrow> strip (the_or (map_of d ''subject'') []))"

definition clean_owner :: "(string \<times> string) list \<Rightarrow> (string \<times> string) list" where
  "clean_owner owner = map (\<lambda>(k, v). (k, strip v)) owner"

section \<open>Sessions\<close>

text \<open>The keyword arguments of \<open>register_session\<close> other than the token.\<close>

record rdp_details =
  rd_agent_id :: string
  rd_connection_id :: string
  rd_data_source :: string
  rd_username :: string
  rd_owner :: "(string \<times> string) list option"

definition no_details :: "string \<Rightarrow> rdp_details" where
  "no_details agent_id =
     \<lparr>rd_agent_id = agent_id, rd_connection_id = [], rd_data_source = [], rd_username = [],
      rd_owner = None\<rparr>"

definition refresh_session :: "int \<Rightarrow> rdp_details \<Rightarrow> rdp_session \<Rightarrow> rdp_session" where
  "refresh_session now d s =
     s\<lparr>rs_agent_id := str_or (strip (rd_agent_id d)) (rs_agent_id s),
       rs_connection_id := str_or (strip (rd_connection_id d)) (rs_connection_id s),
       rs_data_source := str_or (strip (rd_data_source d)) (rs_data_source s),
       rs_username := str_or (strip (rd_username d)) (rs_username s),
       rs_owner := (case rd_owner d of None \<Rightarrow> rs_owner s | Some ow \<Rightarrow> Some (clean_owner ow)),
       rs_last_activity_at := now\<rparr>"

definition new_session :: "int \<Rightarrow> string \<Rightarrow> rdp_details \<Rightarrow> rdp_session" where
  "new_session now tok d =
     \<lparr>rs_auth_token = tok, rs_agent_id = strip (rd_agent_id d),
      rs_connection_id = strip (rd_connection_id d), rs_data_source = strip (rd_data_source d),
      rs_created_at = now, rs_last_activity_at = now, rs_username = strip (rd_username d),
      rs_owner = map_option clean_owner (rd_owner d), rs_tunnel_uuids = {}\<rparr>"

definition register_session :: "int \<Rightarrow> string \<Rightarrow> rdp_details \<Rightarrow> rdp_monitor \<Rightarrow> rdp_monitor" where
  "register_session now auth_token d m =
     (let tok = strip auth_token in
      if tok = [] then m
      else m\<lparr>rm_sessions := AList.update tok
             (case map_of (rm_sessions m) tok of
                Some s \<Rightarrow> refresh_session now d s
              | None \<Rightarrow> new_session now tok d) (rm_sessions m)\<rparr>)"

definition activity_key :: "rdp_session \<Rightarrow> int \<times> int" where
  "activity_key s = (rs_last_activity_at s, rs_created_at s)"

text \<open>\<open>max\<close> with a key takes the first maximal element.\<close>

definition latest_of :: "rdp_session list \<Rightarrow> rdp_session option" where
  "latest_of ss = (case ss of [] \<Rightarrow> None | s # rest \<Rightarrow> Some (max_by activity_key s rest))"

definition get_session_for_agent :: "string \<Rightarrow> rdp_monitor \<Rightarrow> rdp_session option" where
  "get_session_for_agent agent_id m =
     (let a = strip agent_id in
      if a = [] then None
      else latest_of (filter (\<lambda>s. rs_agent_id s = a) (map snd (rm_sessions m))))"

text \<open>\<open>list.sort\<close> with \<open>reverse=True\<close> keeps the order of equal elements.\<close>

definition get_sessions_for_agent :: "string \<Rightarrow> rdp_monitor \<Rightarrow> rdp_session list" where
  "get_sessions_for_agent agent_id m =
     (let a = strip agent_id in
      if a = [] then []
      else sort_key (\<lambda>s. (- rs_last_activity_at s, - rs_created_at s))
             (filter (\<lambda>s. rs_agent_id s = a) (map snd (rm_sessions m))))"

definition get_session_for_owner :: "string \<Rightarrow> rdp_monitor \<Rightarrow> rdp_session option" where
  "get_session_for_owner subject m =
     (let s = strip subject in
      if s = [] then None
      else latest_of (filter (\<lambda>r. owner_subject (rs_owner r) = s) (map snd (rm_sessions m))))"

definition get_rdp_session :: "string \<Rightarrow> rdp_monitor \<Rightarrow> rdp_session option" where
  "get_rdp_session auth_token m =
     (let tok = strip auth_token in if tok = [] then None else map_of (rm_sessions m) tok)"

section \<open>Tunnels\<close>

text \<open>A change of the session object of a token, seen through the dictionary.\<close>

definition change_session :: "string \<Rightarrow> (rdp_session \<Rightarrow> rdp_session) \<Rightarrow> rdp_monitor \<Rightarrow> rdp_monitor" where
  "change_session tok f m =
     (case map_of (rm_sessions m) tok of
        None \<Rightarrow> m
      | Some s \<Rightarrow> m\<lparr>rm_sessions := AList.update tok (f s) (rm_sessions m)\<rparr>)"

definition set_primary :: "string \<Rightarrow> string \<Rightarrow> rdp_monitor \<Rightarrow> rdp_monitor" where
  "set_primary tok t m = m\<lparr>rm_primary := AList.update tok t (rm_primary m)\<rparr>"

definition get_primary_tunnel_uuid :: "string \<Rightarrow> rdp_monitor \<Rightarrow> rdp_monitor \<times> string" where
  "get_primary_tunnel_uuid auth_token m =
     (let tok = strip auth_token in
      case map_of (rm_sessions m) tok of
        None \<Rightarrow> (m, [])
      | Some s \<Rightarrow>
          if rs_tunnel_uuids s = {} then (m, [])
          else
            (let preferred = strip (the_or (map_of (rm_primary m) tok) []) in
             if preferred \<noteq> [] \<and> preferred \<in> rs_tunnel_uuids s then (m, preferred)
             else (let next = Max (rs_tunnel_uuids s) in (set_primary tok next m, next))))"

definition get_tunnel_uuids :: "string \<Rightarrow> rdp_monitor \<Rightarrow> string list" where
  "get_tunnel_uuids auth_token m =
     (case map_of (rm_sessions m) (strip auth_token) of
        None \<Rightarrow> []
      | Some s \<Rightarrow> sorted_list_of_set (rs_tunnel_uuids s))"

definition touch_auth_token :: "int \<Rightarrow> string \<Rightarrow> rdp_monitor \<Rightarrow> rdp_monitor" where
  "touch_auth_token now auth_token m =
     change_session (strip auth_token) (\<lambda>s. s\<lparr>rs_last_activity_at := now\<rparr>) m"

definition bind_tunnel :: "int \<Rightarrow> string \<Rightarrow> string \<Rightarrow> rdp_monitor \<Rightarrow> rdp_monitor" where
  "bind_tunnel now auth_token tunnel_uuid m =
     (let tok = strip auth_token; t = strip tunnel_uuid in
      if tok = [] \<or> t = [] then m
      else
        (let m1 = (if map_of (rm_sessions m) tok = None
                   then register_session now tok (no_details []) m else m);
             m2 = change_session tok (\<lambda>s. s\<lparr>rs_tunnel_uuids := insert t (rs_tunnel_uuids s),
                                          rs_last_activity_at := now\<rparr>) m1
         in set_primary tok t
              (m2\<lparr>rm_token_by_tunnel := AList.update t tok (rm_token_by_tunnel m2)\<rparr>)))"

definition touch_tunnel :: "int \<Rightarrow> string \<Rightarrow> rdp_monitor \<Rightarrow> rdp_monitor" where
  "touch_tunnel now tunnel_uuid m =
     (let t = strip tunnel_uuid in
      if t = [] then m
      else
        (case map_of (rm_token_by_tunnel m) t of
           None \<Rightarrow> m
         | Some tok \<Rightarrow> if tok = [] then m else set_primary tok t (touch_auth_token now tok m)))"

definition release_tunnel :: "string \<Rightarrow> rdp_monitor \<Rightarrow> rdp_monitor" where
  "release_tunnel tunnel_uuid m =
     (let t = strip tunnel_uuid in
      if t = [] then m
      else
        (let tok = the_or (map_of (rm_token_by_tunnel m) t) [];
             m1 = m\<lparr>rm_token_by_tunnel := AList.delete t (rm_token_by_tunnel m)\<rparr>
         in if tok = [] then m1
            else
              (case map_of (rm_sessions m1) tok of
                 None \<Rightarrow> m1
               | Some s \<Rightarrow>
                   (let rest = rs_tunnel_uuids s - {t};
                        m2 = change_session tok (\<lambda>s. s\<lparr>rs_tunnel_uuids := rest\<rparr>) m1
                    in if map_of (rm_primary m2) tok = Some t
                       then (if rest \<noteq> {} then set_primary tok (Max rest) m2
                             else m2\<lparr>rm_primary := AList.delete tok (rm_primary m2)\<rparr>)
                       else m2))))"

definition release_all_tunnels :: "string \<Rightarrow> rdp_monitor \<Rightarrow> rdp_monitor \<times> string list" where
  "release_all_tunnels auth_token m =
     (let released = get_tunnel_uuids auth_token m in (fold release_tunnel released m, released))"

text \<open>
  \<open>remove_session\<close> empties the tunnel set of the session object it returns, so its caller reads no
  tunnels from it.
\<close>

definition remove_session :: "string \<Rightarrow> rdp_monitor \<Rightarrow> rdp_monitor \<times> rdp_session option" where
  "remove_session auth_token m =
     (let tok = strip auth_token in
      if tok = [] then (m, None)
      else
        (case map_of (rm_sessions m) tok of
           None \<Rightarrow> (m, None)
         | Some s \<Rightarrow>
             (m\<lparr>rm_sessions := AList.delete tok (rm_sessions m),
                rm_primary := AList.delete tok (rm_primary m),
                rm_token_by_tunnel :=
                  filter (\<lambda>(t, k). \<not> (t \<in> rs_tunnel_uuids s \<and> k = tok)) (rm_token_by_tunnel m)\<rparr>,
              Some (s\<lparr>rs_tunnel_uuids := {}\<rparr>))))"

definition get_idle_auth_tokens :: "int \<Rightarrow> rdp_monitor \<Rightarrow> string list" where
  "get_idle_auth_tokens now m =
     (if rm_idle_timeout m \<le> 0 then []
      else
        (let cutoff = now - rm_idle_timeout m * 1000000 in
         map fst (filter (\<lambda>(_, s). rs_last_activity_at s \<le> cutoff) (rm_sessions m))))"

record rdp_snapshot_entry =
  se_session :: rdp_session
  se_owner_subject :: string
  se_idle :: int
  se_tunnel_count :: nat

definition rdp_build_snapshot :: "int \<Rightarrow> rdp_monitor \<Rightarrow> rdp_snapshot_entry list" where
  "rdp_build_snapshot now m =
     map (\<lambda>(_, s). \<lparr>se_session = s, se_owner_subject = owner_subject (rs_owner s),
                     se_idle = max 0 (now - rs_last_activity_at s),
                     se_tunnel_count = card (rs_tunnel_uuids s)\<rparr>) (rm_sessions m)"

section \<open>Well-formed monitors\<close>

text \<open>
  The three dictionaries as maps, and the tunnels a token has.
\<close>

abbreviation sess :: "rdp_monitor \<Rightarrow> string \<Rightarrow> rdp_session option" where
  "sess m \<equiv> map_of (rm_sessions m)"

abbreviation tunnel_token :: "rdp_monitor \<Rightarrow> string \<Rightarrow> string option" where
  "tunnel_token m \<equiv> map_of (rm_token_by_tunnel m)"

abbreviation primary :: "rdp_monitor \<Rightarrow> string \<Rightarrow> string option" where
  "primary m \<equiv> map_of (rm_primary m)"

definition tunnels_of :: "rdp_monitor \<Rightarrow> string \<Rightarrow> string set" where
  "tunnels_of m tok = (case sess m tok of None \<Rightarrow> {} | Some s \<Rightarrow> rs_tunnel_uuids s)"

definition clean :: "string \<Rightarrow> bool" where
  "clean s \<longleftrightarrow> s \<noteq> [] \<and> strip s = s"

lemma clean_strip [simp]: "strip a \<noteq> [] \<Longrightarrow> clean (strip a)"
  by (simp add: clean_def)

definition session_ok :: "string \<Rightarrow> rdp_session \<Rightarrow> bool" where
  "session_ok tok s \<longleftrightarrow> clean tok \<and> rs_auth_token s = tok \<and> finite (rs_tunnel_uuids s) \<and>
     (\<forall>t\<in>rs_tunnel_uuids s. clean t)"

definition rdp_ok :: "rdp_monitor \<Rightarrow> bool" where
  "rdp_ok m \<longleftrightarrow>
     distinct (map fst (rm_sessions m)) \<and> distinct (map fst (rm_token_by_tunnel m)) \<and>
     distinct (map fst (rm_primary m)) \<and>
     (\<forall>tok s. sess m tok = Some s \<longrightarrow> session_ok tok s) \<and>
     (\<forall>t tok. tunnel_token m t = Some tok \<longrightarrow> t \<in> tunnels_of m tok) \<and>
     (\<forall>tok t. primary m tok = Some t \<longrightarrow> t \<in> tunnels_of m tok)"

lemma rdp_okI:
  assumes "distinct (map fst (rm_sessions m))" "distinct (map fst (rm_token_by_tunnel m))"
    "distinct (map fst (rm_primary m))"
    "\<And>tok s. sess m tok = Some s \<Longrightarrow> session_ok tok s"
    "\<And>t tok. tunnel_token m t = Some tok \<Longrightarrow> t \<in> tunnels_of m tok"
    "\<And>tok t. primary m tok = Some t \<Longrightarrow> t \<in> tunnels_of m tok"
  shows "rdp_ok m"
  using assms by (simp add: rdp_ok_def)

lemma rdp_okD:
  assumes "rdp_ok m"
  shows "distinct (map fst (rm_sessions m))" "distinct (map fst (rm_token_by_tunnel m))"
    "distinct (map fst (rm_primary m))"
    "sess m tok = Some s \<Longrightarrow> session_ok tok s"
    "tunnel_token m t = Some tok \<Longrightarrow> t \<in> tunnels_of m tok"
    "primary m tok = Some t \<Longrightarrow> t \<in> tunnels_of m tok"
  using assms by (auto simp: rdp_ok_def)

lemma rdp_ok_init [simp]: "rdp_ok (rdp_monitor_init n e)"
  by (simp add: rdp_ok_def rdp_monitor_init_def Let_def)

lemma tunnels_ofD: "t \<in> tunnels_of m tok \<Longrightarrow> \<exists>s. sess m tok = Some s \<and> t \<in> rs_tunnel_uuids s"
  by (auto simp: tunnels_of_def split: option.splits)

lemma tunnels_of_clean: "rdp_ok m \<Longrightarrow> t \<in> tunnels_of m tok \<Longrightarrow> clean t \<and> clean tok"
  by (auto dest!: tunnels_ofD dest: rdp_okD(4) simp: session_ok_def)

lemma finite_tunnels_of: "rdp_ok m \<Longrightarrow> finite (tunnels_of m tok)"
  by (auto simp: tunnels_of_def session_ok_def dest: rdp_okD(4) split: option.splits)

text \<open>What the operations do to the three maps.\<close>

lemma change_session_maps [simp]:
  "sess (change_session tok f m) = (sess m)(tok := map_option f (sess m tok))"
  "rm_token_by_tunnel (change_session tok f m) = rm_token_by_tunnel m"
  "rm_primary (change_session tok f m) = rm_primary m"
  "rm_idle_timeout (change_session tok f m) = rm_idle_timeout m"
  by (auto simp: change_session_def fun_upd_idem split: option.splits)

lemma change_session_distinct [simp]:
  "distinct (map fst (rm_sessions m)) \<Longrightarrow> distinct (map fst (rm_sessions (change_session tok f m)))"
  by (auto simp: change_session_def split: option.splits)

lemma set_primary_maps [simp]:
  "rm_sessions (set_primary tok t m) = rm_sessions m"
  "rm_token_by_tunnel (set_primary tok t m) = rm_token_by_tunnel m"
  "rm_primary (set_primary tok t m) = AList.update tok t (rm_primary m)"
  "rm_idle_timeout (set_primary tok t m) = rm_idle_timeout m"
  by (simp_all add: set_primary_def)

lemma register_session_maps:
  "sess (register_session now a d m) =
     (if strip a = [] then sess m
      else (sess m)(strip a \<mapsto> (case sess m (strip a) of
             Some s \<Rightarrow> refresh_session now d s | None \<Rightarrow> new_session now (strip a) d)))"
  "rm_token_by_tunnel (register_session now a d m) = rm_token_by_tunnel m"
  "rm_primary (register_session now a d m) = rm_primary m"
  "rm_idle_timeout (register_session now a d m) = rm_idle_timeout m"
  by (simp_all add: register_session_def Let_def)

lemma refresh_session_simps [simp]:
  "rs_tunnel_uuids (refresh_session now d s) = rs_tunnel_uuids s"
  "rs_auth_token (refresh_session now d s) = rs_auth_token s"
  "rs_last_activity_at (refresh_session now d s) = now"
  "rs_tunnel_uuids (new_session now tok d) = {}"
  "rs_auth_token (new_session now tok d) = tok"
  "rs_last_activity_at (new_session now tok d) = now"
  by (simp_all add: refresh_session_def new_session_def)

lemma tunnels_of_register [simp]: "tunnels_of (register_session now a d m) = tunnels_of m"
  by (auto simp: tunnels_of_def register_session_maps fun_eq_iff split: option.splits)

lemma tunnels_of_set_primary [simp]: "tunnels_of (set_primary tok t m) = tunnels_of m"
  by (simp add: tunnels_of_def fun_eq_iff)

lemma tunnels_of_touch [simp]: "tunnels_of (touch_auth_token now a m) = tunnels_of m"
  by (auto simp: tunnels_of_def touch_auth_token_def fun_eq_iff split: option.splits)

lemma touch_maps [simp]:
  "rm_token_by_tunnel (touch_auth_token now a m) = rm_token_by_tunnel m"
  "rm_primary (touch_auth_token now a m) = rm_primary m"
  by (simp_all add: touch_auth_token_def)

lemma rdp_ok_register: "rdp_ok m \<Longrightarrow> rdp_ok (register_session now a d m)"
  by (rule rdp_okI, simp_all add: rdp_okD register_session_maps)
    (auto simp: session_ok_def register_session_def Let_def
      split: if_splits option.splits dest: rdp_okD(1,4))

lemma rdp_ok_touch: "rdp_ok m \<Longrightarrow> rdp_ok (touch_auth_token now a m)"
  by (rule rdp_okI, simp_all add: rdp_okD)
    (auto simp: touch_auth_token_def session_ok_def split: if_splits dest: rdp_okD)

lemma rdp_ok_set_primary: "rdp_ok m \<Longrightarrow> t \<in> tunnels_of m tok \<Longrightarrow> rdp_ok (set_primary tok t m)"
  by (rule rdp_okI) (auto simp: rdp_okD split: if_splits)

lemma rdp_ok_get_primary:
  assumes "rdp_ok m"
  shows "rdp_ok (fst (get_primary_tunnel_uuid a m))"
proof (cases "sess m (strip a)")
  case None
  then show ?thesis using assms by (simp add: get_primary_tunnel_uuid_def Let_def)
next
  case (Some s)
  then have "rs_tunnel_uuids s \<noteq> {} \<Longrightarrow> Max (rs_tunnel_uuids s) \<in> tunnels_of m (strip a)"
    using rdp_okD(4) [OF assms Some] by (simp add: tunnels_of_def session_ok_def)
  then show ?thesis
    using assms Some by (auto simp: get_primary_tunnel_uuid_def Let_def intro!: rdp_ok_set_primary)
qed

lemma rdp_ok_touch_tunnel: "rdp_ok m \<Longrightarrow> rdp_ok (touch_tunnel now t m)"
  by (auto simp: touch_tunnel_def Let_def intro!: rdp_ok_set_primary rdp_ok_touch
      dest: rdp_okD(5) split: option.splits)

lemma bind_tunnel_maps:
  assumes "strip a = tok" "strip u = t" "tok \<noteq> []" "t \<noteq> []"
  shows "sess (bind_tunnel now a u m) = (sess m)(tok \<mapsto>
           (the_or (sess m tok) (new_session now tok (no_details [])))
             \<lparr>rs_tunnel_uuids := insert t (tunnels_of m tok), rs_last_activity_at := now\<rparr>)"
    "tunnel_token (bind_tunnel now a u m) = (tunnel_token m)(t \<mapsto> tok)"
    "primary (bind_tunnel now a u m) = (primary m)(tok \<mapsto> t)"
  using assms strip_idem [of a]
  by (auto simp: bind_tunnel_def Let_def register_session_maps tunnels_of_def fun_eq_iff
      split: option.splits)

lemma tunnels_of_bind:
  assumes "strip a = tok" "strip u = t" "tok \<noteq> []" "t \<noteq> []"
  shows "tunnels_of (bind_tunnel now a u m) = (tunnels_of m)(tok := insert t (tunnels_of m tok))"
  using bind_tunnel_maps(1) [OF assms, of now m] by (auto simp: tunnels_of_def fun_eq_iff)

lemma rdp_ok_bind:
  assumes ok: "rdp_ok m"
  shows "rdp_ok (bind_tunnel now a u m)"
proof (cases "strip a = [] \<or> strip u = []")
  case True
  then show ?thesis using ok by (auto simp: bind_tunnel_def Let_def)
next
  case False
  define tok t where d: "tok = strip a" "t = strip u"
  have n: "strip a = tok" "strip u = t" "tok \<noteq> []" "t \<noteq> []" using False d by auto
  have c: "clean tok" "clean t" using n strip_idem [of a] strip_idem [of u] by (auto simp: clean_def)
  note maps = bind_tunnel_maps [OF n, of now m] tunnels_of_bind [OF n, of now m]
  show ?thesis
  proof (rule rdp_okI)
    show "distinct (map fst (rm_sessions (bind_tunnel now a u m)))"
      using rdp_okD(1) [OF ok] by (auto simp: bind_tunnel_def Let_def register_session_def)
    show "distinct (map fst (rm_token_by_tunnel (bind_tunnel now a u m)))"
      using rdp_okD(2) [OF ok] by (auto simp: bind_tunnel_def Let_def register_session_maps)
    show "distinct (map fst (rm_primary (bind_tunnel now a u m)))"
      using rdp_okD(3) [OF ok] by (auto simp: bind_tunnel_def Let_def register_session_maps)
  next
    fix k s assume "sess (bind_tunnel now a u m) k = Some s"
    then show "session_ok k s"
      using c finite_tunnels_of [OF ok, of tok] tunnels_of_clean [OF ok, of _ tok]
        rdp_okD(4) [OF ok, of tok] rdp_okD(4) [OF ok, of k s]
      by (auto simp: maps session_ok_def the_or_def split: if_splits option.splits)
  next
    fix k v assume "tunnel_token (bind_tunnel now a u m) k = Some v"
    then show "k \<in> tunnels_of (bind_tunnel now a u m) v"
      using rdp_okD(5) [OF ok, of k v] by (auto simp: maps split: if_splits)
  next
    fix k v assume "primary (bind_tunnel now a u m) k = Some v"
    then show "v \<in> tunnels_of (bind_tunnel now a u m) k"
      using rdp_okD(6) [OF ok, of k v] by (auto simp: maps split: if_splits)
  qed
qed

lemma release_tunnel_maps:
  assumes "rdp_ok m" "strip u = t" "tunnel_token m t = Some tok"
  shows "sess (release_tunnel u m) = (sess m)(tok := map_option (\<lambda>s. s\<lparr>rs_tunnel_uuids :=
           rs_tunnel_uuids s - {t}\<rparr>) (sess m tok))"
    "tunnel_token (release_tunnel u m) = (tunnel_token m)(t := None)"
    "primary (release_tunnel u m) = (if primary m tok = Some t
       then (primary m)(tok := (if tunnels_of m tok - {t} = {} then None
                                else Some (Max (tunnels_of m tok - {t}))))
       else primary m)"
    "tunnels_of (release_tunnel u m) = (tunnels_of m)(tok := tunnels_of m tok - {t})"
proof -
  have "t \<in> tunnels_of m tok" using assms rdp_okD(5) by blast
  then obtain s where s: "sess m tok = Some s" "t \<in> rs_tunnel_uuids s" using tunnels_ofD by blast
  have n: "t \<noteq> []" "tok \<noteq> []"
    using tunnels_of_clean [OF assms(1) \<open>t \<in> tunnels_of m tok\<close>] by (auto simp: clean_def)
  show sess: "sess (release_tunnel u m) = (sess m)(tok := map_option (\<lambda>s. s\<lparr>rs_tunnel_uuids :=
           rs_tunnel_uuids s - {t}\<rparr>) (sess m tok))"
    using assms s n by (auto simp: release_tunnel_def Let_def fun_eq_iff)
  show "tunnel_token (release_tunnel u m) = (tunnel_token m)(t := None)"
    using assms s n by (auto simp: release_tunnel_def Let_def)
  show "primary (release_tunnel u m) = (if primary m tok = Some t
       then (primary m)(tok := (if tunnels_of m tok - {t} = {} then None
                                else Some (Max (tunnels_of m tok - {t}))))
       else primary m)"
    using assms s n by (auto simp: release_tunnel_def Let_def tunnels_of_def)
  show "tunnels_of (release_tunnel u m) = (tunnels_of m)(tok := tunnels_of m tok - {t})"
    using s by (auto simp: tunnels_of_def sess fun_eq_iff)
qed

lemma release_tunnel_unbound:
  assumes "tunnel_token m (strip u) = None"
  shows "release_tunnel u m = m"
proof -
  have "AList.delete (strip u) (rm_token_by_tunnel m) = rm_token_by_tunnel m"
    using assms by (simp add: delete_idem map_of_eq_None_iff)
  then show ?thesis using assms by (simp add: release_tunnel_def Let_def)
qed

lemma release_tunnel_distinct:
  assumes "rdp_ok m"
  shows "distinct (map fst (rm_sessions (release_tunnel u m)))"
    "distinct (map fst (rm_token_by_tunnel (release_tunnel u m)))"
    "distinct (map fst (rm_primary (release_tunnel u m)))"
  using rdp_okD(1-3) [OF assms]
  by (auto simp: release_tunnel_def Let_def change_session_def split: option.splits)

lemma rdp_ok_release:
  assumes ok: "rdp_ok m"
  shows "rdp_ok (release_tunnel u m)"
proof (cases "tunnel_token m (strip u)")
  case None
  then show ?thesis using ok by (simp add: release_tunnel_unbound)
next
  case (Some tok)
  note maps = release_tunnel_maps [OF ok refl Some]
  have fin: "finite (tunnels_of m tok)" using ok by (rule finite_tunnels_of)
  show ?thesis
  proof (rule rdp_okI)
    fix k s assume "sess (release_tunnel u m) k = Some s"
    then show "session_ok k s"
      using rdp_okD(4) [OF ok, of k] by (auto simp: maps session_ok_def split: if_splits)
  next
    fix k v assume "tunnel_token (release_tunnel u m) k = Some v"
    then show "k \<in> tunnels_of (release_tunnel u m) v"
      using rdp_okD(5) [OF ok, of k v] by (auto simp: maps split: if_splits)
  next
    fix k v assume v: "primary (release_tunnel u m) k = Some v"
    show "v \<in> tunnels_of (release_tunnel u m) k"
    proof (cases "k = tok \<and> primary m tok = Some (strip u)")
      case True
      then have "tunnels_of m tok - {strip u} \<noteq> {}" "v = Max (tunnels_of m tok - {strip u})"
        using v by (auto simp: maps split: if_splits)
      then show ?thesis using True fin Max_in [of "tunnels_of m tok - {strip u}"] by (simp add: maps)
    next
      case False
      then show ?thesis using v rdp_okD(6) [OF ok, of k v] by (auto simp: maps split: if_splits)
    qed
  qed (use release_tunnel_distinct [OF ok] in auto)
qed

lemma remove_session_maps:
  assumes "rdp_ok m" "strip a = tok" "sess m tok = Some s"
  shows "sess (fst (remove_session a m)) = (sess m)(tok := None)"
    "tunnel_token (fst (remove_session a m)) t =
       (if tunnel_token m t = Some tok then None else tunnel_token m t)"
    "primary (fst (remove_session a m)) = (primary m)(tok := None)"
    "tunnels_of (fst (remove_session a m)) = (tunnels_of m)(tok := {})"
proof -
  have "tok \<noteq> []" using rdp_okD(4) [OF assms(1,3)] by (simp add: session_ok_def clean_def)
  then have eq: "fst (remove_session a m) = m\<lparr>rm_sessions := AList.delete tok (rm_sessions m),
      rm_primary := AList.delete tok (rm_primary m), rm_token_by_tunnel :=
        filter (\<lambda>(t, k). \<not> (t \<in> rs_tunnel_uuids s \<and> k = tok)) (rm_token_by_tunnel m)\<rparr>"
    using assms by (simp add: remove_session_def Let_def)
  show sess: "sess (fst (remove_session a m)) = (sess m)(tok := None)"
    and "primary (fst (remove_session a m)) = (primary m)(tok := None)"
    by (simp_all add: eq)
  show "tunnel_token (fst (remove_session a m)) t =
       (if tunnel_token m t = Some tok then None else tunnel_token m t)"
    using rdp_okD(5) [OF assms(1), of t tok] assms(3)
    by (auto simp: eq map_of_filter_distinct [OF rdp_okD(2) [OF assms(1)]] tunnels_of_def
        split: option.splits)
  show "tunnels_of (fst (remove_session a m)) = (tunnels_of m)(tok := {})"
    by (auto simp: tunnels_of_def sess fun_eq_iff)
qed

lemma remove_session_unknown: "sess m (strip a) = None \<Longrightarrow> fst (remove_session a m) = m"
  by (simp add: remove_session_def Let_def)

lemma rdp_ok_remove:
  assumes ok: "rdp_ok m"
  shows "rdp_ok (fst (remove_session a m))"
proof (cases "sess m (strip a)")
  case None
  then show ?thesis using ok by (simp add: remove_session_unknown)
next
  case (Some s)
  note maps = remove_session_maps [OF ok refl Some]
  show ?thesis
  proof (rule rdp_okI)
    show "distinct (map fst (rm_sessions (fst (remove_session a m))))"
      "distinct (map fst (rm_token_by_tunnel (fst (remove_session a m))))"
      "distinct (map fst (rm_primary (fst (remove_session a m))))"
      using rdp_okD(1-3) [OF ok] by (auto simp: remove_session_def Let_def distinct_map_filter
          split: option.splits)
  next
    fix k v assume "sess (fst (remove_session a m)) k = Some v"
    then show "session_ok k v" using rdp_okD(4) [OF ok, of k v] by (auto simp: maps split: if_splits)
  next
    fix t k assume "tunnel_token (fst (remove_session a m)) t = Some k"
    then show "t \<in> tunnels_of (fst (remove_session a m)) k"
      using rdp_okD(5) [OF ok, of t k] by (auto simp: maps split: if_splits)
  next
    fix k t assume "primary (fst (remove_session a m)) k = Some t"
    then show "t \<in> tunnels_of (fst (remove_session a m)) k"
      using rdp_okD(6) [OF ok, of k t] by (auto simp: maps split: if_splits)
  qed
qed

lemma rdp_ok_release_all: "rdp_ok m \<Longrightarrow> rdp_ok (fst (release_all_tunnels a m))"
proof -
  have "rdp_ok m \<Longrightarrow> rdp_ok (fold release_tunnel us m)" for us
    by (induction us arbitrary: m) (auto intro: rdp_ok_release)
  then show "rdp_ok m \<Longrightarrow> ?thesis" by (simp add: release_all_tunnels_def Let_def)
qed

section \<open>Histories\<close>

text \<open>The calls of the monitor that change it, with their clock readings.\<close>

datatype rdp_op =
    Register int string rdp_details
  | Touch int string
  | Bind int string string
  | Touch_Tunnel int string
  | Release string
  | Release_All string
  | Get_Primary string
  | Remove string

fun rdp_step :: "rdp_op \<Rightarrow> rdp_monitor \<Rightarrow> rdp_monitor" where
  "rdp_step (Register now a d) m = register_session now a d m"
| "rdp_step (Touch now a) m = touch_auth_token now a m"
| "rdp_step (Bind now a t) m = bind_tunnel now a t m"
| "rdp_step (Touch_Tunnel now t) m = touch_tunnel now t m"
| "rdp_step (Release t) m = release_tunnel t m"
| "rdp_step (Release_All a) m = fst (release_all_tunnels a m)"
| "rdp_step (Get_Primary a) m = fst (get_primary_tunnel_uuid a m)"
| "rdp_step (Remove a) m = fst (remove_session a m)"

lemma rdp_ok_step: "rdp_ok m \<Longrightarrow> rdp_ok (rdp_step c m)"
  by (cases c) (simp_all add: rdp_ok_register rdp_ok_touch rdp_ok_bind rdp_ok_touch_tunnel
      rdp_ok_release rdp_ok_release_all rdp_ok_get_primary rdp_ok_remove)

lemma rdp_ok_run: "rdp_ok m \<Longrightarrow> rdp_ok (fold rdp_step cs m)"
  by (induction cs arbitrary: m) (auto intro: rdp_ok_step)

section \<open>The abstract monitor\<close>

text \<open>
  What the monitor promises, without its redundant dictionaries: when each token was last active, and
  which token each tunnel belongs to.
\<close>

type_synonym rdp_spec = "(string \<Rightarrow> int option) \<times> (string \<Rightarrow> string option)"

definition abs_rdp :: "rdp_monitor \<Rightarrow> rdp_spec" where
  "abs_rdp m = (\<lambda>tok. map_option rs_last_activity_at (sess m tok), tunnel_token m)"

definition drop_owner :: "string \<Rightarrow> (string \<Rightarrow> string option) \<Rightarrow> string \<Rightarrow> string option" where
  "drop_owner tok own = (\<lambda>t. if own t = Some tok then None else own t)"

fun spec_step :: "rdp_op \<Rightarrow> rdp_spec \<Rightarrow> rdp_spec" where
  "spec_step (Register now a d) (act, own) =
     (if strip a = [] then act else act(strip a \<mapsto> now), own)"
| "spec_step (Touch now a) (act, own) =
     (if act (strip a) = None then act else act(strip a \<mapsto> now), own)"
| "spec_step (Bind now a t) (act, own) =
     (if strip a = [] \<or> strip t = [] then (act, own)
      else (act(strip a \<mapsto> now), own(strip t \<mapsto> strip a)))"
| "spec_step (Touch_Tunnel now t) (act, own) =
     (case own (strip t) of None \<Rightarrow> (act, own) | Some tok \<Rightarrow> (act(tok \<mapsto> now), own))"
| "spec_step (Release t) (act, own) = (act, own(strip t := None))"
| "spec_step (Release_All a) (act, own) = (act, drop_owner (strip a) own)"
| "spec_step (Get_Primary a) (act, own) = (act, own)"
| "spec_step (Remove a) (act, own) = (act(strip a := None), drop_owner (strip a) own)"

text \<open>
  The refinement needs that no tunnel is bound for two tokens, as it is when every tunnel has an
  identifier of its own.
\<close>

fun bindings :: "rdp_op list \<Rightarrow> (string \<times> string) list" where
  "bindings [] = []"
| "bindings (Bind now a t # cs) = (strip t, strip a) # bindings cs"
| "bindings (_ # cs) = bindings cs"

definition single_owner :: "rdp_op list \<Rightarrow> bool" where
  "single_owner cs \<longleftrightarrow>
     list_all (\<lambda>(t, a). list_all (\<lambda>(u, b). u = t \<longrightarrow> b = a) (bindings cs)) (bindings cs)"

definition owned :: "(string \<Rightarrow> string) \<Rightarrow> rdp_monitor \<Rightarrow> bool" where
  "owned f m \<longleftrightarrow> rdp_ok m \<and> (\<forall>tok t. t \<in> tunnels_of m tok \<longrightarrow> tunnel_token m t = Some tok \<and> f t = tok)"

lemma ownedD:
  assumes "owned f m"
  shows "rdp_ok m" "t \<in> tunnels_of m tok \<Longrightarrow> tunnel_token m t = Some tok"
    "t \<in> tunnels_of m tok \<Longrightarrow> f t = tok"
  using assms by (auto simp: owned_def)

lemma owned_iff: "owned f m \<Longrightarrow> t \<in> tunnels_of m tok \<longleftrightarrow> tunnel_token m t = Some tok"
  using ownedD(2) rdp_okD(5) ownedD(1) by blast

lemma tunnel_session:
  assumes "rdp_ok m" "tunnel_token m t = Some tok"
  shows "\<exists>s. sess m tok = Some s" "clean tok" "clean t"
  using rdp_okD(5) [OF assms] tunnels_ofD tunnels_of_clean [OF assms(1)] by blast+

lemma touch_tunnel_eq:
  assumes "rdp_ok m"
  shows "touch_tunnel now u m = (case tunnel_token m (strip u) of None \<Rightarrow> m
    | Some tok \<Rightarrow> set_primary tok (strip u) (touch_auth_token now tok m))"
  using tunnel_session(2,3) [OF assms, of "strip u"]
  by (auto simp: touch_tunnel_def Let_def clean_def split: option.splits)

lemma sess_touch:
  "sess (touch_auth_token now a m) = (sess m)(strip a :=
     map_option (\<lambda>s. s\<lparr>rs_last_activity_at := now\<rparr>) (sess m (strip a)))"
  by (simp add: touch_auth_token_def)

lemma bind_tunnel_empty: "strip a = [] \<or> strip u = [] \<Longrightarrow> bind_tunnel now a u m = m"
  by (auto simp: bind_tunnel_def Let_def)

lemma owned_release:
  assumes "owned f m"
  shows "owned f (release_tunnel u m)"
    "abs_rdp (release_tunnel u m) = (fst (abs_rdp m), (snd (abs_rdp m))(strip u := None))"
proof -
  note ok = ownedD(1) [OF assms]
  have "owned f (release_tunnel u m) \<and>
    abs_rdp (release_tunnel u m) = (fst (abs_rdp m), (snd (abs_rdp m))(strip u := None))"
  proof (cases "tunnel_token m (strip u)")
    case None
    then show ?thesis using assms by (simp add: release_tunnel_unbound abs_rdp_def fun_upd_idem)
  next
    case (Some tok)
    note maps = release_tunnel_maps [OF ok refl Some]
    obtain s where s: "sess m tok = Some s" using tunnel_session(1) [OF ok Some] by blast
    have "t \<in> tunnels_of (release_tunnel u m) k \<Longrightarrow>
        tunnel_token (release_tunnel u m) t = Some k \<and> f t = k" for t k
      using ownedD(2,3) [OF assms, of t k] Some by (auto simp: maps split: if_splits)
    then show ?thesis
      using rdp_ok_release [OF ok] s by (auto simp: owned_def abs_rdp_def maps fun_eq_iff)
  qed
  then show "owned f (release_tunnel u m)"
    "abs_rdp (release_tunnel u m) = (fst (abs_rdp m), (snd (abs_rdp m))(strip u := None))"
    by simp_all
qed

lemma owned_release_list:
  "owned f m \<Longrightarrow> owned f (fold release_tunnel us m) \<and>
   abs_rdp (fold release_tunnel us m) =
     (fst (abs_rdp m), \<lambda>t. if t \<in> strip ` set us then None else snd (abs_rdp m) t)"
  by (induction us arbitrary: m) (auto simp: owned_release fun_eq_iff)

lemma set_get_tunnel_uuids:
  assumes "rdp_ok m"
  shows "set (get_tunnel_uuids a m) = tunnels_of m (strip a)"
  using finite_tunnels_of [OF assms, of "strip a"]
  by (auto simp: get_tunnel_uuids_def tunnels_of_def split: option.splits)

lemma owned_release_all:
  assumes "owned f m"
  shows "owned f (fst (release_all_tunnels a m))"
    "abs_rdp (fst (release_all_tunnels a m)) = (fst (abs_rdp m), drop_owner (strip a) (snd (abs_rdp m)))"
proof -
  have "strip ` tunnels_of m (strip a) = tunnels_of m (strip a)"
    using tunnels_of_clean [OF ownedD(1) [OF assms]] by (force simp: clean_def image_iff)
  then show "owned f (fst (release_all_tunnels a m))"
    "abs_rdp (fst (release_all_tunnels a m)) = (fst (abs_rdp m), drop_owner (strip a) (snd (abs_rdp m)))"
    using owned_release_list [OF assms, of "get_tunnel_uuids a m"]
    by (auto simp: release_all_tunnels_def Let_def set_get_tunnel_uuids ownedD(1) [OF assms]
        owned_iff [OF assms] drop_owner_def abs_rdp_def fun_eq_iff)
qed

lemma owned_bind:
  assumes "owned f m" "strip a = tok" "strip u = t" "tok \<noteq> []" "t \<noteq> []" "f t = tok"
  shows "owned f (bind_tunnel now a u m)"
    "abs_rdp (bind_tunnel now a u m) = ((fst (abs_rdp m))(tok \<mapsto> now), (snd (abs_rdp m))(t \<mapsto> tok))"
proof -
  note maps = bind_tunnel_maps [OF assms(2-5), of now m] tunnels_of_bind [OF assms(2-5), of now m]
  have "x \<in> tunnels_of (bind_tunnel now a u m) k \<Longrightarrow>
      tunnel_token (bind_tunnel now a u m) x = Some k \<and> f x = k" for x k
    using ownedD(2,3) [OF assms(1), of x k] assms(6) by (auto simp: maps split: if_splits)
  then show "owned f (bind_tunnel now a u m)"
    using rdp_ok_bind [OF ownedD(1) [OF assms(1)]] by (auto simp: owned_def)
  show "abs_rdp (bind_tunnel now a u m) = ((fst (abs_rdp m))(tok \<mapsto> now), (snd (abs_rdp m))(t \<mapsto> tok))"
    by (auto simp: abs_rdp_def maps fun_eq_iff)
qed

lemma owned_remove:
  assumes "owned f m"
  shows "owned f (fst (remove_session a m))"
    "abs_rdp (fst (remove_session a m)) =
       ((fst (abs_rdp m))(strip a := None), drop_owner (strip a) (snd (abs_rdp m)))"
proof -
  note ok = ownedD(1) [OF assms]
  have "owned f (fst (remove_session a m)) \<and> abs_rdp (fst (remove_session a m)) =
       ((fst (abs_rdp m))(strip a := None), drop_owner (strip a) (snd (abs_rdp m)))"
  proof (cases "sess m (strip a)")
    case None
    then have "tunnel_token m t \<noteq> Some (strip a)" for t
      using tunnel_session(1) [OF ok, of t "strip a"] by auto
    then show ?thesis
      using None assms by (auto simp: remove_session_unknown abs_rdp_def drop_owner_def fun_eq_iff)
  next
    case (Some s)
    note maps = remove_session_maps [OF ok refl Some]
    show ?thesis
      using assms rdp_ok_remove [OF ok]
      by (auto simp: owned_def abs_rdp_def maps drop_owner_def fun_eq_iff split: if_splits)
  qed
  then show "owned f (fst (remove_session a m))" "abs_rdp (fst (remove_session a m)) =
       ((fst (abs_rdp m))(strip a := None), drop_owner (strip a) (snd (abs_rdp m)))" by simp_all
qed

lemma owned_step:
  assumes "owned f m" "\<And>t a. (t, a) \<in> set (bindings [c]) \<Longrightarrow> f t = a"
  shows "owned f (rdp_step c m) \<and> abs_rdp (rdp_step c m) = spec_step c (abs_rdp m)"
proof (cases c)
  case (Register now a d)
  then show ?thesis
    using assms(1) rdp_ok_register [OF ownedD(1) [OF assms(1)]]
    by (auto simp: owned_def abs_rdp_def register_session_maps fun_eq_iff split: option.splits)
next
  case (Touch now a)
  then show ?thesis
    using assms(1) rdp_ok_touch [OF ownedD(1) [OF assms(1)]]
    by (auto simp: owned_def abs_rdp_def sess_touch fun_eq_iff)
next
  case (Bind now a t)
  then show ?thesis
    using assms owned_bind [OF assms(1) refl refl, of a t now]
    by (cases "strip a = [] \<or> strip t = []") (auto simp: bind_tunnel_empty abs_rdp_def)
next
  case (Touch_Tunnel now t)
  have ok: "rdp_ok (touch_tunnel now t m)" by (rule rdp_ok_touch_tunnel [OF ownedD(1) [OF assms(1)]])
  show ?thesis
  proof (cases "tunnel_token m (strip t)")
    case None
    then show ?thesis
      using Touch_Tunnel assms(1) ownedD(1) [OF assms(1)] by (simp add: touch_tunnel_eq abs_rdp_def)
  next
    case (Some tok)
    have n: "strip tok = tok" "\<exists>s. sess m tok = Some s"
      using tunnel_session [OF ownedD(1) [OF assms(1)] Some] by (auto simp: clean_def)
    then show ?thesis
      using Touch_Tunnel Some assms(1) ok ownedD(1) [OF assms(1)]
      by (auto simp: owned_def touch_tunnel_eq abs_rdp_def sess_touch fun_eq_iff)
  qed
next
  case (Release t)
  then show ?thesis using owned_release [OF assms(1), of t] by (simp add: abs_rdp_def)
next
  case (Release_All a)
  then show ?thesis using owned_release_all [OF assms(1), of a] by (simp add: abs_rdp_def)
next
  case (Get_Primary a)
  have "tunnels_of (fst (get_primary_tunnel_uuid a m)) = tunnels_of m"
    "abs_rdp (fst (get_primary_tunnel_uuid a m)) = abs_rdp m"
    "tunnel_token (fst (get_primary_tunnel_uuid a m)) = tunnel_token m"
    by (auto simp: get_primary_tunnel_uuid_def Let_def abs_rdp_def split: option.splits)
  then show ?thesis
    using Get_Primary assms(1) rdp_ok_get_primary [OF ownedD(1) [OF assms(1)], of a]
    by (auto simp: owned_def abs_rdp_def)
next
  case (Remove a)
  then show ?thesis using owned_remove [OF assms(1), of a] by (simp add: abs_rdp_def)
qed

lemma bindings_append: "bindings (cs @ ds) = bindings cs @ bindings ds"
  by (induction cs rule: bindings.induct) auto

lemma single_owner_function:
  assumes "single_owner cs"
  shows "\<exists>f. \<forall>(t, a)\<in>set (bindings cs). f t = a"
proof (intro exI ballI)
  fix p assume p: "p \<in> set (bindings cs)"
  obtain t a where ta: "p = (t, a)" by (cases p)
  obtain b where b: "map_of (bindings cs) t = Some b"
    using weak_map_of_SomeI [of t a "bindings cs"] p ta by blast
  then have "(t, b) \<in> set (bindings cs)" by (rule map_of_SomeD)
  then have "b = a" using assms p ta by (auto simp: single_owner_def list_all_iff)
  then show "case p of (t, a) \<Rightarrow> the (map_of (bindings cs) t) = a" using ta b by simp
qed

lemma owned_run:
  assumes "owned f m" "\<And>t a. (t, a) \<in> set (bindings cs) \<Longrightarrow> f t = a"
  shows "owned f (fold rdp_step cs m) \<and> abs_rdp (fold rdp_step cs m) = fold spec_step cs (abs_rdp m)"
  using assms
proof (induction cs arbitrary: m)
  case Nil
  then show ?case by simp
next
  case (Cons c cs)
  have b: "bindings (c # cs) = bindings [c] @ bindings cs" using bindings_append [of "[c]" cs] by simp
  have "owned f (rdp_step c m) \<and> abs_rdp (rdp_step c m) = spec_step c (abs_rdp m)"
    by (rule owned_step [OF Cons.prems(1)]) (auto simp: b intro: Cons.prems(2))
  then show ?case using Cons.IH [of "rdp_step c m"] Cons.prems(2) by (auto simp: b)
qed

lemma idle_timeout_step [simp]: "rm_idle_timeout (rdp_step c m) = rm_idle_timeout m"
proof -
  have r: "rm_idle_timeout (release_tunnel u m) = rm_idle_timeout m" for u m
    by (auto simp: release_tunnel_def Let_def split: option.splits)
  have "rm_idle_timeout (fold release_tunnel us m) = rm_idle_timeout m" for us
    by (induction us arbitrary: m) (auto simp: r)
  then show ?thesis
    by (cases c) (auto simp: r register_session_maps touch_auth_token_def bind_tunnel_def
        touch_tunnel_def release_all_tunnels_def get_primary_tunnel_uuid_def remove_session_def Let_def
        split: option.splits)
qed

lemma idle_timeout_run [simp]: "rm_idle_timeout (fold rdp_step cs m) = rm_idle_timeout m"
  by (induction cs arbitrary: m) auto

lemma set_idle_tokens:
  assumes "rdp_ok m"
  shows "set (get_idle_auth_tokens now m) =
    {tok. 0 < rm_idle_timeout m \<and> (\<exists>a. fst (abs_rdp m) tok = Some a \<and> a + rm_idle_timeout m * 1000000 \<le> now)}"
proof -
  have "(tok, s) \<in> set (rm_sessions m) \<longleftrightarrow> sess m tok = Some s" for tok s
    using rdp_okD(1) [OF assms] by (metis map_of_eq_Some_iff)
  then show ?thesis
    unfolding get_idle_auth_tokens_def Let_def abs_rdp_def
    by (cases "rm_idle_timeout m \<le> 0") (fastforce simp: image_iff)+
qed

text \<open>After any calls of the remote desktop monitor its dictionaries agree: every key is
  unique, sessions are stored under their own clean token, every tunnel in the tunnel index and every
  preferred tunnel is among the tunnels of its session. Asking for the preferred tunnel of a token
  answers a tunnel of that token, or the empty text when it has none, and asking again gives the same
  answer without a further change.\<close>

theorem rdp_monitor_invariant:
  "let m = fold rdp_step cs (rdp_monitor_init n e); (m', t) = get_primary_tunnel_uuid a m in
   rdp_ok m \<and> rdp_ok m' \<and>
   (if get_tunnel_uuids a m = [] then t = [] else t \<in> set (get_tunnel_uuids a m)) \<and>
   get_primary_tunnel_uuid a m' = (m', t)"
proof -
  define m where "m = fold rdp_step cs (rdp_monitor_init n e)"
  have ok: "rdp_ok m" by (simp add: m_def rdp_ok_run)
  have cl: "t \<in> tunnels_of m (strip a) \<Longrightarrow> t \<noteq> [] \<and> strip t = t" for t
    using tunnels_of_clean [OF ok] by (auto simp: clean_def)
  have "rdp_ok m \<and> rdp_ok (fst (get_primary_tunnel_uuid a m)) \<and>
     (if get_tunnel_uuids a m = [] then snd (get_primary_tunnel_uuid a m) = []
      else snd (get_primary_tunnel_uuid a m) \<in> set (get_tunnel_uuids a m)) \<and>
     get_primary_tunnel_uuid a (fst (get_primary_tunnel_uuid a m)) = get_primary_tunnel_uuid a m"
  proof (cases "sess m (strip a)")
    case None
    then show ?thesis using ok by (simp add: get_primary_tunnel_uuid_def get_tunnel_uuids_def)
  next
    case (Some s)
    then have s: "tunnels_of m (strip a) = rs_tunnel_uuids s" "finite (rs_tunnel_uuids s)"
      using finite_tunnels_of [OF ok, of "strip a"] by (simp_all add: tunnels_of_def)
    have mx: "rs_tunnel_uuids s \<noteq> {} \<Longrightarrow> Max (rs_tunnel_uuids s) \<in> rs_tunnel_uuids s"
      using s by simp
    show ?thesis
      using ok Some s mx cl rdp_ok_get_primary [OF ok, of a]
      by (auto simp: get_primary_tunnel_uuid_def get_tunnel_uuids_def Let_def)
  qed
  then show ?thesis unfolding m_def [symmetric] Let_def split_beta by simp
qed

text \<open>Property C28. The monitor with its three dictionaries refines the abstract monitor, which keeps
  the time of the last activity of every token and the token of every tunnel: as long as no tunnel is
  bound for two tokens, every sequence of calls leaves both in the same state, the tunnels listed for
  a token are those that belong to it, and the tokens reported as idle are exactly those whose last
  registration, touch, bound tunnel or tunnel activity is at least the timeout ago.\<close>

theorem rdp_monitor_refines:
  assumes "single_owner cs"
  shows "let m = fold rdp_step cs (rdp_monitor_init n e);
             spec = fold spec_step cs (Map.empty, Map.empty) in
    abs_rdp m = spec \<and>
    set (get_tunnel_uuids a m) = {t. snd spec t = Some (strip a)} \<and>
    set (get_idle_auth_tokens now m) =
      {tok. 0 < rm_idle_timeout m \<and>
            (\<exists>last. fst spec tok = Some last \<and> last + rm_idle_timeout m * 1000000 \<le> now)}"
proof -
  define m where "m = fold rdp_step cs (rdp_monitor_init n e)"
  define spec where "spec = fold spec_step cs (Map.empty, Map.empty)"
  obtain f where f: "\<forall>(t, a)\<in>set (bindings cs). f t = a" using single_owner_function [OF assms(1)] by blast
  have i: "owned f (rdp_monitor_init n e)"
    by (simp add: owned_def) (simp add: tunnels_of_def rdp_monitor_init_def Let_def)
  have "abs_rdp (rdp_monitor_init n e) = (Map.empty, Map.empty)"
    by (simp add: abs_rdp_def rdp_monitor_init_def Let_def)
  moreover have "owned f m \<and> abs_rdp m = fold spec_step cs (abs_rdp (rdp_monitor_init n e))"
    unfolding m_def by (rule owned_run [OF i]) (use f in auto)
  ultimately have o: "owned f m" and eq: "abs_rdp m = spec" by (simp_all add: spec_def)
  show ?thesis
    unfolding m_def [symmetric] spec_def [symmetric] Let_def
    using set_get_tunnel_uuids [OF ownedD(1) [OF o], of a] owned_iff [OF o] eq
      set_idle_tokens [OF ownedD(1) [OF o], of now]
    by (auto simp: abs_rdp_def)
qed

lemma rdp_monitor_refines_witness:
  "let cs = [Bind 1 ''tok'' ''t1'', Bind 2 ''tok'' '' t2 '', Release ''t2''];
       m = fold rdp_step cs (rdp_monitor_init None None) in
   get_tunnel_uuids ''tok'' m = [''t1''] \<and> abs_rdp m = fold spec_step cs (Map.empty, Map.empty) \<and>
   get_idle_auth_tokens 900000001 m = [] \<and> get_idle_auth_tokens 900000002 m = [''tok'']"
proof -
  have "single_owner [Bind 1 ''tok'' ''t1'', Bind 2 ''tok'' '' t2 '', Release ''t2'']" by code_simp
  from rdp_monitor_refines [OF this, of None None "''tok''" 0]
  have "abs_rdp (fold rdp_step [Bind 1 ''tok'' ''t1'', Bind 2 ''tok'' '' t2 '', Release ''t2'']
      (rdp_monitor_init None None)) =
    fold spec_step [Bind 1 ''tok'' ''t1'', Bind 2 ''tok'' '' t2 '', Release ''t2''] (Map.empty, Map.empty)"
    unfolding Let_def by blast
  moreover have "let m = fold rdp_step [Bind 1 ''tok'' ''t1'', Bind 2 ''tok'' '' t2 '', Release ''t2'']
      (rdp_monitor_init None None) in get_tunnel_uuids ''tok'' m = [''t1''] \<and>
      get_idle_auth_tokens 900000001 m = [] \<and> get_idle_auth_tokens 900000002 m = [''tok'']"
    by code_simp
  ultimately show ?thesis by (simp add: Let_def)
qed

text \<open>
  Without that assumption the refinement fails: \<open>bind_tunnel\<close> leaves a rebound tunnel in the session
  of its former token, whose \<open>release_all_tunnels\<close> then takes it away from the new one.
\<close>

lemma rebound_tunnel_taken:
  "let m = fold rdp_step [Bind 1 ''a'' ''t'', Bind 2 ''b'' ''t'', Release_All ''a''] (rdp_monitor_init None None)
   in get_tunnel_uuids ''a'' m = [''t''] \<and> get_tunnel_uuids ''b'' m = [] \<and> tunnel_token m ''t'' = None"
  by code_simp

end
