(* ===== verification/Task_Api.thy ===== *)
theory Task_Api
  imports Task_Service User_Service
begin

text \<open>
  The task and pipeline routes (\<open>api/routers/task_router.py\<close>). A route answers with a value or with a
  JSON error and its status code; an exception that escapes is an error of the routine (the framework
  answers 500). The session is that of the middleware, \<open>host\<close> the address of the client when it is known.
  Bodies and queries are validated by pydantic.
\<close>

section \<open>Answers and guards\<close>

datatype 'a answer = Done 'a | Problem int string

definition capitalize :: "string \<Rightarrow> string" where
  "capitalize s = (case s of [] \<Rightarrow> [] | c # cs \<Rightarrow> upper_char c # lower cs)"

definition role_required_response :: "string \<Rightarrow> 'a answer" where
  "role_required_response minimum_role = Problem 403 (capitalize minimum_role @ '' role required'')"

definition not_found :: "'a answer" where
  "not_found = Problem 404 ''Not found''"

definition with_role :: "user_session option \<Rightarrow> string \<Rightarrow> ('s, 'a answer) prog \<Rightarrow> ('s, 'a answer) prog" where
  "with_role session minimum_role m =
     (if \<not> request_has_minimum_role session minimum_role then retP (role_required_response minimum_role) else m)"

definition with_visibility :: "user_session option \<Rightarrow> 'a answer \<Rightarrow> ('s, 'a answer) prog \<Rightarrow> ('s, 'a answer) prog" where
  "with_visibility session hidden m = (if \<not> request_has_agent_visibility session then retP hidden else m)"

definition found :: "'b option \<Rightarrow> 'a answer \<Rightarrow> ('b \<Rightarrow> ('s, 'a answer) prog) \<Rightarrow> ('s, 'a answer) prog" where
  "found v missing m = (case v of None \<Rightarrow> retP missing | Some x \<Rightarrow> m x)"

section \<open>Tasks\<close>

definition api_create_task ::
    "(string \<times> 'n task_handler) list \<Rightarrow> int \<Rightarrow> string \<Rightarrow> string option \<Rightarrow> create_task_request
     \<Rightarrow> user_session option \<Rightarrow> ('n svc, pydict answer) prog" where
  "api_create_task handlers now uuid host body session =
     with_role session ''operator''
       (bindP (lift_result (create_agent_task_from_request body (the_or host []) None uuid)) (\<lambda>t.
        bindP (create_and_dispatch handlers now t ''server'') (\<lambda>(created, d). retP (Done created))))"

definition api_list_tasks ::
    "string option \<Rightarrow> string option \<Rightarrow> int \<Rightarrow> user_session option \<Rightarrow> ('n svc, task_view list answer) prog" where
  "api_list_tasks agent_id status lim session w =
     with_visibility session (Done []) (retP (Done (get_tasks agent_id status lim (sv_db w)))) w"

definition api_get_task :: "string \<Rightarrow> user_session option \<Rightarrow> ('n svc, task_view answer) prog" where
  "api_get_task task_id session w =
     with_visibility session not_found
       (found (get_task task_id (sv_db w)) not_found (\<lambda>t. retP (Done t))) w"

definition api_cancel_task ::
    "'n send_event \<Rightarrow> int \<Rightarrow> string option \<Rightarrow> string \<Rightarrow> user_session option \<Rightarrow> ('n svc, bool answer) prog" where
  "api_cancel_task send now host task_id session w =
     with_role session ''operator''
       (with_visibility session not_found
         (found (get_task task_id (sv_db w)) not_found (\<lambda>t.
           if t_status t \<notin> {''queued'', ''running''}
           then retP (Problem 400 (''Cannot cancel task in status '' @ t_status t))
           else
             bindP (on_net (\<lambda>n. case send (t_agent_id t) (CancelTaskEv \<lparr>ct_task_id = task_id\<rparr>) n of (n', sent) \<Rightarrow> (n', Inr sent))) (\<lambda>sent.
             bindP (if sent then modP (on_db (update_task_status now task_id ''cancelled'' None None None (the_or host ''user'')))
                    else retP ()) (\<lambda>_.
               retP (Done sent)))))) w"

definition api_task_log :: "string \<Rightarrow> int \<Rightarrow> int \<Rightarrow> user_session option \<Rightarrow> ('n svc, log_chunk answer) prog" where
  "api_task_log task_id offset lim session w =
     with_visibility session not_found (retP (Done (read_log task_id offset lim (sv_db w)))) w"

definition api_task_log_raw :: "string \<Rightarrow> user_session option \<Rightarrow> ('n svc, string answer) prog" where
  "api_task_log_raw task_id session w =
     with_visibility session not_found (retP (Done (lc_content (read_log task_id 0 0 (sv_db w))))) w"

section \<open>Pipelines\<close>

record pipeline_request =
  pr_name :: string
  pr_description :: string
  pr_created_by :: string
  pr_steps :: "step_def list"

definition api_create_pipeline ::
    "int \<Rightarrow> string \<Rightarrow> pipeline_request \<Rightarrow> user_session option \<Rightarrow> ('n svc, (string \<times> string \<times> nat) answer) prog" where
  "api_create_pipeline now uuid body session =
     with_role session ''admin'' (\<lambda>w.
       (let (db', r) = create_pipeline now uuid (pr_name body) (pr_steps body) (pr_description body)
              (pr_created_by body) (sv_db w)
        in (w\<lparr>sv_db := db'\<rparr>, bindE r (\<lambda>x. Inr (Done x)))))"

definition api_list_pipelines :: "int \<Rightarrow> ('n svc, pipeline_row list answer) prog" where
  "api_list_pipelines lim w = (w, Inr (Done (get_pipelines lim (sv_db w))))"

definition api_get_pipeline :: "string \<Rightarrow> ('n svc, (pipeline_row \<times> step_row list) answer) prog" where
  "api_get_pipeline pipeline_id w =
     found (get_pipeline pipeline_id (sv_db w)) not_found (\<lambda>p. retP (Done p)) w"

record run_request =
  ru_agent_id :: string
  ru_session :: string
  ru_requested_by :: string

record launch =
  la_run_id :: string
  la_task_id :: string
  la_sent :: bool

definition start_run ::
    "(string \<times> 'n task_handler) list \<Rightarrow> int \<Rightarrow> string \<Rightarrow> string \<Rightarrow> string \<Rightarrow> string \<Rightarrow> run_request \<Rightarrow> step_row
     \<Rightarrow> ('n svc, launch answer) prog" where
  "start_run handlers now run_id uuid requested_from pipeline_id body step0 =
     bindP (\<lambda>w. (let (db', r) = create_pipeline_run now run_id pipeline_id (ru_agent_id body) (ru_session body)
                     (ru_requested_by body) requested_from (sv_db w) in (w\<lparr>sv_db := db'\<rparr>, r))) (\<lambda>_.
     bindP (lift_result (create_pipeline_step_task (ru_agent_id body) (ru_session body) run_id (row_step step0)
              (ru_requested_by body) requested_from None uuid)) (\<lambda>first_task.
     bindP (modP (run_status now run_id ''running'' 0)) (\<lambda>_.
     bindP (create_and_dispatch handlers now first_task ''server'') (\<lambda>(_, d).
     bindP (if dr_accepted d then retP () else modP (run_status now run_id ''failed'' 0)) (\<lambda>_.
       retP (Done \<lparr>la_run_id = run_id, la_task_id = ts_id (spec_of first_task), la_sent = dr_accepted d\<rparr>))))))"

definition api_run_pipeline ::
    "(string \<times> 'n task_handler) list \<Rightarrow> int \<Rightarrow> string \<Rightarrow> string \<Rightarrow> string option \<Rightarrow> string \<Rightarrow> run_request
     \<Rightarrow> user_session option \<Rightarrow> ('n svc, launch answer) prog" where
  "api_run_pipeline handlers now run_id uuid host pipeline_id body session w =
     with_role session ''operator''
       (with_visibility session (Problem 403 ''No visible agents available'')
         (found (get_pipeline pipeline_id (sv_db w)) (Problem 404 ''Pipeline not found'') (\<lambda>(p, steps).
           case steps of
             [] \<Rightarrow> retP (Problem 400 ''Pipeline has no steps'')
           | step0 # _ \<Rightarrow> start_run handlers now run_id uuid (the_or host []) pipeline_id body step0))) w"

definition api_get_pipeline_run :: "string \<Rightarrow> user_session option \<Rightarrow> ('n svc, (run_row \<times> task_view list) answer) prog" where
  "api_get_pipeline_run run_id session w =
     with_visibility session not_found
       (found (get_pipeline_run run_id (sv_db w)) not_found (\<lambda>r. retP (Done r))) w"

definition api_audit_log :: "string option \<Rightarrow> string option \<Rightarrow> int \<Rightarrow> ('n svc, audit_row list answer) prog" where
  "api_audit_log entity_type entity_id lim w = (w, Inr (Done (get_audit_log entity_type entity_id lim (sv_db w))))"

section \<open>What the routes guarantee\<close>

lemma guard_simps [simp]:
  "\<not> request_has_minimum_role s r \<Longrightarrow> with_role s r m = retP (role_required_response r)"
  "request_has_minimum_role s r \<Longrightarrow> with_role s r m = m"
  "\<not> request_has_agent_visibility s \<Longrightarrow> with_visibility s h m' = retP h"
  "request_has_agent_visibility s \<Longrightarrow> with_visibility s h m' = m'"
  "found None e f = retP e" "found (Some x) e f = f x"
  by (simp_all add: with_role_def with_visibility_def found_def)

text \<open>Property C34. A task is cancelled exactly when an operator who sees the agents asks for it, the task is
  queued or running, and the agent was reached; the answer then says so. In every other case the task
  store is as before, and unless the task is cancellable nothing is sent to the agent.\<close>

theorem cancel_exact:
  "case api_cancel_task send now host i session w of (w', r) \<Rightarrow>
     (if request_has_minimum_role session ''operator'' \<and> request_has_agent_visibility session \<and>
         (case get_task i (sv_db w) of None \<Rightarrow> False | Some t \<Rightarrow> t_status t \<in> {''queued'', ''running''})
      then (case get_task i (sv_db w) of None \<Rightarrow> False | Some t \<Rightarrow>
         (case send (t_agent_id t) (CancelTaskEv \<lparr>ct_task_id = i\<rparr>) (sv_net w) of (n', sent) \<Rightarrow>
            sv_net w' = n' \<and> r = Inr (Done sent) \<and>
            (if sent then \<exists>t'. get_task i (sv_db w') = Some t' \<and> t_status t' = ''cancelled''
             else sv_db w' = sv_db w)))
      else w' = w \<and> (\<exists>code msg. r = Inr (Problem code msg) \<and> code \<in> {400, 403, 404}))"
proof -
  consider (role) "\<not> request_has_minimum_role session ''operator''"
    | (hidden) "request_has_minimum_role session ''operator''" "\<not> request_has_agent_visibility session"
    | (ok) "request_has_minimum_role session ''operator''" "request_has_agent_visibility session" by blast
  then show ?thesis
  proof cases
    case role
    then show ?thesis by (simp add: api_cancel_task_def role_required_response_def)
  next
    case hidden
    then show ?thesis by (simp add: api_cancel_task_def not_found_def)
  next
    case ok
    show ?thesis
    proof (cases "get_task i (sv_db w)")
      case None
      then show ?thesis using ok by (simp add: api_cancel_task_def not_found_def)
    next
      case (Some t)
      show ?thesis
      proof (cases "t_status t \<in> {''queued'', ''running''}")
        case False
        then show ?thesis using ok Some by (simp add: api_cancel_task_def)
      next
        case True
        obtain n' sent where s: "send (t_agent_id t) (CancelTaskEv \<lparr>ct_task_id = i\<rparr>) (sv_net w) = (n', sent)" by fastforce
        let ?net = "on_net (\<lambda>n. case send (t_agent_id t) (CancelTaskEv \<lparr>ct_task_id = i\<rparr>) n of (n', sent) \<Rightarrow> (n', Inr sent))"
        have n: "?net w = (w\<lparr>sv_net := n'\<rparr>, Inr sent)" using s by (simp add: on_net_def)
        have "\<exists>t'. get_task i (update_task_status now i ''cancelled'' None None None a (sv_db w)) = Some t' \<and> t_status t' = ''cancelled''" for a
          using get_task_update [OF Some] by blast
        then show ?thesis
          using ok Some True s n by (cases sent) (simp_all add: api_cancel_task_def on_db_def)
      qed
    qed
  qed
qed

section \<open>Launching a run\<close>

lemma create_run_fresh:
  assumes "find_run rid db = None" and "get_pipeline pid db \<noteq> None"
  shows "\<exists>run. snd (create_pipeline_run now rid pid agent sess who orig db) = Inr (rid, ''queued'') \<and>
     find_run rid (fst (create_pipeline_run now rid pid agent sess who orig db)) = Some run \<and> r_id run = rid \<and>
     r_agent_id run = agent \<and> r_session run = sess \<and> r_pipeline_id run = pid \<and>
     task_ids (fst (create_pipeline_run now rid pid agent sess who orig db)) = task_ids db"
proof -
  have f: "\<not> (\<exists>r\<in>set (pipeline_runs (working db)). r_id r = rid)"
    using assms(1) by (auto simp: find_run_def find_eq_None_iff)
  have p: "\<exists>p\<in>set (pipelines (working db)). p_id p = pid"
    using assms(2) by (auto simp: get_pipeline_def dest!: find_eq_Some_in split: option.splits)
  show ?thesis
    using f p assms(1)
    by (simp add: create_pipeline_run_def Let_def find_run_def find_append audit_def task_ids_def commit_def)
qed

lemma launch_step_task:
  assumes ids: "rid \<noteq> []" "uuid \<noteq> []" and fresh: "uuid \<notin> task_ids (sv_db w)"
    and sent: "send agent (ExecuteTaskEv \<lparr>et_task_id = uuid, et_script = s_script s, et_cwd = s_cwd s,
       et_timeout_sec = s_timeout_sec s, et_session = sess, et_env = []\<rparr>) (sv_net w) = (n', sent)"
  shows "\<exists>t db d. create_pipeline_step_task agent sess rid (row_step s) who orig None uuid = Inr (AgentTask t) \<and>
     ts_id t = uuid \<and>
     create_and_dispatch (agent_only send) now (AgentTask t) ''server'' w = (w\<lparr>sv_db := db, sv_net := n'\<rparr>, Inr d) \<and>
     dr_accepted (snd d) = sent \<and> (\<forall>r. find_run r db = find_run r (sv_db w)) \<and>
     task_ids db = insert uuid (task_ids (sv_db w)) \<and>
     (\<exists>v. get_task uuid db = Some v \<and> t_status v = (if sent then ''running'' else ''failed'') \<and>
        t_step_index v = s_step_index s \<and> t_pipeline_run_id v = Some rid)"
proof -
  let ?run = "\<lparr>r_id = rid, r_pipeline_id = [], r_agent_id = agent, r_session = sess, r_status = [],
     r_current_step = 0, r_requested_by = [], r_requested_from = [], r_created_at = 0, r_started_at = None, r_completed_at = None\<rparr>"
  obtain t where t: "create_pipeline_step_task agent sess rid (row_step s) who orig None uuid = Inr (AgentTask t)"
    "ts_id t = uuid" "ts_kind t = TASK_KIND_AGENT" "ts_agent_id t = agent"
    "ts_pipeline_run_id t = Some rid" "ts_step_index t = s_step_index s"
    "agent_execution t =
       Inr \<lparr>ex_task_id = uuid, ex_script = s_script s, ex_cwd = s_cwd s,
            ex_timeout_sec = s_timeout_sec s, ex_session = sess, ex_env = []\<rparr>"
    using step_task_of_row [of ?run uuid s who orig] ids by auto
  let ?res = "if sent then \<lparr>dr_accepted = True, dr_status = Some ''running'', dr_error = None\<rparr>
    else \<lparr>dr_accepted = False, dr_status = Some ''failed'', dr_error = Some ''Agent not connected''\<rparr>"
  let ?st = "if sent then ''running'' else ''failed''"
  let ?db2 = "fst (create_task now t (sv_db w))"
  have f: "ts_id t \<notin> task_ids (sv_db w)" using fresh t(2) by simp
  have A: "create_task now (spec_of (AgentTask t)) (sv_db w) = (?db2, Inr (to_api_dict t ''queued'' (Some now)))"
    using create_task_fresh(1) [OF f] by (metis prod.collapse task.sel(2))
  have B: "dispatcher_dispatch (agent_only send) (AgentTask t) (sv_net w) = (n', Inr ?res)"
    using t sent by (simp add: dispatcher_dispatch_def agent_only_def agent_task_handler_def execute_event_def bindP_def)
  have C: "dr_status ?res = Some ?st" by simp
  let ?db3 = "update_task_status now (ts_id (spec_of (AgentTask t))) ?st None None (dr_error ?res) ''server'' ?db2"
  obtain d where d: "create_and_dispatch (agent_only send) now (AgentTask t) ''server'' w =
      (w\<lparr>sv_db := ?db3, sv_net := n'\<rparr>, Inr (d, ?res))"
    using create_and_dispatch_Inr [OF A B C, of "''server''"] by blast
  have g: "get_task uuid ?db2 = Some (map_task_row (task_insert_row t now))"
    using create_task_fresh(2) [OF f] t(2) by simp
  obtain v where v: "get_task uuid ?db3 = Some v" "t_status v = ?st"
    "t_pipeline_run_id v = Some rid" "t_step_index v = s_step_index s"
    using get_task_update [OF g, of now ?st None None "dr_error ?res" "''server''"] t(2,5,6)
    by (auto simp: task_insert_row_def)
  have "task_ids ?db3 = insert uuid (task_ids (sv_db w))" using create_task_fresh(3) [OF f] t(2) by simp
  moreover have "find_run r ?db3 = find_run r (sv_db w)" for r by simp
  ultimately show ?thesis
    using t(1,2) d v by (intro exI [of _ t] exI [of _ ?db3] exI [of _ "(d, ?res)"]) auto
qed

text \<open>Launching a pipeline. An operator's request starts the first step of the pipeline: the
  run and the task of the step exist afterwards, the task belongs to the run and carries the step's index,
  and both are running when the agent was reached and failed when it was not. The run is always put at
  step 0, whatever the index of the first step.\<close>

theorem run_pipeline_launch:
  assumes "request_has_minimum_role session ''operator''" and "request_has_agent_visibility session"
    and pipe: "get_pipeline pid (sv_db w) = Some (p, step0 # steps)"
    and ids: "rid \<noteq> []" "uuid \<noteq> []" and fresh: "find_run rid (sv_db w) = None" "uuid \<notin> task_ids (sv_db w)"
    and sent: "send (ru_agent_id body) (ExecuteTaskEv \<lparr>et_task_id = uuid, et_script = s_script step0, et_cwd = s_cwd step0,
       et_timeout_sec = s_timeout_sec step0, et_session = ru_session body, et_env = []\<rparr>) (sv_net w) = (n', sent)"
  shows "\<exists>w' run t. api_run_pipeline (agent_only send) now rid uuid host pid body session w =
       (w', Inr (Done \<lparr>la_run_id = rid, la_task_id = uuid, la_sent = sent\<rparr>)) \<and>
     sv_net w' = n' \<and> find_run rid (sv_db w') = Some run \<and> r_current_step run = 0 \<and>
     r_status run = (if sent then ''running'' else ''failed'') \<and>
     get_task uuid (sv_db w') = Some t \<and> t_status t = r_status run \<and> t_step_index t = s_step_index step0 \<and>
     t_pipeline_run_id t = Some rid"
proof -
  let ?orig = "the_or host []"
  let ?cr = "create_pipeline_run now rid pid (ru_agent_id body) (ru_session body) (ru_requested_by body) ?orig (sv_db w)"
  obtain run where run: "snd ?cr = Inr (rid, ''queued'')" "find_run rid (fst ?cr) = Some run"
    "task_ids (fst ?cr) = task_ids (sv_db w)"
    using create_run_fresh [OF fresh(1), of pid] pipe by fastforce
  let ?w1 = "w\<lparr>sv_db := fst ?cr\<rparr>"
  let ?w2 = "run_status now rid ''running'' 0 ?w1"
  have s1: "(\<lambda>w. (let (db', r) = create_pipeline_run now rid pid (ru_agent_id body) (ru_session body)
       (ru_requested_by body) ?orig (sv_db w) in (w\<lparr>sv_db := db'\<rparr>, r))) w = (?w1, Inr (rid, ''queued''))"
    using run(1) by (cases ?cr) simp
  have w2: "uuid \<notin> task_ids (sv_db ?w2)" "sv_net ?w2 = sv_net w"
    using fresh(2) run(3) by (simp_all add: run_status_def on_db_def)
  obtain t db d where t: "create_pipeline_step_task (ru_agent_id body) (ru_session body) rid (row_step step0)
       (ru_requested_by body) ?orig None uuid = Inr (AgentTask t)" "ts_id t = uuid"
     "create_and_dispatch (agent_only send) now (AgentTask t) ''server'' ?w2 = (?w2\<lparr>sv_db := db, sv_net := n'\<rparr>, Inr d)"
     "dr_accepted (snd d) = sent" "\<forall>r. find_run r db = find_run r (sv_db ?w2)"
     and v: "\<exists>v. get_task uuid db = Some v \<and> t_status v = (if sent then ''running'' else ''failed'') \<and>
        t_step_index v = s_step_index step0 \<and> t_pipeline_run_id v = Some rid"
    using launch_step_task [OF ids w2(1), of send "ru_agent_id body" step0 "ru_session body" n' sent
        "ru_requested_by body" ?orig now] sent w2(2) by auto
  let ?w3 = "?w2\<lparr>sv_db := db, sv_net := n'\<rparr>"
  let ?w4 = "if sent then ?w3 else run_status now rid ''failed'' 0 ?w3"
  have fr: "find_run rid db = Some (set_run_status now ''running'' (Some 0) run)"
    using t(5) run(2) by (simp add: run_status_def on_db_def find_run_update)
  have go: "start_run (agent_only send) now rid uuid ?orig pid body step0 w =
      (?w4, Inr (Done \<lparr>la_run_id = rid, la_task_id = uuid, la_sent = sent\<rparr>))"
    unfolding start_run_def
    by (rule bindP_Inr, rule s1, rule bindP_Inr, simp add: t(1), rule bindP_Inr, simp, rule bindP_Inr, rule t(3))
      (use t(2,4) in \<open>cases d; simp\<close>)
  have "api_run_pipeline (agent_only send) now rid uuid host pid body session w =
      (?w4, Inr (Done \<lparr>la_run_id = rid, la_task_id = uuid, la_sent = sent\<rparr>))"
    using assms(1,2) pipe go by (simp add: api_run_pipeline_def)
  moreover obtain v where "get_task uuid (sv_db ?w4) = Some v" "t_status v = (if sent then ''running'' else ''failed'')"
      "t_step_index v = s_step_index step0" "t_pipeline_run_id v = Some rid"
    using v by (auto simp: run_status_def on_db_def)
  moreover have "\<exists>run'. find_run rid (sv_db ?w4) = Some run' \<and> r_current_step run' = 0 \<and>
      r_status run' = (if sent then ''running'' else ''failed'')"
    using fr by (auto simp: run_status_def on_db_def find_run_update set_run_status_def Let_def)
  moreover have "sv_net ?w4 = n'" by (simp add: run_status_def on_db_def)
  ultimately show ?thesis by (intro exI [of _ ?w4]) metis
qed

definition sample_session :: "string list \<Rightarrow> user_session option" where
  "sample_session roles = Some \<lparr>us_access_token = ''tok'', us_user = sample_user roles, us_created_at = 0,
     us_expires_at = 99, us_last_seen_at = 0\<rparr>"

theorem run_pipeline_launch_witness:
  "\<exists>w' run t. api_run_pipeline (agent_only send_ok) 7 ''r9'' ''u9'' None ''p''
       \<lparr>ru_agent_id = ''vm1'', ru_session = [], ru_requested_by = ''op''\<rparr> (sample_session [''operator'']) (sample_svc ''running'' ''stop'') =
       (w', Inr (Done \<lparr>la_run_id = ''r9'', la_task_id = ''u9'', la_sent = True\<rparr>)) \<and>
     find_run ''r9'' (sv_db w') = Some run \<and> r_status run = ''running'' \<and>
     get_task ''u9'' (sv_db w') = Some t \<and> t_status t = ''running''"
proof -
  let ?w = "sample_svc ''running'' ''stop''"
  let ?body = "\<lparr>ru_agent_id = ''vm1'', ru_session = [], ru_requested_by = ''op''\<rparr>"
  have r: "request_has_minimum_role (sample_session [''operator'']) ''operator''"
    "request_has_agent_visibility (sample_session [''operator''])" by code_simp+
  have p: "get_pipeline ''p'' (sv_db ?w) = Some (\<lparr>p_id = ''p'', p_name = [], p_description = [], p_created_by = [],
      p_created_at = 0, p_updated_at = 0\<rparr>, sample_row 0 ''a'' ''stop'' # [sample_row 1 ''b'' ''stop''])"
    by (simp add: get_pipeline_def sample_svc_def sample_row_def Let_def)
  have f: "find_run ''r9'' (sv_db ?w) = None" by (simp add: find_run_def sample_svc_def sample_run_def Let_def)
  have u: "''u9'' \<notin> task_ids (sv_db ?w)" by simp
  show ?thesis
    using run_pipeline_launch [OF r p _ _ f u, of send_ok ?body _ True 7 None] by (auto simp: send_ok_def)
qed

end
