(* ===== verification/Deployment_Api.thy ===== *)
theory Deployment_Api
  imports Deployment_Service Task_Api
begin

text \<open>
  The deployment routes (\<open>api/routers/deployment_router.py\<close>) over the deployment service, its files and the
  registry. \<open>resolve_agent_ws_url(request)\<close> is an argument of the prepare route. A file response carries the
  contents of the file.
\<close>

section \<open>Preparing\<close>

record prepare_body =
  pb_hostname :: string
  pb_agent_id :: "string option"
  pb_display_name :: "string option"
  pb_target_host :: "string option"
  pb_username :: "string option"
  pb_domain :: "string option"
  pb_password :: "string option"
  pb_secret :: "string option"
  pb_group_name :: "string option"
  pb_connection_name :: "string option"
  pb_release_id :: "string option"
  pb_requested_by :: string

definition body_field :: "string option \<Rightarrow> string \<Rightarrow> string" where
  "body_field v dflt = strip (ostr_or v dflt)"

definition prepare_arguments :: "prepare_body \<Rightarrow> string \<Rightarrow> prepare_request" where
  "prepare_arguments b server_ws_url =
     (let hostname = pb_hostname b; agent_id = body_field (pb_agent_id b) hostname in
      \<lparr>pq_agent_id = agent_id, pq_hostname = hostname, pq_display_name = body_field (pb_display_name b) hostname,
       pq_target_host = body_field (pb_target_host b) hostname, pq_username = body_field (pb_username b) [],
       pq_domain = body_field (pb_domain b) [], pq_password = body_field (pb_password b) [],
       pq_secret = body_field (pb_secret b) [], pq_group_name = body_field (pb_group_name b) agent_id,
       pq_connection_name = body_field (pb_connection_name b) hostname,
       pq_release_id = ne_opt (body_field (pb_release_id b) []),
       pq_requested_by = str_or (strip (pb_requested_by b)) ''user'', pq_server_ws_url = server_ws_url\<rparr>)"

datatype prepare_answer = Prepared prepared | ActiveConflict string deployment_view

definition api_prepare_deployment ::
    "deploy_ctx \<Rightarrow> (string \<times> deploy_state task_handler) list option \<Rightarrow> prepare_fresh \<Rightarrow> prepare_body \<Rightarrow> string
     \<Rightarrow> user_session option \<Rightarrow> (deploy_state svc, prepare_answer answer) prog" where
  "api_prepare_deployment cx handlers fr b server_ws_url session =
     with_role session ''operator'' (\<lambda>w.
       (case prepare_deployment cx handlers fr (prepare_arguments b server_ws_url) w of
          (w', Inr deployment) \<Rightarrow> (w', Inr (Done (Prepared deployment)))
        | (w', Inl (RuntimeError message)) \<Rightarrow>
            bindP (on_reg (ask get_active_deployment)) (\<lambda>active.
              retP (case active of
                      Some v \<Rightarrow> Done (ActiveConflict message v)
                    | None \<Rightarrow> Problem 502 message)) w'
        | (w', Inl e) \<Rightarrow> (w', Inl e)))"

section \<open>Reading\<close>

definition api_get_deployment_config ::
    "deploy_ctx \<Rightarrow> int \<Rightarrow> (nat \<Rightarrow> string) \<Rightarrow> (deploy_state, prepare_config answer) prog" where
  "api_get_deployment_config cx now uuids =
     bindP (on_registry (get_prepare_config cx now uuids)) (\<lambda>c. retP (Done c))"

definition api_get_deployment_releases ::
    "deploy_ctx \<Rightarrow> int \<Rightarrow> (nat \<Rightarrow> string) \<Rightarrow> (deploy_state, releases_config answer) prog" where
  "api_get_deployment_releases cx now uuids =
     bindP (on_registry (get_releases_config cx now uuids 20)) (\<lambda>c. retP (Done c))"

definition api_list_deployments ::
    "string option \<Rightarrow> int \<Rightarrow> (deploy_state, deployment_view list answer) prog" where
  "api_list_deployments agent_id lim = bindP (on_registry (ask (get_deployments agent_id lim))) (\<lambda>ds. retP (Done ds))"

definition with_deployment ::
    "string \<Rightarrow> (deployment_view \<Rightarrow> (deploy_state, 'a answer) prog) \<Rightarrow> (deploy_state, 'a answer) prog" where
  "with_deployment deployment_id m =
     bindP (on_registry (ask (get_deployment deployment_id))) (\<lambda>d. found d not_found m)"

definition api_get_deployment :: "string \<Rightarrow> (deploy_state, deployment_view answer) prog" where
  "api_get_deployment deployment_id = with_deployment deployment_id (\<lambda>v. retP (Done v))"

definition provisioning_payload :: "string \<Rightarrow> deployment_view \<Rightarrow> pydict" where
  "provisioning_payload deployment_id v =
     (let diagnostics = as_dict (dget (dv_metadata v) ''guacamole_provisioning'') in
      if diagnostics = [] then
        [(''available'', PBool False), (''deployment_id'', PStr deployment_id), (''agent_id'', PStr (de_agent_id v)),
         (''hostname'', PStr (de_hostname v)),
         (''detail'', PStr ''No Guacamole provisioning diagnostics recorded for this deployment.''),
         (''group'', PDict []), (''connection'', PDict [])]
      else
        [(''available'', PBool True), (''deployment_id'', PStr deployment_id), (''agent_id'', PStr (de_agent_id v)),
         (''hostname'', PStr (de_hostname v)),
         (''data_source'', PStr (py_str (py_or (dget diagnostics ''data_source'') (PStr [])))),
         (''detail'', dget diagnostics ''detail''),
         (''group'', PDict (as_dict (dget diagnostics ''group''))),
         (''connection'', PDict (as_dict (dget diagnostics ''connection'')))])"

definition api_get_deployment_guacamole_provisioning :: "string \<Rightarrow> (deploy_state, pydict answer) prog" where
  "api_get_deployment_guacamole_provisioning deployment_id =
     with_deployment deployment_id (\<lambda>v. retP (Done (provisioning_payload deployment_id v)))"

section \<open>Files\<close>

record file_response =
  fr_name :: string
  fr_contents :: string

text \<open>\<open>detail\<close> contains \<open>Release not found\<close>: 404.\<close>

definition api_proxy_release_artifact ::
    "deploy_ctx \<Rightarrow> int \<Rightarrow> (nat \<Rightarrow> string) \<Rightarrow> string \<Rightarrow> user_session option \<Rightarrow> (deploy_state, file_response answer) prog" where
  "api_proxy_release_artifact cx now uuids release_id session =
     with_role session ''operator'' (\<lambda>w.
       (case get_release_artifact_proxy cx now uuids release_id w of
          (w', Inl (RuntimeError detail)) \<Rightarrow>
            (w', Inr (Problem (if contains detail ''Release not found'' then 404 else 502) detail))
        | (w', Inl e) \<Rightarrow> (w', Inl e)
        | (w', Inr (artifact_path, asset_name)) \<Rightarrow>
            (case read_file artifact_path w' of
               None \<Rightarrow> (w', Inr (Problem 404 ''Release artifact not found on disk''))
             | Some body \<Rightarrow> (w', Inr (Done \<lparr>fr_name = asset_name, fr_contents = body\<rparr>)))))"

definition send_stored ::
    "string \<Rightarrow> string \<Rightarrow> string \<Rightarrow> string \<Rightarrow> (deploy_state, file_response answer) prog" where
  "send_stored candidate_path name unavailable missing w =
     (if candidate_path = [] then (w, Inr (Problem 404 unavailable))
      else (case read_file candidate_path w of
              None \<Rightarrow> (w, Inr (Problem 404 missing))
            | Some body \<Rightarrow> (w, Inr (Done \<lparr>fr_name = name, fr_contents = body\<rparr>))))"

definition api_get_deployment_installer ::
    "string \<Rightarrow> user_session option \<Rightarrow> (deploy_state, file_response answer) prog" where
  "api_get_deployment_installer deployment_id session =
     with_role session ''operator'' (with_deployment deployment_id (\<lambda>v.
       send_stored (str_or (de_installer_copy_path v) (de_install_script_path v)) []
         ''Installer script not available'' ''Installer script not found on disk''))"

definition api_get_deployment_package ::
    "string \<Rightarrow> user_session option \<Rightarrow> (deploy_state, file_response answer) prog" where
  "api_get_deployment_package deployment_id session =
     with_role session ''operator'' (with_deployment deployment_id (\<lambda>v.
       send_stored (de_package_zip_path v) (''deployment-'' @ deployment_id @ ''.zip'')
         ''Package ZIP not available'' ''Package ZIP not found on disk''))"

section \<open>What the routes guarantee\<close>

text \<open>Only operators receive files, and the package route sends the contents of the archive the registry
  names.\<close>

theorem package_route_guarded:
  "case api_get_deployment_package d session w of
     (w', Inr (Done f)) \<Rightarrow>
       w' = w \<and> request_has_minimum_role session ''operator'' \<and>
       (\<exists>v. get_deployment d (ds_registry w) = Inr (Some v) \<and> de_package_zip_path v \<noteq> [] \<and>
          read_file (de_package_zip_path v) w = Some (fr_contents f))
   | (w', _) \<Rightarrow> w' = w"
proof (cases "request_has_minimum_role session ''operator''")
  case True
  have reg: "on_registry (ask (get_deployment d)) w = (w, get_deployment d (ds_registry w))"
    by (simp add: on_registry_def ask_def)
  show ?thesis
    using True reg
    by (cases "get_deployment d (ds_registry w)")
      (auto simp: api_get_deployment_package_def with_deployment_def send_stored_def found_def not_found_def
        split: option.splits)
qed (simp add: api_get_deployment_package_def role_required_response_def)

end
