(* ===== verification/Guacamole_Service.thy ===== *)
theory Guacamole_Service
  imports Rdp_Monitor User_Service Py_Json
begin

text \<open>
  The remote desktop sessions of the server (\<open>services/guacamole_service.py\<close>): the sessions it opens with
  Guacamole and reuses, their tunnels, cookies and websockets, the delayed and the idle close, the reasons
  it gives for a close, the owners of recordings, and the proxy of the HTTP tunnel.
  The bridge to Guacamole (\<open>guacamole/bridge.py\<close>) and the answers of its server are parameters. A reading
  of \<open>time.time()\<close> or of the loop's clock is a number of microseconds. A text is a sequence of bytes. The
  lock of an agent's sessions is the atomicity of a handler here.
\<close>

section \<open>Parameters\<close>

text \<open>
  What \<open>urlopen\<close> gives: an answer, an error answer, one of the two errors of a connection, or another
  exception. The requests sent and the tokens invalidated are counted, so that a parameter can answer the
  same request differently the next time. A handler reads each clock once.
\<close>

record http_answer =
  ha_status :: int
  ha_headers :: "(string \<times> string) list"
  ha_set_cookies :: "string list"
  ha_body :: string

datatype upstream = Opened http_answer | Http_Error http_answer | Url_Error string | Os_Error string
  | Other_Error pyexc

text \<open>How a call of the bridge fails: \<open>HTTPError\<close>, \<open>URLError\<close>, \<open>RuntimeError\<close>, \<open>OSError\<close> or another exception.\<close>

datatype bridge_error = Br_Http int | Br_Url string | Br_Runtime string | Br_Os string | Br_Other pyexc

record http_request =
  hq_url :: string
  hq_method :: string
  hq_headers :: "(string \<times> string) list"
  hq_data :: "string option"

record creation =
  cn_agent_id :: string
  cn_state :: "pydict option"
  cn_tunnels :: "(string \<times> string) list"
  cn_connection_id :: string
  cn_vm_username :: string
  cn_owner :: "(string \<times> string) list option"
  cn_recorded :: bool

record guac_ctx =
  gc_base_url :: string
  gc_config :: pydict
  gc_proxy_urls :: "string \<Rightarrow> (string \<times> string) list"
  gc_build_session :: "string \<Rightarrow> pydict option \<Rightarrow> pydict result"
  gc_create :: "creation \<Rightarrow> pydict result"
  gc_invalidate :: "nat \<Rightarrow> string \<Rightarrow> bridge_error + bool"
  gc_open :: "nat \<Rightarrow> http_request \<Rightarrow> upstream"
  gc_cookie_pairs :: "string \<Rightarrow> (string \<times> string) list"
  gc_now :: int
  gc_loop_now :: int

section \<open>State\<close>

text \<open>A task that closes a session later: \<open>Created\<close> until the loop first runs it.\<close>

datatype task_phase = Created | Sleeping | Finished

record close_task =
  ct_token :: string
  ct_scheduled_at :: int
  ct_due :: int
  ct_reason :: string
  ct_phase :: task_phase
  ct_cancelled :: bool

record recording_owner =
  rc_created_at :: int
  rc_agent_id :: string
  rc_path :: string
  rc_stem :: string
  rc_owner :: "(string \<times> string) list"

text \<open>
  \<open>gu_closed\<close>, \<open>gu_streams_closed\<close>, \<open>gu_invalidated\<close> and \<open>gu_opens\<close> record what the service did to
  websockets, streams and at Guacamole. \<open>gu_pending\<close> names a task by its place in \<open>gu_tasks\<close>.
\<close>

record guac =
  gu_rdp :: rdp_monitor
  gu_agent_tokens :: "(string \<times> string list) list"
  gu_cookies :: "(string \<times> string) list"
  gu_tunnel_tokens :: "(string \<times> string) list"
  gu_tunnel_cookies :: "(string \<times> string) list"
  gu_ws_supported :: "bool option"
  gu_websockets :: "(string \<times> nat list) list"
  gu_streams :: "nat list"
  gu_shutdown :: bool
  gu_tasks :: "close_task list"
  gu_pending :: "(string \<times> nat) list"
  gu_reasons :: "(string \<times> int \<times> string) list"
  gu_recordings :: "recording_owner list"
  gu_closed :: "(nat \<times> string) list"
  gu_streams_closed :: "nat list"
  gu_invalidated :: "string list"
  gu_opens :: nat

definition guac_init :: "rdp_monitor \<Rightarrow> guac" where
  "guac_init m = \<lparr>gu_rdp = m, gu_agent_tokens = [], gu_cookies = [], gu_tunnel_tokens = [], gu_tunnel_cookies = [],
     gu_ws_supported = None, gu_websockets = [], gu_streams = [], gu_shutdown = False, gu_tasks = [],
     gu_pending = [], gu_reasons = [], gu_recordings = [], gu_closed = [], gu_streams_closed = [],
     gu_invalidated = [], gu_opens = 0\<rparr>"

definition on_rdp :: "(rdp_monitor \<Rightarrow> rdp_monitor) \<Rightarrow> guac \<Rightarrow> guac" where
  "on_rdp f g = g\<lparr>gu_rdp := f (gu_rdp g)\<rparr>"

section \<open>Queries and headers\<close>

text \<open>\<open>parse_qs\<close> with \<open>keep_blank_values\<close>: the pairs in order.\<close>

fun unquote_plus :: "string \<Rightarrow> string" where
  "unquote_plus [] = []"
| "unquote_plus (c # s) =
     (if c = CHR ''+'' then CHR '' '' # unquote_plus s
      else if c = CHR ''%'' then
        (case s of
           a # b # r \<Rightarrow>
             (case (hex_value a, hex_value b) of
                (Some x, Some y) \<Rightarrow> char_of (16 * x + y) # unquote_plus r
              | _ \<Rightarrow> c # unquote_plus s)
         | _ \<Rightarrow> c # unquote_plus s)
      else c # unquote_plus s)"

definition query_pair :: "string \<Rightarrow> string \<times> string" where
  "query_pair p = (let name = before_first (CHR ''='') p
                   in (unquote_plus name, unquote_plus (drop (length name + 1) p)))"

definition parse_qs :: "string \<Rightarrow> (string \<times> string) list" where
  "parse_qs q = map query_pair (filter (\<lambda>p. p \<noteq> []) (split_on (CHR ''&'') q))"

text \<open>\<open>parsed.get(a) or parsed.get(b) or []\<close>, its first element, cleaned.\<close>

definition query_value :: "string \<Rightarrow> string \<Rightarrow> string \<Rightarrow> string" where
  "query_value a b q =
     (let ps = parse_qs q in
      strip (case map_of ps a of Some v \<Rightarrow> v | None \<Rightarrow> the_or (map_of ps b) []))"

definition extract_auth_token_from_query :: "string \<Rightarrow> string" where
  "extract_auth_token_from_query q = query_value ''token'' ''authToken'' q"

definition extract_auth_token_from_body :: "string \<Rightarrow> string" where
  "extract_auth_token_from_body body = (if body = [] then [] else query_value ''token'' ''authToken'' body)"

definition extract_resume_tunnel_uuid :: "string \<Rightarrow> string" where
  "extract_resume_tunnel_uuid body =
     (if body = [] then [] else query_value ''GUAC_RESUME_TUNNEL'' ''resume_tunnel_uuid'' body)"

definition extract_tunnel_uuid :: "string \<Rightarrow> string" where
  "extract_tunnel_uuid q =
     (if q = ''connect'' then []
      else if starts_with ''read:'' q then strip (before_first (CHR '':'') (drop 5 q))
      else if starts_with ''write:'' q then strip (before_first (CHR '':'') (drop 6 q))
      else [])"

definition header_get :: "(string \<times> string) list \<Rightarrow> string \<Rightarrow> string option" where
  "header_get hs name = map_option snd (find (\<lambda>(k, _). lower k = lower name) hs)"

definition forwarded_headers :: "string list" where
  "forwarded_headers = [''Content-Type'', ''Guacamole-Tunnel-Token'', ''Guacamole-Status-Code'',
     ''Guacamole-Error-Message'', ''Cache-Control'']"

definition copy_response_headers :: "(string \<times> string) list \<Rightarrow> (string \<times> string) list" where
  "copy_response_headers hs =
     concat (map (\<lambda>n. let v = the_or (header_get hs n) [] in if v \<noteq> [] then [(n, v)] else []) forwarded_headers)"

text \<open>\<open>SimpleCookie.load\<close> of every header; a name that comes again keeps its place with the new value.\<close>

definition extract_cookie_header :: "guac_ctx \<Rightarrow> string list \<Rightarrow> string" where
  "extract_cookie_header cx raw =
     join ''; '' (map (\<lambda>(k, v). k @ ''='' @ v)
       (fold (\<lambda>h jar. dupdate jar (gc_cookie_pairs cx h)) raw []))"

section \<open>Small parts\<close>

definition guac_get_config :: "guac_ctx \<Rightarrow> string option \<Rightarrow> pydict" where
  "guac_get_config cx public_base_url =
     (if the_or public_base_url [] = [] then gc_config cx
      else (let urls = gc_proxy_urls cx (the_or public_base_url []) in
        AList.update ''http_tunnel_url'' (PStr (the_or (map_of urls ''http'') []))
          (AList.update ''websocket_tunnel_url'' (PStr (the_or (map_of urls ''websocket'') [])) (gc_config cx))))"

definition list_tracked_sessions :: "int \<Rightarrow> guac \<Rightarrow> rdp_snapshot_entry list" where
  "list_tracked_sessions now g =
     sort_key (\<lambda>e. - rs_last_activity_at (se_session e)) (rdp_build_snapshot now (gu_rdp g))"

definition set_websocket_proxy_supported :: "bool option \<Rightarrow> guac \<Rightarrow> guac" where
  "set_websocket_proxy_supported b g = g\<lparr>gu_ws_supported := b\<rparr>"

definition drop_tunnel :: "string \<Rightarrow> guac \<Rightarrow> guac" where
  "drop_tunnel t g = g\<lparr>gu_tunnel_tokens := AList.delete t (gu_tunnel_tokens g),
                      gu_tunnel_cookies := AList.delete t (gu_tunnel_cookies g)\<rparr>"

definition forget_http_tunnels :: "string \<Rightarrow> guac \<Rightarrow> guac \<times> string list" where
  "forget_http_tunnels tok g =
     (let (m, released) = release_all_tunnels tok (gu_rdp g)
      in (fold drop_tunnel released (g\<lparr>gu_rdp := m\<rparr>), released))"

definition get_reusable_http_tunnel_uuid :: "int \<Rightarrow> string \<Rightarrow> guac \<Rightarrow> guac \<times> string" where
  "get_reusable_http_tunnel_uuid now tok g =
     (let (m, preferred) = get_primary_tunnel_uuid tok (gu_rdp g);
          g1 = g\<lparr>gu_rdp := m\<rparr>;
          usable = (\<lambda>t. the_or (map_of (gu_tunnel_tokens g1) t) [] \<noteq> [])
      in if preferred \<noteq> [] \<and> usable preferred then (g1, preferred)
         else (case find usable (rev (get_tunnel_uuids tok (gu_rdp g1))) of
                 None \<Rightarrow> (g1, [])
               | Some t \<Rightarrow> (on_rdp (touch_tunnel now t) g1, t)))"

definition build_tracked_owner :: "user_session option \<Rightarrow> (string \<times> string) list option" where
  "build_tracked_owner session =
     (case session of
        None \<Rightarrow> None
      | Some s \<Rightarrow>
          (let u = us_user s in
           Some [(''subject'', strip (u_subject u)), (''username'', strip (u_username u)),
             (''display_name'', strip (u_display_name u)), (''email'', strip (u_email u)),
             (''avatar_url'', strip (u_avatar_url u)), (''avatar_initials'', strip (u_avatar_initials u)),
             (''auth_provider'', strip (u_auth_provider u))]))"

definition build_session_lock_key :: "string \<Rightarrow> (string \<times> string) list option \<Rightarrow> string" where
  "build_session_lock_key agent_id owner =
     (if owner_subject owner \<noteq> [] then ''owner:'' @ owner_subject owner
      else if strip agent_id \<noteq> [] then ''agent:'' @ strip agent_id
      else ''__default__'')"

section \<open>Reasons of a close\<close>

definition reason_lifetime :: int where "reason_lifetime = 120000000"

definition remember_close_reason :: "int \<Rightarrow> string \<Rightarrow> string \<Rightarrow> guac \<Rightarrow> guac" where
  "remember_close_reason lt tok reason g =
     (if strip tok = [] \<or> strip reason = [] then g
      else g\<lparr>gu_reasons := AList.update (strip tok) (lt + reason_lifetime, strip reason) (gu_reasons g)\<rparr>)"

definition get_recent_close_reason :: "int \<Rightarrow> string \<Rightarrow> guac \<Rightarrow> guac \<times> string" where
  "get_recent_close_reason lt tok g =
     (if strip tok = [] then (g, [])
      else
        (let live = filter (\<lambda>(_, e, _). lt < e) (gu_reasons g);
             g1 = g\<lparr>gu_reasons := AList.delete (strip tok) live\<rparr>
         in case map_of live (strip tok) of
              None \<Rightarrow> (g1, [])
            | Some (e, reason) \<Rightarrow> (g1, if e \<le> lt then [] else reason)))"

section \<open>Owners of recordings\<close>

definition recording_lifetime :: int where "recording_lifetime = 86400000000"

definition trim_recordings :: "int \<Rightarrow> guac \<Rightarrow> guac" where
  "trim_recordings now g =
     (let kept = filter (\<lambda>r. now - recording_lifetime \<le> rc_created_at r) (gu_recordings g)
      in g\<lparr>gu_recordings := drop (length kept - 512) kept\<rparr>)"

definition stem_of :: "string \<Rightarrow> string" where
  "stem_of p = (if ends_with ''.guac'' (lower p) then take (length p - 5) p else p)"

definition remember_recording_owner ::
    "int \<Rightarrow> pydict option \<Rightarrow> string \<Rightarrow> (string \<times> string) list option \<Rightarrow> guac \<Rightarrow> guac" where
  "remember_recording_owner now entry agent_id owner g =
     (let path = (case dget (the_or entry []) ''relative_path'' of PNone \<Rightarrow> [] | v \<Rightarrow> strip (py_str v)) in
      if the_or entry [] = [] \<or> the_or owner [] = [] \<or> path = [] then g
      else (let g1 = trim_recordings now g in
        g1\<lparr>gu_recordings := gu_recordings g1 @
          [\<lparr>rc_created_at = now, rc_agent_id = strip agent_id, rc_path = path, rc_stem = stem_of path,
            rc_owner = clean_owner (the_or owner [])\<rparr>]\<rparr>))"

definition recording_matches :: "string \<Rightarrow> recording_owner \<Rightarrow> bool" where
  "recording_matches path r \<longleftrightarrow>
     (strip (rc_path r) \<noteq> [] \<or> strip (rc_stem r) \<noteq> []) \<and>
     (path = strip (rc_path r) \<or> stem_of path = strip (rc_stem r) \<or>
      starts_with (strip (rc_stem r) @ ''.'') (stem_of path))"

definition match_length :: "recording_owner \<Rightarrow> nat" where
  "match_length r = length (str_or (strip (rc_stem r)) (strip (rc_path r)))"

definition find_recording_owner :: "int \<Rightarrow> string \<Rightarrow> guac \<Rightarrow> guac \<times> recording_owner option" where
  "find_recording_owner now relative_path g =
     (let path = strip relative_path in
      if path = [] then (g, None)
      else
        (let g1 = trim_recordings now g in
         (g1, fold (\<lambda>r best. if recording_matches path r \<and>
                        (case best of None \<Rightarrow> True | Some b \<Rightarrow> match_length b < match_length r)
                      then Some r else best) (gu_recordings g1) None)))"

definition clean_value :: "pyval \<Rightarrow> string" where
  "clean_value v = (if v = PNone then [] else strip (py_str v))"

text \<open>An owner found replaces the owner, the agent and the user of an entry.\<close>

definition annotate_entry :: "recording_owner option \<Rightarrow> pydict \<Rightarrow> pydict" where
  "annotate_entry found e =
     (case found of
        None \<Rightarrow> e
      | Some r \<Rightarrow>
          (let owner = map (\<lambda>(k, v). (k, PStr v)) (rc_owner r) in
           AList.update ''username''
             (PStr (str_or (clean_value (dget owner ''username'')) (clean_value (dget e ''username''))))
             (AList.update ''agent_id'' (PStr (str_or (strip (rc_agent_id r)) (clean_value (dget e ''agent_id''))))
               (AList.update ''owner'' (PDict owner) e))))"

fun annotate_entries :: "int \<Rightarrow> pyval list \<Rightarrow> guac \<Rightarrow> guac \<times> pyval list" where
  "annotate_entries now [] g = (g, [])"
| "annotate_entries now (v # vs) g =
     (case v of
        PDict e \<Rightarrow>
          (let (g1, found) = find_recording_owner now (clean_value (dget e ''relative_path'')) g;
               (g2, rest) = annotate_entries now vs g1
           in (g2, PDict (annotate_entry found e) # rest))
      | _ \<Rightarrow> annotate_entries now vs g)"

definition annotate_recording_inventory :: "int \<Rightarrow> pydict \<Rightarrow> guac \<Rightarrow> guac \<times> pydict" where
  "annotate_recording_inventory now payload g =
     (case dget payload ''entries'' of
        PList vs \<Rightarrow> (let (g1, es) = annotate_entries now vs g in (g1, AList.update ''entries'' (PList es) payload))
      | _ \<Rightarrow> (g, payload))"

section \<open>Calls to Guacamole\<close>

definition invalidate_token :: "guac_ctx \<Rightarrow> string \<Rightarrow> guac \<Rightarrow> guac \<times> (bridge_error + bool)" where
  "invalidate_token cx tok g =
     (g\<lparr>gu_invalidated := gu_invalidated g @ [tok]\<rparr>, gc_invalidate cx (length (gu_invalidated g)) tok)"

text \<open>With a configured server; an exception is logged.\<close>

definition try_invalidate :: "guac_ctx \<Rightarrow> string \<Rightarrow> guac \<Rightarrow> guac" where
  "try_invalidate cx tok g = (if gc_base_url cx = [] then g else fst (invalidate_token cx tok g))"

definition open_url :: "guac_ctx \<Rightarrow> http_request \<Rightarrow> guac \<Rightarrow> guac \<times> upstream" where
  "open_url cx q g = (g\<lparr>gu_opens := Suc (gu_opens g)\<rparr>, gc_open cx (gu_opens g) q)"

definition display_int :: "pydict \<Rightarrow> string \<Rightarrow> int \<Rightarrow> int result" where
  "display_int display k dflt = py_int (py_or (dget display k) (PInt dflt))"

definition tunnel_token_of :: "(string \<times> string) list \<Rightarrow> string" where
  "tunnel_token_of headers = strip (the_or (map_of headers ''Guacamole-Tunnel-Token'') [])"

definition connect_request ::
    "guac_ctx \<Rightarrow> string \<Rightarrow> string \<Rightarrow> string \<Rightarrow> int \<Rightarrow> int \<Rightarrow> int \<Rightarrow> guac \<Rightarrow> http_request" where
  "connect_request cx tok data_source connection_id dpi width height g =
     \<lparr>hq_url = gc_base_url cx @ ''/tunnel?connect'', hq_method = ''POST'',
      hq_headers =
        (let cookie = the_or (map_of (gu_cookies g) tok) [] in
         [(''Accept'', ''*/*''), (''Content-Type'', ''application/x-www-form-urlencoded; charset=UTF-8'')] @
         (if cookie \<noteq> [] then [(''Cookie'', cookie)] else [])),
      hq_data = Some (urlencode
        [(''token'', tok), (''GUAC_DATA_SOURCE'', data_source), (''GUAC_ID'', connection_id), (''GUAC_TYPE'', ''c''),
         (''GUAC_WIDTH'', str_int width), (''GUAC_HEIGHT'', str_int height), (''GUAC_DPI'', str_int dpi),
         (''GUAC_TIMEZONE'', ''UTC'')])\<rparr>"

definition set_tunnel_token :: "string \<Rightarrow> string \<Rightarrow> guac \<Rightarrow> guac" where
  "set_tunnel_token uuid t g = g\<lparr>gu_tunnel_tokens := AList.update uuid t (gu_tunnel_tokens g)\<rparr>"

definition set_tunnel_cookie :: "string \<Rightarrow> string \<Rightarrow> guac \<Rightarrow> guac" where
  "set_tunnel_cookie uuid c g = g\<lparr>gu_tunnel_cookies := AList.update uuid c (gu_tunnel_cookies g)\<rparr>"

definition note_opened :: "guac_ctx \<Rightarrow> string \<Rightarrow> http_answer \<Rightarrow> guac \<Rightarrow> guac \<times> string" where
  "note_opened cx tok a g =
     (let uuid = strip (ha_body a);
          tunnel_token = tunnel_token_of (copy_response_headers (ha_headers a));
          cookie = extract_cookie_header cx (ha_set_cookies a);
          g1 = (if uuid \<noteq> [] \<and> tunnel_token \<noteq> []
                then on_rdp (bind_tunnel (gc_now cx) tok uuid) (set_tunnel_token uuid tunnel_token g) else g);
          g2 = (if uuid \<noteq> [] \<and> cookie \<noteq> [] then set_tunnel_cookie uuid cookie g1 else g1)
      in (g2, uuid))"

text \<open>The three conversions are outside the \<open>try\<close>.\<close>

definition open_http_tunnel :: "guac_ctx \<Rightarrow> string \<Rightarrow> string \<Rightarrow> string \<Rightarrow> pydict \<Rightarrow> (guac, string) prog" where
  "open_http_tunnel cx tok data_source connection_id display g =
     (if gc_base_url cx = [] then (g, Inr [])
      else
        (case bindE (display_int display ''dpi'' 96) (\<lambda>dpi.
                bindE (display_int display ''width'' 1280) (\<lambda>width.
                bindE (display_int display ''height'' 720) (\<lambda>height. Inr (dpi, width, height)))) of
           Inl e \<Rightarrow> (g, Inl e)
         | Inr (dpi, width, height) \<Rightarrow>
             (let (g1, up) = open_url cx (connect_request cx tok data_source connection_id dpi width height g) g in
              case up of
                Opened a \<Rightarrow> map_prod id Inr (note_opened cx tok a g1)
              | _ \<Rightarrow> (g1, Inr []))))"

section \<open>Forgetting a session\<close>

definition drop_agent_token :: "string \<Rightarrow> (string \<times> string list) list \<Rightarrow> (string \<times> string list) list" where
  "drop_agent_token tok ats =
     concat (map (\<lambda>(a, ts). if tok \<in> set ts
                            then (let rest = filter (\<lambda>t. t \<noteq> tok) ts in if rest = [] then [] else [(a, rest)])
                            else [(a, ts)]) ats)"

definition add_agent_token :: "string \<Rightarrow> string \<Rightarrow> (string \<times> string list) list \<Rightarrow> (string \<times> string list) list" where
  "add_agent_token agent_id tok ats =
     AList.update agent_id (List.insert tok (the_or (map_of ats agent_id) [])) ats"

text \<open>
  \<open>remove_session\<close> has emptied the tunnels of the session that it returns, so the loop over them drops no
  entry of the two tunnel dictionaries.
\<close>

definition forget_tunnels_of :: "rdp_session option \<Rightarrow> guac \<Rightarrow> guac" where
  "forget_tunnels_of tracked g =
     (case tracked of None \<Rightarrow> g | Some s \<Rightarrow> fold drop_tunnel (sorted_list_of_set (rs_tunnel_uuids s)) g)"

definition forget_session :: "guac_ctx \<Rightarrow> string \<Rightarrow> string \<Rightarrow> guac \<Rightarrow> guac" where
  "forget_session cx auth_token close_reason g =
     (let tok = strip auth_token in
      if tok = [] then g
      else
        (let g1 = remember_close_reason (gc_loop_now cx) tok close_reason g;
             (m, tracked) = remove_session tok (gu_rdp g1);
             g2 = g1\<lparr>gu_rdp := m, gu_cookies := AList.delete tok (gu_cookies g1)\<rparr>;
             g3 = forget_tunnels_of tracked g2;
             sockets = the_or (map_of (gu_websockets g3) tok) []
         in g3\<lparr>gu_agent_tokens := drop_agent_token tok (gu_agent_tokens g3),
              gu_websockets := AList.delete tok (gu_websockets g3),
              gu_closed := gu_closed g3 @ map (\<lambda>ws. (ws, close_reason)) sockets\<rparr>))"

section \<open>Delayed closes\<close>

definition cancel_scheduled_session_close :: "string \<Rightarrow> guac \<Rightarrow> guac \<times> bool" where
  "cancel_scheduled_session_close auth_token g =
     (let tok = strip auth_token in
      if tok = [] then (g, False)
      else
        (case map_of (gu_pending g) tok of
           None \<Rightarrow> (g, False)
         | Some i \<Rightarrow>
             (g\<lparr>gu_tasks := (gu_tasks g)[i := (gu_tasks g ! i)\<lparr>ct_cancelled := True\<rparr>],
                gu_pending := AList.delete tok (gu_pending g)\<rparr>, True)))"

definition mark_session_activity :: "int \<Rightarrow> string \<Rightarrow> guac \<Rightarrow> guac" where
  "mark_session_activity now auth_token g =
     (let tok = strip auth_token in
      if tok = [] then g
      else on_rdp (touch_auth_token now tok) (fst (cancel_scheduled_session_close tok g)))"

text \<open>Half a second is the least delay.\<close>

definition schedule_session_close :: "guac_ctx \<Rightarrow> string \<Rightarrow> int \<Rightarrow> string \<Rightarrow> guac \<Rightarrow> guac \<times> bool" where
  "schedule_session_close cx auth_token delay close_reason g =
     (let tok = strip auth_token in
      if tok = [] then (g, False)
      else
        (let g1 = fst (cancel_scheduled_session_close tok g);
             task = \<lparr>ct_token = tok, ct_scheduled_at = gc_now cx, ct_due = gc_loop_now cx + max 500000 delay,
                     ct_reason = close_reason, ct_phase = Created, ct_cancelled = False\<rparr>
         in (g1\<lparr>gu_tasks := gu_tasks g1 @ [task],
                gu_pending := AList.update tok (length (gu_tasks g1)) (gu_pending g1)\<rparr>, True)))"

definition set_phase :: "nat \<Rightarrow> task_phase \<Rightarrow> guac \<Rightarrow> guac" where
  "set_phase i ph g = g\<lparr>gu_tasks := (gu_tasks g)[i := (gu_tasks g ! i)\<lparr>ct_phase := ph\<rparr>]\<rparr>"

text \<open>
  The body of \<open>close_later\<close> after its sleep. Whatever it did, the \<open>finally\<close> drops the pending entry of
  the token, also an entry that a later call has put there.
\<close>

definition close_now :: "guac_ctx \<Rightarrow> close_task \<Rightarrow> guac \<Rightarrow> guac" where
  "close_now cx t g =
     (if gu_shutdown g then g
      else
        (case get_rdp_session (ct_token t) (gu_rdp g) of
           None \<Rightarrow> g
         | Some s \<Rightarrow>
             if ct_scheduled_at t < rs_last_activity_at s then g
             else if the_or (map_of (gu_websockets g) (ct_token t)) [] \<noteq> [] then g
             else forget_session cx (ct_token t) (ct_reason t) (try_invalidate cx (ct_token t) g)))"

definition end_task :: "nat \<Rightarrow> guac \<Rightarrow> guac" where
  "end_task i g = (set_phase i Finished g)\<lparr>gu_pending := AList.delete (ct_token (gu_tasks g ! i)) (gu_pending g)\<rparr>"

text \<open>
  One step of the loop on a task: the first step enters the \<open>try\<close> and sleeps, unless the task was
  cancelled before it ran; a sleeping task wakes when it is due or cancelled.
\<close>

definition run_close_task :: "guac_ctx \<Rightarrow> nat \<Rightarrow> guac \<Rightarrow> guac" where
  "run_close_task cx i g =
     (if length (gu_tasks g) \<le> i then g
      else
        (let t = gu_tasks g ! i in
         case ct_phase t of
           Created \<Rightarrow> set_phase i (if ct_cancelled t then Finished else Sleeping) g
         | Sleeping \<Rightarrow>
             if ct_cancelled t then end_task i g
             else if ct_due t \<le> gc_loop_now cx then end_task i (close_now cx t g)
             else g
         | Finished \<Rightarrow> g))"

section \<open>Creating a session\<close>

record session_request =
  sq_agent_id :: string
  sq_state :: "pydict option"
  sq_public_base_url :: string
  sq_user_session :: "user_session option"
  sq_force_fresh :: bool
  sq_refresh_tunnel :: bool
  sq_resume_auth_token :: string
  sq_connection_id :: string
  sq_vm_username :: string
  sq_read_only :: bool
  sq_recorded :: bool

definition str_dict :: "(string \<times> string) list \<Rightarrow> pydict" where
  "str_dict d = map (\<lambda>(k, v). (k, PStr v)) d"

definition proxy_tunnels :: "guac_ctx \<Rightarrow> string \<Rightarrow> guac \<Rightarrow> (string \<times> string) list" where
  "proxy_tunnels cx public_base_url g =
     (let urls = gc_proxy_urls cx public_base_url in
      if gu_ws_supported g = Some False then AList.update ''websocket'' [] urls else urls)"

definition requested_username :: "session_request \<Rightarrow> pydict \<Rightarrow> string result" where
  "requested_username q base =
     (if strip (sq_vm_username q) \<noteq> [] then Inr (strip (sq_vm_username q))
      else
        (case py_or (dget base ''resolved_fields'') (PDict []) of
           PDict d \<Rightarrow> Inr (clean_value (dget d ''guacamole_username''))
         | _ \<Rightarrow> Inl (AttributeError ''get'')))"

text \<open>
  The session to resume: the one of the token asked for, if it is of this agent and of this owner (or
  no owner is known), else the latest session of the owner, without an owner the latest of the agent.
\<close>

definition resumed_session :: "session_request \<Rightarrow> string \<Rightarrow> rdp_monitor \<Rightarrow> rdp_session option" where
  "resumed_session q subject m =
     (if strip (sq_resume_auth_token q) = [] then None
      else
        (case get_rdp_session (strip (sq_resume_auth_token q)) m of
           None \<Rightarrow> None
         | Some s \<Rightarrow>
             if rs_agent_id s = sq_agent_id q \<and> (subject = [] \<or> owner_subject (rs_owner s) = subject) then Some s
             else None))"

definition existing_session :: "session_request \<Rightarrow> string \<Rightarrow> rdp_monitor \<Rightarrow> rdp_session option" where
  "existing_session q subject m =
     (case resumed_session q subject m of
        Some s \<Rightarrow> Some s
      | None \<Rightarrow> if subject \<noteq> [] then get_session_for_owner subject m else get_session_for_agent (sq_agent_id q) m)"

definition needs_fresh :: "session_request \<Rightarrow> rdp_session \<Rightarrow> bool" where
  "needs_fresh q s \<longleftrightarrow>
     sq_force_fresh q \<or> sq_recorded q \<or> rs_agent_id s \<noteq> sq_agent_id q \<or>
     (strip (sq_connection_id q) \<noteq> [] \<and> strip (sq_connection_id q) \<noteq> rs_connection_id s \<and>
      strip (rs_auth_token s) \<noteq> strip (sq_resume_auth_token q))"

definition discard_session :: "guac_ctx \<Rightarrow> rdp_session \<Rightarrow> guac \<Rightarrow> guac" where
  "discard_session cx s g =
     forget_session cx (rs_auth_token s) ''Session refreshed''
       (try_invalidate cx (rs_auth_token s) (fst (cancel_scheduled_session_close (rs_auth_token s) g)))"

text \<open>A stale tunnel is dropped and opened again; otherwise one that is open is taken, else one is opened.\<close>

definition refresh_tunnels :: "guac_ctx \<Rightarrow> rdp_session \<Rightarrow> pydict \<Rightarrow> (guac, string) prog" where
  "refresh_tunnels cx s display g =
     open_http_tunnel cx (rs_auth_token s) (rs_data_source s) (rs_connection_id s) display
       (fst (forget_http_tunnels (rs_auth_token s) g))"

definition take_tunnel :: "guac_ctx \<Rightarrow> rdp_session \<Rightarrow> pydict \<Rightarrow> (guac, string) prog" where
  "take_tunnel cx s display g =
     (let (g1, uuid) = get_reusable_http_tunnel_uuid (gc_now cx) (rs_auth_token s) g in
      if uuid \<noteq> [] then (g1, Inr uuid)
      else open_http_tunnel cx (rs_auth_token s) (rs_data_source s) (rs_connection_id s) display g1)"

definition resume_tunnel :: "guac_ctx \<Rightarrow> bool \<Rightarrow> rdp_session \<Rightarrow> pydict \<Rightarrow> (guac, string) prog" where
  "resume_tunnel cx refresh s display =
     bindP (if refresh then refresh_tunnels cx s display else retP []) (\<lambda>uuid.
       if uuid \<noteq> [] then retP uuid else take_tunnel cx s display)"

definition reused_answer ::
    "pydict \<Rightarrow> bool \<Rightarrow> (string \<times> string) list \<Rightarrow> rdp_session \<Rightarrow> string \<Rightarrow> string \<Rightarrow> pydict" where
  "reused_answer base read_only tunnels s cookie uuid =
     dupdate base
       [(''status'', PStr ''ready''), (''read_only'', PBool read_only), (''tunnels'', PDict (str_dict tunnels)),
        (''client_session'', PDict
          ([(''auth_token'', PStr (rs_auth_token s)), (''auth_cookie_header'', PStr cookie),
            (''data_source'', PStr (rs_data_source s)), (''connection_id'', PStr (rs_connection_id s)),
            (''connection_type'', PStr ''c''),
            (''display'', py_or (dget base ''display'') (PDict [(''mode'', PStr ''dynamic''), (''dpi'', PInt 96)])),
            (''tunnels'', PDict (str_dict tunnels))] @
           (if uuid \<noteq> [] then [(''resume_tunnel_uuid'', PStr uuid)] else [])))]"

definition reuse_session ::
    "guac_ctx \<Rightarrow> session_request \<Rightarrow> pydict \<Rightarrow> (string \<times> string) list \<Rightarrow> string \<Rightarrow> rdp_session
     \<Rightarrow> (guac, pydict) prog" where
  "reuse_session cx q base tunnels username s g =
     (let g1 = fst (cancel_scheduled_session_close (rs_auth_token s) g);
          g2 = on_rdp (register_session (gc_now cx) (rs_auth_token s)
                 \<lparr>rd_agent_id = sq_agent_id q, rd_connection_id = rs_connection_id s,
                  rd_data_source = rs_data_source s, rd_username = str_or username (rs_username s),
                  rd_owner = build_tracked_owner (sq_user_session q)\<rparr>) g1;
          cookie = the_or (map_of (gu_cookies g2) (rs_auth_token s)) []
      in bindP (resume_tunnel cx (sq_refresh_tunnel q) s (as_dict (dget base ''display'')))
           (\<lambda>uuid. retP (reused_answer base (sq_read_only q) tunnels s cookie uuid)) g2)"

text \<open>A session that Guacamole has opened is kept; \<open>next_client_session\<close> is a part of the answer.\<close>

definition track_created :: "guac_ctx \<Rightarrow> session_request \<Rightarrow> string \<Rightarrow> pydict \<Rightarrow> pydict \<Rightarrow> guac \<Rightarrow> guac" where
  "track_created cx q username session client g =
     (let tok = clean_value (dget client ''auth_token'');
          cookie = clean_value (dget client ''auth_cookie_header'');
          owner = build_tracked_owner (sq_user_session q);
          g1 = (if cookie \<noteq> [] then g\<lparr>gu_cookies := AList.update tok cookie (gu_cookies g)\<rparr> else g);
          g2 = g1\<lparr>gu_agent_tokens := add_agent_token (sq_agent_id q) tok (gu_agent_tokens g1)\<rparr>;
          g3 = on_rdp (register_session (gc_now cx) tok
                 \<lparr>rd_agent_id = sq_agent_id q, rd_connection_id = clean_value (dget client ''connection_id''),
                  rd_data_source = clean_value (dget client ''data_source''), rd_username = username,
                  rd_owner = owner\<rparr>) g2
      in remember_recording_owner (gc_now cx)
           (if is_dict (dget session ''recording_entry'') then Some (as_dict (dget session ''recording_entry''))
            else None) (sq_agent_id q) owner g3)"

definition fresh_session ::
    "guac_ctx \<Rightarrow> session_request \<Rightarrow> (string \<times> string) list \<Rightarrow> string \<Rightarrow> (guac, pydict) prog" where
  "fresh_session cx q tunnels username g =
     (case gc_create cx \<lparr>cn_agent_id = sq_agent_id q, cn_state = sq_state q, cn_tunnels = tunnels,
             cn_connection_id = strip (sq_connection_id q), cn_vm_username = sq_vm_username q,
             cn_owner = build_tracked_owner (sq_user_session q), cn_recorded = sq_recorded q\<rparr> of
        Inl e \<Rightarrow> (g, Inl e)
      | Inr session \<Rightarrow>
          (let client = as_dict (dget session ''client_session'');
               tok = clean_value (dget client ''auth_token'')
           in if tok = [] then (g, Inr (AList.update ''read_only'' (PBool (sq_read_only q)) session))
              else bindP (open_http_tunnel cx tok (clean_value (dget client ''data_source''))
                            (clean_value (dget client ''connection_id'')) (as_dict (dget client ''display'')))
                     (\<lambda>uuid. retP (AList.update ''read_only'' (PBool (sq_read_only q))
                        (if uuid \<noteq> []
                         then AList.update ''client_session''
                                (PDict (AList.update ''resume_tunnel_uuid'' (PStr uuid) client)) session
                         else session)))
                     (track_created cx q username session client g)))"

definition create_client_session :: "guac_ctx \<Rightarrow> session_request \<Rightarrow> (guac, pydict) prog" where
  "create_client_session cx q g =
     (case gc_build_session cx (sq_agent_id q) (sq_state q) of
        Inl e \<Rightarrow> (g, Inl e)
      | Inr base \<Rightarrow>
          (let tunnels = proxy_tunnels cx (sq_public_base_url q) g in
           case requested_username q base of
             Inl e \<Rightarrow> (g, Inl e)
           | Inr username \<Rightarrow>
               (case existing_session q (owner_subject (build_tracked_owner (sq_user_session q))) (gu_rdp g) of
                  None \<Rightarrow> fresh_session cx q tunnels username g
                | Some s \<Rightarrow>
                    if needs_fresh q s then fresh_session cx q tunnels username (discard_session cx s g)
                    else reuse_session cx q base tunnels username s g)))"

section \<open>Closing sessions\<close>

text \<open>When the bridge raises, the session stays tracked.\<close>

definition revoke_client_session :: "guac_ctx \<Rightarrow> string \<Rightarrow> guac \<Rightarrow> guac \<times> (bridge_error + bool)" where
  "revoke_client_session cx auth_token g =
     (let g1 = fst (cancel_scheduled_session_close auth_token g) in
      if gc_base_url cx = [] then (g1, Inl (Br_Runtime ''Guacamole bridge is not configured''))
      else
        (case invalidate_token cx auth_token g1 of
           (g2, Inl e) \<Rightarrow> (g2, Inl e)
         | (g2, Inr revoked) \<Rightarrow> (forget_session cx auth_token ''Session closed'' g2, Inr revoked)))"

definition close_one :: "guac_ctx \<Rightarrow> string \<Rightarrow> string \<Rightarrow> guac \<Rightarrow> guac" where
  "close_one cx reason tok g = forget_session cx tok reason (try_invalidate cx tok g)"

definition expire_idle_sessions :: "guac_ctx \<Rightarrow> guac \<Rightarrow> guac \<times> nat" where
  "expire_idle_sessions cx g =
     (let expired = get_idle_auth_tokens (gc_now cx) (gu_rdp g)
      in (fold (close_one cx ''Idle timeout'') expired g, length expired))"

definition register_active_stream :: "nat \<Rightarrow> guac \<Rightarrow> guac" where
  "register_active_stream i g = g\<lparr>gu_streams := List.insert i (gu_streams g)\<rparr>"

definition unregister_active_stream :: "nat \<Rightarrow> guac \<Rightarrow> guac" where
  "unregister_active_stream i g = g\<lparr>gu_streams := removeAll i (gu_streams g)\<rparr>"

definition close_active_streams :: "guac \<Rightarrow> guac" where
  "close_active_streams g = g\<lparr>gu_streams := [], gu_streams_closed := gu_streams_closed g @ gu_streams g\<rparr>"

text \<open>The streams of every session are closed, whichever sessions are named.\<close>

definition close_tracked_sessions :: "guac_ctx \<Rightarrow> string list option \<Rightarrow> string \<Rightarrow> guac \<Rightarrow> guac \<times> nat" where
  "close_tracked_sessions cx auth_tokens close_reason g =
     (let g1 = close_active_streams g;
          named = the_or auth_tokens
            (map (\<lambda>e. rs_auth_token (se_session e)) (rdp_build_snapshot (gc_now cx) (gu_rdp g1)));
          toks = filter (\<lambda>t. t \<noteq> []) (map strip named)
      in (fold (\<lambda>t h. close_one cx close_reason t (fst (cancel_scheduled_session_close t h))) toks g1, length toks))"

definition close_agent_owner_session :: "guac_ctx \<Rightarrow> string \<Rightarrow> string \<Rightarrow> string \<Rightarrow> guac \<Rightarrow> guac \<times> bool" where
  "close_agent_owner_session cx agent_id subject close_reason g =
     (if strip agent_id = [] \<or> strip subject = [] then (g, False)
      else
        (case find (\<lambda>s. owner_subject (rs_owner s) = strip subject)
                (get_sessions_for_agent (strip agent_id) (gu_rdp g)) of
           None \<Rightarrow> (g, False)
         | Some s \<Rightarrow> map_prod id (\<lambda>n. 0 < n) (close_tracked_sessions cx (Some [rs_auth_token s]) close_reason g)))"

definition close_all_sessions :: "guac_ctx \<Rightarrow> guac \<Rightarrow> guac \<times> nat" where
  "close_all_sessions cx g =
     (let g1 = g\<lparr>gu_shutdown := True\<rparr>
      in close_tracked_sessions cx None ''Server shutdown''
           (fold (\<lambda>t h. fst (cancel_scheduled_session_close t h)) (map fst (gu_pending g1)) g1))"

section \<open>Websockets\<close>

definition register_websocket :: "guac_ctx \<Rightarrow> string \<Rightarrow> nat \<Rightarrow> guac \<Rightarrow> guac \<times> string" where
  "register_websocket cx raw_query ws g =
     (let tok = extract_auth_token_from_query raw_query in
      if tok = [] then (g, [])
      else (mark_session_activity (gc_now cx) tok
             (g\<lparr>gu_websockets := AList.update tok (List.insert ws (the_or (map_of (gu_websockets g) tok) []))
                                  (gu_websockets g)\<rparr>), tok))"

definition unregister_websocket :: "string \<Rightarrow> nat option \<Rightarrow> guac \<Rightarrow> guac" where
  "unregister_websocket auth_token ws g =
     (let tok = strip auth_token; sockets = the_or (map_of (gu_websockets g) tok) [] in
      if tok = [] \<or> sockets = [] then g
      else
        (let rest = (case ws of None \<Rightarrow> sockets | Some w \<Rightarrow> removeAll w sockets) in
         g\<lparr>gu_websockets := (if rest = [] \<or> ws = None then AList.delete tok (gu_websockets g)
                             else AList.update tok rest (gu_websockets g))\<rparr>))"

definition touch_websocket :: "guac_ctx \<Rightarrow> string \<Rightarrow> guac \<Rightarrow> guac" where
  "touch_websocket cx raw_query g =
     (let tok = extract_auth_token_from_query raw_query in
      if tok \<noteq> [] then mark_session_activity (gc_now cx) tok g else g)"

section \<open>The proxy of the HTTP tunnel\<close>

record passed =
  pa_status :: int
  pa_headers :: "(string \<times> string) list"
  pa_media :: "string option"

datatype proxy_answer =
    Json_Error int string
  | Passed passed string
  | Streamed passed nat string

definition header_or_empty :: "(string \<times> string) list \<Rightarrow> string \<Rightarrow> string" where
  "header_or_empty headers k = the_or (map_of headers k) []"

definition proxy_auth_token :: "string \<Rightarrow> string \<Rightarrow> string" where
  "proxy_auth_token raw_query body =
     str_or (extract_auth_token_from_query raw_query) (extract_auth_token_from_body body)"

definition proxy_resume_uuid :: "string \<Rightarrow> string \<Rightarrow> string" where
  "proxy_resume_uuid raw_query body = (if raw_query = ''connect'' then extract_resume_tunnel_uuid body else [])"

text \<open>
  The cookie of the tunnel, else the one kept for the token, else the one of the browser; the tunnel token
  of the browser, else the one kept for the tunnel.
\<close>

definition proxy_request ::
    "guac_ctx \<Rightarrow> string \<Rightarrow> string \<Rightarrow> string \<Rightarrow> (string \<times> string) list \<Rightarrow> guac \<Rightarrow> http_request" where
  "proxy_request cx meth raw_query body headers g =
     (let tok = proxy_auth_token raw_query body;
          uuid = str_or (extract_tunnel_uuid raw_query) (proxy_resume_uuid raw_query body);
          content_type = header_or_empty headers ''content-type'';
          tunnel_token = str_or (header_or_empty headers ''guacamole-tunnel-token'')
                           (header_or_empty (gu_tunnel_tokens g) uuid);
          auth_cookie = (if tok \<noteq> [] then header_or_empty (gu_cookies g) tok else []);
          cookie = str_or (str_or (header_or_empty (gu_tunnel_cookies g) uuid) auth_cookie)
                     (header_or_empty headers ''cookie'')
      in \<lparr>hq_url = gc_base_url cx @ ''/tunnel'' @ (if raw_query \<noteq> [] then ''?'' @ raw_query else []),
          hq_method = meth,
          hq_headers = [(''Accept'', str_or (header_or_empty headers ''accept'') ''*/*'')] @
            (if content_type \<noteq> [] then [(''Content-Type'', content_type)] else []) @
            (if tunnel_token \<noteq> [] then [(''Guacamole-Tunnel-Token'', tunnel_token)] else []) @
            (if cookie \<noteq> [] then [(''Cookie'', cookie)] else []),
          hq_data = (if meth \<noteq> ''GET'' then Some body else None)\<rparr>)"

definition lose_tunnel :: "string \<Rightarrow> guac \<Rightarrow> guac" where
  "lose_tunnel uuid g = on_rdp (release_tunnel uuid) (drop_tunnel uuid g)"

definition passed_on :: "http_answer \<Rightarrow> passed" where
  "passed_on a = \<lparr>pa_status = ha_status a, pa_headers = copy_response_headers (ha_headers a),
                  pa_media = header_get (ha_headers a) ''Content-Type''\<rparr>"

definition note_connected :: "guac_ctx \<Rightarrow> string \<Rightarrow> http_answer \<Rightarrow> guac \<Rightarrow> guac" where
  "note_connected cx body a g =
     (let uuid = strip (ha_body a);
          tunnel_token = tunnel_token_of (copy_response_headers (ha_headers a));
          cookie = extract_cookie_header cx (ha_set_cookies a);
          tok = extract_auth_token_from_body body;
          g1 = (if uuid \<noteq> [] \<and> tunnel_token \<noteq> [] then set_tunnel_token uuid tunnel_token g else g);
          g2 = (if uuid \<noteq> [] \<and> cookie \<noteq> [] then set_tunnel_cookie uuid cookie g1 else g1)
      in if uuid \<noteq> [] \<and> tok \<noteq> [] then on_rdp (bind_tunnel (gc_now cx) tok uuid) g2 else g2)"

definition stream_headers :: "passed \<Rightarrow> passed" where
  "stream_headers p =
     p\<lparr>pa_headers := AList.update ''X-Accel-Buffering'' ''no''
         (AList.update ''Cache-Control'' (the_or (map_of (pa_headers p) ''Cache-Control'') ''no-cache'')
            (pa_headers p))\<rparr>"

text \<open>What the answer of Guacamole does; a stream is numbered by its request.\<close>

definition proxy_opened ::
    "guac_ctx \<Rightarrow> string \<Rightarrow> string \<Rightarrow> string \<Rightarrow> http_answer \<Rightarrow> guac \<Rightarrow> guac \<times> proxy_answer" where
  "proxy_opened cx meth raw_query body a g =
     (let uuid = extract_tunnel_uuid raw_query; p = passed_on a in
      if raw_query = ''connect'' then (note_connected cx body a g, Passed p (strip (ha_body a)))
      else if meth = ''GET'' then
        (register_active_stream (gu_opens g) g, Streamed (stream_headers p) (gu_opens g) uuid)
      else
        (let g1 = (if uuid \<noteq> [] then on_rdp (touch_tunnel (gc_now cx) uuid) g else g);
             g2 = (if uuid \<noteq> [] \<and> starts_with ''write:'' raw_query \<and> 400 \<le> ha_status a then lose_tunnel uuid g1 else g1)
         in (g2, Passed p (ha_body a))))"

definition touch_request :: "guac_ctx \<Rightarrow> string \<Rightarrow> string \<Rightarrow> guac \<Rightarrow> guac" where
  "touch_request cx raw_query body g =
     (let resume = proxy_resume_uuid raw_query body; uuid = extract_tunnel_uuid raw_query;
          g1 = (if resume \<noteq> [] then on_rdp (touch_tunnel (gc_now cx) resume) g else g)
      in if uuid \<noteq> [] then on_rdp (touch_tunnel (gc_now cx) uuid) g1 else g1)"

definition proxy_tunnel_request ::
    "guac_ctx \<Rightarrow> string \<Rightarrow> string \<Rightarrow> string \<Rightarrow> (string \<times> string) list \<Rightarrow> (guac, proxy_answer) prog" where
  "proxy_tunnel_request cx meth raw_query body headers g =
     (if gu_shutdown g then (g, Inr (Json_Error 503 ''Guacamole service is shutting down''))
      else
        (let tok = proxy_auth_token raw_query body;
             g1 = (if tok \<noteq> [] then mark_session_activity (gc_now cx) tok g else g)
         in if gc_base_url cx = [] then (g1, Inr (Json_Error 503 ''Guacamole bridge is not configured''))
            else
              (let g2 = touch_request cx raw_query body g1;
                   (g3, up) = open_url cx (proxy_request cx meth raw_query body headers g2) g2;
                   uuid = extract_tunnel_uuid raw_query
               in case up of
                    Http_Error a \<Rightarrow>
                      (if uuid \<noteq> [] \<and> ha_status a \<in> {404, 410} then lose_tunnel uuid g3 else g3,
                       Inr (Passed (passed_on a) (ha_body a)))
                  | Url_Error r \<Rightarrow> (g3, Inr (Json_Error 502 (''Could not reach Guacamole tunnel: '' @ r)))
                  | Os_Error r \<Rightarrow> (g3, Inr (Json_Error 502 (''Guacamole tunnel proxy failed: '' @ r)))
                  | Other_Error e \<Rightarrow> (g3, Inl e)
                  | Opened a \<Rightarrow> map_prod id Inr (proxy_opened cx meth raw_query body a g3))))"

text \<open>
  One round of \<open>iter_chunks\<close>; a read that raised or was cancelled is \<open>None\<close>. The stream ends with the
  first round that yields nothing.
\<close>

definition stream_round :: "guac_ctx \<Rightarrow> nat \<Rightarrow> string \<Rightarrow> string option \<Rightarrow> guac \<Rightarrow> guac \<times> string option" where
  "stream_round cx i uuid chunk g =
     (if gu_shutdown g \<or> chunk = None \<or> chunk = Some []
      then ((unregister_active_stream i g)\<lparr>gu_streams_closed := gu_streams_closed g @ [i]\<rparr>, None)
      else (if uuid \<noteq> [] then on_rdp (touch_tunnel (gc_now cx) uuid) g else g, chunk))"

end
