(* ===== verification/Guacamole_Sessions.thy ===== *)
theory Guacamole_Sessions
  imports Guacamole_Service
begin

text \<open>
  The changes that the remote desktop service makes to its state, and what every one of its handlers keeps:
  the dictionaries of the monitor agree, and a pending close names a task of its token that still can close.
\<close>

section \<open>Changes\<close>

inductive guac_change :: "guac \<Rightarrow> guac \<Rightarrow> bool" where
  ch_rdp: "guac_change g (on_rdp (rdp_step c) g)"
| ch_other: "gu_rdp g' = gu_rdp g \<Longrightarrow> gu_tasks g' = gu_tasks g \<Longrightarrow> gu_pending g' = gu_pending g \<Longrightarrow> guac_change g g'"
| ch_cancel: "guac_change g (fst (cancel_scheduled_session_close tok g))"
| ch_schedule: "map_of (gu_pending g) (ct_token t) = None \<Longrightarrow> clean (ct_token t) \<Longrightarrow> ct_phase t = Created \<Longrightarrow>
    \<not> ct_cancelled t \<Longrightarrow>
    guac_change g (g\<lparr>gu_tasks := gu_tasks g @ [t],
                     gu_pending := AList.update (ct_token t) (length (gu_tasks g)) (gu_pending g)\<rparr>)"
| ch_start: "i < length (gu_tasks g) \<Longrightarrow>
    guac_change g (set_phase i (if ct_cancelled (gu_tasks g ! i) then Finished else Sleeping) g)"
| ch_end: "i < length (gu_tasks g) \<Longrightarrow> guac_change g (end_task i g)"

abbreviation guac_changes :: "guac \<Rightarrow> guac \<Rightarrow> bool" where
  "guac_changes \<equiv> guac_change\<^sup>*\<^sup>*"

lemma changes_trans [trans]: "guac_changes g h \<Longrightarrow> guac_changes h k \<Longrightarrow> guac_changes g k"
  by (rule rtranclp_trans)

lemma changes_one: "guac_change g h \<Longrightarrow> guac_changes g h"
  by (rule r_into_rtranclp)

lemma changes_rdp: "guac_changes g (on_rdp (rdp_step c) g)"
  by (rule r_into_rtranclp) (rule ch_rdp)

lemma changes_other:
  "gu_rdp g' = gu_rdp g \<Longrightarrow> gu_tasks g' = gu_tasks g \<Longrightarrow> gu_pending g' = gu_pending g \<Longrightarrow> guac_changes g g'"
  by (rule r_into_rtranclp) (rule ch_other)

lemma changes_cancel: "guac_changes g (fst (cancel_scheduled_session_close tok g))"
  by (rule r_into_rtranclp) (rule ch_cancel)

lemma changes_fold: "(\<And>x h. guac_changes h (f x h)) \<Longrightarrow> guac_changes g (fold f xs g)"
  by (induction xs arbitrary: g) (auto intro: rtranclp_trans)

text \<open>A program changes the state so whatever its result.\<close>

definition guac_prog :: "(guac, 'a) prog \<Rightarrow> bool" where
  "guac_prog p \<longleftrightarrow> (\<forall>g. guac_changes g (fst (p g)))"

lemma guac_progI: "(\<And>g. guac_changes g (fst (p g))) \<Longrightarrow> guac_prog p"
  by (simp add: guac_prog_def)

lemma guac_progD: "guac_prog p \<Longrightarrow> guac_changes g (fst (p g))"
  by (simp add: guac_prog_def)

lemma guac_prog_ret: "guac_prog (retP x)"
  by (simp add: guac_prog_def retP_def)

lemma guac_prog_bind: "guac_prog p \<Longrightarrow> (\<And>x. guac_prog (f x)) \<Longrightarrow> guac_prog (bindP p f)"
  by (auto simp: guac_prog_def bindP_def split: prod.splits sum.splits) (metis fst_conv rtranclp_trans)+

section \<open>Small parts\<close>

lemma drop_tunnel_simps [simp]:
  "gu_rdp (drop_tunnel t g) = gu_rdp g" "gu_tasks (drop_tunnel t g) = gu_tasks g"
  "gu_pending (drop_tunnel t g) = gu_pending g"
  by (simp_all add: drop_tunnel_def)

lemma on_rdp_simps [simp]:
  "gu_rdp (on_rdp f g) = f (gu_rdp g)" "gu_tasks (on_rdp f g) = gu_tasks g" "gu_pending (on_rdp f g) = gu_pending g"
  "gu_reasons (on_rdp f g) = gu_reasons g" "gu_websockets (on_rdp f g) = gu_websockets g"
  "gu_shutdown (on_rdp f g) = gu_shutdown g"
  by (simp_all add: on_rdp_def)

text \<open>The loop over the tunnels of a removed session is empty.\<close>

lemma forget_tunnels_of_removed: "remove_session a m = (m', tracked) \<Longrightarrow> forget_tunnels_of tracked g = g"
  by (auto simp: remove_session_def forget_tunnels_of_def Let_def split: if_splits option.splits)

lemma remember_close_reason_simps [simp]:
  "gu_rdp (remember_close_reason lt a r g) = gu_rdp g" "gu_tasks (remember_close_reason lt a r g) = gu_tasks g"
  "gu_pending (remember_close_reason lt a r g) = gu_pending g"
  "gu_websockets (remember_close_reason lt a r g) = gu_websockets g"
  "gu_cookies (remember_close_reason lt a r g) = gu_cookies g"
  "gu_agent_tokens (remember_close_reason lt a r g) = gu_agent_tokens g"
  "gu_closed (remember_close_reason lt a r g) = gu_closed g"
  "gu_tunnel_tokens (remember_close_reason lt a r g) = gu_tunnel_tokens g"
  "gu_tunnel_cookies (remember_close_reason lt a r g) = gu_tunnel_cookies g"
  "gu_invalidated (remember_close_reason lt a r g) = gu_invalidated g"
  by (simp_all add: remember_close_reason_def)

lemma remove_session_strip [simp]: "remove_session (strip a) m = remove_session a m"
  by (simp add: remove_session_def)

lemma forget_session_empty: "strip a = [] \<Longrightarrow> forget_session cx a r g = g"
  by (simp add: forget_session_def)

lemma forget_session_eq:
  assumes "strip a \<noteq> []"
  shows "forget_session cx a r g =
    (let g1 = remember_close_reason (gc_loop_now cx) (strip a) r g in
     g1\<lparr>gu_rdp := fst (remove_session a (gu_rdp g)), gu_cookies := AList.delete (strip a) (gu_cookies g),
       gu_agent_tokens := drop_agent_token (strip a) (gu_agent_tokens g),
       gu_websockets := AList.delete (strip a) (gu_websockets g),
       gu_closed := gu_closed g @ map (\<lambda>ws. (ws, r)) (the_or (map_of (gu_websockets g) (strip a)) [])\<rparr>)"
  using assms by (cases "remove_session a (gu_rdp g)")
    (simp add: forget_session_def Let_def forget_tunnels_of_removed)

lemma forget_session_simps [simp]:
  "gu_rdp (forget_session cx a r g) = fst (remove_session a (gu_rdp g))"
  "gu_tasks (forget_session cx a r g) = gu_tasks g" "gu_pending (forget_session cx a r g) = gu_pending g"
  "gu_tunnel_tokens (forget_session cx a r g) = gu_tunnel_tokens g"
  "gu_tunnel_cookies (forget_session cx a r g) = gu_tunnel_cookies g"
  "gu_invalidated (forget_session cx a r g) = gu_invalidated g"
  "gu_shutdown (forget_session cx a r g) = gu_shutdown g"
  by (cases "strip a = []", simp add: forget_session_empty remove_session_def,
      simp add: forget_session_eq Let_def remember_close_reason_def)+

lemma try_invalidate_simps [simp]:
  "gu_rdp (try_invalidate cx a g) = gu_rdp g" "gu_tasks (try_invalidate cx a g) = gu_tasks g"
  "gu_pending (try_invalidate cx a g) = gu_pending g" "gu_reasons (try_invalidate cx a g) = gu_reasons g"
  "gu_websockets (try_invalidate cx a g) = gu_websockets g"
  "gu_invalidated (try_invalidate cx a g) = gu_invalidated g @ (if gc_base_url cx = [] then [] else [a])"
  by (simp_all add: try_invalidate_def invalidate_token_def)

section \<open>Handlers\<close>

lemma changes_forget: "guac_changes g (forget_session cx a r g)"
proof -
  have "guac_changes (on_rdp (rdp_step (Remove a)) g) (forget_session cx a r g)"
    by (rule changes_other) simp_all
  then show ?thesis using changes_rdp by (rule changes_trans [rotated])
qed

lemma changes_try_invalidate: "guac_changes g (try_invalidate cx a g)"
  by (rule changes_other) simp_all

lemma changes_mark: "guac_changes g (mark_session_activity now a g)"
proof -
  have "guac_changes g (on_rdp (rdp_step (Touch now (strip a))) (fst (cancel_scheduled_session_close (strip a) g)))"
    by (rule changes_trans [OF changes_cancel changes_rdp])
  then show ?thesis by (simp add: mark_session_activity_def Let_def on_rdp_def)
qed

lemma changes_forget_tunnels: "guac_changes g (fst (forget_http_tunnels a g))"
proof -
  obtain m rel where r: "release_all_tunnels a (gu_rdp g) = (m, rel)" by (cases "release_all_tunnels a (gu_rdp g)")
  have "guac_changes g (on_rdp (rdp_step (Release_All a)) g)" by (rule changes_rdp)
  also have "on_rdp (rdp_step (Release_All a)) g = g\<lparr>gu_rdp := m\<rparr>" by (simp add: on_rdp_def r)
  also have "guac_changes \<dots> (fold drop_tunnel rel (g\<lparr>gu_rdp := m\<rparr>))"
    by (rule changes_fold) (simp add: changes_other)
  finally show ?thesis by (simp add: forget_http_tunnels_def r)
qed

lemma changes_reusable: "guac_changes g (fst (get_reusable_http_tunnel_uuid now a g))"
proof -
  obtain m p where r: "get_primary_tunnel_uuid a (gu_rdp g) = (m, p)" by (cases "get_primary_tunnel_uuid a (gu_rdp g)")
  have "guac_changes g (on_rdp (rdp_step (Get_Primary a)) g)" by (rule changes_rdp)
  then have 1: "guac_changes g (g\<lparr>gu_rdp := m\<rparr>)" by (simp add: on_rdp_def r)
  have "guac_changes (g\<lparr>gu_rdp := m\<rparr>) (on_rdp (rdp_step (Touch_Tunnel now t)) (g\<lparr>gu_rdp := m\<rparr>))" for t
    by (rule changes_rdp)
  then have "guac_changes (g\<lparr>gu_rdp := m\<rparr>) (on_rdp (touch_tunnel now t) (g\<lparr>gu_rdp := m\<rparr>))" for t
    by (simp add: on_rdp_def)
  then show ?thesis
    using 1 by (auto simp: get_reusable_http_tunnel_uuid_def r Let_def split: option.splits intro: changes_trans)
qed

lemma changes_bind: "guac_changes g (on_rdp (bind_tunnel now a t) g)"
  using changes_rdp [of g "Bind now a t"] by (simp add: on_rdp_def)

lemma changes_touch_tunnel: "guac_changes g (on_rdp (touch_tunnel now t) g)"
  using changes_rdp [of g "Touch_Tunnel now t"] by (simp add: on_rdp_def)

lemma changes_register: "guac_changes g (on_rdp (register_session now a d) g)"
  using changes_rdp [of g "Register now a d"] by (simp add: on_rdp_def)

lemma changes_set_tunnel:
  "guac_changes g (set_tunnel_token u t g)" "guac_changes g (set_tunnel_cookie u c g)"
  by (rule changes_other; simp add: set_tunnel_token_def set_tunnel_cookie_def)+

lemmas changes_then = changes_trans [OF _ changes_bind] changes_trans [OF _ changes_touch_tunnel]
  changes_trans [OF _ changes_register] changes_trans [OF _ changes_set_tunnel(1)]
  changes_trans [OF _ changes_set_tunnel(2)] changes_trans [OF _ changes_mark]
  changes_trans [OF _ changes_cancel] changes_trans [OF _ changes_forget]
  changes_trans [OF _ changes_try_invalidate]

lemma changes_note_opened: "guac_changes g (fst (note_opened cx tok a g))"
  by (auto simp: note_opened_def Let_def intro!: changes_then)

lemma open_url_prog: "guac_changes g (fst (open_url cx q g))"
  by (rule changes_other) (simp_all add: open_url_def)

lemma open_tunnel_prog: "guac_prog (open_http_tunnel cx tok ds cid display)"
proof (rule guac_progI)
  fix g
  have "guac_changes g (fst (note_opened cx tok a (fst (open_url cx q g))))" for a q
    by (rule changes_trans [OF open_url_prog changes_note_opened])
  then show "guac_changes g (fst (open_http_tunnel cx tok ds cid display g))"
    using open_url_prog by (auto simp: open_http_tunnel_def Let_def split_beta split: sum.splits upstream.splits)
qed

lemma resume_tunnel_prog: "guac_prog (resume_tunnel cx refresh s display)"
proof -
  have "guac_prog (refresh_tunnels cx s display)"
    by (rule guac_progI) (auto simp: refresh_tunnels_def intro: changes_trans [OF changes_forget_tunnels]
        guac_progD [OF open_tunnel_prog])
  moreover have "guac_prog (take_tunnel cx s display)"
    by (rule guac_progI)
      (auto simp: take_tunnel_def split_beta Let_def intro: changes_reusable
        changes_trans [OF changes_reusable guac_progD [OF open_tunnel_prog]])
  ultimately show ?thesis
    unfolding resume_tunnel_def by (auto intro!: guac_prog_bind guac_prog_ret)
qed

lemma remember_recording_changes: "guac_changes g (remember_recording_owner now e a ow g)"
  by (rule changes_other) (simp_all add: remember_recording_owner_def trim_recordings_def Let_def)

lemma changes_note_token:
  "guac_changes g (g\<lparr>gu_agent_tokens := x\<rparr>)" "guac_changes g (g\<lparr>gu_cookies := c\<rparr>)"
  by (rule changes_other; simp)+

lemma track_created_changes: "guac_changes g (track_created cx q u session client g)"
  unfolding track_created_def Let_def
  by (rule changes_trans [OF _ remember_recording_changes], rule changes_then,
      rule changes_trans [OF _ changes_note_token(1)]) (simp add: changes_note_token)

lemma fresh_session_prog: "guac_prog (fresh_session cx q tunnels u)"
proof (rule guac_progI)
  fix g
  have "guac_changes g (fst (bindP (open_http_tunnel cx tok ds cid d) (\<lambda>x. retP (f x)) (track_created cx q u s c g)))"
    for tok ds cid d s c and f :: "string \<Rightarrow> pydict"
    by (rule changes_trans [OF track_created_changes guac_progD])
      (rule guac_prog_bind, rule open_tunnel_prog, rule guac_prog_ret)
  then show "guac_changes g (fst (fresh_session cx q tunnels u g))"
    by (auto simp: fresh_session_def Let_def split: sum.splits)
qed

lemma discard_changes: "guac_changes g (discard_session cx s g)"
  unfolding discard_session_def
  by (rule changes_trans [OF _ changes_forget], rule changes_trans [OF _ changes_try_invalidate], rule changes_cancel)

lemma reuse_session_prog: "guac_prog (reuse_session cx q base tunnels u s)"
proof (rule guac_progI)
  fix g
  show "guac_changes g (fst (reuse_session cx q base tunnels u s g))"
    unfolding reuse_session_def Let_def
    by (rule changes_trans [OF _ guac_progD], rule changes_trans [OF changes_cancel changes_register])
      (rule guac_prog_bind, rule resume_tunnel_prog, rule guac_prog_ret)
qed

lemma create_session_prog: "guac_prog (create_client_session cx q)"
proof (rule guac_progI)
  fix g
  show "guac_changes g (fst (create_client_session cx q g))"
    using guac_progD [OF fresh_session_prog] guac_progD [OF reuse_session_prog]
      changes_trans [OF discard_changes guac_progD [OF fresh_session_prog]]
    by (auto simp: create_client_session_def Let_def split: sum.splits option.splits)
qed

lemma changes_revoke: "guac_changes g (fst (revoke_client_session cx tok g))"
proof -
  have "guac_changes h (fst (invalidate_token cx tok h))" for h
    by (rule changes_other) (simp_all add: invalidate_token_def)
  from changes_trans [OF changes_cancel this] have i:
    "guac_changes g (fst (invalidate_token cx tok (fst (cancel_scheduled_session_close tok g))))" .
  then show ?thesis
    using changes_trans [OF i changes_forget] changes_cancel
    by (auto simp: revoke_client_session_def Let_def split: prod.splits sum.splits)
qed

lemma changes_close_one: "guac_changes g (close_one cx r tok g)"
  unfolding close_one_def by (rule changes_trans [OF changes_try_invalidate changes_forget])

lemma changes_expire: "guac_changes g (fst (expire_idle_sessions cx g))"
  by (simp add: expire_idle_sessions_def Let_def changes_fold changes_close_one)

lemma changes_close_tracked: "guac_changes g (fst (close_tracked_sessions cx toks r g))"
proof -
  have "guac_changes g (close_active_streams g)" by (rule changes_other) (simp_all add: close_active_streams_def)
  then show ?thesis
    unfolding close_tracked_sessions_def Let_def fst_conv
    by (rule changes_trans) (intro changes_fold changes_trans [OF changes_cancel changes_close_one])
qed

lemma changes_close_owner: "guac_changes g (fst (close_agent_owner_session cx a s r g))"
  by (auto simp: close_agent_owner_session_def changes_close_tracked split: option.splits)

lemma changes_close_all: "guac_changes g (fst (close_all_sessions cx g))"
proof -
  have "guac_changes g (g\<lparr>gu_shutdown := True\<rparr>)" by (rule changes_other) simp_all
  then show ?thesis unfolding close_all_sessions_def Let_def
    by (rule changes_trans [OF changes_trans [OF _ changes_fold] changes_close_tracked]) (rule changes_cancel)
qed

section \<open>Delayed closes, websockets and the proxy\<close>

lemma cancel_simps [simp]:
  "gu_rdp (fst (cancel_scheduled_session_close a g)) = gu_rdp g"
  "gu_websockets (fst (cancel_scheduled_session_close a g)) = gu_websockets g"
  "gu_shutdown (fst (cancel_scheduled_session_close a g)) = gu_shutdown g"
  "gu_reasons (fst (cancel_scheduled_session_close a g)) = gu_reasons g"
  "gu_invalidated (fst (cancel_scheduled_session_close a g)) = gu_invalidated g"
  "length (gu_tasks (fst (cancel_scheduled_session_close a g))) = length (gu_tasks g)"
  by (auto simp: cancel_scheduled_session_close_def Let_def split: option.splits)

lemma cancel_pending:
  "map_of (gu_pending (fst (cancel_scheduled_session_close a g))) = (map_of (gu_pending g))(strip a := None)"
  if "strip a \<noteq> []"
  using that by (auto simp: cancel_scheduled_session_close_def Let_def fun_upd_idem split: option.splits)

lemma changes_schedule: "guac_changes g (fst (schedule_session_close cx a d r g))"
proof (cases "strip a = []")
  case True
  then show ?thesis by (simp add: schedule_session_close_def)
next
  case False
  define g1 where "g1 = fst (cancel_scheduled_session_close (strip a) g)"
  have n: "map_of (gu_pending g1) (strip a) = None" using False by (simp add: g1_def cancel_pending)
  define t where "t = \<lparr>ct_token = strip a, ct_scheduled_at = gc_now cx, ct_due = gc_loop_now cx + max 500000 d,
    ct_reason = r, ct_phase = Created, ct_cancelled = False\<rparr>"
  have "guac_changes g1 (g1\<lparr>gu_tasks := gu_tasks g1 @ [t],
      gu_pending := AList.update (ct_token t) (length (gu_tasks g1)) (gu_pending g1)\<rparr>)"
    by (rule changes_one, rule ch_schedule) (use n False in \<open>simp_all add: t_def\<close>)
  then show ?thesis
    using changes_cancel [of g "strip a"] False
    by (auto simp: schedule_session_close_def Let_def g1_def [symmetric] t_def intro: changes_trans)
qed

lemma close_now_tasks [simp]: "gu_tasks (close_now cx t g) = gu_tasks g"
  by (simp add: close_now_def split: option.splits)

lemma changes_close_now: "guac_changes g (close_now cx t g)"
  using changes_close_one [of g cx "ct_reason t" "ct_token t"]
  by (auto simp: close_now_def close_one_def split: option.splits)

lemma changes_run_task: "guac_changes g (run_close_task cx i g)"
proof (cases "i < length (gu_tasks g)")
  case True
  have e: "guac_changes h (end_task i h)" if "gu_tasks h = gu_tasks g" for h
    using changes_one [OF ch_end [of i h]] True that by auto
  show ?thesis
    using changes_one [OF ch_start [OF True]] e [of g] changes_trans [OF changes_close_now e, of cx "gu_tasks g ! i"] True
    by (auto simp: run_close_task_def Let_def split: task_phase.splits)
next
  case False
  then show ?thesis by (simp add: run_close_task_def)
qed

lemma changes_register_websocket: "guac_changes g (fst (register_websocket cx q ws g))"
proof -
  have "guac_changes g (g\<lparr>gu_websockets := x\<rparr>)" for x by (rule changes_other) simp_all
  then show ?thesis
    by (auto simp: register_websocket_def Let_def intro: changes_trans [OF _ changes_mark])
qed

lemma changes_unregister_websocket: "guac_changes g (unregister_websocket a ws g)"
  by (rule changes_other) (simp_all add: unregister_websocket_def Let_def)

lemma changes_touch_websocket: "guac_changes g (touch_websocket cx q g)"
  by (simp add: touch_websocket_def Let_def changes_mark)

lemma changes_lose_tunnel: "guac_changes g (lose_tunnel u g)"
proof -
  have "guac_changes (drop_tunnel u g) (on_rdp (rdp_step (Release u)) (drop_tunnel u g))" by (rule changes_rdp)
  moreover have "guac_changes g (drop_tunnel u g)" by (rule changes_other) simp_all
  ultimately show ?thesis by (auto simp: lose_tunnel_def on_rdp_def)
qed

lemma changes_note_connected: "guac_changes g (note_connected cx body a g)"
  by (auto simp: note_connected_def Let_def intro!: changes_then)

lemma changes_proxy_opened: "guac_changes g (fst (proxy_opened cx meth rq body a g))"
proof -
  have "guac_changes g (register_active_stream i g)" for i
    by (rule changes_other) (simp_all add: register_active_stream_def)
  then show ?thesis
    by (auto simp: proxy_opened_def Let_def changes_note_connected changes_lose_tunnel changes_touch_tunnel
        intro: changes_trans [OF changes_touch_tunnel changes_lose_tunnel])
qed

lemma changes_touch_request: "guac_changes g (touch_request cx rq body g)"
  by (auto simp: touch_request_def Let_def changes_touch_tunnel
      intro: changes_trans [OF changes_touch_tunnel changes_touch_tunnel])

lemma proxy_prog: "guac_prog (proxy_tunnel_request cx meth rq body headers)"
proof (rule guac_progI)
  fix g
  define g1 where "g1 = (if proxy_auth_token rq body \<noteq> [] then mark_session_activity (gc_now cx) (proxy_auth_token rq body) g else g)"
  define g2 where "g2 = touch_request cx rq body g1"
  obtain g3 up where o: "open_url cx (proxy_request cx meth rq body headers g2) g2 = (g3, up)"
    by (cases "open_url cx (proxy_request cx meth rq body headers g2) g2")
  have 1: "guac_changes g g1" by (simp add: g1_def changes_mark)
  have "guac_changes g1 g2" by (simp add: g2_def changes_touch_request)
  with 1 have "guac_changes g g2" by (rule changes_trans)
  then have 3: "guac_changes g g3" using open_url_prog [of g2 cx] o by (metis changes_trans fst_conv)
  show "guac_changes g (fst (proxy_tunnel_request cx meth rq body headers g))"
    using 1 3 changes_trans [OF 3 changes_lose_tunnel] changes_trans [OF 3 changes_proxy_opened]
    by (simp add: proxy_tunnel_request_def Let_def g1_def [symmetric] g2_def [symmetric] o split: upstream.splits)
qed

lemma changes_stream_round: "guac_changes g (fst (stream_round cx i u chunk g))"
proof -
  have "guac_changes g (unregister_active_stream i g\<lparr>gu_streams_closed := x\<rparr>)" for x
    by (rule changes_other) (simp_all add: unregister_active_stream_def)
  then show ?thesis by (simp add: stream_round_def changes_touch_tunnel)
qed

section \<open>Runs of the service\<close>

text \<open>Every handler at any time, in any order, with any answers of Guacamole.\<close>

inductive guac_step :: "guac \<Rightarrow> guac \<Rightarrow> bool" where
  st_create: "guac_step g (fst (create_client_session cx q g))"
| st_revoke: "guac_step g (fst (revoke_client_session cx tok g))"
| st_expire: "guac_step g (fst (expire_idle_sessions cx g))"
| st_close_tracked: "guac_step g (fst (close_tracked_sessions cx toks r g))"
| st_close_owner: "guac_step g (fst (close_agent_owner_session cx a s r g))"
| st_close_all: "guac_step g (fst (close_all_sessions cx g))"
| st_schedule: "guac_step g (fst (schedule_session_close cx tok d r g))"
| st_task: "guac_step g (run_close_task cx i g)"
| st_register: "guac_step g (fst (register_websocket cx rq ws g))"
| st_unregister: "guac_step g (unregister_websocket tok w g)"
| st_touch: "guac_step g (touch_websocket cx rq g)"
| st_proxy: "guac_step g (fst (proxy_tunnel_request cx meth rq body headers g))"
| st_stream: "guac_step g (fst (stream_round cx i u chunk g))"
| st_reason: "guac_step g (fst (get_recent_close_reason lt tok g))"
| st_annotate: "guac_step g (fst (annotate_recording_inventory now payload g))"
| st_supported: "guac_step g (set_websocket_proxy_supported b g)"

lemma find_recording_changes [simp]:
  "gu_rdp (fst (find_recording_owner now p g)) = gu_rdp g"
  "gu_tasks (fst (find_recording_owner now p g)) = gu_tasks g"
  "gu_pending (fst (find_recording_owner now p g)) = gu_pending g"
  by (simp_all add: find_recording_owner_def trim_recordings_def Let_def)

lemma annotate_entries_changes [simp]:
  "gu_rdp (fst (annotate_entries now vs g)) = gu_rdp g \<and> gu_tasks (fst (annotate_entries now vs g)) = gu_tasks g \<and>
   gu_pending (fst (annotate_entries now vs g)) = gu_pending g"
  by (induction vs arbitrary: g) (auto simp: Let_def split_beta split: pyval.splits)

lemma guac_step_changes: "guac_step g g' \<Longrightarrow> guac_changes g g'"
proof (induction rule: guac_step.induct)
  case (st_reason g lt tok)
  then show ?case by (rule changes_other) (simp_all add: get_recent_close_reason_def Let_def split: option.splits)
next
  case (st_annotate g now payload)
  then show ?case
    using annotate_entries_changes [of now _ g]
    by (intro changes_other) (simp_all add: annotate_recording_inventory_def Let_def split_beta split: pyval.splits)
next
  case (st_supported g b)
  then show ?case by (rule changes_other) (simp_all add: set_websocket_proxy_supported_def)
qed (simp_all add: guac_progD [OF create_session_prog] guac_progD [OF proxy_prog]
    changes_revoke changes_expire changes_close_tracked changes_close_owner changes_close_all changes_schedule changes_run_task
    changes_register_websocket changes_unregister_websocket changes_touch_websocket changes_stream_round)

text \<open>What every change keeps: the monitor is well formed, and pending entries name live tasks of their token.\<close>

definition live_task :: "string \<Rightarrow> close_task \<Rightarrow> bool" where
  "live_task tok t \<longleftrightarrow> clean tok \<and> ct_token t = tok \<and> ct_phase t \<noteq> Finished \<and> \<not> ct_cancelled t"

definition pending_ok :: "guac \<Rightarrow> bool" where
  "pending_ok g \<longleftrightarrow>
     distinct (map fst (gu_pending g)) \<and> (\<forall>i<length (gu_tasks g). clean (ct_token (gu_tasks g ! i))) \<and>
     (\<forall>tok i. map_of (gu_pending g) tok = Some i \<longrightarrow> i < length (gu_tasks g) \<and> live_task tok (gu_tasks g ! i))"

lemma pending_okD:
  assumes "pending_ok g" "map_of (gu_pending g) tok = Some i"
  shows "i < length (gu_tasks g)" "live_task tok (gu_tasks g ! i)"
  using assms by (auto simp: pending_ok_def)

lemma pending_ok_change:
  assumes "guac_change g g'" "pending_ok g"
  shows "pending_ok g'"
  using assms
proof (induction rule: guac_change.induct)
  case (ch_cancel g tok)
  then have "i \<noteq> j" if "map_of (gu_pending g) (strip tok) = Some i" "map_of (gu_pending g) k = Some j" "k \<noteq> strip tok" for i j k
    using pending_okD(2) [OF ch_cancel] that by (auto simp: live_task_def)
  then show ?case
    using ch_cancel by (auto simp: cancel_scheduled_session_close_def Let_def pending_ok_def nth_list_update
        simp del: map_of_eq_Some_iff split: option.splits if_splits)
next
  case (ch_schedule g t)
  then show ?case by (auto simp: pending_ok_def live_task_def nth_append less_Suc_eq)
next
  case (ch_start i g)
  then show ?case by (auto simp: pending_ok_def live_task_def set_phase_def nth_list_update)
next
  case (ch_end i g)
  then show ?case by (auto simp: pending_ok_def live_task_def end_task_def set_phase_def nth_list_update)
qed (auto simp: pending_ok_def)

lemma rdp_run_change: "guac_change g g' \<Longrightarrow> \<exists>cs. gu_rdp g' = fold rdp_step cs (gu_rdp g)"
proof (induction rule: guac_change.induct)
  case (ch_rdp g c)
  then show ?case by (intro exI [of _ "[c]"]) simp
qed (auto simp: set_phase_def end_task_def intro: exI [of _ "[]"])

lemma rdp_run_changes: "guac_changes g g' \<Longrightarrow> \<exists>cs. gu_rdp g' = fold rdp_step cs (gu_rdp g)"
proof (induction rule: rtranclp_induct)
  case base
  show ?case by (intro exI [of _ "[]"]) simp
next
  case (step h k)
  then obtain cs ds where "gu_rdp h = fold rdp_step cs (gu_rdp g)" "gu_rdp k = fold rdp_step ds (gu_rdp h)"
    using rdp_run_change by blast
  then show ?case by (intro exI [of _ "cs @ ds"]) simp
qed

lemma pending_ok_changes: "guac_changes g g' \<Longrightarrow> pending_ok g \<Longrightarrow> pending_ok g'"
  by (induction rule: rtranclp_induct) (auto intro: pending_ok_change)

section \<open>Properties\<close>

lemma run_ok:
  assumes "guac_step\<^sup>*\<^sup>* (guac_init (rdp_monitor_init n e)) g"
  shows "\<exists>cs. gu_rdp g = fold rdp_step cs (rdp_monitor_init n e)" "rdp_ok (gu_rdp g)" "pending_ok g"
proof -
  from assms have c: "guac_changes (guac_init (rdp_monitor_init n e)) g"
    by (induction rule: rtranclp_induct) (auto dest: guac_step_changes)
  moreover have "pending_ok (guac_init (rdp_monitor_init n e))" by (simp add: pending_ok_def guac_init_def)
  ultimately show "pending_ok g" by (rule pending_ok_changes)
  obtain cs where "gu_rdp g = fold rdp_step cs (rdp_monitor_init n e)"
    using rdp_run_changes [OF c] by (auto simp: guac_init_def)
  then show "\<exists>cs. gu_rdp g = fold rdp_step cs (rdp_monitor_init n e)" "rdp_ok (gu_rdp g)"
    using rdp_ok_run [OF rdp_ok_init, of cs n e] by auto
qed

text \<open>Property C4. In every run of the remote desktop service, whatever requests it serves, whichever of its
  delayed closes run and whatever Guacamole answers: the monitor has come to its state by its own operations, so
  that its dictionaries agree, no token has two pending closes, and the pending close of a token is a task of
  this token that has neither ended nor been cancelled.\<close>

theorem guacamole_run_invariant:
  assumes "guac_step\<^sup>*\<^sup>* (guac_init (rdp_monitor_init n e)) g"
  shows "(\<exists>cs. gu_rdp g = fold rdp_step cs (rdp_monitor_init n e)) \<and> rdp_ok (gu_rdp g) \<and> pending_ok g"
  using run_ok [OF assms] by simp

lemma remove_session_sess:
  assumes "rdp_ok m"
  shows "sess (fst (remove_session a m)) = (sess m)(strip a := None)"
proof (cases "sess m (strip a)")
  case None
  then show ?thesis by (simp add: remove_session_unknown fun_upd_idem)
next
  case (Some s)
  then show ?thesis by (rule remove_session_maps(1) [OF assms refl])
qed

lemma sess_clean: "rdp_ok m \<Longrightarrow> sess m tok = Some s \<Longrightarrow> strip tok = tok \<and> tok \<noteq> []"
  using rdp_okD(4) [of m tok s] by (simp add: session_ok_def clean_def)

lemma run_close_task_sess:
  assumes "rdp_ok (gu_rdp g)" "i < length (gu_tasks g)" "sess (gu_rdp g) tok = Some s"
  shows "sess (gu_rdp (run_close_task cx i g)) tok = None \<longleftrightarrow>
    (let t = gu_tasks g ! i in
     ct_phase t = Sleeping \<and> \<not> ct_cancelled t \<and> ct_due t \<le> gc_loop_now cx \<and> \<not> gu_shutdown g \<and>
     strip (ct_token t) = tok \<and> (\<exists>r. sess (gu_rdp g) (strip (ct_token t)) = Some r \<and> \<not> ct_scheduled_at t < rs_last_activity_at r) \<and>
     the_or (map_of (gu_websockets g) (ct_token t)) [] = [])"
proof -
  have [simp]: "gu_rdp (set_phase j ph h) = gu_rdp h" "gu_rdp (end_task j h) = gu_rdp h" for j ph h
    by (simp_all add: set_phase_def end_task_def)
  have n: "tok \<noteq> []" using sess_clean [OF assms(1,3)] by simp
  show ?thesis
    using assms n by (auto simp: run_close_task_def Let_def close_now_def get_rdp_session_def
        remove_session_sess split: task_phase.splits option.splits)
qed

text \<open>Property C5. A delayed close ends a session exactly when its time has come and nothing stands against it: the
  task of this very token sleeps, was not cancelled and is due, the service is not shutting down, no
  activity of the session was seen after the close was asked for, and no websocket of the session is
  open. So a session that was touched after the browser tab closed goes on, even if the
  cancelling of the task was missed.\<close>

theorem delayed_close_conditions:
  assumes "guac_step\<^sup>*\<^sup>* (guac_init (rdp_monitor_init n e)) g" "i < length (gu_tasks g)"
    "sess (gu_rdp g) tok = Some s"
  shows "sess (gu_rdp (run_close_task cx i g)) tok = None \<longleftrightarrow>
    (let t = gu_tasks g ! i in
     ct_token t = tok \<and> ct_phase t = Sleeping \<and> \<not> ct_cancelled t \<and> ct_due t \<le> gc_loop_now cx \<and>
     \<not> gu_shutdown g \<and> rs_last_activity_at s \<le> ct_scheduled_at t \<and>
     the_or (map_of (gu_websockets g) tok) [] = [])"
proof -
  have "strip (ct_token (gu_tasks g ! i)) = ct_token (gu_tasks g ! i)"
    using run_ok(3) [OF assms(1)] assms(2) by (simp add: pending_ok_def clean_def)
  then show ?thesis
    using run_close_task_sess [OF run_ok(2) [OF assms(1)] assms(2,3), of cx] assms(3)
    by (auto simp: Let_def not_less)
qed

text \<open>The answer about a session holds the token it may be used with.\<close>

definition answer_token :: "pydict \<Rightarrow> pyval" where
  "answer_token answer = dget (as_dict (dget answer ''client_session'')) ''auth_token''"

lemma get_rdp_session_sess:
  assumes "get_rdp_session a m = Some s" "rdp_ok m"
  shows "sess m (rs_auth_token s) = Some s"
  using assms rdp_okD(4) [OF assms(2), of "strip a" s]
  by (auto simp: get_rdp_session_def Let_def session_ok_def split: if_splits)

lemma latest_of_mem: "latest_of ss = Some s \<Longrightarrow> s \<in> set ss"
  by (cases ss) (use max_by_in in \<open>fastforce simp: latest_of_def\<close>)+

lemma rm_session_sess:
  assumes "s \<in> snd ` set (rm_sessions m)" "rdp_ok m"
  shows "sess m (rs_auth_token s) = Some s"
proof -
  obtain k where "sess m k = Some s" using assms rdp_okD(1) [OF assms(2)] by auto
  then show ?thesis using rdp_okD(4) [OF assms(2), of k s] by (simp add: session_ok_def)
qed

lemma existing_session_mem:
  assumes "existing_session q subject m = Some s" "rdp_ok m"
  shows "sess m (rs_auth_token s) = Some s"
proof -
  have "resumed_session q subject m = Some s \<Longrightarrow> get_rdp_session (strip (sq_resume_auth_token q)) m = Some s"
    by (auto simp: resumed_session_def split: if_splits option.splits)
  then show ?thesis
    using assms get_rdp_session_sess [OF _ assms(2)]
    by (auto simp: existing_session_def get_session_for_owner_def get_session_for_agent_def Let_def
        dest!: latest_of_mem intro!: rm_session_sess [OF _ assms(2)] split: option.splits if_splits)
qed

lemma existing_session_owner:
  assumes "existing_session q subject m = Some s" "strip subject = subject" "subject \<noteq> []"
  shows "owner_subject (rs_owner s) = subject"
  using assms
  by (auto simp: existing_session_def resumed_session_def get_session_for_owner_def Let_def
      dest!: latest_of_mem split: option.splits if_splits)

lemma reused_answer_token [simp]: "answer_token (reused_answer base ro tunnels s cookie uuid) = PStr (rs_auth_token s)"
  by (simp add: answer_token_def reused_answer_def dget_def dupdate_def)

lemma reuse_session_token:
  "reuse_session cx q base tunnels u s g = (g', Inr answer) \<Longrightarrow> answer_token answer = PStr (rs_auth_token s)"
  by (auto simp: reuse_session_def Let_def bindP_def retP_def split: prod.splits sum.splits)

text \<open>What \<open>fresh_session\<close> answers is the token that Guacamole gave.\<close>

lemma fresh_session_token:
  assumes "fresh_session cx q tunnels u g = (g', Inr answer)"
  shows "\<exists>c r. gc_create cx c = Inr r \<and> answer_token answer = answer_token r"
  using assms
  by (auto simp: fresh_session_def answer_token_def Let_def bindP_def retP_def dget_def
      split: sum.splits prod.splits if_splits) blast+

text \<open>Property C3. A session is never handed to another user: when an answer of \<open>create_client_session\<close> carries the
  token of a session that the server tracked before, and Guacamole gives no such token to a new session,
  then that session is of the agent that was asked for, and it belongs to the user of the request when the
  request has one.\<close>

theorem session_not_shared:
  assumes "guac_step\<^sup>*\<^sup>* (guac_init (rdp_monitor_init n e)) g"
    "create_client_session cx q g = (g', Inr answer)" "answer_token answer = PStr tok"
    "sess (gu_rdp g) tok = Some s" "\<And>c r. gc_create cx c = Inr r \<Longrightarrow> answer_token r \<noteq> PStr tok"
  shows "rs_agent_id s = sq_agent_id q \<and>
    (let subject = owner_subject (build_tracked_owner (sq_user_session q)) in
     subject \<noteq> [] \<longrightarrow> owner_subject (rs_owner s) = subject)"
proof -
  define subject where "subject = owner_subject (build_tracked_owner (sq_user_session q))"
  note ok = run_ok(2) [OF assms(1)]
  have nf: "\<not> fresh_session cx q t u h = (g', Inr answer)" for t u h
    using fresh_session_token [of cx q t u h g' answer] assms(3,5) by metis
  obtain base t u r where r: "existing_session q subject (gu_rdp g) = Some r" "\<not> needs_fresh q r"
    and a: "reuse_session cx q base t u r g = (g', Inr answer)"
    using assms(2) nf by (auto simp: create_client_session_def Let_def subject_def split: sum.splits option.splits if_splits)
  have "rs_auth_token r = tok" using reuse_session_token [OF a] assms(3) by simp
  then have "r = s" using existing_session_mem [OF r(1) ok] assms(4) by simp
  moreover have "strip subject = subject" by (simp add: subject_def owner_subject_def split: option.splits)
  ultimately show ?thesis
    using existing_session_owner [OF r(1)] r(2) by (auto simp: needs_fresh_def subject_def Let_def)
qed

section \<open>Forgetting\<close>

lemma drop_agent_token_gone: "(a, ts) \<in> set (drop_agent_token tok ats) \<Longrightarrow> tok \<notin> set ts"
  by (auto simp: drop_agent_token_def Let_def dest!: filter_id_conv [THEN iffD1, OF sym] split: if_splits)

lemma reasons_after_forget:
  assumes "strip a \<noteq> []" "strip r \<noteq> []"
  shows "gu_reasons (forget_session cx a r g) =
    AList.update (strip a) (gc_loop_now cx + reason_lifetime, strip r) (gu_reasons g)"
  using assms by (simp add: forget_session_eq Let_def remember_close_reason_def)

text \<open>A browser that asks why its session is gone is told the reason of the close once, within two
  minutes: the first question gives it, every later one nothing, and after two minutes it is gone.\<close>

theorem close_reason_told_once:
  assumes "strip tok \<noteq> []" "strip reason \<noteq> []" "distinct (map fst (gu_reasons g))"
  shows "let g1 = forget_session cx tok reason g; (g2, first) = get_recent_close_reason lt tok g1;
             (g3, later) = get_recent_close_reason lt' tok g2 in
    first = (if lt < gc_loop_now cx + reason_lifetime then strip reason else []) \<and> later = []"
proof -
  define g1 where "g1 = forget_session cx tok reason g"
  have d: "distinct (map fst (gu_reasons g1))" and
    m: "map_of (gu_reasons g1) (strip tok) = Some (gc_loop_now cx + reason_lifetime, strip reason)"
    using assms by (simp_all add: g1_def reasons_after_forget distinct_update)
  have f: "map_of (filter (\<lambda>(_, x, _). lt < x) (gu_reasons g1)) (strip tok) =
      (if lt < gc_loop_now cx + reason_lifetime then Some (gc_loop_now cx + reason_lifetime, strip reason) else None)"
    using m by (simp add: map_of_filter_distinct [OF d])
  have n: "map_of (filter P (AList.delete (strip tok) xs)) (strip tok) = None" for P :: "string \<times> int \<times> string \<Rightarrow> bool" and xs
    by (auto simp: map_of_eq_None_iff AList.delete_eq)
  show ?thesis
    unfolding g1_def [symmetric] using assms f
    by (simp add: get_recent_close_reason_def Let_def n split: option.splits)
qed

text \<open>A session that is forgotten is gone from every table that is read by its token: the monitor, the cookies,
  the websockets and the tokens of every agent; its websockets are closed with the reason; other
  sessions stay. What stays as well are the tokens and the cookies of its tunnels, because the tunnels of
  the session are emptied before the loop that should drop them.\<close>

theorem forget_session_forgets:
  assumes "guac_step\<^sup>*\<^sup>* (guac_init (rdp_monitor_init n e)) g" "strip tok \<noteq> []"
  shows "let g' = forget_session cx tok reason g in
    sess (gu_rdp g') = (sess (gu_rdp g))(strip tok := None) \<and>
    (\<forall>t. tunnel_token (gu_rdp g') t \<noteq> Some (strip tok)) \<and>
    map_of (gu_cookies g') (strip tok) = None \<and> map_of (gu_websockets g') (strip tok) = None \<and>
    (\<forall>(a, ts)\<in>set (gu_agent_tokens g'). strip tok \<notin> set ts) \<and>
    gu_closed g' = gu_closed g @ map (\<lambda>ws. (ws, reason)) (the_or (map_of (gu_websockets g) (strip tok)) []) \<and>
    gu_tunnel_tokens g' = gu_tunnel_tokens g \<and> gu_tunnel_cookies g' = gu_tunnel_cookies g"
proof -
  note ok = run_ok(2) [OF assms(1)]
  have "tunnel_token (fst (remove_session tok (gu_rdp g))) t \<noteq> Some (strip tok)" for t
  proof (cases "sess (gu_rdp g) (strip tok)")
    case None
    then show ?thesis using tunnel_session(1) [OF ok, of t "strip tok"] by (auto simp: remove_session_unknown)
  next
    case (Some s)
    then show ?thesis by (simp add: remove_session_maps(2) [OF ok refl Some])
  qed
  then show ?thesis
    using assms(2) remove_session_sess [OF ok] drop_agent_token_gone
    by (auto simp: Let_def) (simp_all add: forget_session_eq Let_def drop_agent_token_gone)
qed

section \<open>Idle sessions\<close>

lemma close_one_sess: "rdp_ok (gu_rdp g) \<Longrightarrow> sess (gu_rdp (close_one cx r t g)) = (sess (gu_rdp g))(strip t := None)"
  by (simp add: close_one_def remove_session_sess)

lemma close_all_sess:
  "rdp_ok (gu_rdp g) \<Longrightarrow> (\<And>t. t \<in> set ts \<Longrightarrow> strip t = t) \<Longrightarrow>
   sess (gu_rdp (fold (close_one cx r) ts g)) tok = (if tok \<in> set ts then None else sess (gu_rdp g) tok)"
proof (induction ts arbitrary: g)
  case (Cons t ts)
  have "rdp_ok (gu_rdp (close_one cx r t g))" using Cons.prems(1) by (simp add: close_one_def rdp_ok_remove)
  then show ?case using Cons.IH [of "close_one cx r t g"] Cons.prems by (simp add: close_one_sess)
qed simp

lemma close_all_invalidated:
  "gu_invalidated (fold (close_one cx r) ts g) = gu_invalidated g @ (if gc_base_url cx = [] then [] else ts)"
  by (induction ts arbitrary: g) (simp_all add: close_one_def)

text \<open>Property C37. The sweep ends exactly the sessions without activity for the configured time: they are forgotten
  and their tokens are invalidated at Guacamole when it is configured; every other session stays as it
  is, and a timeout of zero ends none.\<close>

theorem idle_sweep_exact:
  assumes "guac_step\<^sup>*\<^sup>* (guac_init (rdp_monitor_init n e)) g"
  shows "let g' = fst (expire_idle_sessions cx g); expired = get_idle_auth_tokens (gc_now cx) (gu_rdp g) in
    sess (gu_rdp g') tok =
      (case sess (gu_rdp g) tok of
         None \<Rightarrow> None
       | Some s \<Rightarrow> if 0 < rm_idle_timeout (gu_rdp g) \<and>
                      rs_last_activity_at s + rm_idle_timeout (gu_rdp g) * 1000000 \<le> gc_now cx
                   then None else Some s) \<and>
    gu_invalidated g' = gu_invalidated g @ (if gc_base_url cx = [] then [] else expired) \<and>
    snd (expire_idle_sessions cx g) = length expired"
proof -
  note ok = run_ok(2) [OF assms]
  have c: "t \<in> set (get_idle_auth_tokens (gc_now cx) (gu_rdp g)) \<Longrightarrow> strip t = t" for t
    using sess_clean [OF ok, of t] by (auto simp: set_idle_tokens [OF ok] abs_rdp_def)
  have "sess (gu_rdp (fold (close_one cx ''Idle timeout'') (get_idle_auth_tokens (gc_now cx) (gu_rdp g)) g)) tok =
      (if tok \<in> set (get_idle_auth_tokens (gc_now cx) (gu_rdp g)) then None else sess (gu_rdp g) tok)"
    by (rule close_all_sess [OF ok c])
  then show ?thesis
    by (auto simp: expire_idle_sessions_def Let_def close_all_invalidated set_idle_tokens [OF ok] abs_rdp_def
        split: option.splits)
qed

section \<open>The label of a read-only session\<close>

definition unlabelled :: "pydict result \<Rightarrow> pydict result" where
  "unlabelled r = map_sum id (AList.delete ''read_only'') r"

lemma map_bind_ret:
  "map_prod id (map_sum id h) (bindP p (\<lambda>x. retP (f x)) g) = bindP p (\<lambda>x. retP (h (f x))) g"
  by (cases "p g") (simp add: bindP_def retP_def split: sum.splits)

lemma reused_answer_unlabelled:
  "AList.delete ''read_only'' (reused_answer base b tunnels s c u) = AList.delete ''read_only'' (reused_answer base b' tunnels s c u)"
  by (simp add: reused_answer_def dupdate_def delete_update delete_update_same)

text \<open>Property C40. Whether a session is asked for as read-only changes nothing at all but the label in the answer: the
  same session is reused or created, with the same calls to Guacamole, the same tunnels and the same
  state of the server.\<close>

theorem read_only_is_a_label:
  "map_prod id unlabelled (create_client_session cx (q\<lparr>sq_read_only := b\<rparr>) g) =
   map_prod id unlabelled (create_client_session cx q g)"
proof -
  have t [simp]: "track_created cx (q\<lparr>sq_read_only := b\<rparr>) = track_created cx q"
    by (intro ext) (simp add: track_created_def)
  have "map_prod id unlabelled (fresh_session cx (q\<lparr>sq_read_only := b\<rparr>) t u h) = map_prod id unlabelled (fresh_session cx q t u h)"
    for t u h
    unfolding unlabelled_def
    by (simp add: fresh_session_def Let_def map_bind_ret delete_update_same split: sum.splits)
  moreover have "map_prod id unlabelled (reuse_session cx (q\<lparr>sq_read_only := b\<rparr>) base t u s h) =
      map_prod id unlabelled (reuse_session cx q base t u s h)" for base t u s h
    unfolding unlabelled_def
    by (simp add: reuse_session_def Let_def map_bind_ret reused_answer_unlabelled [of base b t s _ _ "sq_read_only q"])
  moreover have "needs_fresh (q\<lparr>sq_read_only := b\<rparr>) = needs_fresh q" "requested_username (q\<lparr>sq_read_only := b\<rparr>) = requested_username q"
    "existing_session (q\<lparr>sq_read_only := b\<rparr>) = existing_session q"
    by (simp_all add: fun_eq_iff needs_fresh_def requested_username_def existing_session_def resumed_session_def
        split: option.splits)
  ultimately show ?thesis by (simp add: create_client_session_def unlabelled_def Let_def split: sum.splits option.splits)
qed

text \<open>Closing the one session of an owner closes the streams of every session.\<close>

lemma kick_closes_all_streams:
  assumes "close_agent_owner_session cx a subject r g = (g', True)"
  shows "gu_streams g' = [] \<and> gu_streams_closed g' = gu_streams_closed g @ gu_streams g"
proof -
  have f: "gu_streams (forget_session cx t x h) = gu_streams h" "gu_streams_closed (forget_session cx t x h) = gu_streams_closed h"
    for t x h by (cases "strip t = []", simp_all add: forget_session_empty forget_session_eq Let_def remember_close_reason_def)+
  have c: "gu_streams (fst (cancel_scheduled_session_close t h)) = gu_streams h"
    "gu_streams_closed (fst (cancel_scheduled_session_close t h)) = gu_streams_closed h"
    "gu_streams (try_invalidate cx t h) = gu_streams h" "gu_streams_closed (try_invalidate cx t h) = gu_streams_closed h" for t h
    by (auto simp: cancel_scheduled_session_close_def Let_def try_invalidate_def invalidate_token_def split: option.splits)
  have "gu_streams (close_one cx r t (fst (cancel_scheduled_session_close t h))) = gu_streams h"
    "gu_streams_closed (close_one cx r t (fst (cancel_scheduled_session_close t h))) = gu_streams_closed h" for t h
    by (simp_all add: close_one_def f c)
  then show ?thesis
    using assms by (auto simp: close_agent_owner_session_def close_tracked_sessions_def Let_def close_active_streams_def
        split: if_splits option.splits)
qed

section \<open>A sample run\<close>

definition sample_guac_ctx :: "string \<Rightarrow> int \<Rightarrow> guac_ctx" where
  "sample_guac_ctx tok now =
     \<lparr>gc_base_url = ''http://g'', gc_config = [], gc_proxy_urls = (\<lambda>_. [(''http'', ''/t'')]),
      gc_build_session = (\<lambda>_ _. Inr []),
      gc_create = (\<lambda>_. Inr [(''client_session'', PDict [(''auth_token'', PStr tok)])]),
      gc_invalidate = (\<lambda>_ _. Inr True), gc_open = (\<lambda>_ _. Os_Error ''refused''), gc_cookie_pairs = (\<lambda>_. []),
      gc_now = now, gc_loop_now = now\<rparr>"

definition sample_session_request :: session_request where
  "sample_session_request =
     \<lparr>sq_agent_id = ''vm1'', sq_state = None, sq_public_base_url = [],
      sq_user_session = Some \<lparr>us_access_token = ''t'', us_user = sample_user [''operator''], us_created_at = 0,
        us_expires_at = 100, us_last_seen_at = 0\<rparr>,
      sq_force_fresh = False, sq_refresh_tunnel = False, sq_resume_auth_token = [], sq_connection_id = [],
      sq_vm_username = [], sq_read_only = False, sq_recorded = False\<rparr>"

definition sample_guac :: guac where
  "sample_guac = fst (create_client_session (sample_guac_ctx ''T1'' 0) sample_session_request
     (guac_init (rdp_monitor_init None None)))"

lemma sample_guac_run: "guac_step\<^sup>*\<^sup>* (guac_init (rdp_monitor_init None None)) sample_guac"
  unfolding sample_guac_def by (rule r_into_rtranclp) (rule st_create)

definition sample_closing :: guac where
  "sample_closing = run_close_task (sample_guac_ctx ''T2'' 10) 0
     (fst (schedule_session_close (sample_guac_ctx ''T2'' 10) ''T1'' 0 ''Browser tab closed'' sample_guac))"

lemma sample_closing_run: "guac_step\<^sup>*\<^sup>* (guac_init (rdp_monitor_init None None)) sample_closing"
  unfolding sample_closing_def
  by (rule rtranclp.rtrancl_into_rtrancl [OF rtranclp.rtrancl_into_rtrancl [OF sample_guac_run st_schedule] st_task])

lemma sample_tracked: "\<exists>s. sess (gu_rdp sample_guac) ''T1'' = Some s \<and> rs_agent_id s = ''vm1'' \<and> rs_last_activity_at s = 0"
proof -
  have "case sess (gu_rdp sample_guac) ''T1'' of Some s \<Rightarrow> rs_agent_id s = ''vm1'' \<and> rs_last_activity_at s = 0 | None \<Rightarrow> False"
    by code_simp
  then show ?thesis by (simp split: option.splits)
qed

lemma guacamole_run_invariant_witness:
  "rdp_ok (gu_rdp sample_closing) \<and> pending_ok sample_closing \<and> map_of (gu_pending sample_closing) ''T1'' = Some 0"
proof -
  have "map_of (gu_pending sample_closing) ''T1'' = Some 0" by code_simp
  then show ?thesis using guacamole_run_invariant [OF sample_closing_run] by simp
qed

lemma delayed_close_conditions_witness:
  "sess (gu_rdp (run_close_task (sample_guac_ctx ''T2'' 500010) 0 sample_closing)) ''T1'' = None \<and>
   sess (gu_rdp (run_close_task (sample_guac_ctx ''T2'' 500009) 0 sample_closing)) ''T1'' \<noteq> None"
proof -
  have l: "0 < length (gu_tasks sample_closing)" by code_simp
  obtain s where s: "sess (gu_rdp sample_closing) ''T1'' = Some s" "rs_last_activity_at s \<le> 10"
  proof -
    have "case sess (gu_rdp sample_closing) ''T1'' of Some s \<Rightarrow> rs_last_activity_at s \<le> 10 | None \<Rightarrow> False" by code_simp
    then show ?thesis using that by (auto split: option.splits)
  qed
  have t: "let t = gu_tasks sample_closing ! 0 in ct_token t = ''T1'' \<and> ct_phase t = Sleeping \<and> \<not> ct_cancelled t \<and>
      ct_due t = 500010 \<and> ct_scheduled_at t = 10" by code_simp
  have w: "\<not> gu_shutdown sample_closing \<and> the_or (map_of (gu_websockets sample_closing) ''T1'') [] = []" by code_simp
  have n: "gc_loop_now (sample_guac_ctx ''T2'' k) = k" for k by (simp add: sample_guac_ctx_def)
  show ?thesis
    using delayed_close_conditions [OF sample_closing_run l s(1), of "sample_guac_ctx ''T2'' 500010"]
      delayed_close_conditions [OF sample_closing_run l s(1), of "sample_guac_ctx ''T2'' 500009"] t w s(2)
    by (simp add: Let_def n)
qed

lemma session_not_shared_witness:
  "case create_client_session (sample_guac_ctx ''T2'' 5) sample_session_request sample_guac of
     (g', Inr answer) \<Rightarrow> answer_token answer = PStr ''T1'' \<and>
       (case sess (gu_rdp sample_guac) ''T1'' of Some s \<Rightarrow> rs_agent_id s = ''vm1'' \<and> owner_subject (rs_owner s) = ''s1'' | None \<Rightarrow> False)
   | _ \<Rightarrow> False"
proof -
  have a: "case create_client_session (sample_guac_ctx ''T2'' 5) sample_session_request sample_guac of
     (g', Inr answer) \<Rightarrow> answer_token answer = PStr ''T1'' | _ \<Rightarrow> False" by code_simp
  then obtain g' answer where c: "create_client_session (sample_guac_ctx ''T2'' 5) sample_session_request sample_guac = (g', Inr answer)"
    and t: "answer_token answer = PStr ''T1''" by (auto split: prod.splits sum.splits)
  obtain s where s: "sess (gu_rdp sample_guac) ''T1'' = Some s" using sample_tracked by blast
  have f: "gc_create (sample_guac_ctx ''T2'' 5) x = Inr r \<Longrightarrow> answer_token r \<noteq> PStr ''T1''" for x r
    by (auto simp: sample_guac_ctx_def answer_token_def dget_def)
  have o: "owner_subject (build_tracked_owner (sq_user_session sample_session_request)) = ''s1''"
    "sq_agent_id sample_session_request = ''vm1''" by code_simp+
  from session_not_shared [OF sample_guac_run c t s f] o show ?thesis by (simp add: c t s Let_def)
qed

lemma close_reason_told_once_witness:
  "let cx = sample_guac_ctx ''T2'' 5; g1 = forget_session cx ''T1'' '' Idle timeout'' sample_guac;
       (g2, first) = get_recent_close_reason 120000004 ''T1'' g1 in
   first = ''Idle timeout'' \<and> snd (get_recent_close_reason 120000004 ''T1'' g2) = []"
proof -
  have "distinct (map fst (gu_reasons sample_guac))" "strip ''T1'' \<noteq> []" "strip '' Idle timeout'' = ''Idle timeout''"
    "(120000004 < gc_loop_now (sample_guac_ctx ''T2'' 5) + reason_lifetime) = True" by code_simp+
  then show ?thesis
    using close_reason_told_once [of "''T1''" "'' Idle timeout''" sample_guac, where cx = "sample_guac_ctx ''T2'' 5"
        and lt = 120000004 and lt' = 120000004]
    by (simp add: Let_def split_beta)
qed

lemma forget_session_forgets_witness:
  "sess (gu_rdp sample_guac) ''T1'' \<noteq> None \<and>
   sess (gu_rdp (forget_session (sample_guac_ctx ''T2'' 5) ''T1'' ''x'' sample_guac)) ''T1'' = None"
proof -
  have "strip ''T1'' = ''T1''" by code_simp
  then show ?thesis
    using forget_session_forgets [OF sample_guac_run, of "''T1''" "sample_guac_ctx ''T2'' 5" "''x''"] sample_tracked
    by (auto simp: Let_def)
qed

lemma idle_sweep_exact_witness:
  "sess (gu_rdp (fst (expire_idle_sessions (sample_guac_ctx ''T2'' 900000000) sample_guac))) ''T1'' = None \<and>
   gu_invalidated (fst (expire_idle_sessions (sample_guac_ctx ''T2'' 900000000) sample_guac)) = [''T1'']"
proof -
  have e: "rm_idle_timeout (gu_rdp sample_guac) = 900" "gu_invalidated sample_guac = []"
    "get_idle_auth_tokens 900000000 (gu_rdp sample_guac) = [''T1'']" by code_simp+
  obtain s where s: "sess (gu_rdp sample_guac) ''T1'' = Some s" "rs_last_activity_at s = 0" using sample_tracked by blast
  have x: "gc_now (sample_guac_ctx ''T2'' 900000000) = 900000000" "gc_base_url (sample_guac_ctx ''T2'' 900000000) \<noteq> []"
    by (simp_all add: sample_guac_ctx_def)
  show ?thesis
    using idle_sweep_exact [OF sample_guac_run, of "sample_guac_ctx ''T2'' 900000000" "''T1''"]
    by (simp add: Let_def e s x)
qed

text \<open>
  A close that is asked for again loses its entry to the cancelled task before it: it is not pending any
  more, cannot be cancelled, and still runs.
\<close>

lemma close_asked_twice:
  "let cx = sample_guac_ctx ''T2'' 10;
       g = fst (schedule_session_close cx ''T1'' 0 ''again'' sample_closing); g' = run_close_task cx 0 g in
   map_of (gu_pending g) ''T1'' = Some 1 \<and> gu_pending g' = [] \<and>
   ct_phase (gu_tasks g' ! 1) = Created \<and> snd (cancel_scheduled_session_close ''T1'' g') = False"
  by code_simp

end
