(* ===== verification/Guacamole_Api.thy ===== *)
theory Guacamole_Api
  imports Guacamole_Sessions Task_Api
begin

text \<open>
  The remote desktop routes (\<open>api/routers/guacamole_router.py\<close>) over the remote desktop service and the user
  service. The functions given to \<open>build_guacamole_router\<close> and the recordings and user sessions of the bridge
  are parameters; the public address of the server is an argument of a route. A recording is answered as a whole.
\<close>

section \<open>Parameters and state\<close>

record recording_file =
  rf_content :: string
  rf_type :: string

record guac_routes =
  gr_agent_state :: "string \<Rightarrow> pydict option"
  gr_agent_record :: "string \<Rightarrow> pydict option"
  gr_list_connections :: "pyval result"
  gr_inspect :: "string \<Rightarrow> pydict \<Rightarrow> pydict result"
  gr_list_recordings :: "string \<Rightarrow> string \<Rightarrow> string \<Rightarrow> pydict result"
  gr_open_recording :: "string \<Rightarrow> bridge_error + recording_file"
  gr_user_sessions :: "string \<Rightarrow> pydict \<Rightarrow> user_identity list \<Rightarrow> (string \<times> string \<times> (string \<times> string) list option) list \<Rightarrow> pyval result"

record guac_api =
  ga_guac :: guac
  ga_users :: user_service

definition on_guac :: "(guac \<Rightarrow> guac \<times> 'a) \<Rightarrow> (guac_api, 'a) prog" where
  "on_guac f w = (let (g, x) = f (ga_guac w) in (w\<lparr>ga_guac := g\<rparr>, Inr x))"

definition on_guac_prog :: "(guac, 'a) prog \<Rightarrow> (guac_api, 'a) prog" where
  "on_guac_prog p w = (let (g, r) = p (ga_guac w) in (w\<lparr>ga_guac := g\<rparr>, r))"

definition of_bridge :: "'a result \<Rightarrow> (guac_api, 'a) prog" where
  "of_bridge r w = (w, r)"

section \<open>The request\<close>

definition request_user :: "user_session option \<Rightarrow> user_identity option" where
  "request_user session = map_option us_user session"

definition request_subject :: "user_session option \<Rightarrow> string" where
  "request_subject session = (case session of None \<Rightarrow> [] | Some s \<Rightarrow> strip (u_subject (us_user s)))"

definition get_actor_label :: "user_session option \<Rightarrow> string" where
  "get_actor_label session =
     (case session of
        None \<Rightarrow> ''an administrator''
      | Some s \<Rightarrow>
          (let u = us_user s in
           case filter (\<lambda>v. v \<noteq> []) (map strip [u_display_name u, u_username u, u_email u, u_subject u]) of
             [] \<Rightarrow> ''an administrator''
           | v # _ \<Rightarrow> v))"

definition build_recording_filename :: "string \<Rightarrow> string" where
  "build_recording_filename path =
     (let parts = split_on (CHR ''/'') (replace_chars {CHR 0x5C} (CHR ''/'') path);
          filename = str_or (strip (last parts)) ''recording''
      in if ends_with ''.guac'' (lower filename) then filename else filename @ ''.guac'')"

definition build_agent_context :: "guac_routes \<Rightarrow> string \<Rightarrow> pydict option" where
  "build_agent_context r agent_id =
     (let state = the_or (gr_agent_state r agent_id) []; rec = the_or (gr_agent_record r agent_id) [] in
      if state = [] \<and> rec = [] then None
      else Some (if rec \<noteq> [] then AList.update ''__agent_record'' (PDict rec) state else state))"

text \<open>Visibility first, then the agent, as most routes of an agent do.\<close>

definition with_agent ::
    "guac_routes \<Rightarrow> user_session option \<Rightarrow> string \<Rightarrow> (pydict \<Rightarrow> (guac_api, 'a answer) prog) \<Rightarrow> (guac_api, 'a answer) prog" where
  "with_agent r session agent_id m =
     with_visibility session not_found (found (build_agent_context r agent_id) not_found m)"

section \<open>Reading\<close>

definition api_guacamole_config :: "guac_ctx \<Rightarrow> string \<Rightarrow> (guac_api, pydict answer) prog" where
  "api_guacamole_config cx public_base_url = retP (Done (guac_get_config cx (Some public_base_url)))"

definition api_guacamole_connections :: "guac_routes \<Rightarrow> (guac_api, pyval answer) prog" where
  "api_guacamole_connections r = bindP (of_bridge (gr_list_connections r)) (\<lambda>v. retP (Done v))"

record tracked_listing =
  tl_count :: nat
  tl_idle_timeout :: int
  tl_sessions :: "rdp_snapshot_entry list"

definition api_guacamole_tracked_sessions ::
    "int \<Rightarrow> user_session option \<Rightarrow> (guac_api, tracked_listing answer) prog" where
  "api_guacamole_tracked_sessions now session =
     with_role session ''admin'' (\<lambda>w.
       (let entries = list_tracked_sessions now (ga_guac w) in
        (w, Inr (Done \<lparr>tl_count = length entries, tl_idle_timeout = rm_idle_timeout (gu_rdp (ga_guac w)),
                       tl_sessions = entries\<rparr>))))"

definition api_guacamole_recordings ::
    "guac_routes \<Rightarrow> int \<Rightarrow> string \<Rightarrow> string \<Rightarrow> string \<Rightarrow> user_session option \<Rightarrow> (guac_api, pydict answer) prog" where
  "api_guacamole_recordings r now public_base_url agent_id username session =
     with_role session ''viewer''
       (with_visibility session (Done [(''entries'', PList []), (''browse_url'', PStr []), (''configured'', PBool False)])
         (bindP (of_bridge (gr_list_recordings r public_base_url agent_id username)) (\<lambda>payload.
          bindP (on_guac (annotate_recording_inventory now payload)) (\<lambda>p. retP (Done p)))))"

record recording_download =
  dl_filename :: string
  dl_type :: string
  dl_content :: string

definition api_guacamole_recording_download ::
    "guac_routes \<Rightarrow> string \<Rightarrow> user_session option \<Rightarrow> (guac_api, recording_download answer) prog" where
  "api_guacamole_recording_download r path session =
     with_role session ''viewer''
       (with_visibility session not_found
         (case gr_open_recording r path of
            Inr f \<Rightarrow> retP (Done \<lparr>dl_filename = build_recording_filename path,
                                dl_type = str_or (rf_type f) ''application/octet-stream'', dl_content = rf_content f\<rparr>)
          | Inl (Br_Http code) \<Rightarrow>
              retP (if code = 404 then Problem 404 ''Recording not found''
                    else Problem 502 (''Recording download failed with HTTP '' @ str_int code))
          | Inl (Br_Url reason) \<Rightarrow> retP (Problem 502 (''Could not reach recording host: '' @ reason))
          | Inl (Br_Runtime message) \<Rightarrow> retP (Problem 503 message)
          | Inl (Br_Os message) \<Rightarrow> retP (Problem 502 (''Recording download failed: '' @ message))
          | Inl (Br_Other e) \<Rightarrow> raiseP e))"

definition api_agent_guacamole ::
    "guac_ctx \<Rightarrow> guac_routes \<Rightarrow> string \<Rightarrow> user_session option \<Rightarrow> (guac_api, pydict answer) prog" where
  "api_agent_guacamole cx r agent_id session =
     with_agent r session agent_id (\<lambda>state.
       bindP (of_bridge (gc_build_session cx agent_id (Some state))) (\<lambda>payload.
         retP (Done (AList.update ''access''
           (PDict (attach_effective_permissions (PDict (extract_guacamole_access_policy (PDict state))) (request_user session)))
           payload))))"

definition api_agent_guacamole_user_sessions ::
    "guac_routes \<Rightarrow> int \<Rightarrow> string \<Rightarrow> user_session option \<Rightarrow> (guac_api, pydict answer) prog" where
  "api_agent_guacamole_user_sessions r now agent_id session =
     with_role session ''viewer''
       (with_agent r session agent_id (\<lambda>state w.
         (let tracked = map (\<lambda>s. (rs_connection_id s, rs_username s, rs_owner s))
                          (get_sessions_for_agent agent_id (gu_rdp (ga_guac w)));
              (us, active) = list_active_identities now (ga_users w)
          in (w\<lparr>ga_users := us\<rparr>,
              bindE (gr_user_sessions r agent_id state active tracked)
                (\<lambda>v. Inr (Done [(''agent_id'', PStr agent_id), (''sessions'', v)]))))))"

definition api_agent_guacamole_diagnostics :: "guac_routes \<Rightarrow> string \<Rightarrow> (guac_api, pydict answer) prog" where
  "api_agent_guacamole_diagnostics r agent_id =
     found (build_agent_context r agent_id) not_found (\<lambda>state.
       bindP (of_bridge (gr_inspect r agent_id state)) (\<lambda>p. retP (Done p)))"

definition api_guacamole_session_status ::
    "int \<Rightarrow> string \<Rightarrow> user_session option \<Rightarrow> (guac_api, (bool \<times> string) answer) prog" where
  "api_guacamole_session_status lt auth_token session =
     with_role session ''viewer'' (\<lambda>w.
       if get_rdp_session auth_token (gu_rdp (ga_guac w)) \<noteq> None then (w, Inr (Done (True, [])))
       else bindP (on_guac (get_recent_close_reason lt auth_token)) (\<lambda>reason. retP (Done (False, reason))) w)"

section \<open>Opening a session\<close>

record open_query =
  oq_force_fresh :: bool
  oq_refresh_tunnel :: bool
  oq_resume_auth_token :: string
  oq_connection_id :: string
  oq_vm_username :: string
  oq_read_only :: bool
  oq_recorded :: bool

definition session_request_of ::
    "string \<Rightarrow> pydict \<Rightarrow> string \<Rightarrow> user_session option \<Rightarrow> bool \<Rightarrow> open_query \<Rightarrow> session_request" where
  "session_request_of agent_id state public_base_url session read_only oq =
     \<lparr>sq_agent_id = agent_id, sq_state = Some state, sq_public_base_url = public_base_url, sq_user_session = session,
      sq_force_fresh = oq_force_fresh oq, sq_refresh_tunnel = oq_refresh_tunnel oq,
      sq_resume_auth_token = oq_resume_auth_token oq, sq_connection_id = oq_connection_id oq,
      sq_vm_username = oq_vm_username oq, sq_read_only = read_only, sq_recorded = oq_recorded oq\<rparr>"

text \<open>The state holds the record, so the policy is the one of the record.\<close>

definition agent_policy :: "pydict \<Rightarrow> pyval" where
  "agent_policy state = PDict (extract_guacamole_access_policy (PDict state))"

definition api_agent_guacamole_session ::
    "guac_ctx \<Rightarrow> guac_routes \<Rightarrow> string \<Rightarrow> string \<Rightarrow> open_query \<Rightarrow> user_session option \<Rightarrow> (guac_api, pydict answer) prog" where
  "api_agent_guacamole_session cx r public_base_url agent_id oq session =
     with_agent r session agent_id (\<lambda>state.
       (let user = request_user session; policy = agent_policy state in
        if \<not> has_guacamole_permission policy user ''view''
        then retP (Problem 403 ''Access policy denies remote view for this agent'')
        else if oq_recorded oq \<and> \<not> has_guacamole_permission policy user ''recording''
        then retP (Problem 403 ''Access policy denies recording for this agent'')
        else
          (let read_only = oq_read_only oq \<or> \<not> has_guacamole_permission policy user ''interact'' \<or> oq_recorded oq in
           bindP (on_guac_prog (create_client_session cx
                    (session_request_of agent_id state public_base_url session read_only oq))) (\<lambda>payload.
             retP (Done (AList.update ''access'' (PDict (attach_effective_permissions policy user)) payload))))))"

section \<open>Closing sessions\<close>

record status_answer =
  sa_ok :: bool
  sa_revoked :: bool
  sa_detail :: string

definition api_guacamole_kill_all ::
    "guac_ctx \<Rightarrow> user_session option \<Rightarrow> (guac_api, nat answer) prog" where
  "api_guacamole_kill_all cx session =
     with_role session ''admin''
       (bindP (on_guac (close_tracked_sessions cx None (''Session closed by '' @ get_actor_label session)))
         (\<lambda>closed. retP (Done closed)))"

definition api_agent_guacamole_kick ::
    "guac_ctx \<Rightarrow> guac_routes \<Rightarrow> string \<Rightarrow> string \<Rightarrow> user_session option \<Rightarrow> (guac_api, status_answer answer) prog" where
  "api_agent_guacamole_kick cx r agent_id subject session =
     with_agent r session agent_id (\<lambda>state.
       if \<not> has_guacamole_permission (agent_policy state) (request_user session) ''session_kick''
       then retP (Problem 403 ''Access policy denies session kick for this agent'')
       else bindP (on_guac (close_agent_owner_session cx agent_id subject (''Session closed by '' @ get_actor_label session)))
              (\<lambda>closed. retP (Done \<lparr>sa_ok = closed, sa_revoked = False,
                 sa_detail = (if closed then ''Session closed'' else ''No tracked session matched that user on this agent'')\<rparr>)))"

text \<open>A tracked session of somebody else.\<close>

definition foreign_session :: "user_session option \<Rightarrow> rdp_session option \<Rightarrow> bool" where
  "foreign_session session tracked =
     (case tracked of
        None \<Rightarrow> False
      | Some s \<Rightarrow> owner_subject (rs_owner s) \<noteq> [] \<and> owner_subject (rs_owner s) \<noteq> request_subject session)"

definition with_own_session ::
    "user_session option \<Rightarrow> string \<Rightarrow> (guac_api, 'a answer) prog \<Rightarrow> (guac_api, 'a answer) prog" where
  "with_own_session session auth_token m w =
     (if foreign_session session (get_rdp_session auth_token (gu_rdp (ga_guac w))) \<and>
         \<not> request_has_minimum_role session ''admin''
      then retP (role_required_response ''admin'') w else m w)"

definition api_guacamole_revoke_session ::
    "guac_ctx \<Rightarrow> string \<Rightarrow> user_session option \<Rightarrow> (guac_api, status_answer answer) prog" where
  "api_guacamole_revoke_session cx auth_token session =
     with_role session ''operator''
       (if \<not> truthy (dget (guac_get_config cx None) ''request_base_url'')
        then retP (Problem 503 ''Guacamole bridge is not configured'')
        else with_own_session session auth_token
          (bindP (on_guac (revoke_client_session cx auth_token)) (\<lambda>r.
            case r of
              Inr revoked \<Rightarrow> retP (Done \<lparr>sa_ok = True, sa_revoked = revoked, sa_detail = []\<rparr>)
            | Inl (Br_Http code) \<Rightarrow>
                retP (if code = 404 then Done \<lparr>sa_ok = True, sa_revoked = False, sa_detail = ''Token already invalidated''\<rparr>
                      else Problem 502 (''Guacamole token revoke failed with HTTP '' @ str_int code))
            | Inl (Br_Url reason) \<Rightarrow> retP (Problem 502 (''Could not reach Guacamole: '' @ reason))
            | Inl (Br_Runtime message) \<Rightarrow> retP (Problem 503 message)
            | Inl (Br_Os message) \<Rightarrow> retP (Problem 502 (''Guacamole token revoke failed: '' @ message))
            | Inl (Br_Other e) \<Rightarrow> raiseP e)))"

definition api_guacamole_close_session ::
    "guac_ctx \<Rightarrow> string \<Rightarrow> int \<Rightarrow> user_session option \<Rightarrow> (guac_api, status_answer answer) prog" where
  "api_guacamole_close_session cx auth_token delay session =
     with_role session ''operator''
       (with_own_session session auth_token
         (bindP (on_guac (schedule_session_close cx auth_token delay ''Browser tab closed'')) (\<lambda>scheduled.
           retP (Done \<lparr>sa_ok = scheduled, sa_revoked = False,
             sa_detail = (if scheduled then ''Scheduled session close'' else ''Invalid auth token'')\<rparr>))))"

text \<open>The tunnel: a public path; the headers that are passed on have defaults.\<close>

definition proxy_headers :: "(string \<times> string) list \<Rightarrow> (string \<times> string) list" where
  "proxy_headers headers =
     [(''accept'', the_or (header_get headers ''accept'') ''*/*''),
      (''content-type'', the_or (header_get headers ''content-type'') []),
      (''guacamole-tunnel-token'', the_or (header_get headers ''guacamole-tunnel-token'') []),
      (''cookie'', the_or (header_get headers ''cookie'') [])]"

definition api_guacamole_tunnel ::
    "guac_ctx \<Rightarrow> string \<Rightarrow> string \<Rightarrow> string \<Rightarrow> (string \<times> string) list \<Rightarrow> (guac_api, proxy_answer answer) prog" where
  "api_guacamole_tunnel cx meth raw_query body headers =
     bindP (on_guac_prog (proxy_tunnel_request cx meth raw_query (if meth \<noteq> ''GET'' then body else [])
              (proxy_headers headers))) (\<lambda>a. retP (Done a))"

section \<open>Properties\<close>

lemma with_role_cases:
  assumes "with_role session role m w = (w', res)"
  obtains "w' = w" "res = Inr (role_required_response role)" "\<not> request_has_minimum_role session role"
  | "request_has_minimum_role session role" "m w = (w', res)"
  using assms by (auto simp: with_role_def retP_def split: if_splits)

lemma with_agent_cases:
  assumes "with_agent r session a m w = (w', res)"
  obtains "w' = w" "res = Inr not_found"
  | state where "request_has_agent_visibility session" "build_agent_context r a = Some state" "m state w = (w', res)"
  using assms by (auto simp: with_agent_def with_visibility_def found_def retP_def split: if_splits option.splits)

text \<open>Property C39. The route that opens a remote desktop session reaches the service only for a user who may see agents, for an
  agent the server knows, and whose access policy allows this user to view it, and to record it when a
  recording is asked for; every other request leaves the server as it is and is answered 403 or
  404.\<close>

theorem session_route_guarded:
  assumes "api_agent_guacamole_session cx r url a oq session w = (w', res)"
    "w' \<noteq> w \<or> (\<forall>code message. code \<in> {403, 404} \<longrightarrow> res \<noteq> Inr (Problem code message))"
  shows "request_has_agent_visibility session \<and>
    (\<exists>state. build_agent_context r a = Some state \<and>
       has_guacamole_permission (agent_policy state) (request_user session) ''view'' \<and>
       (oq_recorded oq \<longrightarrow> has_guacamole_permission (agent_policy state) (request_user session) ''recording''))"
  using assms(1) unfolding api_agent_guacamole_session_def
proof (cases rule: with_agent_cases)
  case 1
  then show ?thesis using assms(2) by (auto simp: not_found_def)
next
  case (2 state)
  then show ?thesis using assms(2) by (auto simp: Let_def retP_def split: if_splits)
qed

lemma with_own_session_cases:
  assumes "with_own_session session tok m w = (w', res)"
  obtains (kept) "w' = w" | (allowed) "m w = (w', res)"
    "\<And>s. get_rdp_session tok (gu_rdp (ga_guac w)) = Some s \<Longrightarrow>
       owner_subject (rs_owner s) \<in> {[], request_subject session} \<or> request_has_minimum_role session ''admin''"
proof (cases "foreign_session session (get_rdp_session tok (gu_rdp (ga_guac w))) \<and> \<not> request_has_minimum_role session ''admin''")
  case True
  then show ?thesis using assms by (intro kept) (simp add: with_own_session_def retP_def)
next
  case False
  then show ?thesis using assms by (intro allowed) (auto simp: with_own_session_def foreign_session_def)
qed

text \<open>Property C38. Revoking a session and asking for its delayed close change the server only for an operator, and only
  when the session is not tracked, has no owner, belongs to the user of the request, or this user is
  an administrator.\<close>

theorem only_owner_or_admin_ends:
  assumes "route \<in> {\<lambda>w. fst (api_guacamole_revoke_session cx tok session w),
                     \<lambda>w. fst (api_guacamole_close_session cx tok delay session w)}" "route w \<noteq> w"
  shows "request_has_minimum_role session ''operator'' \<and>
    (case get_rdp_session tok (gu_rdp (ga_guac w)) of
       None \<Rightarrow> True
     | Some s \<Rightarrow> owner_subject (rs_owner s) \<in> {[], request_subject session} \<or> request_has_minimum_role session ''admin'')"
proof -
  have own: "request_has_minimum_role session ''operator'' \<and> (case get_rdp_session tok (gu_rdp (ga_guac w)) of
       None \<Rightarrow> True
     | Some s \<Rightarrow> owner_subject (rs_owner s) \<in> {[], request_subject session} \<or> request_has_minimum_role session ''admin'')"
    if role: "with_role session ''operator'' p w = (w', res)" and change: "w' \<noteq> w"
      and body: "p w = (w', res) \<Longrightarrow> w' = w \<or> (\<exists>m. with_own_session session tok m w = (w', res))"
    for p :: "(guac_api, status_answer answer) prog" and w' res
    using role
  proof (cases rule: with_role_cases)
    case 1
    then show ?thesis using change by simp
  next
    case 2
    then obtain m where "with_own_session session tok m w = (w', res)" using change body by blast
    then show ?thesis
      by (cases rule: with_own_session_cases) (use 2 change in \<open>auto split: option.splits\<close>)
  qed
  obtain w1 r1 where r: "api_guacamole_revoke_session cx tok session w = (w1, r1)"
    by (cases "api_guacamole_revoke_session cx tok session w")
  obtain w2 r2 where c: "api_guacamole_close_session cx tok delay session w = (w2, r2)"
    by (cases "api_guacamole_close_session cx tok delay session w")
  consider "w1 \<noteq> w" | "w2 \<noteq> w" using assms r c by auto
  then show ?thesis
  proof cases
    case 1
    show ?thesis
      by (rule own [OF r [unfolded api_guacamole_revoke_session_def] 1]) (auto simp: retP_def split: if_splits)
  next
    case 2
    show ?thesis by (rule own [OF c [unfolded api_guacamole_close_session_def] 2]) blast
  qed
qed

section \<open>Sample requests\<close>

definition sample_routes :: guac_routes where
  "sample_routes =
     \<lparr>gr_agent_state = (\<lambda>_. Some [(''status'', PStr ''online'')]), gr_agent_record = (\<lambda>_. None),
      gr_list_connections = Inr (PList []), gr_inspect = (\<lambda>_ _. Inr []), gr_list_recordings = (\<lambda>_ _ _. Inr []),
      gr_open_recording = (\<lambda>_. Inl (Br_Http 404)), gr_user_sessions = (\<lambda>_ _ _ _. Inr (PList []))\<rparr>"

definition sample_api :: guac_api where
  "sample_api = \<lparr>ga_guac = sample_guac, ga_users = new_user_service True\<rparr>"

definition sample_operator :: "user_session option" where
  "sample_operator = sq_user_session sample_session_request"

definition sample_open :: open_query where
  "sample_open = \<lparr>oq_force_fresh = False, oq_refresh_tunnel = False, oq_resume_auth_token = [], oq_connection_id = [],
     oq_vm_username = [], oq_read_only = False, oq_recorded = False\<rparr>"

lemma sample_reuse:
  "case create_client_session (sample_guac_ctx ''T2'' 5)
      (session_request_of ''vm1'' [(''status'', PStr ''online'')] [] sample_operator b sample_open) sample_guac of
     (g, Inr p) \<Rightarrow> (case sess (gu_rdp g) ''T1'' of Some s \<Rightarrow> rs_last_activity_at s = 5 | None \<Rightarrow> False) | _ \<Rightarrow> False"
  by (cases b; code_simp)

lemma session_route_guarded_witness:
  "request_has_agent_visibility sample_operator \<and>
   has_guacamole_permission (agent_policy [(''status'', PStr ''online'')]) (request_user sample_operator) ''view''"
proof -
  have h: "has_guacamole_permission (agent_policy [(''status'', PStr ''online'')]) (request_user sample_operator) ''view''" by code_simp
  have v: "request_has_agent_visibility sample_operator" by code_simp
  have c: "build_agent_context sample_routes ''vm1'' = Some [(''status'', PStr ''online'')]"
    by (simp add: build_agent_context_def sample_routes_def Let_def)
  have k: "oq_recorded sample_open = False" by (simp add: sample_open_def)
  obtain w' p where r: "api_agent_guacamole_session (sample_guac_ctx ''T2'' 5) sample_routes [] ''vm1'' sample_open sample_operator
      sample_api = (w', Inr (Done p))"
    using sample_reuse [of "oq_read_only sample_open \<or>
        \<not> has_guacamole_permission (agent_policy [(''status'', PStr ''online'')]) (request_user sample_operator) ''interact''"]
    by (auto simp: api_agent_guacamole_session_def with_agent_def with_visibility_def found_def v c h k Let_def bindP_def
        retP_def on_guac_prog_def sample_api_def split: prod.splits sum.splits)
  show ?thesis using session_route_guarded [OF r] c by simp
qed

lemma only_owner_or_admin_ends_witness:
  "ga_guac (fst (api_guacamole_close_session (sample_guac_ctx ''T2'' 5) ''T1'' 0 sample_operator sample_api)) \<noteq> sample_guac \<and>
   (case get_rdp_session ''T1'' (gu_rdp sample_guac) of None \<Rightarrow> False | Some s \<Rightarrow> owner_subject (rs_owner s) = ''s1'')"
proof -
  let ?route = "\<lambda>w. fst (api_guacamole_close_session (sample_guac_ctx ''T2'' 5) ''T1'' 0 sample_operator w)"
  have p: "gu_pending (ga_guac (?route sample_api)) \<noteq> [] \<and> gu_pending sample_guac = []" by code_simp
  then have c: "ga_guac (?route sample_api) \<noteq> sample_guac" by auto
  then have n: "?route sample_api \<noteq> sample_api" by (auto simp: sample_api_def)
  have o: "request_subject sample_operator = ''s1''" "\<not> request_has_minimum_role sample_operator ''admin''"
    "(case get_rdp_session ''T1'' (gu_rdp sample_guac) of None \<Rightarrow> False | Some s \<Rightarrow> owner_subject (rs_owner s) \<noteq> [])"
    by code_simp+
  have g: "ga_guac sample_api = sample_guac" by (simp add: sample_api_def)
  from only_owner_or_admin_ends [of ?route "sample_guac_ctx ''T2'' 5" "''T1''" sample_operator 0 sample_api] n o c g
  show ?thesis by (auto split: option.splits)
qed

end
