(* ===== verification/Agent_Tasks.thy ===== *)
theory Agent_Tasks
  imports Net_Events
begin

text \<open>
  The task executor of the agent (\<open>process/task_executor.py\<close>, \<open>process/managed_task.py\<close>): it starts a script in a
  session, reports its status, follows the two files the output goes to and sends what they grow by in batches.
  Windows is a parameter: whether the process could be started, when it ends and with which exit code. A file is
  the list of its bytes; \<open>decode(errors="replace")\<close> is a parameter. The output files belong to an execution, as
  the names contain the task. Log lines and the handles are left out.
\<close>

section \<open>State\<close>

datatype output_stream = Stdout | Stderr

definition stream_name :: "output_stream \<Rightarrow> string" where
  "stream_name s = (case s of Stdout \<Rightarrow> ''stdout'' | Stderr \<Rightarrow> ''stderr'')"

record stream_position =
  sp_offset :: nat
  sp_tail_reads :: nat
  sp_batches_sent :: nat
  sp_bytes_read :: nat
  sp_bytes_sent :: nat

definition stream_start :: stream_position where
  "stream_start = \<lparr>sp_offset = 0, sp_tail_reads = 0, sp_batches_sent = 0, sp_bytes_read = 0, sp_bytes_sent = 0\<rparr>"

record running_task =
  ex_task_id :: string
  ex_pid :: int
  ex_seq :: nat
  ex_cancelled :: bool
  ex_out :: stream_position
  ex_err :: stream_position
  ex_out_file :: "string option"
  ex_err_file :: "string option"

definition task_execution :: "string \<Rightarrow> int \<Rightarrow> running_task" where
  "task_execution task_id pid =
     \<lparr>ex_task_id = task_id, ex_pid = pid, ex_seq = 0, ex_cancelled = False, ex_out = stream_start, ex_err = stream_start,
      ex_out_file = Some [], ex_err_file = Some []\<rparr>"

text \<open>\<open>te_scripts\<close>: the script files. \<open>te_sent\<close>: the events handed to the client, in order.\<close>

record task_executor =
  te_running :: "(string \<times> running_task) list"
  te_scripts :: "(string \<times> string) list"
  te_sent :: "net_event list"

definition task_executor_init :: task_executor where
  "task_executor_init = \<lparr>te_running = [], te_scripts = [], te_sent = []\<rparr>"

definition send_from_task :: "net_event \<Rightarrow> task_executor \<Rightarrow> task_executor" where
  "send_from_task ev w = w\<lparr>te_sent := te_sent w @ [ev]\<rparr>"

definition status_event :: "string \<Rightarrow> string \<Rightarrow> int option \<Rightarrow> int option \<Rightarrow> string option \<Rightarrow> net_event" where
  "status_event task_id status pid exit_code error =
     TaskStatusEv (default_task_status\<lparr>tt_task_id := task_id, tt_status := status, tt_pid := pid,
       tt_exit_code := exit_code, tt_error := error\<rparr>)"

definition output_event :: "string \<Rightarrow> output_stream \<Rightarrow> string \<Rightarrow> nat \<Rightarrow> net_event" where
  "output_event task_id s data seq =
     TaskOutputEv (default_task_output\<lparr>to_task_id := task_id, to_stream := stream_name s, to_data := data,
       to_seq := int seq\<rparr>)"

section \<open>Following the output\<close>

definition OUTPUT_MAX_BATCH_BYTES :: nat where "OUTPUT_MAX_BATCH_BYTES = 32 * 1024"

definition position_of :: "output_stream \<Rightarrow> running_task \<Rightarrow> stream_position" where
  "position_of s ex = (case s of Stdout \<Rightarrow> ex_out ex | Stderr \<Rightarrow> ex_err ex)"

definition file_of :: "output_stream \<Rightarrow> running_task \<Rightarrow> string option" where
  "file_of s ex = (case s of Stdout \<Rightarrow> ex_out_file ex | Stderr \<Rightarrow> ex_err_file ex)"

definition set_position :: "output_stream \<Rightarrow> stream_position \<Rightarrow> running_task \<Rightarrow> running_task" where
  "set_position s p ex = (case s of Stdout \<Rightarrow> ex\<lparr>ex_out := p\<rparr> | Stderr \<Rightarrow> ex\<lparr>ex_err := p\<rparr>)"

definition advance_position :: "nat \<Rightarrow> stream_position \<Rightarrow> stream_position" where
  "advance_position n p =
     \<lparr>sp_offset = sp_offset p + n, sp_tail_reads = sp_tail_reads p + 1, sp_batches_sent = sp_batches_sent p + 1,
      sp_bytes_read = sp_bytes_read p + n, sp_bytes_sent = sp_bytes_sent p + n\<rparr>"

definition next_chunk :: "output_stream \<Rightarrow> running_task \<Rightarrow> string" where
  "next_chunk s ex =
     (case file_of s ex of
        None \<Rightarrow> []
      | Some bytes \<Rightarrow> take OUTPUT_MAX_BATCH_BYTES (drop (sp_offset (position_of s ex)) bytes))"

text \<open>The execution after a flush, and the event that was sent; none when there is nothing to read.\<close>

definition flush_output_stream ::
    "(string \<Rightarrow> string) \<Rightarrow> output_stream \<Rightarrow> running_task \<Rightarrow> (running_task \<times> net_event) option" where
  "flush_output_stream decode s ex =
     (let chunk = next_chunk s ex in
      if chunk = [] then None
      else (let ex1 = (set_position s (advance_position (length chunk) (position_of s ex)) ex)\<lparr>ex_seq := ex_seq ex + 1\<rparr>
            in Some (ex1, output_event (ex_task_id ex) s (decode chunk) (ex_seq ex1))))"

text \<open>\<open>while await self._flush_output_stream(...)\<close>: a loop, so that its end is something to prove.\<close>

partial_function (option) flush_rest ::
    "(string \<Rightarrow> string) \<Rightarrow> output_stream \<Rightarrow> running_task \<Rightarrow> net_event list \<Rightarrow> (running_task \<times> net_event list) option" where
  "flush_rest decode s ex sent =
     (case flush_output_stream decode s ex of
        None \<Rightarrow> Some (ex, sent)
      | Some (ex1, ev) \<Rightarrow> flush_rest decode s ex1 (sent @ [ev]))"

definition flush_all_outputs :: "(string \<Rightarrow> string) \<Rightarrow> running_task \<Rightarrow> (running_task \<times> net_event list) option" where
  "flush_all_outputs decode ex =
     Option.bind (flush_rest decode Stdout ex []) (\<lambda>(ex1, sent). flush_rest decode Stderr ex1 sent)"

section \<open>Running a task\<close>

text \<open>How the wait for the process ends: with its exit code, with the timeout, or with an exception.\<close>

datatype wait_result = Exited int | Timed_Out | Wait_Failed string

definition put_execution :: "running_task \<Rightarrow> task_executor \<Rightarrow> task_executor" where
  "put_execution ex w = w\<lparr>te_running := AList.update (ex_task_id ex) ex (te_running w)\<rparr>"

definition script_file :: "string \<Rightarrow> string" where
  "script_file task_id = task_id @ ''.ps1''"

definition remove_script :: "string \<Rightarrow> task_executor \<Rightarrow> task_executor" where
  "remove_script task_id w = w\<lparr>te_scripts := AList.delete (script_file task_id) (te_scripts w)\<rparr>"

text \<open>
  \<open>execute\<close> up to its first wait. The process is started by the session: an error of Windows is \<open>Inl\<close>.
\<close>

definition execute_task ::
    "execute_task_data \<Rightarrow> bool \<Rightarrow> string + int \<Rightarrow> task_executor \<Rightarrow> task_executor \<times> unit result" where
  "execute_task d has_session started w =
     (let task_id = et_task_id d in
      if map_of (te_running w) task_id \<noteq> None then (w, Inr ())
      else if \<not> has_session then (w, Inl (RuntimeError ''TaskExecutor.execute requires a resolved session''))
      else
        (let w1 = w\<lparr>te_scripts := AList.update (script_file task_id) (et_script d) (te_scripts w)\<rparr> in
         case started of
           Inl e \<Rightarrow> (remove_script task_id (send_from_task (status_event task_id ''failed'' None None (Some e)) w1), Inr ())
         | Inr pid \<Rightarrow>
             (send_from_task (status_event task_id ''running'' (Some pid) None None)
                (put_execution (task_execution task_id pid) w1), Inr ())))"

text \<open>One turn of \<open>_tail_output_file\<close>; the tail ends when the process has and nothing was read.\<close>

definition tail_round ::
    "(string \<Rightarrow> string) \<Rightarrow> output_stream \<Rightarrow> bool \<Rightarrow> running_task \<Rightarrow> task_executor \<Rightarrow> task_executor \<times> bool" where
  "tail_round decode s exited ex w =
     (case flush_output_stream decode s ex of
        None \<Rightarrow> (w, exited)
      | Some (ex1, ev) \<Rightarrow> (send_from_task ev (put_execution ex1 w), False))"

text \<open>The status that the end of the wait is reported with; a cancelled task that exits has been reported.\<close>

definition final_status :: "wait_result \<Rightarrow> running_task \<Rightarrow> net_event option" where
  "final_status r ex =
     (case r of
        Exited code \<Rightarrow>
          if ex_cancelled ex then None
          else Some (status_event (ex_task_id ex) (if code = 0 then ''completed'' else ''failed'') (Some (ex_pid ex))
                       (Some code) None)
      | Timed_Out \<Rightarrow> Some (status_event (ex_task_id ex) ''timeout'' (Some (ex_pid ex)) None None)
      | Wait_Failed e \<Rightarrow> Some (status_event (ex_task_id ex) ''failed'' None None (Some e)))"

text \<open>The rest of \<open>execute\<close>: flush, report, and the \<open>finally\<close>. An exception of the wait skips the flush.\<close>

definition end_execution ::
    "(string \<Rightarrow> string) \<Rightarrow> wait_result \<Rightarrow> running_task \<Rightarrow> task_executor \<Rightarrow> task_executor option" where
  "end_execution decode r ex w =
     map_option (\<lambda>(ex1, evs).
       remove_script (ex_task_id ex)
         (w\<lparr>te_running := AList.delete (ex_task_id ex) (te_running w),
            te_sent := te_sent w @ evs @ (case final_status r ex1 of None \<Rightarrow> [] | Some ev \<Rightarrow> [ev])\<rparr>))
       (case r of Wait_Failed _ \<Rightarrow> Some (ex, []) | _ \<Rightarrow> flush_all_outputs decode ex)"

definition cancel_running_task :: "string \<Rightarrow> task_executor \<Rightarrow> task_executor" where
  "cancel_running_task task_id w =
     (case map_of (te_running w) task_id of
        None \<Rightarrow> w
      | Some ex \<Rightarrow>
          send_from_task (status_event task_id ''cancelled'' (Some (ex_pid ex)) None None)
            (put_execution (ex\<lparr>ex_cancelled := True\<rparr>) w))"

section \<open>Runs\<close>

text \<open>The process appends to one of its files.\<close>

definition write_output :: "output_stream \<Rightarrow> string \<Rightarrow> running_task \<Rightarrow> running_task" where
  "write_output s bytes ex =
     (case s of
        Stdout \<Rightarrow> ex\<lparr>ex_out_file := map_option (\<lambda>f. f @ bytes) (ex_out_file ex)\<rparr>
      | Stderr \<Rightarrow> ex\<lparr>ex_err_file := map_option (\<lambda>f. f @ bytes) (ex_err_file ex)\<rparr>)"

inductive executor_step :: "(string \<Rightarrow> string) \<Rightarrow> task_executor \<Rightarrow> task_executor \<Rightarrow> bool" for decode where
  es_execute: "executor_step decode w (fst (execute_task d has_session started w))"
| es_write: "map_of (te_running w) task_id = Some ex \<Longrightarrow>
    executor_step decode w (put_execution (write_output s bytes ex) w)"
| es_tail: "map_of (te_running w) task_id = Some ex \<Longrightarrow> executor_step decode w (fst (tail_round decode s exited ex w))"
| es_cancel: "executor_step decode w (cancel_running_task task_id w)"
| es_end: "map_of (te_running w) task_id = Some ex \<Longrightarrow> end_execution decode r ex w = Some w' \<Longrightarrow>
    executor_step decode w w'"

section \<open>The output, batch by batch\<close>

text \<open>What is left to read of a file, and its batches.\<close>

definition rest_of :: "output_stream \<Rightarrow> running_task \<Rightarrow> string" where
  "rest_of s ex = drop (sp_offset (position_of s ex)) (the_or (file_of s ex) [])"

function batches :: "string \<Rightarrow> string list" where
  "batches bytes = (if bytes = [] then []
     else take OUTPUT_MAX_BATCH_BYTES bytes # batches (drop OUTPUT_MAX_BATCH_BYTES bytes))"
  by pat_completeness auto
termination by (relation "measure length") (auto simp: OUTPUT_MAX_BATCH_BYTES_def)

declare batches.simps [simp del]

fun output_events :: "(string \<Rightarrow> string) \<Rightarrow> string \<Rightarrow> output_stream \<Rightarrow> nat \<Rightarrow> string list \<Rightarrow> net_event list" where
  "output_events decode task_id s n [] = []"
| "output_events decode task_id s n (c # cs) =
     output_event task_id s (decode c) (n + 1) # output_events decode task_id s (n + 1) cs"

lemma next_chunk_rest: "next_chunk s ex = take OUTPUT_MAX_BATCH_BYTES (rest_of s ex)"
  by (simp add: next_chunk_def rest_of_def split: option.splits)

lemma next_chunk_empty: "next_chunk s ex = [] \<longleftrightarrow> rest_of s ex = []"
  by (auto simp: next_chunk_rest OUTPUT_MAX_BATCH_BYTES_def)

lemma set_position_simps [simp]:
  "position_of s (set_position s p ex) = p" "file_of s' (set_position s p ex) = file_of s' ex"
  "ex_task_id (set_position s p ex) = ex_task_id ex" "ex_pid (set_position s p ex) = ex_pid ex"
  "ex_cancelled (set_position s p ex) = ex_cancelled ex" "ex_seq (set_position s p ex) = ex_seq ex"
  "s' \<noteq> s \<Longrightarrow> position_of s' (set_position s p ex) = position_of s' ex"
  by (cases s; cases s'; simp add: position_of_def set_position_def file_of_def)+

lemma seq_update_simps [simp]:
  "position_of s (ex\<lparr>ex_seq := n\<rparr>) = position_of s ex" "file_of s (ex\<lparr>ex_seq := n\<rparr>) = file_of s ex"
  "rest_of s (ex\<lparr>ex_seq := n\<rparr>) = rest_of s ex"
  by (simp_all add: position_of_def file_of_def rest_of_def split: output_stream.splits)

definition read_batch :: "output_stream \<Rightarrow> running_task \<Rightarrow> running_task" where
  "read_batch s ex = (set_position s (advance_position (length (next_chunk s ex)) (position_of s ex)) ex)\<lparr>ex_seq := ex_seq ex + 1\<rparr>"

lemma flush_output_stream_eq:
  "flush_output_stream decode s ex =
     (if rest_of s ex = [] then None
      else Some (read_batch s ex, output_event (ex_task_id ex) s (decode (next_chunk s ex)) (ex_seq ex + 1)))"
  by (simp add: flush_output_stream_def read_batch_def next_chunk_empty Let_def)

lemma read_batch_simps [simp]:
  "ex_task_id (read_batch s ex) = ex_task_id ex" "ex_seq (read_batch s ex) = ex_seq ex + 1"
  "ex_pid (read_batch s ex) = ex_pid ex" "ex_cancelled (read_batch s ex) = ex_cancelled ex"
  "file_of s' (read_batch s ex) = file_of s' ex"
  "rest_of s (read_batch s ex) = drop OUTPUT_MAX_BATCH_BYTES (rest_of s ex)"
  "s' \<noteq> s \<Longrightarrow> rest_of s' (read_batch s ex) = rest_of s' ex"
  by (auto simp: read_batch_def rest_of_def advance_position_def next_chunk_rest min_def add.commute)

text \<open>The loop ends, and sends what was left in batches numbered on from the last.\<close>

lemma flush_rest_sends:
  "\<exists>ex'. flush_rest decode s ex sent =
     Some (ex', sent @ output_events decode (ex_task_id ex) s (ex_seq ex) (batches (rest_of s ex))) \<and>
   rest_of s ex' = [] \<and> (\<forall>s'. s' \<noteq> s \<longrightarrow> rest_of s' ex' = rest_of s' ex) \<and> ex_task_id ex' = ex_task_id ex \<and>
   ex_pid ex' = ex_pid ex \<and> ex_cancelled ex' = ex_cancelled ex \<and> ex_seq ex' = ex_seq ex + length (batches (rest_of s ex))"
proof (induction "length (rest_of s ex)" arbitrary: ex sent rule: less_induct)
  case less
  show ?case
  proof (cases "rest_of s ex = []")
    case True
    then show ?thesis
      by (subst flush_rest.simps) (auto simp: flush_output_stream_eq batches.simps [of "[]"] intro: exI [of _ ex])
  next
    case False
    then have "length (rest_of s (read_batch s ex)) < length (rest_of s ex)"
      by (auto simp: OUTPUT_MAX_BATCH_BYTES_def)
    moreover have b: "batches (rest_of s ex) =
        take OUTPUT_MAX_BATCH_BYTES (rest_of s ex) # batches (drop OUTPUT_MAX_BATCH_BYTES (rest_of s ex))"
      using False by (subst batches.simps) simp
    ultimately show ?thesis
      using less [of "read_batch s ex" "sent @ [output_event (ex_task_id ex) s (decode (next_chunk s ex)) (ex_seq ex + 1)]"] False
      by (subst flush_rest.simps) (auto simp: flush_output_stream_eq next_chunk_rest b)
  qed
qed

lemma flush_all_ends:
  "\<exists>ex' evs. flush_all_outputs decode ex = Some (ex', evs) \<and> rest_of Stdout ex' = [] \<and> rest_of Stderr ex' = [] \<and>
     length evs = length (batches (rest_of Stdout ex)) + length (batches (rest_of Stderr ex))"
proof -
  obtain ex1 where 1: "flush_rest decode Stdout ex [] =
      Some (ex1, [] @ output_events decode (ex_task_id ex) Stdout (ex_seq ex) (batches (rest_of Stdout ex)))"
    "rest_of Stdout ex1 = []" "rest_of Stderr ex1 = rest_of Stderr ex" "ex_task_id ex1 = ex_task_id ex"
    using flush_rest_sends [of decode Stdout ex "[]"] by auto
  obtain ex2 evs where 2: "flush_rest decode Stderr ex1 (output_events decode (ex_task_id ex) Stdout (ex_seq ex)
      (batches (rest_of Stdout ex))) = Some (ex2, evs)" "rest_of Stderr ex2 = []" "rest_of Stdout ex2 = []"
    "evs = output_events decode (ex_task_id ex) Stdout (ex_seq ex) (batches (rest_of Stdout ex)) @
       output_events decode (ex_task_id ex1) Stderr (ex_seq ex1) (batches (rest_of Stderr ex1))"
    using flush_rest_sends [of decode Stderr ex1] 1(2) by fastforce
  have l: "length (output_events decode t s n cs) = length cs" for t s n cs
    by (induction cs arbitrary: n) auto
  have f: "flush_all_outputs decode ex = Some (ex2, evs)" using 1 2 by (simp add: flush_all_outputs_def)
  show ?thesis using f 1 2 by (simp add: l)
qed

lemma execution_ends_at: "\<exists>w'. end_execution decode r ex w = Some w'"
  using flush_all_ends [of decode ex] by (cases r) (auto simp: end_execution_def)


section \<open>What a server has received of a task\<close>

text \<open>The output of the task since it was last reported as running.\<close>

definition take_output :: "string \<Rightarrow> net_event \<Rightarrow> task_output_data list \<Rightarrow> task_output_data list" where
  "take_output task_id ev outs =
     (case ev of
        TaskStatusEv d \<Rightarrow> if tt_task_id d = task_id \<and> tt_status d = ''running'' then [] else outs
      | TaskOutputEv d \<Rightarrow> if to_task_id d = task_id then outs @ [d] else outs
      | _ \<Rightarrow> outs)"

definition outputs_of :: "string \<Rightarrow> net_event list \<Rightarrow> task_output_data list" where
  "outputs_of task_id evs = fold (take_output task_id) evs []"

definition stream_outputs :: "output_stream \<Rightarrow> task_output_data list \<Rightarrow> string list" where
  "stream_outputs s outs = map to_data (filter (\<lambda>d. to_stream d = stream_name s) outs)"

text \<open>
  The outputs are numbered from one without a gap, and those of each stream are the decoded pieces of what
  was read of its file.
\<close>

definition in_batches :: "(string \<Rightarrow> string) \<Rightarrow> string list \<Rightarrow> string \<Rightarrow> bool" where
  "in_batches decode data bytes \<longleftrightarrow>
     (\<exists>chunks. data = map decode chunks \<and> concat chunks = bytes \<and>
        (\<forall>c\<in>set chunks. c \<noteq> [] \<and> length c \<le> OUTPUT_MAX_BATCH_BYTES))"

definition numbered :: "task_output_data list \<Rightarrow> nat \<Rightarrow> bool" where
  "numbered outs n \<longleftrightarrow> map to_seq outs = map int [1..<n + 1]"

definition follows :: "(string \<Rightarrow> string) \<Rightarrow> task_output_data list \<Rightarrow> running_task \<Rightarrow> bool" where
  "follows decode outs ex \<longleftrightarrow>
     numbered outs (ex_seq ex) \<and>
     (\<forall>s. \<exists>got. file_of s ex = Some (got @ rest_of s ex) \<and> length got = sp_offset (position_of s ex) \<and>
          in_batches decode (stream_outputs s outs) got)"

lemma stream_name_inj [simp]: "stream_name s = stream_name s' \<longleftrightarrow> s = s'"
  by (cases s; cases s'; simp add: stream_name_def)

lemma output_event_simps:
  "\<exists>d. output_event t s data n = TaskOutputEv d \<and> to_task_id d = t \<and> to_stream d = stream_name s \<and> to_data d = data \<and>
     to_seq d = int n"
  by (simp add: output_event_def)

lemma in_batches_snoc:
  assumes "in_batches decode data bytes" "c \<noteq> []" "length c \<le> OUTPUT_MAX_BATCH_BYTES"
  shows "in_batches decode (data @ [decode c]) (bytes @ c)"
proof -
  obtain chunks where "data = map decode chunks" "concat chunks = bytes"
    "\<forall>x\<in>set chunks. x \<noteq> [] \<and> length x \<le> OUTPUT_MAX_BATCH_BYTES"
    using assms(1) by (auto simp: in_batches_def)
  then show ?thesis using assms(2,3) unfolding in_batches_def by (intro exI [of _ "chunks @ [c]"]) auto
qed

lemma read_batch_follows:
  assumes "follows decode outs ex" "rest_of s ex \<noteq> []"
    "to_stream d = stream_name s" "to_data d = decode (next_chunk s ex)" "to_seq d = int (ex_seq ex + 1)"
  shows "follows decode (outs @ [d]) (read_batch s ex)"
proof -
  have n: "numbered (outs @ [d]) (ex_seq ex + 1)" using assms by (simp add: follows_def numbered_def)
  have "\<exists>got. file_of s' (read_batch s ex) = Some (got @ rest_of s' (read_batch s ex)) \<and>
      length got = sp_offset (position_of s' (read_batch s ex)) \<and>
      in_batches decode (stream_outputs s' (outs @ [d])) got" for s'
  proof -
    obtain got where f: "file_of s' ex = Some (got @ rest_of s' ex)" "length got = sp_offset (position_of s' ex)"
      "in_batches decode (stream_outputs s' outs) got" using assms(1) by (auto simp: follows_def)
    show ?thesis
    proof (cases "s' = s")
      case True
      have c: "next_chunk s ex \<noteq> []" "length (next_chunk s ex) \<le> OUTPUT_MAX_BATCH_BYTES"
        using assms(2) by (simp_all add: next_chunk_empty) (simp add: next_chunk_rest)
      have "rest_of s ex = next_chunk s ex @ rest_of s (read_batch s ex)" by (simp add: next_chunk_rest)
      then show ?thesis
        using f True assms(3,4) in_batches_snoc [OF f(3) [unfolded True] c]
        by (intro exI [of _ "got @ next_chunk s ex"])
          (simp add: stream_outputs_def read_batch_def advance_position_def)
    next
      case False
      then show ?thesis
        using f assms(3) by (intro exI [of _ "got"]) (auto simp: stream_outputs_def read_batch_def rest_of_def)
    qed
  qed
  then show ?thesis using n by (simp add: follows_def)
qed

lemma outputs_of_append: "outputs_of t (evs @ evs2) = fold (take_output t) evs2 (outputs_of t evs)"
  by (simp add: outputs_of_def)

lemma outputs_of_snoc [simp]: "outputs_of t (evs @ [ev]) = take_output t ev (outputs_of t evs)"
  by (simp add: outputs_of_def)

lemma take_output_simps [simp]:
  "take_output t (TaskOutputEv d) outs = (if to_task_id d = t then outs @ [d] else outs)"
  "take_output t (status_event t' st pid code err) outs = (if t' = t \<and> st = ''running'' then [] else outs)"
  by (simp_all add: take_output_def status_event_def)

definition runs_ok :: "(string \<Rightarrow> string) \<Rightarrow> task_executor \<Rightarrow> bool" where
  "runs_ok decode w \<longleftrightarrow>
     (\<forall>t ex. map_of (te_running w) t = Some ex \<longrightarrow> ex_task_id ex = t \<and> follows decode (outputs_of t (te_sent w)) ex)"

lemma task_execution_id [simp]: "ex_task_id (task_execution t p) = t" "ex_cancelled (task_execution t p) = False"
  by (simp_all add: task_execution_def)

lemma start_follows: "follows decode [] (task_execution t pid)"
proof -
  have "in_batches decode [] []" unfolding in_batches_def by (intro exI [of _ "[]"]) simp
  then show ?thesis
    by (auto simp: follows_def numbered_def task_execution_def rest_of_def file_of_def position_of_def stream_start_def
        stream_outputs_def split: output_stream.splits)
qed

lemma write_output_simps [simp]:
  "ex_task_id (write_output s b ex) = ex_task_id ex" "ex_seq (write_output s b ex) = ex_seq ex"
  "ex_cancelled (write_output s b ex) = ex_cancelled ex"
  "position_of s' (write_output s b ex) = position_of s' ex"
  "file_of s (write_output s b ex) = map_option (\<lambda>f. f @ b) (file_of s ex)"
  "s' \<noteq> s \<Longrightarrow> file_of s' (write_output s b ex) = file_of s' ex"
  by (cases s; cases s'; simp add: write_output_def position_of_def file_of_def)+

lemma write_follows:
  assumes "follows decode outs ex"
  shows "follows decode outs (write_output s b ex)"
proof -
  have "\<exists>got. file_of s' (write_output s b ex) = Some (got @ rest_of s' (write_output s b ex)) \<and>
      length got = sp_offset (position_of s' (write_output s b ex)) \<and> in_batches decode (stream_outputs s' outs) got" for s'
  proof -
    obtain got rest where "file_of s' ex = Some (got @ rest)" "length got = sp_offset (position_of s' ex)"
      "in_batches decode (stream_outputs s' outs) got" using assms unfolding follows_def by blast
    then show ?thesis by (intro exI [of _ got], cases "s' = s") (simp_all add: rest_of_def)
  qed
  then show ?thesis using assms by (simp add: follows_def)
qed

lemma flag_follows: "follows decode outs (ex\<lparr>ex_cancelled := b\<rparr>) \<longleftrightarrow> follows decode outs ex"
  by (simp add: follows_def rest_of_def position_of_def file_of_def split: output_stream.splits)

lemma fold_output_other: "t' \<noteq> t \<Longrightarrow> fold (take_output t) (output_events decode t' s n cs) outs = outs"
  by (induction cs arbitrary: n outs) (simp_all add: output_event_def)

text \<open>The whole of a flush keeps step.\<close>

lemma flush_rest_follows:
  assumes "flush_rest decode s ex sent = Some (ex', evs)" "follows decode (fold (take_output (ex_task_id ex)) sent outs) ex"
  shows "follows decode (fold (take_output (ex_task_id ex)) evs outs) ex' \<and> ex_task_id ex' = ex_task_id ex \<and>
    (\<forall>s'. file_of s' ex' = file_of s' ex)"
  using assms
proof (induction "length (rest_of s ex)" arbitrary: ex sent rule: less_induct)
  case less
  show ?case
  proof (cases "rest_of s ex = []")
    case True
    then show ?thesis using less.prems by (subst (asm) flush_rest.simps) (simp add: flush_output_stream_eq)
  next
    case False
    obtain d where d: "output_event (ex_task_id ex) s (decode (next_chunk s ex)) (ex_seq ex + 1) = TaskOutputEv d"
      "to_task_id d = ex_task_id ex" "to_stream d = stream_name s" "to_data d = decode (next_chunk s ex)"
      "to_seq d = int (ex_seq ex + 1)" using output_event_simps by metis
    have l: "length (rest_of s (read_batch s ex)) < length (rest_of s ex)"
      using False by (auto simp: OUTPUT_MAX_BATCH_BYTES_def)
    have e: "flush_rest decode s (read_batch s ex) (sent @ [TaskOutputEv d]) = Some (ex', evs)"
      using less.prems(1) False d(1) by (subst (asm) flush_rest.simps) (simp add: flush_output_stream_eq)
    have "follows decode (fold (take_output (ex_task_id ex)) sent outs @ [d]) (read_batch s ex)"
      by (rule read_batch_follows [OF less.prems(2) False d(3-5)])
    then show ?thesis using less.hyps [OF l e] d(2) by simp
  qed
qed

lemma end_execution_output:
  assumes "end_execution decode r ex w = Some w'" "\<And>e. r \<noteq> Wait_Failed e"
    "follows decode (outputs_of (ex_task_id ex) (te_sent w)) ex"
  shows "\<exists>n. numbered (outputs_of (ex_task_id ex) (te_sent w')) n \<and>
    (\<forall>s bytes. file_of s ex = Some bytes \<longrightarrow>
       in_batches decode (stream_outputs s (outputs_of (ex_task_id ex) (te_sent w'))) bytes)"
proof -
  obtain ex2 evs where f: "flush_all_outputs decode ex = Some (ex2, evs)"
    and w': "te_sent w' = te_sent w @ evs @ (case final_status r ex2 of None \<Rightarrow> [] | Some ev \<Rightarrow> [ev])"
    using assms(1,2) by (cases r) (auto simp: end_execution_def remove_script_def)
  obtain ex1 sent where 1: "flush_rest decode Stdout ex [] = Some (ex1, sent)"
    and 2: "flush_rest decode Stderr ex1 sent = Some (ex2, evs)"
    using f by (auto simp: flush_all_outputs_def bind_eq_Some_conv)
  have f1: "follows decode (fold (take_output (ex_task_id ex)) sent (outputs_of (ex_task_id ex) (te_sent w))) ex1"
    and k1: "ex_task_id ex1 = ex_task_id ex" "\<And>s'. file_of s' ex1 = file_of s' ex"
    using flush_rest_follows [OF 1] assms(3) by simp_all
  have f2: "follows decode (fold (take_output (ex_task_id ex)) evs (outputs_of (ex_task_id ex) (te_sent w))) ex2"
    and k2: "\<And>s'. file_of s' ex2 = file_of s' ex"
    using flush_rest_follows [OF 2] f1 k1 by auto
  have "rest_of s ex2 = []" for s
    using flush_rest_sends [of decode Stdout ex "[]"] flush_rest_sends [of decode Stderr ex1 sent] 1 2
    by (cases s) auto
  moreover have "outputs_of (ex_task_id ex) (te_sent w') = fold (take_output (ex_task_id ex)) evs (outputs_of (ex_task_id ex) (te_sent w))"
    by (cases r) (auto simp: w' outputs_of_append final_status_def split: option.splits)
  ultimately show ?thesis using f2 k2 unfolding follows_def by (metis append_Nil2 option.inject)
qed

lemma send_from_task_simps [simp]:
  "te_running (send_from_task ev w) = te_running w" "te_sent (send_from_task ev w) = te_sent w @ [ev]"
  "te_scripts (send_from_task ev w) = te_scripts w"
  by (simp_all add: send_from_task_def)

lemma put_execution_simps [simp]:
  "map_of (te_running (put_execution ex w)) = (map_of (te_running w))(ex_task_id ex \<mapsto> ex)"
  "te_sent (put_execution ex w) = te_sent w"
  by (simp_all add: put_execution_def)

lemma remove_script_simps [simp]:
  "te_running (remove_script t w) = te_running w" "te_sent (remove_script t w) = te_sent w"
  by (simp_all add: remove_script_def)

lemma outputs_of_other:
  assumes "end_execution decode r ex w = Some w'" "t \<noteq> ex_task_id ex"
  shows "outputs_of t (te_sent w') = outputs_of t (te_sent w)"
proof -
  obtain ex2 evs where w': "te_sent w' = te_sent w @ evs @ (case final_status r ex2 of None \<Rightarrow> [] | Some ev \<Rightarrow> [ev])"
    and f: "evs = [] \<and> ex2 = ex \<or> flush_all_outputs decode ex = Some (ex2, evs)"
  proof (cases r)
    case (Wait_Failed e)
    then show ?thesis using assms(1) that [of "[]" ex] by (auto simp: end_execution_def)
  qed (use assms(1) that in \<open>auto simp: end_execution_def\<close>)
  have "fold (take_output t) evs outs = outs \<and> ex_task_id ex2 = ex_task_id ex" for outs
  proof (cases "evs = [] \<and> ex2 = ex")
    case False
    obtain ex1 where "flush_rest decode Stdout ex [] =
        Some (ex1, output_events decode (ex_task_id ex) Stdout (ex_seq ex) (batches (rest_of Stdout ex)))"
      "ex_task_id ex1 = ex_task_id ex"
      using flush_rest_sends [of decode Stdout ex "[]"] by auto
    then have "evs = output_events decode (ex_task_id ex) Stdout (ex_seq ex) (batches (rest_of Stdout ex)) @
        output_events decode (ex_task_id ex) Stderr (ex_seq ex1) (batches (rest_of Stderr ex1)) \<and> ex_task_id ex2 = ex_task_id ex"
      using False f flush_rest_sends [of decode Stderr ex1
          "output_events decode (ex_task_id ex) Stdout (ex_seq ex) (batches (rest_of Stdout ex))"]
      by (auto simp: flush_all_outputs_def)
    then show ?thesis using assms(2) by (simp add: fold_output_other)
  qed simp
  then show ?thesis
    using assms(2) by (cases r) (simp_all add: w' outputs_of_append final_status_def split: option.splits)
qed

lemma end_execution_running:
  "end_execution decode r ex w = Some w' \<Longrightarrow> te_running w' = AList.delete (ex_task_id ex) (te_running w)"
  by (auto simp: end_execution_def)

lemma runs_ok_step: "executor_step decode w w' \<Longrightarrow> runs_ok decode w \<Longrightarrow> runs_ok decode w'"
proof (induction rule: executor_step.induct)
  case (es_execute w d has_session started)
  then show ?case
    by (auto simp: runs_ok_def execute_task_def Let_def start_follows split: sum.splits)
next
  case (es_write w t ex s b)
  then show ?case by (auto simp: runs_ok_def write_follows)
next
  case (es_tail w t ex s exited)
  obtain d where d: "output_event (ex_task_id ex) s (decode (next_chunk s ex)) (ex_seq ex + 1) = TaskOutputEv d"
    "to_task_id d = ex_task_id ex" "to_stream d = stream_name s" "to_data d = decode (next_chunk s ex)"
    "to_seq d = int (ex_seq ex + 1)" using output_event_simps by metis
  then show ?case
    using es_tail read_batch_follows [of decode _ ex s d]
    by (auto simp: runs_ok_def tail_round_def flush_output_stream_eq)
next
  case (es_cancel w t)
  then show ?case by (auto simp: runs_ok_def cancel_running_task_def flag_follows split: option.splits)
next
  case (es_end w t ex r w')
  then show ?case
    using outputs_of_other [OF es_end(2)] end_execution_running [OF es_end(2)]
    by (auto simp: runs_ok_def delete_conv' split: if_splits)
qed

lemma runs_ok_reachable: "(executor_step decode)\<^sup>*\<^sup>* task_executor_init w \<Longrightarrow> runs_ok decode w"
proof (induction rule: rtranclp_induct)
  case base
  show ?case by (simp add: runs_ok_def task_executor_init_def)
qed (rule runs_ok_step)

text \<open>Property C6. Whatever tasks run beside each other, when the process of a task has ended or has been stopped by the timeout, the
  server has been sent the whole of both output files, each stream in order, in batches of at most 32 KiB,
  numbered from one without a gap; only a wait that failed with an exception leaves a rest
  unsent.\<close>

theorem output_complete:
  assumes "(executor_step decode)\<^sup>*\<^sup>* task_executor_init w" "map_of (te_running w) task_id = Some ex"
    "end_execution decode r ex w = Some w'" "\<And>e. r \<noteq> Wait_Failed e"
  shows "\<exists>n. numbered (outputs_of task_id (te_sent w')) n \<and>
    (\<forall>s bytes. file_of s ex = Some bytes \<longrightarrow> in_batches decode (stream_outputs s (outputs_of task_id (te_sent w'))) bytes)"
proof -
  have "ex_task_id ex = task_id" "follows decode (outputs_of task_id (te_sent w)) ex"
    using runs_ok_reachable [OF assms(1)] assms(2) by (auto simp: runs_ok_def)
  then show ?thesis using end_execution_output [OF assms(3,4)] by auto
qed

section \<open>The protocol of the status reports\<close>

text \<open>
  What a server may rely on: the statuses of a task move through these phases. \<open>After_Cancel\<close>: the last report
  was \<open>cancelled\<close>; then a timeout or a failure can still come, and a new start.
\<close>

datatype report_phase = Idle | Running | After_Cancel

fun next_phase :: "report_phase \<Rightarrow> string \<Rightarrow> report_phase option" where
  "next_phase ph st =
     (if st = ''running'' then (if ph = Running then None else Some Running)
      else if st = ''cancelled'' then (if ph = Idle then None else Some After_Cancel)
      else if st = ''completed'' then (if ph = Running then Some Idle else None)
      else if st = ''timeout'' then (if ph = Idle then None else Some Idle)
      else if st = ''failed'' then Some Idle
      else None)"

definition take_status :: "string \<Rightarrow> net_event \<Rightarrow> report_phase option \<Rightarrow> report_phase option" where
  "take_status task_id ev ph =
     (case ev of
        TaskStatusEv d \<Rightarrow> if tt_task_id d = task_id then Option.bind ph (\<lambda>p. next_phase p (tt_status d)) else ph
      | _ \<Rightarrow> ph)"

definition reported_phase :: "string \<Rightarrow> net_event list \<Rightarrow> report_phase option" where
  "reported_phase task_id evs = fold (take_status task_id) evs (Some Idle)"

lemma take_status_simps [simp]:
  "take_status t (TaskOutputEv d) ph = ph"
  "take_status t (status_event t' st pid code err) ph = (if t' = t then Option.bind ph (\<lambda>p. next_phase p st) else ph)"
  by (simp_all add: take_status_def status_event_def)

lemma take_status_output [simp]: "take_status t (output_event t' s data n) ph = ph"
  by (simp add: take_status_def output_event_def)

lemma reported_phase_snoc [simp]: "reported_phase t (evs @ [ev]) = take_status t ev (reported_phase t evs)"
  by (simp add: reported_phase_def)

lemma take_status_outputs [simp]: "fold (take_status t) (output_events decode t' s n cs) ph = ph"
  by (induction cs arbitrary: n) simp_all

definition phase_ok :: "string \<Rightarrow> task_executor \<Rightarrow> bool" where
  "phase_ok t w \<longleftrightarrow>
     (case map_of (te_running w) t of
        None \<Rightarrow> reported_phase t (te_sent w) \<in> {Some Idle, Some After_Cancel}
      | Some ex \<Rightarrow> ex_task_id ex = t \<and>
          reported_phase t (te_sent w) = Some (if ex_cancelled ex then After_Cancel else Running))"

lemma flush_phase:
  assumes "flush_all_outputs decode ex = Some (ex2, evs)"
  shows "(\<forall>t ph. fold (take_status t) evs ph = ph) \<and> ex_task_id ex2 = ex_task_id ex \<and> ex_cancelled ex2 = ex_cancelled ex"
proof -
  obtain ex1 where 1: "flush_rest decode Stdout ex [] =
      Some (ex1, output_events decode (ex_task_id ex) Stdout (ex_seq ex) (batches (rest_of Stdout ex)))"
    "ex_task_id ex1 = ex_task_id ex" "ex_cancelled ex1 = ex_cancelled ex"
    using flush_rest_sends [of decode Stdout ex "[]"] by auto
  then show ?thesis
    using assms flush_rest_sends [of decode Stderr ex1
        "output_events decode (ex_task_id ex) Stdout (ex_seq ex) (batches (rest_of Stdout ex))"]
    by (auto simp: flush_all_outputs_def)
qed

lemma end_execution_sent:
  assumes "end_execution decode r ex w = Some w'"
  shows "\<exists>evs ex2. te_sent w' = te_sent w @ evs @ (case final_status r ex2 of None \<Rightarrow> [] | Some ev \<Rightarrow> [ev]) \<and>
    (\<forall>t ph. fold (take_status t) evs ph = ph) \<and> ex_task_id ex2 = ex_task_id ex \<and> ex_cancelled ex2 = ex_cancelled ex"
proof (cases r)
  case (Wait_Failed e)
  then show ?thesis using assms by (auto simp: end_execution_def intro!: exI [of _ "[]"] exI [of _ ex])
next
  case r: (Exited code)
  then obtain ex2 evs where "flush_all_outputs decode ex = Some (ex2, evs)"
    using assms by (auto simp: end_execution_def)
  then show ?thesis using assms r flush_phase by (intro exI [of _ evs] exI [of _ ex2]) (auto simp: end_execution_def)
next
  case r: Timed_Out
  then obtain ex2 evs where "flush_all_outputs decode ex = Some (ex2, evs)"
    using assms by (auto simp: end_execution_def)
  then show ?thesis using assms r flush_phase by (intro exI [of _ evs] exI [of _ ex2]) (auto simp: end_execution_def)
qed

definition phases_ok :: "task_executor \<Rightarrow> bool" where
  "phases_ok w \<longleftrightarrow> (\<forall>t. phase_ok t w)"

lemma phases_ok_id: "\<forall>t. phase_ok t w \<Longrightarrow> map_of (te_running w) t' = Some ex \<Longrightarrow> ex_task_id ex = t'"
  by (drule spec [of _ t']) (simp add: phase_ok_def)

lemma phases_ok_step: "executor_step decode w w' \<Longrightarrow> phases_ok w \<Longrightarrow> phases_ok w'"
  unfolding phases_ok_def
proof (induction rule: executor_step.induct)
  case (es_execute w d has_session started)
  show ?case
  proof
    fix t have "phase_ok t w" using es_execute by blast
    then show "phase_ok t (fst (execute_task d has_session started w))"
      by (auto simp: phase_ok_def execute_task_def Let_def split: sum.splits option.splits)
  qed
next
  case (es_write w t' ex s b)
  then have k: "ex_task_id ex = t'" by (blast intro: phases_ok_id)
  show ?case
  proof
    fix t have "phase_ok t w" using es_write by blast
    then show "phase_ok t (put_execution (write_output s b ex) w)"
      using es_write(1) k by (cases "t = t'") (simp_all add: phase_ok_def split: option.splits)
  qed
next
  case (es_tail w t' ex s exited)
  then have k: "ex_task_id ex = t'" by (blast intro: phases_ok_id)
  show ?case
  proof
    fix t have "phase_ok t w" using es_tail by blast
    then show "phase_ok t (fst (tail_round decode s exited ex w))"
      using es_tail(1) k by (cases "t = t'") (simp_all add: phase_ok_def tail_round_def flush_output_stream_eq split: option.splits)
  qed
next
  case (es_cancel w t')
  show ?case
  proof
    fix t have "phase_ok t w" "phase_ok t' w" using es_cancel by blast+
    then show "phase_ok t (cancel_running_task t' w)"
      by (cases "t = t'"; cases "map_of (te_running w) t'") (simp_all add: phase_ok_def cancel_running_task_def split: option.splits)
  qed
next
  case (es_end w t' ex r w')
  obtain evs ex2 where s: "te_sent w' = te_sent w @ evs @ (case final_status r ex2 of None \<Rightarrow> [] | Some ev \<Rightarrow> [ev])"
    "\<And>t ph. fold (take_status t) evs ph = ph" "ex_task_id ex2 = ex_task_id ex" "ex_cancelled ex2 = ex_cancelled ex"
    using end_execution_sent [OF es_end(2)] by blast
  have k: "ex_task_id ex = t'" using es_end(1,3) by (blast intro: phases_ok_id)
  have p: "reported_phase t (te_sent w') = fold (take_status t) (case final_status r ex2 of None \<Rightarrow> [] | Some ev \<Rightarrow> [ev])
      (reported_phase t (te_sent w))" for t
    by (simp add: s(1,2) reported_phase_def)
  show ?case
  proof
    fix t
    have "phase_ok t w" using es_end(3) by blast
    then show "phase_ok t w'"
      using es_end(1) k end_execution_running [OF es_end(2)] s(3,4)
      by (cases "t = t'"; cases r) (simp_all add: phase_ok_def p final_status_def delete_conv' split: option.splits)
  qed
qed

text \<open>Property C7. The status reports of every task follow the protocol that a server relies on: a task is reported as running once
  per start, then cancelled any number of times, then ended once, as completed only when it was not cancelled; a
  task that runs stands reported as running, or as cancelled when it was cancelled, and a
  task that does not run never stands reported as running.\<close>

theorem status_reports_follow_protocol:
  assumes "(executor_step decode)\<^sup>*\<^sup>* task_executor_init w"
  shows "(case map_of (te_running w) task_id of
       None \<Rightarrow> reported_phase task_id (te_sent w) \<in> {Some Idle, Some After_Cancel}
     | Some ex \<Rightarrow> reported_phase task_id (te_sent w) = Some (if ex_cancelled ex then After_Cancel else Running))"
proof -
  have "phases_ok w"
    using assms
  proof (induction rule: rtranclp_induct)
    case base
    show ?case by (simp add: phases_ok_def phase_ok_def task_executor_init_def reported_phase_def)
  qed (rule phases_ok_step)
  then have "phase_ok task_id w" by (simp add: phases_ok_def)
  then show ?thesis by (simp add: phase_ok_def split: option.splits)
qed

section \<open>A sample run\<close>

definition sample_order :: execute_task_data where
  "sample_order = default_execute_task\<lparr>et_task_id := ''t'', et_script := ''exit''\<rparr>"

definition sample_start :: task_executor where
  "sample_start = fst (execute_task sample_order True (Inr 7) task_executor_init)"

definition sample_wrote :: task_executor where
  "sample_wrote = put_execution (write_output Stdout ''hi'' (task_execution ''t'' 7)) sample_start"

lemma sample_running:
  "map_of (te_running sample_start) ''t'' = Some (task_execution ''t'' 7)"
  "map_of (te_running sample_wrote) ''t'' = Some (write_output Stdout ''hi'' (task_execution ''t'' 7))"
  by (simp_all add: sample_start_def sample_wrote_def execute_task_def sample_order_def default_execute_task_def
      task_executor_init_def Let_def)

lemma sample_wrote_run: "(executor_step id)\<^sup>*\<^sup>* task_executor_init sample_wrote"
proof -
  have "executor_step id task_executor_init sample_start" unfolding sample_start_def by (rule es_execute)
  moreover have "executor_step id sample_start sample_wrote"
    unfolding sample_wrote_def by (rule es_write) (rule sample_running)
  ultimately show ?thesis by (meson converse_rtranclp_into_rtranclp rtranclp.rtrancl_refl)
qed

lemma output_complete_witness:
  "\<exists>w'. end_execution id (Exited 0) (write_output Stdout ''hi'' (task_execution ''t'' 7)) sample_wrote = Some w' \<and>
     (\<exists>chunks. concat chunks = ''hi'' \<and> stream_outputs Stdout (outputs_of ''t'' (te_sent w')) = chunks)"
proof -
  obtain w' where w': "end_execution id (Exited 0) (write_output Stdout ''hi'' (task_execution ''t'' 7)) sample_wrote = Some w'"
    using execution_ends_at by blast
  have f: "file_of Stdout (write_output Stdout ''hi'' (task_execution ''t'' 7)) = Some ''hi''"
    by (simp add: file_of_def task_execution_def write_output_def)
  show ?thesis
    using output_complete [OF sample_wrote_run sample_running(2) w'] w' f by (auto simp: in_batches_def)
qed

lemma status_reports_follow_protocol_witness:
  "reported_phase ''t'' (te_sent sample_wrote) = Some Running"
  using status_reports_follow_protocol [OF sample_wrote_run, of "''t''"] by (simp add: sample_running)

text \<open>A cancelled task whose process cannot be stopped is reported again, as timed out.\<close>

lemma timeout_after_cancel:
  "\<exists>w'. end_execution id Timed_Out ((task_execution ''t'' 7)\<lparr>ex_cancelled := True\<rparr>) (cancel_running_task ''t'' sample_start) = Some w' \<and>
     te_sent w' = [status_event ''t'' ''running'' (Some 7) None None, status_event ''t'' ''cancelled'' (Some 7) None None,
                   status_event ''t'' ''timeout'' (Some 7) None None]"
proof -
  have "rest_of s ((task_execution ''t'' 7)\<lparr>ex_cancelled := True\<rparr>) = []" for s
    by (cases s) (simp_all add: rest_of_def task_execution_def file_of_def position_of_def stream_start_def)
  then have "flush_all_outputs id ((task_execution ''t'' 7)\<lparr>ex_cancelled := True\<rparr>) = Some ((task_execution ''t'' 7)\<lparr>ex_cancelled := True\<rparr>, [])"
    by (simp add: flush_all_outputs_def flush_rest.simps flush_output_stream_eq)
  then show ?thesis
    by (simp add: end_execution_def final_status_def cancel_running_task_def sample_running)
      (simp add: task_execution_def sample_start_def execute_task_def sample_order_def default_execute_task_def task_executor_init_def Let_def)
qed

text \<open>A batch ends wherever 32 KiB end, also inside a character of several bytes, and is decoded alone.\<close>

lemma batch_splits_character:
  "batches (replicate (OUTPUT_MAX_BATCH_BYTES - 1) (CHR ''a'') @ [CHR 0xC3, CHR 0xA9]) =
     [replicate (OUTPUT_MAX_BATCH_BYTES - 1) (CHR ''a'') @ [CHR 0xC3], [CHR 0xA9]]"
  by (subst batches.simps, simp add: OUTPUT_MAX_BATCH_BYTES_def, subst batches.simps, simp add: OUTPUT_MAX_BATCH_BYTES_def,
      subst batches.simps, simp)

end
