(* ===== verification/Spec2Isabelle.thy ===== *)
theory Spec2Isabelle
  imports Server_Properties Task_Service Web_Api Agent_Registry Agent_Runtime Rdp_Monitor Deployment_Api Guacamole_Api Agent_Tasks
begin

text \<open>Verification library of the VM agent orchestration platform (skeleton).\<close>

end
